(* ===== verification/Prelude.thy ===== *)
theory Prelude
  imports Main
begin

text \<open>
  The vocabulary every component of the development shares.

  The services of the repository keep their durable state in PostgreSQL tables and change it
  with single statements: a table is modelled as the list of its rows, a statement as one of
  the operations below (\<open>tbl_find\<close> for a select by key, \<open>tbl_update\<close> for
  \<^verbatim>\<open>UPDATE ... WHERE\<close>, \<open>tbl_count\<close> for the number of rows affected). \<open>keyed\<close> states a primary
  key. The locales \<open>invariant_system\<close>, \<open>monotone_system\<close> and \<open>evolution_system\<close> are the interface between a step
  relation and the safety arguments made about it: they turn facts about single steps into
  facts about every reachable state.
\<close>

named_theorems tbl_simps \<open>rewriting of table statements\<close>
named_theorems err_simps \<open>texts and codes of error values\<close>

type_synonym ('e, 'a, 's) outcome = "('e + 'a) \<times> 's"

section \<open>JSON values\<close>

datatype json =
    JNull
  | JBool bool
  | JNum int
  | JStr string
  | JArr "json list"
  | JObj "(string \<times> json) list"

section \<open>Tables\<close>

definition keyed :: "('r \<Rightarrow> 'k) \<Rightarrow> 'r list \<Rightarrow> bool" where
  "keyed key rows \<longleftrightarrow> distinct (map key rows)"

definition tbl_find :: "('r \<Rightarrow> 'k) \<Rightarrow> 'k \<Rightarrow> 'r list \<Rightarrow> 'r option" where
  "tbl_find key k rows = find (\<lambda>r. key r = k) rows"

definition tbl_update :: "('r \<Rightarrow> bool) \<Rightarrow> ('r \<Rightarrow> 'r) \<Rightarrow> 'r list \<Rightarrow> 'r list" where
  "tbl_update p f rows = map (\<lambda>r. if p r then f r else r) rows"

definition tbl_count :: "('r \<Rightarrow> bool) \<Rightarrow> 'r list \<Rightarrow> nat" where
  "tbl_count p rows = length (filter p rows)"

lemma tbl_find_simps [simp, tbl_simps]:
  "tbl_find key k [] = None"
  "tbl_find key k (r # rs) = (if key r = k then Some r else tbl_find key k rs)"
  by (simp_all add: tbl_find_def)

lemma tbl_update_simps [simp, tbl_simps]:
  "tbl_update p f [] = []"
  "tbl_update p f (r # rs) = (if p r then f r else r) # tbl_update p f rs"
  by (simp_all add: tbl_update_def)

lemma tbl_count_simps [simp, tbl_simps]:
  "tbl_count p [] = 0"
  "tbl_count p (r # rs) = (if p r then Suc (tbl_count p rs) else tbl_count p rs)"
  by (simp_all add: tbl_count_def)

lemma keyed_simps [simp]:
  "keyed key []"
  "keyed key (r # rs) \<longleftrightarrow> key r \<notin> key ` set rs \<and> keyed key rs"
  by (auto simp: keyed_def)

lemma tbl_find_SomeD: "tbl_find key k rows = Some r \<Longrightarrow> r \<in> set rows \<and> key r = k"
  by (induction rows) (auto split: if_splits)

lemma tbl_find_None_iff: "tbl_find key k rows = None \<longleftrightarrow> k \<notin> key ` set rows"
  by (induction rows) auto

lemma tbl_find_keyed: "keyed key rows \<Longrightarrow> r \<in> set rows \<Longrightarrow> tbl_find key (key r) rows = Some r"
  by (induction rows) (auto simp: rev_image_eqI)

lemma keyed_eq: "keyed key rows \<Longrightarrow> r \<in> set rows \<Longrightarrow> r' \<in> set rows \<Longrightarrow> key r = key r' \<Longrightarrow> r = r'"
  by (metis option.inject tbl_find_keyed)

lemma tbl_find_append:
  "tbl_find key k (xs @ ys) = (case tbl_find key k xs of None \<Rightarrow> tbl_find key k ys | Some r \<Rightarrow> Some r)"
  by (induction xs) auto

lemma tbl_find_snoc:
  "tbl_find key k (rows @ [r]) =
     (case tbl_find key k rows of None \<Rightarrow> if key r = k then Some r else None | Some r' \<Rightarrow> Some r')"
  by (simp add: tbl_find_append split: option.split)

lemma set_tbl_update: "set (tbl_update p f rows) = (\<lambda>r. if p r then f r else r) ` set rows"
  by (simp add: tbl_update_def)

lemma map_key_tbl_update:
  assumes "\<And>r. p r \<Longrightarrow> key (f r) = key r"
  shows "map key (tbl_update p f rows) = map key rows"
  using assms by (simp add: tbl_update_def)

lemma keyed_tbl_update:
  assumes "\<And>r. p r \<Longrightarrow> key (f r) = key r"
  shows "keyed key (tbl_update p f rows) \<longleftrightarrow> keyed key rows"
  by (simp only: keyed_def map_key_tbl_update [of p key f, OF assms])

lemma keyed_snoc: "keyed key (rows @ [r]) \<longleftrightarrow> keyed key rows \<and> tbl_find key (key r) rows = None"
  by (auto simp: keyed_def tbl_find_None_iff)

lemma tbl_find_update:
  assumes "\<And>r. p r \<Longrightarrow> key (f r) = key r"
  shows "tbl_find key k (tbl_update p f rows) =
           map_option (\<lambda>r. if p r then f r else r) (tbl_find key k rows)"
  using assms by (induction rows) auto

lemma tbl_update_id: "(\<And>r. r \<in> set rows \<Longrightarrow> \<not> p r) \<Longrightarrow> tbl_update p f rows = rows"
  by (induction rows) auto

lemma list_all_tbl_update:
  "list_all P rows \<Longrightarrow> (\<And>r. r \<in> set rows \<Longrightarrow> P r \<Longrightarrow> p r \<Longrightarrow> P (f r)) \<Longrightarrow> list_all P (tbl_update p f rows)"
  by (induction rows) auto

lemma tbl_count_0_iff: "tbl_count p rows = 0 \<longleftrightarrow> (\<forall>r \<in> set rows. \<not> p r)"
  by (simp add: tbl_count_def filter_empty_conv)

lemma tbl_count_keyed: "keyed key rows \<Longrightarrow> tbl_count (\<lambda>r. key r = k \<and> p r) rows \<le> 1"
proof (induction rows)
  case Nil
  then show ?case by simp
next
  case (Cons r rs)
  then show ?case
  proof (cases "key r = k")
    case True
    with Cons.prems have "\<forall>r' \<in> set rs. key r' \<noteq> k"
      by (auto simp: image_iff)
    then have "tbl_count (\<lambda>r. key r = k \<and> p r) rs = 0"
      by (auto simp: tbl_count_0_iff)
    then show ?thesis by simp
  next
    case False
    with Cons show ?thesis by simp
  qed
qed

section \<open>Lookup tables\<close>

text \<open>A pair of tables that list the same bijection in the two directions.\<close>

definition flip_table :: "('a \<times> 'b) list \<Rightarrow> ('b \<times> 'a) list" where
  "flip_table m = map (\<lambda>(a, b). (b, a)) m"

lemma map_of_flip_table:
  assumes "distinct (map fst m)" and "distinct (map snd m)"
  shows "map_of (flip_table m) b = Some a \<longleftrightarrow> map_of m a = Some b"
proof -
  have "map fst (flip_table m) = map snd m" by (induction m) (auto simp: flip_table_def)
  then have "map_of (flip_table m) b = Some a \<longleftrightarrow> (b, a) \<in> set (flip_table m)"
    using assms(2) by (simp add: map_of_eq_Some_iff)
  also have "\<dots> \<longleftrightarrow> (a, b) \<in> set m" by (auto simp: flip_table_def)
  also have "\<dots> \<longleftrightarrow> map_of m a = Some b" using assms(1) by (simp add: map_of_eq_Some_iff)
  finally show ?thesis .
qed

lemma first_separator_unique:
  "xs @ c # ys = xs' @ c # ys' \<Longrightarrow> c \<notin> set xs \<Longrightarrow> c \<notin> set xs' \<Longrightarrow> xs = xs' \<and> ys = ys'"
proof (induction xs arbitrary: xs')
  case Nil
  then show ?case by (cases xs') auto
next
  case (Cons x xs)
  then show ?case by (cases xs') auto
qed

section \<open>Fallible code\<close>

text \<open>
  A Go function that returns early with an error is a chain of \<open>bindE\<close>; \<open>failif\<close> is an early return
  under a condition. \<open>run_tx\<close> is a transaction: an error rolls everything back.
\<close>

definition bindE :: "'e + 'a \<Rightarrow> ('a \<Rightarrow> 'e + 'b) \<Rightarrow> 'e + 'b" where
  "bindE m f = (case m of Inl e \<Rightarrow> Inl e | Inr x \<Rightarrow> f x)"

definition failif :: "bool \<Rightarrow> 'e \<Rightarrow> 'e + unit" where
  "failif b e = (if b then Inl e else Inr ())"

definition need :: "'a option \<Rightarrow> 'e \<Rightarrow> 'e + 'a" where
  "need v e = (case v of None \<Rightarrow> Inl e | Some x \<Rightarrow> Inr x)"

definition run_tx :: "('s \<Rightarrow> 'e + 'a \<times> 's) \<Rightarrow> 's \<Rightarrow> ('e, 'a, 's) outcome" where
  "run_tx f s = (case f s of Inl e \<Rightarrow> (Inl e, s) | Inr (x, s') \<Rightarrow> (Inr x, s'))"

lemma bindE_simps [simp]: "bindE (Inl e) f = Inl e" "bindE (Inr x) f = f x"
  by (simp_all add: bindE_def)

lemma bindE_Inr_iff [simp]: "bindE m f = Inr y \<longleftrightarrow> (\<exists>x. m = Inr x \<and> f x = Inr y)"
  by (cases m) simp_all

lemma failif_Inr_iff [simp]: "failif b e = Inr u \<longleftrightarrow> \<not> b"
  by (simp add: failif_def)

lemma failif_simps [simp]: "failif False e = Inr ()" "failif True e = Inl e"
  by (simp_all add: failif_def)

lemma need_Inr_iff [simp]: "need v e = Inr x \<longleftrightarrow> v = Some x"
  by (simp add: need_def split: option.split)

lemma need_simps [simp]: "need None e = Inl e" "need (Some x) e = Inr x"
  by (simp_all add: need_def)

lemma map_sum_Inr: "map_sum id f m = Inr y \<longleftrightarrow> (\<exists>x. m = Inr x \<and> y = f x)"
  by (cases m) auto

lemma run_tx_Inr_iff: "run_tx f s = (Inr x, s') \<longleftrightarrow> f s = Inr (x, s')"
  by (auto simp: run_tx_def split: sum.split)

lemma run_tx_Inl: "run_tx f s = (Inl e, s') \<Longrightarrow> s' = s"
  by (auto simp: run_tx_def split: sum.splits prod.splits)

lemma run_tx_cases:
  assumes "run_tx f s = (res, s')"
  obtains (failure) e where "res = Inl e" and "s' = s" | (success) x where "res = Inr x" and "f s = Inr (x, s')"
  using assms by (cases "f s") (auto simp: run_tx_def)

section \<open>Recursive queries\<close>

text \<open>
  \<^verbatim>\<open>WITH RECURSIVE ... UNION\<close>: rounds that add the successors not found yet, until a round adds
  nothing. Each round adds an element of the finite universe of the table, so as many rounds as the
  table has rows are enough (\<open>closure_closed\<close>).
\<close>

fun closure_upto :: "('a list \<Rightarrow> 'a list) \<Rightarrow> nat \<Rightarrow> 'a list \<Rightarrow> 'a list" where
  "closure_upto succs 0 ids = ids"
| "closure_upto succs (Suc n) ids =
     (let found = filter (\<lambda>i. i \<notin> set ids) (remdups (succs ids))
      in if found = [] then ids else closure_upto succs n (ids @ found))"

lemma closure_extends: "set ids \<subseteq> set (closure_upto succs n ids)"
  by (induction succs n ids rule: closure_upto.induct) (auto simp: Let_def)

lemma closure_distinct: "distinct ids \<Longrightarrow> distinct (closure_upto succs n ids)"
  by (induction succs n ids rule: closure_upto.induct) (auto simp: Let_def)

lemma closure_within:
  assumes "\<And>is. set (succs is) \<subseteq> U" and "set ids \<subseteq> U"
  shows "set (closure_upto succs n ids) \<subseteq> U"
  using assms
proof (induction succs n ids rule: closure_upto.induct)
  case (1 succs ids)
  then show ?case by simp
next
  case (2 succs n ids)
  have new: "set (ids @ filter (\<lambda>i. i \<notin> set ids) (remdups (succs ids))) \<subseteq> U"
    using 2(2) [of ids] 2(3) by auto
  show ?case
  proof (cases "filter (\<lambda>i. i \<notin> set ids) (remdups (succs ids)) = []")
    case True
    with 2(3) show ?thesis by (simp add: Let_def)
  next
    case False
    with 2(1) [OF refl False 2(2) new] show ?thesis by (simp add: Let_def)
  qed
qed

lemma closure_closed:
  assumes "finite U" and "\<And>is. set (succs is) \<subseteq> U" and "card (U - set ids) \<le> n"
  shows "set (succs (closure_upto succs n ids)) \<subseteq> set (closure_upto succs n ids)"
  using assms
proof (induction succs n ids rule: closure_upto.induct)
  case (1 succs ids)
  then have "U \<subseteq> set ids" by auto
  with 1(2) [of ids] show ?case by auto
next
  case (2 succs n ids)
  let ?new = "filter (\<lambda>i. i \<notin> set ids) (remdups (succs ids))"
  show ?case
  proof (cases "?new = []")
    case True
    then show ?thesis by (auto simp: Let_def filter_empty_conv)
  next
    case False
    then obtain x where "x \<in> set ?new" by (cases ?new) auto
    then have "x \<in> U" "x \<notin> set ids" using 2(3) [of ids] by auto
    then have "U - set (ids @ ?new) \<subset> U - set ids" using \<open>x \<in> set ?new\<close> by auto
    then have "card (U - set (ids @ ?new)) < card (U - set ids)"
      using 2(2) by (intro psubset_card_mono) auto
    then have "card (U - set (ids @ ?new)) \<le> n" using 2(4) by simp
    with 2(1) [OF refl False 2(2,3)] False show ?thesis by (simp add: Let_def)
  qed
qed

text \<open>Everything found is reachable from the start: a property that successors inherit holds of it.\<close>

lemma closure_induct:
  assumes "\<And>i. i \<in> set ids \<Longrightarrow> P i" and "\<And>is i. (\<And>j. j \<in> set is \<Longrightarrow> P j) \<Longrightarrow> i \<in> set (succs is) \<Longrightarrow> P i"
    and "x \<in> set (closure_upto succs n ids)"
  shows "P x"
  using assms
proof (induction succs n ids rule: closure_upto.induct)
  case (1 succs ids)
  then show ?case by simp
next
  case (2 succs n ids)
  let ?new = "filter (\<lambda>i. i \<notin> set ids) (remdups (succs ids))"
  show ?case
  proof (cases "?new = []")
    case True
    with 2(2,4) show ?thesis by (simp add: Let_def)
  next
    case False
    have "P i" if "i \<in> set (ids @ ?new)" for i
      using that 2(2) 2(3) [of ids i] by auto
    moreover have "x \<in> set (closure_upto succs n (ids @ ?new))" using 2(4) False by (simp add: Let_def)
    ultimately show ?thesis using 2(1) [OF refl False] 2(3) by blast
  qed
qed

text \<open>
  \<^verbatim>\<open>WITH RECURSIVE ... UNION ALL\<close>: every round joins the rows of the round before, duplicates included, and the
  query ends with a round that finds nothing. \<open>union_all\<close> stops after a bound; the bound is enough when the next
  round is empty (\<open>rounds_end\<close>), which a cycle in the data never is.
\<close>

fun query_rounds :: "('a \<Rightarrow> 'a list) \<Rightarrow> nat \<Rightarrow> 'a list \<Rightarrow> 'a list" where
  "query_rounds join 0 work = work"
| "query_rounds join (Suc n) work = query_rounds join n (concat (map join work))"

fun union_all :: "('a \<Rightarrow> 'a list) \<Rightarrow> nat \<Rightarrow> 'a list \<Rightarrow> 'a list" where
  "union_all join 0 work = work"
| "union_all join (Suc n) work = (if work = [] then [] else work @ union_all join n (concat (map join work)))"

definition joins :: "('a \<Rightarrow> 'a list) \<Rightarrow> ('a \<times> 'a) set" where
  "joins join = {(x, y). y \<in> set (join x)}"

lemma rounds_relpow: "x \<in> set (query_rounds join n work) \<longleftrightarrow> (\<exists>w \<in> set work. (w, x) \<in> joins join ^^ n)"
proof (induction n arbitrary: work)
  case 0
  show ?case by auto
next
  case (Suc n)
  have "(\<exists>v \<in> set (concat (map join work)). (v, x) \<in> joins join ^^ n) \<longleftrightarrow> (\<exists>w \<in> set work. (w, x) \<in> joins join O joins join ^^ n)"
    by (auto simp: joins_def relcomp_unfold)
  then show ?case using Suc by (simp only: query_rounds.simps relpow.simps relpow_commute)
qed

lemma rounds_nil [simp]: "query_rounds join n [] = []"
  by (induction n) simp_all

lemma union_all_set: "set (union_all join n work) = (\<Union>k \<le> n. set (query_rounds join k work))"
proof (induction n arbitrary: work)
  case 0
  show ?case by simp
next
  case (Suc n)
  have "(\<Union>k \<le> Suc n. set (query_rounds join k work)) = set work \<union> (\<Union>k \<le> n. set (query_rounds join k (concat (map join work))))"
    unfolding atMost_Suc_eq_insert_0 by auto
  then show ?case using Suc by (cases "work = []") simp_all
qed

lemma union_all_reach:
  assumes "finite (joins join)" and "card (joins join) \<le> n"
  shows "x \<in> set (union_all join n work) \<longleftrightarrow> (\<exists>w \<in> set work. (w, x) \<in> (joins join)\<^sup>*)"
proof -
  have "x \<in> set (union_all join n work) \<longleftrightarrow> (\<exists>w \<in> set work. \<exists>k \<le> n. (w, x) \<in> joins join ^^ k)"
    unfolding union_all_set by (auto simp: rounds_relpow)
  moreover have "(\<exists>k \<le> n. (w, x) \<in> joins join ^^ k) \<longleftrightarrow> (w, x) \<in> (joins join)\<^sup>*" for w
  proof
    assume "(w, x) \<in> (joins join)\<^sup>*"
    then obtain k where "k \<le> card (joins join)" "(w, x) \<in> joins join ^^ k" unfolding rtrancl_finite_eq_relpow [OF assms(1)] by blast
    then show "\<exists>k \<le> n. (w, x) \<in> joins join ^^ k" using assms(2) by (meson order_trans)
  qed (auto intro: relpow_imp_rtrancl)
  ultimately show ?thesis by blast
qed

text \<open>A path of an acyclic relation visits no element twice.\<close>

lemma acyclic_relpow_bound:
  assumes "acyclic R" and "finite (Domain R)" and "(a, b) \<in> R ^^ n"
  shows "n \<le> card (Domain R)"
proof -
  obtain f where f: "\<forall>i < n. (f i, f (Suc i)) \<in> R" using assms(3) unfolding relpow_fun_conv by blast
  have path: "(f i, f j) \<in> R\<^sup>+" if "i < j" "j \<le> n" for i j
    using that
  proof (induction j)
    case (Suc j)
    then show ?case using f by (cases "i = j") (auto intro: trancl_into_trancl)
  qed simp
  have "inj_on f {0..<n}"
  proof (rule linorder_inj_onI)
    fix i j assume "i < j" "j \<in> {0..<n}"
    then show "f i \<noteq> f j" using path [of i j] assms(1) by (auto simp: acyclic_def)
  qed auto
  then have "n = card (f ` {0..<n})" by (simp add: card_image)
  also have "\<dots> \<le> card (Domain R)" using f assms(2) by (intro card_mono) auto
  finally show ?thesis .
qed

lemma rounds_end:
  assumes "acyclic (joins join)" and "finite (Domain (joins join))" and "card (Domain (joins join)) \<le> n"
  shows "query_rounds join (Suc n) work = []"
proof -
  have "x \<notin> set (query_rounds join (Suc n) work)" for x
    unfolding rounds_relpow using acyclic_relpow_bound [OF assms(1,2)] assms(3) by fastforce
  then show ?thesis by (metis list.set_intros(1) neq_Nil_conv)
qed

text \<open>When every element is joined from one place and no start is reached from another, no row is found twice.\<close>

lemma union_all_distinct:
  assumes "acyclic (joins join)" and "\<And>x. distinct (join x)" and pred: "\<And>x x' y. y \<in> set (join x) \<Longrightarrow> y \<in> set (join x') \<Longrightarrow> x = x'"
    and "distinct work" and "\<And>w v. w \<in> set work \<Longrightarrow> v \<in> set work \<Longrightarrow> (w, v) \<notin> (joins join)\<^sup>+"
  shows "distinct (union_all join n work)"
  using assms(4,5)
proof (induction n arbitrary: work)
  case 0
  then show ?case by simp
next
  case (Suc n)
  let ?found = "concat (map join work)"
  have "distinct ?found"
    using Suc.prems(1) assms(2) pred
  proof (induction work)
    case (Cons a work)
    then show ?case by (auto dest: Cons.prems(3))
  qed simp
  moreover have "(w, v) \<notin> (joins join)\<^sup>+" if wv: "w \<in> set ?found" "v \<in> set ?found" for w v
  proof
    assume "(w, v) \<in> (joins join)\<^sup>+"
    then obtain u where u: "(w, u) \<in> (joins join)\<^sup>*" "v \<in> set (join u)" by (auto simp: joins_def dest: tranclD2)
    obtain w0 v0 where 0: "w0 \<in> set work" "w \<in> set (join w0)" "v0 \<in> set work" "v \<in> set (join v0)" using wv by auto
    have "u = v0" using pred u(2) 0(4) by blast
    then have "(w0, v0) \<in> (joins join)\<^sup>+" using u(1) 0(2) by (auto simp: joins_def intro: rtrancl_into_trancl2)
    then show False using Suc.prems(2) 0(1,3) by blast
  qed
  ultimately have rest: "distinct (union_all join n ?found)" using Suc.IH by blast
  have "x \<notin> set work" if x: "x \<in> set (union_all join n ?found)" for x
  proof -
    obtain k v where v: "v \<in> set ?found" "(v, x) \<in> joins join ^^ k" using x unfolding union_all_set by (auto simp: rounds_relpow)
    obtain w where w: "w \<in> set work" "v \<in> set (join w)" using v(1) by auto
    have "(w, x) \<in> (joins join)\<^sup>+" using w(2) relpow_imp_rtrancl [OF v(2)] by (auto simp: joins_def intro: rtrancl_into_trancl2)
    then show ?thesis using Suc.prems(2) w(1) by blast
  qed
  then show ?case using Suc.prems(1) rest by auto
qed
section \<open>Step relations\<close>

text \<open>
  A component with a step relation promises an invariant of its start states that every step
  keeps; what its clients get is the invariant in every reachable state and the preservation
  of every observation that single steps preserve.
\<close>

locale invariant_system =
  fixes init :: "'s \<Rightarrow> bool"
    and step :: "'s \<Rightarrow> 's \<Rightarrow> bool"
    and inv :: "'s \<Rightarrow> bool"
  assumes inv_init: "init s \<Longrightarrow> inv s"
    and inv_step: "inv s \<Longrightarrow> step s t \<Longrightarrow> inv t"
begin

lemma inv_steps: "step\<^sup>*\<^sup>* s t \<Longrightarrow> inv s \<Longrightarrow> inv t"
  by (induction rule: rtranclp_induct) (auto intro: inv_step)

lemma inv_reach: "init s \<Longrightarrow> step\<^sup>*\<^sup>* s t \<Longrightarrow> inv t"
  by (blast intro: inv_steps inv_init)

lemma stable_steps:
  assumes keep: "\<And>u v. inv u \<Longrightarrow> step u v \<Longrightarrow> P u \<Longrightarrow> P v"
  shows "step\<^sup>*\<^sup>* s t \<Longrightarrow> inv s \<Longrightarrow> P s \<Longrightarrow> P t"
proof (induction rule: rtranclp_induct)
  case base
  then show ?case by simp
next
  case (step y z)
  then have "inv y" by (blast intro: inv_steps)
  with step show ?case by (blast intro: keep)
qed

end

text \<open>A numeric observation per key (a fence epoch, a spent budget) that no step lowers.\<close>

locale monotone_system = invariant_system +
  fixes obs :: "'s \<Rightarrow> 'k \<Rightarrow> 'm::order"
  assumes obs_step: "inv s \<Longrightarrow> step s t \<Longrightarrow> obs s k \<le> obs t k"
begin

lemma obs_steps: "step\<^sup>*\<^sup>* s t \<Longrightarrow> inv s \<Longrightarrow> obs s k \<le> obs t k"
proof (induction rule: rtranclp_induct)
  case base
  show ?case by simp
next
  case (step y z)
  then have "inv y" by (blast intro: inv_steps)
  with step show ?case by (blast intro: obs_step order_trans)
qed

end

text \<open>A system whose steps refine a preorder on states: what later states keep of earlier ones.\<close>

locale evolution_system = invariant_system +
  fixes later :: "'s \<Rightarrow> 's \<Rightarrow> bool"
  assumes later_refl: "later s s"
    and later_trans: "later s t \<Longrightarrow> later t u \<Longrightarrow> later s u"
    and later_step: "inv s \<Longrightarrow> step s t \<Longrightarrow> later s t"
begin

lemma later_steps: "step\<^sup>*\<^sup>* s t \<Longrightarrow> inv s \<Longrightarrow> later s t"
proof (induction rule: rtranclp_induct)
  case base
  show ?case by (rule later_refl)
next
  case (step y z)
  then have "inv y" by (blast intro: inv_steps)
  with step show ?case by (blast intro: later_step later_trans)
qed

end

end
