(* ===== verification/GoBase.thy ===== *)
theory GoBase
  imports Prelude
begin

text \<open>
  What the sources use of the Go language and its standard library: 64-bit signed arithmetic,
  instants, byte strings with \<^verbatim>\<open>strings.TrimSpace\<close>, \<^verbatim>\<open>strings.Contains\<close>, \<^verbatim>\<open>strings.HasPrefix\<close>
  and \<^verbatim>\<open>strings.Join\<close>, and error values with \<^verbatim>\<open>errors.Is\<close> and gRPC status codes. A Go string
  is a list of bytes, so \<open>length\<close> is Go's \<^verbatim>\<open>len\<close>.
\<close>

section \<open>Machine integers and instants\<close>

definition max_int64 :: int where
  "max_int64 = 2 ^ 63 - 1"

definition min_int64 :: int where
  "min_int64 = - (2 ^ 63)"

text \<open>The value a 64-bit signed register holds after an exact result \<open>x\<close>.\<close>

definition wrap64 :: "int \<Rightarrow> int" where
  "wrap64 x = (x + 2 ^ 63) mod 2 ^ 64 - 2 ^ 63"

definition int64 :: "int \<Rightarrow> bool" where
  "int64 x \<longleftrightarrow> min_int64 \<le> x \<and> x \<le> max_int64"

lemmas int64_defs = int64_def min_int64_def max_int64_def

lemma wrap64_id [simp]: "int64 x \<Longrightarrow> wrap64 x = x"
  by (simp add: wrap64_def int64_defs)

lemma int64_wrap64 [simp]: "int64 (wrap64 x)"
proof -
  have "0 \<le> (x + 2 ^ 63) mod 2 ^ 64" and "(x + 2 ^ 63) mod 2 ^ 64 < (2 ^ 64 :: int)"
    by simp_all
  then show ?thesis by (simp add: wrap64_def int64_defs)
qed

text \<open>Go's integer division truncates towards zero.\<close>

definition go_div :: "int \<Rightarrow> int \<Rightarrow> int" where
  "go_div a b = sgn a * sgn b * (\<bar>a\<bar> div \<bar>b\<bar>)"

lemma go_div_nonneg: "0 \<le> a \<Longrightarrow> 0 < b \<Longrightarrow> go_div a b = a div b"
  by (cases "a = 0") (simp_all add: go_div_def)

text \<open>
  An instant counts nanoseconds from Go's zero time, so \<^verbatim>\<open>IsZero\<close> is equality with 0 and
  \<^verbatim>\<open>After\<close>, \<^verbatim>\<open>Before\<close> and \<^verbatim>\<open>Equal\<close> are the order of the integers. \<^verbatim>\<open>Sub\<close> saturates at the
  bounds of a 64-bit duration.
\<close>

type_synonym instant = int
type_synonym duration = int

abbreviation millisecond :: duration where "millisecond \<equiv> 1000000"
abbreviation second :: duration where "second \<equiv> 1000000000"
abbreviation hour :: duration where "hour \<equiv> 3600000000000"

definition time_Sub :: "instant \<Rightarrow> instant \<Rightarrow> duration" where
  "time_Sub t u = max min_int64 (min max_int64 (t - u))"

lemma time_Sub_exact: "int64 (t - u) \<Longrightarrow> time_Sub t u = t - u"
  by (simp add: time_Sub_def int64_def)

section \<open>Strings\<close>

text \<open>The UTF-8 encodings of the code points for which \<^verbatim>\<open>unicode.IsSpace\<close> holds.\<close>

definition space_encodings :: "string list" where
  "space_encodings =
     [[CHR 0x09], [CHR 0x0A], [CHR 0x0B], [CHR 0x0C], [CHR 0x0D], [CHR 0x20],
      [CHR 0xC2, CHR 0x85], [CHR 0xC2, CHR 0xA0], [CHR 0xE1, CHR 0x9A, CHR 0x80],
      [CHR 0xE2, CHR 0x80, CHR 0x80], [CHR 0xE2, CHR 0x80, CHR 0x81],
      [CHR 0xE2, CHR 0x80, CHR 0x82], [CHR 0xE2, CHR 0x80, CHR 0x83],
      [CHR 0xE2, CHR 0x80, CHR 0x84], [CHR 0xE2, CHR 0x80, CHR 0x85],
      [CHR 0xE2, CHR 0x80, CHR 0x86], [CHR 0xE2, CHR 0x80, CHR 0x87],
      [CHR 0xE2, CHR 0x80, CHR 0x88], [CHR 0xE2, CHR 0x80, CHR 0x89],
      [CHR 0xE2, CHR 0x80, CHR 0x8A], [CHR 0xE2, CHR 0x80, CHR 0xA8],
      [CHR 0xE2, CHR 0x80, CHR 0xA9], [CHR 0xE2, CHR 0x80, CHR 0xAF],
      [CHR 0xE2, CHR 0x81, CHR 0x9F], [CHR 0xE3, CHR 0x80, CHR 0x80]]"

definition starts :: "string \<Rightarrow> string \<Rightarrow> bool" where
  "starts e s \<longleftrightarrow> e \<noteq> [] \<and> take (length e) s = e"

function strip :: "string list \<Rightarrow> string \<Rightarrow> string" where
  "strip encs s =
     (case find (\<lambda>e. starts e s) encs of
        None \<Rightarrow> s
      | Some e \<Rightarrow> strip encs (drop (length e) s))"
  by pat_completeness auto
termination
proof (relation "measure (\<lambda>(encs, s). length s)")
  show "wf (measure (\<lambda>(encs :: string list, s :: string). length s))" by simp
next
  fix encs :: "string list" and s e :: string
  assume "find (\<lambda>e. starts e s) encs = Some e"
  then have "starts e s" by (auto simp: find_Some_iff)
  then have "0 < length e" and "take (length e) s \<noteq> []" by (auto simp: starts_def)
  then have "length s - length e < length s" by (cases s) simp_all
  then show "((encs, drop (length e) s), encs, s) \<in> measure (\<lambda>(encs, s). length s)"
    by simp
qed

declare strip.simps [simp del]

definition TrimSpace :: "string \<Rightarrow> string" where
  "TrimSpace s = rev (strip (map rev space_encodings) (rev (strip space_encodings s)))"

fun contains :: "string \<Rightarrow> string \<Rightarrow> bool" where
  "contains [] sub \<longleftrightarrow> sub = []"
| "contains (c # cs) sub \<longleftrightarrow> take (length sub) (c # cs) = sub \<or> contains cs sub"

definition HasPrefix :: "string \<Rightarrow> string \<Rightarrow> bool" where
  "HasPrefix s p \<longleftrightarrow> take (length p) s = p"

definition HasSuffix :: "string \<Rightarrow> string \<Rightarrow> bool" where
  "HasSuffix s p \<longleftrightarrow> HasPrefix (rev s) (rev p)"

fun Join :: "string list \<Rightarrow> string \<Rightarrow> string" where
  "Join [] sep = []"
| "Join [s] sep = s"
| "Join (s # t # ts) sep = s @ sep @ Join (t # ts) sep"

text \<open>The verb \<^verbatim>\<open>%d\<close>.\<close>

fun show_nat :: "nat \<Rightarrow> string" where
  "show_nat n =
     (if n < 10 then [char_of (48 + n)] else show_nat (n div 10) @ [char_of (48 + n mod 10)])"

declare show_nat.simps [simp del]

definition show_int :: "int \<Rightarrow> string" where
  "show_int i = (if i < 0 then ''-'' @ show_nat (nat (- i)) else show_nat (nat i))"

text \<open>Trimming only drops bytes, and what is left starts with no white space.\<close>

lemma strip_none: "find (\<lambda>e. starts e s) encs = None \<Longrightarrow> strip encs s = s"
  by (subst strip.simps) simp

lemma strip_some: "find (\<lambda>e. starts e s) encs = Some e \<Longrightarrow> strip encs s = strip encs (drop (length e) s)"
  by (subst strip.simps) simp

lemma strip_stuck: "find (\<lambda>e. starts e (strip encs s)) encs = None"
proof (induction encs s rule: strip.induct)
  case (1 encs s)
  then show ?case by (cases "find (\<lambda>e. starts e s) encs") (simp_all add: strip_none strip_some)
qed

lemma strip_idem [simp]: "strip encs (strip encs s) = strip encs s"
  by (rule strip_none) (rule strip_stuck)

lemma strip_suffix: "\<exists>n. strip encs s = drop n s"
proof (induction encs s rule: strip.induct)
  case (1 encs s)
  show ?case
  proof (cases "find (\<lambda>e. starts e s) encs")
    case None
    then show ?thesis by (auto simp: strip_none intro: exI [of _ 0])
  next
    case (Some e)
    with 1 obtain n where "strip encs (drop (length e) s) = drop n (drop (length e) s)" by blast
    with Some show ?thesis by (auto simp: strip_some intro: exI [of _ "n + length e"])
  qed
qed

lemma starts_take: "starts e (take n s) \<Longrightarrow> starts e s"
proof -
  assume *: "starts e (take n s)"
  then have "length (take (length e) (take n s)) = length e" by (simp add: starts_def)
  then have "length e \<le> n" by simp
  with * show ?thesis by (simp add: starts_def min_absorb1)
qed

lemma find_starts_take:
  "find (\<lambda>e. starts e s) encs = None \<Longrightarrow> find (\<lambda>e. starts e (take n s)) encs = None"
  by (auto simp: find_None_iff dest: starts_take)

lemma TrimSpace_take: "\<exists>n. TrimSpace s = take n (strip space_encodings s)"
proof -
  let ?t = "strip space_encodings s"
  obtain n where "strip (map rev space_encodings) (rev ?t) = drop n (rev ?t)"
    using strip_suffix by blast
  then have "TrimSpace s = take (length ?t - n) ?t"
    by (simp add: TrimSpace_def rev_drop)
  then show ?thesis by blast
qed

lemma TrimSpace_idem [simp]: "TrimSpace (TrimSpace s) = TrimSpace s"
proof -
  have "find (\<lambda>e. starts e (TrimSpace s)) space_encodings = None"
    using TrimSpace_take [of s] strip_stuck [of space_encodings s] find_starts_take by metis
  then have "strip space_encodings (TrimSpace s) = TrimSpace s" by (rule strip_none)
  then show ?thesis by (simp add: TrimSpace_def)
qed

lemma TrimSpace_Nil [simp]: "TrimSpace [] = []"
  by (simp add: TrimSpace_def strip.simps space_encodings_def starts_def)

lemma contains_refl [simp]: "contains s s"
  by (cases s) simp_all

lemma contains_Nil [simp]: "contains s []"
  by (cases s) simp_all

lemma contains_appendI: "contains s sub \<Longrightarrow> contains (t @ s) sub"
  by (induction t) auto

lemma contains_prefix: "contains (sub @ t) sub"
proof (cases "sub @ t")
  case Nil
  then show ?thesis by simp
next
  case (Cons c cs)
  then have "take (length sub) (c # cs) = sub" by (metis append_eq_conv_conj)
  with Cons show ?thesis by simp
qed

lemma contains_infix [err_simps]: "contains (s @ sub @ t) sub"
  by (intro contains_appendI contains_prefix)

section \<open>Errors\<close>

text \<open>
  An error value is a sentinel made by \<^verbatim>\<open>errors.New\<close> (identified by its text: no two sentinels
  of one component share a text), a formatted message, a message wrapping a cause with
  \<^verbatim>\<open>%w\<close> after it or before it, an error of the PostgreSQL driver (its SQLSTATE code and message), or a gRPC status. \<open>err_is\<close> is \<^verbatim>\<open>errors.Is\<close> along the wrapping chain.
\<close>

datatype grpc_code =
    Unknown | InvalidArgument | NotFound | AlreadyExists | FailedPrecondition | Internal
  | Unimplemented

datatype go_err =
    Sentinel string
  | Errorf string
  | Wrap string go_err
  | Detail go_err string
  | PgError string string
  | Status grpc_code string

fun err_text :: "go_err \<Rightarrow> string" where
  "err_text (Sentinel s) = s"
| "err_text (Errorf s) = s"
| "err_text (Wrap s e) = s @ '': '' @ err_text e"
| "err_text (Detail e s) = err_text e @ '': '' @ s"
| "err_text (PgError code msg) = ''ERROR: '' @ msg @ '' (SQLSTATE '' @ code @ '')''"
| "err_text (Status c s) = s"

fun err_is :: "go_err \<Rightarrow> go_err \<Rightarrow> bool" where
  "err_is (Wrap s e) t \<longleftrightarrow> Wrap s e = t \<or> err_is e t"
| "err_is (Detail e s) t \<longleftrightarrow> Detail e s = t \<or> err_is e t"
| "err_is e t \<longleftrightarrow> e = t"

text \<open>\<^verbatim>\<open>status.Code\<close>: the code of a status error, \<^verbatim>\<open>Unknown\<close> for any other error.\<close>

fun status_code :: "go_err \<Rightarrow> grpc_code" where
  "status_code (Status c s) = c"
| "status_code (Wrap s e) = status_code e"
| "status_code (Detail e s) = status_code e"
| "status_code e = Unknown"

end
