(* ===== verification/GoTime.thy ===== *)
theory GoTime
  imports GoBase
begin

text \<open>
  The parts of the package \<^verbatim>\<open>time\<close> the services use on calendar dates: the proleptic Gregorian
  calendar as day numbers (day 0 is 1 January of year 1, the date of Go's zero time) and
  \<^verbatim>\<open>time.Parse\<close> for the layout \<^verbatim>\<open>time.RFC3339Nano\<close>.
\<close>

section \<open>The calendar\<close>

definition isLeap :: "int \<Rightarrow> bool" where
  "isLeap y \<longleftrightarrow> y mod 4 = 0 \<and> (y mod 100 \<noteq> 0 \<or> y mod 400 = 0)"

definition daysIn :: "int \<Rightarrow> int \<Rightarrow> int" where
  "daysIn y m =
     (if m = 2 then (if isLeap y then 29 else 28)
      else if m = 4 \<or> m = 6 \<or> m = 9 \<or> m = 11 then 30 else 31)"

definition days_before_year :: "int \<Rightarrow> int" where
  "days_before_year y = 365 * (y - 1) + (y - 1) div 4 - (y - 1) div 100 + (y - 1) div 400"

definition days_before_month :: "int \<Rightarrow> int \<Rightarrow> int" where
  "days_before_month y m = (\<Sum>k \<leftarrow> [1 .. m - 1]. daysIn y k)"

definition civil_day :: "int \<Rightarrow> int \<Rightarrow> int \<Rightarrow> int" where
  "civil_day y m d = days_before_year y + days_before_month y m + (d - 1)"

abbreviation day :: duration where "day \<equiv> 86400000000000"
abbreviation minute :: duration where "minute \<equiv> 60000000000"

text \<open>\<^verbatim>\<open>time.Date(y, m, d, hh, mm, ss, ns, time.UTC)\<close> for fields in range.\<close>

definition utc_Date :: "int \<Rightarrow> int \<Rightarrow> int \<Rightarrow> int \<Rightarrow> int \<Rightarrow> int \<Rightarrow> int \<Rightarrow> instant" where
  "utc_Date y m d hh mm ss ns = civil_day y m d * day + hh * hour + mm * minute + ss * second + ns"

text \<open>\<^verbatim>\<open>Weekday\<close> of a day number: 0 is Sunday, and day 0 is a Monday.\<close>

definition weekday :: "int \<Rightarrow> int" where
  "weekday n = (n + 1) mod 7"

lemma days_before_year_Suc: "days_before_year (y + 1) = days_before_year y + (if isLeap y then 366 else 365)"
proof -
  have step: "y div k = (y - 1) div k + (if y mod k = 0 then 1 else 0)" if "0 < k" for k :: int
  proof -
    let ?q = "(y - 1) div k" and ?r = "(y - 1) mod k + 1"
    have y: "y = k * ?q + ?r" by simp
    have r: "1 \<le> ?r" "?r \<le> k"
      using that pos_mod_bound [of k "y - 1"] pos_mod_sign [of k "y - 1"] by linarith+
    show ?thesis
    proof (cases "?r = k")
      case True
      then have "y = k * (?q + 1)" using y by (simp add: algebra_simps)
      then show ?thesis using that by (metis mod_mult_self1_is_0 nonzero_mult_div_cancel_left less_irrefl)
    next
      case False
      then have "y div k = ?q" "y mod k = ?r"
        using r int_div_pos_eq [of y k ?q ?r] int_mod_pos_eq [of y k ?q ?r] y by simp_all
      then show ?thesis using r by simp
    qed
  qed
  have "(4 :: int) dvd 100" and "(100 :: int) dvd 400" by simp_all
  then have "y mod 100 = 0 \<longrightarrow> y mod 4 = 0" and "y mod 400 = 0 \<longrightarrow> y mod 100 = 0"
    unfolding mod_eq_0_iff_dvd by (blast intro: dvd_trans)+
  moreover have "days_before_year (y + 1) - days_before_year y =
      365 + (if y mod 4 = 0 then 1 else 0) - (if y mod 100 = 0 then 1 else 0) + (if y mod 400 = 0 then 1 else 0)"
  proof -
    have "days_before_year (y + 1) = 365 * y + y div 4 - y div 100 + y div 400"
      unfolding days_before_year_def by (simp only: add_diff_cancel_right')
    moreover have "y div 4 - (y - 1) div 4 = (if y mod 4 = 0 then 1 else 0)"
      "y div 100 - (y - 1) div 100 = (if y mod 100 = 0 then 1 else 0)"
      "y div 400 - (y - 1) div 400 = (if y mod 400 = 0 then 1 else 0)"
      by (subst step, simp, simp only: add_diff_cancel_left')+
    ultimately show ?thesis
      unfolding days_before_year_def by (simp only: algebra_simps)
  qed
  ultimately show ?thesis unfolding isLeap_def by (auto split: if_splits)
qed

section \<open>RFC 3339\<close>

definition isDigit :: "char \<Rightarrow> bool" where
  "isDigit c \<longleftrightarrow> 48 \<le> (of_char c :: nat) \<and> (of_char c :: nat) \<le> 57"

definition digit :: "char \<Rightarrow> int" where
  "digit c = int (of_char c) - 48"

fun getnum :: "bool \<Rightarrow> string \<Rightarrow> (int \<times> string) option" where
  "getnum fixed [] = None"
| "getnum fixed [a] = (if isDigit a \<and> \<not> fixed then Some (digit a, []) else None)"
| "getnum fixed (a # b # s) =
     (if \<not> isDigit a then None
      else if \<not> isDigit b then (if fixed then None else Some (digit a, b # s))
      else Some (10 * digit a + digit b, s))"

fun literal :: "char \<Rightarrow> string \<Rightarrow> string option" where
  "literal c [] = None"
| "literal c (a # s) = (if a = c then Some s else None)"

definition parse_year :: "string \<Rightarrow> (int \<times> string) option" where
  "parse_year s =
     (if 4 \<le> length s \<and> list_all isDigit (take 4 s)
      then Some (foldl (\<lambda>n c. 10 * n + digit c) 0 (take 4 s), drop 4 s) else None)"

text \<open>The fraction: at most nine digits count, and further digits are read and dropped.\<close>

definition parse_fraction :: "string \<Rightarrow> int \<times> string" where
  "parse_fraction s =
     (case s of
        [] \<Rightarrow> (0, s)
      | c # rest \<Rightarrow>
          if (c = CHR ''.'' \<or> c = CHR '','') \<and> rest \<noteq> [] \<and> isDigit (hd rest)
          then let ds = takeWhile isDigit rest; ds9 = take 9 ds
               in (foldl (\<lambda>n c. 10 * n + digit c) 0 ds9 * 10 ^ (9 - length ds9), dropWhile isDigit rest)
          else (0, s))"

text \<open>The offset in seconds east of UTC.\<close>

definition parse_zone :: "string \<Rightarrow> (int \<times> string) option" where
  "parse_zone s =
     (if s \<noteq> [] \<and> hd s = CHR ''Z'' then Some (0, tl s)
      else if length s < 6 \<or> s ! 3 \<noteq> CHR '':'' then None
      else case (getnum True (take 2 (drop 1 s)), getnum True (take 2 (drop 4 s))) of
          (Some (hr, _), Some (mm, _)) \<Rightarrow>
            if 24 < hr \<or> 60 < mm then None
            else if hd s = CHR ''+'' then Some ((hr * 60 + mm) * 60, drop 6 s)
            else if hd s = CHR ''-'' then Some (- ((hr * 60 + mm) * 60), drop 6 s)
            else None
        | _ \<Rightarrow> None)"

definition parse_field :: "bool \<Rightarrow> int \<Rightarrow> int \<Rightarrow> string \<Rightarrow> (int \<times> string) option" where
  "parse_field fixed lo hi s =
     (case getnum fixed s of
        Some (n, rest) \<Rightarrow> if lo \<le> n \<and> n \<le> hi then Some (n, rest) else None
      | None \<Rightarrow> None)"

definition parse_RFC3339Nano :: "string \<Rightarrow> instant option" where
  "parse_RFC3339Nano value =
     Option.bind (parse_year value) (\<lambda>(y, s).
     Option.bind (literal (CHR ''-'') s) (\<lambda>s.
     Option.bind (parse_field True 1 12 s) (\<lambda>(m, s).
     Option.bind (literal (CHR ''-'') s) (\<lambda>s.
     Option.bind (getnum True s) (\<lambda>(d, s).
     Option.bind (literal (CHR ''T'') s) (\<lambda>s.
     Option.bind (parse_field False 0 23 s) (\<lambda>(hh, s).
     Option.bind (literal (CHR '':'') s) (\<lambda>s.
     Option.bind (parse_field True 0 59 s) (\<lambda>(mm, s).
     Option.bind (literal (CHR '':'') s) (\<lambda>s.
     Option.bind (parse_field True 0 59 s) (\<lambda>(ss, s).
     (case parse_fraction s of (ns, s) \<Rightarrow>
     Option.bind (parse_zone s) (\<lambda>(zone, s).
       if s \<noteq> [] \<or> d < 1 \<or> daysIn y m < d then None
       else Some (utc_Date y m d hh mm ss ns - zone * second))))))))))))))"

section \<open>Dates of day numbers\<close>

definition year_of :: "int \<Rightarrow> int" where
  "year_of n =
     (let y = 400 * n div 146097 + 1
      in if n < days_before_year y then y - 1 else if days_before_year (y + 1) \<le> n then y + 1 else y)"

function month_of :: "int \<Rightarrow> int \<Rightarrow> int \<Rightarrow> int \<times> int" where
  "month_of y m r = (if 12 \<le> m \<or> r < daysIn y m then (m, r + 1) else month_of y (m + 1) (r - daysIn y m))"
  by pat_completeness auto
termination by (relation "measure (\<lambda>(y, m, r). nat (12 - m))") auto

declare month_of.simps [simp del]

definition civil_of :: "int \<Rightarrow> int \<times> int \<times> int" where
  "civil_of n = (let y = year_of n in (y, month_of y 1 (n - days_before_year y)))"

definition appendInt :: "int \<Rightarrow> nat \<Rightarrow> string" where
  "appendInt x width =
     (let s = show_nat (nat \<bar>x\<bar>) in (if x < 0 then ''-'' else []) @ replicate (width - length s) (CHR ''0'') @ s)"

text \<open>The layouts \<^verbatim>\<open>2006-01-02\<close> and \<^verbatim>\<open>time.RFC3339\<close> of a wall clock reading; the latter for times in UTC.\<close>

definition format_date :: "instant \<Rightarrow> string" where
  "format_date w = (case civil_of (w div day) of (y, m, d) \<Rightarrow> appendInt y 4 @ ''-'' @ appendInt m 2 @ ''-'' @ appendInt d 2)"

definition format_RFC3339_UTC :: "instant \<Rightarrow> string" where
  "format_RFC3339_UTC t =
     format_date t @ ''T'' @ appendInt (t mod day div hour) 2 @ '':'' @ appendInt (t mod hour div minute) 2 @ '':'' @
     appendInt (t mod minute div second) 2 @ ''Z''"

lemma leap_rule_bounds:
  fixes x a b c :: int
  assumes "4 * a \<le> x" and "x < 4 * a + 4" and "100 * b \<le> x" and "x < 100 * b + 100" and "400 * c \<le> x" and "x < 400 * c + 400"
  shows "146097 * x - 800 < 400 * (365 * x + a - b + c) \<and> 400 * (365 * x + a - b + c) < 146097 * x + 400"
  using assms by auto

lemma days_before_year_bounds:
  "146097 * (y - 1) - 800 < 400 * days_before_year y \<and> 400 * days_before_year y < 146097 * (y - 1) + 400"
proof -
  have floor: "k * (x div k) \<le> x" "x < k * (x div k) + k" if "0 < k" for x k :: int
    using mult_div_mod_eq [of k x] pos_mod_sign [OF that, of x] pos_mod_bound [OF that, of x] by linarith+
  define x where "x = y - 1"
  have "4 * (x div 4) \<le> x" "x < 4 * (x div 4) + 4" "100 * (x div 100) \<le> x" "x < 100 * (x div 100) + 100"
    "400 * (x div 400) \<le> x" "x < 400 * (x div 400) + 400"
    by (simp_all add: floor)
  then show ?thesis unfolding days_before_year_def x_def [symmetric] by (rule leap_rule_bounds)
qed

lemma year_of_bounds: "days_before_year (year_of n) \<le> n \<and> n < days_before_year (year_of n + 1)"
proof -
  define y where "y = 400 * n div 146097 + 1"
  have "146097 * (y - 1) \<le> 400 * n" "400 * n < 146097 * (y - 1) + 146097"
    using mult_div_mod_eq [of 146097 "400 * n"] pos_mod_sign [of 146097 "400 * n"] pos_mod_bound [of 146097 "400 * n"]
    by (simp_all add: y_def)
  then have "days_before_year (y - 1) \<le> n" "n < days_before_year (y + 2)"
    using days_before_year_bounds [of "y - 1"] days_before_year_bounds [of "y + 2"] by auto
  then show ?thesis unfolding year_of_def y_def [symmetric] Let_def by (simp add: add.commute)
qed

lemma days_before_month_Suc: "1 \<le> m \<Longrightarrow> days_before_month y (m + 1) = days_before_month y m + daysIn y m"
  unfolding days_before_month_def by (simp add: upto_rec2)

lemma days_before_month_12: "days_before_month y 12 + daysIn y 12 = (if isLeap y then 366 else 365)"
  by (simp add: days_before_month_def daysIn_def upto.simps)

lemma month_of_correct:
  assumes "1 \<le> m" and "m \<le> 12" and "0 \<le> r" and "days_before_month y m + r < (if isLeap y then 366 else 365)"
    and "month_of y m r = (m', d)"
  shows "days_before_month y m' + (d - 1) = days_before_month y m + r \<and> 1 \<le> m' \<and> m' \<le> 12 \<and> 1 \<le> d \<and> d \<le> daysIn y m'"
  using assms
proof (induction y m r rule: month_of.induct)
  case (1 y m r)
  show ?case
  proof (cases "12 \<le> m \<or> r < daysIn y m")
    case True
    then have "m' = m" "d = r + 1" using 1(6) by (simp_all add: month_of.simps [of y m r])
    moreover have "r < daysIn y m" using True 1(3,5) days_before_month_12 [of y] by auto
    ultimately show ?thesis using 1 by simp
  next
    case False
    then have "month_of y (m + 1) (r - daysIn y m) = (m', d)"
      using 1(6) by (simp add: month_of.simps [of y m r])
    with False 1 show ?thesis using 1(1) days_before_month_Suc [of m y] by simp
  qed
qed

lemma civil_of_correct:
  assumes "civil_of n = (y, m, d)"
  shows "civil_day y m d = n \<and> 1 \<le> m \<and> m \<le> 12 \<and> 1 \<le> d \<and> d \<le> daysIn y m"
proof -
  have y: "y = year_of n" and md: "month_of y 1 (n - days_before_year y) = (m, d)"
    using assms by (auto simp: civil_of_def Let_def)
  have "days_before_month y 1 = 0" by (simp add: days_before_month_def)
  moreover have "0 \<le> n - days_before_year y" "n - days_before_year y < (if isLeap y then 366 else 365)"
    using year_of_bounds [of n] days_before_year_Suc [of y] by (simp_all add: y)
  ultimately show ?thesis
    using month_of_correct [OF _ _ _ _ md] by (simp add: civil_day_def)
qed

end
