(* ===== verification/GoJson.thy ===== *)
theory GoJson
  imports GoTime
begin

text \<open>
  The scanner of \<^verbatim>\<open>encoding/json\<close> as far as the services use it on raw text: \<^verbatim>\<open>json.Valid\<close> and
  \<^verbatim>\<open>json.Compact\<close>. Each recognizer consumes a prefix of its input and returns the compact form
  of what it read with the remaining bytes. The recursion on nested values is bounded by Go's own
  nesting limit of 10000 and by the length of the input, both decreasing arguments.
\<close>

definition json_space :: "char \<Rightarrow> bool" where
  "json_space c \<longleftrightarrow> c = CHR '' '' \<or> c = CHR 0x09 \<or> c = CHR 0x0A \<or> c = CHR 0x0D"

definition skip_space :: "string \<Rightarrow> string" where
  "skip_space s = dropWhile json_space s"

definition isHex :: "char \<Rightarrow> bool" where
  "isHex c \<longleftrightarrow> isDigit c \<or>
     (let n = of_char c :: nat in 97 \<le> n \<and> n \<le> 102 \<or> 65 \<le> n \<and> n \<le> 70)"

text \<open>The inside of a string literal up to and including its closing quote.\<close>

fun scan_string :: "string \<Rightarrow> (string \<times> string) option" where
  "scan_string [] = None"
| "scan_string (c # s) =
     (if c = CHR 0x22 then Some ([c], s)
      else if c = CHR 0x5C
      then (case s of
              [] \<Rightarrow> None
            | e # s' \<Rightarrow>
                if e \<in> {CHR ''b'', CHR ''f'', CHR ''n'', CHR ''r'', CHR ''t'', CHR 0x5C, CHR ''/'', CHR 0x22}
                then map_option (\<lambda>(t, r). (c # e # t, r)) (scan_string s')
                else if e = CHR ''u'' \<and> 4 \<le> length s' \<and> list_all isHex (take 4 s')
                then map_option (\<lambda>(t, r). (c # e # take 4 s' @ t, r)) (scan_string (drop 4 s'))
                else None)
      else if (of_char c :: nat) < 32 then None
      else map_option (\<lambda>(t, r). (c # t, r)) (scan_string s))"

definition scan_digits :: "string \<Rightarrow> (string \<times> string) option" where
  "scan_digits s = (if s \<noteq> [] \<and> isDigit (hd s) then Some (takeWhile isDigit s, dropWhile isDigit s) else None)"

definition scan_int :: "string \<Rightarrow> (string \<times> string) option" where
  "scan_int s =
     (case s of
        [] \<Rightarrow> None
      | c # r \<Rightarrow> if c = CHR ''0'' then Some ([c], r) else scan_digits s)"

definition scan_frac :: "string \<Rightarrow> (string \<times> string) option" where
  "scan_frac s =
     (case s of
        [] \<Rightarrow> Some ([], s)
      | c # r \<Rightarrow> if c = CHR ''.'' then map_option (\<lambda>(t, r'). (c # t, r')) (scan_digits r) else Some ([], s))"

definition scan_exp :: "string \<Rightarrow> (string \<times> string) option" where
  "scan_exp s =
     (case s of
        [] \<Rightarrow> Some ([], s)
      | c # r \<Rightarrow>
          if c = CHR ''e'' \<or> c = CHR ''E''
          then (case r of
                  [] \<Rightarrow> None
                | d # r' \<Rightarrow> if d = CHR ''+'' \<or> d = CHR ''-''
                             then map_option (\<lambda>(t, q). (c # d # t, q)) (scan_digits r')
                             else map_option (\<lambda>(t, q). (c # t, q)) (scan_digits r))
          else Some ([], s))"

definition scan_number :: "string \<Rightarrow> (string \<times> string) option" where
  "scan_number s =
     (let (sign, s) = (if s \<noteq> [] \<and> hd s = CHR ''-'' then (''-'', tl s) else ([], s)) in
      Option.bind (scan_int s) (\<lambda>(i, s).
      Option.bind (scan_frac s) (\<lambda>(f, s).
      Option.bind (scan_exp s) (\<lambda>(e, s). Some (sign @ i @ f @ e, s)))))"

definition scan_word :: "string \<Rightarrow> string \<Rightarrow> (string \<times> string) option" where
  "scan_word w s = (if HasPrefix s w then Some (w, drop (length w) s) else None)"

text \<open>A value, the members after the opening bracket of an array, and those of an object. The
  argument \<open>n\<close> bounds the number of nested calls, \<open>depth\<close> the nesting.\<close>

fun scan_value :: "nat \<Rightarrow> nat \<Rightarrow> string \<Rightarrow> (string \<times> string) option"
  and scan_items :: "nat \<Rightarrow> nat \<Rightarrow> string \<Rightarrow> (string \<times> string) option"
  and scan_members :: "nat \<Rightarrow> nat \<Rightarrow> string \<Rightarrow> (string \<times> string) option" where
  "scan_value 0 depth s = None"
| "scan_value (Suc n) depth s =
     (case skip_space s of
        [] \<Rightarrow> None
      | c # r \<Rightarrow>
          if c = CHR 0x22 then map_option (\<lambda>(t, q). (c # t, q)) (scan_string r)
          else if c = CHR ''['' then
            (if depth = 0 then None
             else case skip_space r of
               d # q \<Rightarrow> if d = CHR '']'' then Some (''[]'', q)
                         else map_option (\<lambda>(t, q). (c # t, q)) (scan_items n (depth - 1) r)
             | [] \<Rightarrow> None)
          else if c = CHR ''{'' then
            (if depth = 0 then None
             else case skip_space r of
               d # q \<Rightarrow> if d = CHR ''}'' then Some (''{}'', q)
                         else map_option (\<lambda>(t, q). (c # t, q)) (scan_members n (depth - 1) r)
             | [] \<Rightarrow> None)
          else if c = CHR ''t'' then scan_word ''true'' (c # r)
          else if c = CHR ''f'' then scan_word ''false'' (c # r)
          else if c = CHR ''n'' then scan_word ''null'' (c # r)
          else scan_number (c # r))"
| "scan_items 0 depth s = None"
| "scan_items (Suc n) depth s =
     (case scan_value n depth s of
        None \<Rightarrow> None
      | Some (v, q) \<Rightarrow>
          (case skip_space q of
             [] \<Rightarrow> None
           | d # q' \<Rightarrow>
               if d = CHR '']'' then Some (v @ [d], q')
               else if d = CHR '','' then map_option (\<lambda>(t, p). (v @ [d] @ t, p)) (scan_items n depth q')
               else None))"
| "scan_members 0 depth s = None"
| "scan_members (Suc n) depth s =
     (case skip_space s of
        [] \<Rightarrow> None
      | c # r \<Rightarrow>
          if c \<noteq> CHR 0x22 then None
          else case scan_string r of
            None \<Rightarrow> None
          | Some (k, q) \<Rightarrow>
              (case skip_space q of
                 [] \<Rightarrow> None
               | d # q' \<Rightarrow>
                   if d \<noteq> CHR '':'' then None
                   else case scan_value n depth q' of
                     None \<Rightarrow> None
                   | Some (v, p) \<Rightarrow>
                       (case skip_space p of
                          [] \<Rightarrow> None
                        | e # p' \<Rightarrow>
                            if e = CHR ''}'' then Some (c # k @ [d] @ v @ [e], p')
                            else if e = CHR '','' then
                              map_option (\<lambda>(t, u). (c # k @ [d] @ v @ [e] @ t, u)) (scan_members n depth p')
                            else None)))"

text \<open>Every nested call consumes at least one byte before it descends, so twice the length of the
  input bounds the number of calls.\<close>

definition json_Compact :: "string \<Rightarrow> string option" where
  "json_Compact s =
     (case scan_value (2 * length s + 2) 10000 s of
        None \<Rightarrow> None
      | Some (t, rest) \<Rightarrow> if skip_space rest = [] then Some t else None)"

definition json_Valid :: "string \<Rightarrow> bool" where
  "json_Valid s \<longleftrightarrow> json_Compact s \<noteq> None"

section \<open>The bound on nested calls is enough\<close>

lemma skip_space_length: "length (skip_space s) \<le> length s"
  by (simp add: skip_space_def length_dropWhile_le)

lemma skip_space_ConsD: "skip_space s = c # r \<Longrightarrow> length r < length s"
  using skip_space_length [of s] by simp

lemma scan_string_shorter: "scan_string s = Some (t, r) \<Longrightarrow> length r < length s"
proof (induction s arbitrary: t r rule: scan_string.induct)
  case 1
  then show ?case by simp
next
  case (2 c s)
  show ?case
  proof (cases "c = CHR 0x22 \<or> c \<noteq> CHR 0x5C")
    case True
    with 2 show ?thesis by (force split: if_splits)
  next
    case False
    with 2(4) obtain e s' where "s = e # s'" by (cases s) auto
    with 2 False show ?thesis by (force split: if_splits)
  qed
qed

lemma scan_digits_shorter: "scan_digits s = Some (t, r) \<Longrightarrow> length r < length s"
proof -
  assume "scan_digits s = Some (t, r)"
  then obtain c s' where "s = c # s'" "isDigit c" "r = dropWhile isDigit s'"
    by (cases s) (auto simp: scan_digits_def split: if_splits)
  then show ?thesis using length_dropWhile_le [of isDigit s'] by simp
qed

lemma scan_number_shorter:
  assumes "scan_number s = Some (t, r)"
  shows "length r < length s"
proof -
  have i: "scan_int s = Some (t, r) \<Longrightarrow> length r < length s" for s t r
    by (cases s) (auto simp: scan_int_def split: if_splits dest: scan_digits_shorter)
  have f: "scan_frac s = Some (t, r) \<Longrightarrow> length r \<le> length s" for s t r
    by (cases s) (auto simp: scan_frac_def split: if_splits dest: scan_digits_shorter)
  have e: "scan_exp s = Some (t, r) \<Longrightarrow> length r \<le> length s" for s t r
    by (cases s; cases "tl s") (auto simp: scan_exp_def split: if_splits dest!: scan_digits_shorter)
  define s0 where "s0 = (if s \<noteq> [] \<and> hd s = CHR ''-'' then tl s else s)"
  have "length s0 \<le> length s" by (simp add: s0_def)
  moreover obtain i' s1 f' s2 e' where "scan_int s0 = Some (i', s1)"
      "scan_frac s1 = Some (f', s2)" "scan_exp s2 = Some (e', r)"
    using assms unfolding s0_def by (auto simp: scan_number_def Let_def split: if_splits bind_splits)
  ultimately show ?thesis using i [of s0] f [of s1] e [of s2] by force
qed

lemma scan_word_shorter: "scan_word w s = Some (t, r) \<Longrightarrow> w \<noteq> [] \<Longrightarrow> length r < length s"
  by (auto simp: scan_word_def HasPrefix_def split: if_splits)
    (metis diff_less length_drop length_greater_0_conv take_Nil)

lemma scan_shorter:
  "scan_value n depth s = Some (t, r) \<Longrightarrow> length r < length s"
  "scan_items n depth s = Some (t, r) \<Longrightarrow> length r < length s"
  "scan_members n depth s = Some (t, r) \<Longrightarrow> length r < length s"
proof (induction n depth s and n depth s and n depth s arbitrary: t r and t r and t r
    rule: scan_value_scan_items_scan_members.induct)
  case (2 n depth s)
  obtain c q where sk: "skip_space s = c # q" using 2(3) by (auto split: list.splits)
  have q: "length q < length s" using skip_space_ConsD [OF sk] .
  have less: "length (c # q) \<le> length s" using skip_space_length [of s] sk by simp
  consider "c = CHR 0x22" | "c = CHR ''[''" | "c = CHR ''{''" | "c = CHR ''t''" | "c = CHR ''f''"
    | "c = CHR ''n''" | "c \<notin> {CHR 0x22, CHR ''['', CHR ''{'', CHR ''t'', CHR ''f'', CHR ''n''}" by blast
  then show ?case
  proof cases
    case 1
    with 2(3) sk obtain t' where "scan_string q = Some (t', r)" by auto
    then show ?thesis using scan_string_shorter q by fastforce
  next
    case 2
    with "2.prems" sk obtain d p where "skip_space q = d # p" by (auto split: if_splits list.splits)
    with 2 "2.prems" "2.IH"(1) sk q skip_space_ConsD [of q d p] show ?thesis
      by (fastforce split: if_splits)
  next
    case 3
    with "2.prems" sk obtain d p where "skip_space q = d # p" by (auto split: if_splits list.splits)
    with 3 "2.prems" "2.IH"(2) sk q skip_space_ConsD [of q d p] show ?thesis
      by (fastforce split: if_splits)
  next
    case 4
    with 2(3) sk have "scan_word ''true'' (c # q) = Some (t, r)" by simp
    then show ?thesis using less by (fastforce dest: scan_word_shorter)
  next
    case 5
    with 2(3) sk have "scan_word ''false'' (c # q) = Some (t, r)" by simp
    then show ?thesis using less by (fastforce dest: scan_word_shorter)
  next
    case 6
    with 2(3) sk have "scan_word ''null'' (c # q) = Some (t, r)" by simp
    then show ?thesis using less by (fastforce dest: scan_word_shorter)
  next
    case 7
    with 2(3) sk have "scan_number (c # q) = Some (t, r)" by simp
    then show ?thesis using less by (fastforce dest: scan_number_shorter)
  qed
next
  case (4 n depth s)
  obtain v q where v: "scan_value n depth s = Some (v, q)" using 4(3) by (auto split: option.splits)
  then obtain d q' where sk: "skip_space q = d # q'" using 4(3) by (auto split: list.splits)
  have "length q < length s" "length q' < length q" using 4(1) v skip_space_ConsD [OF sk] by auto
  with 4 v sk show ?case by (fastforce split: if_splits)
next
  case (6 n depth s)
  obtain c q where sk: "skip_space s = c # q" using 6(3) by (auto split: list.splits)
  with 6(3) obtain k p where k: "scan_string q = Some (k, p)" by (auto split: if_splits option.splits)
  with 6(3) sk obtain d p' where sk2: "skip_space p = d # p'" by (auto split: if_splits list.splits)
  with 6(3) sk k obtain v u where v: "scan_value n depth p' = Some (v, u)" by (auto split: if_splits option.splits)
  with 6(3) sk k sk2 obtain e u' where sk3: "skip_space u = e # u'" by (auto split: if_splits list.splits)
  have "length q < length s" "length p < length q" "length p' < length p" "length u' < length u"
    using skip_space_ConsD [OF sk] scan_string_shorter [OF k] skip_space_ConsD [OF sk2]
      skip_space_ConsD [OF sk3] by auto
  with 6 sk k sk2 v sk3 show ?case by (fastforce split: if_splits)
qed simp_all

text \<open>With at least this many calls available, one more changes nothing.\<close>

lemma scan_fuel:
  "(2 * length s + 1 \<le> n \<longrightarrow> scan_value (Suc n) depth s = scan_value n depth s) \<and>
   (2 * length s + 2 \<le> n \<longrightarrow> scan_items (Suc n) depth s = scan_items n depth s) \<and>
   (2 * length s + 1 \<le> n \<longrightarrow> scan_members (Suc n) depth s = scan_members n depth s)"
proof (induction n arbitrary: depth s)
  case 0
  then show ?case by simp
next
  case (Suc n)
  have val: "scan_value (Suc (Suc n)) depth s = scan_value (Suc n) depth s" if "2 * length s + 1 \<le> Suc n"
  proof (cases "skip_space s")
    case Nil
    then show ?thesis by simp
  next
    case (Cons c q)
    have "length q < length s" using skip_space_ConsD [OF Cons] .
    then have "scan_items (Suc n) (depth - 1) q = scan_items n (depth - 1) q"
      "scan_members (Suc n) (depth - 1) q = scan_members n (depth - 1) q"
      using that Suc.IH [of q "depth - 1"] by simp_all
    then show ?thesis
      by (intro trans [OF scan_value.simps(2) trans [OF _ scan_value.simps(2) [symmetric]]])
        (simp only: Cons list.case)
  qed
  moreover have "scan_items (Suc (Suc n)) depth s = scan_items (Suc n) depth s" if "2 * length s + 2 \<le> Suc n"
  proof -
    have v: "scan_value (Suc n) depth s = scan_value n depth s" using Suc.IH [of s depth] that by simp
    have rest: "scan_items (Suc n) depth q' = scan_items n depth q'"
      if "scan_value n depth s = Some (v, q)" "skip_space q = d # q'" for v q d q'
      using scan_shorter(1) [OF that(1)] skip_space_ConsD [OF that(2)] Suc.IH [of q' depth]
        \<open>2 * length s + 2 \<le> Suc n\<close> by simp
    show ?thesis
      by (rule trans [OF scan_items.simps(2) trans [OF _ scan_items.simps(2) [symmetric]]])
        (auto simp del: scan_value.simps scan_items.simps simp: v rest split: option.split list.split)
  qed
  moreover have "scan_members (Suc (Suc n)) depth s = scan_members (Suc n) depth s" if bound: "2 * length s + 1 \<le> Suc n"
  proof -
    have v: "scan_value (Suc n) depth p' = scan_value n depth p'"
      if "skip_space s = c # q" "scan_string q = Some (k, p)" "skip_space p = d # p'" for c q k p d p'
      using skip_space_ConsD [OF that(1)] scan_string_shorter [OF that(2)] skip_space_ConsD [OF that(3)]
        Suc.IH [of p' depth] bound by simp
    have rest: "scan_members (Suc n) depth u' = scan_members n depth u'"
      if "skip_space s = c # q" "scan_string q = Some (k, p)" "skip_space p = d # p'"
        "scan_value n depth p' = Some (w, u)" "skip_space u = e # u'" for c q k p d p' w u e u'
      using skip_space_ConsD [OF that(1)] scan_string_shorter [OF that(2)] skip_space_ConsD [OF that(3)]
        scan_shorter(1) [OF that(4)] skip_space_ConsD [OF that(5)] Suc.IH [of u' depth] bound by simp
    show ?thesis
      by (rule trans [OF scan_members.simps(2) trans [OF _ scan_members.simps(2) [symmetric]]])
        (auto simp del: scan_value.simps scan_members.simps simp: v rest split: option.split list.split)
  qed
  ultimately show ?case by blast
qed

lemma scan_value_fuel:
  assumes "2 * length s + 1 \<le> n"
  shows "scan_value (n + k) depth s = scan_value n depth s"
proof (induction k)
  case 0
  then show ?case by simp
next
  case (Suc k)
  have "scan_value (Suc (n + k)) depth s = scan_value (n + k) depth s"
    using scan_fuel [of s "n + k" depth] assms by simp
  with Suc show ?case by simp
qed

text \<open>The scanner's bound on nested calls never decides an answer: with any larger bound
  \<^verbatim>\<open>json.Valid\<close> and \<^verbatim>\<open>json.Compact\<close> read the same value and the same rest.\<close>

lemma json_scan_bound_is_enough:
  "scan_value (2 * length s + 2 + k) depth s = scan_value (2 * length s + 2) depth s"
  by (rule scan_value_fuel) simp

section \<open>Encoding\<close>

text \<open>
  \<^verbatim>\<open>json.Marshal\<close>: strings are escaped byte by byte, with the characters that are special in HTML and
  the two line separators of Unicode escaped too and every byte that starts no valid UTF-8
  sequence replaced. \<open>utf8_len\<close> is the length of the sequence a string starts with, 0 for an invalid one.
\<close>

definition utf8_cont :: "nat \<Rightarrow> nat \<Rightarrow> string \<Rightarrow> nat \<Rightarrow> bool" where
  "utf8_cont lo hi s i \<longleftrightarrow> i < length s \<and> lo \<le> (of_char (s ! i) :: nat) \<and> (of_char (s ! i) :: nat) \<le> hi"

definition utf8_len :: "string \<Rightarrow> nat" where
  "utf8_len s =
     (case s of
        [] \<Rightarrow> 0
      | c # _ \<Rightarrow>
          let n = of_char c :: nat; tail = utf8_cont 0x80 0xBF s in
          if n < 0x80 then 1
          else if 0xC2 \<le> n \<and> n \<le> 0xDF then (if tail 1 then 2 else 0)
          else if 0xE0 \<le> n \<and> n \<le> 0xEF
          then (if utf8_cont (if n = 0xE0 then 0xA0 else 0x80) (if n = 0xED then 0x9F else 0xBF) s 1 \<and> tail 2 then 3 else 0)
          else if 0xF0 \<le> n \<and> n \<le> 0xF4
          then (if utf8_cont (if n = 0xF0 then 0x90 else 0x80) (if n = 0xF4 then 0x8F else 0xBF) s 1 \<and> tail 2 \<and> tail 3 then 4 else 0)
          else 0)"

definition hex_digit :: "nat \<Rightarrow> char" where
  "hex_digit n = (''0123456789abcdef'' ! n)"

definition escape_byte :: "char \<Rightarrow> string" where
  "escape_byte c =
     (let n = of_char c :: nat; bs = CHR 0x5C in
      if c = CHR 0x22 \<or> c = bs then [bs, c]
      else if n = 8 then [bs, CHR ''b''] else if n = 12 then [bs, CHR ''f''] else if n = 10 then [bs, CHR ''n'']
      else if n = 13 then [bs, CHR ''r''] else if n = 9 then [bs, CHR ''t'']
      else if n < 32 \<or> c \<in> {CHR ''<'', CHR ''>'', CHR ''&''}
      then [bs, CHR ''u'', CHR ''0'', CHR ''0'', hex_digit (n div 16), hex_digit (n mod 16)]
      else [c])"

function escape :: "string \<Rightarrow> string" where
  "escape s =
     (case s of
        [] \<Rightarrow> []
      | c # r \<Rightarrow>
          if (of_char c :: nat) < 0x80 then escape_byte c @ escape r
          else if utf8_len s = 0 then CHR 0x5C # ''ufffd'' @ escape r
          else if take 3 s = [CHR 0xE2, CHR 0x80, CHR 0xA8] then CHR 0x5C # ''u2028'' @ escape (drop 3 s)
          else if take 3 s = [CHR 0xE2, CHR 0x80, CHR 0xA9] then CHR 0x5C # ''u2029'' @ escape (drop 3 s)
          else take (utf8_len s) s @ escape (drop (utf8_len s) s))"
  by pat_completeness auto
termination by (relation "measure length") auto

declare escape.simps [simp del]

definition quote :: "string \<Rightarrow> string" where
  "quote s = [CHR 0x22] @ escape s @ [CHR 0x22]"

fun json_Marshal :: "json \<Rightarrow> string" where
  "json_Marshal JNull = ''null''"
| "json_Marshal (JBool b) = (if b then ''true'' else ''false'')"
| "json_Marshal (JNum i) = show_int i"
| "json_Marshal (JStr s) = quote s"
| "json_Marshal (JArr vs) = ''['' @ Join (map json_Marshal vs) '','' @ '']''"
| "json_Marshal (JObj kv) = ''{'' @ Join (map (\<lambda>(k, v). quote k @ '':'' @ json_Marshal v) kv) '','' @ ''}''"

end
