(* ===== verification/RunState.thy ===== *)
theory RunState
  imports GoBase "HOL-Library.Sublist"
begin

text \<open>
  The run state machine (\<^verbatim>\<open>internal/domain/domain.go\<close>) and the conversions between its string
  constants and the protobuf enumerations (\<^verbatim>\<open>internal/domain/convert/convert.go\<close>). Run states,
  autonomy modes and error classes are strings, as in the source; a Go map literal is an
  association list; a protobuf enumeration value is its number.
\<close>

section \<open>States\<close>

abbreviation RunStateCreated :: string where "RunStateCreated \<equiv> ''created''"
abbreviation RunStateQueued :: string where "RunStateQueued \<equiv> ''queued''"
abbreviation RunStateAcquired :: string where "RunStateAcquired \<equiv> ''acquired''"
abbreviation RunStatePreparing :: string where "RunStatePreparing \<equiv> ''preparing''"
abbreviation RunStateModelRunning :: string where "RunStateModelRunning \<equiv> ''model_running''"
abbreviation RunStateToolPending :: string where "RunStateToolPending \<equiv> ''tool_pending''"
abbreviation RunStateAwaitingApproval :: string where "RunStateAwaitingApproval \<equiv> ''awaiting_approval''"
abbreviation RunStateToolRunning :: string where "RunStateToolRunning \<equiv> ''tool_running''"
abbreviation RunStateAwaitingModelResume :: string where
  "RunStateAwaitingModelResume \<equiv> ''awaiting_model_resume''"
abbreviation RunStateFinalizing :: string where "RunStateFinalizing \<equiv> ''finalizing''"
abbreviation RunStateCompleted :: string where "RunStateCompleted \<equiv> ''completed''"
abbreviation RunStateFailed :: string where "RunStateFailed \<equiv> ''failed''"
abbreviation RunStateCancelled :: string where "RunStateCancelled \<equiv> ''cancelled''"
abbreviation RunStateTimedOut :: string where "RunStateTimedOut \<equiv> ''timed_out''"

definition allowedTransitions :: "(string \<times> string list) list" where
  "allowedTransitions =
     [(RunStateCreated, [RunStateQueued, RunStateFailed, RunStateCancelled, RunStateTimedOut]),
      (RunStateQueued, [RunStateAcquired, RunStateFailed, RunStateCancelled, RunStateTimedOut]),
      (RunStateAcquired, [RunStatePreparing, RunStateFailed, RunStateCancelled, RunStateTimedOut]),
      (RunStatePreparing, [RunStateModelRunning, RunStateFailed, RunStateCancelled, RunStateTimedOut]),
      (RunStateModelRunning,
        [RunStateToolPending, RunStateFinalizing, RunStateFailed, RunStateCancelled, RunStateTimedOut]),
      (RunStateToolPending,
        [RunStateAwaitingApproval, RunStateToolRunning, RunStateFailed, RunStateCancelled,
         RunStateTimedOut]),
      (RunStateAwaitingApproval,
        [RunStateToolRunning, RunStateAwaitingModelResume, RunStateCancelled, RunStateTimedOut,
         RunStateFailed]),
      (RunStateToolRunning,
        [RunStateAwaitingModelResume, RunStateFailed, RunStateCancelled, RunStateTimedOut]),
      (RunStateAwaitingModelResume,
        [RunStateModelRunning, RunStateFailed, RunStateCancelled, RunStateTimedOut]),
      (RunStateFinalizing, [RunStateCompleted, RunStateFailed, RunStateCancelled, RunStateTimedOut]),
      (RunStateCompleted, []),
      (RunStateFailed, []),
      (RunStateCancelled, []),
      (RunStateTimedOut, [])]"

text \<open>\<^verbatim>\<open>%q\<close> of a state name: the fourteen names need no escape.\<close>

definition quote_state :: "string \<Rightarrow> string" where
  "quote_state s = ''\"'' @ s @ ''\"''"

definition ValidateRunStateTransition :: "string \<Rightarrow> string \<Rightarrow> go_err + unit" where
  "ValidateRunStateTransition from to =
     (if from = to
      then Inl (Errorf (''run state transition '' @ quote_state from @ '' -> '' @ quote_state to @ '' is not allowed''))
      else case map_of allowedTransitions from of
        None \<Rightarrow> Inl (Errorf (''unknown source run state '' @ quote_state from))
      | Some transitions \<Rightarrow>
          if map_of allowedTransitions to = None
          then Inl (Errorf (''unknown target run state '' @ quote_state to))
          else if to \<notin> set transitions
          then Inl (Errorf (''run state transition '' @ quote_state from @ '' -> '' @ quote_state to @ '' is not allowed''))
          else Inr ())"

definition IsTerminalRunState :: "string \<Rightarrow> bool" where
  "IsTerminalRunState state \<longleftrightarrow>
     state = RunStateCompleted \<or> state = RunStateFailed \<or> state = RunStateCancelled \<or>
     state = RunStateTimedOut"

section \<open>Conversions\<close>

type_synonym proto_enum = int

definition runStateDomainToProto :: "(string \<times> proto_enum) list" where
  "runStateDomainToProto =
     [(RunStateCreated, 1), (RunStateQueued, 2), (RunStateAcquired, 3), (RunStatePreparing, 4),
      (RunStateModelRunning, 5), (RunStateToolPending, 6), (RunStateAwaitingApproval, 7),
      (RunStateToolRunning, 8), (RunStateAwaitingModelResume, 9), (RunStateFinalizing, 10),
      (RunStateCompleted, 11), (RunStateFailed, 12), (RunStateCancelled, 13),
      (RunStateTimedOut, 14)]"

definition runStateProtoToDomain :: "(proto_enum \<times> string) list" where
  "runStateProtoToDomain =
     [(1, RunStateCreated), (2, RunStateQueued), (3, RunStateAcquired), (4, RunStatePreparing),
      (5, RunStateModelRunning), (6, RunStateToolPending), (7, RunStateAwaitingApproval),
      (8, RunStateToolRunning), (9, RunStateAwaitingModelResume), (10, RunStateFinalizing),
      (11, RunStateCompleted), (12, RunStateFailed), (13, RunStateCancelled),
      (14, RunStateTimedOut)]"

definition RunStateToProto :: "string \<Rightarrow> proto_enum" where
  "RunStateToProto state = (case map_of runStateDomainToProto state of Some v \<Rightarrow> v | None \<Rightarrow> 0)"

definition RunStateStringToProto :: "string \<Rightarrow> proto_enum" where
  "RunStateStringToProto state = RunStateToProto state"

definition ProtoToRunState :: "proto_enum \<Rightarrow> go_err + string" where
  "ProtoToRunState state =
     (case map_of runStateProtoToDomain state of
        Some v \<Rightarrow> Inr v
      | None \<Rightarrow> Inl (Errorf (''unrecognised proto RunState '' @ show_int state)))"

definition autonomyModeDomainToProto :: "(string \<times> proto_enum) list" where
  "autonomyModeDomainToProto =
     [(''mode_0'', 1), (''mode_1'', 2), (''mode_2'', 3), (''mode_3'', 4)]"

definition autonomyModeProtoToDomain :: "(proto_enum \<times> string) list" where
  "autonomyModeProtoToDomain =
     [(1, ''mode_0''), (2, ''mode_1''), (3, ''mode_2''), (4, ''mode_3'')]"

definition AutonomyModeToProto :: "string \<Rightarrow> proto_enum" where
  "AutonomyModeToProto mode = (case map_of autonomyModeDomainToProto mode of Some v \<Rightarrow> v | None \<Rightarrow> 0)"

definition AutonomyModeStringToProto :: "string \<Rightarrow> proto_enum" where
  "AutonomyModeStringToProto mode = AutonomyModeToProto mode"

definition ProtoToAutonomyMode :: "proto_enum \<Rightarrow> go_err + string" where
  "ProtoToAutonomyMode mode =
     (case map_of autonomyModeProtoToDomain mode of
        Some v \<Rightarrow> Inr v
      | None \<Rightarrow> Inl (Errorf (''unrecognised proto AutonomyMode '' @ show_int mode)))"

definition ProtoToAutonomyModeString :: "proto_enum \<Rightarrow> go_err + string" where
  "ProtoToAutonomyModeString mode = ProtoToAutonomyMode mode"

definition errorClassDomainToProto :: "(string \<times> proto_enum) list" where
  "errorClassDomainToProto =
     [(''validation_error'', 1), (''transport_error'', 2), (''tool_error'', 3),
      (''policy_denied'', 4), (''credential_error'', 5), (''approval_error'', 6),
      (''timeout'', 7), (''cancelled'', 8), (''internal_error'', 9)]"

definition errorClassProtoToDomain :: "(proto_enum \<times> string) list" where
  "errorClassProtoToDomain =
     [(1, ''validation_error''), (2, ''transport_error''), (3, ''tool_error''),
      (4, ''policy_denied''), (5, ''credential_error''), (6, ''approval_error''),
      (7, ''timeout''), (8, ''cancelled''), (9, ''internal_error'')]"

definition ErrorClassToProto :: "string \<Rightarrow> proto_enum" where
  "ErrorClassToProto ec = (case map_of errorClassDomainToProto ec of Some v \<Rightarrow> v | None \<Rightarrow> 9)"

definition ErrorClassStringToProto :: "string \<Rightarrow> proto_enum" where
  "ErrorClassStringToProto ec = (if ec = [] then 0 else ErrorClassToProto ec)"

definition ProtoToErrorClass :: "proto_enum \<Rightarrow> go_err + string" where
  "ProtoToErrorClass ec =
     (case map_of errorClassProtoToDomain ec of
        Some v \<Rightarrow> Inr v
      | None \<Rightarrow> Inl (Errorf (''unrecognised proto ErrorClass '' @ show_int ec)))"

definition ProtoToErrorClassString :: "proto_enum \<Rightarrow> go_err + string" where
  "ProtoToErrorClassString ec = ProtoToErrorClass ec"

section \<open>The machine as a graph\<close>

text \<open>A state is known when the transition table has a row for it.\<close>

definition known_state :: "string \<Rightarrow> bool" where
  "known_state s \<longleftrightarrow> map_of allowedTransitions s \<noteq> None"

text \<open>A sequence of states in which each follows the one before by an allowed transition.\<close>

fun state_path :: "string list \<Rightarrow> bool" where
  "state_path (s # t # ss) \<longleftrightarrow> ValidateRunStateTransition s t = Inr () \<and> state_path (t # ss)"
| "state_path ss \<longleftrightarrow> True"

lemmas fsm_defs = ValidateRunStateTransition_def allowedTransitions_def

lemma allowedTransitions_closed:
  "list_all (\<lambda>(s, ts). s \<notin> set ts \<and> list_all (\<lambda>t. map_of allowedTransitions t \<noteq> None) ts)
     allowedTransitions"
  by code_simp

lemma allowedTransitions_row:
  assumes "map_of allowedTransitions s = Some ts"
  shows "s \<notin> set ts" and "t \<in> set ts \<Longrightarrow> map_of allowedTransitions t \<noteq> None"
  using map_of_SomeD [OF assms] allowedTransitions_closed by (auto simp: list_all_iff)

lemma valid_transition_iff:
  "ValidateRunStateTransition s t = Inr () \<longleftrightarrow>
     (\<exists>ts. map_of allowedTransitions s = Some ts \<and> t \<in> set ts)"
  by (auto simp: ValidateRunStateTransition_def split: option.split dest: allowedTransitions_row)

definition edges :: "(string \<times> string) list" where
  "edges = concat (map (\<lambda>(s, ts). map (Pair s) ts) allowedTransitions)"

lemma allowedTransitions_distinct: "distinct (map fst allowedTransitions)"
  by code_simp

lemma valid_transition_edge: "ValidateRunStateTransition s t = Inr () \<longleftrightarrow> (s, t) \<in> set edges"
  by (auto simp: valid_transition_iff edges_def allowedTransitions_distinct
      intro: map_of_is_SomeI dest!: map_of_SomeD)

lemma edge_check:
  assumes "list_all P edges" and "ValidateRunStateTransition s t = Inr ()"
  shows "P (s, t)"
  using assms by (simp add: valid_transition_edge list_all_iff)

lemma known_state_iff: "known_state s \<longleftrightarrow> s \<in> set (map fst allowedTransitions)"
  by (auto simp: known_state_def map_of_eq_None_iff)

lemma known_check:
  assumes "list_all P (map fst allowedTransitions)" and "known_state s"
  shows "P s"
  using assms by (auto simp: known_state_iff list_all_iff)

lemma valid_transition_known:
  "ValidateRunStateTransition s t = Inr () \<Longrightarrow> known_state s \<and> known_state t"
  by (auto simp: known_state_def valid_transition_iff dest: allowedTransitions_row)

lemma terminal_known: "IsTerminalRunState s \<Longrightarrow> known_state s"
  by (auto simp: IsTerminalRunState_def known_state_iff allowedTransitions_def)

text \<open>Facts about single edges are checked on the finite list of edges.\<close>

lemma into_completed: "ValidateRunStateTransition s RunStateCompleted = Inr () \<Longrightarrow> s = RunStateFinalizing"
  using edge_check [of "\<lambda>(s, t). t = RunStateCompleted \<longrightarrow> s = RunStateFinalizing" s RunStateCompleted]
  by (simp add: edges_def allowedTransitions_def)

lemma into_finalizing: "ValidateRunStateTransition s RunStateFinalizing = Inr () \<Longrightarrow> s = RunStateModelRunning"
  using edge_check [of "\<lambda>(s, t). t = RunStateFinalizing \<longrightarrow> s = RunStateModelRunning" s RunStateFinalizing]
  by (simp add: edges_def allowedTransitions_def)

lemma terminal_no_transition: "IsTerminalRunState s \<Longrightarrow> ValidateRunStateTransition s t \<noteq> Inr ()"
  using edge_check [of "\<lambda>(s, t). \<not> IsTerminalRunState s" s t]
  by (auto simp: edges_def allowedTransitions_def IsTerminalRunState_def)

lemma live_edges:
  "list_all (\<lambda>s. IsTerminalRunState s \<or> list_all (\<lambda>t. (s, t) \<in> set edges)
     [RunStateFailed, RunStateCancelled, RunStateTimedOut]) (map fst allowedTransitions)"
  by code_simp

lemma live_can_fail:
  "known_state s \<Longrightarrow> \<not> IsTerminalRunState s \<Longrightarrow>
     ValidateRunStateTransition s RunStateFailed = Inr () \<and>
     ValidateRunStateTransition s RunStateCancelled = Inr () \<and>
     ValidateRunStateTransition s RunStateTimedOut = Inr ()"
  using known_check [OF live_edges] by (auto simp: valid_transition_edge)

text \<open>The states a path from \<open>s\<close> to completion still has to visit, in order.\<close>

definition must_visit :: "string \<Rightarrow> string list" where
  "must_visit s =
     (if s = RunStateCreated
      then [RunStateQueued, RunStateAcquired, RunStatePreparing, RunStateModelRunning, RunStateFinalizing]
      else if s = RunStateQueued
      then [RunStateAcquired, RunStatePreparing, RunStateModelRunning, RunStateFinalizing]
      else if s = RunStateAcquired then [RunStatePreparing, RunStateModelRunning, RunStateFinalizing]
      else if s = RunStateModelRunning then [RunStateFinalizing]
      else if s = RunStateFinalizing then []
      else [RunStateModelRunning, RunStateFinalizing])"

lemma must_visit_edges:
  "list_all (\<lambda>(s, t). IsTerminalRunState t \<or> subseq (must_visit s) (t # must_visit t)) edges"
  by code_simp

lemma must_visit_edge:
  "ValidateRunStateTransition s t = Inr () \<Longrightarrow> \<not> IsTerminalRunState t \<Longrightarrow>
     subseq (must_visit s) (t # must_visit t)"
  using edge_check [OF must_visit_edges] by auto

lemma path_visits: "state_path (s # p @ [RunStateCompleted]) \<Longrightarrow> subseq (must_visit s) p"
proof (induction p arbitrary: s)
  case Nil
  then have "s = RunStateFinalizing" using into_completed by simp
  then show ?case by (simp add: must_visit_def)
next
  case (Cons t p)
  have edge: "ValidateRunStateTransition s t = Inr ()" and path: "state_path (t # p @ [RunStateCompleted])"
    using Cons.prems by simp_all
  from path have "\<not> IsTerminalRunState t"
    using terminal_no_transition by (cases p) auto
  with edge have "subseq (must_visit s) (t # must_visit t)" by (rule must_visit_edge)
  moreover have "subseq (must_visit t) p" using path by (rule Cons.IH)
  ultimately show ?case by (meson subseq_order.order_trans subseq_Cons2)
qed

lemma proto_tables:
  "runStateProtoToDomain = flip_table runStateDomainToProto"
  "distinct (map fst runStateDomainToProto)" "distinct (map snd runStateDomainToProto)"
  "autonomyModeProtoToDomain = flip_table autonomyModeDomainToProto"
  "distinct (map fst autonomyModeDomainToProto)" "distinct (map snd autonomyModeDomainToProto)"
  "errorClassProtoToDomain = flip_table errorClassDomainToProto"
  "distinct (map fst errorClassDomainToProto)" "distinct (map snd errorClassDomainToProto)"
  by code_simp+

lemma proto_not_zero:
  "map_of runStateDomainToProto s \<noteq> Some 0" "map_of autonomyModeDomainToProto s \<noteq> Some 0"
  "map_of errorClassDomainToProto s \<noteq> Some 0"
proof -
  have "0 \<notin> snd ` set runStateDomainToProto" "0 \<notin> snd ` set autonomyModeDomainToProto"
    "0 \<notin> snd ` set errorClassDomainToProto"
    by (simp_all add: runStateDomainToProto_def autonomyModeDomainToProto_def errorClassDomainToProto_def)
  then show "map_of runStateDomainToProto s \<noteq> Some 0" "map_of autonomyModeDomainToProto s \<noteq> Some 0"
    "map_of errorClassDomainToProto s \<noteq> Some 0"
    by (force dest: map_of_SomeD)+
qed

lemma proto_run_state: "ProtoToRunState p = Inr s \<longleftrightarrow> p \<noteq> 0 \<and> RunStateToProto s = p"
  using map_of_flip_table [OF proto_tables(2,3), of p s] proto_not_zero(1)
  by (auto simp: ProtoToRunState_def RunStateToProto_def proto_tables(1) split: option.splits)

lemma proto_autonomy_mode: "ProtoToAutonomyMode p = Inr s \<longleftrightarrow> p \<noteq> 0 \<and> AutonomyModeToProto s = p"
  using map_of_flip_table [OF proto_tables(5,6), of p s] proto_not_zero(2)
  by (auto simp: ProtoToAutonomyMode_def AutonomyModeToProto_def proto_tables(4) split: option.splits)

lemma proto_error_class:
  "ProtoToErrorClass p = Inr s \<longleftrightarrow>
     p \<noteq> 0 \<and> ErrorClassToProto s = p \<and> s \<in> fst ` set errorClassDomainToProto"
proof -
  have "map_of errorClassDomainToProto s = Some p \<longleftrightarrow>
      p \<noteq> 0 \<and> ErrorClassToProto s = p \<and> s \<in> fst ` set errorClassDomainToProto"
    using proto_not_zero(3) [of s] map_of_eq_None_iff [of errorClassDomainToProto s]
    by (auto simp: ErrorClassToProto_def split: option.splits)
  then show ?thesis
    using map_of_flip_table [OF proto_tables(8,9), of p s]
    by (cases "map_of (flip_table errorClassDomainToProto) p")
      (auto simp: ProtoToErrorClass_def proto_tables(7))
qed

section \<open>Properties\<close>

text \<open>The terminal states of the run machine are exactly the known states without an allowed
  transition, and exactly the other known states can be failed, cancelled and timed out.\<close>

theorem terminal_states_are_the_sinks:
  "(IsTerminalRunState s \<longleftrightarrow> known_state s \<and> (\<forall>t. ValidateRunStateTransition s t \<noteq> Inr ())) \<and>
   (known_state s \<and> \<not> IsTerminalRunState s \<longleftrightarrow>
      ValidateRunStateTransition s RunStateFailed = Inr () \<and>
      ValidateRunStateTransition s RunStateCancelled = Inr () \<and>
      ValidateRunStateTransition s RunStateTimedOut = Inr ())"
  using live_can_fail terminal_no_transition valid_transition_known terminal_known
  unfolding valid_transition_edge by blast

text \<open>Every sequence of allowed transitions from \<^verbatim>\<open>created\<close> to \<^verbatim>\<open>completed\<close> passes, in this order,
  through queued, acquired, preparing, model_running and finalizing: no run completes without
  having been leased, prepared and handed to the model.\<close>

theorem completion_passes_every_stage:
  assumes "state_path (RunStateCreated # p @ [RunStateCompleted])"
  shows "subseq [RunStateQueued, RunStateAcquired, RunStatePreparing, RunStateModelRunning,
      RunStateFinalizing] p"
  using path_visits [OF assms] by (simp add: must_visit_def)

theorem completion_passes_every_stage_witness:
  "subseq [RunStateQueued, RunStateAcquired, RunStatePreparing, RunStateModelRunning, RunStateFinalizing]
     [RunStateQueued, RunStateAcquired, RunStatePreparing, RunStateModelRunning, RunStateToolPending,
      RunStateToolRunning, RunStateAwaitingModelResume, RunStateModelRunning, RunStateFinalizing]"
  by (rule completion_passes_every_stage) code_simp

text \<open>The conversions between domain constants and protobuf numbers are inverse bijections for
  run states, autonomy modes and error classes: a number converts to a name exactly when the
  name converts back to it, and the unspecified number converts to no name.\<close>

theorem convert_roundtrip:
  "(ProtoToRunState p = Inr s \<longleftrightarrow> p \<noteq> 0 \<and> RunStateToProto s = p) \<and>
   (ProtoToAutonomyMode p = Inr s \<longleftrightarrow> p \<noteq> 0 \<and> AutonomyModeToProto s = p) \<and>
   (ProtoToErrorClass p = Inr s \<longleftrightarrow>
      p \<noteq> 0 \<and> ErrorClassToProto s = p \<and> s \<in> fst ` set errorClassDomainToProto)"
  using proto_run_state proto_autonomy_mode proto_error_class by blast

end
