(* ===== verification/Store.thy ===== *)
theory Store
  imports GoBase
begin

text \<open>
  The tables of the kernel database that the session and run services read and write, with the
  columns their statements name: \<^verbatim>\<open>sessions\<close>, \<^verbatim>\<open>session_ownership\<close>, \<^verbatim>\<open>runs\<close>,
  \<^verbatim>\<open>run_state_transitions\<close>, \<^verbatim>\<open>accepted_inputs\<close> and \<^verbatim>\<open>input_stopped_attempts\<close>. A nullable column
  is an option. Every operation takes the reading of the database clock it uses as an
  argument. Statements are atomic and a failing statement changes nothing, as in PostgreSQL.
\<close>

text \<open>
  The input and output conversions of the type \<^verbatim>\<open>jsonb\<close> are functions of the database, hence a
  parameter: \<open>jb_in\<close> rejects a malformed text with \<open>None\<close>, \<open>jb_out\<close> is the cast to text.
\<close>

record jsonb_codec =
  jb_in :: "string \<Rightarrow> json option"
  jb_out :: "json \<Rightarrow> string"

definition jsonb_syntax_error :: go_err where
  "jsonb_syntax_error = PgError ''22P02'' ''invalid input syntax for type json''"

definition ErrNoRows :: go_err where
  "ErrNoRows = Sentinel ''no rows in result set''"

record session_row =
  s_session_id :: string
  s_session_key :: string
  s_user_id :: string
  s_channel :: string
  s_metadata :: json
  s_summary :: string
  s_created_at :: instant
  s_updated_at :: instant

record ownership_row =
  o_session_key :: string
  o_lease_id :: string
  o_run_id :: string
  o_owner_id :: string
  o_fence_epoch :: int
  o_acquired_at :: instant
  o_expires_at :: instant

record run_row =
  r_run_id :: string
  r_session_key :: string
  r_input_event_id :: string
  r_idempotency_key :: "string option"
  r_status :: string
  r_autonomy_mode :: string
  r_current_state :: string
  r_model_provider :: string
  r_provider_session_ref :: "string option"
  r_lease_id :: "string option"
  r_resumes_run_id :: "string option"
  r_started_at :: instant
  r_updated_at :: instant
  r_finished_at :: "instant option"
  r_error_type :: "string option"
  r_error_message :: "string option"
  r_metadata_json :: json
  r_task_id :: "string option"
  r_task_revision :: "int option"

record transition_row =
  t_run_id :: string
  t_from_state :: string
  t_to_state :: string
  t_triggered_by :: string
  t_metadata :: json
  t_transitioned_at :: instant

record input_row =
  i_input_id :: string
  i_run_id :: "string option"
  i_task_id :: "string option"
  i_owner_id :: string
  i_status :: string
  i_claim_id :: string
  i_claim_expires_at :: "instant option"

record stopped_row =
  f_input_id :: string
  f_run_id :: string
  f_owner_id :: string
  f_session_key :: string
  f_classification :: string

record kernel_db =
  sessions :: "session_row list"
  ownership :: "ownership_row list"
  runs :: "run_row list"
  transitions :: "transition_row list"
  inputs :: "input_row list"
  stopped :: "stopped_row list"

text \<open>\<^verbatim>\<open>LIMIT 1\<close>/\<^verbatim>\<open>QueryRow\<close>: the first row of a result, if any.\<close>

definition first_row :: "('r \<Rightarrow> bool) \<Rightarrow> 'r list \<Rightarrow> 'r option" where
  "first_row p rows = find p rows"

lemma first_row_simps [simp, tbl_simps]:
  "first_row p [] = None"
  "first_row p (r # rs) = (if p r then Some r else first_row p rs)"
  by (simp_all add: first_row_def)

lemma first_row_SomeD: "first_row p rows = Some r \<Longrightarrow> r \<in> set rows \<and> p r"
  by (induction rows) (auto split: if_splits)

lemma first_row_None_iff: "first_row p rows = None \<longleftrightarrow> (\<forall>r \<in> set rows. \<not> p r)"
  by (auto simp: first_row_def find_None_iff)

lemma first_row_append: "first_row p (xs @ ys) = (case first_row p xs of None \<Rightarrow> first_row p ys | Some r \<Rightarrow> Some r)"
  by (induction xs) auto

lemma first_row_update:
  assumes "\<And>r. q r \<Longrightarrow> p (f r) = p r"
  shows "first_row p (tbl_update q f rows) = map_option (\<lambda>r. if q r then f r else r) (first_row p rows)"
  using assms by (induction rows) auto

end
