(* ===== verification/Ownership.thy ===== *)
theory Ownership
  imports Store
begin

text \<open>
  The fencing discipline of \<^verbatim>\<open>internal/ownership\<close>: an execution context carries the token of the
  lease it runs under, every guarded write first checks the token against the live row of
  \<^verbatim>\<open>session_ownership\<close>, and lease changes exclude guarded writes in the same process with the
  slot and mutation semaphores of the \<^verbatim>\<open>Authority\<close>. Cancellation of the Go context while
  waiting for a slot is not modelled.
\<close>

section \<open>Tokens and guarded contexts\<close>

definition ErrStale :: go_err where
  "ErrStale = Sentinel ''execution ownership expired or superseded''"

record Token =
  tok_SessionKey :: string
  tok_RunID :: string
  tok_LeaseID :: string
  tok_FenceEpoch :: int

text \<open>The execution values of a Go context: no token outside worker authority, a guard already
  held or not, and the size of the authority's connection pool.\<close>

record exec_ctx =
  ctx_token :: "Token option"
  ctx_guarded :: bool
  ctx_max_conns :: int

definition WithToken :: "int \<Rightarrow> Token \<Rightarrow> exec_ctx" where
  "WithToken max_conns token = \<lparr>ctx_token = Some token, ctx_guarded = False, ctx_max_conns = max_conns\<rparr>"

definition TokenFromContext :: "exec_ctx \<Rightarrow> Token option" where
  "TokenFromContext ctx = ctx_token ctx"

text \<open>The query both guards run: the token matches the session's row and the lease is unexpired.\<close>

definition token_valid :: "Token \<Rightarrow> instant \<Rightarrow> kernel_db \<Rightarrow> bool" where
  "token_valid tok now db =
     (case tbl_find o_session_key (tok_SessionKey tok) (ownership db) of
        None \<Rightarrow> False
      | Some r \<Rightarrow>
          o_lease_id r = tok_LeaseID tok \<and> o_run_id r = tok_RunID tok \<and>
          o_fence_epoch r = tok_FenceEpoch tok \<and> now < o_expires_at r)"

definition own_Begin :: "exec_ctx \<Rightarrow> instant \<Rightarrow> kernel_db \<Rightarrow> go_err + exec_ctx" where
  "own_Begin ctx now db =
     (case ctx_token ctx of
        None \<Rightarrow> Inr ctx
      | Some tok \<Rightarrow>
          if ctx_guarded ctx then Inr ctx
          else if ctx_max_conns ctx < 2
          then Inl (Errorf ''fencing requires a PostgreSQL pool with at least two connections'')
          else if \<not> token_valid tok now db then Inl ErrStale
          else Inr (ctx\<lparr>ctx_guarded := True\<rparr>))"

text \<open>
  \<^verbatim>\<open>BeginTransaction\<close> validates in its own transaction, \<^verbatim>\<open>Commit\<close> validates again before the
  commit; a failed validation rolls everything back. The body is what the caller does inside.
  The transaction's pool is the authority's pool.
\<close>

definition BeginTransaction :: "exec_ctx \<Rightarrow> instant \<Rightarrow> kernel_db \<Rightarrow> go_err + exec_ctx" where
  "BeginTransaction ctx now db =
     (case ctx_token ctx of
        None \<Rightarrow> Inr ctx
      | Some tok \<Rightarrow>
          if ctx_max_conns ctx < 2
          then Inl (Errorf ''fenced transaction requires its owning pool with at least two connections'')
          else if \<not> token_valid tok now db then Inl ErrStale
          else Inr (ctx\<lparr>ctx_guarded := True\<rparr>))"

definition tx_Commit :: "exec_ctx \<Rightarrow> instant \<Rightarrow> kernel_db \<Rightarrow> go_err + unit" where
  "tx_Commit ctx now db =
     (case ctx_token ctx of
        None \<Rightarrow> Inr ()
      | Some tok \<Rightarrow> if token_valid tok now db then Inr () else Inl ErrStale)"

definition fenced_tx ::
  "exec_ctx \<Rightarrow> instant \<Rightarrow> instant \<Rightarrow> (exec_ctx \<Rightarrow> kernel_db \<Rightarrow> (go_err, 'a, kernel_db) outcome)
     \<Rightarrow> kernel_db \<Rightarrow> (go_err, 'a, kernel_db) outcome" where
  "fenced_tx ctx begin_at commit_at body db =
     (case BeginTransaction ctx begin_at db of
        Inl e \<Rightarrow> (Inl e, db)
      | Inr ctx' \<Rightarrow>
          (case body ctx' db of
             (Inl e, _) \<Rightarrow> (Inl e, db)
           | (Inr x, db') \<Rightarrow>
               (case tx_Commit ctx' commit_at db' of
                  Inl e \<Rightarrow> (Inl e, db)
                | Inr _ \<Rightarrow> (Inr x, db'))))"

section \<open>The process-local semaphores\<close>

text \<open>
  \<^verbatim>\<open>slots\<close> is a channel of capacity \<open>NewAuthority_slots\<close>, \<^verbatim>\<open>mutations\<close> one of capacity 1. A guard
  puts one slot; a mutation puts the mutation mark, then slots until the channel is full, and
  takes them all back when it releases (or when its context ends while it is still taking).
\<close>

definition NewAuthority_slots :: "int \<Rightarrow> nat" where
  "NewAuthority_slots max_conns = (let n = go_div max_conns 2 in if n < 1 then 1 else nat n)"

datatype mutation = NoMutation | Taking nat | Held | Releasing nat

record authority =
  a_guards :: nat
  a_mutation :: mutation

fun slots_of_mutation :: "nat \<Rightarrow> mutation \<Rightarrow> nat" where
  "slots_of_mutation cap NoMutation = 0"
| "slots_of_mutation cap (Taking k) = k"
| "slots_of_mutation cap Held = cap"
| "slots_of_mutation cap (Releasing k) = k"

definition slots_used :: "nat \<Rightarrow> authority \<Rightarrow> nat" where
  "slots_used cap a = a_guards a + slots_of_mutation cap (a_mutation a)"

inductive authority_step :: "nat \<Rightarrow> authority \<Rightarrow> authority \<Rightarrow> bool" for cap where
  guard_begin: "slots_used cap a < cap \<Longrightarrow> authority_step cap a (a\<lparr>a_guards := Suc (a_guards a)\<rparr>)"
| guard_release: "a_guards a = Suc n \<Longrightarrow> authority_step cap a (a\<lparr>a_guards := n\<rparr>)"
| mutation_enter: "a_mutation a = NoMutation \<Longrightarrow> authority_step cap a (a\<lparr>a_mutation := Taking 0\<rparr>)"
| mutation_take:
    "a_mutation a = Taking k \<Longrightarrow> k < cap \<Longrightarrow> slots_used cap a < cap \<Longrightarrow>
     authority_step cap a (a\<lparr>a_mutation := Taking (Suc k)\<rparr>)"
| mutation_held: "a_mutation a = Taking cap \<Longrightarrow> authority_step cap a (a\<lparr>a_mutation := Held\<rparr>)"
| mutation_give_up: "a_mutation a = Taking k \<Longrightarrow> authority_step cap a (a\<lparr>a_mutation := Releasing k\<rparr>)"
| mutation_release: "a_mutation a = Held \<Longrightarrow> authority_step cap a (a\<lparr>a_mutation := Releasing cap\<rparr>)"
| mutation_drain: "a_mutation a = Releasing (Suc k) \<Longrightarrow> authority_step cap a (a\<lparr>a_mutation := Releasing k\<rparr>)"
| mutation_leave: "a_mutation a = Releasing 0 \<Longrightarrow> authority_step cap a (a\<lparr>a_mutation := NoMutation\<rparr>)"

definition authority_init :: "authority \<Rightarrow> bool" where
  "authority_init a \<longleftrightarrow> a = \<lparr>a_guards = 0, a_mutation = NoMutation\<rparr>"

definition authority_inv :: "nat \<Rightarrow> authority \<Rightarrow> bool" where
  "authority_inv cap a \<longleftrightarrow> slots_used cap a \<le> cap"

interpretation auth: invariant_system authority_init "authority_step cap" "authority_inv cap" for cap
proof
  show "authority_inv cap s" if "authority_init s" for s
    using that by (simp add: authority_init_def authority_inv_def slots_used_def)
  show "authority_inv cap t" if "authority_inv cap s" "authority_step cap s t" for s t
    using that(2,1) by cases (auto simp: authority_inv_def slots_used_def)
qed

lemma NewAuthority_slots_pos: "0 < NewAuthority_slots n"
  by (simp add: NewAuthority_slots_def Let_def)

section \<open>Lemmas\<close>

lemma own_Begin_Inr:
  "own_Begin ctx now db = Inr ctx' \<Longrightarrow> ctx_token ctx = Some tok \<Longrightarrow> \<not> ctx_guarded ctx \<Longrightarrow>
     token_valid tok now db"
  by (auto simp: own_Begin_def split: if_splits)

lemma own_Begin_stale:
  "ctx_token ctx = Some tok \<Longrightarrow> \<not> ctx_guarded ctx \<Longrightarrow> 2 \<le> ctx_max_conns ctx \<Longrightarrow>
     \<not> token_valid tok now db \<Longrightarrow> own_Begin ctx now db = Inl ErrStale"
  by (simp add: own_Begin_def)

lemma fenced_tx_Inr:
  assumes "fenced_tx ctx t0 t1 body db = (Inr x, db')"
  obtains ctx' where "BeginTransaction ctx t0 db = Inr ctx'" and "body ctx' db = (Inr x, db')"
    and "tx_Commit ctx' t1 db' = Inr ()"
  using assms by (auto simp: fenced_tx_def split: sum.splits prod.splits)

lemma fenced_tx_Inl: "fenced_tx ctx t0 t1 body db = (Inl e, db') \<Longrightarrow> db' = db"
  by (auto simp: fenced_tx_def split: sum.splits prod.splits)

section \<open>Properties\<close>

text \<open>While a lease change holds the mutation section of the authority no guarded write is in
  progress, and no state ever has more slots in use than the channel's capacity: the slot
  semaphore makes lease changes and guarded writes of one process mutually exclusive.\<close>

theorem mutation_excludes_guarded_writes:
  assumes "authority_init a" and "(authority_step (NewAuthority_slots n))\<^sup>*\<^sup>* a b"
  shows "slots_used (NewAuthority_slots n) b \<le> NewAuthority_slots n \<and>
    (a_mutation b = Held \<longrightarrow> a_guards b = 0)"
proof -
  have "authority_inv (NewAuthority_slots n) b" using assms by (rule auth.inv_reach)
  then show ?thesis by (auto simp: authority_inv_def slots_used_def)
qed

text \<open>A run in which a guard ends before the mutation can fill a channel of capacity 1.\<close>

theorem mutation_excludes_guarded_writes_witness:
  "slots_used (NewAuthority_slots 2) \<lparr>a_guards = 0, a_mutation = Held\<rparr> \<le> NewAuthority_slots 2 \<and>
    a_guards \<lparr>a_guards = 0, a_mutation = Held\<rparr> = 0"
proof -
  let ?a = "\<lparr>a_guards = 0, a_mutation = NoMutation\<rparr>"
  have cap: "NewAuthority_slots 2 = 1" by (simp add: NewAuthority_slots_def go_div_def)
  have init: "authority_init ?a" by (simp add: authority_init_def)
  have 1: "authority_step 1 ?a \<lparr>a_guards = 1, a_mutation = NoMutation\<rparr>"
    using guard_begin [of 1 ?a] by (simp add: slots_used_def)
  have 2: "authority_step 1 \<lparr>a_guards = 1, a_mutation = NoMutation\<rparr> \<lparr>a_guards = 1, a_mutation = Taking 0\<rparr>"
    using mutation_enter [of "\<lparr>a_guards = 1, a_mutation = NoMutation\<rparr>" 1] by simp
  have 3: "authority_step 1 \<lparr>a_guards = 1, a_mutation = Taking 0\<rparr> \<lparr>a_guards = 0, a_mutation = Taking 0\<rparr>"
    using guard_release [of "\<lparr>a_guards = 1, a_mutation = Taking 0\<rparr>" 0 1] by simp
  have 4: "authority_step 1 \<lparr>a_guards = 0, a_mutation = Taking 0\<rparr> \<lparr>a_guards = 0, a_mutation = Taking 1\<rparr>"
    using mutation_take [of "\<lparr>a_guards = 0, a_mutation = Taking 0\<rparr>" 0 1] by (simp add: slots_used_def)
  have 5: "authority_step 1 \<lparr>a_guards = 0, a_mutation = Taking 1\<rparr> \<lparr>a_guards = 0, a_mutation = Held\<rparr>"
    using mutation_held [of "\<lparr>a_guards = 0, a_mutation = Taking 1\<rparr>" 1] by simp
  have "(authority_step (NewAuthority_slots 2))\<^sup>*\<^sup>* ?a \<lparr>a_guards = 0, a_mutation = Held\<rparr>"
    unfolding cap using 1 2 3 4 5 by (meson converse_rtranclp_into_rtranclp rtranclp.rtrancl_refl)
  from mutation_excludes_guarded_writes [OF init this] show ?thesis by simp
qed

end
