(* ===== verification/Lease.thy ===== *)
theory Lease
  imports Ownership
begin

text \<open>
  The lease interface of the session service (\<^verbatim>\<open>session/lease.go\<close>): the record and parameter
  types, their validation, the translation of lease errors into gRPC statuses and the three
  handlers of the gRPC server, which work over any \<^verbatim>\<open>LeaseManager\<close>. The locale \<open>lease_manager\<close>
  is the contract of that Go interface; the two managers of the repository interpret it in
  their own theories. Timestamps of the protobuf lease are kept as instants, not as RFC 3339
  text.
\<close>

section \<open>Data\<close>

definition ErrLeaseConflict :: go_err where
  "ErrLeaseConflict = Sentinel ''session lease already held''"

definition ErrLeaseNotFound :: go_err where
  "ErrLeaseNotFound = Sentinel ''lease not found''"

record LeaseRecord =
  lr_FenceEpoch :: int
  lr_LeaseID :: string
  lr_SessionKey :: string
  lr_RunID :: string
  lr_OwnerID :: string
  lr_TTLSeconds :: int
  lr_AcquiredAt :: instant
  lr_ExpiresAt :: instant

record AcquireLeaseParams =
  ap_SessionKey :: string
  ap_RunID :: string
  ap_OwnerID :: string
  ap_TTL :: duration

definition duration_Milliseconds :: "duration \<Rightarrow> int" where
  "duration_Milliseconds d = go_div d millisecond"

definition validateAcquireLeaseParams :: "AcquireLeaseParams \<Rightarrow> go_err + unit" where
  "validateAcquireLeaseParams params =
     (if TrimSpace (ap_SessionKey params) = [] then Inl (Errorf ''session_key is required'')
      else if TrimSpace (ap_RunID params) = [] then Inl (Errorf ''run_id is required'')
      else if TrimSpace (ap_OwnerID params) = [] then Inl (Errorf ''owner_id is required'')
      else if ap_TTL params \<le> 0 then Inl (Errorf ''ttl must be greater than zero'')
      else Inr ())"

definition leaseErrorToStatus :: "go_err \<Rightarrow> go_err" where
  "leaseErrorToStatus err =
     (if err_is err ErrLeaseConflict then Status FailedPrecondition (err_text err)
      else if err_is err ErrLeaseNotFound then Status NotFound (err_text err)
      else if contains (err_text err) ''is required'' \<or> contains (err_text err) ''greater than zero''
      then Status InvalidArgument (err_text err)
      else Status Internal (err_text err))"

section \<open>The gRPC handlers\<close>

record AcquireLeaseRequest =
  aq_session_key :: string
  aq_run_id :: string
  aq_owner_id :: string
  aq_ttl_seconds :: int

record LeaseProto =
  lp_lease_id :: string
  lp_session_key :: string
  lp_run_id :: string
  lp_owner_id :: string
  lp_ttl_seconds :: int
  lp_acquired_at :: instant
  lp_expires_at :: instant
  lp_fence_epoch :: int

definition leaseToProto :: "LeaseRecord \<Rightarrow> LeaseProto" where
  "leaseToProto r =
     \<lparr>lp_lease_id = lr_LeaseID r, lp_session_key = lr_SessionKey r, lp_run_id = lr_RunID r,
      lp_owner_id = lr_OwnerID r, lp_ttl_seconds = lr_TTLSeconds r,
      lp_acquired_at = lr_AcquiredAt r, lp_expires_at = lr_ExpiresAt r,
      lp_fence_epoch = lr_FenceEpoch r\<rparr>"

text \<open>\<^verbatim>\<open>time.Duration(req.GetTtlSeconds()) * time.Second\<close>, with the server's default for a
  non-positive product.\<close>

definition request_ttl :: "duration \<Rightarrow> int \<Rightarrow> duration" where
  "request_ttl dflt secs = (let ttl = wrap64 (secs * second) in if ttl \<le> 0 then dflt else ttl)"

definition Server_AcquireLease ::
  "(AcquireLeaseParams \<Rightarrow> 's \<Rightarrow> (go_err, LeaseRecord, 's) outcome) option \<Rightarrow> duration
     \<Rightarrow> AcquireLeaseRequest \<Rightarrow> 's \<Rightarrow> (go_err, LeaseProto, 's) outcome" where
  "Server_AcquireLease leases dflt req s =
     (case leases of
        None \<Rightarrow> (Inl (Status Unimplemented ''lease manager is not configured''), s)
      | Some acquire \<Rightarrow>
          (case acquire
             \<lparr>ap_SessionKey = TrimSpace (aq_session_key req), ap_RunID = TrimSpace (aq_run_id req),
              ap_OwnerID = TrimSpace (aq_owner_id req), ap_TTL = request_ttl dflt (aq_ttl_seconds req)\<rparr> s of
             (Inl e, s') \<Rightarrow> (Inl (leaseErrorToStatus e), s')
           | (Inr r, s') \<Rightarrow> (Inr (leaseToProto r), s')))"

definition Server_RenewLease ::
  "(string \<Rightarrow> duration \<Rightarrow> 's \<Rightarrow> (go_err, LeaseRecord, 's) outcome) option \<Rightarrow> duration
     \<Rightarrow> string \<Rightarrow> int \<Rightarrow> 's \<Rightarrow> (go_err, LeaseProto, 's) outcome" where
  "Server_RenewLease leases dflt lease_id ttl_seconds s =
     (case leases of
        None \<Rightarrow> (Inl (Status Unimplemented ''lease manager is not configured''), s)
      | Some renew \<Rightarrow>
          (case renew lease_id (request_ttl dflt ttl_seconds) s of
             (Inl e, s') \<Rightarrow> (Inl (leaseErrorToStatus e), s')
           | (Inr r, s') \<Rightarrow> (Inr (leaseToProto r), s')))"

definition Server_ReleaseLease ::
  "(string \<Rightarrow> 's \<Rightarrow> (go_err, bool, 's) outcome) option \<Rightarrow> string \<Rightarrow> 's \<Rightarrow> (go_err, bool, 's) outcome" where
  "Server_ReleaseLease leases lease_id s =
     (case leases of
        None \<Rightarrow> (Inl (Status Unimplemented ''lease manager is not configured''), s)
      | Some release \<Rightarrow>
          (case release lease_id s of
             (Inl e, s') \<Rightarrow> (Inl (leaseErrorToStatus e), s')
           | (Inr released, s') \<Rightarrow> (Inr released, s')))"

section \<open>The contract of a lease manager\<close>

text \<open>
  \<open>holder s now k\<close> is the live lease of session \<open>k\<close>: its identity, run and owner. A manager
  never displaces a live lease of another run or owner, reports the conflict without changing
  who holds anything, and what it grants is what it then reports as held. \<open>owns s now l\<close> is the
  session a lease identity denotes; releasing it frees that session and no other. The \<open>nonce\<close> of
  an acquisition is the randomness a manager may use for the identity it issues.
\<close>

locale lease_manager =
  fixes acquire :: "string \<Rightarrow> AcquireLeaseParams \<Rightarrow> instant \<Rightarrow> 's \<Rightarrow> (go_err, LeaseRecord, 's) outcome"
    and release :: "string \<Rightarrow> instant \<Rightarrow> 's \<Rightarrow> (go_err, bool, 's) outcome"
    and holder :: "'s \<Rightarrow> instant \<Rightarrow> string \<Rightarrow> (string \<times> string \<times> string) option"
    and owns :: "'s \<Rightarrow> instant \<Rightarrow> string \<Rightarrow> string option"
    and inv :: "'s \<Rightarrow> bool"
  assumes acquire_inv: "inv s \<Longrightarrow> acquire nonce p now s = (res, s') \<Longrightarrow> inv s'"
    and release_inv: "inv s \<Longrightarrow> release l now s = (res', s') \<Longrightarrow> inv s'"
    and acquire_conflict:
      "inv s \<Longrightarrow> validateAcquireLeaseParams p = Inr () \<Longrightarrow>
       holder s now (ap_SessionKey p) = Some (l, run, owner) \<Longrightarrow>
       (run, owner) \<noteq> (ap_RunID p, ap_OwnerID p) \<Longrightarrow> 1 \<le> duration_Milliseconds (ap_TTL p) \<Longrightarrow>
       \<exists>e. acquire nonce p now s = (Inl e, s) \<and> err_is e ErrLeaseConflict"
    and acquire_grants:
      "inv s \<Longrightarrow> acquire nonce p now s = (Inr r, s') \<Longrightarrow> 1 \<le> duration_Milliseconds (ap_TTL p) \<Longrightarrow>
       holder s' now (ap_SessionKey p) = Some (lr_LeaseID r, ap_RunID p, ap_OwnerID p) \<and>
       owns s' now (lr_LeaseID r) = Some (ap_SessionKey p)"
    and acquire_invalid:
      "validateAcquireLeaseParams p = Inl e \<Longrightarrow> acquire nonce p now s = (Inl e, s)"
    and acquire_frame:
      "inv s \<Longrightarrow> acquire nonce p now s = (res, s') \<Longrightarrow> k \<noteq> ap_SessionKey p \<Longrightarrow> holder s' t k = holder s t k"
    and release_frees:
      "inv s \<Longrightarrow> owns s now l = Some k \<Longrightarrow> release l now s = (res', s') \<Longrightarrow>
       res' = Inr True \<and> holder s' now k = None \<and> (\<forall>k' t. k' \<noteq> k \<longrightarrow> holder s' t k' = holder s t k')"
begin

lemma acquire_valid:
  "acquire nonce p now s = (Inr r, s') \<Longrightarrow> validateAcquireLeaseParams p = Inr ()"
  using acquire_invalid [of p _ nonce now s] by (cases "validateAcquireLeaseParams p") auto

text \<open>The server refuses a second run while the first one's lease lives, and says so with the
  status code of a failed precondition.\<close>

lemma server_acquire_exclusive:
  assumes "inv s"
    and first: "acquire nonce p now s = (Inr r, s')" and ttl: "1 \<le> duration_Milliseconds (ap_TTL p)"
    and live: "holder s' later (ap_SessionKey p) = holder s' now (ap_SessionKey p)"
    and key: "TrimSpace (aq_session_key req) = ap_SessionKey p"
    and run: "TrimSpace (aq_run_id req) \<noteq> []" "TrimSpace (aq_run_id req) \<noteq> ap_RunID p"
    and owner: "TrimSpace (aq_owner_id req) \<noteq> []"
    and secs: "1 \<le> aq_ttl_seconds req" "aq_ttl_seconds req \<le> 9000000000"
  shows "\<exists>msg. Server_AcquireLease (Some (\<lambda>q. acquire nonce' q later)) dflt req s' =
     (Inl (Status FailedPrecondition msg), s')"
proof -
  let ?q = "\<lparr>ap_SessionKey = TrimSpace (aq_session_key req), ap_RunID = TrimSpace (aq_run_id req),
    ap_OwnerID = TrimSpace (aq_owner_id req), ap_TTL = request_ttl dflt (aq_ttl_seconds req)\<rparr>"
  have inv': "inv s'" using \<open>inv s\<close> first by (rule acquire_inv)
  have "TrimSpace (ap_SessionKey p) \<noteq> []"
    using acquire_valid [OF first] by (auto simp: validateAcquireLeaseParams_def split: if_splits)
  moreover have ttl': "request_ttl dflt (aq_ttl_seconds req) = aq_ttl_seconds req * second"
    using secs by (simp add: request_ttl_def Let_def int64_defs)
  ultimately have valid: "validateAcquireLeaseParams ?q = Inr ()"
    using run owner secs by (simp add: validateAcquireLeaseParams_def key)
  have held: "holder s' later (ap_SessionKey ?q) = Some (lr_LeaseID r, ap_RunID p, ap_OwnerID p)"
    using acquire_grants [OF \<open>inv s\<close> first ttl] live key by simp
  have "1 \<le> duration_Milliseconds (ap_TTL ?q)"
    using secs by (simp add: ttl' duration_Milliseconds_def go_div_def sgn_if)
  then obtain e where "acquire nonce' ?q later s' = (Inl e, s')" and "err_is e ErrLeaseConflict"
    using acquire_conflict [OF inv' valid held] run by auto
  then show ?thesis by (auto simp: Server_AcquireLease_def leaseErrorToStatus_def)
qed

text \<open>A granted lease can be given back, after which the session is free.\<close>

lemma server_acquire_release:
  assumes "inv s" and "acquire nonce p now s = (Inr r, s')" and "1 \<le> duration_Milliseconds (ap_TTL p)"
    and "Server_ReleaseLease (Some (\<lambda>l. release l now)) (lr_LeaseID r) s' = (res, s'')"
  shows "res = Inr True \<and> holder s'' now (ap_SessionKey p) = None"
proof -
  have "inv s'" and "owns s' now (lr_LeaseID r) = Some (ap_SessionKey p)"
    using acquire_inv [OF assms(1,2)] acquire_grants [OF assms(1-3)] by simp_all
  with release_frees show ?thesis
    using assms(4) by (cases "release (lr_LeaseID r) now s'") (fastforce simp: Server_ReleaseLease_def)
qed

end

end
