(* ===== verification/LeasePg.thy ===== *)
theory LeasePg
  imports Lease
begin

text \<open>
  The durable lease manager (\<^verbatim>\<open>session/lease_postgres.go\<close>) and the revocation of leases by an
  owner control (\<^verbatim>\<open>session/control.go\<close>), as statements on \<^verbatim>\<open>session_ownership\<close>. The random lease
  identity is an argument of the acquisition. \<open>lease_step\<close> collects every statement that changes
  the table; the fence epoch of a session never decreases along it, which is what makes a
  superseded token unusable for good.
\<close>

section \<open>Statements\<close>

definition scanDurableLease :: "ownership_row \<Rightarrow> LeaseRecord" where
  "scanDurableLease r =
     \<lparr>lr_FenceEpoch = o_fence_epoch r, lr_LeaseID = o_lease_id r, lr_SessionKey = o_session_key r,
      lr_RunID = o_run_id r, lr_OwnerID = o_owner_id r,
      lr_TTLSeconds = go_div (time_Sub (o_expires_at r) (o_acquired_at r)) second,
      lr_AcquiredAt = o_acquired_at r, lr_ExpiresAt = o_expires_at r\<rparr>"

text \<open>The driver's errors for the two constraints the insert can violate.\<close>

definition ownership_fk_error :: go_err where
  "ownership_fk_error = PgError ''23503''
     ''insert or update on table \"session_ownership\" violates foreign key constraint \"session_ownership_session_key_fkey\"''"

definition ownership_unique_error :: go_err where
  "ownership_unique_error = PgError ''23505''
     ''duplicate key value violates unique constraint \"session_ownership_lease_id\"''"

text \<open>The row of the \<^verbatim>\<open>VALUES\<close> list, and the row \<^verbatim>\<open>DO UPDATE\<close> makes of an existing one.\<close>

definition new_lease_row :: "string \<Rightarrow> AcquireLeaseParams \<Rightarrow> instant \<Rightarrow> ownership_row" where
  "new_lease_row lid p now =
     \<lparr>o_session_key = ap_SessionKey p, o_lease_id = lid, o_run_id = ap_RunID p,
      o_owner_id = ap_OwnerID p, o_fence_epoch = 1, o_acquired_at = now,
      o_expires_at = now + duration_Milliseconds (ap_TTL p) * millisecond\<rparr>"

definition takeover_row :: "string \<Rightarrow> AcquireLeaseParams \<Rightarrow> instant \<Rightarrow> ownership_row \<Rightarrow> ownership_row" where
  "takeover_row lid p now old =
     old\<lparr>o_lease_id := lid, o_run_id := ap_RunID p, o_owner_id := ap_OwnerID p,
         o_fence_epoch := o_fence_epoch old + 1, o_acquired_at := now,
         o_expires_at := now + duration_Milliseconds (ap_TTL p) * millisecond\<rparr>"

text \<open>The partial unique index on \<^verbatim>\<open>lease_id\<close>: another session already has this identity.\<close>

definition lease_id_taken :: "string \<Rightarrow> string \<Rightarrow> ownership_row list \<Rightarrow> bool" where
  "lease_id_taken lid k rows \<longleftrightarrow> (\<exists>r \<in> set rows. o_lease_id r = lid \<and> o_session_key r \<noteq> k)"

definition pg_AcquireLease ::
  "string \<Rightarrow> AcquireLeaseParams \<Rightarrow> instant \<Rightarrow> kernel_db \<Rightarrow> (go_err, LeaseRecord, kernel_db) outcome" where
  "pg_AcquireLease lid p now db =
     (case validateAcquireLeaseParams p of
        Inl e \<Rightarrow> (Inl e, db)
      | Inr _ \<Rightarrow>
          (case tbl_find o_session_key (ap_SessionKey p) (ownership db) of
             None \<Rightarrow>
               if tbl_find s_session_key (ap_SessionKey p) (sessions db) = None
               then (Inl (Wrap ''acquire durable lease'' ownership_fk_error), db)
               else if lease_id_taken lid (ap_SessionKey p) (ownership db)
               then (Inl (Wrap ''acquire durable lease'' ownership_unique_error), db)
               else (Inr (scanDurableLease (new_lease_row lid p now)),
                     db\<lparr>ownership := ownership db @ [new_lease_row lid p now]\<rparr>)
           | Some old \<Rightarrow>
               if o_expires_at old \<le> now \<or> o_lease_id old = []
               then if lease_id_taken lid (ap_SessionKey p) (ownership db)
                    then (Inl (Wrap ''acquire durable lease'' ownership_unique_error), db)
                    else (Inr (scanDurableLease (takeover_row lid p now old)),
                          db\<lparr>ownership := tbl_update (\<lambda>r. o_session_key r = ap_SessionKey p)
                               (takeover_row lid p now) (ownership db)\<rparr>)
               else (Inl ErrLeaseConflict, db)))"

definition pg_RenewLease ::
  "string \<Rightarrow> duration \<Rightarrow> instant \<Rightarrow> kernel_db \<Rightarrow> (go_err, LeaseRecord, kernel_db) outcome" where
  "pg_RenewLease lid ttl now db =
     (if lid = [] \<or> ttl \<le> 0 then (Inl (Errorf ''lease_id and positive ttl required''), db)
      else let live = (\<lambda>r. o_lease_id r = lid \<and> now < o_expires_at r);
               extend = (\<lambda>r. r\<lparr>o_expires_at := now + duration_Milliseconds ttl * millisecond\<rparr>)
           in case first_row live (ownership db) of
                None \<Rightarrow> (Inl ErrLeaseNotFound, db)
              | Some r \<Rightarrow> (Inr (scanDurableLease (extend r)),
                           db\<lparr>ownership := tbl_update live extend (ownership db)\<rparr>))"

definition pg_ReleaseLease :: "string \<Rightarrow> instant \<Rightarrow> kernel_db \<Rightarrow> (go_err, bool, kernel_db) outcome" where
  "pg_ReleaseLease lid now db =
     (Inr (tbl_count (\<lambda>r. o_lease_id r = lid) (ownership db) = 1),
      db\<lparr>ownership := tbl_update (\<lambda>r. o_lease_id r = lid) (\<lambda>r. r\<lparr>o_lease_id := [], o_expires_at := now\<rparr>)
           (ownership db)\<rparr>)"

definition pg_GetLease :: "string \<Rightarrow> instant \<Rightarrow> kernel_db \<Rightarrow> go_err + LeaseRecord" where
  "pg_GetLease lid now db =
     (case first_row (\<lambda>r. o_lease_id r = lid \<and> now < o_expires_at r) (ownership db) of
        None \<Rightarrow> Inl ErrLeaseNotFound
      | Some r \<Rightarrow> Inr (scanDurableLease r))"

definition pg_ValidateLease :: "string \<Rightarrow> string \<Rightarrow> int \<Rightarrow> instant \<Rightarrow> kernel_db \<Rightarrow> go_err + LeaseRecord" where
  "pg_ValidateLease lid runID epoch now db =
     (case pg_GetLease lid now db of
        Inl e \<Rightarrow> Inl e
      | Inr r \<Rightarrow> if lr_RunID r \<noteq> runID \<or> lr_FenceEpoch r \<noteq> epoch then Inl ErrStale else Inr r)"

definition RevokeForControlTx :: "string list \<Rightarrow> instant \<Rightarrow> kernel_db \<Rightarrow> kernel_db" where
  "RevokeForControlTx taskIDs now db =
     db\<lparr>ownership := tbl_update
          (\<lambda>w. \<exists>r \<in> set (runs db). r_run_id r = o_run_id w \<and>
                (case r_task_id r of None \<Rightarrow> False | Some t \<Rightarrow> t \<in> set taskIDs))
          (\<lambda>w. w\<lparr>o_lease_id := [], o_fence_epoch := o_fence_epoch w + 1, o_expires_at := now\<rparr>)
          (ownership db)\<rparr>"

section \<open>Steps and invariant\<close>

inductive lease_step :: "kernel_db \<Rightarrow> kernel_db \<Rightarrow> bool" where
  step_acquire: "lid \<noteq> [] \<Longrightarrow> pg_AcquireLease lid p now db = (res, db') \<Longrightarrow> lease_step db db'"
| step_renew: "pg_RenewLease l ttl now db = (res, db') \<Longrightarrow> lease_step db db'"
| step_release: "pg_ReleaseLease l now db = (res', db') \<Longrightarrow> lease_step db db'"
| step_revoke: "lease_step db (RevokeForControlTx taskIDs now db)"

inductive_cases lease_stepE: "lease_step db db'"

text \<open>One row per session, and no lease identity names two sessions.\<close>

definition lease_ids_unique :: "ownership_row list \<Rightarrow> bool" where
  "lease_ids_unique rows \<longleftrightarrow>
     (\<forall>r \<in> set rows. \<forall>r' \<in> set rows.
        o_lease_id r \<noteq> [] \<and> o_lease_id r = o_lease_id r' \<longrightarrow> o_session_key r = o_session_key r')"

definition lease_inv :: "kernel_db \<Rightarrow> bool" where
  "lease_inv db \<longleftrightarrow> keyed o_session_key (ownership db) \<and> lease_ids_unique (ownership db)"

definition fence_epoch :: "kernel_db \<Rightarrow> string \<Rightarrow> int option" where
  "fence_epoch db k = map_option o_fence_epoch (tbl_find o_session_key k (ownership db))"

definition epoch_obs :: "kernel_db \<Rightarrow> string \<Rightarrow> int" where
  "epoch_obs db k = (case fence_epoch db k of None \<Rightarrow> 0 | Some e \<Rightarrow> e)"

definition pg_holder :: "kernel_db \<Rightarrow> instant \<Rightarrow> string \<Rightarrow> (string \<times> string \<times> string) option" where
  "pg_holder db now k =
     (case tbl_find o_session_key k (ownership db) of
        None \<Rightarrow> None
      | Some r \<Rightarrow> if o_lease_id r \<noteq> [] \<and> now < o_expires_at r
                  then Some (o_lease_id r, o_run_id r, o_owner_id r) else None)"

definition pg_owns :: "kernel_db \<Rightarrow> instant \<Rightarrow> string \<Rightarrow> string option" where
  "pg_owns db now l =
     (if l = [] then None
      else map_option o_session_key (first_row (\<lambda>r. o_lease_id r = l) (ownership db)))"

text \<open>The ways an acquisition ends.\<close>

lemma pg_AcquireLease_cases:
  assumes "pg_AcquireLease lid p now db = (res, db')"
  obtains (refused) e where "res = Inl e" and "db' = db"
  | (created) "validateAcquireLeaseParams p = Inr ()"
      "tbl_find o_session_key (ap_SessionKey p) (ownership db) = None"
      "\<not> lease_id_taken lid (ap_SessionKey p) (ownership db)"
      "res = Inr (scanDurableLease (new_lease_row lid p now))"
      "db' = db\<lparr>ownership := ownership db @ [new_lease_row lid p now]\<rparr>"
  | (taken_over) old where "validateAcquireLeaseParams p = Inr ()"
      "tbl_find o_session_key (ap_SessionKey p) (ownership db) = Some old"
      "o_expires_at old \<le> now \<or> o_lease_id old = []"
      "\<not> lease_id_taken lid (ap_SessionKey p) (ownership db)"
      "res = Inr (scanDurableLease (takeover_row lid p now old))"
      "db' = db\<lparr>ownership := tbl_update (\<lambda>r. o_session_key r = ap_SessionKey p)
         (takeover_row lid p now) (ownership db)\<rparr>"
proof (cases "validateAcquireLeaseParams p")
  case (Inl e)
  with assms show ?thesis by (intro refused) (auto simp: pg_AcquireLease_def)
next
  case (Inr u)
  show ?thesis
  proof (cases "tbl_find o_session_key (ap_SessionKey p) (ownership db)")
    case None
    with Inr assms show ?thesis
      by (auto simp: pg_AcquireLease_def intro: refused created split: if_splits)
  next
    case (Some old)
    with Inr assms show ?thesis
      by (auto simp: pg_AcquireLease_def intro: refused taken_over split: if_splits)
  qed
qed

lemma takeover_row_simps [simp]:
  "o_session_key (takeover_row lid p now old) = o_session_key old"
  "o_lease_id (takeover_row lid p now old) = lid"
  "o_fence_epoch (takeover_row lid p now old) = o_fence_epoch old + 1"
  "o_run_id (takeover_row lid p now old) = ap_RunID p"
  "o_owner_id (takeover_row lid p now old) = ap_OwnerID p"
  "o_expires_at (takeover_row lid p now old) = now + duration_Milliseconds (ap_TTL p) * millisecond"
  by (simp_all add: takeover_row_def)

lemma new_lease_row_simps [simp]:
  "o_session_key (new_lease_row lid p now) = ap_SessionKey p"
  "o_lease_id (new_lease_row lid p now) = lid"
  "o_fence_epoch (new_lease_row lid p now) = 1"
  "o_run_id (new_lease_row lid p now) = ap_RunID p"
  "o_owner_id (new_lease_row lid p now) = ap_OwnerID p"
  "o_expires_at (new_lease_row lid p now) = now + duration_Milliseconds (ap_TTL p) * millisecond"
  by (simp_all add: new_lease_row_def)

lemma scanDurableLease_simps [simp]:
  "lr_FenceEpoch (scanDurableLease r) = o_fence_epoch r"
  "lr_LeaseID (scanDurableLease r) = o_lease_id r"
  "lr_SessionKey (scanDurableLease r) = o_session_key r"
  "lr_RunID (scanDurableLease r) = o_run_id r"
  "lr_ExpiresAt (scanDurableLease r) = o_expires_at r"
  by (simp_all add: scanDurableLease_def)

lemma found_key: "tbl_find o_session_key k rows = Some r \<Longrightarrow> o_session_key r = k"
  using tbl_find_SomeD by fast

text \<open>What an acquisition does to the row of each session.\<close>

lemma acquire_row:
  assumes "pg_AcquireLease lid p now db = (Inr r, db')"
  obtains row where "tbl_find o_session_key (ap_SessionKey p) (ownership db') = Some row"
    and "r = scanDurableLease row" and "o_lease_id row = lid"
    and "o_run_id row = ap_RunID p" and "o_owner_id row = ap_OwnerID p"
    and "o_expires_at row = now + duration_Milliseconds (ap_TTL p) * millisecond"
    and "o_fence_epoch row = epoch_obs db (ap_SessionKey p) + 1"
  using assms
proof (cases rule: pg_AcquireLease_cases)
  case created
  show ?thesis
  proof (rule that [of "new_lease_row lid p now"])
    show "tbl_find o_session_key (ap_SessionKey p) (ownership db') = Some (new_lease_row lid p now)"
      using created(2,5) by (simp add: tbl_find_snoc)
    show "r = scanDurableLease (new_lease_row lid p now)" using created(4) by simp
    show "o_fence_epoch (new_lease_row lid p now) = epoch_obs db (ap_SessionKey p) + 1"
      using created(2) by (simp add: epoch_obs_def fence_epoch_def)
  qed simp_all
next
  case (taken_over old)
  show ?thesis
  proof (rule that [of "takeover_row lid p now old"])
    have "o_session_key old = ap_SessionKey p" using taken_over(2) by (rule found_key)
    then show "tbl_find o_session_key (ap_SessionKey p) (ownership db') = Some (takeover_row lid p now old)"
      using taken_over(2,6) by (simp add: tbl_find_update)
    show "r = scanDurableLease (takeover_row lid p now old)" using taken_over(5) by simp
    show "o_fence_epoch (takeover_row lid p now old) = epoch_obs db (ap_SessionKey p) + 1"
      using taken_over(2) by (simp add: epoch_obs_def fence_epoch_def)
  qed simp_all
qed simp

lemma acquire_other_row:
  assumes "pg_AcquireLease lid p now db = (res, db')" and "k \<noteq> ap_SessionKey p"
  shows "tbl_find o_session_key k (ownership db') = tbl_find o_session_key k (ownership db)"
  using assms(1)
proof (cases rule: pg_AcquireLease_cases)
  case created
  with assms(2) show ?thesis by (simp add: tbl_find_snoc split: option.split)
next
  case (taken_over old)
  with assms(2) show ?thesis
    by (cases "tbl_find o_session_key k (ownership db)") (simp_all add: tbl_find_update found_key)
qed simp

text \<open>A key-preserving update that lowers no epoch.\<close>

lemma epoch_obs_update:
  assumes "\<And>r. o_session_key (f r) = o_session_key r" and "\<And>r. o_fence_epoch r \<le> o_fence_epoch (f r)"
  shows "epoch_obs db k \<le> epoch_obs (db\<lparr>ownership := tbl_update q f (ownership db)\<rparr>) k"
  using assms by (simp add: epoch_obs_def fence_epoch_def tbl_find_update split: option.split)

lemma epoch_obs_step: "lease_step db db' \<Longrightarrow> epoch_obs db k \<le> epoch_obs db' k"
proof (induction rule: lease_step.induct)
  case (step_acquire lid p now db res db')
  show ?case
  proof (cases "k = ap_SessionKey p")
    case False
    with step_acquire(2) show ?thesis by (simp add: acquire_other_row epoch_obs_def fence_epoch_def)
  next
    case True
    show ?thesis
    proof (cases res)
      case (Inl e)
      with step_acquire(2) have "db' = db" by (auto elim: pg_AcquireLease_cases)
      then show ?thesis by simp
    next
      case (Inr r)
      with step_acquire(2) obtain row
        where "tbl_find o_session_key (ap_SessionKey p) (ownership db') = Some row"
          and "o_fence_epoch row = epoch_obs db (ap_SessionKey p) + 1"
        by (blast elim: acquire_row)
      then have "epoch_obs db' (ap_SessionKey p) = epoch_obs db (ap_SessionKey p) + 1"
        by (simp add: epoch_obs_def [of db'] fence_epoch_def)
      with True show ?thesis by simp
    qed
  qed
next
  case (step_renew l ttl now db res db')
  then show ?case
    by (auto simp: pg_RenewLease_def Let_def epoch_obs_update split: if_splits option.splits)
next
  case (step_release l now db res' db')
  then show ?case by (auto simp: pg_ReleaseLease_def epoch_obs_update)
next
  case (step_revoke db taskIDs now)
  then show ?case by (simp add: RevokeForControlTx_def epoch_obs_update)
qed

lemma lease_ids_uniqueD:
  "lease_ids_unique rows \<Longrightarrow> r \<in> set rows \<Longrightarrow> r' \<in> set rows \<Longrightarrow> o_lease_id r \<noteq> [] \<Longrightarrow>
     o_lease_id r = o_lease_id r' \<Longrightarrow> o_session_key r = o_session_key r'"
  unfolding lease_ids_unique_def by blast

lemma lease_ids_unique_update:
  assumes uniq: "lease_ids_unique rows"
    and key: "\<And>r. o_session_key (f r) = o_session_key r"
    and lid: "\<And>r. o_lease_id (f r) = [] \<or> o_lease_id (f r) = o_lease_id r"
  shows "lease_ids_unique (tbl_update q f rows)"
  unfolding lease_ids_unique_def set_tbl_update
proof (intro ballI impI, elim imageE)
  fix x y r r'
  assume *: "o_lease_id x \<noteq> [] \<and> o_lease_id x = o_lease_id y"
    and x: "x = (if q r then f r else r)" and r: "r \<in> set rows"
    and y: "y = (if q r' then f r' else r')" and r': "r' \<in> set rows"
  have "o_lease_id x = o_lease_id r" using * x lid [of r] by (cases "q r") auto
  moreover have "o_lease_id y = o_lease_id r'" using * y lid [of r'] by (cases "q r'") auto
  ultimately have "o_lease_id r \<noteq> []" and "o_lease_id r = o_lease_id r'" using * by metis+
  then have "o_session_key r = o_session_key r'" by (rule lease_ids_uniqueD [OF uniq r r'])
  moreover have "o_session_key x = o_session_key r" unfolding x using key by simp
  moreover have "o_session_key y = o_session_key r'" unfolding y using key by simp
  ultimately show "o_session_key x = o_session_key y" by metis
qed

lemma lease_inv_update:
  assumes "lease_inv db"
    and "\<And>r. o_session_key (f r) = o_session_key r"
    and "\<And>r. o_lease_id (f r) = [] \<or> o_lease_id (f r) = o_lease_id r"
  shows "lease_inv (db\<lparr>ownership := tbl_update q f (ownership db)\<rparr>)"
  using assms(1) keyed_tbl_update [of q o_session_key f "ownership db"] assms(2)
    lease_ids_unique_update [of "ownership db" f q, OF _ assms(2,3)]
  by (simp add: lease_inv_def)

lemma lease_inv_acquire:
  assumes inv: "lease_inv db" and "pg_AcquireLease lid p now db = (res, db')"
  shows "lease_inv db'"
  using assms(2)
proof (cases rule: pg_AcquireLease_cases)
  case (refused e)
  with inv show ?thesis by simp
next
  case created
  then have "lease_ids_unique (ownership db @ [new_lease_row lid p now])"
    using inv unfolding lease_inv_def lease_ids_unique_def lease_id_taken_def by auto
  with created inv show ?thesis by (simp add: lease_inv_def keyed_snoc)
next
  case (taken_over old)
  let ?f = "\<lambda>r. if o_session_key r = ap_SessionKey p then takeover_row lid p now r else r"
  have "o_session_key (?f r) = o_session_key (?f r')"
    if r: "r \<in> set (ownership db)" and r': "r' \<in> set (ownership db)"
      and "o_lease_id (?f r) \<noteq> [] \<and> o_lease_id (?f r) = o_lease_id (?f r')" for r r'
    using that taken_over(4) lease_ids_uniqueD [OF _ r r', of] inv
    unfolding lease_id_taken_def lease_inv_def by (auto split: if_splits)
  then have "\<forall>r \<in> ?f ` set (ownership db). \<forall>r' \<in> ?f ` set (ownership db).
      o_lease_id r \<noteq> [] \<and> o_lease_id r = o_lease_id r' \<longrightarrow> o_session_key r = o_session_key r'"
    by blast
  moreover have "set (ownership db') = ?f ` set (ownership db)"
    unfolding taken_over(6) by (simp add: tbl_update_def)
  ultimately have "lease_ids_unique (ownership db')" unfolding lease_ids_unique_def by (simp only:)
  with inv taken_over(6) show ?thesis by (simp add: lease_inv_def keyed_tbl_update)
qed

lemma lease_inv_release:
  "lease_inv db \<Longrightarrow> pg_ReleaseLease l now db = (res, db') \<Longrightarrow> lease_inv db'"
  by (auto simp: pg_ReleaseLease_def intro: lease_inv_update)

lemma lease_inv_step: "lease_step db db' \<Longrightarrow> lease_inv db \<Longrightarrow> lease_inv db'"
proof (induction rule: lease_step.induct)
  case (step_acquire lid p now db res db')
  then show ?case by (blast intro: lease_inv_acquire)
next
  case (step_renew l ttl now db res db')
  then show ?case
    by (auto simp: pg_RenewLease_def Let_def intro: lease_inv_update split: if_splits option.splits)
next
  case (step_release l now db res' db')
  then show ?case by (blast intro: lease_inv_release)
next
  case (step_revoke db taskIDs now)
  then show ?case by (simp add: RevokeForControlTx_def lease_inv_update)
qed

definition no_leases :: "kernel_db \<Rightarrow> bool" where
  "no_leases db \<longleftrightarrow> ownership db = []"

interpretation fence: monotone_system no_leases lease_step lease_inv epoch_obs
proof
  show "lease_inv s" if "no_leases s" for s
    using that by (simp add: no_leases_def lease_inv_def lease_ids_unique_def)
  show "lease_inv t" if "lease_inv s" "lease_step s t" for s t
    using that lease_inv_step by blast
  show "epoch_obs s k \<le> epoch_obs t k" if "lease_inv s" "lease_step s t" for s t k
    using that epoch_obs_step by blast
qed

section \<open>The durable manager meets the contract\<close>

lemma lease_owner:
  assumes inv: "lease_inv db" and owns: "pg_owns db now l = Some k"
  obtains r where "l \<noteq> []" and "tbl_find o_session_key k (ownership db) = Some r" and "o_lease_id r = l"
    and "\<forall>r' \<in> set (ownership db). o_lease_id r' = l \<longleftrightarrow> o_session_key r' = k"
proof -
  from owns obtain r where l: "l \<noteq> []" and r: "r \<in> set (ownership db)" "o_lease_id r = l"
    and k: "o_session_key r = k"
    by (auto simp: pg_owns_def dest: first_row_SomeD split: if_splits)
  have found: "tbl_find o_session_key k (ownership db) = Some r"
    using inv r(1) k by (auto simp: lease_inv_def dest: tbl_find_keyed)
  have "o_lease_id r' = l \<longleftrightarrow> o_session_key r' = k" if "r' \<in> set (ownership db)" for r'
    using that inv r l k unfolding lease_inv_def by (metis keyed_eq lease_ids_uniqueD)
  with l found r(2) show thesis using that by blast
qed

lemma pg_acquire_grants:
  assumes inv: "lease_inv db" and acq: "pg_AcquireLease lid p now db = (Inr r, db')" and "lid \<noteq> []"
    and ttl: "1 \<le> duration_Milliseconds (ap_TTL p)"
  shows "pg_holder db' now (ap_SessionKey p) = Some (lr_LeaseID r, ap_RunID p, ap_OwnerID p) \<and>
    pg_owns db' now (lr_LeaseID r) = Some (ap_SessionKey p)"
proof -
  obtain row where row: "tbl_find o_session_key (ap_SessionKey p) (ownership db') = Some row"
    and r: "r = scanDurableLease row" and lid: "o_lease_id row = lid"
    and rest: "o_run_id row = ap_RunID p" "o_owner_id row = ap_OwnerID p"
      "o_expires_at row = now + duration_Milliseconds (ap_TTL p) * millisecond"
    using acq by (rule acquire_row)
  have inv': "lease_inv db'" using inv acq by (rule lease_inv_acquire)
  have mem: "row \<in> set (ownership db')" and key: "o_session_key row = ap_SessionKey p"
    using tbl_find_SomeD [OF row] by simp_all
  obtain row' where row': "first_row (\<lambda>r. o_lease_id r = lid) (ownership db') = Some row'"
    using mem lid first_row_None_iff [of "\<lambda>r. o_lease_id r = lid" "ownership db'"]
    by (cases "first_row (\<lambda>r. o_lease_id r = lid) (ownership db')") auto
  then have "row' \<in> set (ownership db')" and "o_lease_id row' = lid"
    by (blast dest: first_row_SomeD)+
  then have "o_session_key row' = o_session_key row"
    using lease_ids_uniqueD [of "ownership db'" row' row] inv' mem lid \<open>lid \<noteq> []\<close>
    by (simp add: lease_inv_def)
  then have "pg_owns db' now lid = Some (ap_SessionKey p)"
    using row' key \<open>lid \<noteq> []\<close> by (simp add: pg_owns_def)
  moreover have "pg_holder db' now (ap_SessionKey p) = Some (lid, ap_RunID p, ap_OwnerID p)"
    using row rest lid ttl \<open>lid \<noteq> []\<close> by (simp add: pg_holder_def)
  ultimately show ?thesis using r lid by simp
qed

lemma pg_release_frees:
  assumes inv: "lease_inv db" and owns: "pg_owns db now l = Some k"
    and rel: "pg_ReleaseLease l now db = (res, db')"
  shows "res = Inr True \<and> pg_holder db' now k = None \<and>
    (\<forall>k' t. k' \<noteq> k \<longrightarrow> pg_holder db' t k' = pg_holder db t k')"
proof -
  obtain r where l: "l \<noteq> []" and found: "tbl_find o_session_key k (ownership db) = Some r"
    and lid: "o_lease_id r = l"
    and only: "\<forall>r' \<in> set (ownership db). o_lease_id r' = l \<longleftrightarrow> o_session_key r' = k"
    using inv owns by (rule lease_owner)
  have "tbl_count (\<lambda>r. o_lease_id r = l) (ownership db) = tbl_count (\<lambda>r. o_session_key r = k \<and> True) (ownership db)"
    unfolding tbl_count_def using only
    by (intro arg_cong [of _ _ length] filter_cong) simp_all
  moreover have "\<dots> \<le> 1"
    using tbl_count_keyed [of o_session_key "ownership db" k "\<lambda>_. True"] inv by (simp add: lease_inv_def)
  moreover have "tbl_count (\<lambda>r. o_lease_id r = l) (ownership db) \<noteq> 0"
    using tbl_find_SomeD [OF found] lid by (auto simp: tbl_count_0_iff)
  ultimately have "tbl_count (\<lambda>r. o_lease_id r = l) (ownership db) = 1" by linarith
  moreover have find: "tbl_find o_session_key k' (ownership db') =
      map_option (\<lambda>r. if o_lease_id r = l then r\<lparr>o_lease_id := [], o_expires_at := now\<rparr> else r)
        (tbl_find o_session_key k' (ownership db))" for k'
    using rel by (auto simp: pg_ReleaseLease_def tbl_find_update)
  moreover have "pg_holder db' now k = None" using found lid by (simp add: pg_holder_def find)
  moreover have "pg_holder db' t k' = pg_holder db t k'" if "k' \<noteq> k" for k' t
    using that only by (cases "tbl_find o_session_key k' (ownership db)")
      (auto simp: pg_holder_def find dest: tbl_find_SomeD)
  ultimately show ?thesis using rel by (auto simp: pg_ReleaseLease_def)
qed

interpretation pg: lease_manager "\<lambda>hex. pg_AcquireLease (''lease-'' @ hex)" pg_ReleaseLease pg_holder pg_owns lease_inv
proof
  fix hex s s' now t p res res' l run owner r k e
  show "lease_inv s'" if "lease_inv s" "pg_AcquireLease (''lease-'' @ hex) p now s = (res, s')"
    using that by (rule lease_inv_acquire)
  show "lease_inv s'" if "lease_inv s" "pg_ReleaseLease l now s = (res', s')"
    using that by (rule lease_inv_release)
  show "\<exists>e. pg_AcquireLease (''lease-'' @ hex) p now s = (Inl e, s) \<and> err_is e ErrLeaseConflict"
    if "validateAcquireLeaseParams p = Inr ()" "pg_holder s now (ap_SessionKey p) = Some (l, run, owner)"
    using that by (auto simp: pg_AcquireLease_def pg_holder_def ErrLeaseConflict_def split: option.splits if_splits)
  show "pg_AcquireLease (''lease-'' @ hex) p now s = (Inl e, s)" if "validateAcquireLeaseParams p = Inl e"
    using that by (simp add: pg_AcquireLease_def)
  show "pg_holder s' t k = pg_holder s t k"
    if "pg_AcquireLease (''lease-'' @ hex) p now s = (res, s')" "k \<noteq> ap_SessionKey p"
    using acquire_other_row [OF that] by (simp add: pg_holder_def)
  show "pg_holder s' now (ap_SessionKey p) = Some (lr_LeaseID r, ap_RunID p, ap_OwnerID p) \<and>
      pg_owns s' now (lr_LeaseID r) = Some (ap_SessionKey p)"
    if "lease_inv s" "pg_AcquireLease (''lease-'' @ hex) p now s = (Inr r, s')"
      "1 \<le> duration_Milliseconds (ap_TTL p)"
    using that(1,2) _ that(3) by (rule pg_acquire_grants) simp
  show "res' = Inr True \<and> pg_holder s' now k = None \<and>
      (\<forall>k' t. k' \<noteq> k \<longrightarrow> pg_holder s' t k' = pg_holder s t k')"
    if "lease_inv s" "pg_owns s now l = Some k" "pg_ReleaseLease l now s = (res', s')"
    using that by (rule pg_release_frees)
qed

section \<open>Properties\<close>

lemma token_valid_epoch: "token_valid tok t db \<Longrightarrow> epoch_obs db (tok_SessionKey tok) = tok_FenceEpoch tok"
  by (auto simp: token_valid_def epoch_obs_def fence_epoch_def split: option.splits)

text \<open>Once the epoch of its session has passed a token, the token fails every later check.\<close>

lemma passed_token_stale:
  assumes "lease_inv db" and "tok_FenceEpoch tok < epoch_obs db (tok_SessionKey tok)"
    and "lease_step\<^sup>*\<^sup>* db db'"
  shows "\<not> token_valid tok t db'"
  using fence.obs_steps [OF assms(3,1), of "tok_SessionKey tok"] assms(2) token_valid_epoch [of tok t db']
  by linarith

lemma stale_token_refused:
  assumes "\<not> token_valid tok t db" and "2 \<le> conns"
  shows "own_Begin (WithToken conns tok) t db = Inl ErrStale"
    and "fenced_tx (WithToken conns tok) t t' body db = (Inl ErrStale, db)"
  using assms by (simp_all add: own_Begin_def WithToken_def fenced_tx_def BeginTransaction_def)

lemma acquire_raises_epoch:
  assumes "pg_AcquireLease lid p now db = (Inr r, db')"
  shows "epoch_obs db' (ap_SessionKey p) = epoch_obs db (ap_SessionKey p) + 1"
proof -
  obtain row where "tbl_find o_session_key (ap_SessionKey p) (ownership db') = Some row"
    and "o_fence_epoch row = epoch_obs db (ap_SessionKey p) + 1"
    using assms by (rule acquire_row)
  then show ?thesis by (simp add: epoch_obs_def [of db'] fence_epoch_def)
qed

text \<open>C1. A worker that lost its session is fenced off for good: once another acquisition of the
  session succeeds, the old worker's token is refused by the guard and by every fenced
  transaction, whatever lease operations follow and whatever the clock shows, and the refused
  transaction leaves the database as it was.\<close>

theorem superseded_token_is_stale_forever:
  assumes "lease_inv db" and "token_valid tok t0 db"
    and "pg_AcquireLease lid p now db = (Inr r, db1)" and "ap_SessionKey p = tok_SessionKey tok"
    and "lease_step\<^sup>*\<^sup>* db1 db2" and "2 \<le> conns"
  shows "own_Begin (WithToken conns tok) t db2 = Inl ErrStale \<and>
    fenced_tx (WithToken conns tok) t t' body db2 = (Inl ErrStale, db2)"
proof -
  have "lease_inv db1" using assms(1,3) by (rule lease_inv_acquire)
  moreover have "tok_FenceEpoch tok < epoch_obs db1 (tok_SessionKey tok)"
    using token_valid_epoch [OF assms(2)] acquire_raises_epoch [OF assms(3)] assms(4) by simp
  ultimately have "\<not> token_valid tok t db2" using assms(5) by (rule passed_token_stale)
  with assms(6) show ?thesis by (simp add: stale_token_refused)
qed

text \<open>A session whose lease ran out at 100 and is taken over at 150.\<close>

definition demo_row :: ownership_row where
  "demo_row = \<lparr>o_session_key = ''s'', o_lease_id = ''lease-1'', o_run_id = ''r1'', o_owner_id = ''w1'',
     o_fence_epoch = 4, o_acquired_at = 10, o_expires_at = 100\<rparr>"

definition demo_db :: kernel_db where
  "demo_db = \<lparr>sessions = [], ownership = [demo_row], runs = [], transitions = [], inputs = [], stopped = []\<rparr>"

definition demo_token :: Token where
  "demo_token = \<lparr>tok_SessionKey = ''s'', tok_RunID = ''r1'', tok_LeaseID = ''lease-1'', tok_FenceEpoch = 4\<rparr>"

definition demo_params :: AcquireLeaseParams where
  "demo_params = \<lparr>ap_SessionKey = ''s'', ap_RunID = ''r2'', ap_OwnerID = ''w2'', ap_TTL = second\<rparr>"

lemmas demo_defs = demo_row_def demo_db_def demo_token_def demo_params_def

lemma TrimSpace_demo [simp]:
  "TrimSpace ''s'' = ''s''" "TrimSpace ''r2'' = ''r2''" "TrimSpace ''w2'' = ''w2''"
  by (simp_all add: TrimSpace_def strip.simps space_encodings_def starts_def)

lemma demo_inv: "lease_inv demo_db"
  by (simp add: lease_inv_def lease_ids_unique_def demo_defs)

lemma demo_acquire:
  "\<exists>r db1. pg_AcquireLease ''lease-2'' demo_params 150 demo_db = (Inr r, db1)"
  by (simp add: pg_AcquireLease_def validateAcquireLeaseParams_def lease_id_taken_def demo_defs)

theorem superseded_token_is_stale_forever_witness:
  "\<exists>db2. own_Begin (WithToken 2 demo_token) 50 db2 = Inl ErrStale \<and>
    fenced_tx (WithToken 2 demo_token) 50 50 (\<lambda>_ db. (Inr (), db\<lparr>runs := []\<rparr>)) db2 = (Inl ErrStale, db2) \<and>
    db2 \<noteq> demo_db"
proof -
  obtain r db1 where acq: "pg_AcquireLease ''lease-2'' demo_params 150 demo_db = (Inr r, db1)"
    using demo_acquire by blast
  have "token_valid demo_token 50 demo_db" by (simp add: token_valid_def demo_defs)
  moreover have "ap_SessionKey demo_params = tok_SessionKey demo_token" by (simp add: demo_defs)
  ultimately have "own_Begin (WithToken 2 demo_token) 50 db1 = Inl ErrStale \<and>
    fenced_tx (WithToken 2 demo_token) 50 50 (\<lambda>_ db. (Inr (), db\<lparr>runs := []\<rparr>)) db1 = (Inl ErrStale, db1)"
    by (intro superseded_token_is_stale_forever [OF demo_inv _ acq _ rtranclp.rtrancl_refl]) simp_all
  moreover have "db1 \<noteq> demo_db" using acquire_raises_epoch [OF acq] by auto
  ultimately show ?thesis by blast
qed

lemma revoke_passes_token:
  assumes "token_valid tok t0 db" and "run \<in> set (runs db)" and "r_run_id run = tok_RunID tok"
    and "r_task_id run = Some task" and "task \<in> set taskIDs"
  shows "tok_FenceEpoch tok < epoch_obs (RevokeForControlTx taskIDs now db) (tok_SessionKey tok)"
proof -
  obtain row where row: "tbl_find o_session_key (tok_SessionKey tok) (ownership db) = Some row"
    and "o_run_id row = tok_RunID tok" and epoch: "o_fence_epoch row = tok_FenceEpoch tok"
    using assms(1) by (auto simp: token_valid_def split: option.splits)
  then have "\<exists>r \<in> set (runs db). r_run_id r = o_run_id row \<and>
      (case r_task_id r of None \<Rightarrow> False | Some t \<Rightarrow> t \<in> set taskIDs)"
    using assms(2-5) by auto
  with row epoch show ?thesis
    by (simp add: epoch_obs_def fence_epoch_def RevokeForControlTx_def tbl_find_update)
qed

text \<open>An owner control that revokes the leases of a task's runs fences their workers off for
  good in the same way, even though no other run has acquired the session.\<close>

theorem revoked_token_is_stale_forever:
  assumes "lease_inv db" and "token_valid tok t0 db"
    and "run \<in> set (runs db)" and "r_run_id run = tok_RunID tok"
    and "r_task_id run = Some task" and "task \<in> set taskIDs"
    and "lease_step\<^sup>*\<^sup>* (RevokeForControlTx taskIDs now db) db2" and "2 \<le> conns"
  shows "own_Begin (WithToken conns tok) t db2 = Inl ErrStale \<and>
    fenced_tx (WithToken conns tok) t t' body db2 = (Inl ErrStale, db2)"
proof -
  have "lease_inv (RevokeForControlTx taskIDs now db)" using step_revoke assms(1) by (rule lease_inv_step)
  then have "\<not> token_valid tok t db2"
    using revoke_passes_token [OF assms(2-6)] assms(7) by (rule passed_token_stale)
  with assms(8) show ?thesis by (simp add: stale_token_refused)
qed

definition demo_run :: run_row where
  "demo_run = \<lparr>r_run_id = ''r1'', r_session_key = ''s'', r_input_event_id = ''e'', r_idempotency_key = None,
     r_status = ''acquired'', r_autonomy_mode = [], r_current_state = ''acquired'', r_model_provider = [],
     r_provider_session_ref = None, r_lease_id = Some ''lease-1'', r_resumes_run_id = None,
     r_started_at = 5, r_updated_at = 10, r_finished_at = None, r_error_type = None,
     r_error_message = None, r_metadata_json = JObj [], r_task_id = Some ''t'', r_task_revision = Some 1\<rparr>"

theorem revoked_token_is_stale_forever_witness:
  "own_Begin (WithToken 2 demo_token) 50 (RevokeForControlTx [''t''] 40 (demo_db\<lparr>runs := [demo_run]\<rparr>)) = Inl ErrStale \<and>
   fenced_tx (WithToken 2 demo_token) 50 50 (\<lambda>_ db. (Inr (), db))
     (RevokeForControlTx [''t''] 40 (demo_db\<lparr>runs := [demo_run]\<rparr>)) =
   (Inl ErrStale, RevokeForControlTx [''t''] 40 (demo_db\<lparr>runs := [demo_run]\<rparr>))"
proof (rule revoked_token_is_stale_forever [OF _ _ _ _ _ _ rtranclp.rtrancl_refl])
  show "lease_inv (demo_db\<lparr>runs := [demo_run]\<rparr>)" using demo_inv by (simp add: lease_inv_def)
  show "token_valid demo_token 50 (demo_db\<lparr>runs := [demo_run]\<rparr>)" by (simp add: token_valid_def demo_defs)
  show "demo_run \<in> set (runs (demo_db\<lparr>runs := [demo_run]\<rparr>))" by simp
qed (simp_all add: demo_run_def demo_defs)

text \<open>C2. The gRPC server over the durable manager grants a session to one run at a time: while a
  granted lease is unexpired, a well-formed request of another run is answered with
  FailedPrecondition and changes nothing.\<close>

theorem durable_lease_is_exclusive:
  assumes "lease_inv db" and "pg_AcquireLease (''lease-'' @ hex) p now db = (Inr r, db')"
    and "1 \<le> duration_Milliseconds (ap_TTL p)" and "later < lr_ExpiresAt r"
    and "TrimSpace (aq_session_key req) = ap_SessionKey p"
    and "TrimSpace (aq_run_id req) \<noteq> []" and "TrimSpace (aq_run_id req) \<noteq> ap_RunID p"
    and "TrimSpace (aq_owner_id req) \<noteq> []"
    and "1 \<le> aq_ttl_seconds req" and "aq_ttl_seconds req \<le> 9000000000"
  shows "\<exists>msg. Server_AcquireLease (Some (\<lambda>q. pg_AcquireLease (''lease-'' @ hex') q later)) dflt req db' =
    (Inl (Status FailedPrecondition msg), db')"
proof -
  obtain row where row: "tbl_find o_session_key (ap_SessionKey p) (ownership db') = Some row"
    and "r = scanDurableLease row"
    and exp: "o_expires_at row = now + duration_Milliseconds (ap_TTL p) * millisecond"
    using assms(2) by (rule acquire_row)
  then have "later < o_expires_at row" and "now < o_expires_at row" using assms(3,4) by simp_all
  with row have "pg_holder db' later (ap_SessionKey p) = pg_holder db' now (ap_SessionKey p)"
    by (simp add: pg_holder_def)
  with assms show ?thesis
    by (intro pg.server_acquire_exclusive [of db hex p now r db']) simp_all
qed

theorem durable_lease_is_exclusive_witness:
  "\<exists>db' msg. Server_AcquireLease (Some (\<lambda>q. pg_AcquireLease (''lease-'' @ ''3'') q 200)) second
     \<lparr>aq_session_key = ''s'', aq_run_id = ''r9'', aq_owner_id = ''w9'', aq_ttl_seconds = 30\<rparr> db' =
    (Inl (Status FailedPrecondition msg), db') \<and> ownership db' \<noteq> []"
proof -
  obtain r db1 where acq: "pg_AcquireLease (''lease-'' @ ''2'') demo_params 150 demo_db = (Inr r, db1)"
    using demo_acquire by auto
  have trim: "TrimSpace ''r9'' = ''r9''" "TrimSpace ''w9'' = ''w9''"
    by (simp_all add: TrimSpace_def strip.simps space_encodings_def starts_def)
  have ms: "duration_Milliseconds (ap_TTL demo_params) = 1000"
    by (simp add: duration_Milliseconds_def go_div_def demo_defs)
  obtain row where row: "tbl_find o_session_key (ap_SessionKey demo_params) (ownership db1) = Some row"
    and r: "r = scanDurableLease row"
    and exp: "o_expires_at row = 150 + duration_Milliseconds (ap_TTL demo_params) * millisecond"
    using acq by (rule acquire_row)
  have "\<exists>msg. Server_AcquireLease (Some (\<lambda>q. pg_AcquireLease (''lease-'' @ ''3'') q 200)) second
      \<lparr>aq_session_key = ''s'', aq_run_id = ''r9'', aq_owner_id = ''w9'', aq_ttl_seconds = 30\<rparr> db1 =
      (Inl (Status FailedPrecondition msg), db1)"
    using demo_inv acq by (rule durable_lease_is_exclusive) (simp_all add: trim ms r exp, simp_all add: demo_defs)
  moreover have "ownership db1 \<noteq> []" using row by auto
  ultimately show ?thesis by blast
qed

text \<open>Acquiring a lease and releasing it through the gRPC server is a round trip: the release
  reports success and the session has no holder afterwards.\<close>

theorem durable_lease_release_round_trip:
  assumes "lease_inv db" and "pg_AcquireLease (''lease-'' @ hex) p now db = (Inr r, db')"
    and "1 \<le> duration_Milliseconds (ap_TTL p)"
    and "Server_ReleaseLease (Some (\<lambda>l. pg_ReleaseLease l now)) (lr_LeaseID r) db' = (res, db'')"
  shows "res = Inr True \<and> pg_holder db'' now (ap_SessionKey p) = None"
  using assms by (rule pg.server_acquire_release)

theorem durable_lease_release_round_trip_witness:
  "\<exists>(r :: LeaseRecord) db' db''. Server_ReleaseLease (Some (\<lambda>l. pg_ReleaseLease l 150)) (lr_LeaseID r) db' = (Inr True, db'') \<and>
     pg_holder db' 150 ''s'' = Some (lr_LeaseID r, ''r2'', ''w2'') \<and> pg_holder db'' 150 ''s'' = None"
proof -
  obtain r db1 where acq: "pg_AcquireLease (''lease-'' @ ''2'') demo_params 150 demo_db = (Inr r, db1)"
    using demo_acquire by auto
  obtain res db2 where rel: "Server_ReleaseLease (Some (\<lambda>l. pg_ReleaseLease l 150)) (lr_LeaseID r) db1 = (res, db2)"
    by fastforce
  have ms: "1 \<le> duration_Milliseconds (ap_TTL demo_params)"
    by (simp add: duration_Milliseconds_def go_div_def demo_defs)
  have "pg_holder db1 150 (ap_SessionKey demo_params) = Some (lr_LeaseID r, ap_RunID demo_params, ap_OwnerID demo_params)"
    using pg.acquire_grants [OF demo_inv acq ms] by blast
  then have "pg_holder db1 150 ''s'' = Some (lr_LeaseID r, ''r2'', ''w2'')" by (simp add: demo_params_def)
  moreover have "res = Inr True \<and> pg_holder db2 150 ''s'' = None"
    using durable_lease_release_round_trip [OF demo_inv acq ms rel] by (simp add: demo_params_def)
  ultimately show ?thesis
    using rel by (intro exI [of _ r] exI [of _ db1] exI [of _ db2]) simp
qed

text \<open>A renewal without a lease identity is reported as an internal error, although it is the
  client's argument that is missing: the text of the durable manager's validation error matches
  none of the patterns the status translation looks for.\<close>

theorem renew_without_id_is_reported_internal:
  "Server_RenewLease (Some (\<lambda>l ttl. pg_RenewLease l ttl now)) dflt [] secs db =
     (Inl (Status Internal ''lease_id and positive ttl required''), db)"
proof -
  have "\<not> contains ''lease_id and positive ttl required'' ''is required''"
    and "\<not> contains ''lease_id and positive ttl required'' ''greater than zero''"
    by simp_all
  then show ?thesis
    by (simp add: Server_RenewLease_def pg_RenewLease_def leaseErrorToStatus_def
        ErrLeaseConflict_def ErrLeaseNotFound_def del: contains.simps)
qed

end
