(* ===== verification/Run.thy ===== *)
theory Run
  imports RunState GoTime LeasePg
begin

text \<open>
  The run service (\<^verbatim>\<open>apps/orchestrator/internal/run\<close>): the repository's statements on \<^verbatim>\<open>runs\<close> and
  \<^verbatim>\<open>run_state_transitions\<close> (\<^verbatim>\<open>store.go\<close>, \<^verbatim>\<open>transitions.go\<close>), the service that validates requests
  and drives the state machine (\<^verbatim>\<open>service.go\<close>), and the statements other components run inside
  their own transactions (\<^verbatim>\<open>completion.go\<close>, \<^verbatim>\<open>control.go\<close>, \<^verbatim>\<open>interaction.go\<close>, \<^verbatim>\<open>preparation.go\<close>).
  Every clock reading and the random suffix of a run identity are arguments; \<^verbatim>\<open>clock_timestamp()\<close>
  is read once per statement. Records keep their timestamps as instants instead of text.
\<close>

section \<open>Records and rows\<close>

definition ErrRunNotFound :: go_err where
  "ErrRunNotFound = Sentinel ''run not found''"

definition ErrSessionNotFound :: go_err where
  "ErrSessionNotFound = Sentinel ''session not found''"

definition ErrRunDuplicate :: go_err where
  "ErrRunDuplicate = Sentinel ''run already exists for idempotency key''"

record Record =
  rec_RunID :: string
  rec_SessionKey :: string
  rec_InputEventID :: string
  rec_IdempotencyKey :: string
  rec_Status :: string
  rec_AutonomyMode :: string
  rec_CurrentState :: string
  rec_ModelProvider :: string
  rec_ProviderSessionRef :: string
  rec_LeaseID :: string
  rec_ResumesRunID :: string
  rec_StartedAt :: instant
  rec_UpdatedAt :: instant
  rec_FinishedAt :: "instant option"
  rec_ErrorType :: string
  rec_ErrorMessage :: string
  rec_MetadataJSON :: string

record UpdateParams =
  up_RunID :: string
  up_CurrentState :: string
  up_NextState :: string
  up_Status :: string
  up_LeaseID :: string
  up_ErrorType :: string
  up_ErrorMessage :: string
  up_FinishedAt :: "instant option"
  up_UpdatedAt :: instant

definition nullString :: "string \<Rightarrow> string option" where
  "nullString value = (if value = [] then None else Some value)"

definition coalesce :: "string option \<Rightarrow> string" where
  "coalesce v = (case v of None \<Rightarrow> [] | Some s \<Rightarrow> s)"

definition normalizeJSON :: "string \<Rightarrow> string" where
  "normalizeJSON value = (if value = [] then ''{}'' else value)"

definition scanRunRow :: "jsonb_codec \<Rightarrow> run_row \<Rightarrow> Record" where
  "scanRunRow J r =
     \<lparr>rec_RunID = r_run_id r, rec_SessionKey = r_session_key r, rec_InputEventID = r_input_event_id r,
      rec_IdempotencyKey = coalesce (r_idempotency_key r), rec_Status = r_status r,
      rec_AutonomyMode = r_autonomy_mode r, rec_CurrentState = r_current_state r,
      rec_ModelProvider = r_model_provider r,
      rec_ProviderSessionRef = coalesce (r_provider_session_ref r),
      rec_LeaseID = coalesce (r_lease_id r), rec_ResumesRunID = coalesce (r_resumes_run_id r),
      rec_StartedAt = r_started_at r, rec_UpdatedAt = r_updated_at r,
      rec_FinishedAt = r_finished_at r, rec_ErrorType = coalesce (r_error_type r),
      rec_ErrorMessage = coalesce (r_error_message r), rec_MetadataJSON = jb_out J (r_metadata_json r)\<rparr>"

fun isForeignKeyViolation :: "go_err \<Rightarrow> bool" where
  "isForeignKeyViolation (PgError code msg) \<longleftrightarrow> code = ''23503''"
| "isForeignKeyViolation (Wrap s e) \<longleftrightarrow> isForeignKeyViolation e"
| "isForeignKeyViolation (Detail e s) \<longleftrightarrow> isForeignKeyViolation e"
| "isForeignKeyViolation e \<longleftrightarrow> False"

fun isUniqueViolation :: "go_err \<Rightarrow> bool" where
  "isUniqueViolation (PgError code msg) \<longleftrightarrow> code = ''23505''"
| "isUniqueViolation (Wrap s e) \<longleftrightarrow> isUniqueViolation e"
| "isUniqueViolation (Detail e s) \<longleftrightarrow> isUniqueViolation e"
| "isUniqueViolation e \<longleftrightarrow> False"

section \<open>The repository\<close>

text \<open>The row the insert builds, and the insert with the checks PostgreSQL makes in this order:
  the cast of the metadata, the two unique indexes, the reference to the session.\<close>

definition inserted_run :: "Record \<Rightarrow> json \<Rightarrow> run_row" where
  "inserted_run rec meta =
     \<lparr>r_run_id = rec_RunID rec, r_session_key = rec_SessionKey rec,
      r_input_event_id = rec_InputEventID rec, r_idempotency_key = nullString (rec_IdempotencyKey rec),
      r_status = rec_Status rec, r_autonomy_mode = rec_AutonomyMode rec,
      r_current_state = rec_CurrentState rec, r_model_provider = rec_ModelProvider rec,
      r_provider_session_ref = nullString (rec_ProviderSessionRef rec),
      r_lease_id = nullString (rec_LeaseID rec), r_resumes_run_id = nullString (rec_ResumesRunID rec),
      r_started_at = rec_StartedAt rec, r_updated_at = rec_UpdatedAt rec,
      r_finished_at = rec_FinishedAt rec, r_error_type = nullString (rec_ErrorType rec),
      r_error_message = nullString (rec_ErrorMessage rec), r_metadata_json = meta,
      r_task_id = None, r_task_revision = None\<rparr>"

definition same_idempotency_key :: "run_row \<Rightarrow> run_row \<Rightarrow> bool" where
  "same_idempotency_key r r' \<longleftrightarrow>
     r_session_key r = r_session_key r' \<and> r_idempotency_key r \<noteq> None \<and>
     r_idempotency_key r = r_idempotency_key r'"

definition insert_run :: "jsonb_codec \<Rightarrow> Record \<Rightarrow> kernel_db \<Rightarrow> (go_err, run_row, kernel_db) outcome" where
  "insert_run J rec db =
     (case jb_in J (normalizeJSON (rec_MetadataJSON rec)) of
        None \<Rightarrow> (Inl jsonb_syntax_error, db)
      | Some meta \<Rightarrow>
          let row = inserted_run rec meta in
          if tbl_find r_run_id (r_run_id row) (runs db) \<noteq> None
          then (Inl (PgError ''23505'' ''duplicate key value violates unique constraint \"runs_pkey\"''), db)
          else if \<exists>r \<in> set (runs db). same_idempotency_key r row
          then (Inl (PgError ''23505''
                 ''duplicate key value violates unique constraint \"idx_runs_session_idempotency_key\"''), db)
          else if tbl_find s_session_key (r_session_key row) (sessions db) = None
          then (Inl (PgError ''23503''
                 ''insert or update on table \"runs\" violates foreign key constraint \"runs_session_key_fkey\"''), db)
          else (Inr row, db\<lparr>runs := runs db @ [row]\<rparr>))"

definition repo_CreateRun :: "jsonb_codec \<Rightarrow> Record \<Rightarrow> kernel_db \<Rightarrow> (go_err, Record, kernel_db) outcome" where
  "repo_CreateRun J rec db =
     (case insert_run J rec db of
        (Inr row, db') \<Rightarrow> (Inr (scanRunRow J row), db')
      | (Inl e, db') \<Rightarrow>
          (Inl (if isForeignKeyViolation e then ErrSessionNotFound
                else if isUniqueViolation e then ErrRunDuplicate
                else Wrap ''create run'' e), db'))"

definition repo_GetRun :: "jsonb_codec \<Rightarrow> string \<Rightarrow> kernel_db \<Rightarrow> go_err + Record" where
  "repo_GetRun J runID db =
     (case tbl_find r_run_id runID (runs db) of
        None \<Rightarrow> Inl ErrRunNotFound
      | Some r \<Rightarrow> Inr (scanRunRow J r))"

definition repo_FindRunByIdempotencyKey ::
  "jsonb_codec \<Rightarrow> string \<Rightarrow> string \<Rightarrow> kernel_db \<Rightarrow> go_err + Record" where
  "repo_FindRunByIdempotencyKey J sessionKey idempotencyKey db =
     (case first_row (\<lambda>r. r_session_key r = sessionKey \<and> r_idempotency_key r = Some idempotencyKey) (runs db) of
        None \<Rightarrow> Inl ErrRunNotFound
      | Some r \<Rightarrow> Inr (scanRunRow J r))"

text \<open>The guarded update: nothing happens unless the run is still in the state the caller saw.\<close>

definition updated_run :: "UpdateParams \<Rightarrow> run_row \<Rightarrow> run_row" where
  "updated_run p r =
     r\<lparr>r_status := up_Status p, r_current_state := up_NextState p, r_lease_id := nullString (up_LeaseID p),
       r_error_type := nullString (up_ErrorType p), r_error_message := nullString (up_ErrorMessage p),
       r_finished_at := up_FinishedAt p, r_updated_at := up_UpdatedAt p\<rparr>"

definition repo_UpdateRun ::
  "jsonb_codec \<Rightarrow> exec_ctx \<Rightarrow> instant \<Rightarrow> UpdateParams \<Rightarrow> kernel_db \<Rightarrow> (go_err, Record, kernel_db) outcome" where
  "repo_UpdateRun J ctx guard_at p db =
     (case own_Begin ctx guard_at db of
        Inl e \<Rightarrow> (Inl e, db)
      | Inr _ \<Rightarrow>
          let sel = (\<lambda>r. r_run_id r = up_RunID p \<and> r_current_state r = up_CurrentState p)
          in case first_row sel (runs db) of
               None \<Rightarrow> (Inl ErrRunNotFound, db)
             | Some r \<Rightarrow> (Inr (scanRunRow J (updated_run p r)),
                          db\<lparr>runs := tbl_update sel (updated_run p) (runs db)\<rparr>))"

definition repo_UpdateProviderSessionRef ::
  "jsonb_codec \<Rightarrow> exec_ctx \<Rightarrow> instant \<Rightarrow> string \<Rightarrow> string \<Rightarrow> instant \<Rightarrow> kernel_db
     \<Rightarrow> (go_err, Record, kernel_db) outcome" where
  "repo_UpdateProviderSessionRef J ctx guard_at runID ref updatedAt db =
     (case own_Begin ctx guard_at db of
        Inl e \<Rightarrow> (Inl e, db)
      | Inr _ \<Rightarrow>
          let sel = (\<lambda>r. r_run_id r = runID);
              upd = (\<lambda>r. r\<lparr>r_provider_session_ref := nullString ref, r_updated_at := updatedAt\<rparr>)
          in case first_row sel (runs db) of
               None \<Rightarrow> (Inl ErrRunNotFound, db)
             | Some r \<Rightarrow> (Inr (scanRunRow J (upd r)), db\<lparr>runs := tbl_update sel upd (runs db)\<rparr>))"

text \<open>Rows with equal \<^verbatim>\<open>started_at\<close> come in table order; SQL leaves their order open.\<close>

definition repo_ListRunsBySessionKey :: "jsonb_codec \<Rightarrow> string \<Rightarrow> kernel_db \<Rightarrow> Record list" where
  "repo_ListRunsBySessionKey J sessionKey db =
     map (scanRunRow J)
       (sort_key (\<lambda>r. - r_started_at r) (filter (\<lambda>r. r_session_key r = sessionKey) (runs db)))"

section \<open>The transition log\<close>

record StateTransition =
  st_RunID :: string
  st_FromState :: string
  st_ToState :: string
  st_TriggeredBy :: string
  st_MetadataJSON :: string
  st_TransitionedAt :: instant

definition transition_fk_error :: go_err where
  "transition_fk_error = PgError ''23503''
     ''insert or update on table \"run_state_transitions\" violates foreign key constraint \"run_state_transitions_run_id_fkey\"''"

definition InsertTransition ::
  "jsonb_codec \<Rightarrow> exec_ctx \<Rightarrow> instant \<Rightarrow> StateTransition \<Rightarrow> kernel_db \<Rightarrow> (go_err, unit, kernel_db) outcome" where
  "InsertTransition J ctx guard_at t db =
     (case own_Begin ctx guard_at db of
        Inl e \<Rightarrow> (Inl e, db)
      | Inr _ \<Rightarrow>
          (case jb_in J (normalizeJSON (st_MetadataJSON t)) of
             None \<Rightarrow> (Inl (Wrap ''insert state transition'' jsonb_syntax_error), db)
           | Some meta \<Rightarrow>
               if tbl_find r_run_id (st_RunID t) (runs db) = None
               then (Inl (Wrap ''insert state transition'' transition_fk_error), db)
               else (Inr (), db\<lparr>transitions := transitions db @
                      [\<lparr>t_run_id = st_RunID t, t_from_state = st_FromState t, t_to_state = st_ToState t,
                        t_triggered_by = st_TriggeredBy t, t_metadata = meta,
                        t_transitioned_at = st_TransitionedAt t\<rparr>]\<rparr>)))"

text \<open>The table lists rows by ascending serial number, so a stable sort by time is the query's
  order. The serial number itself is not part of the model.\<close>

definition ListTransitions :: "jsonb_codec \<Rightarrow> string \<Rightarrow> kernel_db \<Rightarrow> StateTransition list" where
  "ListTransitions J runID db =
     map (\<lambda>t. \<lparr>st_RunID = t_run_id t, st_FromState = t_from_state t, st_ToState = t_to_state t,
            st_TriggeredBy = t_triggered_by t, st_MetadataJSON = jb_out J (t_metadata t),
            st_TransitionedAt = t_transitioned_at t\<rparr>)
       (sort_key t_transitioned_at (filter (\<lambda>t. t_run_id t = runID) (transitions db)))"

section \<open>Requests and their validation\<close>

record InputEvent =
  ie_event_id :: string
  ie_idempotency_key :: string

record CreateRunRequest =
  cq_session_key :: string
  cq_input_event :: "InputEvent option"
  cq_autonomy_mode :: proto_enum
  cq_model_provider :: string
  cq_resumes_run_id :: string
  cq_metadata_json :: string

record UpdateRunStateRequest =
  ur_run_id :: string
  ur_from_state :: proto_enum
  ur_to_state :: proto_enum
  ur_lease_id :: string
  ur_error_type :: proto_enum
  ur_error_message :: string
  ur_finished_at :: string

record RunRecord =
  rp_run_id :: string
  rp_session_key :: string
  rp_input_event_id :: string
  rp_status :: string
  rp_autonomy_mode :: proto_enum
  rp_current_state :: proto_enum
  rp_model_provider :: string
  rp_provider_session_ref :: string
  rp_lease_id :: string
  rp_resumes_run_id :: string
  rp_started_at :: instant
  rp_updated_at :: instant
  rp_finished_at :: "instant option"
  rp_error_type :: proto_enum
  rp_error_message :: string
  rp_metadata_json :: string

record createParams =
  cp_SessionKey :: string
  cp_InputEventID :: string
  cp_IdempotencyKey :: string
  cp_AutonomyMode :: string
  cp_ModelProvider :: string
  cp_ResumesRunID :: string
  cp_MetadataJSON :: string

record transitionParams =
  tp_RunID :: string
  tp_FromState :: string
  tp_ToState :: string
  tp_LeaseID :: string
  tp_ErrorType :: string
  tp_ErrorMessage :: string
  tp_FinishedAt :: "instant option"

definition validateCreateRunRequest :: "CreateRunRequest \<Rightarrow> go_err + createParams" where
  "validateCreateRunRequest req =
     (if TrimSpace (cq_session_key req) = [] then Inl (Errorf ''session_key is required'')
      else case cq_input_event req of
        None \<Rightarrow> Inl (Errorf ''input_event is required'')
      | Some ev \<Rightarrow>
          if TrimSpace (ie_event_id ev) = [] then Inl (Errorf ''input_event.event_id is required'')
          else if TrimSpace (cq_model_provider req) = [] then Inl (Errorf ''model_provider is required'')
          else case ProtoToAutonomyModeString (cq_autonomy_mode req) of
            Inl e \<Rightarrow> Inl e
          | Inr mode \<Rightarrow>
              Inr \<lparr>cp_SessionKey = TrimSpace (cq_session_key req),
                   cp_InputEventID = TrimSpace (ie_event_id ev),
                   cp_IdempotencyKey = TrimSpace (ie_idempotency_key ev),
                   cp_AutonomyMode = mode,
                   cp_ModelProvider = TrimSpace (cq_model_provider req),
                   cp_ResumesRunID = TrimSpace (cq_resumes_run_id req),
                   cp_MetadataJSON = TrimSpace (cq_metadata_json req)\<rparr>)"

definition parseFinishedAt :: "string \<Rightarrow> go_err + instant option" where
  "parseFinishedAt value =
     (let value = TrimSpace value in
      if value = [] then Inr None
      else case parse_RFC3339Nano value of
        None \<Rightarrow> Inl (Errorf ''finished_at must be RFC3339'')
      | Some t \<Rightarrow> Inr (Some t))"

definition validateTransitionRequest :: "UpdateRunStateRequest \<Rightarrow> go_err + transitionParams" where
  "validateTransitionRequest req =
     (if TrimSpace (ur_run_id req) = [] then Inl (Errorf ''run_id is required'')
      else case ProtoToRunState (ur_from_state req) of
        Inl e \<Rightarrow> Inl e
      | Inr fromState \<Rightarrow>
          (case ProtoToRunState (ur_to_state req) of
             Inl e \<Rightarrow> Inl e
           | Inr toState \<Rightarrow>
               (case parseFinishedAt (ur_finished_at req) of
                  Inl e \<Rightarrow> Inl e
                | Inr finishedAt \<Rightarrow>
                    if finishedAt \<noteq> None \<and> \<not> IsTerminalRunState toState
                    then Inl (Errorf ''finished_at is only allowed for terminal states'')
                    else case (if ur_error_type req \<noteq> 0 then ProtoToErrorClassString (ur_error_type req) else Inr []) of
                      Inl e \<Rightarrow> Inl e
                    | Inr errorType \<Rightarrow>
                        Inr \<lparr>tp_RunID = TrimSpace (ur_run_id req), tp_FromState = fromState,
                             tp_ToState = toState, tp_LeaseID = TrimSpace (ur_lease_id req),
                             tp_ErrorType = errorType, tp_ErrorMessage = TrimSpace (ur_error_message req),
                             tp_FinishedAt = finishedAt\<rparr>)))"

definition recordToProto :: "Record \<Rightarrow> RunRecord" where
  "recordToProto r =
     \<lparr>rp_run_id = rec_RunID r, rp_session_key = rec_SessionKey r, rp_input_event_id = rec_InputEventID r,
      rp_status = rec_Status r, rp_autonomy_mode = AutonomyModeStringToProto (rec_AutonomyMode r),
      rp_current_state = RunStateStringToProto (rec_CurrentState r),
      rp_model_provider = rec_ModelProvider r, rp_provider_session_ref = rec_ProviderSessionRef r,
      rp_lease_id = rec_LeaseID r, rp_resumes_run_id = rec_ResumesRunID r,
      rp_started_at = rec_StartedAt r, rp_updated_at = rec_UpdatedAt r,
      rp_finished_at = rec_FinishedAt r, rp_error_type = ErrorClassStringToProto (rec_ErrorType r),
      rp_error_message = rec_ErrorMessage r, rp_metadata_json = rec_MetadataJSON r\<rparr>"

text \<open>\<^verbatim>\<open>UnixNano\<close> counts from 1 January 1970. The random suffix is \<open>None\<close> when the random source
  fails.\<close>

definition UnixNano :: "instant \<Rightarrow> int" where
  "UnixNano t = wrap64 (t - 62135596800 * second)"

definition newRunID :: "string option \<Rightarrow> instant \<Rightarrow> string" where
  "newRunID sfx now =
     (case sfx of
        None \<Rightarrow> ''run-'' @ show_int (UnixNano now)
      | Some hex \<Rightarrow> ''run-'' @ show_int (UnixNano now) @ ''-'' @ hex)"

section \<open>The service\<close>

definition new_record :: "string option \<Rightarrow> instant \<Rightarrow> createParams \<Rightarrow> Record" where
  "new_record sfx now p =
     \<lparr>rec_RunID = newRunID sfx now, rec_SessionKey = cp_SessionKey p,
      rec_InputEventID = cp_InputEventID p, rec_IdempotencyKey = cp_IdempotencyKey p,
      rec_Status = RunStateCreated, rec_AutonomyMode = cp_AutonomyMode p,
      rec_CurrentState = RunStateCreated, rec_ModelProvider = cp_ModelProvider p,
      rec_ProviderSessionRef = [], rec_LeaseID = [], rec_ResumesRunID = cp_ResumesRunID p,
      rec_StartedAt = now, rec_UpdatedAt = now, rec_FinishedAt = None, rec_ErrorType = [],
      rec_ErrorMessage = [], rec_MetadataJSON = cp_MetadataJSON p\<rparr>"

definition svc_CreateRun ::
  "jsonb_codec \<Rightarrow> string option \<Rightarrow> instant \<Rightarrow> CreateRunRequest \<Rightarrow> kernel_db
     \<Rightarrow> (go_err, RunRecord, kernel_db) outcome" where
  "svc_CreateRun J sfx now req db =
     (case validateCreateRunRequest req of
        Inl e \<Rightarrow> (Inl e, db)
      | Inr p \<Rightarrow>
          (case repo_CreateRun J (new_record sfx now p) db of
             (Inr r, db') \<Rightarrow> (Inr (recordToProto r), db')
           | (Inl e, db') \<Rightarrow>
               if cp_IdempotencyKey p \<noteq> [] \<and> e = ErrRunDuplicate
               then (case repo_FindRunByIdempotencyKey J (cp_SessionKey p) (cp_IdempotencyKey p) db' of
                       Inl e' \<Rightarrow> (Inl e', db')
                     | Inr dup \<Rightarrow> (Inr (recordToProto dup), db'))
               else (Inl e, db')))"

definition svc_FindRunByIdempotencyKey ::
  "jsonb_codec \<Rightarrow> string \<Rightarrow> string \<Rightarrow> kernel_db \<Rightarrow> go_err + RunRecord" where
  "svc_FindRunByIdempotencyKey J sessionKey idempotencyKey db =
     map_sum (\<lambda>e. e) recordToProto
       (repo_FindRunByIdempotencyKey J (TrimSpace sessionKey) (TrimSpace idempotencyKey) db)"

definition svc_GetRun :: "jsonb_codec \<Rightarrow> string \<Rightarrow> kernel_db \<Rightarrow> go_err + RunRecord" where
  "svc_GetRun J runID db = map_sum (\<lambda>e. e) recordToProto (repo_GetRun J (TrimSpace runID) db)"

definition PersistProviderSessionRef ::
  "jsonb_codec \<Rightarrow> exec_ctx \<Rightarrow> instant \<Rightarrow> instant \<Rightarrow> string \<Rightarrow> string \<Rightarrow> kernel_db
     \<Rightarrow> (go_err, RunRecord, kernel_db) outcome" where
  "PersistProviderSessionRef J ctx guard_at now runID ref db =
     (if TrimSpace runID = [] then (Inl (Errorf ''run_id is required''), db)
      else case repo_UpdateProviderSessionRef J ctx guard_at (TrimSpace runID) (TrimSpace ref) now db of
        (Inl e, db') \<Rightarrow> (Inl e, db')
      | (Inr r, db') \<Rightarrow> (Inr (recordToProto r), db'))"

definition svc_ListRunsBySessionKey :: "jsonb_codec \<Rightarrow> string \<Rightarrow> kernel_db \<Rightarrow> go_err + RunRecord list" where
  "svc_ListRunsBySessionKey J sessionKey db =
     (if TrimSpace sessionKey = [] then Inl (Errorf ''session_key is required'')
      else Inr (map recordToProto (repo_ListRunsBySessionKey J (TrimSpace sessionKey) db)))"

definition update_of :: "transitionParams \<Rightarrow> instant option \<Rightarrow> instant \<Rightarrow> UpdateParams" where
  "update_of p finishedAt now =
     \<lparr>up_RunID = tp_RunID p, up_CurrentState = tp_FromState p, up_NextState = tp_ToState p,
      up_Status = tp_ToState p, up_LeaseID = tp_LeaseID p, up_ErrorType = tp_ErrorType p,
      up_ErrorMessage = tp_ErrorMessage p, up_FinishedAt = finishedAt, up_UpdatedAt = now\<rparr>"

definition TransitionRun ::
  "jsonb_codec \<Rightarrow> exec_ctx \<Rightarrow> instant \<Rightarrow> instant \<Rightarrow> instant \<Rightarrow> UpdateRunStateRequest \<Rightarrow> kernel_db
     \<Rightarrow> (go_err, RunRecord, kernel_db) outcome" where
  "TransitionRun J ctx finished_now now guard_at req db =
     (case validateTransitionRequest req of
        Inl e \<Rightarrow> (Inl e, db)
      | Inr p \<Rightarrow>
          (case ValidateRunStateTransition (tp_FromState p) (tp_ToState p) of
             Inl e \<Rightarrow> (Inl e, db)
           | Inr _ \<Rightarrow>
               let finishedAt = (if tp_FinishedAt p = None \<and> IsTerminalRunState (tp_ToState p)
                                 then Some finished_now else tp_FinishedAt p)
               in case repo_UpdateRun J ctx guard_at (update_of p finishedAt now) db of
                    (Inl e, db') \<Rightarrow> (Inl e, db')
                  | (Inr r, db') \<Rightarrow> (Inr (recordToProto r), db')))"

end
