(* ===== verification/RunTx.thy ===== *)
theory RunTx
  imports Run
begin

text \<open>
  The statements other components run on \<^verbatim>\<open>runs\<close> inside their own transactions: completion of
  a finalizing run (\<^verbatim>\<open>completion.go\<close>), failure and cancellation by the kernel or the owner
  (\<^verbatim>\<open>control.go\<close>), the wait for an interaction (\<^verbatim>\<open>interaction.go\<close>) and the recovery of prepared
  runs (\<^verbatim>\<open>preparation.go\<close>). Row locks are not modelled: a transaction is one step.
\<close>

section \<open>Completion\<close>

record CompletionState =
  cs_TaskID :: string
  cs_TaskRevision :: int
  cs_State :: string

definition LockCompletionTx ::
  "exec_ctx \<Rightarrow> string \<Rightarrow> string \<Rightarrow> kernel_db \<Rightarrow> go_err + CompletionState" where
  "LockCompletionTx ctx runID sessionKey db =
     (case TokenFromContext ctx of
        None \<Rightarrow> Inl ErrStale
      | Some token \<Rightarrow>
          if tok_RunID token \<noteq> runID \<or> tok_SessionKey token \<noteq> sessionKey then Inl ErrStale
          else case tbl_find r_run_id runID (runs db) of
            None \<Rightarrow> Inl ErrNoRows
          | Some r \<Rightarrow>
              if r_session_key r \<noteq> sessionKey \<or> coalesce (r_lease_id r) \<noteq> tok_LeaseID token \<or>
                 r_current_state r \<noteq> RunStateFinalizing
              then Inl (Detail ErrStale ''run is not owned finalizing execution'')
              else Inr \<lparr>cs_TaskID = coalesce (r_task_id r),
                        cs_TaskRevision = (case r_task_revision r of None \<Rightarrow> 0 | Some n \<Rightarrow> n),
                        cs_State = r_current_state r\<rparr>)"

definition log_transition ::
  "string \<Rightarrow> string \<Rightarrow> string \<Rightarrow> string \<Rightarrow> json \<Rightarrow> instant \<Rightarrow> transition_row" where
  "log_transition run from to by meta at =
     \<lparr>t_run_id = run, t_from_state = from, t_to_state = to, t_triggered_by = by, t_metadata = meta,
      t_transitioned_at = at\<rparr>"

definition CompleteTx ::
  "exec_ctx \<Rightarrow> string \<Rightarrow> instant \<Rightarrow> kernel_db \<Rightarrow> (go_err, unit, kernel_db) outcome" where
  "CompleteTx ctx runID at db =
     (case TokenFromContext ctx of
        None \<Rightarrow> (Inl ErrStale, db)
      | Some token \<Rightarrow>
          if tok_RunID token \<noteq> runID then (Inl ErrStale, db)
          else
            let sel = (\<lambda>r. r_run_id r = runID \<and> r_current_state r = RunStateFinalizing \<and>
                           r_session_key r = tok_SessionKey token \<and> r_lease_id r = Some (tok_LeaseID token));
                upd = (\<lambda>r. r\<lparr>r_status := RunStateCompleted, r_current_state := RunStateCompleted,
                             r_finished_at := Some at, r_updated_at := at\<rparr>);
                db' = db\<lparr>runs := tbl_update sel upd (runs db)\<rparr>
            in if tbl_count sel (runs db) \<noteq> 1 then (Inl (Errorf ''completion state changed''), db')
               else (Inr (), db'\<lparr>transitions := transitions db @
                       [log_transition runID RunStateFinalizing RunStateCompleted ''atomic_result'' (JObj []) at]\<rparr>))"

section \<open>Terminal outcomes decided elsewhere\<close>

text \<open>
  The three statements below share one shape: select live runs, move them to a terminal state
  and log one transition per moved run. \<open>meta r\<close> is the metadata of the logged transition, and
  \<open>None\<close> when the statement does not select \<open>r\<close>.
\<close>

definition terminate_runs ::
  "(run_row \<Rightarrow> json option) \<Rightarrow> string \<Rightarrow> string \<Rightarrow> (run_row \<Rightarrow> run_row) \<Rightarrow> instant \<Rightarrow> kernel_db \<Rightarrow> kernel_db" where
  "terminate_runs meta state by note now db =
     (let sel = (\<lambda>r. \<not> IsTerminalRunState (r_current_state r) \<and> meta r \<noteq> None)
      in db\<lparr>runs := tbl_update sel
              (\<lambda>r. note (r\<lparr>r_status := state, r_current_state := state,
                            r_finished_at := Some now, r_updated_at := now\<rparr>)) (runs db),
            transitions := transitions db @
              map (\<lambda>r. log_transition (r_run_id r) (r_current_state r) state by (the (meta r)) now)
                (filter sel (runs db))\<rparr>)"

definition stopped_proof :: "string \<Rightarrow> kernel_db \<Rightarrow> run_row \<Rightarrow> string option" where
  "stopped_proof inputID db r =
     (case [f. i \<leftarrow> inputs db, i_input_id i = inputID, i_run_id i = Some (r_run_id r),
               i_status i = ''failed'', i_claim_id i = [], i_claim_expires_at i = None,
               f \<leftarrow> stopped db, f_input_id f = i_input_id i, f_run_id f = r_run_id r,
               f_owner_id f = i_owner_id i, f_session_key f = r_session_key r] of
        [] \<Rightarrow> None
      | f # _ \<Rightarrow> Some (f_classification f))"

definition FailStoppedKernelTx :: "string \<Rightarrow> instant \<Rightarrow> kernel_db \<Rightarrow> kernel_db" where
  "FailStoppedKernelTx inputID now db =
     terminate_runs
       (\<lambda>r. map_option (\<lambda>c. JObj [(''kind'', JStr ''stopped_attempt_finalized''), (''input_id'', JStr inputID),
                                   (''classification'', JStr c), (''effect_reconciled'', JBool False)])
              (stopped_proof inputID db r))
       RunStateFailed ''kernel'' (\<lambda>r. r) now db"

text \<open>The authenticated owner of the context is its identity and the delivery it acts through.
  A nil slice of effects is \<open>None\<close>: its JSON is \<^verbatim>\<open>null\<close>.\<close>

definition FailStoppedInputTx ::
  "(string \<times> string) option \<Rightarrow> string \<Rightarrow> string \<Rightarrow> string list option \<Rightarrow> instant \<Rightarrow> kernel_db
     \<Rightarrow> (go_err, unit, kernel_db) outcome" where
  "FailStoppedInputTx owner runID inputID unknownEffects now db =
     (case owner of
        None \<Rightarrow> (Inl ErrStale, db)
      | Some (ownerID, deliveryID) \<Rightarrow>
          if ownerID = [] \<or> deliveryID = [] then (Inl ErrStale, db)
          else
            let acknowledged = (case unknownEffects of None \<Rightarrow> JNull | Some es \<Rightarrow> JArr (map JStr es));
                meta = JObj [(''kind'', JStr ''close_stopped_input''), (''input_id'', JStr inputID),
                             (''control_id'', JStr deliveryID), (''unknown_effect_ids'', acknowledged),
                             (''effect_reconciled'', JBool False)]
            in (Inr (), terminate_runs
                  (\<lambda>r. if r_run_id r = runID \<and>
                          (\<exists>i \<in> set (inputs db). i_run_id i = Some (r_run_id r) \<and> i_input_id i = inputID \<and>
                             i_owner_id i = ownerID \<and> i_task_id i = None \<and> i_status i = ''failed'')
                       then Some meta else None)
                  RunStateFailed ''owner'' (\<lambda>r. r) now db))"

definition of_tasks :: "string list \<Rightarrow> run_row \<Rightarrow> bool" where
  "of_tasks taskIDs r \<longleftrightarrow> (case r_task_id r of None \<Rightarrow> False | Some t \<Rightarrow> t \<in> set taskIDs)"

definition CancelForControlTx :: "string list \<Rightarrow> string \<Rightarrow> instant \<Rightarrow> kernel_db \<Rightarrow> kernel_db" where
  "CancelForControlTx taskIDs controlID now db =
     terminate_runs
       (\<lambda>r. if of_tasks taskIDs r then Some (JObj [(''control_id'', JStr controlID)]) else None)
       RunStateCancelled ''owner''
       (\<lambda>r. r\<lparr>r_error_type := Some ''owner_control'', r_error_message := Some controlID\<rparr>) now db"

section \<open>Waiting and recovery\<close>

definition suspendInteractionTx ::
  "exec_ctx \<Rightarrow> string \<Rightarrow> string \<Rightarrow> string \<Rightarrow> instant \<Rightarrow> kernel_db \<Rightarrow> (go_err, unit, kernel_db) outcome" where
  "suspendInteractionTx ctx runID trigger kind now db =
     (case TokenFromContext ctx of
        None \<Rightarrow> (Inl ErrStale, db)
      | Some t \<Rightarrow>
          if tok_RunID t \<noteq> runID then (Inl ErrStale, db)
          else
            let sel = (\<lambda>r. r_run_id r = runID \<and> r_session_key r = tok_SessionKey t \<and>
                           r_lease_id r = Some (tok_LeaseID t) \<and> r_current_state r = RunStateToolRunning);
                upd = (\<lambda>r. r\<lparr>r_current_state := RunStateAwaitingApproval,
                             r_status := RunStateAwaitingApproval, r_updated_at := now\<rparr>);
                db' = db\<lparr>runs := tbl_update sel upd (runs db)\<rparr>
            in if tbl_count sel (runs db) \<noteq> 1 then (Inl ErrStale, db')
               else (Inr (), db'\<lparr>transitions := transitions db @
                       [log_transition runID RunStateToolRunning RunStateAwaitingApproval trigger
                          (JObj [(''kind'', JStr kind)]) now]\<rparr>))"

definition SuspendInteractionTx where
  "SuspendInteractionTx ctx runID now db =
     suspendInteractionTx ctx runID ''communication_interaction'' ''preference_wait'' now db"

definition SuspendBrowserOutcomeTx where
  "SuspendBrowserOutcomeTx ctx runID now db =
     suspendInteractionTx ctx runID ''browser_outcome_review'' ''effect_review'' now db"

definition UpdatePreparation ::
  "jsonb_codec \<Rightarrow> exec_ctx \<Rightarrow> instant \<Rightarrow> string \<Rightarrow> string \<Rightarrow> instant \<Rightarrow> kernel_db
     \<Rightarrow> (go_err, unit, kernel_db) outcome" where
  "UpdatePreparation J ctx guard_at runID metadata now db =
     (case own_Begin ctx guard_at db of
        Inl e \<Rightarrow> (Inl e, db)
      | Inr _ \<Rightarrow>
          (case jb_in J metadata of
             None \<Rightarrow> (Inl jsonb_syntax_error, db)
           | Some meta \<Rightarrow>
               let sel = (\<lambda>r. r_run_id r = runID \<and> r_current_state r = RunStatePreparing);
                   upd = (\<lambda>r. r\<lparr>r_metadata_json := meta, r_updated_at := now\<rparr>)
               in (if tbl_count sel (runs db) \<noteq> 1 then Inl ErrRunNotFound else Inr (),
                   db\<lparr>runs := tbl_update sel upd (runs db)\<rparr>)))"

definition RecoverPreparation ::
  "jsonb_codec \<Rightarrow> exec_ctx \<Rightarrow> instant \<Rightarrow> string \<Rightarrow> string \<Rightarrow> instant \<Rightarrow> kernel_db
     \<Rightarrow> (go_err, RunRecord, kernel_db) outcome" where
  "RecoverPreparation J ctx guard_at runID leaseID now db =
     (case own_Begin ctx guard_at db of
        Inl e \<Rightarrow> (Inl e, db)
      | Inr _ \<Rightarrow>
          (case tbl_find r_run_id runID (runs db) of
             None \<Rightarrow> (Inl ErrNoRows, db)
           | Some old \<Rightarrow>
               if r_current_state old \<noteq> RunStateAcquired \<and> r_current_state old \<noteq> RunStatePreparing
               then (Inl (Errorf ''run is beyond safe preparation recovery''), db)
               else
                 let db' = db\<lparr>runs := tbl_update (\<lambda>r. r_run_id r = runID)
                                (\<lambda>r. r\<lparr>r_status := RunStateQueued, r_current_state := RunStateQueued,
                                       r_lease_id := Some leaseID, r_updated_at := now\<rparr>) (runs db),
                              transitions := transitions db @
                                [log_transition runID (r_current_state old) RunStateQueued ''checkpoint_recovery''
                                   (JObj [(''recovered_before_model_dispatch'', JBool True)]) now]\<rparr>
                 in case repo_GetRun J runID db' of
                      Inl e \<Rightarrow> (Inl e, db')
                    | Inr r \<Rightarrow> (Inr (recordToProto r), db')))"

definition PersistPreparation where
  "PersistPreparation J ctx guard_at runID metadata now db =
     UpdatePreparation J ctx guard_at runID metadata now db"

definition RefreshExecutionLease ::
  "jsonb_codec \<Rightarrow> exec_ctx \<Rightarrow> instant \<Rightarrow> instant \<Rightarrow> string \<Rightarrow> string \<Rightarrow> instant \<Rightarrow> kernel_db
     \<Rightarrow> (go_err, RunRecord, kernel_db) outcome" where
  "RefreshExecutionLease J ctx begin_at commit_at runID leaseID now db =
     (case TokenFromContext ctx of
        None \<Rightarrow> (Inl ErrStale, db)
      | Some token \<Rightarrow>
          if tok_RunID token \<noteq> runID \<or> tok_LeaseID token \<noteq> leaseID then (Inl ErrStale, db)
          else fenced_tx ctx begin_at commit_at
                 (\<lambda>_ db.
                    let sel = (\<lambda>r. r_run_id r = runID \<and> \<not> IsTerminalRunState (r_current_state r));
                        db' = db\<lparr>runs := tbl_update sel
                                 (\<lambda>r. r\<lparr>r_lease_id := Some leaseID, r_updated_at := now\<rparr>) (runs db)\<rparr>
                    in if tbl_count sel (runs db) \<noteq> 1 then (Inl ErrRunNotFound, db')
                       else case repo_GetRun J runID db' of
                         Inl e \<Rightarrow> (Inl e, db')
                       | Inr r \<Rightarrow> (Inr (recordToProto r), db')) db)"

section \<open>How rows evolve\<close>

text \<open>A row is well formed when its status repeats its state, the state is known, and it has a
  finishing time exactly in the terminal states.\<close>

definition run_ok :: "run_row \<Rightarrow> bool" where
  "run_ok r \<longleftrightarrow> r_status r = r_current_state r \<and> known_state (r_current_state r) \<and>
     (r_finished_at r \<noteq> None \<longleftrightarrow> IsTerminalRunState (r_current_state r))"

text \<open>The moves of the durable store: the validated transitions, the wait for an interaction and
  the recovery of a run that has not reached the model.\<close>

definition legal_move :: "string \<Rightarrow> string \<Rightarrow> bool" where
  "legal_move s t \<longleftrightarrow> ValidateRunStateTransition s t = Inr () \<or>
     s = RunStateToolRunning \<and> t = RunStateAwaitingApproval \<or>
     (s = RunStateAcquired \<or> s = RunStatePreparing) \<and> t = RunStateQueued"

text \<open>A row keeps its identity, and the task and revision it was attached to once it has one.\<close>

definition same_run :: "run_row \<Rightarrow> run_row \<Rightarrow> bool" where
  "same_run r r' \<longleftrightarrow> r_run_id r' = r_run_id r \<and> r_session_key r' = r_session_key r \<and>
     r_idempotency_key r' = r_idempotency_key r \<and> r_input_event_id r' = r_input_event_id r \<and>
     r_started_at r' = r_started_at r \<and>
     (r_task_id r \<noteq> None \<longrightarrow> r_task_id r' = r_task_id r \<and> r_task_revision r' = r_task_revision r)"

definition same_phase :: "run_row \<Rightarrow> run_row \<Rightarrow> bool" where
  "same_phase r r' \<longleftrightarrow> r_current_state r' = r_current_state r \<and> r_status r' = r_status r \<and>
     r_finished_at r' = r_finished_at r"

definition run_change :: "run_row \<Rightarrow> run_row \<Rightarrow> bool" where
  "run_change r r' \<longleftrightarrow> same_run r r' \<and>
     (same_phase r r' \<or> legal_move (r_current_state r) (r_current_state r') \<and> run_ok r')"

definition fresh_run :: "run_row \<Rightarrow> bool" where
  "fresh_run r \<longleftrightarrow> run_ok r \<and> r_current_state r = RunStateCreated"

definition run_inv :: "kernel_db \<Rightarrow> bool" where
  "run_inv db \<longleftrightarrow> keyed r_run_id (runs db) \<and> list_all run_ok (runs db) \<and>
     (\<forall>r \<in> set (runs db). \<forall>r' \<in> set (runs db). same_idempotency_key r r' \<longrightarrow> r = r')"

lemma run_change_refl [simp]: "run_change r r"
  by (simp add: run_change_def same_run_def same_phase_def)

lemma run_change_ok: "run_change r r' \<Longrightarrow> run_ok r \<Longrightarrow> run_ok r'"
  by (auto simp: run_change_def same_phase_def run_ok_def)

lemma run_change_id: "run_change r r' \<Longrightarrow> r_run_id r' = r_run_id r"
  by (simp add: run_change_def same_run_def)

lemma legal_move_live: "legal_move s t \<Longrightarrow> \<not> IsTerminalRunState s"
  using terminal_no_transition by (auto simp: legal_move_def IsTerminalRunState_def)

lemma run_change_terminal:
  "run_change r r' \<Longrightarrow> IsTerminalRunState (r_current_state r) \<Longrightarrow> same_phase r r'"
  by (auto simp: run_change_def dest: legal_move_live)

lemma run_change_completed:
  "run_change r r' \<Longrightarrow> r_current_state r' = RunStateCompleted \<Longrightarrow>
     r_current_state r = RunStateCompleted \<or> r_current_state r = RunStateFinalizing"
  by (auto simp: run_change_def same_phase_def legal_move_def dest: into_completed)

lemma live_can_end:
  assumes "known_state s" and "\<not> IsTerminalRunState s"
  shows "legal_move s RunStateFailed" and "legal_move s RunStateCancelled"
  using assms live_can_fail by (auto simp: legal_move_def)

definition evolves :: "kernel_db \<Rightarrow> kernel_db \<Rightarrow> bool" where
  "evolves db db' \<longleftrightarrow> (\<exists>mid new. runs db' = mid @ new \<and> list_all2 run_change (runs db) mid \<and> list_all fresh_run new)"

lemma list_all2_tbl_update:
  "(\<And>r. r \<in> set rows \<Longrightarrow> p r \<Longrightarrow> R r (f r)) \<Longrightarrow> (\<And>r. r \<in> set rows \<Longrightarrow> \<not> p r \<Longrightarrow> R r r) \<Longrightarrow> list_all2 R rows (tbl_update p f rows)"
  by (induction rows) auto

text \<open>Every statement but the insert changes rows in place.\<close>

lemma evolves_update:
  assumes "\<And>r. r \<in> set (runs db) \<Longrightarrow> sel r \<Longrightarrow> run_change r (f r)"
    and "runs db' = tbl_update sel f (runs db)"
  shows "evolves db db'"
  unfolding evolves_def using assms
  by (intro exI [of _ "tbl_update sel f (runs db)"] exI [of _ "[]"])
    (simp add: list_all2_tbl_update)

lemma evolves_refl [simp]: "runs db' = runs db \<Longrightarrow> evolves db db'"
  by (rule evolves_update [of _ "\<lambda>_. False" "\<lambda>r. r"]) (simp_all add: tbl_update_def)

lemma run_inv_update:
  assumes inv: "run_inv db" and change: "\<And>r. r \<in> set (runs db) \<Longrightarrow> sel r \<Longrightarrow> run_change r (f r)"
    and db': "runs db' = tbl_update sel f (runs db)"
  shows "run_inv db'"
proof -
  let ?g = "\<lambda>r. if sel r then f r else r"
  have chg: "run_change r (?g r)" if "r \<in> set (runs db)" for r
    using change that by simp
  have runs': "runs db' = map ?g (runs db)" using db' by (simp add: tbl_update_def)
  have "map r_run_id (map ?g (runs db)) = map r_run_id (runs db)"
    using chg by (simp add: run_change_id)
  then have "keyed r_run_id (runs db')"
    using inv runs' by (simp only: keyed_def run_inv_def)
  moreover have "list_all run_ok (runs db')"
  proof -
    have "run_ok (?g r)" if "r \<in> set (runs db)" for r
      using run_change_ok [OF chg [OF that]] inv that by (simp add: run_inv_def list_all_iff)
    then show ?thesis unfolding runs' list.pred_map by (simp add: list_all_iff)
  qed
  moreover have "?g r = ?g r'"
    if "r \<in> set (runs db)" "r' \<in> set (runs db)" "same_idempotency_key (?g r) (?g r')" for r r'
  proof -
    have "same_idempotency_key r r'"
      using that(3) chg [OF that(1)] chg [OF that(2)]
      unfolding same_idempotency_key_def run_change_def same_run_def by metis
    with inv that(1,2) have "r = r'" unfolding run_inv_def by blast
    then show ?thesis by simp
  qed
  then have "\<forall>r \<in> ?g ` set (runs db). \<forall>r' \<in> ?g ` set (runs db). same_idempotency_key r r' \<longrightarrow> r = r'"
    by blast
  ultimately show ?thesis unfolding run_inv_def runs' by (simp only: set_map)
qed

lemma insert_run_cases:
  assumes "insert_run J rec db = (res, db')"
  obtains (failed) e where "res = Inl e" and "db' = db"
  | (inserted) meta where "jb_in J (normalizeJSON (rec_MetadataJSON rec)) = Some meta"
      and "res = Inr (inserted_run rec meta)" and "db' = db\<lparr>runs := runs db @ [inserted_run rec meta]\<rparr>"
      and "tbl_find r_run_id (rec_RunID rec) (runs db) = None"
      and "\<forall>r \<in> set (runs db). \<not> same_idempotency_key r (inserted_run rec meta)"
      and "tbl_find s_session_key (rec_SessionKey rec) (sessions db) \<noteq> None"
proof (cases "jb_in J (normalizeJSON (rec_MetadataJSON rec))")
  case None
  with assms show ?thesis by (intro failed) (auto simp: insert_run_def)
next
  case (Some meta)
  have "r_run_id (inserted_run rec meta) = rec_RunID rec" and "r_session_key (inserted_run rec meta) = rec_SessionKey rec"
    by (simp_all add: inserted_run_def)
  with Some assms show ?thesis
    by (auto simp: insert_run_def Let_def split: if_splits intro: failed inserted)
qed

lemma new_record_fresh: "fresh_run (inserted_run (new_record sfx now p) meta)"
proof -
  have "known_state RunStateCreated" by (simp add: known_state_def allowedTransitions_def)
  then show ?thesis
    by (simp add: fresh_run_def run_ok_def inserted_run_def new_record_def IsTerminalRunState_def)
qed

lemma insert_run_inv:
  assumes "run_inv db" and "insert_run J (new_record sfx now p) db = (res, db')"
  shows "run_inv db' \<and> evolves db db'"
  using assms(2)
proof (cases rule: insert_run_cases)
  case (failed e)
  with assms(1) show ?thesis by simp
next
  case (inserted meta)
  let ?row = "inserted_run (new_record sfx now p) meta"
  have id: "r_run_id ?row = rec_RunID (new_record sfx now p)" by (simp add: inserted_run_def)
  have fresh: "fresh_run ?row" by (rule new_record_fresh)
  have "evolves db db'"
    unfolding evolves_def inserted(3) using fresh
    by (intro exI [of _ "runs db"] exI [of _ "[?row]"]) (simp add: list.rel_refl)
  moreover have "keyed r_run_id (runs db')"
    using assms(1) inserted(3,4) id by (simp add: run_inv_def keyed_snoc)
  moreover have "list_all run_ok (runs db')"
    using assms(1) inserted(3) fresh by (simp add: run_inv_def fresh_run_def)
  moreover have "same_idempotency_key r r' \<Longrightarrow> r = r'" if "r \<in> set (runs db')" "r' \<in> set (runs db')" for r r'
    using that assms(1) inserted(3,5) unfolding run_inv_def same_idempotency_key_def by auto
  ultimately show ?thesis unfolding run_inv_def by blast
qed

section \<open>Steps\<close>

inductive run_step :: "kernel_db \<Rightarrow> kernel_db \<Rightarrow> bool" where
  create: "svc_CreateRun J sfx now req db = (res, db') \<Longrightarrow> run_step db db'"
| transition: "TransitionRun J ctx finished_now now guard_at req' db = (res, db') \<Longrightarrow> run_step db db'"
| provider_ref: "PersistProviderSessionRef J ctx guard_at now run ref db = (res, db') \<Longrightarrow> run_step db db'"
| log: "InsertTransition J ctx guard_at t db = (resu, db') \<Longrightarrow> run_step db db'"
| complete: "CompleteTx ctx run at db = (Inr (), db') \<Longrightarrow> run_step db db'"
| fail_kernel: "run_step db (FailStoppedKernelTx inputID now db)"
| fail_input: "FailStoppedInputTx owner run inputID effects now db = (resu, db') \<Longrightarrow> run_step db db'"
| cancel: "run_step db (CancelForControlTx taskIDs controlID now db)"
| suspend: "suspendInteractionTx ctx run trigger kind now db = (Inr (), db') \<Longrightarrow> run_step db db'"
| prepare: "UpdatePreparation J ctx guard_at run meta now db = (resu, db') \<Longrightarrow> run_step db db'"
| recover: "RecoverPreparation J ctx guard_at run lease now db = (res, db') \<Longrightarrow> run_step db db'"
| refresh: "RefreshExecutionLease J ctx begin_at commit_at run lease now db = (res, db') \<Longrightarrow> run_step db db'"

text \<open>What each operation does to the run table: nothing, an update in place, or one insert.\<close>

definition in_place :: "kernel_db \<Rightarrow> kernel_db \<Rightarrow> bool" where
  "in_place db db' \<longleftrightarrow> (\<exists>sel f. runs db' = tbl_update sel f (runs db) \<and>
     (\<forall>r \<in> set (runs db). sel r \<longrightarrow> run_change r (f r)))"

lemma in_placeI:
  "runs db' = tbl_update sel f (runs db) \<Longrightarrow> (\<And>r. r \<in> set (runs db) \<Longrightarrow> sel r \<Longrightarrow> run_change r (f r)) \<Longrightarrow>
     in_place db db'"
  unfolding in_place_def by blast

lemma in_place_refl [simp]: "runs db' = runs db \<Longrightarrow> in_place db db'"
  by (rule in_placeI [of _ "\<lambda>_. False" "\<lambda>r. r"]) (simp_all add: tbl_update_def)

lemma in_place_inv: "in_place db db' \<Longrightarrow> run_inv db \<Longrightarrow> run_inv db' \<and> evolves db db'"
  unfolding in_place_def by (blast intro: run_inv_update evolves_update)

lemma same_phase_change: "same_run r r' \<Longrightarrow> same_phase r r' \<Longrightarrow> run_change r r'"
  by (simp add: run_change_def)

lemma create_inv:
  assumes "run_inv db" and "svc_CreateRun J sfx now req db = (res, db')"
  shows "run_inv db' \<and> evolves db db'"
proof (cases "validateCreateRunRequest req")
  case (Inl e)
  with assms show ?thesis by (simp add: svc_CreateRun_def)
next
  case (Inr p)
  obtain res1 db1 where ins: "insert_run J (new_record sfx now p) db = (res1, db1)" by fastforce
  with Inr assms(2) have "db' = db1"
    by (auto simp: svc_CreateRun_def repo_CreateRun_def split: sum.splits if_splits)
  with insert_run_inv [OF assms(1) ins] show ?thesis by simp
qed

lemma validateTransitionRequest_Inr:
  "validateTransitionRequest req = Inr p \<Longrightarrow> tp_FinishedAt p \<noteq> None \<longrightarrow> IsTerminalRunState (tp_ToState p)"
  by (auto simp: validateTransitionRequest_def split: if_splits sum.splits)

lemma UpdateRun_in_place:
  assumes upd: "repo_UpdateRun J ctx guard_at u db = (res, db')"
    and "legal_move (up_CurrentState u) (up_NextState u)" and "up_Status u = up_NextState u"
    and "known_state (up_NextState u)" and "up_FinishedAt u \<noteq> None \<longleftrightarrow> IsTerminalRunState (up_NextState u)"
  shows "in_place db db'"
proof (cases "own_Begin ctx guard_at db")
  case (Inl e)
  with upd show ?thesis by (simp add: repo_UpdateRun_def)
next
  case (Inr c)
  let ?sel = "\<lambda>r. r_run_id r = up_RunID u \<and> r_current_state r = up_CurrentState u"
  show ?thesis
  proof (cases "first_row ?sel (runs db)")
    case None
    with Inr upd show ?thesis by (simp add: repo_UpdateRun_def)
  next
    case (Some r)
    with Inr upd have "runs db' = tbl_update ?sel (updated_run u) (runs db)"
      by (auto simp: repo_UpdateRun_def)
    moreover have "run_change r (updated_run u r)" if "?sel r" for r
      using that assms(2-) by (simp add: run_change_def same_run_def updated_run_def run_ok_def)
    ultimately show ?thesis by (rule in_placeI)
  qed
qed

lemma update_of_simps [simp]:
  "up_RunID (update_of p fin now) = tp_RunID p" "up_CurrentState (update_of p fin now) = tp_FromState p"
  "up_NextState (update_of p fin now) = tp_ToState p" "up_Status (update_of p fin now) = tp_ToState p"
  "up_FinishedAt (update_of p fin now) = fin"
  by (simp_all add: update_of_def)

lemma transition_in_place:
  assumes "TransitionRun J ctx finished_now now guard_at req db = (res, db')"
  shows "in_place db db'"
proof (cases "validateTransitionRequest req")
  case (Inl e)
  with assms show ?thesis by (simp add: TransitionRun_def)
next
  case (Inr p)
  show ?thesis
  proof (cases "ValidateRunStateTransition (tp_FromState p) (tp_ToState p)")
    case (Inl e)
    with Inr assms show ?thesis by (simp add: TransitionRun_def)
  next
    case ok: (Inr u)
    let ?fin = "if tp_FinishedAt p = None \<and> IsTerminalRunState (tp_ToState p) then Some finished_now else tp_FinishedAt p"
    obtain res1 where upd: "repo_UpdateRun J ctx guard_at (update_of p ?fin now) db = (res1, db')"
      using Inr ok assms by (auto simp: TransitionRun_def Let_def split: sum.splits prod.splits)
    moreover have "legal_move (tp_FromState p) (tp_ToState p)" "known_state (tp_ToState p)"
      using ok valid_transition_known by (auto simp: legal_move_def)
    moreover have "?fin \<noteq> None \<longleftrightarrow> IsTerminalRunState (tp_ToState p)"
      using validateTransitionRequest_Inr [OF Inr] by auto
    ultimately show ?thesis by (intro UpdateRun_in_place [OF upd]) simp_all
  qed
qed

lemma provider_ref_in_place:
  assumes "PersistProviderSessionRef J ctx guard_at now run ref db = (res, db')"
  shows "in_place db db'"
proof (cases "runs db' = runs db")
  case True
  then show ?thesis by simp
next
  case False
  let ?sel = "\<lambda>r. r_run_id r = TrimSpace run"
  let ?upd = "\<lambda>r. r\<lparr>r_provider_session_ref := nullString (TrimSpace ref), r_updated_at := now\<rparr>"
  have "runs db' = tbl_update ?sel ?upd (runs db)"
    using assms False
    by (auto simp: PersistProviderSessionRef_def repo_UpdateProviderSessionRef_def Let_def
        split: sum.splits option.splits if_splits prod.splits)
  then show ?thesis
    by (rule in_placeI) (auto intro!: same_phase_change simp: same_run_def same_phase_def)
qed

lemma log_in_place: "InsertTransition J ctx guard_at t db = (res, db') \<Longrightarrow> in_place db db'"
  by (auto simp: InsertTransition_def split: sum.splits option.splits if_splits)

lemma prepare_in_place:
  assumes "UpdatePreparation J ctx guard_at run meta now db = (res, db')"
  shows "in_place db db'"
proof (cases "runs db' = runs db")
  case True
  then show ?thesis by simp
next
  case False
  let ?sel = "\<lambda>r. r_run_id r = run \<and> r_current_state r = RunStatePreparing"
  obtain m where "runs db' = tbl_update ?sel (\<lambda>r. r\<lparr>r_metadata_json := m, r_updated_at := now\<rparr>) (runs db)"
    using assms False by (auto simp: UpdatePreparation_def Let_def split: sum.splits option.splits if_splits)
  then show ?thesis
    by (rule in_placeI) (auto intro!: same_phase_change simp: same_run_def same_phase_def)
qed

lemma known_run_states:
  "known_state RunStateCompleted" "known_state RunStateFailed" "known_state RunStateCancelled"
  "known_state RunStateAwaitingApproval" "known_state RunStateQueued"
  by (simp_all add: known_state_def allowedTransitions_def)

lemma finalizing_completes: "ValidateRunStateTransition RunStateFinalizing RunStateCompleted = Inr ()"
  by (simp add: ValidateRunStateTransition_def allowedTransitions_def)

lemma complete_in_place:
  assumes "CompleteTx ctx run at db = (Inr (), db')"
  shows "in_place db db'"
proof -
  obtain tok where "TokenFromContext ctx = Some tok" and "tok_RunID tok = run"
    using assms by (auto simp: CompleteTx_def split: option.splits if_splits)
  then have "runs db' = tbl_update
      (\<lambda>r. r_run_id r = run \<and> r_current_state r = RunStateFinalizing \<and>
           r_session_key r = tok_SessionKey tok \<and> r_lease_id r = Some (tok_LeaseID tok))
      (\<lambda>r. r\<lparr>r_status := RunStateCompleted, r_current_state := RunStateCompleted,
             r_finished_at := Some at, r_updated_at := at\<rparr>) (runs db)"
    using assms by (auto simp: CompleteTx_def Let_def split: if_splits)
  then show ?thesis
    by (rule in_placeI)
      (simp add: run_change_def same_run_def legal_move_def run_ok_def finalizing_completes
        known_run_states IsTerminalRunState_def)
qed

lemma suspend_in_place:
  assumes "suspendInteractionTx ctx run trigger kind now db = (Inr (), db')" and "run_inv db"
  shows "in_place db db'"
proof -
  obtain tok where "TokenFromContext ctx = Some tok" and "tok_RunID tok = run"
    using assms(1) by (auto simp: suspendInteractionTx_def split: option.splits if_splits)
  then have "runs db' = tbl_update
      (\<lambda>r. r_run_id r = run \<and> r_session_key r = tok_SessionKey tok \<and>
           r_lease_id r = Some (tok_LeaseID tok) \<and> r_current_state r = RunStateToolRunning)
      (\<lambda>r. r\<lparr>r_current_state := RunStateAwaitingApproval, r_status := RunStateAwaitingApproval,
             r_updated_at := now\<rparr>) (runs db)"
    using assms(1) by (auto simp: suspendInteractionTx_def Let_def split: if_splits)
  then show ?thesis
  proof (rule in_placeI)
    fix r assume "r \<in> set (runs db)" and sel: "r_run_id r = run \<and> r_session_key r = tok_SessionKey tok \<and>
      r_lease_id r = Some (tok_LeaseID tok) \<and> r_current_state r = RunStateToolRunning"
    with assms(2) have "run_ok r" by (simp add: run_inv_def list_all_iff)
    with sel show "run_change r (r\<lparr>r_current_state := RunStateAwaitingApproval,
        r_status := RunStateAwaitingApproval, r_updated_at := now\<rparr>)"
      by (simp add: run_change_def same_run_def legal_move_def run_ok_def known_run_states IsTerminalRunState_def)
  qed
qed

lemma terminate_in_place:
  assumes "run_inv db" and "state = RunStateFailed \<or> state = RunStateCancelled"
    and keep: "\<And>r. same_run r (note r) \<and> same_phase r (note r)"
  shows "in_place db (terminate_runs meta state by note now db)"
proof (rule in_placeI)
  let ?sel = "\<lambda>r. \<not> IsTerminalRunState (r_current_state r) \<and> meta r \<noteq> None"
  let ?f = "\<lambda>r. r\<lparr>r_status := state, r_current_state := state, r_finished_at := Some now, r_updated_at := now\<rparr>"
  show "runs (terminate_runs meta state by note now db) = tbl_update ?sel (\<lambda>r. note (?f r)) (runs db)"
    by (simp add: terminate_runs_def Let_def)
  fix r assume "r \<in> set (runs db)" and "?sel r"
  with assms(1) have "legal_move (r_current_state r) state"
    using assms(2) live_can_end by (auto simp: run_inv_def list_all_iff run_ok_def)
  moreover have "IsTerminalRunState state" "known_state state"
    using assms(2) by (auto simp: IsTerminalRunState_def known_run_states)
  ultimately show "run_change r (note (?f r))"
    using keep [of "?f r"] by (simp add: run_change_def same_run_def same_phase_def run_ok_def)
qed

lemma fail_kernel_in_place: "run_inv db \<Longrightarrow> in_place db (FailStoppedKernelTx inputID now db)"
  unfolding FailStoppedKernelTx_def by (rule terminate_in_place) (simp_all add: same_run_def same_phase_def)

lemma fail_input_in_place:
  "run_inv db \<Longrightarrow> FailStoppedInputTx owner run inputID effects now db = (res, db') \<Longrightarrow> in_place db db'"
  by (auto simp: FailStoppedInputTx_def Let_def same_run_def same_phase_def split: option.splits if_splits
      intro!: terminate_in_place)

lemma cancel_in_place: "run_inv db \<Longrightarrow> in_place db (CancelForControlTx taskIDs controlID now db)"
  unfolding CancelForControlTx_def by (rule terminate_in_place) (simp_all add: same_run_def same_phase_def)

lemma recover_cases:
  assumes "RecoverPreparation J ctx guard_at run lease now db = (res, db')"
  obtains (refused) e where "res = Inl e" and "db' = db"
  | (recovered) old where "tbl_find r_run_id run (runs db) = Some old"
      and "r_current_state old = RunStateAcquired \<or> r_current_state old = RunStatePreparing"
      and "runs db' = tbl_update (\<lambda>r. r_run_id r = run)
        (\<lambda>r. r\<lparr>r_status := RunStateQueued, r_current_state := RunStateQueued,
               r_lease_id := Some lease, r_updated_at := now\<rparr>) (runs db)"
proof (cases "own_Begin ctx guard_at db")
  case (Inl e)
  with assms show ?thesis by (intro refused) (auto simp: RecoverPreparation_def)
next
  case guarded: (Inr c)
  show ?thesis
  proof (cases "tbl_find r_run_id run (runs db)")
    case None
    with guarded assms show ?thesis by (intro refused) (auto simp: RecoverPreparation_def)
  next
    case (Some old)
    show ?thesis
    proof (cases "r_current_state old = RunStateAcquired \<or> r_current_state old = RunStatePreparing")
      case False
      then have "\<not> (r_current_state old = RunStateAcquired)" "\<not> (r_current_state old = RunStatePreparing)"
        by blast+
      with guarded Some assms show ?thesis by (intro refused) (auto simp: RecoverPreparation_def)
    next
      case True
      with guarded Some assms have "runs db' = tbl_update (\<lambda>r. r_run_id r = run)
        (\<lambda>r. r\<lparr>r_status := RunStateQueued, r_current_state := RunStateQueued,
               r_lease_id := Some lease, r_updated_at := now\<rparr>) (runs db)"
        unfolding RecoverPreparation_def Let_def
        by (cases "r_current_state old = RunStateAcquired") (auto split: sum.splits)
      with Some True show ?thesis by (rule recovered)
    qed
  qed
qed

lemma recover_in_place:
  assumes "RecoverPreparation J ctx guard_at run lease now db = (res, db')" and inv: "run_inv db"
  shows "in_place db db'"
  using assms(1)
proof (cases rule: recover_cases)
  case (refused e)
  then show ?thesis by simp
next
  case (recovered old)
  from recovered(3) show ?thesis
  proof (rule in_placeI)
    fix r assume r: "r \<in> set (runs db)" "r_run_id r = run"
    then have "tbl_find r_run_id run (runs db) = Some r"
      using inv tbl_find_keyed [of r_run_id "runs db" r] by (simp add: run_inv_def)
    then have "r = old" using recovered(1) by simp
    moreover have "run_ok r" using inv r by (simp add: run_inv_def list_all_iff)
    ultimately show "run_change r (r\<lparr>r_status := RunStateQueued, r_current_state := RunStateQueued,
        r_lease_id := Some lease, r_updated_at := now\<rparr>)"
      using recovered(2)
      by (auto simp: run_change_def same_run_def legal_move_def run_ok_def known_run_states
          IsTerminalRunState_def)
  qed
qed

lemma refresh_in_place:
  assumes "RefreshExecutionLease J ctx begin_at commit_at run lease now db = (res, db')"
  shows "in_place db db'"
proof (cases "runs db' = runs db")
  case True
  then show ?thesis by simp
next
  case False
  have "runs db' = tbl_update (\<lambda>r. r_run_id r = run \<and> \<not> IsTerminalRunState (r_current_state r))
      (\<lambda>r. r\<lparr>r_lease_id := Some lease, r_updated_at := now\<rparr>) (runs db)"
    using assms False
    by (auto simp: RefreshExecutionLease_def fenced_tx_def Let_def
        split: sum.splits option.splits if_splits prod.splits)
  then show ?thesis
    by (rule in_placeI) (auto intro!: same_phase_change simp: same_run_def same_phase_def)
qed

lemmas run_ops_in_place =
  transition_in_place provider_ref_in_place log_in_place complete_in_place fail_kernel_in_place
  fail_input_in_place cancel_in_place suspend_in_place prepare_in_place recover_in_place refresh_in_place

lemma run_step_effect: "run_step db db' \<Longrightarrow> run_inv db \<Longrightarrow> run_inv db' \<and> evolves db db'"
proof (induction rule: run_step.induct)
  case (create J sfx now req db res db')
  then show ?case by (intro create_inv)
qed (rule in_place_inv; (assumption | (rule run_ops_in_place; assumption)))+

definition no_runs :: "kernel_db \<Rightarrow> bool" where
  "no_runs db \<longleftrightarrow> runs db = []"

interpretation run_sys: invariant_system no_runs run_step run_inv
proof
  show "run_inv db" if "no_runs db" for db using that by (simp add: no_runs_def run_inv_def)
  show "run_inv t" if "run_inv s" "run_step s t" for s t using run_step_effect that by blast
qed

lemma evolves_find:
  assumes "evolves db db'" and "run_inv db'" and "tbl_find r_run_id k (runs db) = Some r"
  obtains r' where "tbl_find r_run_id k (runs db') = Some r'" and "run_change r r'"
proof -
  obtain mid new where runs': "runs db' = mid @ new" and all2: "list_all2 run_change (runs db) mid"
    using assms(1) unfolding evolves_def by blast
  have r: "r \<in> set (runs db)" "r_run_id r = k" using tbl_find_SomeD [OF assms(3)] by auto
  then obtain i where i: "i < length (runs db)" "runs db ! i = r" by (auto simp: in_set_conv_nth)
  then have "run_change r (mid ! i)" and "mid ! i \<in> set (runs db')"
    using all2 runs' by (auto simp: list_all2_conv_all_nth)
  moreover from this have "tbl_find r_run_id k (runs db') = Some (mid ! i)"
    using assms(2) r run_change_id by (auto simp: run_inv_def dest: tbl_find_keyed)
  ultimately show thesis using that by blast
qed

text \<open>A fact about the row of a run that every change of the row keeps holds ever after.\<close>

lemma run_row_stable:
  assumes "run_step\<^sup>*\<^sup>* db db'" and inv: "run_inv db"
    and row: "\<exists>r. tbl_find r_run_id k (runs db) = Some r \<and> P r"
    and keep: "\<And>r r'. P r \<Longrightarrow> run_change r r' \<Longrightarrow> P r'"
  shows "\<exists>r. tbl_find r_run_id k (runs db') = Some r \<and> P r"
  using assms(1) inv row
proof (rule run_sys.stable_steps [rotated])
  fix u v assume u: "run_inv u" "run_step u v" and "\<exists>r. tbl_find r_run_id k (runs u) = Some r \<and> P r"
  then obtain r where r: "tbl_find r_run_id k (runs u) = Some r" "P r" by blast
  have "run_inv v" "evolves u v" using run_step_effect u by blast+
  then obtain r' where "tbl_find r_run_id k (runs v) = Some r'" "run_change r r'"
    using r(1) by (blast elim: evolves_find)
  with r(2) keep show "\<exists>r. tbl_find r_run_id k (runs v) = Some r \<and> P r" by blast
qed

end
