(* ===== verification/RunProps.thy ===== *)
theory RunProps
  imports RunTx
begin

text \<open>
  What the run service guarantees to its callers along any interleaving of the operations of
  \<open>run_step\<close>: completion only from finalizing, one winner among conflicting transitions, and one run
  per idempotency key. What holds for every writer of the table is in \<open>RunWriters\<close>.
\<close>

section \<open>Lemmas\<close>

lemma UpdateRun_Inr:
  assumes "repo_UpdateRun J ctx guard_at u db = (Inr rec, db')"
  obtains r where "r \<in> set (runs db)" and "r_run_id r = up_RunID u"
    and "r_current_state r = up_CurrentState u" and "rec = scanRunRow J (updated_run u r)"
    and "runs db' = tbl_update (\<lambda>r. r_run_id r = up_RunID u \<and> r_current_state r = up_CurrentState u)
           (updated_run u) (runs db)"
proof -
  let ?sel = "\<lambda>r. r_run_id r = up_RunID u \<and> r_current_state r = up_CurrentState u"
  obtain r where r: "first_row ?sel (runs db) = Some r" and "rec = scanRunRow J (updated_run u r)"
    and "runs db' = tbl_update ?sel (updated_run u) (runs db)"
    using assms by (auto simp: repo_UpdateRun_def Let_def split: sum.splits option.splits)
  with first_row_SomeD [OF r] show thesis by (intro that) auto
qed

lemma TransitionRun_Inr:
  assumes "TransitionRun J ctx finished_now now guard_at req db = (Inr rec, db')"
  obtains p fin rec' where "validateTransitionRequest req = Inr p"
    and "ValidateRunStateTransition (tp_FromState p) (tp_ToState p) = Inr ()"
    and "repo_UpdateRun J ctx guard_at (update_of p fin now) db = (Inr rec', db')"
    and "rec = recordToProto rec'"
  using assms that by (auto simp: TransitionRun_def Let_def split: sum.splits prod.splits)

lemma transition_params:
  "validateTransitionRequest req = Inr p \<Longrightarrow>
     tp_RunID p = TrimSpace (ur_run_id req) \<and> ProtoToRunState (ur_from_state req) = Inr (tp_FromState p) \<and>
     ProtoToRunState (ur_to_state req) = Inr (tp_ToState p)"
  by (auto simp: validateTransitionRequest_def split: if_splits sum.splits)

lemma TransitionRun_keeps:
  "TransitionRun J ctx finished_now now guard_at req db = (Inl e, db') \<Longrightarrow> db' = db"
  by (auto simp: TransitionRun_def repo_UpdateRun_def Let_def split: sum.splits option.splits prod.splits)

text \<open>After a transition the run is in the target state.\<close>

lemma TransitionRun_state:
  assumes inv: "run_inv db" and tr: "TransitionRun J ctx finished_now now guard_at req db = (Inr rec, db')"
  obtains p r where "validateTransitionRequest req = Inr p" and "tp_FromState p \<noteq> tp_ToState p"
    and "tbl_find r_run_id (tp_RunID p) (runs db') = Some r" and "r_current_state r = tp_ToState p"
proof -
  obtain p fin rec' where p: "validateTransitionRequest req = Inr p"
    and ok: "ValidateRunStateTransition (tp_FromState p) (tp_ToState p) = Inr ()"
    and upd: "repo_UpdateRun J ctx guard_at (update_of p fin now) db = (Inr rec', db')"
    using tr by (rule TransitionRun_Inr)
  obtain r where r: "r \<in> set (runs db)" "r_run_id r = tp_RunID p" "r_current_state r = tp_FromState p"
    and runs': "runs db' = tbl_update (\<lambda>r. r_run_id r = tp_RunID p \<and> r_current_state r = tp_FromState p)
      (updated_run (update_of p fin now)) (runs db)"
    using upd by (rule UpdateRun_Inr) simp
  have "tbl_find r_run_id (tp_RunID p) (runs db) = Some r"
    using inv r tbl_find_keyed [of r_run_id "runs db" r] by (simp add: run_inv_def)
  then have "tbl_find r_run_id (tp_RunID p) (runs db') = Some (updated_run (update_of p fin now) r)"
    using r(2,3) by (simp add: runs' tbl_find_update updated_run_def)
  moreover have "r_current_state (updated_run (update_of p fin now) r) = tp_ToState p"
    by (simp add: updated_run_def)
  moreover have "tp_FromState p \<noteq> tp_ToState p" using ok by (auto simp: ValidateRunStateTransition_def)
  ultimately show thesis using that p by blast
qed

lemma repo_FindRun_keyed:
  assumes "run_inv db" and "r \<in> set (runs db)" and "r_idempotency_key r = Some key"
  shows "repo_FindRunByIdempotencyKey J (r_session_key r) key db = Inr (scanRunRow J r)"
proof -
  let ?sel = "\<lambda>q. r_session_key q = r_session_key r \<and> r_idempotency_key q = Some key"
  obtain q where q: "first_row ?sel (runs db) = Some q"
    using assms(2,3) first_row_None_iff [of ?sel "runs db"] by (cases "first_row ?sel (runs db)") auto
  then have "same_idempotency_key q r" and "q \<in> set (runs db)"
    using first_row_SomeD [OF q] assms(3) by (auto simp: same_idempotency_key_def)
  then have "q = r" using assms(1,2) by (auto simp: run_inv_def)
  with q show ?thesis by (simp add: repo_FindRunByIdempotencyKey_def)
qed

text \<open>What a successful creation leaves in the table: a run with the requested key.\<close>

lemma svc_CreateRun_row:
  assumes inv: "run_inv db" and cr: "svc_CreateRun J sfx now req db = (Inr rec, db')"
    and p: "validateCreateRunRequest req = Inr p" and key: "cp_IdempotencyKey p \<noteq> []"
  obtains r where "r \<in> set (runs db')" and "r_run_id r = rp_run_id rec"
    and "r_session_key r = cp_SessionKey p" and "r_idempotency_key r = Some (cp_IdempotencyKey p)"
proof -
  obtain res1 db1 where ins: "insert_run J (new_record sfx now p) db = (res1, db1)" by fastforce
  then show thesis
  proof (cases rule: insert_run_cases)
    case (inserted meta)
    let ?row = "inserted_run (new_record sfx now p) meta"
    have "rec = recordToProto (scanRunRow J ?row)" "db' = db1"
      using cr p ins inserted(2) by (simp_all add: svc_CreateRun_def repo_CreateRun_def)
    moreover have "r_run_id ?row = newRunID sfx now" "r_session_key ?row = cp_SessionKey p"
      "r_idempotency_key ?row = Some (cp_IdempotencyKey p)"
      using key by (simp_all add: inserted_run_def new_record_def nullString_def)
    ultimately show ?thesis
      using inserted(3) by (intro that [of ?row]) (simp_all add: recordToProto_def scanRunRow_def)
  next
    case (failed e)
    then obtain dup where dup: "repo_FindRunByIdempotencyKey J (cp_SessionKey p) (cp_IdempotencyKey p) db = Inr dup"
      and "rec = recordToProto dup" and "db' = db"
      using cr p ins by (auto simp: svc_CreateRun_def repo_CreateRun_def split: if_splits sum.splits)
    moreover from dup obtain r where
      "first_row (\<lambda>r. r_session_key r = cp_SessionKey p \<and> r_idempotency_key r = Some (cp_IdempotencyKey p)) (runs db) = Some r"
      and "dup = scanRunRow J r"
      by (auto simp: repo_FindRunByIdempotencyKey_def split: option.splits)
    ultimately show ?thesis
      using first_row_SomeD by (intro that [of r]) (fastforce simp: recordToProto_def scanRunRow_def)+
  qed
qed

lemma repeated_create:
  assumes inv: "run_inv db" and r: "r \<in> set (runs db)" "r_session_key r = cp_SessionKey p"
      "r_idempotency_key r = Some (cp_IdempotencyKey p)"
    and p: "validateCreateRunRequest req = Inr p" and key: "cp_IdempotencyKey p \<noteq> []"
    and meta: "jb_in J (normalizeJSON (cp_MetadataJSON p)) = Some m"
  shows "svc_CreateRun J sfx now req db = (Inr (recordToProto (scanRunRow J r)), db)"
proof -
  have "same_idempotency_key r (inserted_run (new_record sfx now p) m)"
    using r key by (simp add: same_idempotency_key_def inserted_run_def new_record_def nullString_def)
  then have dup: "\<exists>q \<in> set (runs db). same_idempotency_key q (inserted_run (new_record sfx now p) m)"
    using r(1) by blast
  have meta': "jb_in J (normalizeJSON (rec_MetadataJSON (new_record sfx now p))) = Some m"
    using meta by (simp add: new_record_def)
  have "repo_CreateRun J (new_record sfx now p) db = (Inl ErrRunDuplicate, db)"
    using dup by (simp add: repo_CreateRun_def insert_run_def Let_def meta')
  moreover have "repo_FindRunByIdempotencyKey J (cp_SessionKey p) (cp_IdempotencyKey p) db = Inr (scanRunRow J r)"
    using repo_FindRun_keyed [OF inv r(1,3)] r(2) by simp
  ultimately show ?thesis using p key by (simp add: svc_CreateRun_def)
qed

section \<open>A small database\<close>

text \<open>One session without runs, a request for it, and a codec that knows the empty object.\<close>

definition demo_codec :: jsonb_codec where
  "demo_codec = \<lparr>jb_in = (\<lambda>s. if s = ''{}'' then Some (JObj []) else None), jb_out = (\<lambda>_. ''{}'')\<rparr>"

definition demo_sdb :: kernel_db where
  "demo_sdb =
     \<lparr>sessions = [\<lparr>s_session_id = ''id'', s_session_key = ''s'', s_user_id = ''u'', s_channel = ''web'',
        s_metadata = JObj [], s_summary = [], s_created_at = 1, s_updated_at = 1\<rparr>],
      ownership = [], runs = [], transitions = [], inputs = [], stopped = []\<rparr>"

definition demo_req :: CreateRunRequest where
  "demo_req = \<lparr>cq_session_key = '' s'', cq_input_event = Some \<lparr>ie_event_id = ''e'', ie_idempotency_key = ''k''\<rparr>,
     cq_autonomy_mode = 1, cq_model_provider = ''m'', cq_resumes_run_id = [], cq_metadata_json = []\<rparr>"

definition demo_create_params :: createParams where
  "demo_create_params = \<lparr>cp_SessionKey = ''s'', cp_InputEventID = ''e'', cp_IdempotencyKey = ''k'',
     cp_AutonomyMode = ''mode_0'', cp_ModelProvider = ''m'', cp_ResumesRunID = [], cp_MetadataJSON = []\<rparr>"

definition demo_new :: run_row where
  "demo_new = inserted_run (new_record None 7 demo_create_params) (JObj [])"

definition demo_tr :: "proto_enum \<Rightarrow> proto_enum \<Rightarrow> UpdateRunStateRequest" where
  "demo_tr a b = \<lparr>ur_run_id = ''r1'', ur_from_state = a, ur_to_state = b, ur_lease_id = [],
     ur_error_type = 0, ur_error_message = [], ur_finished_at = []\<rparr>"

definition demo_runs :: "string \<Rightarrow> kernel_db" where
  "demo_runs state = demo_sdb\<lparr>runs := [demo_run\<lparr>r_status := state, r_current_state := state\<rparr>]\<rparr>"

definition free_ctx :: exec_ctx where
  "free_ctx = \<lparr>ctx_token = None, ctx_guarded = False, ctx_max_conns = 4\<rparr>"

lemma demo_valid: "validateCreateRunRequest demo_req = Inr demo_create_params"
  by (simp add: validateCreateRunRequest_def demo_req_def demo_create_params_def TrimSpace_def strip.simps
      space_encodings_def starts_def ProtoToAutonomyModeString_def ProtoToAutonomyMode_def
      autonomyModeProtoToDomain_def)

lemma demo_create:
  "svc_CreateRun demo_codec None 7 demo_req demo_sdb =
     (Inr (recordToProto (scanRunRow demo_codec demo_new)), demo_sdb\<lparr>runs := [demo_new]\<rparr>)"
  unfolding svc_CreateRun_def demo_valid demo_new_def
  by (simp add: repo_CreateRun_def insert_run_def Let_def demo_codec_def demo_sdb_def normalizeJSON_def
      inserted_run_def new_record_def demo_create_params_def)

lemma demo_sdb_inv: "run_inv demo_sdb"
  by (simp add: run_inv_def demo_sdb_def)

lemma demo_runs_inv: "known_state state \<Longrightarrow> \<not> IsTerminalRunState state \<Longrightarrow> run_inv (demo_runs state)"
  by (simp add: run_inv_def demo_runs_def run_ok_def demo_run_def)

text \<open>From finalizing to completed, and from created to queued.\<close>

definition demo_tp :: "string \<Rightarrow> string \<Rightarrow> transitionParams" where
  "demo_tp sa sb = \<lparr>tp_RunID = ''r1'', tp_FromState = sa, tp_ToState = sb, tp_LeaseID = [],
     tp_ErrorType = [], tp_ErrorMessage = [], tp_FinishedAt = None\<rparr>"

lemma TrimSpace_r1 [simp]: "TrimSpace ''r1'' = ''r1''"
  by (simp add: TrimSpace_def strip.simps space_encodings_def starts_def)

lemma demo_states:
  "ProtoToRunState 1 = Inr RunStateCreated" "ProtoToRunState 2 = Inr RunStateQueued"
  "ProtoToRunState 10 = Inr RunStateFinalizing" "ProtoToRunState 11 = Inr RunStateCompleted"
  by (simp_all add: ProtoToRunState_def runStateProtoToDomain_def)

lemma demo_tr_valid:
  assumes "ProtoToRunState a = Inr sa" and "ProtoToRunState b = Inr sb"
  shows "validateTransitionRequest (demo_tr a b) = Inr (demo_tp sa sb)"
  using assms by (simp add: validateTransitionRequest_def demo_tr_def demo_tp_def parseFinishedAt_def)

lemma demo_transition:
  assumes "ProtoToRunState a = Inr sa" and "ProtoToRunState b = Inr sb"
    and "ValidateRunStateTransition sa sb = Inr ()"
  shows "\<exists>rec db' r. TransitionRun demo_codec free_ctx 20 21 22 (demo_tr a b) (demo_runs sa) = (Inr rec, db') \<and>
      runs db' = [r] \<and> r_run_id r = ''r1'' \<and> r_current_state r = sb"
  unfolding TransitionRun_def demo_tr_valid [OF assms(1,2)]
  by (simp add: assms(3) demo_tp_def repo_UpdateRun_def own_Begin_def free_ctx_def update_of_def demo_runs_def
      demo_run_def updated_run_def Let_def)

lemma created_queues: "ValidateRunStateTransition RunStateCreated RunStateQueued = Inr ()"
  by (simp add: ValidateRunStateTransition_def allowedTransitions_def)

section \<open>Properties\<close>

text \<open>A run becomes completed only from finalizing: in one step of any operation, a run found
  completed was completed before or was finalizing.\<close>

theorem completed_runs_were_finalizing:
  assumes "run_inv db" and "run_step db db'" and "tbl_find r_run_id k (runs db') = Some r'"
    and "r_current_state r' = RunStateCompleted"
  shows "\<exists>r. tbl_find r_run_id k (runs db) = Some r \<and>
    (r_current_state r = RunStateCompleted \<or> r_current_state r = RunStateFinalizing)"
proof -
  have inv': "run_inv db'" and ev: "evolves db db'" using run_step_effect assms(1,2) by blast+
  obtain mid new where runs': "runs db' = mid @ new" and all2: "list_all2 run_change (runs db) mid"
    and new: "list_all fresh_run new"
    using ev unfolding evolves_def by blast
  have r': "r' \<in> set (runs db')" "r_run_id r' = k" using tbl_find_SomeD [OF assms(3)] by auto
  have "r' \<notin> set new" using new assms(4) by (auto simp: list_all_iff fresh_run_def)
  with r' runs' obtain i where "i < length mid" "mid ! i = r'" by (auto simp: in_set_conv_nth)
  with all2 have chg: "run_change (runs db ! i) r'" and "runs db ! i \<in> set (runs db)"
    by (auto simp: list_all2_conv_all_nth)
  then have "tbl_find r_run_id k (runs db) = Some (runs db ! i)"
    using assms(1) r' run_change_id [OF chg] tbl_find_keyed [of r_run_id "runs db" "runs db ! i"]
    by (simp add: run_inv_def)
  with run_change_completed [OF chg assms(4)] show ?thesis by blast
qed

theorem completed_runs_were_finalizing_witness:
  "\<exists>(db :: kernel_db) r. tbl_find r_run_id ''r1'' (runs db) = Some r \<and> r_current_state r \<noteq> RunStateCompleted \<and>
    (r_current_state r = RunStateCompleted \<or> r_current_state r = RunStateFinalizing)"
proof -
  have inv: "run_inv (demo_runs RunStateFinalizing)"
    by (rule demo_runs_inv) (simp_all add: known_state_def allowedTransitions_def IsTerminalRunState_def)
  obtain rec db' r where tr: "TransitionRun demo_codec free_ctx 20 21 22 (demo_tr 10 11) (demo_runs RunStateFinalizing) =
      (Inr rec, db')" and r: "runs db' = [r]" "r_run_id r = ''r1''" "r_current_state r = RunStateCompleted"
    using demo_transition [OF demo_states(3,4) finalizing_completes] by blast
  have "\<exists>q. tbl_find r_run_id ''r1'' (runs (demo_runs RunStateFinalizing)) = Some q \<and>
      (r_current_state q = RunStateCompleted \<or> r_current_state q = RunStateFinalizing)"
    using inv transition [OF tr] by (rule completed_runs_were_finalizing) (use r in simp_all)
  then show ?thesis by (intro exI [of _ "demo_runs RunStateFinalizing"]) (auto simp: demo_runs_def demo_run_def)
qed

text \<open>C26. Of two requests that move the same run from the same state at most one succeeds: after the
  first, the second is refused whoever sends it, and changes nothing.\<close>

theorem conflicting_transition_loses:
  assumes "run_inv db" and "TransitionRun J ctx fin now guard req db = (Inr rec, db')"
    and "TrimSpace (ur_run_id req') = TrimSpace (ur_run_id req)"
    and "ur_from_state req' = ur_from_state req"
  shows "\<exists>e. TransitionRun J ctx' fin' now' guard' req' db' = (Inl e, db')"
proof (cases "TransitionRun J ctx' fin' now' guard' req' db'")
  case (Pair res db2)
  show ?thesis
  proof (cases res)
    case (Inl e)
    with Pair TransitionRun_keeps [of J ctx' fin' now' guard' req' db'] show ?thesis by auto
  next
    case (Inr rec2)
    obtain p r where p: "validateTransitionRequest req = Inr p" and "tp_FromState p \<noteq> tp_ToState p"
      and r: "tbl_find r_run_id (tp_RunID p) (runs db') = Some r" "r_current_state r = tp_ToState p"
      using assms(1,2) by (rule TransitionRun_state)
    obtain p2 fin2 rec3 where p2: "validateTransitionRequest req' = Inr p2"
      and upd: "repo_UpdateRun J ctx' guard' (update_of p2 fin2 now') db' = (Inr rec3, db2)"
      using Pair Inr by (auto elim: TransitionRun_Inr)
    have same: "tp_RunID p2 = tp_RunID p" "tp_FromState p2 = tp_FromState p"
      using transition_params [OF p] transition_params [OF p2] assms(3,4) by auto
    obtain q where "q \<in> set (runs db')" "r_run_id q = tp_RunID p" "r_current_state q = tp_FromState p"
      using upd same by (auto elim: UpdateRun_Inr)
    moreover have "run_inv db'" using in_place_inv transition_in_place assms(1,2) by blast
    ultimately have "q = r"
      using r(1) tbl_find_keyed [of r_run_id "runs db'" q] by (simp add: run_inv_def)
    then have "tp_FromState p = tp_ToState p"
      using r(2) \<open>r_current_state q = tp_FromState p\<close> by simp
    with \<open>tp_FromState p \<noteq> tp_ToState p\<close> show ?thesis by contradiction
  qed
qed

theorem conflicting_transition_loses_witness:
  "\<exists>db' e. TransitionRun demo_codec free_ctx 30 31 32 (demo_tr 1 13) db' = (Inl e, db') \<and> runs db' \<noteq> []"
proof -
  have inv: "run_inv (demo_runs RunStateCreated)"
    by (rule demo_runs_inv) (simp_all add: known_state_def allowedTransitions_def IsTerminalRunState_def)
  obtain rec db' r where tr: "TransitionRun demo_codec free_ctx 20 21 22 (demo_tr 1 2) (demo_runs RunStateCreated) =
      (Inr rec, db')" and r: "runs db' = [r]"
    using demo_transition [OF demo_states(1,2) created_queues] by blast
  obtain e where "TransitionRun demo_codec free_ctx 30 31 32 (demo_tr 1 13) db' = (Inl e, db')"
    using conflicting_transition_loses [OF inv tr, where req' = "demo_tr 1 13" and ctx' = free_ctx
      and fin' = 30 and now' = 31 and guard' = 32] by (auto simp: demo_tr_def)
  then show ?thesis using r by auto
qed

text \<open>Creating a run is idempotent: when a request with an idempotency key has succeeded, a later
  valid request of the same session with the same key, whatever happened to the run in between,
  returns that run and leaves the database unchanged.\<close>

theorem create_run_is_idempotent:
  assumes "run_inv db" and "svc_CreateRun J sfx now req db = (Inr rec, db1)"
    and "validateCreateRunRequest req = Inr p" and "cp_IdempotencyKey p \<noteq> []"
    and "run_step\<^sup>*\<^sup>* db1 db2"
    and "validateCreateRunRequest req' = Inr p'" and "cp_SessionKey p' = cp_SessionKey p"
    and "cp_IdempotencyKey p' = cp_IdempotencyKey p"
    and "jb_in J (normalizeJSON (cp_MetadataJSON p')) = Some m"
  shows "\<exists>rec'. svc_CreateRun J sfx' now' req' db2 = (Inr rec', db2) \<and> rp_run_id rec' = rp_run_id rec"
proof -
  let ?P = "\<lambda>r. r_session_key r = cp_SessionKey p \<and> r_idempotency_key r = Some (cp_IdempotencyKey p)"
  have inv1: "run_inv db1" using create_inv assms(1,2) by blast
  obtain r where r: "r \<in> set (runs db1)" "r_run_id r = rp_run_id rec" "?P r"
    using svc_CreateRun_row [OF assms(1-4)] by metis
  then have "\<exists>q. tbl_find r_run_id (rp_run_id rec) (runs db1) = Some q \<and> ?P q"
    using inv1 tbl_find_keyed [of r_run_id "runs db1" r] by (simp add: run_inv_def)
  then have "\<exists>q. tbl_find r_run_id (rp_run_id rec) (runs db2) = Some q \<and> ?P q"
    by (rule run_row_stable [OF assms(5) inv1]) (simp add: run_change_def same_run_def)
  then obtain q where "tbl_find r_run_id (rp_run_id rec) (runs db2) = Some q" and P: "?P q" by blast
  then have q: "q \<in> set (runs db2)" "r_run_id q = rp_run_id rec" using tbl_find_SomeD by fast+
  have inv2: "run_inv db2" using run_sys.inv_steps assms(5) inv1 by blast
  have "svc_CreateRun J sfx' now' req' db2 = (Inr (recordToProto (scanRunRow J q)), db2)"
    using inv2 q(1) _ _ assms(6) _ assms(9) by (rule repeated_create) (use P assms(4,7,8) in simp_all)
  then show ?thesis using q(2) by (simp add: recordToProto_def scanRunRow_def)
qed

theorem create_run_is_idempotent_witness:
  "\<exists>rec'. svc_CreateRun demo_codec (Some ''ff'') 99 demo_req (demo_sdb\<lparr>runs := [demo_new]\<rparr>) =
      (Inr rec', demo_sdb\<lparr>runs := [demo_new]\<rparr>) \<and>
    rp_run_id rec' = rp_run_id (recordToProto (scanRunRow demo_codec demo_new))"
  using demo_sdb_inv demo_create demo_valid _ rtranclp.rtrancl_refl demo_valid refl refl
  by (rule create_run_is_idempotent) (simp_all add: demo_create_params_def demo_codec_def normalizeJSON_def)

end
