(* ===== verification/Session.thy ===== *)
theory Session
  imports RunProps GoJson
begin

text \<open>
  The session service (\<^verbatim>\<open>apps/orchestrator/internal/session\<close>): the repository of sessions
  (\<^verbatim>\<open>store.go\<close>, \<^verbatim>\<open>admission.go\<close>), the gRPC handlers for sessions and runs (\<^verbatim>\<open>service.go\<close>) and the
  translation of run errors. The run handlers work over the Go interface \<^verbatim>\<open>RunManager\<close>, whose
  contract is the locale \<open>run_manager\<close>; the run service interprets it below.
\<close>

section \<open>The repository\<close>

record CreateSessionParams =
  sp_SessionKey :: string
  sp_UserID :: string
  sp_Channel :: string
  sp_MetadataJSON :: string

record SessionRecord =
  sr_SessionID :: string
  sr_SessionKey :: string
  sr_UserID :: string
  sr_Channel :: string
  sr_MetadataJSON :: string
  sr_Summary :: string
  sr_CreatedAt :: instant
  sr_UpdatedAt :: instant

definition scanSessionRow :: "jsonb_codec \<Rightarrow> session_row \<Rightarrow> SessionRecord" where
  "scanSessionRow J r =
     \<lparr>sr_SessionID = s_session_id r, sr_SessionKey = s_session_key r, sr_UserID = s_user_id r,
      sr_Channel = s_channel r, sr_MetadataJSON = jb_out J (s_metadata r), sr_Summary = s_summary r,
      sr_CreatedAt = s_created_at r, sr_UpdatedAt = s_updated_at r\<rparr>"

definition new_session :: "string \<Rightarrow> instant \<Rightarrow> CreateSessionParams \<Rightarrow> json \<Rightarrow> session_row" where
  "new_session sid now p meta =
     \<lparr>s_session_id = sid, s_session_key = sp_SessionKey p, s_user_id = sp_UserID p,
      s_channel = sp_Channel p, s_metadata = meta, s_summary = [], s_created_at = now,
      s_updated_at = now\<rparr>"

definition GetSessionByKey :: "jsonb_codec \<Rightarrow> string \<Rightarrow> kernel_db \<Rightarrow> go_err + SessionRecord" where
  "GetSessionByKey J sessionKey db =
     (case tbl_find s_session_key sessionKey (sessions db) of
        None \<Rightarrow> Inl ErrSessionNotFound
      | Some r \<Rightarrow> Inr (scanSessionRow J r))"

text \<open>The identity and the times of a new row are the defaults of the table's columns.\<close>

definition repo_CreateSession ::
  "jsonb_codec \<Rightarrow> string \<Rightarrow> instant \<Rightarrow> CreateSessionParams \<Rightarrow> kernel_db
     \<Rightarrow> (go_err, SessionRecord \<times> bool, kernel_db) outcome" where
  "repo_CreateSession J sid now p db =
     (case jb_in J (sp_MetadataJSON p) of
        None \<Rightarrow> (Inl (Wrap ''insert session'' jsonb_syntax_error), db)
      | Some meta \<Rightarrow>
          if tbl_find s_session_key (sp_SessionKey p) (sessions db) = None
          then (Inr (scanSessionRow J (new_session sid now p meta), True),
                db\<lparr>sessions := sessions db @ [new_session sid now p meta]\<rparr>)
          else case GetSessionByKey J (sp_SessionKey p) db of
            Inl e \<Rightarrow> (Inl e, db)
          | Inr r \<Rightarrow> (Inr (r, False), db))"

definition ListSessions :: "jsonb_codec \<Rightarrow> int \<Rightarrow> int \<Rightarrow> kernel_db \<Rightarrow> SessionRecord list" where
  "ListSessions J limit offset db =
     (let limit = (if limit \<le> 0 \<or> 100 < limit then 50 else limit);
          offset = (if offset < 0 then 0 else offset)
      in map (scanSessionRow J)
           (take (nat limit) (drop (nat offset) (sort_key (\<lambda>r. - s_updated_at r) (sessions db)))))"

definition UpdateSummary :: "string \<Rightarrow> string \<Rightarrow> instant \<Rightarrow> kernel_db \<Rightarrow> (go_err, unit, kernel_db) outcome" where
  "UpdateSummary sessionKey summary now db =
     (let sel = (\<lambda>r. s_session_key r = sessionKey) in
      if tbl_count sel (sessions db) = 0 then (Inl ErrSessionNotFound, db)
      else (Inr (), db\<lparr>sessions := tbl_update sel (\<lambda>r. r\<lparr>s_summary := summary, s_updated_at := now\<rparr>)
                          (sessions db)\<rparr>))"

definition GetSummary :: "string \<Rightarrow> kernel_db \<Rightarrow> go_err + string" where
  "GetSummary sessionKey db =
     (case tbl_find s_session_key sessionKey (sessions db) of
        None \<Rightarrow> Inl ErrSessionNotFound
      | Some r \<Rightarrow> Inr (s_summary r))"

text \<open>The admission of a kernel session compares an existing row with the request.\<close>

definition CreateSessionTx ::
  "jsonb_codec \<Rightarrow> string \<Rightarrow> instant \<Rightarrow> CreateSessionParams \<Rightarrow> kernel_db
     \<Rightarrow> (go_err, SessionRecord \<times> bool, kernel_db) outcome" where
  "CreateSessionTx J sid now p db =
     (if sp_SessionKey p = [] \<or> sp_UserID p = [] \<or> sp_Channel p = [] \<or>
         8192 < length (sp_MetadataJSON p) \<or> \<not> json_Valid (sp_MetadataJSON p)
      then (Inl (Errorf ''invalid kernel session admission''), db)
      else case jb_in J (sp_MetadataJSON p) of
        None \<Rightarrow> (Inl jsonb_syntax_error, db)
      | Some meta \<Rightarrow>
          (case tbl_find s_session_key (sp_SessionKey p) (sessions db) of
             None \<Rightarrow> (Inr (scanSessionRow J (new_session sid now p meta), True),
                      db\<lparr>sessions := sessions db @ [new_session sid now p meta]\<rparr>)
           | Some r \<Rightarrow>
               if s_user_id r \<noteq> sp_UserID p \<or> s_channel r \<noteq> sp_Channel p \<or> s_metadata r \<noteq> meta
               then (Inl (Errorf ''kernel session identity conflict''), db)
               else (Inr (scanSessionRow J r, False), db)))"

definition session_LockCompletionTx :: "exec_ctx \<Rightarrow> string \<Rightarrow> kernel_db \<Rightarrow> go_err + string" where
  "session_LockCompletionTx ctx key db =
     (case TokenFromContext ctx of
        None \<Rightarrow> Inl ErrStale
      | Some token \<Rightarrow>
          if tok_SessionKey token \<noteq> key then Inl ErrStale
          else case tbl_find s_session_key key (sessions db) of
            None \<Rightarrow> Inl ErrNoRows
          | Some r \<Rightarrow> Inr (s_channel r))"

section \<open>Session handlers\<close>

record CreateSessionRequest =
  sq_session_key :: string
  sq_user_id :: string
  sq_channel :: string
  sq_metadata_json :: string

definition normalizeMetadataJSON :: "string \<Rightarrow> go_err + string" where
  "normalizeMetadataJSON value =
     (let trimmed = TrimSpace value in
      if trimmed = [] then Inr ''{}''
      else case json_Compact trimmed of
        None \<Rightarrow> Inl (Errorf ''metadata_json must be valid JSON'')
      | Some compact \<Rightarrow> Inr compact)"

definition validateCreateSessionRequest :: "CreateSessionRequest \<Rightarrow> go_err + CreateSessionParams" where
  "validateCreateSessionRequest req =
     (let key = TrimSpace (sq_session_key req); user = TrimSpace (sq_user_id req);
          channel = TrimSpace (sq_channel req)
      in if key = [] then Inl (Errorf ''session_key is required'')
         else if user = [] then Inl (Errorf ''user_id is required'')
         else if channel = [] then Inl (Errorf ''channel is required'')
         else case normalizeMetadataJSON (sq_metadata_json req) of
           Inl e \<Rightarrow> Inl e
         | Inr meta \<Rightarrow> Inr \<lparr>sp_SessionKey = key, sp_UserID = user, sp_Channel = channel, sp_MetadataJSON = meta\<rparr>)"

definition invalidArgumentError :: "go_err \<Rightarrow> go_err" where
  "invalidArgumentError err = Status InvalidArgument (err_text err)"

definition Server_CreateSession ::
  "jsonb_codec \<Rightarrow> string \<Rightarrow> instant \<Rightarrow> CreateSessionRequest \<Rightarrow> kernel_db
     \<Rightarrow> (go_err, SessionRecord \<times> bool, kernel_db) outcome" where
  "Server_CreateSession J sid now req db =
     (case validateCreateSessionRequest req of
        Inl e \<Rightarrow> (Inl (invalidArgumentError e), db)
      | Inr p \<Rightarrow>
          (case repo_CreateSession J sid now p db of
             (Inl _, db') \<Rightarrow> (Inl (Status Internal ''create session failed''), db')
           | (Inr rc, db') \<Rightarrow> (Inr rc, db')))"

definition Server_GetSession :: "jsonb_codec \<Rightarrow> string \<Rightarrow> kernel_db \<Rightarrow> go_err + SessionRecord" where
  "Server_GetSession J session_key db =
     (if TrimSpace session_key = [] then Inl (Status InvalidArgument ''session_key is required'')
      else case GetSessionByKey J (TrimSpace session_key) db of
        Inl e \<Rightarrow> if e = ErrSessionNotFound then Inl (Status NotFound ''session not found'')
                 else Inl (Status Internal ''get session failed'')
      | Inr r \<Rightarrow> Inr r)"

definition resolveSessionKey :: "string \<Rightarrow> string \<Rightarrow> string \<Rightarrow> string" where
  "resolveSessionKey channel externalChatID externalUserID =
     (if externalChatID \<noteq> [] then Join [TrimSpace channel, ''chat'', TrimSpace externalChatID] '':''
      else Join [TrimSpace channel, ''user'', TrimSpace externalUserID] '':'')"

definition Server_ResolveSessionKey :: "string \<Rightarrow> string \<Rightarrow> string \<Rightarrow> go_err + string" where
  "Server_ResolveSessionKey channel external_chat_id external_user_id =
     (let channel = TrimSpace channel; chatID = TrimSpace external_chat_id; userID = TrimSpace external_user_id
      in if channel = [] then Inl (Status InvalidArgument ''channel is required'')
         else if chatID = [] \<and> userID = []
         then Inl (Status InvalidArgument ''external_chat_id or external_user_id is required'')
         else Inr (resolveSessionKey channel chatID userID))"

section \<open>Run handlers\<close>

definition mapRunError :: "go_err \<Rightarrow> go_err" where
  "mapRunError err =
     (if status_code err \<noteq> Unknown then err
      else let message = err_text err in
        if err_is err ErrRunNotFound then Status NotFound message
        else if err_is err ErrRunDuplicate then Status AlreadyExists message
        else if contains message ''is required'' \<or> contains message ''must be'' \<or> contains message ''not allowed''
        then Status InvalidArgument message
        else Status Internal message)"

text \<open>The handlers take the operations of the run manager they were built with, if any.\<close>

definition Server_CreateRun ::
  "((string \<Rightarrow> string \<Rightarrow> 's \<Rightarrow> go_err + RunRecord) \<times>
    (CreateRunRequest \<Rightarrow> 's \<Rightarrow> (go_err, RunRecord, 's) outcome)) option
     \<Rightarrow> CreateRunRequest \<Rightarrow> 's \<Rightarrow> (go_err, RunRecord, 's) outcome" where
  "Server_CreateRun mgr req s =
     (case mgr of
        None \<Rightarrow> (Inl (Status Unimplemented ''run manager is not configured''), s)
      | Some (find_run, create_run) \<Rightarrow>
          let key = (case cq_input_event req of None \<Rightarrow> [] | Some ev \<Rightarrow> TrimSpace (ie_idempotency_key ev));
              fresh = (case create_run req s of
                         (Inl e, s') \<Rightarrow> (Inl (mapRunError e), s')
                       | (Inr r, s') \<Rightarrow> (Inr r, s'))
          in if key = [] then fresh
             else case find_run (cq_session_key req) key s of
               Inr existing \<Rightarrow> (Inr existing, s)
             | Inl e \<Rightarrow> if \<not> err_is e ErrRunNotFound then (Inl (mapRunError e), s) else fresh)"

definition Server_UpdateRunState ::
  "(UpdateRunStateRequest \<Rightarrow> 's \<Rightarrow> (go_err, RunRecord, 's) outcome) option
     \<Rightarrow> UpdateRunStateRequest \<Rightarrow> 's \<Rightarrow> (go_err, RunRecord, 's) outcome" where
  "Server_UpdateRunState mgr req s =
     (case mgr of
        None \<Rightarrow> (Inl (Status Unimplemented ''run manager is not configured''), s)
      | Some transition \<Rightarrow>
          (case transition req s of
             (Inl e, s') \<Rightarrow> (Inl (mapRunError e), s')
           | (Inr r, s') \<Rightarrow> (Inr r, s')))"

definition Server_GetRun :: "(string \<Rightarrow> 's \<Rightarrow> go_err + RunRecord) option \<Rightarrow> string \<Rightarrow> 's \<Rightarrow> go_err + RunRecord" where
  "Server_GetRun mgr run_id s =
     (case mgr of
        None \<Rightarrow> Inl (Status Unimplemented ''run manager is not configured'')
      | Some get \<Rightarrow>
          if TrimSpace run_id = [] then Inl (Status InvalidArgument ''run_id is required'')
          else case get (TrimSpace run_id) s of
            Inl e \<Rightarrow> Inl (mapRunError e)
          | Inr r \<Rightarrow> Inr r)"

section \<open>The contract of a run manager\<close>

locale run_manager =
  fixes create :: "'env \<Rightarrow> CreateRunRequest \<Rightarrow> 's \<Rightarrow> (go_err, RunRecord, 's) outcome"
    and find_run :: "string \<Rightarrow> string \<Rightarrow> 's \<Rightarrow> go_err + RunRecord"
    and step :: "'s \<Rightarrow> 's \<Rightarrow> bool"
    and inv :: "'s \<Rightarrow> bool"
  assumes create_step: "inv s \<Longrightarrow> create env req s = (res, s') \<Longrightarrow> step s s'"
    and step_inv: "inv s \<Longrightarrow> step s t \<Longrightarrow> inv t"
    and find_missing: "find_run k i s = Inl e \<Longrightarrow> err_is e ErrRunNotFound"
    and create_found:
      "inv s \<Longrightarrow> create env req s = (Inr r, s') \<Longrightarrow> cq_input_event req = Some ev \<Longrightarrow>
       TrimSpace (ie_idempotency_key ev) \<noteq> [] \<Longrightarrow>
       \<exists>r'. find_run (cq_session_key req) (TrimSpace (ie_idempotency_key ev)) s' = Inr r' \<and> rp_run_id r' = rp_run_id r"
    and find_stable:
      "inv s \<Longrightarrow> step s t \<Longrightarrow> find_run k i s = Inr r \<Longrightarrow> \<exists>r'. find_run k i t = Inr r' \<and> rp_run_id r' = rp_run_id r"
begin

lemma find_stable_steps:
  assumes "step\<^sup>*\<^sup>* s t" and "inv s" and "find_run k i s = Inr r"
  shows "\<exists>r'. find_run k i t = Inr r' \<and> rp_run_id r' = rp_run_id r"
proof -
  have "inv t \<and> (\<exists>r'. find_run k i t = Inr r' \<and> rp_run_id r' = rp_run_id r)"
    using assms
  proof (induction rule: rtranclp_induct)
    case base
    then show ?case by simp
  next
    case (step y z)
    then obtain r' where "inv y" "find_run k i y = Inr r'" "rp_run_id r' = rp_run_id r" by blast
    with step(2) find_stable [of y z k i r'] step_inv show ?case by metis
  qed
  then show ?thesis by blast
qed

text \<open>A retried request of an answered one is answered with the same run, and does nothing.\<close>

lemma server_create_idempotent:
  assumes "inv s" and first: "Server_CreateRun (Some (find_run, create env)) req s = (Inr r, s1)"
    and ev: "cq_input_event req = Some ev" "TrimSpace (ie_idempotency_key ev) \<noteq> []"
    and steps: "step\<^sup>*\<^sup>* s1 s2"
    and again: "cq_session_key req' = cq_session_key req" "cq_input_event req' = Some ev'"
      "TrimSpace (ie_idempotency_key ev') = TrimSpace (ie_idempotency_key ev)"
  shows "\<exists>r'. Server_CreateRun (Some (find_run, create env')) req' s2 = (Inr r', s2) \<and> rp_run_id r' = rp_run_id r"
proof -
  let ?key = "TrimSpace (ie_idempotency_key ev)"
  have "inv s1 \<and> (\<exists>r1. find_run (cq_session_key req) ?key s1 = Inr r1 \<and> rp_run_id r1 = rp_run_id r)"
  proof (cases "find_run (cq_session_key req) ?key s")
    case (Inr old)
    with first ev \<open>inv s\<close> show ?thesis by (simp add: Server_CreateRun_def Let_def)
  next
    case (Inl e)
    with first ev find_missing [OF Inl] have cr: "create env req s = (Inr r, s1)"
      by (auto simp: Server_CreateRun_def Let_def split: prod.splits sum.splits)
    with create_found [OF \<open>inv s\<close> cr ev] create_step [OF \<open>inv s\<close> cr] step_inv \<open>inv s\<close>
    show ?thesis by blast
  qed
  then obtain r1 where "inv s1" "find_run (cq_session_key req) ?key s1 = Inr r1" "rp_run_id r1 = rp_run_id r"
    by blast
  with find_stable_steps [OF steps] obtain r2
    where "find_run (cq_session_key req) ?key s2 = Inr r2" "rp_run_id r2 = rp_run_id r" by metis
  with again ev(2) show ?thesis by (simp add: Server_CreateRun_def Let_def)
qed

end

section \<open>The run service meets the contract\<close>

lemma svc_CreateRun_valid:
  "svc_CreateRun J sfx now req db = (Inr r, db') \<Longrightarrow> \<exists>p. validateCreateRunRequest req = Inr p"
  by (cases "validateCreateRunRequest req") (auto simp: svc_CreateRun_def)

lemma create_params:
  "validateCreateRunRequest req = Inr p \<Longrightarrow> cq_input_event req = Some ev \<Longrightarrow>
     cp_SessionKey p = TrimSpace (cq_session_key req) \<and> cp_IdempotencyKey p = TrimSpace (ie_idempotency_key ev)"
  by (auto simp: validateCreateRunRequest_def split: if_splits sum.splits)

lemma find_run_stable:
  assumes "run_inv db" and "run_step db db'" and "svc_FindRunByIdempotencyKey J k i db = Inr r"
  shows "\<exists>r'. svc_FindRunByIdempotencyKey J k i db' = Inr r' \<and> rp_run_id r' = rp_run_id r"
proof -
  let ?P = "\<lambda>q. r_session_key q = TrimSpace k \<and> r_idempotency_key q = Some (TrimSpace i)"
  obtain q where q: "first_row ?P (runs db) = Some q" and r: "r = recordToProto (scanRunRow J q)"
    using assms(3) by (auto simp: svc_FindRunByIdempotencyKey_def repo_FindRunByIdempotencyKey_def split: option.splits)
  have "tbl_find r_run_id (r_run_id q) (runs db) = Some q"
    using assms(1) first_row_SomeD [OF q] tbl_find_keyed [of r_run_id "runs db" q] by (simp add: run_inv_def)
  moreover have inv': "run_inv db'" and "evolves db db'" using run_step_effect assms(1,2) by blast+
  ultimately obtain q' where q': "tbl_find r_run_id (r_run_id q) (runs db') = Some q'" and "run_change q q'"
    by (blast elim: evolves_find)
  then have "?P q'" using first_row_SomeD [OF q] by (simp add: run_change_def same_run_def)
  then have "repo_FindRunByIdempotencyKey J (TrimSpace k) (TrimSpace i) db' = Inr (scanRunRow J q')"
    using repo_FindRun_keyed [OF inv', of q' "TrimSpace i" J] tbl_find_SomeD [OF q'] by simp
  then show ?thesis
    using r tbl_find_SomeD [OF q']
    by (simp add: svc_FindRunByIdempotencyKey_def recordToProto_def scanRunRow_def)
qed

interpretation svc: run_manager "\<lambda>(sfx, now). svc_CreateRun J sfx now" "svc_FindRunByIdempotencyKey J" run_step run_inv
  for J
proof
  fix s s' t env req res e k i ev r
  show "run_step s s'" if "(case env of (sfx, now) \<Rightarrow> svc_CreateRun J sfx now) req s = (res, s')"
    using that by (cases env) (auto intro: create)
  show "run_inv t" if "run_inv s" "run_step s t" using that run_step_effect by blast
  show "err_is e ErrRunNotFound" if "svc_FindRunByIdempotencyKey J k i s = Inl e"
    using that by (auto simp: svc_FindRunByIdempotencyKey_def repo_FindRunByIdempotencyKey_def
        ErrRunNotFound_def split: option.splits)
  show "\<exists>r'. svc_FindRunByIdempotencyKey J k i t = Inr r' \<and> rp_run_id r' = rp_run_id r"
    if "run_inv s" "run_step s t" "svc_FindRunByIdempotencyKey J k i s = Inr r"
    using that by (rule find_run_stable)
  show "\<exists>r'. svc_FindRunByIdempotencyKey J (cq_session_key req) (TrimSpace (ie_idempotency_key ev)) s' = Inr r' \<and>
      rp_run_id r' = rp_run_id r"
    if inv: "run_inv s" and cr: "(case env of (sfx, now) \<Rightarrow> svc_CreateRun J sfx now) req s = (Inr r, s')"
      and ev: "cq_input_event req = Some ev" and key: "TrimSpace (ie_idempotency_key ev) \<noteq> []"
  proof -
    obtain sfx now where "env = (sfx, now)" by (cases env)
    with cr have cr: "svc_CreateRun J sfx now req s = (Inr r, s')" by simp
    then obtain p where p: "validateCreateRunRequest req = Inr p" using svc_CreateRun_valid by blast
    have par: "cp_SessionKey p = TrimSpace (cq_session_key req)" "cp_IdempotencyKey p = TrimSpace (ie_idempotency_key ev)"
      using create_params [OF p ev] by auto
    obtain q where q: "q \<in> set (runs s')" "r_run_id q = rp_run_id r" "r_session_key q = cp_SessionKey p"
      "r_idempotency_key q = Some (cp_IdempotencyKey p)"
      using inv cr p by (rule svc_CreateRun_row) (use par key in simp)
    have "run_inv s'" using create_inv inv cr by blast
    from repo_FindRun_keyed [OF this q(1,4), of J] show ?thesis
      using q par by (simp add: svc_FindRunByIdempotencyKey_def recordToProto_def scanRunRow_def)
  qed
qed

section \<open>Properties\<close>

text \<open>A retried request is answered with the run of the first: once the gRPC server has answered
  a creation with an idempotency key, every later creation with the same session key and
  idempotency key is answered with that run and changes nothing, whatever else the second
  request contains and whatever happened to the run in the meantime.\<close>

theorem server_create_run_is_idempotent:
  assumes "run_inv db"
    and "Server_CreateRun (Some (svc_FindRunByIdempotencyKey J, svc_CreateRun J sfx now)) req db = (Inr r, db1)"
    and "cq_input_event req = Some ev" and "TrimSpace (ie_idempotency_key ev) \<noteq> []"
    and "run_step\<^sup>*\<^sup>* db1 db2"
    and "cq_session_key req' = cq_session_key req" and "cq_input_event req' = Some ev'"
    and "TrimSpace (ie_idempotency_key ev') = TrimSpace (ie_idempotency_key ev)"
  shows "\<exists>r'. Server_CreateRun (Some (svc_FindRunByIdempotencyKey J, svc_CreateRun J sfx' now')) req' db2 = (Inr r', db2) \<and>
    rp_run_id r' = rp_run_id r"
  using svc.server_create_idempotent [of db J "(sfx, now)" req r db1 ev db2 req' ev' "(sfx', now')"] assms by simp

theorem server_create_run_is_idempotent_witness:
  "\<exists>r'. Server_CreateRun (Some (svc_FindRunByIdempotencyKey demo_codec, svc_CreateRun demo_codec (Some ''ff'') 99))
      (demo_req\<lparr>cq_model_provider := []\<rparr>) (demo_sdb\<lparr>runs := [demo_new]\<rparr>) = (Inr r', demo_sdb\<lparr>runs := [demo_new]\<rparr>) \<and>
    rp_run_id r' = rp_run_id (recordToProto (scanRunRow demo_codec demo_new))"
proof -
  let ?ev = "\<lparr>ie_event_id = ''e'', ie_idempotency_key = ''k''\<rparr>"
  have k: "TrimSpace ''k'' = ''k''" by (simp add: TrimSpace_def strip.simps space_encodings_def starts_def)
  have "Server_CreateRun (Some (svc_FindRunByIdempotencyKey demo_codec, svc_CreateRun demo_codec None 7)) demo_req demo_sdb =
      (Inr (recordToProto (scanRunRow demo_codec demo_new)), demo_sdb\<lparr>runs := [demo_new]\<rparr>)"
  proof -
    have ev: "cq_input_event demo_req = Some ?ev" by (simp add: demo_req_def)
    have none: "svc_FindRunByIdempotencyKey demo_codec key ''k'' demo_sdb = Inl ErrRunNotFound" for key
      by (simp add: svc_FindRunByIdempotencyKey_def repo_FindRunByIdempotencyKey_def demo_sdb_def)
    show ?thesis
      by (simp add: Server_CreateRun_def Let_def ev k none demo_create) (simp add: ErrRunNotFound_def)
  qed
  from server_create_run_is_idempotent [OF demo_sdb_inv this, of ?ev, OF _ _ rtranclp.rtrancl_refl,
      of "demo_req\<lparr>cq_model_provider := []\<rparr>" ?ev "Some ''ff''" 99]
  show ?thesis by (simp add: demo_req_def k)
qed

text \<open>Session keys identify conversations: for channels whose name contains no colon two
  resolutions give the same key only when they name the same channel, the same kind of peer
  (chat or user) and the same peer.\<close>

theorem session_key_identifies_peer:
  assumes "Server_ResolveSessionKey channel chat user = Inr key"
    and "Server_ResolveSessionKey channel' chat' user' = Inr key"
    and "CHR '':'' \<notin> set (TrimSpace channel)" and "CHR '':'' \<notin> set (TrimSpace channel')"
  shows "TrimSpace channel = TrimSpace channel' \<and> TrimSpace chat = TrimSpace chat' \<and>
    (TrimSpace chat = [] \<longrightarrow> TrimSpace user = TrimSpace user')"
proof -
  let ?rest = "\<lambda>chat user. if TrimSpace chat \<noteq> [] then ''chat:'' @ TrimSpace chat else ''user:'' @ TrimSpace user"
  have key: "key = TrimSpace channel @ CHR '':'' # ?rest chat user"
    if "Server_ResolveSessionKey channel chat user = Inr key" for channel chat user
    using that by (auto simp: Server_ResolveSessionKey_def resolveSessionKey_def Let_def split: if_splits)
  have "TrimSpace channel = TrimSpace channel'" and "?rest chat user = ?rest chat' user'"
    using first_separator_unique [OF trans [OF key [OF assms(1), symmetric] key [OF assms(2)]] assms(3,4)]
    by blast+
  then show ?thesis by (auto split: if_splits)
qed

theorem session_key_identifies_peer_witness:
  "TrimSpace ''web'' = TrimSpace '' web'' \<and> TrimSpace ''7'' = TrimSpace ''7 '' \<and> TrimSpace ''7'' \<noteq> []"
proof -
  have t: "TrimSpace ''web'' = ''web''" "TrimSpace '' web'' = ''web''" "TrimSpace ''7'' = ''7''" "TrimSpace ''7 '' = ''7''"
    by (simp_all add: TrimSpace_def strip.simps space_encodings_def starts_def)
  have 1: "Server_ResolveSessionKey ''web'' ''7'' [] = Inr ''web:chat:7''"
    and 2: "Server_ResolveSessionKey '' web'' ''7 '' ''u'' = Inr ''web:chat:7''"
    by (simp_all add: Server_ResolveSessionKey_def resolveSessionKey_def t)
  from session_key_identifies_peer [OF 1 2] show ?thesis by (simp add: t)
qed

text \<open>Creating a session is get-or-create by key: after a creation the key denotes the returned
  session, and a second creation with the same key, whatever user, channel or metadata it
  carries, reports the existing session as not created and changes nothing.\<close>

theorem create_session_is_get_or_create:
  assumes "repo_CreateSession J sid now p db = (Inr (r, created), db1)"
    and "sp_SessionKey p' = sp_SessionKey p" and "jb_in J (sp_MetadataJSON p') = Some m"
  shows "GetSessionByKey J (sp_SessionKey p) db1 = Inr r \<and>
    repo_CreateSession J sid' now' p' db1 = (Inr (r, False), db1)"
proof -
  have get: "GetSessionByKey J (sp_SessionKey p) db1 = Inr r"
    using assms(1)
    by (auto simp: repo_CreateSession_def GetSessionByKey_def tbl_find_snoc new_session_def
        split: option.splits if_splits)
  then have "tbl_find s_session_key (sp_SessionKey p') (sessions db1) \<noteq> None"
    using assms(2) by (auto simp: GetSessionByKey_def split: option.splits)
  with get assms(2,3) show ?thesis by (simp add: repo_CreateSession_def)
qed

theorem create_session_is_get_or_create_witness:
  "\<exists>r db1. GetSessionByKey demo_codec ''n'' db1 = Inr r \<and>
    repo_CreateSession demo_codec ''id3'' 9
      \<lparr>sp_SessionKey = ''n'', sp_UserID = ''v'', sp_Channel = ''tg'', sp_MetadataJSON = ''{}''\<rparr> db1 = (Inr (r, False), db1)"
proof -
  let ?p = "\<lparr>sp_SessionKey = ''n'', sp_UserID = ''u'', sp_Channel = ''web'', sp_MetadataJSON = ''{}''\<rparr>"
  obtain r db1 where "repo_CreateSession demo_codec ''id2'' 8 ?p demo_sdb = (Inr (r, True), db1)"
    by (simp add: repo_CreateSession_def demo_codec_def demo_sdb_def)
  from create_session_is_get_or_create [OF this,
      of "\<lparr>sp_SessionKey = ''n'', sp_UserID = ''v'', sp_Channel = ''tg'', sp_MetadataJSON = ''{}''\<rparr>" "JObj []" "''id3''" 9]
  show ?thesis by (auto simp: demo_codec_def)
qed

text \<open>Two requests the client got wrong are reported as internal errors: a finishing time for a
  non-terminal target state, and a run for a session that does not exist. The translation of
  run errors knows neither text.\<close>

theorem run_request_errors_reported_internal:
  "mapRunError (Errorf ''finished_at is only allowed for terminal states'') =
     Status Internal ''finished_at is only allowed for terminal states'' \<and>
   mapRunError ErrSessionNotFound = Status Internal ''session not found''"
  by (simp add: mapRunError_def ErrRunNotFound_def ErrRunDuplicate_def ErrSessionNotFound_def)

end
