(* ===== verification/LeaseRedis.thy ===== *)
theory LeaseRedis
  imports LeasePg GoTime
begin

text \<open>
  The Redis lease manager (\<^verbatim>\<open>session/lease.go\<close>) with its three Lua scripts. Redis holds two
  families of expiring keys: the lease of a session under \<^verbatim>\<open>butler:session_lease:\<close> and the
  session of a lease identity under \<^verbatim>\<open>butler:lease_index:\<close>. A script runs atomically; \<open>now\<close> is the
  server's clock and \<open>go_now\<close> the clock of the Go process. Stored leases are records rather
  than their JSON text; the timestamps the scripts print and Go parses back are treated in the
  section on the calendar.
\<close>

section \<open>Keys with an expiry\<close>

definition unix_epoch :: instant where
  "unix_epoch = 62135596800 * second"

text \<open>The server's clock in milliseconds since 1970: the reading of \<^verbatim>\<open>TIME\<close> as the scripts combine it,
  and the clock the expiry of keys is compared with.\<close>

definition redis_millis :: "instant \<Rightarrow> int" where
  "redis_millis now = (now - unix_epoch) div millisecond"

record redis =
  rd_leases :: "string \<Rightarrow> (LeaseRecord \<times> int) option"
  rd_index :: "string \<Rightarrow> (string \<times> int) option"

definition redis_GET :: "(string \<Rightarrow> ('v \<times> int) option) \<Rightarrow> instant \<Rightarrow> string \<Rightarrow> 'v option" where
  "redis_GET m now k =
     (case m k of
        None \<Rightarrow> None
      | Some (v, deadline) \<Rightarrow> if redis_millis now \<le> deadline then Some v else None)"

definition redis_SET_PX :: "string \<Rightarrow> 'v \<Rightarrow> int \<Rightarrow> instant \<Rightarrow> (string \<Rightarrow> ('v \<times> int) option) \<Rightarrow> (string \<Rightarrow> ('v \<times> int) option)" where
  "redis_SET_PX k v ttlMillis now m = m(k \<mapsto> (v, redis_millis now + ttlMillis))"

definition redis_DEL :: "string \<Rightarrow> (string \<Rightarrow> ('v \<times> int) option) \<Rightarrow> (string \<Rightarrow> ('v \<times> int) option)" where
  "redis_DEL k m = m(k := None)"

definition invalid_expire :: go_err where
  "invalid_expire = Errorf ''ERR invalid expire time in 'set' command''"

section \<open>Operations\<close>

definition buildLeaseID :: "string \<Rightarrow> string \<Rightarrow> string \<Rightarrow> string" where
  "buildLeaseID sessionKey runID ownerID =
     Join [TrimSpace sessionKey, TrimSpace runID, TrimSpace ownerID] '':''"

definition requested_lease :: "instant \<Rightarrow> AcquireLeaseParams \<Rightarrow> LeaseRecord" where
  "requested_lease go_now p =
     \<lparr>lr_FenceEpoch = 0, lr_LeaseID = buildLeaseID (ap_SessionKey p) (ap_RunID p) (ap_OwnerID p),
      lr_SessionKey = ap_SessionKey p, lr_RunID = ap_RunID p, lr_OwnerID = ap_OwnerID p,
      lr_TTLSeconds = go_div (ap_TTL p) second, lr_AcquiredAt = go_now,
      lr_ExpiresAt = go_now + ap_TTL p\<rparr>"

text \<open>The instant a script prints as \<^verbatim>\<open>expires_at\<close>.\<close>

definition script_expiry :: "instant \<Rightarrow> int \<Rightarrow> instant" where
  "script_expiry now ttlMillis = unix_epoch + (redis_millis now + ttlMillis) * millisecond"

definition rd_AcquireLease ::
  "instant \<Rightarrow> AcquireLeaseParams \<Rightarrow> instant \<Rightarrow> redis \<Rightarrow> (go_err, LeaseRecord, redis) outcome" where
  "rd_AcquireLease go_now p now s =
     (case validateAcquireLeaseParams p of
        Inl e \<Rightarrow> (Inl e, s)
      | Inr _ \<Rightarrow>
          let lease = requested_lease go_now p; key = ap_SessionKey p;
              ttlMillis = duration_Milliseconds (ap_TTL p);
              put = (\<lambda>rec. if ttlMillis \<le> 0 then (Inl (Wrap ''acquire lease'' invalid_expire), s)
                           else (Inr rec,
                             s\<lparr>rd_leases := redis_SET_PX key rec ttlMillis now (rd_leases s),
                               rd_index := redis_SET_PX (lr_LeaseID lease) key ttlMillis now (rd_index s)\<rparr>))
          in case redis_GET (rd_leases s) now key of
               None \<Rightarrow> put lease
             | Some current \<Rightarrow>
                 if lr_RunID current = ap_RunID p \<and> lr_OwnerID current = ap_OwnerID p
                 then put (current\<lparr>lr_TTLSeconds := ttlMillis div 1000, lr_ExpiresAt := script_expiry now ttlMillis\<rparr>)
                 else (Inl ErrLeaseConflict, s))"

definition rd_RenewLease ::
  "string \<Rightarrow> duration \<Rightarrow> instant \<Rightarrow> redis \<Rightarrow> (go_err, LeaseRecord, redis) outcome" where
  "rd_RenewLease leaseID ttl now s =
     (let leaseID = TrimSpace leaseID; ttlMillis = duration_Milliseconds ttl in
      if leaseID = [] then (Inl (Errorf ''lease_id is required''), s)
      else if ttl \<le> 0 then (Inl (Errorf ''ttl must be greater than zero''), s)
      else case redis_GET (rd_index s) now leaseID of
        None \<Rightarrow> (Inl ErrLeaseNotFound, s)
      | Some key \<Rightarrow>
          (case redis_GET (rd_leases s) now key of
             None \<Rightarrow> (Inl ErrLeaseNotFound, s\<lparr>rd_index := redis_DEL leaseID (rd_index s)\<rparr>)
           | Some current \<Rightarrow>
               if lr_LeaseID current \<noteq> leaseID
               then (Inl ErrLeaseNotFound, s\<lparr>rd_index := redis_DEL leaseID (rd_index s)\<rparr>)
               else if ttlMillis \<le> 0 then (Inl (Wrap ''renew lease'' invalid_expire), s)
               else let rec = current\<lparr>lr_TTLSeconds := go_div ttl second, lr_ExpiresAt := script_expiry now ttlMillis\<rparr>
                    in (Inr rec, s\<lparr>rd_leases := redis_SET_PX key rec ttlMillis now (rd_leases s),
                                  rd_index := redis_SET_PX leaseID key ttlMillis now (rd_index s)\<rparr>)))"

definition rd_ReleaseLease :: "string \<Rightarrow> instant \<Rightarrow> redis \<Rightarrow> (go_err, bool, redis) outcome" where
  "rd_ReleaseLease leaseID now s =
     (let leaseID = TrimSpace leaseID in
      if leaseID = [] then (Inl (Errorf ''lease_id is required''), s)
      else case redis_GET (rd_index s) now leaseID of
        None \<Rightarrow> (Inr False, s)
      | Some key \<Rightarrow>
          (case redis_GET (rd_leases s) now key of
             None \<Rightarrow> (Inr False, s\<lparr>rd_index := redis_DEL leaseID (rd_index s)\<rparr>)
           | Some current \<Rightarrow>
               if lr_LeaseID current \<noteq> leaseID then (Inr False, s)
               else (Inr True, s\<lparr>rd_leases := redis_DEL key (rd_leases s),
                                rd_index := redis_DEL leaseID (rd_index s)\<rparr>)))"

section \<open>The manager meets the contract\<close>

definition rd_holder :: "redis \<Rightarrow> instant \<Rightarrow> string \<Rightarrow> (string \<times> string \<times> string) option" where
  "rd_holder s now k =
     map_option (\<lambda>r. (lr_LeaseID r, lr_RunID r, lr_OwnerID r)) (redis_GET (rd_leases s) now k)"

definition rd_owns :: "redis \<Rightarrow> instant \<Rightarrow> string \<Rightarrow> string option" where
  "rd_owns s now l =
     (if l = [] \<or> TrimSpace l \<noteq> l then None
      else case redis_GET (rd_index s) now l of
        None \<Rightarrow> None
      | Some k \<Rightarrow>
          (case redis_GET (rd_leases s) now k of
             None \<Rightarrow> None
           | Some r \<Rightarrow> if lr_LeaseID r = l then Some k else None))"

text \<open>Every stored lease carries the identity built from its session, run and owner.\<close>

definition rd_inv :: "redis \<Rightarrow> bool" where
  "rd_inv s \<longleftrightarrow> (\<forall>k r d. rd_leases s k = Some (r, d) \<longrightarrow>
     lr_SessionKey r = k \<and> lr_LeaseID r = buildLeaseID k (lr_RunID r) (lr_OwnerID r))"

lemma redis_GET_simps [simp]:
  "redis_GET (redis_SET_PX k v ttl now m) now k = (if 0 \<le> ttl then Some v else None)"
  "k' \<noteq> k \<Longrightarrow> redis_GET (redis_SET_PX k v ttl now' m) now k' = redis_GET m now k'"
  "redis_GET (redis_DEL k m) now k = None"
  "k' \<noteq> k \<Longrightarrow> redis_GET (redis_DEL k m) now k' = redis_GET m now k'"
  by (simp_all add: redis_GET_def redis_SET_PX_def redis_DEL_def)

lemma redis_GET_SomeD: "redis_GET m now k = Some v \<Longrightarrow> \<exists>d. m k = Some (v, d)"
  by (auto simp: redis_GET_def split: option.splits if_splits)

lemma rd_inv_live:
  "rd_inv s \<Longrightarrow> redis_GET (rd_leases s) now k = Some r \<Longrightarrow>
     lr_SessionKey r = k \<and> lr_LeaseID r = buildLeaseID k (lr_RunID r) (lr_OwnerID r)"
  by (auto simp: rd_inv_def dest: redis_GET_SomeD)

lemma rd_inv_put:
  "rd_inv s \<Longrightarrow> lr_SessionKey r = k \<and> lr_LeaseID r = buildLeaseID k (lr_RunID r) (lr_OwnerID r) \<Longrightarrow>
     rd_inv (s\<lparr>rd_leases := redis_SET_PX k r ttl now (rd_leases s)\<rparr>)"
  by (auto simp: rd_inv_def redis_SET_PX_def)

lemma rd_inv_index [simp]: "rd_inv (s\<lparr>rd_index := idx\<rparr>) \<longleftrightarrow> rd_inv s"
  by (simp add: rd_inv_def)

lemma rd_inv_del: "rd_inv s \<Longrightarrow> rd_inv (s\<lparr>rd_leases := redis_DEL k (rd_leases s)\<rparr>)"
  by (auto simp: rd_inv_def redis_DEL_def)

text \<open>A lease identity has no surrounding white space, because its parts have none.\<close>

lemma starts_separator:
  assumes "starts e (a @ c # b)" and "c \<notin> set e"
  shows "starts e a"
proof -
  have e: "take (length e) (a @ c # b) = e" "e \<noteq> []" using assms(1) by (auto simp: starts_def)
  have "length e \<le> length a"
  proof (rule ccontr)
    assume "\<not> length e \<le> length a"
    then have "c \<in> set (take (length e) (a @ c # b))" by (cases "length e - length a") auto
    with e(1) assms(2) show False by simp
  qed
  with e show ?thesis by (simp add: starts_def)
qed

lemma strip_separator:
  assumes "strip encs a = a" and "\<forall>e \<in> set encs. c \<notin> set e" and "[] \<notin> set encs"
  shows "strip encs (a @ c # b) = a @ c # b"
proof (rule strip_none)
  have none: "\<not> starts e a" if "e \<in> set encs" for e
    using strip_stuck [of encs a] that assms(1) by (auto simp: find_None_iff)
  show "find (\<lambda>e. starts e (a @ c # b)) encs = None"
    using none starts_separator assms(2) by (fastforce simp: find_None_iff)
qed

lemma colon_not_space: "\<forall>e \<in> set space_encodings. CHR '':'' \<notin> set e" "[] \<notin> set space_encodings"
  "\<forall>e \<in> set (map rev space_encodings). CHR '':'' \<notin> set e" "[] \<notin> set (map rev space_encodings)"
  by (simp_all add: space_encodings_def)

lemma TrimSpace_fixes:
  "strip space_encodings (TrimSpace s) = TrimSpace s"
  "strip (map rev space_encodings) (rev (TrimSpace s)) = rev (TrimSpace s)"
proof -
  have "find (\<lambda>e. starts e (TrimSpace s)) space_encodings = None"
    using TrimSpace_take [of s] strip_stuck [of space_encodings s] find_starts_take by metis
  then show "strip space_encodings (TrimSpace s) = TrimSpace s" by (rule strip_none)
  show "strip (map rev space_encodings) (rev (TrimSpace s)) = rev (TrimSpace s)"
    by (simp add: TrimSpace_def)
qed

lemma TrimSpace_buildLeaseID [simp]: "TrimSpace (buildLeaseID k r w) = buildLeaseID k r w"
proof -
  let ?id = "TrimSpace k @ CHR '':'' # TrimSpace r @ CHR '':'' # TrimSpace w"
  have id: "buildLeaseID k r w = ?id" by (simp add: buildLeaseID_def)
  have "strip space_encodings ?id = ?id"
    by (rule strip_separator) (use TrimSpace_fixes colon_not_space in blast)+
  moreover have "strip (map rev space_encodings) (rev ?id) = rev ?id"
    using strip_separator [OF TrimSpace_fixes(2) [of w] colon_not_space(3,4), of "rev (TrimSpace r) @ CHR '':'' # rev (TrimSpace k)"]
    by simp
  ultimately show ?thesis unfolding id TrimSpace_def [of ?id] by simp
qed

lemma buildLeaseID_nonempty [simp]: "buildLeaseID k r w \<noteq> []"
  by (simp add: buildLeaseID_def)

lemma rd_AcquireLease_cases:
  assumes "rd_AcquireLease go_now p now s = (res, s')" and "rd_inv s"
  obtains (refused) e where "res = Inl e" and "s' = s"
  | (stored) r where "res = Inr r" and "0 < duration_Milliseconds (ap_TTL p)"
      and "lr_RunID r = ap_RunID p" and "lr_OwnerID r = ap_OwnerID p" and "lr_SessionKey r = ap_SessionKey p"
      and "lr_LeaseID r = buildLeaseID (ap_SessionKey p) (ap_RunID p) (ap_OwnerID p)"
      and "s' = s\<lparr>rd_leases := redis_SET_PX (ap_SessionKey p) r (duration_Milliseconds (ap_TTL p)) now (rd_leases s),
        rd_index := redis_SET_PX (buildLeaseID (ap_SessionKey p) (ap_RunID p) (ap_OwnerID p)) (ap_SessionKey p)
          (duration_Milliseconds (ap_TTL p)) now (rd_index s)\<rparr>"
proof (cases "validateAcquireLeaseParams p")
  case (Inl e)
  with assms show ?thesis by (intro refused) (auto simp: rd_AcquireLease_def)
next
  case valid: (Inr u)
  let ?ms = "duration_Milliseconds (ap_TTL p)"
  have lid: "lr_LeaseID (requested_lease go_now p) = buildLeaseID (ap_SessionKey p) (ap_RunID p) (ap_OwnerID p)"
    by (simp add: requested_lease_def)
  show ?thesis
  proof (cases "redis_GET (rd_leases s) now (ap_SessionKey p)")
    case None
    show ?thesis
    proof (cases "?ms \<le> 0")
      case True
      with None valid assms(1) show ?thesis by (intro refused) (auto simp: rd_AcquireLease_def Let_def)
    next
      case False
      with None valid assms(1) lid show ?thesis
        by (intro stored [of "requested_lease go_now p"])
          (auto simp: rd_AcquireLease_def Let_def, simp_all add: requested_lease_def)
    qed
  next
    case (Some cur)
    let ?new = "cur\<lparr>lr_TTLSeconds := ?ms div 1000, lr_ExpiresAt := script_expiry now ?ms\<rparr>"
    have cur: "lr_SessionKey cur = ap_SessionKey p" "lr_LeaseID cur = buildLeaseID (ap_SessionKey p) (lr_RunID cur) (lr_OwnerID cur)"
      using rd_inv_live [OF assms(2) Some] by auto
    consider "\<not> (lr_RunID cur = ap_RunID p \<and> lr_OwnerID cur = ap_OwnerID p)" | "?ms \<le> 0"
      | "lr_RunID cur = ap_RunID p" "lr_OwnerID cur = ap_OwnerID p" "0 < ?ms" by linarith
    then show ?thesis
    proof cases
      case 1
      with Some valid assms(1) show ?thesis by (intro refused) (auto simp: rd_AcquireLease_def Let_def)
    next
      case 2
      with Some valid assms(1) show ?thesis
        by (cases "lr_RunID cur = ap_RunID p \<and> lr_OwnerID cur = ap_OwnerID p")
          (auto simp: rd_AcquireLease_def Let_def intro: refused)
    next
      case 3
      with Some valid assms(1) have "res = Inr ?new" "s' = s\<lparr>rd_leases := redis_SET_PX (ap_SessionKey p) ?new ?ms now (rd_leases s),
          rd_index := redis_SET_PX (lr_LeaseID (requested_lease go_now p)) (ap_SessionKey p) ?ms now (rd_index s)\<rparr>"
        by (simp_all add: rd_AcquireLease_def Let_def)
      with 3 cur lid show ?thesis by (intro stored [of ?new]) simp_all
    qed
  qed
qed

lemma rd_ReleaseLease_owned:
  assumes "rd_owns s now l = Some k"
  shows "rd_ReleaseLease l now s =
    (Inr True, s\<lparr>rd_leases := redis_DEL k (rd_leases s), rd_index := redis_DEL l (rd_index s)\<rparr>)"
  using assms by (auto simp: rd_owns_def rd_ReleaseLease_def Let_def split: if_splits option.splits)

lemma rd_ReleaseLease_inv: "rd_inv s \<Longrightarrow> rd_ReleaseLease l now s = (res, s') \<Longrightarrow> rd_inv s'"
  by (auto simp: rd_ReleaseLease_def Let_def intro: rd_inv_del split: if_splits option.splits)

interpretation rd: lease_manager "\<lambda>_. rd_AcquireLease go_now" rd_ReleaseLease rd_holder rd_owns rd_inv
  for go_now
proof
  fix s s' now t p res res' l run owner r k e
  show "rd_inv s'" if inv: "rd_inv s" and acq: "rd_AcquireLease go_now p now s = (res, s')"
    using acq inv by (cases rule: rd_AcquireLease_cases) (auto simp: inv intro: rd_inv_put)
  show "rd_inv s'" if "rd_inv s" "rd_ReleaseLease l now s = (res', s')"
    using that by (rule rd_ReleaseLease_inv)
  show "\<exists>e. rd_AcquireLease go_now p now s = (Inl e, s) \<and> err_is e ErrLeaseConflict"
    if "validateAcquireLeaseParams p = Inr ()" "rd_holder s now (ap_SessionKey p) = Some (l, run, owner)"
      "(run, owner) \<noteq> (ap_RunID p, ap_OwnerID p)"
    using that by (auto simp: rd_AcquireLease_def rd_holder_def Let_def ErrLeaseConflict_def)
  show "rd_AcquireLease go_now p now s = (Inl e, s)" if "validateAcquireLeaseParams p = Inl e"
    using that by (simp add: rd_AcquireLease_def)
  show "rd_holder s' t k = rd_holder s t k"
    if inv: "rd_inv s" and acq: "rd_AcquireLease go_now p now s = (res, s')" and "k \<noteq> ap_SessionKey p"
    using acq inv by (cases rule: rd_AcquireLease_cases) (use that(3) in \<open>simp_all add: rd_holder_def\<close>)
  show "rd_holder s' now (ap_SessionKey p) = Some (lr_LeaseID r, ap_RunID p, ap_OwnerID p) \<and>
      rd_owns s' now (lr_LeaseID r) = Some (ap_SessionKey p)"
    if inv: "rd_inv s" and acq: "rd_AcquireLease go_now p now s = (Inr r, s')"
    using acq inv by (cases rule: rd_AcquireLease_cases) (simp_all add: rd_holder_def rd_owns_def)
  show "res' = Inr True \<and> rd_holder s' now k = None \<and> (\<forall>k' t. k' \<noteq> k \<longrightarrow> rd_holder s' t k' = rd_holder s t k')"
    if "rd_inv s" "rd_owns s now l = Some k" "rd_ReleaseLease l now s = (res', s')"
    using rd_ReleaseLease_owned [OF that(2)] that(3) by (auto simp: rd_holder_def)
qed

section \<open>The calendar of the scripts\<close>

text \<open>
  \<^verbatim>\<open>epoch_to_iso\<close> of the Lua scripts: the date and time of a number of seconds since 1970. Lua
  numbers are doubles, exact for these integers.
\<close>

record iso_fields =
  iso_y :: int
  iso_m :: int
  iso_d :: int
  iso_h :: int
  iso_mi :: int
  iso_sec :: int

definition lua_era :: "int \<Rightarrow> int" where
  "lua_era Z = (if 0 \<le> Z then Z else Z - 146096) div 146097"

text \<open>From 1 March of year 0 on \<open>lua_era\<close> is the plain quotient. Before that date the floor of the
  shifted quotient is not the era; no clock reading is that early.\<close>

definition lua_yoe :: "int \<Rightarrow> int" where
  "lua_yoe doe = (doe - doe div 1460 + doe div 36524 - doe div 146096) div 365"

definition lua_doy :: "int \<Rightarrow> int \<Rightarrow> int" where
  "lua_doy doe yoe = doe - (365 * yoe + yoe div 4 - yoe div 100)"

definition lua_mp :: "int \<Rightarrow> int" where
  "lua_mp doy = (5 * doy + 2) div 153"

definition epoch_fields :: "int \<Rightarrow> iso_fields" where
  "epoch_fields s =
     (let Z = s div 86400 + 719468; era = lua_era Z; doe = Z - era * 146097; yoe = lua_yoe doe;
          y = yoe + era * 400; doy = lua_doy doe yoe; mp = lua_mp doy;
          d = doy - (153 * mp + 2) div 5 + 1; m = mp + (if mp < 10 then 3 else - 9);
          daySec = s mod 86400
      in \<lparr>iso_y = (if m \<le> 2 then y + 1 else y), iso_m = m, iso_d = d, iso_h = daySec div 3600,
          iso_mi = daySec mod 3600 div 60, iso_sec = daySec mod 60\<rparr>)"

definition pad2 :: "int \<Rightarrow> string" where
  "pad2 n = [char_of (nat (48 + n div 10)), char_of (nat (48 + n mod 10))]"

definition pad4 :: "int \<Rightarrow> string" where
  "pad4 n = pad2 (n div 100) @ pad2 (n mod 100)"

text \<open>\<^verbatim>\<open>string.format\<close> with \<^verbatim>\<open>%04d\<close> and \<^verbatim>\<open>%02d\<close>, for values of at most that many digits.\<close>

definition epoch_to_iso :: "int \<Rightarrow> string" where
  "epoch_to_iso s =
     (let f = epoch_fields s
      in pad4 (iso_y f) @ ''-'' @ pad2 (iso_m f) @ ''-'' @ pad2 (iso_d f) @ ''T'' @
         pad2 (iso_h f) @ '':'' @ pad2 (iso_mi f) @ '':'' @ pad2 (iso_sec f))"

definition pad9 :: "int \<Rightarrow> string" where
  "pad9 n = char_of (nat (48 + n div 100000000)) # pad4 (n div 10000 mod 10000) @ pad4 (n mod 10000)"

definition script_expires_at :: "int \<Rightarrow> string" where
  "script_expires_at millis = epoch_to_iso (millis div 1000) @ ''.'' @ pad9 (millis mod 1000 * 1000000) @ ''Z''"

text \<open>Years and days of a 400-year era, counted from 1 March: year \<open>y\<close> begins at day \<open>era_start y\<close>.\<close>

definition era_start :: "int \<Rightarrow> int" where
  "era_start y = 365 * y + y div 4 - y div 100"

definition era_fin :: "int \<Rightarrow> int" where
  "era_fin y = (if y = 399 then 146096 else era_start (y + 1) - 1)"

definition yoe_num :: "int \<Rightarrow> int" where
  "yoe_num doe = doe - doe div 1460 + doe div 36524 - doe div 146096"

lemma yoe_num_step:
  assumes "0 \<le> n" and "n + 1 \<le> 146096"
  shows "yoe_num n \<le> yoe_num (n + 1)"
proof (cases "n = 146095")
  case True
  then show ?thesis by (simp add: yoe_num_def)
next
  case False
  then have "n div 146096 = 0" "(n + 1) div 146096 = 0" using assms by auto
  moreover have "(n + 1) div 1460 \<le> n div 1460 + 1" using zdiv_mono1 [of "n + 1" "n + 1460" 1460] by simp
  moreover have "n div 36524 \<le> (n + 1) div 36524" by (rule zdiv_mono1) simp_all
  ultimately show ?thesis unfolding yoe_num_def by linarith
qed

lemma yoe_num_mono:
  assumes "0 \<le> a" and "a \<le> b" and "b \<le> 146096"
  shows "yoe_num a \<le> yoe_num b"
  using assms(2,3)
proof (induction b rule: int_ge_induct)
  case base
  then show ?case by simp
next
  case (step i)
  then show ?case using yoe_num_step [of i] assms(1) by simp
qed

lemma era_blocks:
  "list_all (\<lambda>y. 365 * y \<le> yoe_num (era_start y) \<and> yoe_num (era_fin y) < 365 * (y + 1) \<and>
     0 \<le> era_start y \<and> era_start y \<le> 146096 \<and> 0 \<le> era_fin y \<and> era_fin y \<le> 146096 \<and>
     era_fin y - era_start y \<le> 365 \<and> (era_fin y - era_start y = 365 \<longrightarrow> isLeap (y + 1))) [0..399]"
  by code_simp

lemma era_block:
  assumes "0 \<le> y" and "y \<le> 399"
  shows "365 * y \<le> yoe_num (era_start y)" and "yoe_num (era_fin y) < 365 * (y + 1)"
    and "0 \<le> era_start y" "era_start y \<le> 146096" "0 \<le> era_fin y" "era_fin y \<le> 146096"
    and "era_fin y - era_start y \<le> 365" and "era_fin y - era_start y = 365 \<Longrightarrow> isLeap (y + 1)"
proof -
  have "y \<in> set [0..399]" using assms by simp
  then show "365 * y \<le> yoe_num (era_start y)" and "yoe_num (era_fin y) < 365 * (y + 1)"
    and "0 \<le> era_start y" "era_start y \<le> 146096" "0 \<le> era_fin y" "era_fin y \<le> 146096"
    and "era_fin y - era_start y \<le> 365" and "era_fin y - era_start y = 365 \<Longrightarrow> isLeap (y + 1)"
    using era_blocks unfolding list_all_iff by blast+
qed

lemma lua_yoe_block:
  assumes "0 \<le> doe" and "doe \<le> 146096"
  shows "0 \<le> lua_yoe doe" "lua_yoe doe \<le> 399" "era_start (lua_yoe doe) \<le> doe" "doe \<le> era_fin (lua_yoe doe)"
proof -
  define y where "y = lua_yoe doe"
  have "365 * (n div 365) \<le> n \<and> n < 365 * (n div 365 + 1)" for n :: int by presburger
  then have y: "365 * y \<le> yoe_num doe" "yoe_num doe < 365 * (y + 1)"
    unfolding y_def lua_yoe_def yoe_num_def [symmetric] by blast+
  have "yoe_num 0 \<le> yoe_num doe" "yoe_num doe \<le> yoe_num 146096"
    using assms by (intro yoe_num_mono; simp)+
  then have num: "0 \<le> yoe_num doe" "yoe_num doe < 146000" by (simp_all add: yoe_num_def)
  have "0 < 365 * (y + 1)" using num(1) y(2) by (rule le_less_trans)
  moreover have "365 * y < 365 * 400" using y(1) num(2) by simp
  ultimately have r: "0 \<le> y" "y \<le> 399" by simp_all
  have lo: "era_start y \<le> doe"
  proof (rule ccontr)
    assume "\<not> era_start y \<le> doe"
    moreover from this have "1 \<le> y" using assms(1) r by (cases "y = 0") (auto simp: era_start_def)
    ultimately have "doe \<le> era_fin (y - 1)" using r by (simp add: era_fin_def)
    then have "yoe_num doe \<le> yoe_num (era_fin (y - 1))"
      using assms(1) era_block(6) [of "y - 1"] \<open>1 \<le> y\<close> r by (intro yoe_num_mono) auto
    also have "\<dots> < 365 * y" using era_block(2) [of "y - 1"] \<open>1 \<le> y\<close> r by simp
    finally show False using y(1) by simp
  qed
  have hi: "doe \<le> era_fin y"
  proof (rule ccontr)
    assume neg: "\<not> doe \<le> era_fin y"
    then have "y \<noteq> 399" using assms(2) by (auto simp: era_fin_def)
    then have y': "y + 1 \<le> 399" and "era_start (y + 1) \<le> doe" using neg r by (simp_all add: era_fin_def)
    then have "yoe_num (era_start (y + 1)) \<le> yoe_num doe"
      using assms(2) era_block(3) [of "y + 1"] r by (intro yoe_num_mono) auto
    moreover have "365 * (y + 1) \<le> yoe_num (era_start (y + 1))" using era_block(1) [of "y + 1"] y' r by simp
    ultimately show False using y(2) by simp
  qed
  show "0 \<le> lua_yoe doe" "lua_yoe doe \<le> 399" "era_start (lua_yoe doe) \<le> doe" "doe \<le> era_fin (lua_yoe doe)"
    using r lo hi by (simp_all only: y_def)
qed

text \<open>Months of the year that begins on 1 March.\<close>

definition mp_start :: "int \<Rightarrow> int" where
  "mp_start mp = (153 * mp + 2) div 5"

lemma doy_blocks:
  "list_all (\<lambda>doy. 0 \<le> lua_mp doy \<and> lua_mp doy \<le> 11 \<and> mp_start (lua_mp doy) \<le> doy \<and>
     doy - mp_start (lua_mp doy) < (if lua_mp doy = 11 then (if doy = 365 then 29 else 28)
       else if lua_mp doy \<in> {1, 3, 6, 8} then 30 else 31)) [0..365]"
  by code_simp

lemma doy_block:
  assumes "0 \<le> doy" and "doy \<le> 365"
  shows "0 \<le> lua_mp doy" "lua_mp doy \<le> 11" "mp_start (lua_mp doy) \<le> doy"
    and "doy - mp_start (lua_mp doy) < (if lua_mp doy = 11 then (if doy = 365 then 29 else 28)
       else if lua_mp doy \<in> {1, 3, 6, 8} then 30 else 31)"
proof -
  have "doy \<in> set [0..365]" using assms by simp
  then show "0 \<le> lua_mp doy" "lua_mp doy \<le> 11" "mp_start (lua_mp doy) \<le> doy"
    and "doy - mp_start (lua_mp doy) < (if lua_mp doy = 11 then (if doy = 365 then 29 else 28)
       else if lua_mp doy \<in> {1, 3, 6, 8} then 30 else 31)"
    using doy_blocks unfolding list_all_iff by blast+
qed

text \<open>The day number of a date in terms of the year that begins in March.\<close>

lemma leap_days: "days_before_year Y + (if isLeap Y then 1 else 0) = 365 * (Y - 1) + Y div 4 - Y div 100 + Y div 400"
  using days_before_year_Suc [of Y] unfolding days_before_year_def [of "Y + 1"] by (simp split: if_splits)

lemma march_month:
  assumes "0 \<le> mp" and "mp < 10"
  shows "days_before_month Y (mp + 3) = 59 + (if isLeap Y then 1 else 0) + mp_start mp"
proof -
  have "[0..9] = [0, 1, 2, 3, 4, 5, 6, 7, 8, 9 :: int]" by code_simp
  moreover have "mp \<in> set [0..9]" using assms by simp
  ultimately have "mp \<in> {0, 1, 2, 3, 4, 5, 6, 7, 8, 9}" by simp
  then show ?thesis
    by (elim insertE emptyE) (simp_all add: days_before_month_def daysIn_def mp_start_def upto.simps)
qed

lemma march_date:
  assumes "0 \<le> mp" and "mp \<le> 11"
  shows "civil_day (if mp < 10 then Y else Y + 1) (mp + (if mp < 10 then 3 else - 9)) (doy - mp_start mp + 1) =
    days_before_year Y + (if isLeap Y then 1 else 0) + 59 + doy"
proof (cases "mp < 10")
  case True
  then show ?thesis using march_month [of mp Y] assms by (simp add: civil_day_def)
next
  case False
  then consider "mp = 10" | "mp = 11" using assms by linarith
  then show ?thesis
    by cases (simp_all add: civil_day_def days_before_month_def mp_start_def upto.simps daysIn_def days_before_year_Suc)
qed

lemma era_day:
  assumes "0 \<le> yoe"
  shows "days_before_year (yoe + era * 400) + (if isLeap (yoe + era * 400) then 1 else 0) =
    146097 * era - 365 + era_start yoe + yoe div 400"
proof -
  have "(yoe + era * 400) div 4 = yoe div 4 + era * 100" "(yoe + era * 400) div 100 = yoe div 100 + era * 4"
    "(yoe + era * 400) div 400 = yoe div 400 + era"
    using div_mult_self1 [of 4 yoe "era * 100"] div_mult_self1 [of 100 yoe "era * 4"] div_mult_self1 [of 400 yoe era]
    by (simp_all add: mult.commute mult.left_commute)
  then show ?thesis unfolding leap_days era_start_def by simp
qed

lemma isLeap_era: "isLeap (y + era * 400) = isLeap y"
  using mod_mult_self1 [of y "era * 100" 4] mod_mult_self1 [of y "era * 4" 100] mod_mult_self1 [of y era 400]
  by (simp add: isLeap_def mult.commute [of era 400])

lemma epoch_fields_date:
  assumes "0 \<le> s div 86400 + 719468"
  shows "civil_day (iso_y (epoch_fields s)) (iso_m (epoch_fields s)) (iso_d (epoch_fields s)) = s div 86400 + 719162 \<and>
    1 \<le> iso_m (epoch_fields s) \<and> iso_m (epoch_fields s) \<le> 12 \<and> 1 \<le> iso_d (epoch_fields s) \<and>
    iso_d (epoch_fields s) \<le> daysIn (iso_y (epoch_fields s)) (iso_m (epoch_fields s)) \<and> 0 \<le> iso_y (epoch_fields s)"
proof -
  define Z era where "Z = s div 86400 + 719468" and "era = Z div 146097"
  define doe where "doe = Z mod 146097"
  define yoe where "yoe = lua_yoe doe"
  define doy where "doy = doe - era_start yoe"
  define mp where "mp = lua_mp doy"
  let ?Y = "yoe + era * 400"
  have era': "lua_era Z = era" using assms by (simp add: lua_era_def era_def Z_def)
  have doe': "Z - era * 146097 = doe" by (simp add: doe_def era_def minus_div_mult_eq_mod)
  have doe: "0 \<le> doe" "doe \<le> 146096" by (simp_all add: doe_def)
  have yoe: "0 \<le> yoe" "yoe \<le> 399" "era_start yoe \<le> doe" "doe \<le> era_fin yoe"
    using lua_yoe_block [OF doe] by (simp_all add: yoe_def)
  have doy: "0 \<le> doy" "doy \<le> 365" "doy = 365 \<Longrightarrow> isLeap (yoe + 1)"
    using yoe era_block(7,8) [of yoe] by (simp_all add: doy_def)
  have mp: "0 \<le> mp" "mp \<le> 11" "mp_start mp \<le> doy"
    and len: "doy - mp_start mp < (if mp = 11 then (if doy = 365 then 29 else 28)
      else if mp \<in> {1, 3, 6, 8} then 30 else 31)"
    using doy_block [OF doy(1,2)] by (simp_all only: mp_def)
  have m: "(mp + (if mp < 10 then 3 else - 9) \<le> 2) = (\<not> mp < 10)" using mp by auto
  have y: "iso_y (epoch_fields s) = (if mp < 10 then ?Y else ?Y + 1)"
    and mm: "iso_m (epoch_fields s) = mp + (if mp < 10 then 3 else - 9)"
    and d: "iso_d (epoch_fields s) = doy - mp_start mp + 1"
    using m by (simp_all add: epoch_fields_def Let_def Z_def [symmetric] era' doe' lua_doy_def
        era_start_def [symmetric] yoe_def [symmetric] doy_def [symmetric] mp_def [symmetric] mp_start_def)
  have "civil_day (iso_y (epoch_fields s)) (iso_m (epoch_fields s)) (iso_d (epoch_fields s)) =
      days_before_year ?Y + (if isLeap ?Y then 1 else 0) + 59 + doy"
    unfolding y mm d using march_date [OF mp(1,2)] by simp
  also have "\<dots> = 146097 * era - 306 + doe"
    using era_day [OF yoe(1), of era] yoe(1,2) by (simp add: doy_def)
  also have "\<dots> = s div 86400 + 719162"
    using mult_div_mod_eq [of 146097 Z] by (simp add: era_def doe_def Z_def)
  finally have "civil_day (iso_y (epoch_fields s)) (iso_m (epoch_fields s)) (iso_d (epoch_fields s)) = s div 86400 + 719162" .
  moreover have "isLeap (?Y + 1)" if "doy = 365"
    using doy(3) [OF that] isLeap_era [of "yoe + 1" era] by (simp add: add.assoc add.commute [of _ 1] add.left_commute [of _ 1])
  then have "iso_d (epoch_fields s) \<le> daysIn (iso_y (epoch_fields s)) (iso_m (epoch_fields s))"
    unfolding y mm d using len mp by (auto simp: daysIn_def split: if_splits)
  moreover have "0 \<le> iso_y (epoch_fields s)"
    unfolding y using yoe(1) assms by (simp add: era_def Z_def pos_imp_zdiv_nonneg_iff)
  ultimately show ?thesis unfolding mm d using mp by auto
qed

lemma civil_year_bound:
  assumes "1 \<le> m" and "m \<le> 12" and "1 \<le> d" and "civil_day y m d < days_before_year (n + 1)" 
  shows "y \<le> n"
proof (rule ccontr)
  assume "\<not> y \<le> n"
  then have "n + 1 \<le> y" by simp
  have "days_before_year (n + 1) \<le> days_before_year y"
    using \<open>n + 1 \<le> y\<close>
  proof (induction y rule: int_ge_induct)
    case (step i)
    then show ?case using days_before_year_Suc [of i] by (simp split: if_splits)
  qed simp
  moreover have "0 \<le> days_before_month y m"
    unfolding days_before_month_def by (rule sum_list_nonneg) (auto simp: daysIn_def)
  ultimately show False using assms(3,4) by (simp add: civil_day_def)
qed

lemma digit_char:
  assumes "0 \<le> n" and "n \<le> 9"
  shows "isDigit (char_of (nat (48 + n)))" and "digit (char_of (nat (48 + n))) = n"
proof -
  have "(of_char (char_of (nat (48 + n))) :: nat) = nat (48 + n)" using assms by simp
  then show "isDigit (char_of (nat (48 + n)))" and "digit (char_of (nat (48 + n))) = n"
    using assms by (simp_all add: isDigit_def digit_def nat_le_iff le_nat_iff)
qed

lemma getnum_pad2:
  assumes "0 \<le> n" and "n \<le> 99"
  shows "getnum fixed (pad2 n @ s) = Some (n, s)"
proof -
  have a: "0 \<le> n div 10" "n div 10 \<le> 9" "0 \<le> n mod 10" "n mod 10 \<le> 9"
    using assms by simp_all
  show ?thesis
    using digit_char [OF a(1,2)] digit_char [OF a(3,4)] by (simp add: pad2_def)
qed

lemma parse_field_pad2:
  "lo \<le> n \<Longrightarrow> n \<le> hi \<Longrightarrow> 0 \<le> lo \<Longrightarrow> hi \<le> 99 \<Longrightarrow> parse_field fixed lo hi (pad2 n @ s) = Some (n, s)"
  by (simp add: parse_field_def getnum_pad2)

lemma parse_year_pad4:
  assumes "0 \<le> n" and "n \<le> 9999"
  shows "parse_year (pad4 n @ s) = Some (n, s)"
proof -
  have a: "0 \<le> n div 100 div 10" "n div 100 div 10 \<le> 9" "0 \<le> n div 100 mod 10" "n div 100 mod 10 \<le> 9"
    "0 \<le> n mod 100 div 10" "n mod 100 div 10 \<le> 9" "0 \<le> n mod 100 mod 10" "n mod 100 mod 10 \<le> 9"
    using assms by simp_all
  have "10 * (10 * (10 * (n div 100 div 10) + n div 100 mod 10) + n mod 100 div 10) + n mod 100 mod 10 =
      100 * (10 * (n div 100 div 10) + n div 100 mod 10) + (10 * (n mod 100 div 10) + n mod 100 mod 10)"
    by (simp only: algebra_simps)
  also have "\<dots> = n" by (simp only: mult_div_mod_eq)
  finally have n: "10 * (10 * (10 * (n div 100 div 10) + n div 100 mod 10) + n mod 100 div 10) + n mod 100 mod 10 = n" .
  have four: "parse_year (b # c # d # e # s) = Some (10 * (10 * (10 * digit b + digit c) + digit d) + digit e, s)"
    if "isDigit b" "isDigit c" "isDigit d" "isDigit e" for b c d e
    using that by (simp add: parse_year_def)
  have "pad4 n @ s = char_of (nat (48 + n div 100 div 10)) # char_of (nat (48 + n div 100 mod 10)) #
      char_of (nat (48 + n mod 100 div 10)) # char_of (nat (48 + n mod 100 mod 10)) # s"
    by (simp only: pad4_def pad2_def append.simps)
  then show ?thesis
    using digit_char [OF a(1,2)] digit_char [OF a(3,4)] digit_char [OF a(5,6)] digit_char [OF a(7,8)]
      four n by (simp only:)
qed

lemma parse_fraction_pad9:
  assumes "0 \<le> n" and "n < 1000000000"
  shows "parse_fraction (''.'' @ pad9 n @ ''Z'') = (n, ''Z'')"
proof -
  let ?c = "\<lambda>n. char_of (nat (48 + n))"
  let ?h = "n div 10000 mod 10000" and ?l = "n mod 10000"
  let ?ds = "[?c (n div 100000000), ?c (?h div 100 div 10), ?c (?h div 100 mod 10), ?c (?h mod 100 div 10),
    ?c (?h mod 100 mod 10), ?c (?l div 100 div 10), ?c (?l div 100 mod 10), ?c (?l mod 100 div 10), ?c (?l mod 100 mod 10)]"
  have pad: "pad9 n = ?ds" by (simp only: pad9_def pad4_def pad2_def append.simps)
  have b: "0 \<le> n div 100000000" "n div 100000000 \<le> 9" using assms by simp_all
  have h: "0 \<le> ?h" "?h \<le> 9999" and l: "0 \<le> ?l" "?l \<le> 9999" by simp_all
  have four: "0 \<le> k div 100 div 10" "k div 100 div 10 \<le> 9" "0 \<le> k div 100 mod 10" "k div 100 mod 10 \<le> 9"
    "0 \<le> k mod 100 div 10" "k mod 100 div 10 \<le> 9" "0 \<le> k mod 100 mod 10" "k mod 100 mod 10 \<le> 9"
    if "0 \<le> k" "k \<le> 9999" for k :: int using that by simp_all
  note digs = digit_char [OF b] digit_char [OF four(1,2) [OF h]] digit_char [OF four(3,4) [OF h]]
    digit_char [OF four(5,6) [OF h]] digit_char [OF four(7,8) [OF h]] digit_char [OF four(1,2) [OF l]]
    digit_char [OF four(3,4) [OF l]] digit_char [OF four(5,6) [OF l]] digit_char [OF four(7,8) [OF l]]
  have nine: "parse_fraction (CHR ''.'' # [c1, c2, c3, c4, c5, c6, c7, c8, c9] @ ''Z'') =
      (10000 * (10000 * digit c1 + (100 * (10 * digit c2 + digit c3) + (10 * digit c4 + digit c5))) +
       (100 * (10 * digit c6 + digit c7) + (10 * digit c8 + digit c9)), ''Z'')"
    if "isDigit c1" "isDigit c2" "isDigit c3" "isDigit c4" "isDigit c5" "isDigit c6" "isDigit c7" "isDigit c8"
      "isDigit c9" for c1 c2 c3 c4 c5 c6 c7 c8 c9
    using that by (simp add: parse_fraction_def Let_def isDigit_def)
  have val: "100 * (10 * (k div 100 div 10) + k div 100 mod 10) + (10 * (k mod 100 div 10) + k mod 100 mod 10) = k" for k :: int
    by (simp only: mult_div_mod_eq)
  have "n div 100000000 = n div 10000 div 10000" by (simp add: zdiv_zmult2_eq [symmetric])
  then have tot: "10000 * (10000 * (n div 100000000) + ?h) + ?l = n" by (simp only: mult_div_mod_eq)
  have "parse_fraction (CHR ''.'' # ?ds @ ''Z'') = (n, ''Z'')"
    unfolding nine [OF digs(1,3,5,7,9,11,13,15,17)] digs(2,4,6,8,10,12,14,16,18) val tot ..
  then show ?thesis unfolding pad by simp
qed

lemma daySec_bounds:
  "0 \<le> s mod 86400 div 3600 \<and> s mod 86400 div 3600 \<le> 23 \<and> 0 \<le> s mod 86400 mod 3600 div 60 \<and>
   s mod 86400 mod 3600 div 60 \<le> 59 \<and> 0 \<le> s mod 86400 mod 60 \<and> s mod 86400 mod 60 \<le> 59 \<and>
   s mod 86400 = (s mod 86400 div 3600) * 3600 + (s mod 86400 mod 3600 div 60) * 60 + s mod 86400 mod 60"
  for s :: int
proof -
  define k where "k = s mod 86400"
  have k: "0 \<le> k" "k < 86400" by (simp_all add: k_def)
  have "k mod 3600 mod 60 = k mod 60" by (rule mod_mod_cancel) simp
  then have "k = (k div 3600) * 3600 + (k mod 3600 div 60) * 60 + k mod 60"
    using mult_div_mod_eq [of 3600 k] mult_div_mod_eq [of 60 "k mod 3600"] by linarith
  moreover have "0 \<le> k mod 3600 div 60" by (simp add: pos_imp_zdiv_nonneg_iff)
  moreover have "k div 3600 \<le> 23" "k mod 3600 div 60 \<le> 59" "k mod 60 \<le> 59" using k by simp_all
  ultimately show ?thesis using k by (simp add: k_def [symmetric])
qed

lemma expiry_arith:
  "86400 * q + (h * 3600 + mi * 60 + sec) = s \<Longrightarrow> 1000 * s + ms = millis \<Longrightarrow>
     (q + 719162) * day + h * hour + mi * minute + sec * second + ms * 1000000 =
     62135596800 * second + millis * millisecond"
  for q h mi sec s ms millis :: int
  by (drule sym, drule sym) (simp add: algebra_simps)

lemma epoch_fields_time:
  "iso_h (epoch_fields s) = s mod 86400 div 3600" "iso_mi (epoch_fields s) = s mod 86400 mod 3600 div 60"
  "iso_sec (epoch_fields s) = s mod 86400 mod 60"
  by (simp_all add: epoch_fields_def Let_def)

section \<open>Properties\<close>

text \<open>The calendar of the Lua scripts is the Gregorian calendar: for every reading of the clock from
  1 March of the year 0 on, \<^verbatim>\<open>epoch_to_iso\<close> computes a valid date whose day number is that of the
  reading, and the hour, minute and second of the day, each in its range.\<close>

theorem script_calendar_is_gregorian:
  assumes "0 \<le> s div 86400 + 719468"
  shows "civil_day (iso_y (epoch_fields s)) (iso_m (epoch_fields s)) (iso_d (epoch_fields s)) = s div 86400 + 719162 \<and>
    1 \<le> iso_m (epoch_fields s) \<and> iso_m (epoch_fields s) \<le> 12 \<and> 1 \<le> iso_d (epoch_fields s) \<and>
    iso_d (epoch_fields s) \<le> daysIn (iso_y (epoch_fields s)) (iso_m (epoch_fields s)) \<and>
    0 \<le> iso_h (epoch_fields s) \<and> iso_h (epoch_fields s) < 24 \<and> 0 \<le> iso_mi (epoch_fields s) \<and> iso_mi (epoch_fields s) < 60 \<and>
    0 \<le> iso_sec (epoch_fields s) \<and> iso_sec (epoch_fields s) < 60 \<and>
    s mod 86400 = iso_h (epoch_fields s) * 3600 + iso_mi (epoch_fields s) * 60 + iso_sec (epoch_fields s)"
  using epoch_fields_date [OF assms] daySec_bounds [of s] by (simp add: epoch_fields_time)

theorem script_calendar_is_gregorian_witness:
  "civil_day (iso_y (epoch_fields 1709210096)) (iso_m (epoch_fields 1709210096)) (iso_d (epoch_fields 1709210096)) =
     1709210096 div 86400 + 719162 \<and> epoch_fields 1709210096 =
     \<lparr>iso_y = 2024, iso_m = 2, iso_d = 29, iso_h = 12, iso_mi = 34, iso_sec = 56\<rparr>"
proof -
  have "civil_day (iso_y (epoch_fields 1709210096)) (iso_m (epoch_fields 1709210096)) (iso_d (epoch_fields 1709210096)) =
      1709210096 div 86400 + 719162"
    using script_calendar_is_gregorian [of 1709210096] by simp
  moreover have "epoch_fields 1709210096 =
      \<lparr>iso_y = 2024, iso_m = 2, iso_d = 29, iso_h = 12, iso_mi = 34, iso_sec = 56\<rparr>"
    by code_simp
  ultimately show ?thesis by blast
qed

text \<open>C37. The timestamp a script writes into the lease is the one Go reads back: for every expiry up to
  the end of the year 9999, parsing the printed \<^verbatim>\<open>expires_at\<close> as RFC 3339 gives the millisecond the
  script computed.\<close>

theorem script_expiry_round_trips:
  assumes "0 \<le> millis" and "millis < 253402300800000"
  shows "parse_RFC3339Nano (script_expires_at millis) = Some (unix_epoch + millis * millisecond)"
proof -
  define s where "s = millis div 1000"
  define f where "f = epoch_fields s"
  have s: "0 \<le> s" "s < 253402300800" using assms by (simp_all add: s_def)
  have date: "civil_day (iso_y f) (iso_m f) (iso_d f) = s div 86400 + 719162"
    and mm: "1 \<le> iso_m f" "iso_m f \<le> 12" and dd: "1 \<le> iso_d f" "iso_d f \<le> daysIn (iso_y f) (iso_m f)"
    using epoch_fields_date [of s] s by (simp_all add: f_def)
  have time: "0 \<le> iso_h f" "iso_h f \<le> 23" "0 \<le> iso_mi f" "iso_mi f \<le> 59" "0 \<le> iso_sec f" "iso_sec f \<le> 59"
    and sec: "s mod 86400 = iso_h f * 3600 + iso_mi f * 60 + iso_sec f"
    using daySec_bounds [of s] by (simp_all add: f_def epoch_fields_time)
  have d31: "iso_d f \<le> 99" using dd(2) by (simp add: daysIn_def split: if_splits)
  have "iso_y f \<le> 9999"
  proof (rule civil_year_bound [OF mm dd(1)])
    have "s div 86400 < 2932897" using s by simp
    then show "civil_day (iso_y f) (iso_m f) (iso_d f) < days_before_year (9999 + 1)"
      unfolding date by (simp add: days_before_year_def)
  qed
  moreover have "0 \<le> iso_y f" using epoch_fields_date [of s] s by (simp add: f_def)
  ultimately have y: "0 \<le> iso_y f" "iso_y f \<le> 9999" by simp_all
  have ns: "0 \<le> millis mod 1000 * 1000000" "millis mod 1000 * 1000000 < 1000000000"
    using pos_mod_bound [of 1000 millis] by simp_all
  have zone: "parse_zone ''Z'' = Some (0, [])" by (simp add: parse_zone_def)
  have "parse_RFC3339Nano (script_expires_at millis) =
      Some (utc_Date (iso_y f) (iso_m f) (iso_d f) (iso_h f) (iso_mi f) (iso_sec f) (millis mod 1000 * 1000000))"
    using y mm dd time d31 ns
    by (simp add: parse_RFC3339Nano_def script_expires_at_def epoch_to_iso_def s_def [symmetric] f_def [symmetric] Let_def
        parse_year_pad4 parse_field_pad2 getnum_pad2 parse_fraction_pad9 [simplified] zone)
  also have "utc_Date (iso_y f) (iso_m f) (iso_d f) (iso_h f) (iso_mi f) (iso_sec f) (millis mod 1000 * 1000000) =
      unix_epoch + millis * millisecond"
  proof -
    have "86400 * (s div 86400) + (iso_h f * 3600 + iso_mi f * 60 + iso_sec f) = s"
      using sec mult_div_mod_eq [of 86400 s] by simp
    moreover have "1000 * s + millis mod 1000 = millis" by (simp add: s_def)
    ultimately show ?thesis unfolding utc_Date_def date unix_epoch_def by (rule expiry_arith)
  qed
  finally show ?thesis .
qed

theorem script_expiry_round_trips_witness:
  "parse_RFC3339Nano ''2024-02-29T12:34:56.789000000Z'' = Some (unix_epoch + 1709210096789 * millisecond)"
proof -
  have "script_expires_at 1709210096789 = ''2024-02-29T12:34:56.789000000Z''" by code_simp
  with script_expiry_round_trips [of 1709210096789] show ?thesis by simp
qed

text \<open>C35. The Redis manager gives the same guarantee as the durable one: while a granted lease lives, a
  well-formed request of another run gets FailedPrecondition and changes nothing. Unlike the
  durable manager it lets the same run and owner acquire again.\<close>

theorem redis_lease_is_exclusive:
  assumes "rd_inv s" and "rd_AcquireLease go_now p now s = (Inr r, s')"
    and "1 \<le> duration_Milliseconds (ap_TTL p)"
    and "redis_millis later \<le> redis_millis now + duration_Milliseconds (ap_TTL p)"
    and "TrimSpace (aq_session_key req) = ap_SessionKey p"
    and "TrimSpace (aq_run_id req) \<noteq> []" and "TrimSpace (aq_run_id req) \<noteq> ap_RunID p"
    and "TrimSpace (aq_owner_id req) \<noteq> []"
    and "1 \<le> aq_ttl_seconds req" and "aq_ttl_seconds req \<le> 9000000000"
  shows "\<exists>msg. Server_AcquireLease (Some (\<lambda>q. rd_AcquireLease go_now q later)) dflt req s' =
    (Inl (Status FailedPrecondition msg), s')"
proof -
  have "rd_holder s' later (ap_SessionKey p) = rd_holder s' now (ap_SessionKey p)"
    using assms(2,1)
  proof (cases rule: rd_AcquireLease_cases)
    case (stored r')
    then show ?thesis
      using assms(4) by (simp add: rd_holder_def redis_GET_def redis_SET_PX_def)
  qed simp
  with assms show ?thesis
    by (intro rd.server_acquire_exclusive [of s go_now p now r s']) simp_all
qed

theorem redis_lease_is_exclusive_witness:
  "\<exists>s' msg. Server_AcquireLease (Some (\<lambda>q. rd_AcquireLease 150 q 200)) second
     \<lparr>aq_session_key = ''s'', aq_run_id = ''r9'', aq_owner_id = ''w9'', aq_ttl_seconds = 30\<rparr> s' =
    (Inl (Status FailedPrecondition msg), s') \<and> rd_leases s' ''s'' \<noteq> None"
proof -
  let ?s = "\<lparr>rd_leases = (\<lambda>_. None), rd_index = (\<lambda>_. None)\<rparr>"
  have inv: "rd_inv ?s" by (simp add: rd_inv_def)
  have ms: "duration_Milliseconds (ap_TTL demo_params) = 1000"
    by (simp add: duration_Milliseconds_def go_div_def demo_defs)
  have trim: "TrimSpace ''r9'' = ''r9''" "TrimSpace ''w9'' = ''w9''"
    by (simp_all add: TrimSpace_def strip.simps space_encodings_def starts_def)
  have valid: "validateAcquireLeaseParams demo_params = Inr ()"
    by (simp add: validateAcquireLeaseParams_def demo_defs)
  obtain r s' where acq: "rd_AcquireLease 150 demo_params 150 ?s = (Inr r, s')" and "rd_leases s' ''s'' \<noteq> None"
    using ms by (simp add: rd_AcquireLease_def valid Let_def redis_GET_def redis_SET_PX_def, simp add: demo_defs)
  moreover have "\<exists>msg. Server_AcquireLease (Some (\<lambda>q. rd_AcquireLease 150 q 200)) second
     \<lparr>aq_session_key = ''s'', aq_run_id = ''r9'', aq_owner_id = ''w9'', aq_ttl_seconds = 30\<rparr> s' =
    (Inl (Status FailedPrecondition msg), s')"
    using inv acq by (rule redis_lease_is_exclusive)
      (simp_all add: ms trim redis_millis_def unix_epoch_def, simp_all add: demo_defs)
  ultimately show ?thesis by blast
qed

end
