(* ===== verification/Budget.thy ===== *)
theory Budget
  imports GoTime GoJson Store "HOL-Library.List_Lexorder" "HOL-Library.Char_ord"
begin

text \<open>
  The execution budget (\<^verbatim>\<open>internal/budget\<close>): resource units and their checked arithmetic
  (\<^verbatim>\<open>types.go\<close>), the operator's policy and model quotes (\<^verbatim>\<open>policy.go\<close>), and the durable ledger of
  scopes and reservations (\<^verbatim>\<open>postgres.go\<close>) with the prospective check of a root task
  (\<^verbatim>\<open>preflight.go\<close>). Amounts are 64-bit signed integers with Go's wrap-around written out. The
  SHA-256 digests that identify scopes, reservations and requests are parameters of the ledger.
\<close>

section \<open>Units\<close>

definition ErrInvalid :: go_err where
  "ErrInvalid = Sentinel ''invalid execution budget request''"

definition ErrConflict :: go_err where
  "ErrConflict = Sentinel ''execution budget identity or policy conflict''"

definition ErrUnknownCost :: go_err where
  "ErrUnknownCost = Sentinel ''execution budget requires a trusted cost quote''"

definition ErrNotFound :: go_err where
  "ErrNotFound = Sentinel ''execution budget scope not found''"

record Units =
  u_ModelTurns :: int
  u_Tokens :: int
  u_CostMicros :: int
  u_ExternalCalls :: int
  u_Children :: int
  u_ActiveMillis :: int
  u_EgressBytes :: int
  u_ProviderInputBytes :: int

definition zero_units :: Units where
  "zero_units = \<lparr>u_ModelTurns = 0, u_Tokens = 0, u_CostMicros = 0, u_ExternalCalls = 0, u_Children = 0,
     u_ActiveMillis = 0, u_EgressBytes = 0, u_ProviderInputBytes = 0\<rparr>"

record ScopeSpec =
  sc_Kind :: string
  sc_OwnerID :: string
  sc_SubjectID :: string
  sc_Limits :: Units
  sc_Deadline :: instant

record Scope =
  sc_ID :: string
  sc_Spec :: ScopeSpec
  sc_Used :: Units

record Request =
  rq_OwnerID :: string
  rq_OperationID :: string
  rq_ScopeIDs :: "string list"
  rq_Charge :: Units
  rq_CostKnown :: bool

record Reservation =
  rv_ID :: string
  rv_Request :: Request
  rv_CreatedAt :: instant

definition ExhaustedError :: "string \<Rightarrow> string \<Rightarrow> go_err" where
  "ExhaustedError kind dimension =
     Errorf (''execution budget exhausted: '' @ dimension @ '' ('' @ kind @ '')'')"

definition unit_values :: "Units \<Rightarrow> int list" where
  "unit_values u = [u_ModelTurns u, u_Tokens u, u_CostMicros u, u_ExternalCalls u, u_Children u,
     u_ActiveMillis u, u_EgressBytes u, u_ProviderInputBytes u]"

definition fromValues :: "int list \<Rightarrow> Units" where
  "fromValues v = \<lparr>u_ModelTurns = v ! 0, u_Tokens = v ! 1, u_CostMicros = v ! 2, u_ExternalCalls = v ! 3,
     u_Children = v ! 4, u_ActiveMillis = v ! 5, u_EgressBytes = v ! 6, u_ProviderInputBytes = v ! 7\<rparr>"

definition units_validate :: "Units \<Rightarrow> go_err + unit" where
  "units_validate u = (if \<exists>a \<in> set (unit_values u). a < 0 then Inl ErrInvalid else Inr ())"

definition dimension_names :: "string list" where
  "dimension_names = [''model_turns'', ''tokens'', ''cost_micros'', ''external_calls'', ''children'',
     ''active_millis'', ''egress_bytes'', ''provider_input_bytes'']"

text \<open>The loop over the dimensions; \<open>exempt\<close> holds for the first dimension of a conversation whose
  model-turn comparison the operator disabled.\<close>

fun add_dimensions :: "string \<Rightarrow> bool \<Rightarrow> int list \<Rightarrow> int list \<Rightarrow> int list \<Rightarrow> string list \<Rightarrow> go_err + int list" where
  "add_dimensions kind exempt (u # us) (l # ls) (a # as) (n # ns) =
     (if exempt \<and> wrap64 (max_int64 - u) < a then Inl ErrInvalid
      else if \<not> exempt \<and> (l < u \<or> wrap64 (l - u) < a) then Inl (ExhaustedError kind n)
      else case add_dimensions kind False us ls as ns of
        Inl e \<Rightarrow> Inl e
      | Inr rest \<Rightarrow> Inr (wrap64 (u + a) # rest))"
| "add_dimensions kind exempt us ls as ns = Inr []"

definition addWithinPolicy :: "Scope \<Rightarrow> Units \<Rightarrow> instant \<Rightarrow> bool \<Rightarrow> go_err + Units" where
  "addWithinPolicy scope charge now disableConversationModelTurns =
     (if units_validate (sc_Used scope) \<noteq> Inr () \<or> units_validate (sc_Limits (sc_Spec scope)) \<noteq> Inr () \<or>
         units_validate charge \<noteq> Inr ()
      then Inl ErrInvalid
      else if sc_Deadline (sc_Spec scope) \<le> now then Inl (ExhaustedError (sc_Kind (sc_Spec scope)) ''deadline'')
      else case add_dimensions (sc_Kind (sc_Spec scope))
                  (sc_Kind (sc_Spec scope) = ''conversation'' \<and> disableConversationModelTurns)
                  (unit_values (sc_Used scope)) (unit_values (sc_Limits (sc_Spec scope)))
                  (unit_values charge) dimension_names of
        Inl e \<Rightarrow> Inl e
      | Inr used \<Rightarrow> Inr (fromValues used))"

definition addWithin :: "Scope \<Rightarrow> Units \<Rightarrow> instant \<Rightarrow> go_err + Units" where
  "addWithin scope charge now = addWithinPolicy scope charge now False"

definition scope_kinds :: "string list" where
  "scope_kinds = [''task'', ''mandate'', ''owner_day'', ''conversation'', ''auxiliary'', ''delegation'']"

definition validateScope :: "ScopeSpec \<Rightarrow> go_err + unit" where
  "validateScope spec =
     (if sc_OwnerID spec = [] \<or> sc_SubjectID spec = [] \<or> 512 < length (sc_OwnerID spec) \<or>
         512 < length (sc_SubjectID spec) \<or> sc_Deadline spec = 0
      then Inl ErrInvalid
      else if sc_Kind spec \<notin> set scope_kinds then Inl ErrInvalid
      else units_validate (sc_Limits spec))"

text \<open>The scan over the sorted scope identities, with the previous one.\<close>

fun check_scope_ids :: "string option \<Rightarrow> string list \<Rightarrow> go_err + unit" where
  "check_scope_ids prev [] = Inr ()"
| "check_scope_ids prev (i # is) =
     (if length i \<noteq> 64 then Inl ErrInvalid
      else if \<not> list_all isHex i then Inl (Detail ErrInvalid ''invalid scope identity'')
      else if prev = Some i then Inl ErrInvalid
      else check_scope_ids (Some i) is)"

definition canonicalRequest :: "Request \<Rightarrow> go_err + Request" where
  "canonicalRequest req =
     (if TrimSpace (rq_OwnerID req) = [] \<or> 512 < length (rq_OwnerID req) \<or>
         TrimSpace (rq_OperationID req) = [] \<or> 512 < length (rq_OperationID req) \<or>
         rq_ScopeIDs req = [] \<or> 16 < length (rq_ScopeIDs req)
      then Inl ErrInvalid
      else case units_validate (rq_Charge req) of
        Inl e \<Rightarrow> Inl e
      | Inr _ \<Rightarrow>
          if \<not> rq_CostKnown req then Inl ErrUnknownCost
          else case check_scope_ids None (sort (rq_ScopeIDs req)) of
            Inl e \<Rightarrow> Inl e
          | Inr _ \<Rightarrow> Inr (req\<lparr>rq_ScopeIDs := sort (rq_ScopeIDs req)\<rparr>))"

section \<open>Policy and quotes\<close>

record ModelPrice =
  mp_Basis :: string
  mp_InputMicrosPerToken :: int
  mp_OutputMicrosPerToken :: int

record Policy =
  po_DisableOwnerDay :: bool
  po_DisableConversationModelTurns :: bool
  po_Task :: Units
  po_Mandate :: Units
  po_Day :: Units
  po_Conversation :: Units
  po_TaskLifetimeMillis :: int
  po_ModelMillis :: int
  po_ToolMillis :: int
  po_OutputTokens :: int
  po_Models :: "(string \<times> ModelPrice) list"
  po_RepeatLimit :: int
  po_ToolEgressBytes :: int
  po_ModelInputBytes :: int

definition DefaultPolicy :: Policy where
  "DefaultPolicy =
     (let u = zero_units\<lparr>u_ModelTurns := 64, u_Tokens := 67108864, u_ExternalCalls := 128, u_Children := 8,
                u_ActiveMillis := 3600000, u_EgressBytes := 134217728, u_ProviderInputBytes := 268435456\<rparr>
      in \<lparr>po_DisableOwnerDay = False, po_DisableConversationModelTurns = False, po_Task = u, po_Mandate = u,
          po_Day = zero_units\<lparr>u_ModelTurns := 256, u_Tokens := 268435456, u_ExternalCalls := 512,
             u_Children := 32, u_ActiveMillis := 14400000, u_EgressBytes := 536870912,
             u_ProviderInputBytes := 1073741824\<rparr>,
          po_Conversation = u, po_TaskLifetimeMillis = 604800000, po_ModelMillis = 120000,
          po_ToolMillis = 120000, po_OutputTokens = 8192, po_Models = [], po_RepeatLimit = 3,
          po_ToolEgressBytes = 4194304, po_ModelInputBytes = 8388608\<rparr>)"

definition price_validate :: "ModelPrice \<Rightarrow> go_err + unit" where
  "price_validate price =
     (if mp_InputMicrosPerToken price < 0 \<or> mp_OutputMicrosPerToken price < 0 then Inl ErrInvalid
      else if mp_Basis price = ''operator_rate''
      then (if mp_InputMicrosPerToken price = 0 \<and> mp_OutputMicrosPerToken price = 0 then Inl ErrUnknownCost else Inr ())
      else if mp_Basis price = ''subscription_no_overage'' \<or> mp_Basis price = ''local_no_billing''
      then (if mp_InputMicrosPerToken price \<noteq> 0 \<or> mp_OutputMicrosPerToken price \<noteq> 0 then Inl ErrInvalid else Inr ())
      else Inl ErrUnknownCost)"

fun first_error :: "('a \<Rightarrow> go_err + unit) \<Rightarrow> 'a list \<Rightarrow> go_err + unit" where
  "first_error check [] = Inr ()"
| "first_error check (x # xs) = (case check x of Inl e \<Rightarrow> Inl e | Inr _ \<Rightarrow> first_error check xs)"

text \<open>Go visits the prices in an unspecified order; which error a policy with several bad prices
  gets depends on it, whether it gets one does not.\<close>

definition Policy_Validate :: "Policy \<Rightarrow> go_err + unit" where
  "Policy_Validate p =
     (case first_error units_validate [po_Task p, po_Mandate p, po_Day p, po_Conversation p] of
        Inl e \<Rightarrow> Inl e
      | Inr _ \<Rightarrow>
          if po_TaskLifetimeMillis p \<le> 0 \<or> 31536000000 < po_TaskLifetimeMillis p \<or> po_ModelMillis p \<le> 0 \<or>
             86400000 < po_ModelMillis p \<or> po_ToolMillis p \<le> 0 \<or> 86400000 < po_ToolMillis p \<or>
             po_OutputTokens p \<le> 0 \<or> 65536 < po_OutputTokens p \<or> po_RepeatLimit p < 2 \<or>
             100 < po_RepeatLimit p \<or> po_ToolEgressBytes p < 4194304 \<or> po_ModelInputBytes p \<le> 0 \<or>
             8388608 < po_ModelInputBytes p
          then Inl ErrInvalid
          else first_error price_validate (map snd (po_Models p)))"

text \<open>A division by zero panics in Go; the panic is the error below.\<close>

definition divide_panic :: go_err where
  "divide_panic = Errorf ''runtime error: integer divide by zero''"

definition ModelQuote :: "Policy \<Rightarrow> string \<Rightarrow> string \<Rightarrow> int \<Rightarrow> go_err + Units" where
  "ModelQuote p provider model inputTokens =
     (case map_of (po_Models p) (provider @ '':'' @ model) of
        None \<Rightarrow> Inl ErrUnknownCost
      | Some price \<Rightarrow>
          if inputTokens < 0 \<or> 100000000 < inputTokens then Inl ErrInvalid
          else if go_div max_int64 (wrap64 (inputTokens + 1)) < mp_InputMicrosPerToken price then Inl ErrInvalid
          else if wrap64 (po_OutputTokens p + 1) = 0 then Inl divide_panic
          else if go_div max_int64 (wrap64 (po_OutputTokens p + 1)) < mp_OutputMicrosPerToken price then Inl ErrInvalid
          else
            let i = wrap64 (inputTokens * mp_InputMicrosPerToken price);
                out = wrap64 (po_OutputTokens p * mp_OutputMicrosPerToken price)
            in if wrap64 (max_int64 - out) < i then Inl ErrInvalid
               else Inr (zero_units\<lparr>u_ModelTurns := 1, u_Tokens := wrap64 (inputTokens + po_OutputTokens p),
                           u_CostMicros := wrap64 (i + out), u_ActiveMillis := po_ModelMillis p,
                           u_ProviderInputBytes := po_ModelInputBytes p\<rparr>))"

section \<open>The ledger\<close>

record digests =
  dg_strings :: "string list \<Rightarrow> string"
  dg_request :: "Request \<Rightarrow> string"

record reservation_row =
  b_id :: string
  b_owner_id :: string
  b_operation_id :: string
  b_fingerprint :: string
  b_request :: Request
  b_created_at :: instant

record ledger =
  lg_scopes :: "Scope list"
  lg_reservations :: "reservation_row list"

definition ScopeID :: "digests \<Rightarrow> string \<Rightarrow> string \<Rightarrow> string \<Rightarrow> string" where
  "ScopeID H kind owner subject = dg_strings H [kind, owner, subject]"

text \<open>\<^verbatim>\<open>Truncate(time.Microsecond)\<close>, which is also the resolution of a stored timestamp.\<close>

definition truncate_micro :: "instant \<Rightarrow> instant" where
  "truncate_micro t = t - t mod 1000"

definition EnsureTx :: "digests \<Rightarrow> ScopeSpec \<Rightarrow> ledger \<Rightarrow> (go_err, Scope, ledger) outcome" where
  "EnsureTx H spec L =
     (case validateScope spec of
        Inl e \<Rightarrow> (Inl e, L)
      | Inr _ \<Rightarrow>
          let i = ScopeID H (sc_Kind spec) (sc_OwnerID spec) (sc_SubjectID spec);
              present = (\<exists>s \<in> set (lg_scopes L). sc_ID s = i \<or>
                 sc_Kind (sc_Spec s) = sc_Kind spec \<and> sc_OwnerID (sc_Spec s) = sc_OwnerID spec \<and>
                 sc_SubjectID (sc_Spec s) = sc_SubjectID spec);
              fresh = \<lparr>sc_ID = i, sc_Spec = spec\<lparr>sc_Deadline := truncate_micro (sc_Deadline spec)\<rparr>, sc_Used = zero_units\<rparr>;
              L' = (if present then L else L\<lparr>lg_scopes := lg_scopes L @ [fresh]\<rparr>)
          in case tbl_find sc_ID i (lg_scopes L') of
               None \<Rightarrow> (Inl ErrNotFound, L)
             | Some s \<Rightarrow>
                 if sc_Spec s \<noteq> spec\<lparr>sc_Deadline := truncate_micro (sc_Deadline spec)\<rparr> then (Inl ErrConflict, L)
                 else (Inr s, L'))"

definition ledger_Get :: "string \<Rightarrow> ledger \<Rightarrow> go_err + Scope" where
  "ledger_Get i L = (case tbl_find sc_ID i (lg_scopes L) of None \<Rightarrow> Inl ErrNotFound | Some s \<Rightarrow> Inr s)"

fun charge_scopes :: "bool \<Rightarrow> instant \<Rightarrow> string \<Rightarrow> Units \<Rightarrow> string list \<Rightarrow> Scope list \<Rightarrow> go_err + Scope list" where
  "charge_scopes flag now owner charge [] scopes = Inr scopes"
| "charge_scopes flag now owner charge (i # is) scopes =
     (case tbl_find sc_ID i scopes of
        None \<Rightarrow> Inl ErrNotFound
      | Some s \<Rightarrow>
          if sc_OwnerID (sc_Spec s) \<noteq> owner then Inl ErrConflict
          else case addWithinPolicy s charge now flag of
            Inl e \<Rightarrow> Inl e
          | Inr next_used \<Rightarrow>
              charge_scopes flag now owner charge is
                (tbl_update (\<lambda>q. sc_ID q = i) (\<lambda>q. q\<lparr>sc_Used := next_used\<rparr>) scopes))"

definition reserve :: "digests \<Rightarrow> bool \<Rightarrow> instant \<Rightarrow> Request \<Rightarrow> ledger \<Rightarrow> (go_err, Reservation \<times> bool, ledger) outcome" where
  "reserve H flag now req L =
     (let i = dg_strings H [rq_OwnerID req, rq_OperationID req]; fingerprint = dg_request H req;
          conflict = (\<exists>r \<in> set (lg_reservations L). b_id r = i \<or>
             b_owner_id r = rq_OwnerID req \<and> b_operation_id r = rq_OperationID req);
          row = \<lparr>b_id = i, b_owner_id = rq_OwnerID req, b_operation_id = rq_OperationID req,
                 b_fingerprint = fingerprint, b_request = req, b_created_at = now\<rparr>;
          rows = (if conflict then lg_reservations L else lg_reservations L @ [row])
      in case tbl_find b_id i rows of
           None \<Rightarrow> (Inl ErrNoRows, L)
         | Some stored \<Rightarrow>
             if fingerprint \<noteq> b_fingerprint stored then (Inl ErrConflict, L)
             else
               let r = \<lparr>rv_ID = i, rv_Request = req, rv_CreatedAt = b_created_at stored\<rparr>
               in if conflict then (Inr (r, False), L)
                  else case charge_scopes flag now (rq_OwnerID req) (rq_Charge req) (rq_ScopeIDs req) (lg_scopes L) of
                    Inl e \<Rightarrow> (Inl e, L)
                  | Inr scopes \<Rightarrow> (Inr (r, True), \<lparr>lg_scopes = scopes, lg_reservations = rows\<rparr>))"

definition ReserveTx :: "digests \<Rightarrow> bool \<Rightarrow> instant \<Rightarrow> Request \<Rightarrow> ledger \<Rightarrow> (go_err, Reservation \<times> bool, ledger) outcome" where
  "ReserveTx H flag now req L =
     (case canonicalRequest req of
        Inl e \<Rightarrow> (Inl e, L)
      | Inr req' \<Rightarrow> reserve H flag now req' L)"

section \<open>Exact arithmetic\<close>

definition amounts_ok :: "int list \<Rightarrow> bool" where
  "amounts_ok xs \<longleftrightarrow> (\<forall>x \<in> set xs. 0 \<le> x \<and> x \<le> max_int64)"

definition units64 :: "Units \<Rightarrow> bool" where
  "units64 u \<longleftrightarrow> (\<forall>x \<in> set (unit_values u). int64 x)"

lemma units_validate_ok: "units64 u \<Longrightarrow> units_validate u = Inr () \<longleftrightarrow> amounts_ok (unit_values u)"
  unfolding units_validate_def amounts_ok_def units64_def int64_def
  by (auto simp: not_le [symmetric] split: if_splits)

lemma length_unit_values [simp]: "length (unit_values u) = 8" "length dimension_names = 8"
  by (simp_all add: unit_values_def dimension_names_def)

lemma fromValues_inverse [simp]: "length v = 8 \<Longrightarrow> unit_values (fromValues v) = v"
  by (rule nth_equalityI) (auto simp: unit_values_def fromValues_def less_Suc_eq numeral_eq_Suc)

lemma unit_values_inject: "unit_values u = unit_values w \<Longrightarrow> u = w"
  by (simp add: unit_values_def)

lemma wrap64_nonneg_diff: "0 \<le> u \<Longrightarrow> 0 \<le> l \<Longrightarrow> l \<le> max_int64 \<Longrightarrow> u \<le> max_int64 \<Longrightarrow> wrap64 (l - u) = l - u"
  by (rule wrap64_id) (simp add: int64_defs)

text \<open>Every dimension of a successful addition is the exact sum, and within the limit unless exempt.\<close>

lemma add_dimensions_exact:
  assumes "add_dimensions kind exempt us ls as ns = Inr vs"
    and "amounts_ok us" and "amounts_ok ls" and "amounts_ok as"
    and "length ls = length us" and "length as = length us" and "length ns = length us"
  shows "vs = map2 (+) us as \<and> amounts_ok vs \<and>
    (\<forall>i < length us. \<not> (i = 0 \<and> exempt) \<longrightarrow> vs ! i \<le> ls ! i)"
  using assms
proof (induction us arbitrary: exempt ls as ns vs)
  case Nil
  then show ?case by (simp add: amounts_ok_def)
next
  case (Cons u us)
  obtain l ls' a as' n ns' where lists: "ls = l # ls'" "as = a # as'" "ns = n # ns'"
    using Cons(6-8) by (metis length_Suc_conv)
  obtain rest where rest: "add_dimensions kind False us ls' as' ns' = Inr rest"
    and vs: "vs = wrap64 (u + a) # rest"
    and ok: "exempt \<longrightarrow> a \<le> wrap64 (max_int64 - u)" "\<not> exempt \<longrightarrow> u \<le> l \<and> a \<le> wrap64 (l - u)"
    using Cons(2) by (auto simp: lists not_less split: if_splits sum.splits)
  have b: "0 \<le> u" "u \<le> max_int64" "0 \<le> l" "l \<le> max_int64" "0 \<le> a" "a \<le> max_int64"
    using Cons(3-5) by (auto simp: amounts_ok_def lists)
  have fit: "u + a \<le> (if exempt then max_int64 else l)"
    using ok b wrap64_nonneg_diff [of u l] wrap64_nonneg_diff [of u max_int64] by (auto simp: max_int64_def)
  then have top: "u + a \<le> max_int64" using b by (auto split: if_splits)
  then have sum: "wrap64 (u + a) = u + a" using b by (intro wrap64_id) (simp add: int64_defs)
  have "rest = map2 (+) us as' \<and> amounts_ok rest \<and> (\<forall>i < length us. \<not> (i = 0 \<and> False) \<longrightarrow> rest ! i \<le> ls' ! i)"
    using rest by (rule Cons.IH) (use Cons(3-8) in \<open>auto simp: amounts_ok_def lists\<close>)
  then show ?case
    unfolding vs sum using fit b top
    by (auto simp: amounts_ok_def lists nth_Cons split: nat.split if_splits)
qed

section \<open>The ledger's invariant\<close>

text \<open>The dimensions of a scope the ledger compares with the limits.\<close>

definition compared :: "bool \<Rightarrow> Scope \<Rightarrow> nat \<Rightarrow> bool" where
  "compared flag s i \<longleftrightarrow> \<not> (i = 0 \<and> sc_Kind (sc_Spec s) = ''conversation'' \<and> flag)"

definition scope_ok :: "bool \<Rightarrow> Scope \<Rightarrow> bool" where
  "scope_ok flag s \<longleftrightarrow> amounts_ok (unit_values (sc_Used s)) \<and> amounts_ok (unit_values (sc_Limits (sc_Spec s))) \<and>
     (\<forall>i < 8. compared flag s i \<longrightarrow> unit_values (sc_Used s) ! i \<le> unit_values (sc_Limits (sc_Spec s)) ! i)"

text \<open>What the recorded reservations have charged to a scope, per dimension.\<close>

definition charged :: "reservation_row list \<Rightarrow> string \<Rightarrow> nat \<Rightarrow> int" where
  "charged rows i k =
     sum_list (map (\<lambda>r. unit_values (rq_Charge (b_request r)) ! k)
       (filter (\<lambda>r. i \<in> set (rq_ScopeIDs (b_request r))) rows))"

definition ledger_inv :: "bool \<Rightarrow> ledger \<Rightarrow> bool" where
  "ledger_inv flag L \<longleftrightarrow>
     keyed sc_ID (lg_scopes L) \<and> list_all (scope_ok flag) (lg_scopes L) \<and>
     (\<forall>r \<in> set (lg_reservations L). \<forall>i \<in> set (rq_ScopeIDs (b_request r)). tbl_find sc_ID i (lg_scopes L) \<noteq> None) \<and>
     (\<forall>s \<in> set (lg_scopes L). \<forall>k < 8. unit_values (sc_Used s) ! k = charged (lg_reservations L) (sc_ID s) k)"

lemma addWithinPolicy_exact:
  assumes "addWithinPolicy s charge now flag = Inr u" and "scope_ok flag s" and "units64 charge"
  shows "unit_values u = map2 (+) (unit_values (sc_Used s)) (unit_values charge) \<and>
    scope_ok flag (s\<lparr>sc_Used := u\<rparr>) \<and> now < sc_Deadline (sc_Spec s)"
proof -
  let ?us = "unit_values (sc_Used s)" and ?ls = "unit_values (sc_Limits (sc_Spec s))"
  obtain vs where vs: "add_dimensions (sc_Kind (sc_Spec s)) (sc_Kind (sc_Spec s) = ''conversation'' \<and> flag)
      ?us ?ls (unit_values charge) dimension_names = Inr vs" and u: "u = fromValues vs"
    and "units_validate charge = Inr ()" and dl: "now < sc_Deadline (sc_Spec s)"
    using assms(1) by (auto simp: addWithinPolicy_def split: if_splits sum.splits)
  then have "amounts_ok (unit_values charge)" using units_validate_ok assms(3) by blast
  then have ex: "vs = map2 (+) ?us (unit_values charge)" "amounts_ok vs"
    "\<forall>i < 8. compared flag s i \<longrightarrow> vs ! i \<le> ?ls ! i"
    using add_dimensions_exact [OF vs] assms(2) by (auto simp: scope_ok_def compared_def)
  have "unit_values u = vs" using u ex(1) by simp
  with ex assms(2) dl show ?thesis by (auto simp: scope_ok_def compared_def)
qed

definition charge_scope :: "Units \<Rightarrow> Scope \<Rightarrow> Scope" where
  "charge_scope charge s = s\<lparr>sc_Used := fromValues (map2 (+) (unit_values (sc_Used s)) (unit_values charge))\<rparr>"

lemma charge_scope_simps [simp]:
  "sc_ID (charge_scope charge s) = sc_ID s" "sc_Spec (charge_scope charge s) = sc_Spec s"
  "unit_values (sc_Used (charge_scope charge s)) = map2 (+) (unit_values (sc_Used s)) (unit_values charge)"
  by (simp_all add: charge_scope_def)

lemma charge_scopes_exact:
  assumes "charge_scopes flag now owner charge is scopes = Inr scopes'"
    and "keyed sc_ID scopes" and "list_all (scope_ok flag) scopes" and "units64 charge" and "distinct is"
  shows "scopes' = tbl_update (\<lambda>s. sc_ID s \<in> set is) (charge_scope charge) scopes \<and>
    list_all (scope_ok flag) scopes' \<and> (\<forall>i \<in> set is. tbl_find sc_ID i scopes \<noteq> None)"
  using assms
proof (induction "is" arbitrary: scopes)
  case Nil
  then show ?case by (simp add: tbl_update_def)
next
  case (Cons i "is")
  obtain s u where s: "tbl_find sc_ID i scopes = Some s" and u: "addWithinPolicy s charge now flag = Inr u"
    and rest: "charge_scopes flag now owner charge is
      (tbl_update (\<lambda>q. sc_ID q = i) (\<lambda>q. q\<lparr>sc_Used := u\<rparr>) scopes) = Inr scopes'"
    using Cons(2) by (auto split: option.splits if_splits sum.splits)
  have mem: "s \<in> set scopes" "sc_ID s = i" using tbl_find_SomeD [OF s] by auto
  have ok: "scope_ok flag s" using Cons(4) mem by (simp add: list_all_iff)
  have ex: "unit_values u = map2 (+) (unit_values (sc_Used s)) (unit_values charge)"
    "scope_ok flag (s\<lparr>sc_Used := u\<rparr>)"
    using addWithinPolicy_exact [OF u ok Cons(5)] by auto
  have "u = fromValues (map2 (+) (unit_values (sc_Used s)) (unit_values charge))"
    by (rule unit_values_inject) (simp add: ex(1))
  then have cs: "s\<lparr>sc_Used := u\<rparr> = charge_scope charge s" by (simp add: charge_scope_def)
  have only: "q = s" if "q \<in> set scopes" "sc_ID q = i" for q
    using that mem Cons(3) keyed_eq by metis
  let ?mid = "tbl_update (\<lambda>q. sc_ID q = i) (\<lambda>q. q\<lparr>sc_Used := u\<rparr>) scopes"
  have mid: "?mid = tbl_update (\<lambda>q. sc_ID q = i) (charge_scope charge) scopes"
    using only cs by (auto simp: tbl_update_def)
  have "keyed sc_ID ?mid" using Cons(3) by (simp add: keyed_tbl_update)
  moreover have "list_all (scope_ok flag) ?mid"
    using Cons(4) by (rule list_all_tbl_update) (use only ex(2) in blast)
  ultimately have IH: "scopes' = tbl_update (\<lambda>s. sc_ID s \<in> set is) (charge_scope charge) ?mid"
    "list_all (scope_ok flag) scopes'" "\<forall>j \<in> set is. tbl_find sc_ID j ?mid \<noteq> None"
    using Cons.IH [OF rest] Cons(5,6) by auto
  have "scopes' = tbl_update (\<lambda>s. sc_ID s \<in> set (i # is)) (charge_scope charge) scopes"
    unfolding IH(1) mid using Cons(6) by (auto simp: tbl_update_def)
  moreover have "\<forall>j \<in> set is. tbl_find sc_ID j scopes \<noteq> None"
    using IH(3) by (simp add: tbl_find_update)
  ultimately show ?case using IH(2) s by simp
qed

lemma check_scope_ids_distinct:
  "check_scope_ids prev is = Inr () \<Longrightarrow> sorted is \<Longrightarrow> (\<forall>p. prev = Some p \<longrightarrow> (\<forall>i \<in> set is. p \<le> i)) \<Longrightarrow>
     distinct is \<and> (\<forall>p. prev = Some p \<longrightarrow> p \<notin> set is)"
proof (induction "is" arbitrary: prev)
  case Nil
  then show ?case by simp
next
  case (Cons i "is")
  have tail: "check_scope_ids (Some i) is = Inr ()" and ne: "prev \<noteq> Some i"
    using Cons.prems(1) by (simp_all split: if_splits)
  have srt: "sorted is" "\<forall>j \<in> set is. i \<le> j" using Cons.prems(2) by simp_all
  have IH: "distinct is" "i \<notin> set is" using Cons.IH [OF tail srt(1)] srt(2) by blast+
  have "p \<notin> set (i # is)" if p: "prev = Some p" for p
  proof
    have "p \<le> i" using Cons.prems(3) p by fastforce
    have "p \<noteq> i" using p ne by blast
    assume "p \<in> set (i # is)"
    then have "p \<in> set is" using \<open>p \<noteq> i\<close> by simp
    then have "i \<le> p" using srt(2) by blast
    with \<open>p \<le> i\<close> have "p = i" by (rule antisym)
    with \<open>p \<noteq> i\<close> show False ..
  qed
  with IH show ?case by simp
qed

lemma canonicalRequest_Inr:
  assumes "canonicalRequest req = Inr req'"
  shows "distinct (rq_ScopeIDs req') \<and> rq_Charge req' = rq_Charge req \<and> rq_OwnerID req' = rq_OwnerID req \<and>
    rq_OperationID req' = rq_OperationID req \<and> canonicalRequest req' = Inr req'"
proof -
  have "check_scope_ids None (sort (rq_ScopeIDs req)) = Inr ()" and req': "req' = req\<lparr>rq_ScopeIDs := sort (rq_ScopeIDs req)\<rparr>"
    using assms by (auto simp: canonicalRequest_def split: if_splits sum.splits)
  then have "distinct (rq_ScopeIDs req')" using check_scope_ids_distinct [of None "sort (rq_ScopeIDs req)"] by simp
  moreover have "sort (rq_ScopeIDs req) \<noteq> []" if "rq_ScopeIDs req \<noteq> []"
    using that by (metis length_0_conv length_sort)
  then have "canonicalRequest req' = Inr req'"
    using assms unfolding req' by (auto simp: canonicalRequest_def sort_key_id_if_sorted split: if_splits sum.splits)
  ultimately show ?thesis by (simp add: req')
qed

inductive ledger_step :: "digests \<Rightarrow> bool \<Rightarrow> ledger \<Rightarrow> ledger \<Rightarrow> bool" for H flag where
  ensure: "units64 (sc_Limits spec) \<Longrightarrow> EnsureTx H spec L = (res, L') \<Longrightarrow> ledger_step H flag L L'"
| reserved: "units64 (rq_Charge req) \<Longrightarrow> ReserveTx H flag now req L = (res', L') \<Longrightarrow> ledger_step H flag L L'"

lemma charged_snoc:
  "charged (rows @ [r]) i k =
     charged rows i k + (if i \<in> set (rq_ScopeIDs (b_request r)) then unit_values (rq_Charge (b_request r)) ! k else 0)"
  by (simp add: charged_def)

lemma charged_unused: "(\<forall>r \<in> set rows. i \<notin> set (rq_ScopeIDs (b_request r))) \<Longrightarrow> charged rows i k = 0"
  by (simp add: charged_def)

lemma EnsureTx_cases:
  assumes "EnsureTx H spec L = (res, L')"
  obtains (same) "L' = L"
  | (added) i where "L' = L\<lparr>lg_scopes := lg_scopes L @
        [\<lparr>sc_ID = i, sc_Spec = spec\<lparr>sc_Deadline := truncate_micro (sc_Deadline spec)\<rparr>, sc_Used = zero_units\<rparr>]\<rparr>"
      and "tbl_find sc_ID i (lg_scopes L) = None" and "validateScope spec = Inr ()"
proof (cases "L' = L")
  case True
  then show ?thesis by (rule same)
next
  case False
  let ?i = "ScopeID H (sc_Kind spec) (sc_OwnerID spec) (sc_SubjectID spec)"
  have valid: "validateScope spec = Inr ()"
    using assms False by (auto simp: EnsureTx_def split: sum.splits)
  have "tbl_find sc_ID ?i (lg_scopes L) = None"
    using assms False valid unfolding EnsureTx_def tbl_find_None_iff
    by (auto simp: Let_def split: if_splits option.splits)
  moreover have "L' = L\<lparr>lg_scopes := lg_scopes L @
        [\<lparr>sc_ID = ?i, sc_Spec = spec\<lparr>sc_Deadline := truncate_micro (sc_Deadline spec)\<rparr>, sc_Used = zero_units\<rparr>]\<rparr>"
    using assms False valid unfolding EnsureTx_def
    by (auto simp: Let_def split: if_splits option.splits)
  ultimately show ?thesis using valid by (intro added)
qed

lemma EnsureTx_inv:
  assumes inv: "ledger_inv flag L" and "units64 (sc_Limits spec)" and "EnsureTx H spec L = (res, L')"
  shows "ledger_inv flag L'"
  using assms(3)
proof (cases rule: EnsureTx_cases)
  case same
  with inv show ?thesis by simp
next
  case (added i)
  let ?s = "\<lparr>sc_ID = i, sc_Spec = spec\<lparr>sc_Deadline := truncate_micro (sc_Deadline spec)\<rparr>, sc_Used = zero_units\<rparr>"
  have lim: "amounts_ok (unit_values (sc_Limits spec))"
    using added(3) units_validate_ok [OF assms(2)] by (auto simp: validateScope_def split: if_splits)
  have zero: "unit_values zero_units = replicate 8 0"
    by (simp add: unit_values_def zero_units_def numeral_eq_Suc)
  have "scope_ok flag ?s"
    using lim by (auto simp: scope_ok_def zero amounts_ok_def max_int64_def)
  moreover have "i \<notin> set (rq_ScopeIDs (b_request r))" if "r \<in> set (lg_reservations L)" for r
    using inv added(2) that unfolding ledger_inv_def by blast
  then have "charged (lg_reservations L) i k = 0" for k by (intro charged_unused) blast
  ultimately show ?thesis
    using inv added(1,2) unfolding ledger_inv_def
    by (auto simp: keyed_snoc tbl_find_append zero split: option.splits)
qed

lemma reserve_cases:
  assumes "reserve H flag now req L = (res, L')"
  obtains (same) "L' = L"
  | (added) row scopes where "L' = \<lparr>lg_scopes = scopes, lg_reservations = lg_reservations L @ [row]\<rparr>"
      and "b_request row = req" and "b_id row = dg_strings H [rq_OwnerID req, rq_OperationID req]"
      and "b_fingerprint row = dg_request H req" and "b_created_at row = now"
      and "tbl_find b_id (b_id row) (lg_reservations L) = None"
      and "charge_scopes flag now (rq_OwnerID req) (rq_Charge req) (rq_ScopeIDs req) (lg_scopes L) = Inr scopes"
      and "res = Inr (\<lparr>rv_ID = b_id row, rv_Request = req, rv_CreatedAt = now\<rparr>, True)"
proof (cases "L' = L")
  case True
  then show ?thesis by (rule same)
next
  case False
  let ?i = "dg_strings H [rq_OwnerID req, rq_OperationID req]"
  let ?row = "\<lparr>b_id = ?i, b_owner_id = rq_OwnerID req, b_operation_id = rq_OperationID req,
     b_fingerprint = dg_request H req, b_request = req, b_created_at = now\<rparr>"
  have no: "\<not> (\<exists>r \<in> set (lg_reservations L). b_id r = ?i \<or>
      b_owner_id r = rq_OwnerID req \<and> b_operation_id r = rq_OperationID req)"
    using assms False unfolding reserve_def Let_def by (auto split: if_splits option.splits)
  then have none: "tbl_find b_id ?i (lg_reservations L) = None" unfolding tbl_find_None_iff by auto
  then have found: "tbl_find b_id ?i (lg_reservations L @ [?row]) = Some ?row" by (simp add: tbl_find_append)
  obtain scopes where "charge_scopes flag now (rq_OwnerID req) (rq_Charge req) (rq_ScopeIDs req) (lg_scopes L) = Inr scopes"
    and "L' = \<lparr>lg_scopes = scopes, lg_reservations = lg_reservations L @ [?row]\<rparr>"
    and "res = Inr (\<lparr>rv_ID = ?i, rv_Request = req, rv_CreatedAt = now\<rparr>, True)"
    using assms False unfolding reserve_def Let_def if_not_P [OF no] found
    by (auto split: sum.splits)
  with none show ?thesis by (intro added [of scopes ?row]) simp_all
qed

lemma reserve_inv:
  assumes inv: "ledger_inv flag L" and chg: "units64 (rq_Charge req)" and dist: "distinct (rq_ScopeIDs req)"
    and "reserve H flag now req L = (res, L')"
  shows "ledger_inv flag L'"
  using assms(4)
proof (cases rule: reserve_cases)
  case same
  with inv show ?thesis by simp
next
  case (added row scopes)
  have ex: "scopes = tbl_update (\<lambda>s. sc_ID s \<in> set (rq_ScopeIDs req)) (charge_scope (rq_Charge req)) (lg_scopes L)"
    "list_all (scope_ok flag) scopes" "\<forall>i \<in> set (rq_ScopeIDs req). tbl_find sc_ID i (lg_scopes L) \<noteq> None"
    using charge_scopes_exact [OF added(7)] inv chg dist by (auto simp: ledger_inv_def)
  have find: "tbl_find sc_ID i scopes = None \<longleftrightarrow> tbl_find sc_ID i (lg_scopes L) = None" for i
    unfolding ex(1) by (simp add: tbl_find_update)
  have "keyed sc_ID scopes" unfolding ex(1) using inv by (simp add: keyed_tbl_update ledger_inv_def)
  moreover have "unit_values (sc_Used s) ! k = charged (lg_reservations L @ [row]) (sc_ID s) k"
    if s: "s \<in> set scopes" and k: "k < 8" for s k
  proof -
    obtain q where q: "q \<in> set (lg_scopes L)"
      and sq: "s = (if sc_ID q \<in> set (rq_ScopeIDs req) then charge_scope (rq_Charge req) q else q)"
      using s unfolding ex(1) set_tbl_update by blast
    have "unit_values (sc_Used q) ! k = charged (lg_reservations L) (sc_ID q) k"
      using inv q k by (simp add: ledger_inv_def)
    then show ?thesis using sq k added(2) by (simp add: charged_snoc)
  qed
  ultimately show ?thesis
    using inv ex(2,3) added(1,2) find unfolding ledger_inv_def by (auto simp del: not_None_eq)
qed

lemma ReserveTx_inv:
  assumes "ledger_inv flag L" and "units64 (rq_Charge req)" and "ReserveTx H flag now req L = (res, L')"
  shows "ledger_inv flag L'"
proof (cases "canonicalRequest req")
  case (Inl e)
  with assms show ?thesis by (simp add: ReserveTx_def)
next
  case (Inr req')
  with assms canonicalRequest_Inr [OF Inr] show ?thesis
    by (intro reserve_inv [of flag L req' H now res L']) (simp_all add: ReserveTx_def)
qed

definition empty_ledger :: "ledger \<Rightarrow> bool" where
  "empty_ledger L \<longleftrightarrow> L = \<lparr>lg_scopes = [], lg_reservations = []\<rparr>"

definition spent :: "ledger \<Rightarrow> string \<times> nat \<Rightarrow> int" where
  "spent L = (\<lambda>(i, k). case tbl_find sc_ID i (lg_scopes L) of None \<Rightarrow> 0 | Some s \<Rightarrow> unit_values (sc_Used s) ! k)"

lemma ledger_inv_step: "ledger_step H flag L L' \<Longrightarrow> ledger_inv flag L \<Longrightarrow> ledger_inv flag L'"
  by (induction rule: ledger_step.induct) (blast intro: EnsureTx_inv ReserveTx_inv)+

lemma zero_values: "unit_values zero_units ! k = 0" if "k < 8" for k
  using that by (auto simp: unit_values_def zero_units_def less_Suc_eq numeral_eq_Suc)

lemma spent_step:
  assumes "ledger_step H flag L L'" and inv: "ledger_inv flag L" and k: "k < 8"
  shows "spent L (i, k) \<le> spent L' (i, k)"
  using assms(1)
proof cases
  case (ensure spec res)
  from ensure(2) show ?thesis
    by (cases rule: EnsureTx_cases) (auto simp: spent_def tbl_find_append zero_values k split: option.splits)
next
  case (reserved req now res)
  show ?thesis
  proof (cases "canonicalRequest req")
    case (Inl e)
    with reserved(2) show ?thesis by (simp add: ReserveTx_def)
  next
    case (Inr req')
    with reserved(2) have "reserve H flag now req' L = (res, L')" by (simp add: ReserveTx_def)
    then show ?thesis
    proof (cases rule: reserve_cases)
      case (added row scopes)
      have c: "distinct (rq_ScopeIDs req')" "rq_Charge req' = rq_Charge req" "canonicalRequest req' = Inr req'"
        using canonicalRequest_Inr [OF Inr] by auto
      have scopes: "scopes = tbl_update (\<lambda>s. sc_ID s \<in> set (rq_ScopeIDs req')) (charge_scope (rq_Charge req')) (lg_scopes L)"
        using charge_scopes_exact [OF added(7)] inv reserved(1) c by (simp add: ledger_inv_def)
      have "units_validate (rq_Charge req') = Inr ()"
        using c(3) by (auto simp: canonicalRequest_def split: if_splits sum.splits)
      then have "amounts_ok (unit_values (rq_Charge req'))"
        using units_validate_ok reserved(1) c(2) by simp
      then have "0 \<le> unit_values (rq_Charge req') ! k" using k by (simp add: amounts_ok_def)
      then show ?thesis
        using k by (auto simp: spent_def added(1) scopes tbl_find_update split: option.split)
    qed simp
  qed
qed

interpretation led: invariant_system empty_ledger "ledger_step H flag" "ledger_inv flag" for H flag
proof
  show "ledger_inv flag L" if "empty_ledger L" for L
    using that by (simp add: empty_ledger_def ledger_inv_def)
  show "ledger_inv flag t" if "ledger_inv flag s" "ledger_step H flag s t" for s t
    using that ledger_inv_step by blast
qed

text \<open>The amounts a scope has spent, one observation per scope and dimension.\<close>

interpretation spend: monotone_system empty_ledger "ledger_step H flag" "ledger_inv flag"
    "\<lambda>L (i, k). if k < 8 then spent L (i, k) else 0" for H flag
proof
  fix s t k assume "ledger_inv flag s" "ledger_step H flag s t"
  then show "(case k of (i, k) \<Rightarrow> if k < 8 then spent s (i, k) else 0) \<le>
      (case k of (i, k) \<Rightarrow> if k < 8 then spent t (i, k) else 0)"
    using spent_step by (cases k) auto
qed

lemma reserve_failure: "ReserveTx H flag now req L = (Inl e, L') \<Longrightarrow> L' = L"
proof (cases "canonicalRequest req")
  case (Inr req')
  moreover assume "ReserveTx H flag now req L = (Inl e, L')"
  ultimately have "reserve H flag now req' L = (Inl e, L')" by (simp add: ReserveTx_def)
  then show ?thesis by (cases rule: reserve_cases) simp_all
qed (simp add: ReserveTx_def)

text \<open>A reservation row stays what it is: nothing removes or changes rows of the table.\<close>

lemma reservation_stable:
  assumes "ledger_step H flag L L'" and "tbl_find b_id i (lg_reservations L) = Some row"
  shows "tbl_find b_id i (lg_reservations L') = Some row"
  using assms(1)
proof cases
  case (ensure spec res)
  from ensure(2) show ?thesis by (cases rule: EnsureTx_cases) (simp_all add: assms(2))
next
  case (reserved req now res)
  show ?thesis
  proof (cases "canonicalRequest req")
    case (Inl e)
    with reserved(2) assms(2) show ?thesis by (simp add: ReserveTx_def)
  next
    case (Inr req')
    with reserved(2) have "reserve H flag now req' L = (res, L')" by (simp add: ReserveTx_def)
    then show ?thesis by (cases rule: reserve_cases) (simp_all add: assms(2) tbl_find_append)
  qed
qed

lemma reservation_stable_steps:
  "(ledger_step H flag)\<^sup>*\<^sup>* L L' \<Longrightarrow> tbl_find b_id i (lg_reservations L) = Some row \<Longrightarrow>
     tbl_find b_id i (lg_reservations L') = Some row"
  by (induction rule: rtranclp_induct) (auto intro: reservation_stable)

lemma reserve_replay:
  assumes "tbl_find b_id (dg_strings H [rq_OwnerID req, rq_OperationID req]) (lg_reservations L) = Some row"
    and "b_fingerprint row = dg_request H req"
  shows "reserve H flag now req L =
    (Inr (\<lparr>rv_ID = dg_strings H [rq_OwnerID req, rq_OperationID req], rv_Request = req, rv_CreatedAt = b_created_at row\<rparr>, False), L)"
proof -
  have "\<exists>r \<in> set (lg_reservations L). b_id r = dg_strings H [rq_OwnerID req, rq_OperationID req] \<or>
      b_owner_id r = rq_OwnerID req \<and> b_operation_id r = rq_OperationID req"
    using tbl_find_SomeD [OF assms(1)] by blast
  then show ?thesis unfolding reserve_def Let_def using assms by simp
qed

end
