(* ===== verification/BudgetProps.thy ===== *)
theory BudgetProps
  imports Budget
begin

text \<open>
  The properties of the execution budget: what a reachable ledger records, what one reservation
  charges, that replays charge nothing, that spending only grows, and that a model quote is the
  exact price.
\<close>

section \<open>A sample ledger\<close>

definition demo_digests :: digests where
  "demo_digests = \<lparr>dg_strings = (\<lambda>xs. replicate 63 (CHR ''0'') @ (if hd xs = ''task'' then ''1'' else ''2'')),
     dg_request = (\<lambda>r. if rq_Charge r = zero_units then ''probe'' else ''op'')\<rparr>"

definition demo_scope_id :: string where
  "demo_scope_id = replicate 63 (CHR ''0'') @ ''1''"

definition demo_limits :: Units where
  "demo_limits = zero_units\<lparr>u_ModelTurns := 3, u_Tokens := 100\<rparr>"

definition demo_spec :: ScopeSpec where
  "demo_spec = \<lparr>sc_Kind = ''task'', sc_OwnerID = ''owner'', sc_SubjectID = ''root'', sc_Limits = demo_limits,
     sc_Deadline = 5000000\<rparr>"

definition demo_request :: Request where
  "demo_request = \<lparr>rq_OwnerID = ''owner'', rq_OperationID = ''op'', rq_ScopeIDs = [demo_scope_id],
     rq_Charge = zero_units\<lparr>u_ModelTurns := 1, u_Tokens := 40\<rparr>, rq_CostKnown = True\<rparr>"

definition demo_scope :: "Units \<Rightarrow> Scope" where
  "demo_scope u = \<lparr>sc_ID = demo_scope_id, sc_Spec = demo_spec, sc_Used = u\<rparr>"

definition demo_row :: reservation_row where
  "demo_row = \<lparr>b_id = replicate 63 (CHR ''0'') @ ''2'', b_owner_id = ''owner'', b_operation_id = ''op'',
     b_fingerprint = ''op'', b_request = demo_request, b_created_at = 1000\<rparr>"

definition demo_ledger0 :: ledger where
  "demo_ledger0 = \<lparr>lg_scopes = [demo_scope zero_units], lg_reservations = []\<rparr>"

definition demo_ledger1 :: ledger where
  "demo_ledger1 = \<lparr>lg_scopes = [demo_scope (rq_Charge demo_request)], lg_reservations = [demo_row]\<rparr>"

lemma demo_ensure: "EnsureTx demo_digests demo_spec \<lparr>lg_scopes = [], lg_reservations = []\<rparr> = (Inr (demo_scope zero_units), demo_ledger0)"
  by code_simp

lemma demo_reserve:
  "ReserveTx demo_digests False 1000 demo_request demo_ledger0 =
     (Inr (\<lparr>rv_ID = b_id demo_row, rv_Request = demo_request, rv_CreatedAt = 1000\<rparr>, True), demo_ledger1)"
  by code_simp

lemma demo_units: "units64 demo_limits" "units64 (rq_Charge demo_request)"
  by (simp_all add: units64_def unit_values_def demo_limits_def demo_request_def zero_units_def int64_defs)

lemma demo_steps0: "(ledger_step demo_digests False)\<^sup>*\<^sup>* \<lparr>lg_scopes = [], lg_reservations = []\<rparr> demo_ledger0"
  using demo_ensure demo_units(1) ledger_step.ensure [of demo_spec demo_digests] by (auto simp: demo_spec_def)

lemma demo_steps1: "(ledger_step demo_digests False)\<^sup>*\<^sup>* demo_ledger0 demo_ledger1"
  using demo_reserve demo_units(2) ledger_step.reserved [of demo_request demo_digests] by blast

lemma demo_empty: "empty_ledger \<lparr>lg_scopes = [], lg_reservations = []\<rparr>"
  by (simp add: empty_ledger_def)

lemma demo_ledger_inv: "ledger_inv False demo_ledger0"
  using led.inv_reach demo_empty demo_steps0 by blast

section \<open>What a reservation does\<close>

lemma canonicalRequest_ids: "canonicalRequest req = Inr req' \<Longrightarrow> set (rq_ScopeIDs req') = set (rq_ScopeIDs req)"
  by (auto simp: canonicalRequest_def split: if_splits sum.splits)

lemma reserve_charges:
  assumes "reserve H flag now req L = (Inr (r, True), L')"
  shows "charge_scopes flag now (rq_OwnerID req) (rq_Charge req) (rq_ScopeIDs req) (lg_scopes L) = Inr (lg_scopes L')"
  using assms by (auto simp: reserve_def Let_def split: if_splits option.splits sum.splits)

lemma charge_scopes_each:
  "charge_scopes flag now owner charge is scopes = Inr scopes' \<Longrightarrow> distinct is \<Longrightarrow> i \<in> set is \<Longrightarrow>
     tbl_find sc_ID i scopes = Some s \<Longrightarrow> now < sc_Deadline (sc_Spec s) \<and> sc_OwnerID (sc_Spec s) = owner"
proof (induction "is" arbitrary: scopes)
  case Nil
  then show ?case by simp
next
  case (Cons j "is")
  obtain q u where q: "tbl_find sc_ID j scopes = Some q" "sc_OwnerID (sc_Spec q) = owner"
    and u: "addWithinPolicy q charge now flag = Inr u"
    and rest: "charge_scopes flag now owner charge is
      (tbl_update (\<lambda>q. sc_ID q = j) (\<lambda>q. q\<lparr>sc_Used := u\<rparr>) scopes) = Inr scopes'"
    using Cons.prems(1) by (auto split: option.splits if_splits sum.splits)
  show ?case
  proof (cases "i = j")
    case True
    with q Cons.prems(4) have "q = s" by simp
    with u q(2) show ?thesis by (auto simp: addWithinPolicy_def split: if_splits)
  next
    case False
    have "sc_ID s \<noteq> j" using tbl_find_SomeD [OF Cons.prems(4)] False by blast
    with False Cons.prems rest show ?thesis
      by (intro Cons.IH [OF rest]) (simp_all add: tbl_find_update)
  qed
qed

lemma reserve_row:
  assumes "reserve H flag now req L = (Inr (r, fresh), L')"
  shows "\<exists>row. tbl_find b_id (dg_strings H [rq_OwnerID req, rq_OperationID req]) (lg_reservations L') = Some row \<and>
    b_fingerprint row = dg_request H req \<and>
    r = \<lparr>rv_ID = dg_strings H [rq_OwnerID req, rq_OperationID req], rv_Request = req, rv_CreatedAt = b_created_at row\<rparr>"
  using assms by (auto simp: reserve_def Let_def split: if_splits option.splits sum.splits)

lemma reserve_conflict:
  assumes "tbl_find b_id (dg_strings H [rq_OwnerID req, rq_OperationID req]) (lg_reservations L) = Some row"
    and "b_fingerprint row \<noteq> dg_request H req"
  shows "reserve H flag now req L = (Inl ErrConflict, L)"
proof -
  have "\<exists>r \<in> set (lg_reservations L). b_id r = dg_strings H [rq_OwnerID req, rq_OperationID req] \<or>
      b_owner_id r = rq_OwnerID req \<and> b_operation_id r = rq_OperationID req"
    using tbl_find_SomeD [OF assms(1)] by blast
  then show ?thesis unfolding reserve_def Let_def using assms by auto
qed

lemma scope_stable:
  assumes "ledger_step H flag L L'" and "ledger_inv flag L"
    and "\<exists>s. tbl_find sc_ID i (lg_scopes L) = Some s \<and> sc_Spec s = spec"
  shows "\<exists>s. tbl_find sc_ID i (lg_scopes L') = Some s \<and> sc_Spec s = spec"
  using assms(1)
proof cases
  case (ensure sp res)
  from ensure(2) show ?thesis by (cases rule: EnsureTx_cases) (use assms(3) in \<open>auto simp: tbl_find_append\<close>)
next
  case (reserved req now res)
  show ?thesis
  proof (cases "canonicalRequest req")
    case (Inl e)
    with reserved(2) assms(3) show ?thesis by (simp add: ReserveTx_def)
  next
    case (Inr req')
    with reserved(2) have "reserve H flag now req' L = (res, L')" by (simp add: ReserveTx_def)
    then show ?thesis
    proof (cases rule: reserve_cases)
      case same
      with assms(3) show ?thesis by simp
    next
      case (added row scopes)
      have "scopes = tbl_update (\<lambda>s. sc_ID s \<in> set (rq_ScopeIDs req')) (charge_scope (rq_Charge req')) (lg_scopes L)"
        using charge_scopes_exact [OF added(7)] assms(2) reserved(1) canonicalRequest_Inr [OF Inr] by (simp add: ledger_inv_def)
      moreover obtain s where "tbl_find sc_ID i (lg_scopes L) = Some s" "sc_Spec s = spec" using assms(3) by blast
      ultimately show ?thesis using added(1) by (simp add: tbl_find_update)
    qed
  qed
qed

lemma scope_stable_steps:
  assumes "(ledger_step H flag)\<^sup>*\<^sup>* L L'" and "ledger_inv flag L" and "tbl_find sc_ID i (lg_scopes L) = Some s"
  shows "\<exists>s'. tbl_find sc_ID i (lg_scopes L') = Some s' \<and> sc_Spec s' = sc_Spec s"
proof (rule led.stable_steps [OF _ assms(1,2)])
  show "\<exists>s'. tbl_find sc_ID i (lg_scopes v) = Some s' \<and> sc_Spec s' = sc_Spec s"
    if "ledger_inv flag u" "ledger_step H flag u v" "\<exists>s'. tbl_find sc_ID i (lg_scopes u) = Some s' \<and> sc_Spec s' = sc_Spec s" for u v
    using scope_stable that by blast
qed (use assms(3) in blast)

lemma first_error_all: "first_error check xs = Inr () \<Longrightarrow> x \<in> set xs \<Longrightarrow> check x = Inr ()"
  by (induction xs) (auto split: sum.splits)

lemma Policy_Validate_prices: "Policy_Validate p = Inr () \<Longrightarrow> price \<in> snd ` set (po_Models p) \<Longrightarrow> price_validate price = Inr ()"
  using first_error_all [of price_validate "map snd (po_Models p)" price]
  by (auto simp: Policy_Validate_def split: if_splits sum.splits)

text \<open>The division the source uses to foresee an overflow of a product.\<close>

lemma product_bound:
  fixes n :: int
  assumes "0 \<le> n" and "0 \<le> rate" and "rate \<le> max_int64 div (n + 1)"
  shows "0 \<le> n * rate \<and> n * rate \<le> max_int64"
proof -
  have "n * rate \<le> (n + 1) * rate" using assms by (simp add: mult_right_mono)
  also have "\<dots> \<le> (n + 1) * (max_int64 div (n + 1))" using assms by (intro mult_left_mono) simp_all
  also have "\<dots> \<le> max_int64"
    using mult_div_mod_eq [of "n + 1" max_int64] pos_mod_sign [of "n + 1" max_int64] assms(1) by linarith
  finally show ?thesis using assms by simp
qed

section \<open>Properties\<close>

text \<open>C33. In every reachable ledger the amount recorded as used by a scope is, in every dimension,
  the sum of the charges of exactly the recorded reservations that name the scope, it is a
  non-negative 64-bit amount (no addition wrapped around), and it is within the scope's limit,
  the model turns of a conversation excepted when the operator disabled that comparison.\<close>

theorem reachable_ledger_never_overspends:
  assumes "empty_ledger L0" and "(ledger_step H flag)\<^sup>*\<^sup>* L0 L" and "s \<in> set (lg_scopes L)" and "k < 8"
  shows "unit_values (sc_Used s) ! k =
      (\<Sum>r \<leftarrow> lg_reservations L.
         if sc_ID s \<in> set (rq_ScopeIDs (b_request r)) then unit_values (rq_Charge (b_request r)) ! k else 0) \<and>
    0 \<le> unit_values (sc_Used s) ! k \<and> unit_values (sc_Used s) ! k \<le> max_int64 \<and>
    (k = 0 \<and> sc_Kind (sc_Spec s) = ''conversation'' \<and> flag \<or>
     unit_values (sc_Used s) ! k \<le> unit_values (sc_Limits (sc_Spec s)) ! k)"
proof -
  have inv: "ledger_inv flag L" using led.inv_reach assms(1,2) by blast
  then have "unit_values (sc_Used s) ! k = charged (lg_reservations L) (sc_ID s) k" and ok: "scope_ok flag s"
    using assms(3,4) by (simp_all add: ledger_inv_def list_all_iff)
  moreover have "0 \<le> unit_values (sc_Used s) ! k" "unit_values (sc_Used s) ! k \<le> max_int64"
    using ok assms(4) by (simp_all add: scope_ok_def amounts_ok_def)
  moreover have "compared flag s k \<Longrightarrow> unit_values (sc_Used s) ! k \<le> unit_values (sc_Limits (sc_Spec s)) ! k"
    using ok assms(4) by (simp add: scope_ok_def)
  ultimately show ?thesis unfolding charged_def sum_list_map_filter' compared_def by blast
qed

theorem reachable_ledger_never_overspends_witness:
  "unit_values (rq_Charge demo_request) ! 1 \<le> unit_values demo_limits ! 1"
  using reachable_ledger_never_overspends [OF demo_empty rtranclp_trans [OF demo_steps0 demo_steps1],
      where s = "demo_scope (rq_Charge demo_request)" and k = 1]
  by (simp add: demo_ledger1_def demo_scope_def demo_spec_def)

text \<open>A fresh reservation charges exactly what it asks for: it succeeds only before the deadline of
  each of its scopes and only when each belongs to its owner, adds the charge once to each scope it
  names, without wrap-around, and leaves every other scope as it was.\<close>

theorem reservation_charges_exactly:
  assumes "ledger_inv flag L" and "units64 (rq_Charge req)"
    and "ReserveTx H flag now req L = (Inr (r, True), L')" and "tbl_find sc_ID i (lg_scopes L) = Some s"
  shows "\<exists>s'. tbl_find sc_ID i (lg_scopes L') = Some s' \<and> sc_Spec s' = sc_Spec s \<and>
    (if i \<in> set (rq_ScopeIDs req)
     then (\<forall>k < 8. unit_values (sc_Used s') ! k = unit_values (sc_Used s) ! k + unit_values (rq_Charge req) ! k) \<and>
       now < sc_Deadline (sc_Spec s) \<and> sc_OwnerID (sc_Spec s) = rq_OwnerID req
     else s' = s)"
proof -
  obtain req' where req': "canonicalRequest req = Inr req'" and "reserve H flag now req' L = (Inr (r, True), L')"
    using assms(3) by (auto simp: ReserveTx_def split: sum.splits)
  then obtain scopes where L': "lg_scopes L' = scopes"
    and ch: "charge_scopes flag now (rq_OwnerID req') (rq_Charge req') (rq_ScopeIDs req') (lg_scopes L) = Inr scopes"
    using reserve_charges by blast
  have c: "distinct (rq_ScopeIDs req')" "rq_Charge req' = rq_Charge req" "rq_OwnerID req' = rq_OwnerID req"
    "set (rq_ScopeIDs req') = set (rq_ScopeIDs req)"
    using canonicalRequest_Inr [OF req'] canonicalRequest_ids [OF req'] by auto
  have "scopes = tbl_update (\<lambda>s. sc_ID s \<in> set (rq_ScopeIDs req)) (charge_scope (rq_Charge req)) (lg_scopes L)"
    using charge_scopes_exact [OF ch] assms(1,2) c by (simp add: ledger_inv_def)
  moreover have "i \<in> set (rq_ScopeIDs req) \<Longrightarrow> now < sc_Deadline (sc_Spec s) \<and> sc_OwnerID (sc_Spec s) = rq_OwnerID req"
    using charge_scopes_each [OF ch c(1) _ assms(4)] c(3,4) by simp
  moreover have "sc_ID s = i" using tbl_find_SomeD [OF assms(4)] by blast
  ultimately show ?thesis using assms(4) L' by (simp add: tbl_find_update)
qed

theorem reservation_charges_exactly_witness:
  "unit_values (sc_Used (demo_scope (rq_Charge demo_request))) ! 1 = 0 + 40"
  using reservation_charges_exactly [OF demo_ledger_inv demo_units(2) demo_reserve, where i = demo_scope_id and s = "demo_scope zero_units"]
  by (simp add: demo_ledger0_def demo_ledger1_def demo_scope_def demo_request_def unit_values_def zero_units_def)

text \<open>A reservation is idempotent: once a request succeeded, the same request at any later time,
  after any further use of the ledger, returns the same reservation marked as not fresh and leaves
  the ledger unchanged; a request that reuses the owner's operation id with another fingerprint is
  refused as a conflict, again without a change.\<close>

theorem reservation_is_idempotent:
  assumes "ReserveTx H flag now req L = (Inr (r, fresh), L1)" and "(ledger_step H flag)\<^sup>*\<^sup>* L1 L2"
    and "canonicalRequest other = Inr other'" and "rq_OwnerID other = rq_OwnerID req"
    and "rq_OperationID other = rq_OperationID req" and "dg_request H other' \<noteq> dg_request H (rv_Request r)"
  shows "ReserveTx H flag now' req L2 = (Inr (r, False), L2) \<and>
    ReserveTx H flag now' other L2 = (Inl ErrConflict, L2)"
proof -
  obtain req' where req': "canonicalRequest req = Inr req'" and "reserve H flag now req' L = (Inr (r, fresh), L1)"
    using assms(1) by (auto simp: ReserveTx_def split: sum.splits)
  let ?i = "dg_strings H [rq_OwnerID req', rq_OperationID req']"
  obtain row where "tbl_find b_id ?i (lg_reservations L1) = Some row" and row: "b_fingerprint row = dg_request H req'"
    and r: "r = \<lparr>rv_ID = ?i, rv_Request = req', rv_CreatedAt = b_created_at row\<rparr>"
    using reserve_row [OF \<open>reserve H flag now req' L = _\<close>] by blast
  then have find: "tbl_find b_id ?i (lg_reservations L2) = Some row"
    using reservation_stable_steps assms(2) by blast
  have "?i = dg_strings H [rq_OwnerID other', rq_OperationID other']"
    using canonicalRequest_Inr [OF req'] canonicalRequest_Inr [OF assms(3)] assms(4,5) by simp
  then have "reserve H flag now' other' L2 = (Inl ErrConflict, L2)"
    using find row assms(6) r by (intro reserve_conflict) auto
  with find row r show ?thesis by (simp add: ReserveTx_def req' assms(3) reserve_replay)
qed

theorem reservation_is_idempotent_witness:
  "ReserveTx demo_digests False 2000 demo_request demo_ledger1 =
     (Inr (\<lparr>rv_ID = b_id demo_row, rv_Request = demo_request, rv_CreatedAt = 1000\<rparr>, False), demo_ledger1)"
proof -
  let ?other = "demo_request\<lparr>rq_Charge := zero_units\<rparr>"
  have other: "canonicalRequest ?other = Inr ?other" by code_simp
  have "dg_request demo_digests ?other \<noteq> dg_request demo_digests demo_request" by code_simp
  then show ?thesis
    using reservation_is_idempotent [OF demo_reserve rtranclp.rtrancl_refl other, where now' = 2000] by simp
qed

text \<open>What a scope has spent never decreases, whatever is ensured or reserved: in particular no
  restart, changed default or repeated initialisation resets a budget.\<close>

theorem spending_never_decreases:
  assumes "ledger_inv flag L" and "(ledger_step H flag)\<^sup>*\<^sup>* L L'" and "tbl_find sc_ID i (lg_scopes L) = Some s" and "k < 8"
  shows "\<exists>s'. tbl_find sc_ID i (lg_scopes L') = Some s' \<and> sc_Spec s' = sc_Spec s \<and>
    unit_values (sc_Used s) ! k \<le> unit_values (sc_Used s') ! k"
proof -
  obtain s' where s': "tbl_find sc_ID i (lg_scopes L') = Some s'" "sc_Spec s' = sc_Spec s"
    using scope_stable_steps [OF assms(2,1,3)] by blast
  have "spent L (i, k) \<le> spent L' (i, k)"
    using spend.obs_steps [OF assms(2,1), of "(i, k)"] assms(4) by simp
  with s' assms(3) show ?thesis by (simp add: spent_def)
qed

theorem spending_never_decreases_witness:
  "\<exists>s'. tbl_find sc_ID demo_scope_id (lg_scopes demo_ledger1) = Some s' \<and> sc_Spec s' = demo_spec \<and>
    unit_values zero_units ! 1 \<le> unit_values (sc_Used s') ! 1"
  using spending_never_decreases [OF demo_ledger_inv demo_steps1, where i = demo_scope_id and s = "demo_scope zero_units" and k = 1]
  by (simp add: demo_ledger0_def demo_scope_def)

text \<open>A model quote under a validated policy is the exact price: when it succeeds, none of its
  64-bit products and sums wrapped around, its tokens are the input plus the reserved output, its cost
  is the rate card's price of both, and every amount is acceptable as a charge.\<close>

theorem model_quote_is_exact:
  assumes "Policy_Validate p = Inr ()" and "map_of (po_Models p) (provider @ '':'' @ model) = Some price"
    and "int64 (mp_InputMicrosPerToken price)" and "int64 (mp_OutputMicrosPerToken price)"
    and "ModelQuote p provider model n = Inr u"
  shows "u_ModelTurns u = 1 \<and> u_Tokens u = n + po_OutputTokens p \<and>
    u_CostMicros u = n * mp_InputMicrosPerToken price + po_OutputTokens p * mp_OutputMicrosPerToken price \<and>
    units_validate u = Inr () \<and> units64 u"
proof -
  let ?pi = "mp_InputMicrosPerToken price" and ?po = "mp_OutputMicrosPerToken price" and ?o = "po_OutputTokens p"
  have bounds: "0 < ?o" "?o \<le> 65536" "0 < po_ModelMillis p" "po_ModelMillis p \<le> 86400000"
    "0 < po_ModelInputBytes p" "po_ModelInputBytes p \<le> 8388608"
    using assms(1) by (auto simp: Policy_Validate_def split: if_splits sum.splits)
  have "price_validate price = Inr ()"
    using assms(1) map_of_SomeD [OF assms(2)] by (intro Policy_Validate_prices) (auto intro: rev_image_eqI)
  then have rate: "0 \<le> ?pi" "0 \<le> ?po" by (auto simp: price_validate_def split: if_splits)
  have n: "0 \<le> n" "n \<le> 100000000" using assms(2,5) by (auto simp: ModelQuote_def split: if_splits)
  have small: "wrap64 (n + 1) = n + 1" "wrap64 (?o + 1) = ?o + 1" "wrap64 (n + ?o) = n + ?o"
    using n bounds by (auto intro!: wrap64_id simp: int64_defs)
  have ok: "\<not> max_int64 div (n + 1) < ?pi" "\<not> max_int64 div (?o + 1) < ?po"
    "\<not> wrap64 (max_int64 - wrap64 (?o * ?po)) < wrap64 (n * ?pi)"
    and u: "u = zero_units\<lparr>u_ModelTurns := 1, u_Tokens := wrap64 (n + ?o),
      u_CostMicros := wrap64 (wrap64 (n * ?pi) + wrap64 (?o * ?po)), u_ActiveMillis := po_ModelMillis p,
      u_ProviderInputBytes := po_ModelInputBytes p\<rparr>"
    using assms(2,5) n bounds
    by (auto simp: ModelQuote_def small go_div_nonneg max_int64_def Let_def split: if_splits)
  have prod: "0 \<le> n * ?pi" "n * ?pi \<le> max_int64" "0 \<le> ?o * ?po" "?o * ?po \<le> max_int64"
    using product_bound [of n ?pi] product_bound [of ?o ?po] n bounds rate ok by (simp_all add: not_less)
  then have w: "wrap64 (n * ?pi) = n * ?pi" "wrap64 (?o * ?po) = ?o * ?po"
    by (auto intro!: wrap64_id simp: int64_defs)
  have "wrap64 (max_int64 - ?o * ?po) = max_int64 - ?o * ?po"
    using prod by (intro wrap64_nonneg_diff) simp_all
  then have le: "n * ?pi + ?o * ?po \<le> max_int64" using ok(3) unfolding w by simp
  then have cost: "wrap64 (n * ?pi + ?o * ?po) = n * ?pi + ?o * ?po"
    using prod by (intro wrap64_id) (simp add: int64_defs)
  show ?thesis
    using n bounds prod le unfolding u small w cost
    by (simp add: units_validate_def units64_def unit_values_def zero_units_def int64_defs)
qed

theorem model_quote_is_exact_witness:
  "ModelQuote (DefaultPolicy\<lparr>po_Models := [(''p:m'', \<lparr>mp_Basis = ''operator_rate'', mp_InputMicrosPerToken = 3,
      mp_OutputMicrosPerToken = 15\<rparr>)]\<rparr>) ''p'' ''m'' 1000 =
     Inr (zero_units\<lparr>u_ModelTurns := 1, u_Tokens := 9192, u_CostMicros := 125880, u_ActiveMillis := 120000,
       u_ProviderInputBytes := 8388608\<rparr>) \<and> (125880 :: int) = 1000 * 3 + 8192 * 15"
proof -
  let ?price = "\<lparr>mp_Basis = ''operator_rate'', mp_InputMicrosPerToken = 3, mp_OutputMicrosPerToken = 15\<rparr>"
  let ?p = "DefaultPolicy\<lparr>po_Models := [(''p:m'', ?price)]\<rparr>"
  have valid: "Policy_Validate ?p = Inr ()" by code_simp
  have quote: "ModelQuote ?p ''p'' ''m'' 1000 =
     Inr (zero_units\<lparr>u_ModelTurns := 1, u_Tokens := 9192, u_CostMicros := 125880, u_ActiveMillis := 120000,
       u_ProviderInputBytes := 8388608\<rparr>)" by code_simp
  show ?thesis
    using model_quote_is_exact [OF valid _ _ _ quote, of ?price] quote
    by (simp add: int64_defs DefaultPolicy_def Let_def)
qed

end
