(* ===== verification/Scheduling.thy ===== *)
theory Scheduling
  imports GoTime
begin

text \<open>
  The schedule clock (\<^verbatim>\<open>internal/scheduling/calendar.go\<close>). The database of time zones is a parameter:
  a location maps a second of UTC to the offset of local time in seconds, and \<open>tz\<close> is
  \<^verbatim>\<open>time.LoadLocation\<close>. A wall clock reading is the instant at which a clock on UTC shows it; the
  source's year, month and day are the day number of the reading.
\<close>

section \<open>Local time\<close>

type_synonym location = "int \<Rightarrow> int"

text \<open>\<^verbatim>\<open>t.In(loc)\<close>, and \<^verbatim>\<open>time.Date\<close> in a location: it subtracts the offset in force at the instant
  that the offset looked up for the reading itself leads to.\<close>

definition in_loc :: "location \<Rightarrow> instant \<Rightarrow> instant" where
  "in_loc loc t = t + loc (t div second) * second"

definition loc_Date :: "location \<Rightarrow> instant \<Rightarrow> instant" where
  "loc_Date loc w = w - loc ((w - loc (w div second) * second) div second) * second"

section \<open>Schedules\<close>

definition ErrInvalidSchedule :: go_err where
  "ErrInvalidSchedule = Sentinel ''invalid schedule''"

definition is_alnum :: "char \<Rightarrow> bool" where
  "is_alnum c \<longleftrightarrow> isDigit c \<or> 65 \<le> (of_char c :: nat) \<and> (of_char c :: nat) \<le> 90 \<or>
     97 \<le> (of_char c :: nat) \<and> (of_char c :: nat) \<le> 122"

fun schedule_identifier :: "string \<Rightarrow> bool" where
  "schedule_identifier [] = False"
| "schedule_identifier (c # s) \<longleftrightarrow> is_alnum c \<and> length s \<le> 199 \<and> list_all (\<lambda>c. is_alnum c \<or> c \<in> set ''_.:/-'') s"

record Schedule =
  sch_ID :: string
  sch_SourceID :: string
  sch_TimeZone :: string
  sch_Kind :: string
  sch_Hour :: int
  sch_Minute :: int
  sch_IntervalSeconds :: int
  sch_MissedPolicy :: string
  sch_GraceSeconds :: int
  sch_NextAt :: instant
  sch_Enabled :: bool
  sch_Revision :: int
  sch_At :: instant
  sch_Weekdays :: "int list"

definition Schedule_Validate :: "(string \<Rightarrow> location option) \<Rightarrow> Schedule \<Rightarrow> go_err + unit" where
  "Schedule_Validate tz s =
     (if \<not> schedule_identifier (sch_ID s) \<or> \<not> schedule_identifier (sch_SourceID s) then Inl ErrInvalidSchedule
      else if tz (sch_TimeZone s) = None \<or> sch_TimeZone s = [] \<or> sch_TimeZone s = ''Local'' then Inl ErrInvalidSchedule
      else if sch_MissedPolicy s \<noteq> ''skip'' \<and> sch_MissedPolicy s \<noteq> ''coalesce'' then Inl ErrInvalidSchedule
      else if sch_GraceSeconds s < 0 \<or> 3600 < sch_GraceSeconds s then Inl ErrInvalidSchedule
      else if sch_Kind s = ''once'' \<and>
        (sch_At s = 0 \<or> sch_IntervalSeconds s \<noteq> 0 \<or> sch_Hour s \<noteq> 0 \<or> sch_Minute s \<noteq> 0 \<or> sch_Weekdays s \<noteq> [])
      then Inl ErrInvalidSchedule
      else if sch_Kind s = ''daily'' \<and>
        (sch_Hour s < 0 \<or> 23 < sch_Hour s \<or> sch_Minute s < 0 \<or> 59 < sch_Minute s \<or> sch_IntervalSeconds s \<noteq> 0)
      then Inl ErrInvalidSchedule
      else if sch_Kind s = ''interval'' \<and>
        (sch_IntervalSeconds s < 60 \<or> 7 * 24 * 3600 < sch_IntervalSeconds s \<or> sch_Weekdays s \<noteq> [])
      then Inl ErrInvalidSchedule
      else if sch_Kind s \<notin> set [''once'', ''daily'', ''interval''] then Inl ErrInvalidSchedule
      else if sch_Kind s \<noteq> ''once'' \<and> sch_At s \<noteq> 0 then Inl ErrInvalidSchedule
      else if \<not> list_all (\<lambda>d. 0 \<le> d \<and> d \<le> 6) (sch_Weekdays s) \<or> \<not> distinct (sch_Weekdays s) then Inl ErrInvalidSchedule
      else Inr ())"

definition dayAllowed :: "Schedule \<Rightarrow> int \<Rightarrow> bool" where
  "dayAllowed s d \<longleftrightarrow> sch_Weekdays s = [] \<or> d \<in> set (sch_Weekdays s)"

text \<open>The comparison of the actual wall clock of a candidate with the wanted one.\<close>

definition wall_shows :: "location \<Rightarrow> instant \<Rightarrow> int \<Rightarrow> int \<Rightarrow> int \<Rightarrow> bool" where
  "wall_shows loc c d h mi \<longleftrightarrow>
     in_loc loc c div day = d \<and> in_loc loc c mod day div hour = h \<and> in_loc loc c mod hour div minute = mi"

definition LocalInstants :: "int \<Rightarrow> int \<Rightarrow> int \<Rightarrow> location \<Rightarrow> instant list" where
  "LocalInstants d h mi loc =
     (let nominal = d * day + h * hour + mi * minute;
          offsets = remdups (map (\<lambda>k. loc ((nominal + k * day) div second)) [-2, -1, 0, 1, 2])
      in sort (filter (\<lambda>c. wall_shows loc c d h mi) (map (\<lambda>off. nominal - off * second) offsets)))"

text \<open>The dates \<^verbatim>\<open>local.AddDate(0, 0, k)\<close> of the two loops over days.\<close>

definition date_at :: "location \<Rightarrow> instant \<Rightarrow> int \<Rightarrow> int" where
  "date_at loc t k = in_loc loc (loc_Date loc (in_loc loc t + k * day)) div day"

definition first_on :: "location \<Rightarrow> Schedule \<Rightarrow> int \<Rightarrow> instant option" where
  "first_on loc s d =
     (if \<not> dayAllowed s (weekday d) then None
      else case LocalInstants d (sch_Hour s) (sch_Minute s) loc of [] \<Rightarrow> None | c # cs \<Rightarrow> Some c)"

fun next_day :: "location \<Rightarrow> Schedule \<Rightarrow> instant \<Rightarrow> int list \<Rightarrow> instant" where
  "next_day loc s t [] = 0"
| "next_day loc s t (k # ks) =
     (case first_on loc s (date_at loc t k) of
        Some c \<Rightarrow> if t < c then c else next_day loc s t ks
      | None \<Rightarrow> next_day loc s t ks)"

text \<open>The location of a validated schedule always loads.\<close>

definition load :: "(string \<Rightarrow> location option) \<Rightarrow> Schedule \<Rightarrow> location" where
  "load tz s = (case tz (sch_TimeZone s) of None \<Rightarrow> (\<lambda>_. 0) | Some loc \<Rightarrow> loc)"

definition NextAfter :: "(string \<Rightarrow> location option) \<Rightarrow> Schedule \<Rightarrow> instant \<Rightarrow> instant" where
  "NextAfter tz s t =
     (if Schedule_Validate tz s \<noteq> Inr () \<or> t = 0 then 0
      else if sch_Kind s = ''interval'' then t + sch_IntervalSeconds s * second
      else if sch_Kind s = ''once'' then (if t < sch_At s then sch_At s else 0)
      else next_day (load tz s) s t [0 .. 14])"

record Tick =
  tk_SlotKey :: string
  tk_ScheduledAt :: instant
  tk_NextAt :: instant
  tk_MissedCount :: int
  tk_ShouldObserve :: bool

text \<open>The scan of \<^verbatim>\<open>Due\<close> back from today: the slot it coalesces to, and the count of missed days.\<close>

fun last_day :: "location \<Rightarrow> Schedule \<Rightarrow> instant \<Rightarrow> int list \<Rightarrow> (instant \<times> int) option" where
  "last_day loc s now [] = None"
| "last_day loc s now (k # ks) =
     (let d = date_at loc now (- k)
      in case first_on loc s d of
           Some c \<Rightarrow>
             if c \<le> now \<and> sch_NextAt s \<le> c
             then Some (c, go_div (time_Sub (d * day) (in_loc loc (sch_NextAt s) div day * day)) day)
             else last_day loc s now ks
         | None \<Rightarrow> last_day loc s now ks)"

definition latest_slot :: "(string \<Rightarrow> location option) \<Rightarrow> Schedule \<Rightarrow> instant \<Rightarrow> instant \<times> int" where
  "latest_slot tz s now =
     (if sch_Kind s = ''interval''
      then let interval = sch_IntervalSeconds s * second; missed = go_div (time_Sub now (sch_NextAt s)) interval
           in (sch_NextAt s + wrap64 (missed * interval), missed)
      else if sch_Kind s = ''daily''
      then (case last_day (load tz s) s now [0 .. 14] of None \<Rightarrow> (sch_NextAt s, 0) | Some r \<Rightarrow> r)
      else (sch_NextAt s, 0))"

definition Due :: "(string \<Rightarrow> location option) \<Rightarrow> Schedule \<Rightarrow> instant \<Rightarrow> Tick option" where
  "Due tz s now =
     (if Schedule_Validate tz s \<noteq> Inr () \<or> now = 0 \<or> \<not> sch_Enabled s \<or> sch_NextAt s = 0 \<or> now < sch_NextAt s
      then None
      else case latest_slot tz s now of (latest, missed) \<Rightarrow>
        Some \<lparr>tk_SlotKey = (if sch_Kind s = ''daily'' then format_date (in_loc (load tz s) latest)
                           else format_RFC3339_UTC latest),
              tk_ScheduledAt = latest,
              tk_NextAt = (if sch_Kind s = ''interval'' then latest + sch_IntervalSeconds s * second
                          else NextAfter tz s now),
              tk_MissedCount = missed,
              tk_ShouldObserve = (sch_MissedPolicy s = ''coalesce'' \<or>
                time_Sub now latest \<le> sch_GraceSeconds s * second)\<rparr>)"

section \<open>Slots show the scheduled time\<close>

text \<open>What makes an instant a slot of a daily schedule.\<close>

definition is_slot :: "location \<Rightarrow> Schedule \<Rightarrow> instant \<Rightarrow> bool" where
  "is_slot loc s c \<longleftrightarrow> (let d = in_loc loc c div day in dayAllowed s (weekday d) \<and> wall_shows loc c d (sch_Hour s) (sch_Minute s))"

lemma LocalInstants_sound: "c \<in> set (LocalInstants d h mi loc) \<Longrightarrow> wall_shows loc c d h mi"
  unfolding LocalInstants_def Let_def set_sort set_filter by blast

lemma sorted_LocalInstants: "sorted (LocalInstants d h mi loc)"
  unfolding LocalInstants_def Let_def by (rule sorted_sort)

lemma first_on_Some:
  "first_on loc s d = Some c \<longleftrightarrow>
     dayAllowed s (weekday d) \<and> (\<exists>cs. LocalInstants d (sch_Hour s) (sch_Minute s) loc = c # cs)"
  unfolding first_on_def by (simp split: list.split)

lemma first_on_slot:
  assumes "first_on loc s d = Some c"
  shows "is_slot loc s c \<and> in_loc loc c div day = d"
proof -
  obtain cs where "dayAllowed s (weekday d)" and cs: "LocalInstants d (sch_Hour s) (sch_Minute s) loc = c # cs"
    using assms unfolding first_on_Some by blast
  moreover have w: "wall_shows loc c d (sch_Hour s) (sch_Minute s)" by (rule LocalInstants_sound) (simp only: cs list.set_intros)
  moreover have "in_loc loc c div day = d" using w unfolding wall_shows_def by blast
  ultimately show ?thesis unfolding is_slot_def Let_def by simp
qed

lemma first_on_least:
  assumes "first_on loc s d = Some c" and "c' \<in> set (LocalInstants d (sch_Hour s) (sch_Minute s) loc)"
  shows "c \<le> c'"
  using assms sorted_LocalInstants [of d "sch_Hour s" "sch_Minute s" loc] unfolding first_on_Some by auto

lemma next_day_sound: "next_day loc s t ks = c \<Longrightarrow> c \<noteq> 0 \<Longrightarrow> t < c \<and> is_slot loc s c"
proof (induction ks)
  case Nil
  then show ?case by simp
next
  case (Cons k ks)
  show ?case
  proof (cases "\<exists>c'. first_on loc s (date_at loc t k) = Some c' \<and> t < c'")
    case True
    then obtain c' where "first_on loc s (date_at loc t k) = Some c'" "t < c'" by blast
    with Cons.prems(1) show ?thesis using first_on_slot [of loc s "date_at loc t k" c'] by simp
  next
    case False
    then have "next_day loc s t (k # ks) = next_day loc s t ks" by (auto split: option.split)
    with Cons show ?thesis by simp
  qed
qed

lemma last_day_sound:
  "last_day loc s now ks = Some (c, m) \<Longrightarrow> sch_NextAt s \<le> c \<and> c \<le> now \<and> is_slot loc s c"
proof (induction ks)
  case Nil
  then show ?case by simp
next
  case (Cons k ks)
  show ?case
  proof (cases "\<exists>c'. first_on loc s (date_at loc now (- k)) = Some c' \<and> c' \<le> now \<and> sch_NextAt s \<le> c'")
    case True
    then obtain c' where c': "first_on loc s (date_at loc now (- k)) = Some c'" "c' \<le> now" "sch_NextAt s \<le> c'" by blast
    then have "c' = c" using Cons.prems by (simp add: Let_def)
    with c' show ?thesis using first_on_slot [OF c'(1)] by simp
  next
    case False
    then have "last_day loc s now (k # ks) = last_day loc s now ks" by (auto simp: Let_def split: option.split)
    with Cons show ?thesis by simp
  qed
qed

lemma validated:
  assumes "Schedule_Validate tz s = Inr ()"
  shows "sch_Kind s = ''once'' \<or> sch_Kind s = ''daily'' \<or> sch_Kind s = ''interval''"
    and "tz (sch_TimeZone s) = Some (load tz s)"
    and "sch_Kind s = ''daily'' \<Longrightarrow> 0 \<le> sch_Hour s \<and> sch_Hour s \<le> 23 \<and> 0 \<le> sch_Minute s \<and> sch_Minute s \<le> 59"
    and "sch_Kind s = ''interval'' \<Longrightarrow> 60 \<le> sch_IntervalSeconds s \<and> sch_IntervalSeconds s \<le> 604800"
    and "d \<in> set (sch_Weekdays s) \<Longrightarrow> 0 \<le> d \<and> d \<le> 6"
proof -
  note v = assms [unfolded Schedule_Validate_def]
  show "sch_Kind s = ''once'' \<or> sch_Kind s = ''daily'' \<or> sch_Kind s = ''interval''"
    using v by (simp split: if_split_asm)
  show "tz (sch_TimeZone s) = Some (load tz s)" using v by (simp add: load_def split: if_split_asm option.split)
  show "0 \<le> sch_Hour s \<and> sch_Hour s \<le> 23 \<and> 0 \<le> sch_Minute s \<and> sch_Minute s \<le> 59" if "sch_Kind s = ''daily''"
    using v that by (simp split: if_split_asm)
  show "60 \<le> sch_IntervalSeconds s \<and> sch_IntervalSeconds s \<le> 604800" if "sch_Kind s = ''interval''"
    using v that by (simp split: if_split_asm)
  show "0 \<le> d \<and> d \<le> 6" if "d \<in> set (sch_Weekdays s)"
    using v that by (simp add: list_all_iff split: if_split_asm)
qed

section \<open>Zones with a fixed offset\<close>

lemma fixed_zone [simp]: "in_loc (\<lambda>_. off) t = t + off * second" "loc_Date (\<lambda>_. off) w = w - off * second"
  "date_at (\<lambda>_. off) t k = (t + off * second) div day + k"
  by (simp_all add: in_loc_def loc_Date_def date_at_def)

lemma time_of_day:
  fixes d h mi :: int
  assumes "0 \<le> h" and "h \<le> 23" and "0 \<le> mi" and "mi \<le> 59"
  defines "w \<equiv> d * day + h * hour + mi * minute"
  shows "w div day = d" "w mod day div hour = h" "w mod hour div minute = mi" "w mod minute = 0"
proof -
  have r: "0 \<le> h * hour + mi * minute" "h * hour + mi * minute < day" "0 \<le> mi * minute" "mi * minute < hour"
    using assms(1-4) by simp_all
  have day: "w = day * d + (h * hour + mi * minute)" by (simp add: w_def)
  show "w div day = d" using int_div_pos_eq [OF day r(1,2)] .
  have "w mod day = hour * h + mi * minute" using int_mod_pos_eq [OF day r(1,2)] by simp
  then show "w mod day div hour = h" using int_div_pos_eq [OF _ r(3,4)] by blast
  have "w = hour * (24 * d + h) + mi * minute" by (simp add: w_def)
  then have "w mod hour = minute * mi + 0" using int_mod_pos_eq [OF _ r(3,4)] by fastforce
  then show "w mod hour div minute = mi" using int_div_pos_eq [of "w mod hour" minute mi 0] by simp
  have "w = minute * (1440 * d + 60 * h + mi) + 0" by (simp add: w_def)
  then show "w mod minute = 0" using int_mod_pos_eq [of w minute _ 0] by simp
qed

lemma wall_reading:
  fixes w :: int
  assumes "w mod day div hour = h" and "w mod hour div minute = mi" and "w mod minute = 0"
  shows "w = w div day * day + h * hour + mi * minute"
proof -
  have "w mod day mod hour = w mod hour" "w mod hour mod minute = w mod minute"
    by (simp_all add: mod_mod_cancel)
  then have "w mod day = hour * h + w mod hour" "w mod hour = minute * mi"
    using mult_div_mod_eq [of hour "w mod day"] mult_div_mod_eq [of minute "w mod hour"] assms by simp_all
  then show ?thesis using mult_div_mod_eq [of day w] by simp
qed

definition slot_start :: "location \<Rightarrow> Schedule \<Rightarrow> instant \<Rightarrow> bool" where
  "slot_start loc s c \<longleftrightarrow> is_slot loc s c \<and> in_loc loc c mod minute = 0"

abbreviation nominal_slot :: "Schedule \<Rightarrow> int \<Rightarrow> instant" where
  "nominal_slot s d \<equiv> d * day + sch_Hour s * hour + sch_Minute s * minute"

definition clock_ok :: "Schedule \<Rightarrow> bool" where
  "clock_ok s \<longleftrightarrow> 0 \<le> sch_Hour s \<and> sch_Hour s \<le> 23 \<and> 0 \<le> sch_Minute s \<and> sch_Minute s \<le> 59"

lemma wall_shows_fixed:
  assumes "clock_ok s"
  shows "wall_shows (\<lambda>_. off) (nominal_slot s d - off * second) d (sch_Hour s) (sch_Minute s)"
  unfolding wall_shows_def fixed_zone diff_add_cancel
  using assms time_of_day [of "sch_Hour s" "sch_Minute s" d] unfolding clock_ok_def by blast

lemma LocalInstants_fixed:
  assumes "clock_ok s"
  shows "LocalInstants d (sch_Hour s) (sch_Minute s) (\<lambda>_. off) = [nominal_slot s d - off * second]"
  unfolding LocalInstants_def Let_def using wall_shows_fixed [OF assms, of off d] by (simp add: algebra_simps)

lemma first_on_fixed:
  assumes "clock_ok s"
  shows "first_on (\<lambda>_. off) s d = (if dayAllowed s (weekday d) then Some (nominal_slot s d - off * second) else None)"
  unfolding first_on_def LocalInstants_fixed [OF assms] by simp

lemma slot_start_fixed:
  assumes "clock_ok s"
  shows "slot_start (\<lambda>_. off) s c \<longleftrightarrow> (\<exists>d. dayAllowed s (weekday d) \<and> c = nominal_slot s d - off * second)"
proof
  assume "slot_start (\<lambda>_. off) s c"
  then have ok: "dayAllowed s (weekday ((c + off * second) div day))" and
    w: "(c + off * second) mod day div hour = sch_Hour s" "(c + off * second) mod hour div minute = sch_Minute s"
       "(c + off * second) mod minute = 0"
    unfolding slot_start_def is_slot_def wall_shows_def Let_def fixed_zone by blast+
  have "c = nominal_slot s ((c + off * second) div day) - off * second"
    using wall_reading [OF w] by (simp only: eq_diff_eq)
  with ok show "\<exists>d. dayAllowed s (weekday d) \<and> c = nominal_slot s d - off * second" by blast
next
  assume "\<exists>d. dayAllowed s (weekday d) \<and> c = nominal_slot s d - off * second"
  then obtain d where d: "dayAllowed s (weekday d)" "c = nominal_slot s d - off * second" by blast
  have "wall_shows (\<lambda>_. off) c d (sch_Hour s) (sch_Minute s)" unfolding d(2) by (rule wall_shows_fixed [OF assms])
  moreover have "(c + off * second) div day = d" "(c + off * second) mod minute = 0"
    unfolding d(2) diff_add_cancel using assms time_of_day [of "sch_Hour s" "sch_Minute s" d] unfolding clock_ok_def by blast+
  ultimately show "slot_start (\<lambda>_. off) s c"
    unfolding slot_start_def is_slot_def Let_def fixed_zone using d(1) by simp
qed

text \<open>The scan over days returns the first candidate after the reference, and returns one if there is one.\<close>

lemma next_day_found:
  assumes "k \<in> set ks" and "first_on loc s (date_at loc t k) = Some c" and "t < c"
  shows "\<exists>j \<in> set ks. first_on loc s (date_at loc t j) = Some (next_day loc s t ks) \<and> t < next_day loc s t ks"
  using assms(1)
proof (induction ks)
  case Nil
  then show ?case by simp
next
  case (Cons j ks)
  show ?case
  proof (cases "\<exists>c'. first_on loc s (date_at loc t j) = Some c' \<and> t < c'")
    case True
    then show ?thesis by auto
  next
    case False
    then have "next_day loc s t (j # ks) = next_day loc s t ks" by (auto split: option.split)
    moreover have "k \<noteq> j" using False assms(2,3) by blast
    ultimately show ?thesis using Cons by auto
  qed
qed

lemma next_day_least:
  assumes "k \<in> set ks" and "first_on loc s (date_at loc t k) = Some c" and "t < c" and "sorted ks"
    and mono: "\<And>i j a b. i \<le> j \<Longrightarrow> first_on loc s (date_at loc t i) = Some a \<Longrightarrow> first_on loc s (date_at loc t j) = Some b \<Longrightarrow> a \<le> b"
  shows "next_day loc s t ks \<le> c"
  using assms(1,4)
proof (induction ks)
  case Nil
  then show ?case by simp
next
  case (Cons j ks)
  show ?case
  proof (cases "\<exists>c'. first_on loc s (date_at loc t j) = Some c' \<and> t < c'")
    case True
    then obtain c' where c': "first_on loc s (date_at loc t j) = Some c'" "t < c'" by blast
    have "j \<le> k" using Cons.prems by auto
    then have "c' \<le> c" using mono c'(1) assms(2) by blast
    then show ?thesis using c' by simp
  next
    case False
    then have "next_day loc s t (j # ks) = next_day loc s t ks" by (auto split: option.split)
    moreover have "k \<noteq> j" using False assms(2,3) by blast
    ultimately show ?thesis using Cons by simp
  qed
qed

lemma allowed_day_in_week:
  assumes "\<And>d. d \<in> set (sch_Weekdays s) \<Longrightarrow> 0 \<le> d \<and> d \<le> 6"
  shows "\<exists>k. 1 \<le> k \<and> k \<le> 7 \<and> dayAllowed s (weekday (n + k))"
proof (cases "sch_Weekdays s")
  case Nil
  then show ?thesis by (auto simp: dayAllowed_def intro: exI [of _ 1])
next
  case (Cons d ds)
  define k where "k = (d - (n + 2)) mod 7 + 1"
  have "weekday (n + k) = d mod 7" unfolding weekday_def k_def
    using mod_add_right_eq [of "n + 2" "d - (n + 2)" 7] by (simp add: algebra_simps)
  then have "weekday (n + k) = d" using assms [of d] Cons by simp
  moreover have "1 \<le> k" "k \<le> 7" using pos_mod_sign [of 7 "d - (n + 2)"] pos_mod_bound [of 7 "d - (n + 2)"] by (simp_all add: k_def)
  ultimately show ?thesis using Cons by (auto simp: dayAllowed_def)
qed

lemma nominal_slot_mono: "d \<le> d' \<Longrightarrow> nominal_slot s d - off * second \<le> nominal_slot s d' - off * second"
  by simp

lemma nominal_slot_later:
  assumes "clock_ok s" and "(t + off * second) div day < d"
  shows "t < nominal_slot s d - off * second"
proof -
  define w where "w = t + off * second"
  have "w = day * (w div day) + w mod day" by (simp only: mult_div_mod_eq)
  moreover have "w mod day < day" by (rule pos_mod_bound) simp
  moreover have "w div day + 1 \<le> d" using assms(2) by (simp add: w_def)
  ultimately have "w < d * day" by linarith
  then have "w < nominal_slot s d" using assms(1) unfolding clock_ok_def by linarith
  then show ?thesis by (simp add: w_def)
qed

lemma next_day_earliest:
  fixes off t :: int
  assumes ok: "clock_ok s" and week: "\<And>d. d \<in> set (sch_Weekdays s) \<Longrightarrow> 0 \<le> d \<and> d \<le> 6"
  defines "next \<equiv> next_day (\<lambda>_. off) s t [0 .. 14]"
  shows "slot_start (\<lambda>_. off) s next \<and> t < next \<and> (\<forall>c. slot_start (\<lambda>_. off) s c \<and> t < c \<longrightarrow> next \<le> c)"
proof -
  let ?loc = "\<lambda>_ :: int. off" and ?D = "(t + off * second) div day"
  have fo: "first_on ?loc s (date_at ?loc t k) = Some (nominal_slot s (?D + k) - off * second)"
    if "dayAllowed s (weekday (?D + k))" for k
    using that by (simp only: fixed_zone first_on_fixed [OF ok] if_True)
  have mono: "a \<le> b" if "i \<le> j" "first_on ?loc s (date_at ?loc t i) = Some a" "first_on ?loc s (date_at ?loc t j) = Some b" for i j a b
    using that nominal_slot_mono [of "?D + i" "?D + j" s off]
    unfolding fixed_zone first_on_fixed [OF ok] by (simp split: if_split_asm)
  have least: "next \<le> nominal_slot s (?D + k) - off * second"
    if "dayAllowed s (weekday (?D + k))" "0 \<le> k" "k \<le> 14" "t < nominal_slot s (?D + k) - off * second" for k
    unfolding next_def using _ fo [OF that(1)] that(4) _ mono by (rule next_day_least) (use that in simp_all)
  obtain k where k: "1 \<le> k" "k \<le> 7" "dayAllowed s (weekday (?D + k))" using allowed_day_in_week [OF week] by blast
  have after: "t < nominal_slot s (?D + k) - off * second" by (rule nominal_slot_later [OF ok]) (use k in simp)
  have "k \<in> set [0 .. 14]" using k by simp
  then obtain j where j: "first_on ?loc s (date_at ?loc t j) = Some next" "t < next"
    using next_day_found [OF _ fo [OF k(3)] after] unfolding next_def by blast
  have "dayAllowed s (weekday (?D + j)) \<and> next = nominal_slot s (?D + j) - off * second"
    using j(1) unfolding fixed_zone first_on_fixed [OF ok] by (simp split: if_split_asm)
  then have start: "slot_start ?loc s next" unfolding slot_start_fixed [OF ok] by blast
  have "next \<le> c" if c: "slot_start ?loc s c" "t < c" for c
  proof -
    obtain d where d: "dayAllowed s (weekday d)" "c = nominal_slot s d - off * second"
      using c(1) unfolding slot_start_fixed [OF ok] by blast
    have cd: "(c + off * second) div day = d" unfolding d(2) diff_add_cancel
      using ok time_of_day(1) [of "sch_Hour s" "sch_Minute s" d] unfolding clock_ok_def by blast
    have "?D \<le> (c + off * second) div day" using c(2) by (intro zdiv_mono1) simp_all
    then have ge: "?D \<le> d" unfolding cd .
    show ?thesis
    proof (cases "d - ?D \<le> 14")
      case True
      have "?D + (d - ?D) = d" by simp
      then show ?thesis using least [of "d - ?D"] d c(2) ge True by simp
    next
      case False
      have "next \<le> nominal_slot s (?D + k) - off * second" using least [OF k(3) _ _ after] k by simp
      also have "\<dots> \<le> c" unfolding d(2) by (rule nominal_slot_mono) (use False k in simp)
      finally show ?thesis .
    qed
  qed
  with start j(2) show ?thesis by blast
qed

section \<open>The slot a tick reports\<close>

lemma NextAfter_later: "NextAfter tz s t \<noteq> 0 \<Longrightarrow> t < NextAfter tz s t"
proof -
  assume nz: "NextAfter tz s t \<noteq> 0"
  then have v: "Schedule_Validate tz s = Inr ()" unfolding NextAfter_def by (simp split: if_split_asm)
  show ?thesis
  proof (cases "sch_Kind s = ''interval''")
    case True
    with nz validated(4) [OF v] show ?thesis unfolding NextAfter_def by (simp split: if_split_asm)
  next
    case False
    with nz next_day_sound [of "load tz s" s t "[0 .. 14]"] show ?thesis
      unfolding NextAfter_def by (simp split: if_split_asm)
  qed
qed

lemma interval_slot:
  fixes now start len :: int
  assumes "start \<le> now" and "int64 (now - start)" and "0 < len" and "missed = go_div (time_Sub now start) len"
  shows "0 \<le> missed" and "wrap64 (missed * len) = missed * len" and "start + missed * len \<le> now" and "now < start + missed * len + len"
proof -
  define g where "g = now - start"
  have g: "0 \<le> g" "int64 g" using assms(1,2) by (simp_all add: g_def)
  have m: "missed = g div len" using assms(2-4) g by (simp add: time_Sub_exact go_div_nonneg g_def)
  then show "0 \<le> missed" using g assms(3) by (simp add: pos_imp_zdiv_nonneg_iff)
  have "len * missed + g mod len = g" unfolding m by (rule mult_div_mod_eq)
  moreover have "0 \<le> g mod len" "g mod len < len" using assms(3) by simp_all
  ultimately have "missed * len \<le> g" "g < missed * len + len" by (simp_all add: mult.commute)
  then show "start + missed * len \<le> now" "now < start + missed * len + len" by (simp_all add: g_def)
  have "0 \<le> missed * len" using \<open>0 \<le> missed\<close> assms(3) by simp
  with g(2) \<open>missed * len \<le> g\<close> show "wrap64 (missed * len) = missed * len"
    by (intro wrap64_id) (simp add: int64_defs)
qed

lemma latest_slot_range:
  assumes v: "Schedule_Validate tz s = Inr ()" and due: "sch_NextAt s \<le> now" and "int64 (now - sch_NextAt s)"
    and ls: "latest_slot tz s now = (latest, missed)"
  shows "sch_NextAt s \<le> latest \<and> latest \<le> now \<and> (sch_Kind s = ''interval'' \<longrightarrow> 0 \<le> missed \<and>
    latest = sch_NextAt s + missed * (sch_IntervalSeconds s * second) \<and> now < latest + sch_IntervalSeconds s * second)"
proof (cases "sch_Kind s = ''interval''")
  case True
  have m: "missed = go_div (time_Sub now (sch_NextAt s)) (sch_IntervalSeconds s * second)"
    and l: "latest = sch_NextAt s + wrap64 (missed * (sch_IntervalSeconds s * second))"
    using ls True by (auto simp: latest_slot_def Let_def)
  have len: "0 < sch_IntervalSeconds s * second" using validated(4) [OF v True] by simp
  note slot = interval_slot [OF due assms(3) len m]
  have "0 \<le> missed * (sch_IntervalSeconds s * second)" using slot(1) len by simp
  with slot l show ?thesis by simp
next
  case False
  then show ?thesis
  proof (cases "sch_Kind s = ''daily'' \<and> last_day (load tz s) s now [0 .. 14] \<noteq> None")
    case True
    then have "last_day (load tz s) s now [0 .. 14] = Some (latest, missed)"
      using ls False by (auto simp: latest_slot_def)
    with last_day_sound [OF this] False show ?thesis by blast
  next
    case other: False
    then have "latest = sch_NextAt s" using ls False by (auto simp: latest_slot_def split: if_split_asm option.split_asm)
    with due False show ?thesis by simp
  qed
qed

text \<open>The scan back over days returns the nearest candidate that is due, and returns one if there is one.\<close>

lemma last_day_found:
  assumes "k \<in> set ks" and "first_on loc s (date_at loc now (- k)) = Some c" and "c \<le> now" and "sch_NextAt s \<le> c" and "sorted ks"
  shows "\<exists>j c'. j \<le> k \<and> first_on loc s (date_at loc now (- j)) = Some c' \<and> c' \<le> now \<and> sch_NextAt s \<le> c' \<and>
    last_day loc s now ks = Some (c', go_div (time_Sub (date_at loc now (- j) * day) (in_loc loc (sch_NextAt s) div day * day)) day)"
  using assms(1,5)
proof (induction ks)
  case Nil
  then show ?case by simp
next
  case (Cons i ks)
  show ?case
  proof (cases "\<exists>c'. first_on loc s (date_at loc now (- i)) = Some c' \<and> c' \<le> now \<and> sch_NextAt s \<le> c'")
    case True
    then obtain c' where c': "first_on loc s (date_at loc now (- i)) = Some c'" "c' \<le> now" "sch_NextAt s \<le> c'" by blast
    moreover have "i \<le> k" using Cons.prems by auto
    ultimately show ?thesis by (intro exI [of _ i] exI [of _ c']) (simp add: Let_def)
  next
    case False
    then have "last_day loc s now (i # ks) = last_day loc s now ks" by (auto simp: Let_def split: option.split)
    moreover have "k \<noteq> i" using False assms(2-4) by blast
    ultimately show ?thesis using Cons by auto
  qed
qed

lemma nominal_slot_earlier:
  assumes "clock_ok s" and "d < (t + off * second) div day"
  shows "nominal_slot s d - off * second \<le> t"
proof -
  define w where "w = t + off * second"
  have "d + 1 \<le> w div day" using assms(2) by (simp add: w_def)
  then have "(d + 1) * day \<le> w div day * day" by simp
  also have "\<dots> \<le> w" using div_mult_mod_eq [of w day] pos_mod_sign [of day w] by linarith
  finally have "d * day + day \<le> w" by (simp add: algebra_simps)
  then have "nominal_slot s d \<le> w" using assms(1) unfolding clock_ok_def by linarith
  then show ?thesis by (simp add: w_def)
qed

lemma nominal_slot_date: "clock_ok s \<Longrightarrow> (nominal_slot s d - off * second + off * second) div day = d"
  unfolding diff_add_cancel using time_of_day(1) [of "sch_Hour s" "sch_Minute s" d] unfolding clock_ok_def by blast

text \<open>A day of the week before is always allowed, and its slot has begun.\<close>

lemma slot_in_last_week:
  assumes "clock_ok s" and "\<And>d. d \<in> set (sch_Weekdays s) \<Longrightarrow> 0 \<le> d \<and> d \<le> 6"
  obtains k where "1 \<le> k" "k \<le> 7" "dayAllowed s (weekday ((t + off * second) div day - k))"
    "nominal_slot s ((t + off * second) div day - k) - off * second \<le> t"
proof -
  let ?D = "(t + off * second) div day"
  obtain j where j: "1 \<le> j" "j \<le> 7" "dayAllowed s (weekday (?D - 8 + j))" using allowed_day_in_week [OF assms(2)] by blast
  have eq: "?D - 8 + j = ?D - (8 - j)" by simp
  show thesis
  proof (rule that [of "8 - j"])
    show "dayAllowed s (weekday (?D - (8 - j)))" using j(3) unfolding eq .
    show "nominal_slot s (?D - (8 - j)) - off * second \<le> t" by (rule nominal_slot_earlier [OF assms(1)]) (use j in simp)
  qed (use j in simp_all)
qed

text \<open>In a zone of constant offset the scan finds a slot that no later one precedes, and counts the days since the slot that was due.\<close>

lemma last_day_latest:
  fixes off now :: int
  assumes ok: "clock_ok s" and week: "\<And>d. d \<in> set (sch_Weekdays s) \<Longrightarrow> 0 \<le> d \<and> d \<le> 6"
    and start: "slot_start (\<lambda>_. off) s (sch_NextAt s)" and due: "sch_NextAt s \<le> now" and range: "int64 (now - sch_NextAt s)"
  obtains c where "last_day (\<lambda>_. off) s now [0 .. 14] = Some (c, (c - sch_NextAt s) div day)" and "slot_start (\<lambda>_. off) s c" and "c \<le> now"
    and "\<forall>b. slot_start (\<lambda>_. off) s b \<and> b \<le> now \<longrightarrow> b \<le> c"
proof -
  let ?loc = "\<lambda>_ :: int. off" and ?D = "(now + off * second) div day"
  let ?slot = "\<lambda>d. nominal_slot s d - off * second"
  have fo: "first_on ?loc s (date_at ?loc now (- k)) = Some (?slot (?D - k))" if "dayAllowed s (weekday (?D - k))" for k
    using that first_on_fixed [OF ok, of off "?D - k"] by (simp add: fixed_zone)
  have date: "d \<le> ?D" if "?slot d \<le> now" for d
    using zdiv_mono1 [of "?slot d + off * second" "now + off * second" day] that nominal_slot_date [OF ok, of d off] by simp
  obtain d0 where d0: "dayAllowed s (weekday d0)" "sch_NextAt s = ?slot d0" using start unfolding slot_start_fixed [OF ok] by blast
  have d0_date: "in_loc ?loc (sch_NextAt s) div day = d0" using nominal_slot_date [OF ok, of d0 off] d0(2) by simp
  obtain w where w: "1 \<le> w" "w \<le> 7" "dayAllowed s (weekday (?D - w))" "?slot (?D - w) \<le> now"
    using slot_in_last_week [OF ok week] .
  have found: "\<exists>j c. j \<le> k \<and> dayAllowed s (weekday (?D - j)) \<and> c = ?slot (?D - j) \<and> c \<le> now \<and> sch_NextAt s \<le> c \<and>
      last_day ?loc s now [0 .. 14] = Some (c, go_div (time_Sub ((?D - j) * day) (d0 * day)) day)"
    if k: "0 \<le> k" "k \<le> 14" "dayAllowed s (weekday (?D - k))" "?slot (?D - k) \<le> now" "sch_NextAt s \<le> ?slot (?D - k)" for k
  proof -
    have "k \<in> set [0 .. 14]" "sorted [0 .. 14 :: int]" using k(1,2) by simp_all
    then obtain j c where j: "j \<le> k" "first_on ?loc s (date_at ?loc now (- j)) = Some c" "c \<le> now" "sch_NextAt s \<le> c"
      "last_day ?loc s now [0 .. 14] = Some (c, go_div (time_Sub (date_at ?loc now (- j) * day) (in_loc ?loc (sch_NextAt s) div day * day)) day)"
      using last_day_found [OF _ fo [OF k(3)] k(4,5)] by blast
    moreover have "date_at ?loc now (- j) = ?D - j" by simp
    ultimately show ?thesis using first_on_fixed [OF ok, of off "?D - j"] d0_date by (auto split: if_split_asm)
  qed
  have recent: "0 \<le> ?D - d" if "?slot d \<le> now" for d using date [OF that] by simp
  have again: "?D - (?D - d) = d" for d by simp
  have "\<exists>k. 0 \<le> k \<and> k \<le> 14 \<and> dayAllowed s (weekday (?D - k)) \<and> ?slot (?D - k) \<le> now \<and> sch_NextAt s \<le> ?slot (?D - k)"
  proof (cases "?D - d0 \<le> 14")
    case True
    then show ?thesis using d0 due recent [of d0] by (intro exI [of _ "?D - d0"]) (simp only: again, simp)
  next
    case False
    then show ?thesis using w d0(2) by (intro exI [of _ w]) simp
  qed
  then obtain j c where c: "dayAllowed s (weekday (?D - j))" "c = ?slot (?D - j)" "c \<le> now" "sch_NextAt s \<le> c"
    and found': "last_day ?loc s now [0 .. 14] = Some (c, go_div (time_Sub ((?D - j) * day) (d0 * day)) day)"
    using found by blast
  have diff: "(?D - j) * day - d0 * day = c - sch_NextAt s" unfolding c(2) d0(2) by simp
  have "int64 (c - sch_NextAt s)" using range c(3,4) by (simp add: int64_defs)
  then have "go_div (time_Sub ((?D - j) * day) (d0 * day)) day = (c - sch_NextAt s) div day"
    using c(4) diff by (simp add: time_Sub_exact go_div_nonneg)
  moreover have "slot_start ?loc s c" unfolding slot_start_fixed [OF ok] using c(1,2) by blast
  moreover have "b \<le> c" if b: "slot_start ?loc s b" "b \<le> now" for b
  proof -
    obtain d where d: "dayAllowed s (weekday d)" "b = ?slot d" using b(1) unfolding slot_start_fixed [OF ok] by blast
    have le: "?slot (?D - k) \<le> c" if "0 \<le> k" "k \<le> 14" "dayAllowed s (weekday (?D - k))" "?slot (?D - k) \<le> now" "sch_NextAt s \<le> ?slot (?D - k)" for k
      using found [OF that] found' nominal_slot_mono [of "?D - k" _ s off] by fastforce
    consider "b \<le> sch_NextAt s" | "sch_NextAt s \<le> b" "?D - d \<le> 14" | "sch_NextAt s \<le> b" "14 < ?D - d" by linarith
    then show ?thesis
    proof cases
      case 2
      then show ?thesis using le [of "?D - d"] d b(2) recent [of d] by (simp only: again)
    next
      case 3
      then have "sch_NextAt s \<le> ?slot (?D - w)" and "b \<le> ?slot (?D - w)" using d(2) w(2) by simp_all
      then show ?thesis using le [of w] w by simp
    qed (use c(4) in simp)
  qed
  ultimately show thesis using that found' c(3) by metis
qed

section \<open>A sample schedule\<close>

definition demo_schedule :: Schedule where
  "demo_schedule = \<lparr>sch_ID = ''q'', sch_SourceID = ''s'', sch_TimeZone = ''Asia/Tomsk'', sch_Kind = ''daily'', sch_Hour = 9,
     sch_Minute = 0, sch_IntervalSeconds = 0, sch_MissedPolicy = ''coalesce'', sch_GraceSeconds = 0,
     sch_NextAt = utc_Date 2026 10 16 2 0 0 0, sch_Enabled = True, sch_Revision = 1, sch_At = 0, sch_Weekdays = [1, 2, 3, 4, 5]\<rparr>"

definition demo_zones :: "string \<Rightarrow> location option" where
  "demo_zones z = (if z = ''Asia/Tomsk'' then Some (\<lambda>_. 25200) else None)"

lemma demo_next: "NextAfter demo_zones demo_schedule (utc_Date 2026 10 16 3 0 0 0) = utc_Date 2026 10 19 2 0 0 0"
  by code_simp

lemma demo_valid_schedule: "Schedule_Validate demo_zones demo_schedule = Inr ()"
  by code_simp

section \<open>Properties\<close>

text \<open>Whatever the rules of the zone, the next slot after a time lies strictly after it, and a daily
  schedule's slot shows the scheduled hour and minute on an allowed weekday on the local wall clock.\<close>

theorem next_slot_shows_scheduled_time:
  assumes "NextAfter tz s t \<noteq> 0"
  shows "t < NextAfter tz s t \<and>
    (sch_Kind s = ''once'' \<and> NextAfter tz s t = sch_At s \<or>
     sch_Kind s = ''interval'' \<and> NextAfter tz s t = t + sch_IntervalSeconds s * second \<or>
     sch_Kind s = ''daily'' \<and> is_slot (load tz s) s (NextAfter tz s t))"
proof -
  have v: "Schedule_Validate tz s = Inr ()" and "t \<noteq> 0"
    using assms unfolding NextAfter_def by (simp_all split: if_split_asm)
  then have def: "NextAfter tz s t =
     (if sch_Kind s = ''interval'' then t + sch_IntervalSeconds s * second
      else if sch_Kind s = ''once'' then (if t < sch_At s then sch_At s else 0)
      else next_day (load tz s) s t [0 .. 14])" by (simp add: NextAfter_def)
  from validated(1) [OF v] consider "sch_Kind s = ''once''" | "sch_Kind s = ''daily''" | "sch_Kind s = ''interval''" by blast
  then show ?thesis
  proof cases
    case 1
    with assms show ?thesis unfolding def by (simp split: if_split_asm)
  next
    case 2
    with assms show ?thesis using next_day_sound [of "load tz s" s t "[0 .. 14]"] unfolding def by simp
  next
    case 3
    with validated(4) [OF v] show ?thesis unfolding def by simp
  qed
qed

theorem next_slot_shows_scheduled_time_witness:
  "is_slot (load demo_zones demo_schedule) demo_schedule (utc_Date 2026 10 19 2 0 0 0)"
proof -
  have "utc_Date 2026 10 19 2 0 0 0 \<noteq> 0" by code_simp
  then show ?thesis
    using next_slot_shows_scheduled_time [of demo_zones demo_schedule "utc_Date 2026 10 16 3 0 0 0"]
    unfolding demo_next by (simp add: demo_schedule_def)
qed

text \<open>C38. In a zone of constant offset a valid daily schedule always has a next slot, and it is the
  earliest one: the scheduled minute of an allowed weekday begins at no instant between the reference
  and the slot returned. The fifteen days the source looks at are enough.\<close>

theorem next_slot_is_earliest:
  assumes "Schedule_Validate tz s = Inr ()" and "sch_Kind s = ''daily''"
    and "tz (sch_TimeZone s) = Some (\<lambda>_. off)" and "0 < t"
  shows "slot_start (\<lambda>_. off) s (NextAfter tz s t) \<and> t < NextAfter tz s t \<and>
    (\<forall>c. slot_start (\<lambda>_. off) s c \<and> t < c \<longrightarrow> NextAfter tz s t \<le> c)"
proof -
  have "load tz s = (\<lambda>_. off)" using assms(3) by (simp add: load_def)
  then have "NextAfter tz s t = next_day (\<lambda>_. off) s t [0 .. 14]" using assms by (simp add: NextAfter_def)
  moreover have "clock_ok s" using validated(3) [OF assms(1,2)] by (simp add: clock_ok_def)
  ultimately show ?thesis using next_day_earliest [of s off t] validated(5) [OF assms(1)] by simp
qed

theorem next_slot_is_earliest_witness:
  "slot_start (\<lambda>_. 25200) demo_schedule (utc_Date 2026 10 19 2 0 0 0)"
proof -
  have "0 < utc_Date 2026 10 16 3 0 0 0" by code_simp
  then show ?thesis
    using next_slot_is_earliest [OF demo_valid_schedule, where off = 25200 and t = "utc_Date 2026 10 16 3 0 0 0"]
    unfolding demo_next by (simp add: demo_schedule_def demo_zones_def)
qed

text \<open>A due schedule coalesces its downtime into one tick: the slot reported lies between the slot
  that was due and now, the next slot lies strictly after now (or there is none), an interval schedule
  keeps its phase and counts exactly the slots it skips, and a schedule whose policy is to skip
  observes only within its grace period.\<close>

theorem due_tick_coalesces:
  assumes "Due tz s now = Some tick" and "int64 (now - sch_NextAt s)"
  shows "sch_NextAt s \<le> tk_ScheduledAt tick \<and> tk_ScheduledAt tick \<le> now \<and>
    (tk_NextAt tick = 0 \<or> now < tk_NextAt tick) \<and>
    (sch_Kind s \<noteq> ''interval'' \<or>
     0 \<le> tk_MissedCount tick \<and> tk_NextAt tick = tk_ScheduledAt tick + sch_IntervalSeconds s * second \<and>
     tk_ScheduledAt tick = sch_NextAt s + tk_MissedCount tick * (sch_IntervalSeconds s * second)) \<and>
    (tk_ShouldObserve tick \<longleftrightarrow>
     sch_MissedPolicy s = ''coalesce'' \<or> now - tk_ScheduledAt tick \<le> sch_GraceSeconds s * second)"
proof -
  have v: "Schedule_Validate tz s = Inr ()" and due: "sch_NextAt s \<le> now" and "now \<noteq> 0"
    using assms(1) unfolding Due_def by (simp_all split: if_split_asm)
  obtain latest missed where ls: "latest_slot tz s now = (latest, missed)" by fastforce
  have tick: "tk_ScheduledAt tick = latest" "tk_MissedCount tick = missed"
    "tk_NextAt tick = (if sch_Kind s = ''interval'' then latest + sch_IntervalSeconds s * second else NextAfter tz s now)"
    "tk_ShouldObserve tick \<longleftrightarrow> sch_MissedPolicy s = ''coalesce'' \<or> time_Sub now latest \<le> sch_GraceSeconds s * second"
    using assms(1) unfolding Due_def ls by (auto split: if_split_asm)
  have range: "sch_NextAt s \<le> latest \<and> latest \<le> now \<and> (sch_Kind s = ''interval'' \<longrightarrow> 0 \<le> missed \<and>
      latest = sch_NextAt s + missed * (sch_IntervalSeconds s * second) \<and> now < latest + sch_IntervalSeconds s * second)"
    using latest_slot_range [OF v due assms(2) ls] .
  have "time_Sub now latest = now - latest"
    using range assms(2) by (intro time_Sub_exact) (simp add: int64_defs)
  moreover have "NextAfter tz s now = 0 \<or> now < NextAfter tz s now" using NextAfter_later [of tz s now] by blast
  ultimately show ?thesis unfolding tick using range by auto
qed

theorem due_tick_coalesces_witness:
  "\<exists>tick. Due demo_zones demo_schedule (utc_Date 2026 10 18 8 0 0 0) = Some tick \<and>
     tk_ScheduledAt tick \<le> utc_Date 2026 10 18 8 0 0 0 \<and> tk_SlotKey tick = ''2026-10-16''"
proof -
  have due: "Due demo_zones demo_schedule (utc_Date 2026 10 18 8 0 0 0) =
    Some \<lparr>tk_SlotKey = ''2026-10-16'', tk_ScheduledAt = utc_Date 2026 10 16 2 0 0 0,
      tk_NextAt = utc_Date 2026 10 19 2 0 0 0, tk_MissedCount = 0, tk_ShouldObserve = True\<rparr>" by code_simp
  have "int64 (utc_Date 2026 10 18 8 0 0 0 - sch_NextAt demo_schedule)" by code_simp
  from due_tick_coalesces [OF due this] due show ?thesis by simp
qed

text \<open>In a zone of constant offset a due daily schedule reports the latest slot: its tick is scheduled at the
  last beginning of a slot that is not after now, its next slot is the first one after now, and its missed count is
  the number of days from the slot that was due to the one reported.\<close>

theorem daily_due_reports_latest_slot:
  assumes "Due tz s now = Some tick" and "sch_Kind s = ''daily''" and "tz (sch_TimeZone s) = Some (\<lambda>_. off)"
    and "slot_start (\<lambda>_. off) s (sch_NextAt s)" and "int64 (now - sch_NextAt s)"
  shows "slot_start (\<lambda>_. off) s (tk_ScheduledAt tick) \<and> tk_ScheduledAt tick \<le> now \<and>
    slot_start (\<lambda>_. off) s (tk_NextAt tick) \<and> now < tk_NextAt tick \<and>
    (\<forall>c. slot_start (\<lambda>_. off) s c \<longrightarrow> c \<le> tk_ScheduledAt tick \<or> tk_NextAt tick \<le> c) \<and>
    tk_MissedCount tick = (tk_ScheduledAt tick - sch_NextAt s) div day"
proof -
  have v: "Schedule_Validate tz s = Inr ()" and due: "sch_NextAt s \<le> now" and "now \<noteq> 0"
    using assms(1) unfolding Due_def by (simp_all split: if_split_asm)
  have loc: "load tz s = (\<lambda>_. off)" using assms(3) by (simp add: load_def)
  have ok: "clock_ok s" using validated(3) [OF v assms(2)] by (simp add: clock_ok_def)
  obtain c where c: "last_day (\<lambda>_. off) s now [0 .. 14] = Some (c, (c - sch_NextAt s) div day)" "slot_start (\<lambda>_. off) s c" "c \<le> now"
    "\<forall>b. slot_start (\<lambda>_. off) s b \<and> b \<le> now \<longrightarrow> b \<le> c"
    using last_day_latest [OF ok validated(5) [OF v] assms(4) due assms(5)] by blast
  have "latest_slot tz s now = (c, (c - sch_NextAt s) div day)" using c(1) assms(2) loc by (simp add: latest_slot_def)
  then have tick: "tk_ScheduledAt tick = c" "tk_MissedCount tick = (c - sch_NextAt s) div day" "tk_NextAt tick = NextAfter tz s now"
    using assms(1,2) unfolding Due_def by (auto split: if_split_asm)
  have "NextAfter tz s now = next_day (\<lambda>_. off) s now [0 .. 14]" using v assms(2) \<open>now \<noteq> 0\<close> loc by (simp add: NextAfter_def)
  then have "slot_start (\<lambda>_. off) s (tk_NextAt tick) \<and> now < tk_NextAt tick \<and> (\<forall>b. slot_start (\<lambda>_. off) s b \<and> now < b \<longrightarrow> tk_NextAt tick \<le> b)"
    using next_day_earliest [OF ok validated(5) [OF v], of off now] unfolding tick by simp
  then show ?thesis using c(2-4) unfolding tick(1,2) by (meson not_le)
qed

text \<open>A schedule on working days that was due on Friday: on Tuesday it reports four missed, although the days
  before Tuesday on which it has a slot are two.\<close>

lemma missed_count_counts_calendar_days:
  "map_option (\<lambda>tick. (tk_SlotKey tick, tk_MissedCount tick)) (Due demo_zones demo_schedule (utc_Date 2026 10 20 8 0 0 0)) =
     Some (''2026-10-20'', 4)"
  "filter (\<lambda>d. dayAllowed demo_schedule (weekday d)) [civil_day 2026 10 16 .. civil_day 2026 10 19] =
     [civil_day 2026 10 16, civil_day 2026 10 19]"
  by code_simp+

theorem daily_due_reports_latest_slot_witness:
  "\<exists>tick. Due demo_zones demo_schedule (utc_Date 2026 10 20 8 0 0 0) = Some tick \<and> tk_SlotKey tick = ''2026-10-20'' \<and>
     slot_start (\<lambda>_. 25200) demo_schedule (tk_ScheduledAt tick) \<and> tk_MissedCount tick = (tk_ScheduledAt tick - sch_NextAt demo_schedule) div day"
proof -
  obtain tick where due: "Due demo_zones demo_schedule (utc_Date 2026 10 20 8 0 0 0) = Some tick" "tk_SlotKey tick = ''2026-10-20''"
    using missed_count_counts_calendar_days(1) by auto
  have "int64 (utc_Date 2026 10 20 8 0 0 0 - sch_NextAt demo_schedule)" by code_simp
  moreover have "slot_start (\<lambda>_. 25200) demo_schedule (sch_NextAt demo_schedule)" by code_simp
  ultimately show ?thesis
    using daily_due_reports_latest_slot [OF due(1), of 25200] due by (simp add: demo_schedule_def demo_zones_def)
qed

end
