(* ===== verification/Task.thy ===== *)
theory Task
  imports RunTx "HOL-Library.List_Lexorder" "HOL-Library.Char_ord"
begin

text \<open>
  Durable tasks (\<^verbatim>\<open>apps/orchestrator/internal/task\<close>): requests and their validation (\<^verbatim>\<open>task.go\<close>,
  \<^verbatim>\<open>execution_policy.go\<close>), the store (\<^verbatim>\<open>store.go\<close>, \<^verbatim>\<open>authority.go\<close>, \<^verbatim>\<open>lifecycle.go\<close>, \<^verbatim>\<open>completion.go\<close>,
  \<^verbatim>\<open>interaction.go\<close>, \<^verbatim>\<open>tree.go\<close>). The state adds the tables of tasks, results, authority bindings and
  owner controls to the kernel database, and a part \<open>'x\<close> that belongs to other components. What the
  store calls there (authority checks, budget reservations, notifications) is a record of functions.
  JSON columns hold the decoded values; revisions are unbounded integers; text columns are ordered
  by bytes.
\<close>

section \<open>Data\<close>

definition ErrTaskNotFound :: go_err where
  "ErrTaskNotFound = Sentinel ''task not found''"

definition ErrTaskConflict :: go_err where
  "ErrTaskConflict = Sentinel ''task revision or state conflict''"

definition ErrTaskInvalid :: go_err where
  "ErrTaskInvalid = Sentinel ''invalid task request''"

definition ErrUnauthorized :: go_err where
  "ErrUnauthorized = Sentinel ''authenticated task owner required''"

record WorkingState =
  ws_Plan :: "string list"
  ws_PendingActions :: "string list"
  ws_Scratch :: "(string \<times> json) list"

definition empty_working :: WorkingState where
  "empty_working = \<lparr>ws_Plan = [], ws_PendingActions = [], ws_Scratch = []\<rparr>"

record Assignment =
  as_TaskID :: string
  as_OwnerID :: string
  as_GoalID :: string
  as_GoalRevision :: int
  as_MandateID :: string
  as_MandateRevision :: int
  as_Purpose :: string
  as_InitiativeReason :: string
  as_ObservationRef :: string
  as_PolicyRevision :: int

record task_row =
  k_task_id :: string
  k_session_key :: string
  k_owner_id :: string
  k_parent_task_id :: "string option"
  k_goal :: string
  k_source :: "(string \<times> json) list"
  k_status :: string
  k_revision :: int
  k_constraints_revision :: int
  k_execution_policy :: string
  k_constraints :: "string list"
  k_criteria :: "string list"
  k_working :: WorkingState
  k_working_revision :: int
  k_last_run_id :: "string option"
  k_completion_result_id :: "string option"
  k_legacy :: bool
  k_result_delivery :: string
  k_created_at :: instant
  k_updated_at :: instant
  k_finished_at :: "instant option"

record TaskRecord =
  tt_TaskID :: string
  tt_SessionKey :: string
  tt_OwnerID :: string
  tt_ParentTaskID :: string
  tt_Goal :: string
  tt_Source :: "(string \<times> json) list"
  tt_Status :: string
  tt_Revision :: int
  tt_ConstraintsRevision :: int
  tt_ExecutionPolicy :: string
  tt_Constraints :: "string list"
  tt_CompletionCriteria :: "string list"
  tt_Working :: WorkingState
  tt_WorkingRevision :: int
  tt_LastRunID :: string
  tt_CompletionResultID :: string
  tt_Legacy :: bool
  tt_ResultDelivery :: string
  tt_CreatedAt :: instant
  tt_UpdatedAt :: instant
  tt_FinishedAt :: "instant option"

record CreateRequest =
  cq_ResultDelivery :: string
  cq_InitialExecutionPolicy :: string
  cq_Authority :: "Assignment option"
  cq_SessionKey :: string
  cq_OwnerID :: string
  cq_ParentTaskID :: string
  cq_Goal :: string
  cq_Source :: "(string \<times> json) list"
  cq_Constraints :: "string list"
  cq_CompletionCriteria :: "string list"

record result_row =
  q_result_id :: string
  q_task_id :: string
  q_task_revision :: int
  q_run_id :: "string option"
  q_summary :: string
  q_evidence_refs :: "string list"
  q_verified_criteria :: "string list"
  q_verdict :: string
  q_verifier :: string
  q_created_at :: instant

record TaskResult =
  rs_ResultID :: string
  rs_TaskID :: string
  rs_TaskRevision :: int
  rs_RunID :: string
  rs_Summary :: string
  rs_EvidenceRefs :: "string list"
  rs_VerifiedCriteria :: "string list"
  rs_Verdict :: string
  rs_Verifier :: string
  rs_CreatedAt :: instant

definition scan_task :: "task_row \<Rightarrow> TaskRecord" where
  "scan_task r =
     \<lparr>tt_TaskID = k_task_id r, tt_SessionKey = k_session_key r, tt_OwnerID = k_owner_id r,
      tt_ParentTaskID = coalesce (k_parent_task_id r), tt_Goal = k_goal r, tt_Source = k_source r,
      tt_Status = k_status r, tt_Revision = k_revision r, tt_ConstraintsRevision = k_constraints_revision r,
      tt_ExecutionPolicy = k_execution_policy r, tt_Constraints = k_constraints r,
      tt_CompletionCriteria = k_criteria r, tt_Working = k_working r, tt_WorkingRevision = k_working_revision r,
      tt_LastRunID = coalesce (k_last_run_id r), tt_CompletionResultID = coalesce (k_completion_result_id r),
      tt_Legacy = k_legacy r, tt_ResultDelivery = k_result_delivery r, tt_CreatedAt = k_created_at r,
      tt_UpdatedAt = k_updated_at r, tt_FinishedAt = k_finished_at r\<rparr>"

definition scanResult :: "result_row \<Rightarrow> TaskResult" where
  "scanResult r =
     \<lparr>rs_ResultID = q_result_id r, rs_TaskID = q_task_id r, rs_TaskRevision = q_task_revision r,
      rs_RunID = coalesce (q_run_id r), rs_Summary = q_summary r, rs_EvidenceRefs = q_evidence_refs r,
      rs_VerifiedCriteria = q_verified_criteria r, rs_Verdict = q_verdict r, rs_Verifier = q_verifier r,
      rs_CreatedAt = q_created_at r\<rparr>"

section \<open>Owners\<close>

record Actor =
  ac_OwnerID :: string
  ac_Channel :: string
  ac_SessionKey :: string
  ac_DeliveryID :: string

text \<open>The proof a trusted channel adapter put into the context, if it is one.\<close>

definition FromContext :: "Actor option \<Rightarrow> Actor option" where
  "FromContext v =
     (case v of
        None \<Rightarrow> None
      | Some a \<Rightarrow>
          if ac_OwnerID a \<noteq> [] \<and> ac_DeliveryID a \<noteq> [] \<and> (ac_Channel a = ''web'' \<or> ac_Channel a = ''telegram'')
          then Some a else None)"

section \<open>Validation\<close>

definition PolicyNormal :: string where "PolicyNormal = ''normal''"
definition PolicyPrepareOnly :: string where "PolicyPrepareOnly = ''prepare_only''"

definition ValidatePolicy :: "string \<Rightarrow> go_err + unit" where
  "ValidatePolicy policy = failif (policy \<noteq> [] \<and> policy \<noteq> PolicyNormal \<and> policy \<noteq> PolicyPrepareOnly) ErrTaskInvalid"

definition appendUnique :: "string list \<Rightarrow> string \<Rightarrow> string list" where
  "appendUnique vs v = (if v \<in> set vs then vs else vs @ [v])"

fun check_strings :: "string list \<Rightarrow> string list \<Rightarrow> go_err + unit" where
  "check_strings seen [] = Inr ()"
| "check_strings seen (v # vs) =
     (if TrimSpace v = [] \<or> v \<in> set seen then Inl (Detail ErrTaskInvalid ''values must be nonempty and distinct'')
      else check_strings (v # seen) vs)"

definition validateStrings :: "string list \<Rightarrow> go_err + unit" where
  "validateStrings vs = check_strings [] vs"

definition ValidateCreate :: "CreateRequest \<Rightarrow> go_err + unit" where
  "ValidateCreate req =
     bindE (failif (cq_ResultDelivery req \<noteq> [] \<and> cq_ResultDelivery req \<noteq> ''attempt'' \<and>
                    cq_ResultDelivery req \<noteq> ''verified_task'') ErrTaskInvalid) (\<lambda>_.
     bindE (ValidatePolicy (cq_InitialExecutionPolicy req)) (\<lambda>_.
     bindE (failif (TrimSpace (cq_SessionKey req) = [] \<or> TrimSpace (cq_OwnerID req) = [] \<or> TrimSpace (cq_Goal req) = [])
              (Detail ErrTaskInvalid ''session_key, owner_id and goal are required'')) (\<lambda>_.
     bindE (failif (cq_CompletionCriteria req = [])
              (Detail ErrTaskInvalid ''explicit completion criteria are required'')) (\<lambda>_.
     validateStrings (cq_CompletionCriteria req)))))"

definition task_statuses :: "string list" where
  "task_statuses = [''active'', ''waiting_for_user'', ''blocked'', ''paused'', ''cancelled'', ''completed'']"

definition task_finished :: "string \<Rightarrow> bool" where
  "task_finished status \<longleftrightarrow> status = ''completed'' \<or> status = ''cancelled''"

definition ValidateTransition :: "string \<Rightarrow> string \<Rightarrow> go_err + unit" where
  "ValidateTransition from_status to_status =
     (if from_status = ''completed'' \<or> from_status = ''cancelled'' \<or> from_status = to_status then Inl ErrTaskConflict
      else if to_status \<in> set task_statuses then Inr ()
      else Inl (Detail ErrTaskInvalid ''unsupported task status''))"

definition ValidateVerification :: "TaskRecord \<Rightarrow> TaskResult \<Rightarrow> go_err + unit" where
  "ValidateVerification rec res =
     bindE (failif (rs_TaskRevision res \<noteq> tt_Revision rec \<or> TrimSpace (rs_Summary res) = [] \<or>
                    rs_EvidenceRefs res = [] \<or> rs_Verifier res \<noteq> ''owner'')
              (Detail ErrTaskInvalid ''verification requires current revision, saved result, evidence and owner verdict'')) (\<lambda>_.
     bindE (validateStrings (rs_EvidenceRefs res)) (\<lambda>_.
     bindE (validateStrings (rs_VerifiedCriteria res)) (\<lambda>_.
     bindE (failif (tt_CompletionCriteria rec = [] \<or>
                    length (rs_VerifiedCriteria res) \<noteq> length (tt_CompletionCriteria rec)) ErrTaskInvalid) (\<lambda>_.
     failif (\<exists>c \<in> set (tt_CompletionCriteria rec). c \<notin> set (rs_VerifiedCriteria res))
       (Detail ErrTaskInvalid ''not all completion criteria verified'')))))"

section \<open>State and hooks\<close>

record 'x task_db =
  td_kernel :: kernel_db
  td_tasks :: "task_row list"
  td_results :: "result_row list"
  td_bindings :: "Assignment list"
  td_other :: 'x

text \<open>
  \<^verbatim>\<open>actionauth.CheckTaskAuthorityTx\<close> and \<^verbatim>\<open>CheckAssignmentTx\<close>, the budget reservation of a child task
  (absent without a budget controller), \<^verbatim>\<open>verifiedDeliveryReady\<close> and the queueing of a notification
  about a verified result; the last has the owner proof and the worker token of the context.
\<close>

record 'x task_hooks =
  h_authority :: "'x task_db \<Rightarrow> string \<Rightarrow> string \<Rightarrow> instant \<Rightarrow> go_err + Assignment"
  h_assignment :: "'x task_db \<Rightarrow> Assignment \<Rightarrow> instant \<Rightarrow> go_err + unit"
  h_child_budget :: "(string \<Rightarrow> string \<Rightarrow> 'x \<Rightarrow> go_err + 'x) option"
  h_delivery_ready :: bool
  h_notify :: "Actor option \<Rightarrow> exec_ctx \<Rightarrow> TaskRecord \<Rightarrow> TaskRecord \<Rightarrow> 'x task_db \<Rightarrow> go_err + 'x"

definition newID :: "string \<Rightarrow> string option \<Rightarrow> go_err + string" where
  "newID pre rnd = map_sum id (\<lambda>h. pre @ ''_'' @ h) (need rnd (Errorf ''crypto/rand''))"

definition task_find :: "string \<Rightarrow> 'x task_db \<Rightarrow> go_err + task_row" where
  "task_find i st = need (tbl_find k_task_id i (td_tasks st)) ErrTaskNotFound"

definition set_tasks :: "(task_row \<Rightarrow> bool) \<Rightarrow> (task_row \<Rightarrow> task_row) \<Rightarrow> 'x task_db \<Rightarrow> 'x task_db" where
  "set_tasks sel f st = st\<lparr>td_tasks := tbl_update sel f (td_tasks st)\<rparr>"

text \<open>The insert into \<^verbatim>\<open>task_results\<close> with its primary key and its reference to the run.\<close>

definition insert_result :: "result_row \<Rightarrow> 'x task_db \<Rightarrow> go_err + 'x task_db" where
  "insert_result q st =
     bindE (failif (tbl_find q_result_id (q_result_id q) (td_results st) \<noteq> None)
              (PgError ''23505'' ''duplicate key value violates unique constraint \"task_results_pkey\"'')) (\<lambda>_.
     bindE (failif (tbl_find k_task_id (q_task_id q) (td_tasks st) = None)
              (PgError ''23503'' ''insert or update on table \"task_results\" violates foreign key constraint \"task_results_task_id_fkey\"'')) (\<lambda>_.
     bindE (failif (\<exists>r. q_run_id q = Some r \<and> tbl_find r_run_id r (runs (td_kernel st)) = None)
              (PgError ''23503'' ''insert or update on table \"task_results\" violates foreign key constraint \"task_results_run_id_fkey\"'')) (\<lambda>_.
     Inr (st\<lparr>td_results := td_results st @ [q]\<rparr>))))"

section \<open>Trees of tasks\<close>

definition children_of :: "task_row list \<Rightarrow> string list \<Rightarrow> string list" where
  "children_of rows ids = map k_task_id (filter (\<lambda>r. \<exists>p \<in> set ids. k_parent_task_id r = Some p) rows)"

definition parents_of :: "task_row list \<Rightarrow> string list \<Rightarrow> string list" where
  "parents_of rows ids =
     map k_task_id (filter (\<lambda>p. \<exists>r \<in> set rows. k_task_id r \<in> set ids \<and> k_parent_task_id r = Some (k_task_id p)) rows)"

definition task_start :: "task_row list \<Rightarrow> string \<Rightarrow> string list" where
  "task_start rows i = (if tbl_find k_task_id i rows = None then [] else [i])"

definition task_tree :: "task_row list \<Rightarrow> string \<Rightarrow> string list" where
  "task_tree rows i = closure_upto (children_of rows) (length rows) (task_start rows i)"

definition task_ancestors :: "task_row list \<Rightarrow> string \<Rightarrow> string list" where
  "task_ancestors rows i = closure_upto (parents_of rows) (length rows) (task_start rows i)"

definition lockTreeTx :: "'x task_db \<Rightarrow> string \<Rightarrow> go_err + string" where
  "lockTreeTx st i =
     map_sum id k_task_id (need (first_row (\<lambda>r. k_task_id r \<in> set (task_ancestors (td_tasks st) i) \<and> k_parent_task_id r = None)
       (td_tasks st)) ErrNoRows)"

text \<open>
  The queries of the controls and of the budget keep duplicates. A row has one parent, so as many rounds as there are
  rows find everything; the tree of tasks has no cycle, so the round after them finds nothing (\<open>control_queries_end\<close>).
\<close>

definition child_rows :: "task_row list \<Rightarrow> string \<Rightarrow> string list" where
  "child_rows rows p = map k_task_id (filter (\<lambda>r. k_parent_task_id r = Some p) rows)"

definition tree_query :: "task_row list \<Rightarrow> string \<Rightarrow> string list" where
  "tree_query rows i = union_all (child_rows rows) (length rows) (map k_task_id (filter (\<lambda>r. k_task_id r = i) rows))"

definition parent_rows :: "task_row list \<Rightarrow> string option \<Rightarrow> string option list" where
  "parent_rows rows p = (case p of None \<Rightarrow> [] | Some i \<Rightarrow> map k_parent_task_id (filter (\<lambda>r. k_task_id r = i) rows))"

definition parents_query :: "task_row list \<Rightarrow> string \<Rightarrow> string option list" where
  "parents_query rows i = union_all (parent_rows rows) (length rows) (parent_rows rows (Some i))"

definition BudgetRoot :: "'x task_db \<Rightarrow> string \<Rightarrow> go_err + TaskRecord" where
  "BudgetRoot st i =
     (let rows = td_tasks st;
          parents = union_all (\<lambda>p. filter (\<lambda>t. k_parent_task_id p = Some (k_task_id t)) rows) (length rows) (filter (\<lambda>r. k_task_id r = i) rows)
      in map_sum id scan_task (need (first_row (\<lambda>r. k_parent_task_id r = None) parents) ErrTaskNotFound))"

section \<open>Reading\<close>

definition task_Get :: "string \<Rightarrow> 'x task_db \<Rightarrow> go_err + TaskRecord" where
  "task_Get i st = map_sum id scan_task (task_find i st)"

definition task_GetByRun :: "string \<Rightarrow> 'x task_db \<Rightarrow> go_err + TaskRecord" where
  "task_GetByRun runID st =
     (case tbl_find r_run_id runID (runs (td_kernel st)) of
        None \<Rightarrow> Inl ErrTaskNotFound
      | Some r \<Rightarrow> (case r_task_id r of None \<Rightarrow> Inl ErrTaskNotFound | Some i \<Rightarrow> task_Get i st))"

definition task_List :: "string \<Rightarrow> int \<Rightarrow> 'x task_db \<Rightarrow> TaskRecord list" where
  "task_List sessionKey limit st =
     (let n = (if limit \<le> 0 \<or> 200 < limit then 50 else limit)
      in map scan_task (take (nat n) (sort_key (\<lambda>r. - k_updated_at r) (sort_key k_task_id
           (filter (\<lambda>r. sessionKey = [] \<or> k_session_key r = sessionKey) (td_tasks st))))))"

definition task_Results :: "string \<Rightarrow> 'x task_db \<Rightarrow> TaskResult list" where
  "task_Results i st =
     map scanResult (sort_key q_created_at (sort_key q_result_id (filter (\<lambda>q. q_task_id q = i) (td_results st))))"

definition task_RunIDs :: "string \<Rightarrow> 'x task_db \<Rightarrow> string list" where
  "task_RunIDs i st =
     map r_run_id (sort_key r_started_at (sort_key r_run_id (filter (\<lambda>r. r_task_id r = Some i) (runs (td_kernel st)))))"

definition guardTaskWrite :: "'x task_hooks \<Rightarrow> instant \<Rightarrow> string \<Rightarrow> 'x task_db \<Rightarrow> go_err + unit" where
  "guardTaskWrite h now i st =
     bindE (need (tbl_find k_task_id i (td_tasks st)) ErrNoRows) (\<lambda>r.
     bindE (h_authority h st i (k_owner_id r) now) (\<lambda>_. Inr ()))"

definition ValidateRunAuthority :: "'x task_hooks \<Rightarrow> instant \<Rightarrow> string \<Rightarrow> 'x task_db \<Rightarrow> go_err + unit" where
  "ValidateRunAuthority h now runID st =
     bindE (need (tbl_find r_run_id runID (runs (td_kernel st))) ErrNoRows) (\<lambda>r.
     case r_task_id r of
       None \<Rightarrow> Inr ()
     | Some i \<Rightarrow>
         (case tbl_find k_task_id i (td_tasks st) of
            None \<Rightarrow> Inl ErrTaskConflict
          | Some t \<Rightarrow>
              if Some (k_revision t) = r_task_revision r \<and> k_status t = ''active''
              then bindE (h_authority h st i (k_owner_id t) now) (\<lambda>_. Inr ())
              else Inl ErrTaskConflict))"

section \<open>Creation\<close>

definition assignment_json :: "Assignment \<Rightarrow> json" where
  "assignment_json a =
     JObj ([(''task_id'', JStr (as_TaskID a)), (''owner_id'', JStr (as_OwnerID a)), (''goal_id'', JStr (as_GoalID a)),
       (''goal_revision'', JNum (as_GoalRevision a)), (''mandate_id'', JStr (as_MandateID a)),
       (''mandate_revision'', JNum (as_MandateRevision a)), (''purpose'', JStr (as_Purpose a)),
       (''initiative_reason'', JStr (as_InitiativeReason a)), (''observation_ref'', JStr (as_ObservationRef a))] @
       (if as_PolicyRevision a = 0 then [] else [(''policy_revision'', JNum (as_PolicyRevision a))]))"

text \<open>\<^verbatim>\<open>m[k] = v\<close> on a JSON object.\<close>

definition obj_put :: "string \<Rightarrow> json \<Rightarrow> (string \<times> json) list \<Rightarrow> (string \<times> json) list" where
  "obj_put k v m = filter (\<lambda>kv. fst kv \<noteq> k) m @ [(k, v)]"

definition BindAuthorityTx :: "Assignment \<Rightarrow> 'x task_db \<Rightarrow> go_err + 'x task_db" where
  "BindAuthorityTx a st =
     bindE (failif (as_TaskID a = [] \<or> as_OwnerID a = [] \<or> as_InitiativeReason a = [] \<or> as_ObservationRef a = [])
              ErrTaskInvalid) (\<lambda>_.
     bindE (failif (tbl_find as_TaskID (as_TaskID a) (td_bindings st) \<noteq> None)
              (PgError ''23505'' ''duplicate key value violates unique constraint \"task_authority_bindings_pkey\"'')) (\<lambda>_.
     Inr (st\<lparr>td_bindings := td_bindings st @ [a]\<rparr>)))"

text \<open>What a child takes from its parent: policy, delivery mode, authority and constraints.\<close>

definition inherit_parent ::
  "'x task_hooks \<Rightarrow> bool \<Rightarrow> instant \<Rightarrow> CreateRequest \<Rightarrow> 'x task_db \<Rightarrow> go_err + CreateRequest \<times> string" where
  "inherit_parent h delegated now req st =
     (if cq_ParentTaskID req = []
      then Inr (req, if cq_InitialExecutionPolicy req \<noteq> [] then cq_InitialExecutionPolicy req else PolicyNormal)
      else
        bindE (task_find (cq_ParentTaskID req) st) (\<lambda>parent.
        bindE (failif (k_owner_id parent \<noteq> cq_OwnerID req \<or> \<not> delegated \<and> k_session_key parent \<noteq> cq_SessionKey req \<or>
                       k_status parent \<noteq> ''active'') ErrTaskConflict) (\<lambda>_.
        bindE (failif (cq_ResultDelivery req \<noteq> [] \<and> cq_ResultDelivery req \<noteq> k_result_delivery parent) ErrTaskConflict) (\<lambda>_.
        bindE (failif (cq_InitialExecutionPolicy req \<noteq> [] \<and> cq_InitialExecutionPolicy req \<noteq> k_execution_policy parent)
                 ErrTaskConflict) (\<lambda>_.
        bindE (h_authority h st (k_task_id parent) (k_owner_id parent) now) (\<lambda>a.
        bindE (failif (as_TaskID a = [] \<and> cq_Authority req \<noteq> None) ErrTaskConflict) (\<lambda>_.
        Inr (req\<lparr>cq_ResultDelivery := k_result_delivery parent,
                 cq_Authority := (if as_TaskID a \<noteq> [] then Some (a\<lparr>as_TaskID := []\<rparr>) else None),
                 cq_Constraints := foldl appendUnique (cq_Constraints req) (k_constraints parent)\<rparr>,
             k_execution_policy parent))))))))"

definition new_task :: "string \<Rightarrow> string \<Rightarrow> instant \<Rightarrow> CreateRequest \<Rightarrow> task_row" where
  "new_task i policy now req =
     \<lparr>k_task_id = i, k_session_key = cq_SessionKey req, k_owner_id = cq_OwnerID req,
      k_parent_task_id = nullString (cq_ParentTaskID req), k_goal = TrimSpace (cq_Goal req),
      k_source = cq_Source req, k_status = ''active'', k_revision = 1, k_constraints_revision = 1,
      k_execution_policy = policy, k_constraints = cq_Constraints req, k_criteria = cq_CompletionCriteria req,
      k_working = empty_working, k_working_revision = 1, k_last_run_id = None, k_completion_result_id = None,
      k_legacy = False,
      k_result_delivery = (if cq_ResultDelivery req = ''verified_task'' then ''verified_task'' else ''attempt''),
      k_created_at = now, k_updated_at = now, k_finished_at = None\<rparr>"

definition insert_task :: "task_row \<Rightarrow> 'x task_db \<Rightarrow> go_err + 'x task_db" where
  "insert_task t st =
     bindE (failif (tbl_find k_task_id (k_task_id t) (td_tasks st) \<noteq> None)
              (PgError ''23505'' ''duplicate key value violates unique constraint \"tasks_pkey\"'')) (\<lambda>_.
     Inr (st\<lparr>td_tasks := td_tasks st @ [t]\<rparr>))"

definition bind_assignment :: "'x task_hooks \<Rightarrow> instant \<Rightarrow> string \<Rightarrow> Assignment option \<Rightarrow> 'x task_db \<Rightarrow> go_err + 'x task_db" where
  "bind_assignment h now i auth st =
     (case auth of
        None \<Rightarrow> Inr st
      | Some a \<Rightarrow>
          bindE (BindAuthorityTx (a\<lparr>as_TaskID := i\<rparr>) st) (\<lambda>st.
          bindE (h_assignment h st (a\<lparr>as_TaskID := i\<rparr>) now) (\<lambda>_. Inr st)))"

definition authorized_request ::
  "'x task_hooks \<Rightarrow> string \<Rightarrow> instant \<Rightarrow> CreateRequest \<Rightarrow> 'x task_db \<Rightarrow> go_err + CreateRequest" where
  "authorized_request h owner now req st =
     (case cq_Authority req of
        None \<Rightarrow> Inr req
      | Some a \<Rightarrow>
          bindE (failif (as_OwnerID a \<noteq> owner) ErrTaskConflict) (\<lambda>_.
          bindE (h_assignment h st a now) (\<lambda>_.
          Inr (req\<lparr>cq_Source := obj_put ''owner_authority'' (assignment_json a) (cq_Source req)\<rparr>))))"

definition reserve_child :: "'x task_hooks \<Rightarrow> string \<Rightarrow> string \<Rightarrow> 'x task_db \<Rightarrow> go_err + 'x task_db" where
  "reserve_child h parent i st =
     (case h_child_budget h of
        None \<Rightarrow> Inr st
      | Some spend \<Rightarrow>
          if parent = [] then Inr st
          else bindE (spend parent i (td_other st)) (\<lambda>x. Inr (st\<lparr>td_other := x\<rparr>)))"

definition createTx ::
  "'x task_hooks \<Rightarrow> bool \<Rightarrow> string option \<Rightarrow> instant \<Rightarrow> CreateRequest \<Rightarrow> 'x task_db \<Rightarrow> go_err + TaskRecord \<times> 'x task_db" where
  "createTx h delegated rnd now req st =
     bindE (ValidateCreate req) (\<lambda>_.
     bindE (validateStrings (cq_Constraints req)) (\<lambda>_.
     bindE (if cq_ParentTaskID req = [] then Inr [] else lockTreeTx st (cq_ParentTaskID req)) (\<lambda>_.
     bindE (need (tbl_find s_session_key (cq_SessionKey req) (sessions (td_kernel st)))
              (Detail ErrTaskInvalid ''task session does not exist'')) (\<lambda>s.
     bindE (failif (s_user_id s \<noteq> cq_OwnerID req) (Detail ErrTaskInvalid ''session owner mismatch'')) (\<lambda>_.
     let req = (if cq_Source req = []
                then req\<lparr>cq_Source := [(''type'', JStr ''owner_request''), (''channel'', JStr (s_channel s)),
                                       (''session_key'', JStr (cq_SessionKey req))]\<rparr>
                else req) in
     bindE (inherit_parent h delegated now req st) (\<lambda>(req, policy).
     bindE (authorized_request h (s_user_id s) now req st) (\<lambda>req.
     bindE (newID ''task'' rnd) (\<lambda>i.
     bindE (reserve_child h (cq_ParentTaskID req) i st) (\<lambda>st.
     bindE (failif (cq_ResultDelivery req = ''verified_task'' \<and> \<not> h_delivery_ready h) ErrTaskInvalid) (\<lambda>_.
     bindE (insert_task (new_task i policy now req) st) (\<lambda>st.
     bindE (bind_assignment h now i (cq_Authority req) st) (\<lambda>st.
     Inr (scan_task (new_task i policy now req), st)))))))))))))"

definition CreateTx where
  "CreateTx h rnd now req = run_tx (createTx h False rnd now req)"

section \<open>Runs and working state\<close>

definition attach_body ::
  "'x task_hooks \<Rightarrow> string \<Rightarrow> int \<Rightarrow> string \<Rightarrow> string \<Rightarrow> instant \<Rightarrow> 'x task_db \<Rightarrow> go_err + unit \<times> 'x task_db" where
  "attach_body h taskID rvn runID sessionKey now st =
     bindE (task_find taskID st) (\<lambda>t.
     bindE (failif (k_revision t \<noteq> rvn \<or> k_status t \<noteq> ''active'' \<or> k_session_key t \<noteq> sessionKey) ErrTaskConflict) (\<lambda>_.
     let sel = (\<lambda>r. r_run_id r = runID \<and> r_session_key r = sessionKey \<and>
                     (r_task_id r = None \<or> r_task_id r = Some taskID \<and> r_task_revision r = Some rvn));
         K = td_kernel st in
     bindE (failif (tbl_count sel (runs K) \<noteq> 1) ErrTaskConflict) (\<lambda>_.
     let st = st\<lparr>td_kernel := K\<lparr>runs := tbl_update sel (\<lambda>r. r\<lparr>r_task_id := Some taskID, r_task_revision := Some rvn\<rparr>) (runs K)\<rparr>\<rparr> in
     bindE (h_authority h st (k_task_id t) (k_owner_id t) now) (\<lambda>_.
     Inr ((), set_tasks (\<lambda>r. k_task_id r = taskID) (\<lambda>r. r\<lparr>k_last_run_id := Some runID, k_updated_at := now\<rparr>) st)))))"

definition guarded :: "exec_ctx \<Rightarrow> instant \<Rightarrow> ('x task_db \<Rightarrow> go_err + 'a \<times> 'x task_db) \<Rightarrow> 'x task_db \<Rightarrow> (go_err, 'a, 'x task_db) outcome" where
  "guarded ctx now body = run_tx (\<lambda>st. bindE (own_Begin ctx now (td_kernel st)) (\<lambda>_. body st))"

definition AttachRun where
  "AttachRun h ctx taskID rvn runID sessionKey now = guarded ctx now (attach_body h taskID rvn runID sessionKey now)"

definition saved_working :: "WorkingState \<Rightarrow> instant \<Rightarrow> task_row \<Rightarrow> task_row" where
  "saved_working w now r = r\<lparr>k_working := w, k_working_revision := k_working_revision r + 1, k_updated_at := now\<rparr>"

text \<open>\<^verbatim>\<open>UPDATE ... RETURNING\<close> of at most one task row; no row is the error \<open>e\<close>.\<close>

definition update_returning ::
  "go_err \<Rightarrow> (task_row \<Rightarrow> bool) \<Rightarrow> (task_row \<Rightarrow> task_row) \<Rightarrow> 'x task_db \<Rightarrow> go_err + TaskRecord \<times> 'x task_db" where
  "update_returning e sel f st =
     bindE (need (first_row sel (td_tasks st)) e) (\<lambda>r. Inr (scan_task (f r), set_tasks sel f st))"

definition SaveWorking where
  "SaveWorking h ctx i rvn w now =
     guarded ctx now (\<lambda>st.
       bindE (guardTaskWrite h now i st) (\<lambda>_.
       update_returning ErrTaskConflict (\<lambda>r. k_task_id r = i \<and> k_working_revision r = rvn \<and> \<not> task_finished (k_status r))
         (saved_working w now) st))"

definition null_scan_error :: go_err where
  "null_scan_error = Errorf ''cannot scan NULL into *string''"

definition current_attempt :: "'x task_db \<Rightarrow> string \<Rightarrow> task_row \<Rightarrow> bool" where
  "current_attempt st runID t \<longleftrightarrow>
     (\<exists>r \<in> set (runs (td_kernel st)). r_run_id r = runID \<and> r_task_id r = Some (k_task_id t) \<and>
        r_task_revision r = Some (k_revision t))"

definition CheckpointRun where
  "CheckpointRun h ctx runID rvn w now =
     guarded ctx now (\<lambda>st.
       bindE (need (tbl_find r_run_id runID (runs (td_kernel st))) ErrNoRows) (\<lambda>r.
       bindE (need (r_task_id r) null_scan_error) (\<lambda>i.
       bindE (guardTaskWrite h now i st) (\<lambda>_.
       update_returning ErrTaskConflict (\<lambda>t. k_working_revision t = rvn \<and> k_status t = ''active'' \<and> current_attempt st runID t)
         (saved_working w now) st))))"

definition BlockRun where
  "BlockRun h ctx runID reason now =
     guarded ctx now (\<lambda>st.
       bindE (need (tbl_find r_run_id runID (runs (td_kernel st))) ErrNoRows) (\<lambda>r.
       case r_task_id r of
         None \<Rightarrow> Inr ((), st)
       | Some i \<Rightarrow>
           bindE (guardTaskWrite h now i st) (\<lambda>_.
           Inr ((), set_tasks
             (\<lambda>t. (k_status t = ''active'' \<or> k_status t = ''waiting_for_user'') \<and> current_attempt st runID t)
             (\<lambda>t. t\<lparr>k_status := ''blocked'',
                     k_working := (k_working t)\<lparr>ws_Scratch := obj_put ''block_reason'' (JStr reason) (ws_Scratch (k_working t))\<rparr>,
                     k_working_revision := k_working_revision t + 1, k_updated_at := now\<rparr>) st))))"

definition SaveRunOutcome ::
  "'x task_hooks \<Rightarrow> exec_ctx \<Rightarrow> string \<Rightarrow> string \<Rightarrow> string \<Rightarrow> instant \<Rightarrow> 'x task_db \<Rightarrow> (go_err, unit, 'x task_db) outcome" where
  "SaveRunOutcome h ctx runID state remark now =
     guarded ctx now (\<lambda>st.
       case first_row (\<lambda>r. r_run_id r = runID \<and> r_task_id r \<noteq> None) (runs (td_kernel st)) of
         None \<Rightarrow> Inr ((), st)
       | Some r \<Rightarrow>
           let i = the (r_task_id r) in
           bindE (need (first_row (\<lambda>t. k_task_id t = i \<and> Some (k_revision t) = r_task_revision r) (td_tasks st)) ErrTaskConflict) (\<lambda>t.
           bindE (h_authority h st i (k_owner_id t) now) (\<lambda>_.
           bindE (if TrimSpace remark = [] \<or> tbl_find q_result_id (''run:'' @ runID) (td_results st) \<noteq> None then Inr st
                  else insert_result \<lparr>q_result_id = ''run:'' @ runID, q_task_id = i, q_task_revision = k_revision t,
                         q_run_id = Some runID, q_summary = remark, q_evidence_refs = [], q_verified_criteria = [],
                         q_verdict = ''unverified'', q_verifier = ''model_run'', q_created_at = now\<rparr> st) (\<lambda>st.
           Inr ((), set_tasks (\<lambda>q. k_task_id q = i \<and> k_revision q = k_revision t)
             (\<lambda>q. let stop = ((state = ''failed'' \<or> state = ''timed_out'') \<and> k_status q = ''active'')
                  in q\<lparr>k_status := (if stop then ''blocked'' else k_status q),
                       k_revision := k_revision q + (if stop then 1 else 0), k_updated_at := now\<rparr>) st)))))"

definition SaveResultTx ::
  "'x task_hooks \<Rightarrow> exec_ctx \<Rightarrow> TaskResult \<Rightarrow> int \<Rightarrow> instant \<Rightarrow> 'x task_db \<Rightarrow> go_err + int \<times> 'x task_db" where
  "SaveResultTx h ctx res expectedConstraints now st =
     (case TokenFromContext ctx of
        None \<Rightarrow> Inl ErrStale
      | Some tok \<Rightarrow>
          if tok_RunID tok \<noteq> rs_RunID res then Inl ErrStale
          else if rs_TaskID res = [] then Inr (0, st)
          else
            bindE (need (tbl_find k_task_id (rs_TaskID res) (td_tasks st)) ErrNoRows) (\<lambda>t.
            bindE (failif (k_revision t \<noteq> rs_TaskRevision res \<or> k_constraints_revision t \<noteq> expectedConstraints \<or>
                           k_status t \<noteq> ''active'')
                     (Detail ErrTaskConflict ''task authority changed before final result'')) (\<lambda>_.
            bindE (h_authority h st (rs_TaskID res) (k_owner_id t) now) (\<lambda>_.
            bindE (insert_result \<lparr>q_result_id = rs_ResultID res, q_task_id = rs_TaskID res,
                     q_task_revision = rs_TaskRevision res, q_run_id = Some (rs_RunID res), q_summary = rs_Summary res,
                     q_evidence_refs = rs_EvidenceRefs res, q_verified_criteria = [], q_verdict = ''unverified'',
                     q_verifier = ''model_run'', q_created_at = rs_CreatedAt res\<rparr> st) (\<lambda>st.
            Inr (k_constraints_revision t, st))))))"

section \<open>Waiting for the owner\<close>

definition pinned :: "string \<Rightarrow> int \<Rightarrow> int \<Rightarrow> task_row \<Rightarrow> bool" where
  "pinned i rvn constraints t \<longleftrightarrow> k_task_id t = i \<and> k_revision t = rvn \<and> k_constraints_revision t = constraints"

definition WaitInteractionTx ::
  "'x task_hooks \<Rightarrow> string \<Rightarrow> int \<Rightarrow> int \<Rightarrow> instant \<Rightarrow> 'x task_db \<Rightarrow> go_err + unit \<times> 'x task_db" where
  "WaitInteractionTx h i rvn constraints now st =
     (if i = [] then Inr ((), st)
      else bindE (guardTaskWrite h now i st) (\<lambda>_.
           let sel = (\<lambda>t. pinned i rvn constraints t \<and> k_status t = ''active'') in
           bindE (failif (tbl_count sel (td_tasks st) \<noteq> 1) ErrTaskConflict) (\<lambda>_.
           Inr ((), set_tasks sel (\<lambda>t. t\<lparr>k_status := ''waiting_for_user'', k_updated_at := now\<rparr>) st))))"

definition ResumeInteractionTx ::
  "'x task_hooks \<Rightarrow> string \<Rightarrow> int \<Rightarrow> int \<Rightarrow> instant \<Rightarrow> 'x task_db \<Rightarrow> go_err + unit \<times> 'x task_db" where
  "ResumeInteractionTx h i rvn constraints now st =
     (if i = [] then Inr ((), st)
      else bindE (guardTaskWrite h now i st) (\<lambda>_.
           let sel = (\<lambda>t. pinned i rvn constraints t \<and> (k_status t = ''waiting_for_user'' \<or> k_status t = ''active'')) in
           bindE (failif (tbl_count sel (td_tasks st) \<noteq> 1) ErrTaskConflict) (\<lambda>_.
           Inr ((), set_tasks sel (\<lambda>t. t\<lparr>k_status := ''active'', k_updated_at := now\<rparr>) st))))"

definition CloseInteractionWaitTx :: "string \<Rightarrow> int \<Rightarrow> int \<Rightarrow> instant \<Rightarrow> 'x task_db \<Rightarrow> go_err + unit \<times> 'x task_db" where
  "CloseInteractionWaitTx i rvn constraints now st =
     (if i = [] then Inr ((), st)
      else Inr ((), set_tasks (\<lambda>t. pinned i rvn constraints t \<and> k_status t = ''waiting_for_user'')
             (\<lambda>t. t\<lparr>k_status := ''blocked'', k_updated_at := now\<rparr>) st))"

section \<open>Verified results and owner transitions\<close>

definition owns_task :: "Actor \<Rightarrow> string \<Rightarrow> string \<Rightarrow> bool" where
  "owns_task a owner session \<longleftrightarrow> ac_OwnerID a = owner \<and> (ac_SessionKey a = [] \<or> ac_SessionKey a = session)"

definition save_verified_body ::
  "'x task_hooks \<Rightarrow> Actor option \<Rightarrow> exec_ctx \<Rightarrow> string option \<Rightarrow> TaskResult \<Rightarrow> instant \<Rightarrow> 'x task_db
     \<Rightarrow> go_err + TaskResult \<times> 'x task_db" where
  "save_verified_body h actor ctx rnd res now st =
     bindE (need (FromContext actor) ErrUnauthorized) (\<lambda>a.
     bindE (failif (TokenFromContext ctx \<noteq> None) ErrUnauthorized) (\<lambda>_.
     bindE (task_find (rs_TaskID res) st) (\<lambda>t.
     bindE (failif (\<not> owns_task a (k_owner_id t) (k_session_key t)) ErrUnauthorized) (\<lambda>_.
     bindE (failif (task_finished (k_status t)) ErrTaskConflict) (\<lambda>_.
     bindE (h_authority h st (k_task_id t) (k_owner_id t) now) (\<lambda>_.
     bindE (ValidateVerification (scan_task t) res) (\<lambda>_.
     bindE (failif (rs_RunID res \<noteq> [] \<and>
              \<not> (\<exists>r \<in> set (runs (td_kernel st)). r_run_id r = rs_RunID res \<and> r_task_id r = Some (rs_TaskID res)))
              ErrTaskInvalid) (\<lambda>_.
     bindE (newID ''result'' rnd) (\<lambda>i.
     let q = \<lparr>q_result_id = i, q_task_id = rs_TaskID res, q_task_revision = rs_TaskRevision res,
              q_run_id = nullString (rs_RunID res), q_summary = rs_Summary res, q_evidence_refs = rs_EvidenceRefs res,
              q_verified_criteria = rs_VerifiedCriteria res, q_verdict = ''verified'', q_verifier = ''owner'',
              q_created_at = now\<rparr> in
     bindE (insert_result q st) (\<lambda>st. Inr (scanResult q, st)))))))))))"

definition SaveVerifiedResult where
  "SaveVerifiedResult h actor ctx rnd res now = run_tx (save_verified_body h actor ctx rnd res now)"

text \<open>The check of the result a completion names, shared with the owner controls.\<close>

definition check_completion :: "string \<Rightarrow> string \<Rightarrow> TaskRecord \<Rightarrow> 'x task_db \<Rightarrow> go_err + unit" where
  "check_completion status resultID rec st =
     (if status \<noteq> ''completed'' then Inr ()
      else bindE (need (first_row (\<lambda>q. q_task_id q = tt_TaskID rec \<and> q_result_id q = resultID) (td_results st)) ErrTaskNotFound) (\<lambda>q.
           bindE (failif (q_verdict q \<noteq> ''verified'') ErrTaskInvalid) (\<lambda>_.
           ValidateVerification rec (scanResult q))))"

definition moved_task :: "string \<Rightarrow> string \<Rightarrow> instant \<Rightarrow> task_row \<Rightarrow> task_row" where
  "moved_task status resultID now t =
     t\<lparr>k_status := status, k_revision := k_revision t + 1,
        k_completion_result_id := (if status = ''completed'' then nullString resultID else k_completion_result_id t),
        k_finished_at := (if task_finished status then Some now else None), k_updated_at := now\<rparr>"

definition transition_body ::
  "'x task_hooks \<Rightarrow> Actor option \<Rightarrow> exec_ctx \<Rightarrow> string \<Rightarrow> int \<Rightarrow> string \<Rightarrow> string \<Rightarrow> instant \<Rightarrow> 'x task_db
     \<Rightarrow> go_err + TaskRecord \<times> 'x task_db" where
  "transition_body h actor ctx i rvn status resultID now st =
     bindE (task_find i st) (\<lambda>t.
     bindE (failif (k_result_delivery t = ''verified_task'' \<and>
              (case FromContext actor of
                 None \<Rightarrow> True
               | Some a \<Rightarrow> TokenFromContext ctx \<noteq> None \<or> \<not> owns_task a (k_owner_id t) (k_session_key t))) ErrUnauthorized) (\<lambda>_.
     if k_result_delivery t = ''verified_task'' \<and> k_status t = ''completed'' \<and> status = ''completed'' \<and>
        coalesce (k_completion_result_id t) = resultID \<and> k_revision t = rvn + 1
     then Inr (scan_task t, st)
     else
       bindE (failif (k_revision t \<noteq> rvn) ErrTaskConflict) (\<lambda>_.
       bindE (if status \<noteq> ''cancelled'' \<and> status \<noteq> ''paused'' then bindE (h_authority h st i (k_owner_id t) now) (\<lambda>_. Inr ()) else Inr ()) (\<lambda>_.
       bindE (ValidateTransition (k_status t) status) (\<lambda>_.
       bindE (check_completion status resultID (scan_task t) st) (\<lambda>_.
       bindE (update_returning ErrTaskNotFound (\<lambda>r. k_task_id r = i \<and> k_revision r = rvn) (moved_task status resultID now) st) (\<lambda>(stored, st').
       bindE (h_notify h actor ctx (scan_task t) stored st') (\<lambda>x.
       Inr (stored, st'\<lparr>td_other := x\<rparr>))))))))) "

definition task_Transition where
  "task_Transition h actor ctx i rvn status resultID now = run_tx (transition_body h actor ctx i rvn status resultID now)"

end
