(* ===== verification/TaskControl.thy ===== *)
theory TaskControl
  imports Task
begin

text \<open>
  Owner controls over task trees (\<^verbatim>\<open>task/control_types.go\<close>, \<^verbatim>\<open>task/controller.go\<close>). One control is one
  transaction: it locks the tree, revokes the leases of every live task below the target, cancels
  their runs, invalidates their inputs and approvals, and moves the tasks to their new status under
  new revisions. The inputs, approvals, transcript and interaction components the controller reaches
  through Go interfaces are a record of functions on the table of inputs and the other components'
  state; leases and runs are the definitions of this development. Row locks, the mutation
  barrier and the time limit order or abort transactions and change nothing. A stored request is compared as the request itself: its JSON text determines it.
\<close>

section \<open>Requests\<close>

definition ControlAmend :: string where "ControlAmend = ''amend''"
definition ControlStop :: string where "ControlStop = ''stop''"
definition ControlPause :: string where "ControlPause = ''pause''"
definition ControlResume :: string where "ControlResume = ''resume''"
definition ControlStatus :: string where "ControlStatus = ''status''"

record ControlRequest =
  ct_TaskID :: string
  ct_ExpectedRevision :: int
  ct_Kind :: string
  ct_Instruction :: string
  ct_Goal :: "string option"
  ct_Constraints :: "string list option"
  ct_CompletionCriteria :: "string list option"
  ct_ExecutionPolicy :: string
  ct_Status :: string
  ct_ResultID :: string

record ControlResult =
  co_ControlID :: string
  co_Task :: TaskRecord
  co_AffectedTaskIDs :: "string list"
  co_InputID :: string
  co_ContinuationInputID :: string
  co_EffectBoundary :: string
  co_AppliedAt :: instant

definition check_kind :: "ControlRequest \<Rightarrow> go_err + unit" where
  "check_kind req =
     (if ct_Kind req = ControlAmend
      then failif (TrimSpace (ct_Instruction req) = [] \<and> ct_Goal req = None \<and> ct_Constraints req = None \<and>
                   ct_CompletionCriteria req = None \<and> ct_ExecutionPolicy req = [])
             (Detail ErrTaskInvalid ''explicit amendment required'')
      else if ct_Kind req = ControlStop \<or> ct_Kind req = ControlPause \<or> ct_Kind req = ControlResume then Inr ()
      else if ct_Kind req = ControlStatus then failif (ct_Status req = []) ErrTaskInvalid
      else Inl (Detail ErrTaskInvalid ''unsupported owner control''))"

definition ValidateControl :: "ControlRequest \<Rightarrow> go_err + unit" where
  "ValidateControl req =
     bindE (failif (ct_TaskID req = [] \<or> ct_ExpectedRevision req < 0 \<or> 64 * 1024 < length (ct_Instruction req))
              (Detail ErrTaskInvalid ''task identity, nonnegative expected revision and bounded instruction required'')) (\<lambda>_.
     bindE (check_kind req) (\<lambda>_.
     bindE (failif (ct_Kind req \<noteq> ControlAmend \<and> (ct_Goal req \<noteq> None \<or> ct_Constraints req \<noteq> None \<or>
                    ct_CompletionCriteria req \<noteq> None \<or> ct_ExecutionPolicy req \<noteq> [])) ErrTaskInvalid) (\<lambda>_.
     bindE (failif (ct_ExecutionPolicy req \<noteq> [] \<and> ct_ExecutionPolicy req \<noteq> PolicyNormal \<and>
                    ct_ExecutionPolicy req \<noteq> PolicyPrepareOnly) ErrTaskInvalid) (\<lambda>_.
     bindE (failif (\<exists>g \<in> set_option (ct_Goal req). TrimSpace g = []) ErrTaskInvalid) (\<lambda>_.
     bindE (case ct_Constraints req of None \<Rightarrow> Inr () | Some vs \<Rightarrow> validateStrings vs) (\<lambda>_.
     case ct_CompletionCriteria req of
       None \<Rightarrow> Inr ()
     | Some vs \<Rightarrow> bindE (failif (vs = []) ErrTaskInvalid) (\<lambda>_. validateStrings vs)))))))"

section \<open>State and interfaces\<close>

record event_row =
  e_control_id :: string
  e_task_id :: string
  e_owner_id :: string
  e_source :: string
  e_delivery_id :: string
  e_kind :: string
  e_request :: ControlRequest
  e_result :: "ControlResult option"
  e_revision_before :: int
  e_revision_after :: int

record target_row =
  g_control_id :: string
  g_task_id :: string
  g_revision_before :: int
  g_revision_after :: int
  g_previous_working :: WorkingState

record 'x control_db =
  cd_store :: "'x task_db"
  cd_events :: "event_row list"
  cd_targets :: "target_row list"

record control_event =
  ce_EventID :: string
  ce_SessionKey :: string
  ce_Source :: string
  ce_Payload :: json

type_synonym 'x inputs_state = "input_row list \<times> 'x"

record 'x control_ports =
  cx_invalidate_inputs :: "string list \<Rightarrow> string \<Rightarrow> 'x inputs_state \<Rightarrow> go_err + bool \<times> 'x inputs_state"
  cx_resolve_ambiguous :: "string list \<Rightarrow> string \<Rightarrow> 'x inputs_state \<Rightarrow> go_err + 'x inputs_state"
  cx_admit :: "control_event \<Rightarrow> string \<Rightarrow> string \<Rightarrow> string \<Rightarrow> string \<Rightarrow> 'x inputs_state \<Rightarrow> go_err + string \<times> 'x inputs_state"
  cx_invalidate_approvals :: "string list \<Rightarrow> string \<Rightarrow> string \<Rightarrow> 'x \<Rightarrow> go_err + 'x"
  cx_append_transcript :: "string \<Rightarrow> string \<Rightarrow> string \<Rightarrow> json \<Rightarrow> 'x \<Rightarrow> go_err + 'x"
  cx_interactions :: "(string list \<Rightarrow> string \<Rightarrow> string \<Rightarrow> 'x \<Rightarrow> go_err + 'x) option"
  cx_deletions :: "'x \<Rightarrow> (string \<times> string) list"

definition inputs_of :: "'x task_db \<Rightarrow> 'x inputs_state" where
  "inputs_of st = (inputs (td_kernel st), td_other st)"

definition with_inputs :: "'x inputs_state \<Rightarrow> 'x task_db \<Rightarrow> 'x task_db" where
  "with_inputs i st = st\<lparr>td_kernel := (td_kernel st)\<lparr>inputs := fst i\<rparr>, td_other := snd i\<rparr>"

section \<open>Sessions of a tree\<close>

definition default_lease :: "instant \<Rightarrow> string \<Rightarrow> ownership_row" where
  "default_lease now key =
     \<lparr>o_session_key = key, o_lease_id = [], o_run_id = [], o_owner_id = [], o_fence_epoch = 0,
      o_acquired_at = now, o_expires_at = now\<rparr>"

fun ensure_ownership :: "instant \<Rightarrow> string list \<Rightarrow> kernel_db \<Rightarrow> go_err + kernel_db" where
  "ensure_ownership now [] K = Inr K"
| "ensure_ownership now (key # ks) K =
     (if tbl_find o_session_key key (ownership K) \<noteq> None then ensure_ownership now ks K
      else if tbl_find s_session_key key (sessions K) = None then Inl ownership_fk_error
      else ensure_ownership now ks (K\<lparr>ownership := ownership K @ [default_lease now key]\<rparr>))"

fun check_session_owners :: "string \<Rightarrow> string list \<Rightarrow> kernel_db \<Rightarrow> go_err + unit" where
  "check_session_owners owner [] K = Inr ()"
| "check_session_owners owner (key # ks) K =
     bindE (need (tbl_find s_session_key key (sessions K)) ErrNoRows) (\<lambda>s.
     bindE (failif (s_user_id s \<noteq> owner) ErrUnauthorized) (\<lambda>_. check_session_owners owner ks K))"

definition control_sessions :: "Actor \<Rightarrow> task_row \<Rightarrow> task_row list \<Rightarrow> string list" where
  "control_sessions a t rows =
     sort (remdups (map k_session_key (filter (\<lambda>r. k_task_id r \<in> set (task_tree rows (k_task_id t))) rows)) @
           (if ac_SessionKey a \<noteq> [] \<and> ac_SessionKey a \<noteq> k_session_key t then [ac_SessionKey a] else []))"

definition live_tree :: "task_row list \<Rightarrow> string \<Rightarrow> string list" where
  "live_tree rows i =
     sort (concat (map (\<lambda>j. map k_task_id (filter (\<lambda>r. k_task_id r = j \<and> \<not> task_finished (k_status r)) rows)) (tree_query rows i)))"

definition proper_ancestors :: "task_row list \<Rightarrow> string \<Rightarrow> string list" where
  "proper_ancestors rows i = [j. Some j \<leftarrow> parents_query rows i]"

section \<open>Applying a control\<close>

definition control_status :: "ControlRequest \<Rightarrow> string \<Rightarrow> go_err + string" where
  "control_status req current =
     (if ct_Kind req = ControlStop then Inr ''cancelled''
      else if ct_Kind req = ControlPause then Inr ''paused''
      else if ct_Kind req = ControlResume
      then (if current \<noteq> ''paused'' \<and> current \<noteq> ''blocked'' \<and> current \<noteq> ''waiting_for_user'' then Inl ErrTaskConflict
            else Inr ''active'')
      else if ct_Kind req = ControlStatus
      then bindE (ValidateTransition current (ct_Status req)) (\<lambda>_. Inr (ct_Status req))
      else Inr ''active'')"

definition check_activation :: "'x task_hooks \<Rightarrow> string \<Rightarrow> task_row \<Rightarrow> instant \<Rightarrow> 'x task_db \<Rightarrow> go_err + unit" where
  "check_activation h status root now st =
     (if status \<noteq> ''active'' then Inr ()
      else bindE (failif (\<exists>r \<in> set (td_tasks st). k_task_id r \<in> set (proper_ancestors (td_tasks st) (k_task_id root)) \<and>
                            k_status r \<noteq> ''active'') ErrTaskConflict) (\<lambda>_.
           bindE (h_authority h st (k_task_id root) (k_owner_id root) now) (\<lambda>_. Inr ())))"

text \<open>The marker a deletion of the task's content left; it survives a control.\<close>

definition redaction_marker :: "(string \<times> string) list \<Rightarrow> task_row \<Rightarrow> bool" where
  "redaction_marker deletions t \<longleftrightarrow>
     ws_Plan (k_working t) = [] \<and> ws_PendingActions (k_working t) = [] \<and>
     (\<exists>(d, owner) \<in> set deletions. owner = k_owner_id t \<and>
        (ws_Scratch (k_working t) = [(''privacy_redacted'', JBool True), (''deletion_id'', JStr d)] \<or>
         ws_Scratch (k_working t) = [(''deletion_id'', JStr d), (''privacy_redacted'', JBool True)]))"

definition amended :: "ControlRequest \<Rightarrow> string \<Rightarrow> bool \<Rightarrow> task_row \<Rightarrow> task_row" where
  "amended req rootID restricted t =
     (let t1 = (if k_task_id t = rootID
                then t\<lparr>k_goal := (case ct_Goal req of None \<Rightarrow> k_goal t | Some g \<Rightarrow> g),
                       k_constraints := (case ct_Constraints req of None \<Rightarrow> k_constraints t | Some cs \<Rightarrow> cs),
                       k_criteria := (case ct_CompletionCriteria req of None \<Rightarrow> k_criteria t | Some cs \<Rightarrow> cs),
                       k_execution_policy := (if ct_ExecutionPolicy req \<noteq> [] then ct_ExecutionPolicy req else k_execution_policy t)\<rparr>
                else t)
      in t1\<lparr>k_constraints := (if ct_Kind req = ControlAmend \<and> ct_Instruction req \<noteq> []
                              then appendUnique (k_constraints t1) (''Owner amendment: '' @ ct_Instruction req)
                              else k_constraints t1),
            k_execution_policy := (if ct_ExecutionPolicy req = PolicyPrepareOnly \<or> restricted
                                   then PolicyPrepareOnly else k_execution_policy t1)\<rparr>)"

definition controlled :: "(string \<times> string) list \<Rightarrow> ControlRequest \<Rightarrow> json \<Rightarrow> string \<Rightarrow> bool \<Rightarrow> string \<Rightarrow> instant \<Rightarrow> task_row \<Rightarrow> task_row" where
  "controlled deletions req origin rootID restricted status now t =
     (let t1 = amended req rootID restricted t;
          next_status = (if k_task_id t \<noteq> rootID \<and> status \<noteq> ''cancelled'' then ''paused'' else status)
      in t1\<lparr>k_status := next_status, k_revision := k_revision t + 1,
            k_constraints_revision := k_constraints_revision t + 1,
            k_source := obj_put ''last_owner_control'' origin (k_source t),
            k_working := (if redaction_marker deletions t then k_working t else empty_working),
            k_working_revision := k_working_revision t + 1,
            k_completion_result_id := (if next_status = ''completed'' then nullString (ct_ResultID req) else k_completion_result_id t),
            k_finished_at := (if task_finished next_status then Some now else None), k_updated_at := now\<rparr>)"

definition restricted_by_ancestor :: "task_row list \<Rightarrow> string \<Rightarrow> bool" where
  "restricted_by_ancestor rows i \<longleftrightarrow>
     (\<exists>r \<in> set rows. k_task_id r \<in> set (proper_ancestors rows i) \<and> k_execution_policy r = PolicyPrepareOnly)"

definition on_store :: "('x task_db \<Rightarrow> 'x task_db) \<Rightarrow> 'x control_db \<Rightarrow> 'x control_db" where
  "on_store f cd = cd\<lparr>cd_store := f (cd_store cd)\<rparr>"

text \<open>One round of the loop over the affected tasks; \<open>notify\<close> queues what the change of the root announces.\<close>

definition control_target ::
  "(TaskRecord \<Rightarrow> 'x task_db \<Rightarrow> go_err + 'x) \<Rightarrow> ('x \<Rightarrow> (string \<times> string) list) \<Rightarrow> ControlRequest \<Rightarrow> json \<Rightarrow> string \<Rightarrow> string \<Rightarrow> string \<Rightarrow>
   instant \<Rightarrow> string \<Rightarrow> 'x control_db \<Rightarrow> go_err + 'x control_db" where
  "control_target notify deletions req origin controlID rootID status now i cd =
     bindE (task_find i (cd_store cd)) (\<lambda>t.
     let st = cd_store cd;
         f = controlled (deletions (td_other st)) req origin rootID (restricted_by_ancestor (td_tasks st) i) status now;
         cd = cd\<lparr>cd_store := set_tasks (\<lambda>r. k_task_id r = i) f st,
                 cd_targets := cd_targets cd @
                   [\<lparr>g_control_id = controlID, g_task_id = i, g_revision_before = k_revision t,
                     g_revision_after = k_revision t + 1, g_previous_working = k_working t\<rparr>]\<rparr>
     in if i = rootID
        then bindE (notify (scan_task (f t)) (cd_store cd)) (\<lambda>x. Inr (on_store (\<lambda>st. st\<lparr>td_other := x\<rparr>) cd))
        else Inr cd)"

fun control_targets ::
  "(TaskRecord \<Rightarrow> 'x task_db \<Rightarrow> go_err + 'x) \<Rightarrow> ('x \<Rightarrow> (string \<times> string) list) \<Rightarrow> ControlRequest \<Rightarrow> json \<Rightarrow> string \<Rightarrow> string \<Rightarrow> string \<Rightarrow>
   instant \<Rightarrow> string list \<Rightarrow> 'x control_db \<Rightarrow> go_err + 'x control_db" where
  "control_targets notify deletions req origin controlID rootID status now [] cd = Inr cd"
| "control_targets notify deletions req origin controlID rootID status now (i # is) cd =
     bindE (control_target notify deletions req origin controlID rootID status now i cd)
       (control_targets notify deletions req origin controlID rootID status now is)"

text \<open>Leases, inputs, approvals and runs of the affected tasks.\<close>

definition stop_attempts ::
  "'x control_ports \<Rightarrow> Actor \<Rightarrow> string list \<Rightarrow> string list \<Rightarrow> string \<Rightarrow> instant \<Rightarrow> 'x task_db \<Rightarrow> go_err + bool \<times> 'x task_db" where
  "stop_attempts P a ids ks controlID now st =
     bindE (cx_invalidate_inputs P ids controlID (inputs_of st)) (\<lambda>(uncertain, i).
     bindE (cx_resolve_ambiguous P ks (ac_OwnerID a) i) (\<lambda>i.
     let st = with_inputs i st in
     bindE (cx_invalidate_approvals P ids controlID (ac_OwnerID a) (td_other st)) (\<lambda>x.
     Inr (uncertain, st\<lparr>td_other := x, td_kernel := CancelForControlTx ids controlID now (td_kernel st)\<rparr>))))"

text \<open>The input that continues an amended or resumed task.\<close>

definition admit_continuation ::
  "'x control_ports \<Rightarrow> Actor \<Rightarrow> ControlRequest \<Rightarrow> string \<Rightarrow> string \<Rightarrow> task_row \<Rightarrow> control_event \<Rightarrow> 'x task_db \<Rightarrow> go_err + string \<times> 'x task_db" where
  "admit_continuation P a req controlID status root event st =
     (if status = ''active'' \<and> (ct_Kind req = ControlAmend \<or> ct_Kind req = ControlResume)
      then bindE (need (tbl_find s_session_key (k_session_key root) (sessions (td_kernel st))) ErrNoRows) (\<lambda>s.
           bindE (cx_admit P (event\<lparr>ce_EventID := controlID @ '':continue'', ce_Source := s_channel s\<rparr>)
                    (ac_OwnerID a) (k_task_id root) ''queued'' ''accepted'' (inputs_of st)) (\<lambda>(c, i).
           Inr (c, with_inputs i st)))
      else Inr ([], st))"

text \<open>The inputs and messages a control leaves for the task's conversation.\<close>

definition announce ::
  "'x control_ports \<Rightarrow> Actor \<Rightarrow> ControlRequest \<Rightarrow> string \<Rightarrow> string \<Rightarrow> string list \<Rightarrow> TaskRecord \<Rightarrow> task_row \<Rightarrow> 'x task_db
     \<Rightarrow> go_err + (string \<times> string) \<times> 'x task_db" where
  "announce P a req controlID status ids updated root st =
     (let instruction = (if TrimSpace (ct_Instruction req) = [] then ''Owner control: '' @ ct_Kind req
                         else TrimSpace (ct_Instruction req));
          payload = JObj [(''control_id'', JStr controlID), (''task_id'', JStr (k_task_id root)),
                      (''task_revision'', JNum (tt_Revision updated)), (''text'', JStr instruction),
                      (''user_id'', JStr (ac_OwnerID a))];
          event = \<lparr>ce_EventID = controlID, ce_SessionKey = k_session_key root, ce_Source = ac_Channel a, ce_Payload = payload\<rparr>
      in
     bindE (cx_admit P event (ac_OwnerID a) (k_task_id root) ''completed'' ''owner_control_applied'' (inputs_of st)) (\<lambda>(inputID, i).
     let st = with_inputs i st in
     bindE (cx_append_transcript P (k_session_key root) controlID instruction
              (JObj [(''control_id'', JStr controlID), (''kind'', JStr ''owner_control''), (''source'', JStr (ac_Channel a)),
                (''task_id'', JStr (k_task_id root)), (''task_revision'', JNum (tt_Revision updated))]) (td_other st)) (\<lambda>x.
     let st = st\<lparr>td_other := x\<rparr> in
     bindE (admit_continuation P a req controlID status root event st) (\<lambda>(continuation, st).
     bindE (case cx_interactions P of
              None \<Rightarrow> Inr (td_other st)
            | Some f \<Rightarrow> f ids (ct_Kind req) continuation (td_other st)) (\<lambda>x.
     Inr ((inputID, continuation), st\<lparr>td_other := x\<rparr>))))))"

definition event_conflict :: go_err where
  "event_conflict = PgError ''23505'' ''duplicate key value violates unique constraint \"task_control_events_pkey\"''"

definition new_event :: "Actor \<Rightarrow> ControlRequest \<Rightarrow> string \<Rightarrow> task_row \<Rightarrow> event_row" where
  "new_event a req controlID root =
     \<lparr>e_control_id = controlID, e_task_id = k_task_id root, e_owner_id = ac_OwnerID a, e_source = ac_Channel a,
      e_delivery_id = ac_DeliveryID a, e_kind = ct_Kind req, e_request = req, e_result = None,
      e_revision_before = k_revision root, e_revision_after = k_revision root + 1\<rparr>"

definition control_origin :: "Actor \<Rightarrow> ControlRequest \<Rightarrow> string \<Rightarrow> json" where
  "control_origin a req controlID =
     JObj [(''channel'', JStr (ac_Channel a)), (''control_id'', JStr controlID), (''delivery_id'', JStr (ac_DeliveryID a)),
       (''instruction'', JStr (ct_Instruction req))]"

definition delivered :: "Actor \<Rightarrow> event_row list \<Rightarrow> event_row option" where
  "delivered a events =
     first_row (\<lambda>e. e_owner_id e = ac_OwnerID a \<and> e_source e = ac_Channel a \<and> e_delivery_id e = ac_DeliveryID a) events"

text \<open>A result column still holding \<^verbatim>\<open>{}\<close> decodes to the zero result.\<close>

definition zero_result :: ControlResult where
  "zero_result =
     \<lparr>co_ControlID = [], co_Task = \<lparr>tt_TaskID = [], tt_SessionKey = [], tt_OwnerID = [], tt_ParentTaskID = [], tt_Goal = [],
        tt_Source = [], tt_Status = [], tt_Revision = 0, tt_ConstraintsRevision = 0, tt_ExecutionPolicy = [],
        tt_Constraints = [], tt_CompletionCriteria = [], tt_Working = empty_working, tt_WorkingRevision = 0,
        tt_LastRunID = [], tt_CompletionResultID = [], tt_Legacy = False, tt_ResultDelivery = [], tt_CreatedAt = 0,
        tt_UpdatedAt = 0, tt_FinishedAt = None\<rparr>,
      co_AffectedTaskIDs = [], co_InputID = [], co_ContinuationInputID = [], co_EffectBoundary = [], co_AppliedAt = 0\<rparr>"

definition stored_result :: "event_row \<Rightarrow> ControlResult" where
  "stored_result e = (case e_result e of None \<Rightarrow> zero_result | Some r \<Rightarrow> r)"

text \<open>Everything after the checks that change nothing: the part of the transaction that applies a new
  control to the live tasks \<open>ids\<close> of the tree, with leases already revoked in \<open>cd\<close>.\<close>

definition apply_new ::
  "'x task_hooks \<Rightarrow> 'x control_ports \<Rightarrow> Actor \<Rightarrow> exec_ctx \<Rightarrow> string option \<Rightarrow> instant \<Rightarrow> ControlRequest \<Rightarrow> string list \<Rightarrow>
   string list \<Rightarrow> task_row \<Rightarrow> 'x control_db \<Rightarrow> go_err + ControlResult \<times> 'x control_db" where
  "apply_new h P a ctx rnd now req ks ids root cd =
     bindE (control_status req (k_status root)) (\<lambda>status.
     bindE (check_completion status (ct_ResultID req) (scan_task root) (cd_store cd)) (\<lambda>_.
     bindE (check_activation h status root now (cd_store cd)) (\<lambda>_.
     bindE (newID ''control'' rnd) (\<lambda>controlID.
     bindE (stop_attempts P a ids ks controlID now (cd_store cd)) (\<lambda>(uncertain, st).
     bindE (failif (tbl_find e_control_id controlID (cd_events cd) \<noteq> None) event_conflict) (\<lambda>_.
     bindE (control_targets (h_notify h (Some a) ctx (scan_task root)) (cx_deletions P) req (control_origin a req controlID) controlID
              (k_task_id root) status now ids
              (cd\<lparr>cd_store := st, cd_events := cd_events cd @ [new_event a req controlID root]\<rparr>)) (\<lambda>cd.
     bindE (task_Get (k_task_id root) (cd_store cd)) (\<lambda>updated.
     bindE (announce P a req controlID status ids updated root (cd_store cd)) (\<lambda>((inputID, continuation), st).
     let result = \<lparr>co_ControlID = controlID, co_Task = updated, co_AffectedTaskIDs = ids, co_InputID = inputID,
                   co_ContinuationInputID = continuation,
                   co_EffectBoundary = (if uncertain then ''dispatch_may_have_committed_reconciliation_required''
                                       else ''previous_external_effects_preserved''),
                   co_AppliedAt = now\<rparr>
     in Inr (result, cd\<lparr>cd_store := st,
          cd_events := tbl_update (\<lambda>e. e_control_id e = controlID) (\<lambda>e. e\<lparr>e_result := Some result\<rparr>) (cd_events cd)\<rparr>))))))))))"

definition apply_body ::
  "'x task_hooks \<Rightarrow> 'x control_ports \<Rightarrow> ('x control_db \<Rightarrow> go_err + unit) \<Rightarrow> Actor option \<Rightarrow> exec_ctx \<Rightarrow> string option \<Rightarrow> instant \<Rightarrow>
   ControlRequest \<Rightarrow> 'x control_db \<Rightarrow> go_err + ControlResult \<times> 'x control_db" where
  "apply_body h P guard actor ctx rnd now req cd =
     bindE (need (FromContext actor) ErrUnauthorized) (\<lambda>a.
     bindE (ValidateControl req) (\<lambda>_.
     bindE (task_find (ct_TaskID req) (cd_store cd)) (\<lambda>root.
     bindE (failif (k_owner_id root \<noteq> ac_OwnerID a) ErrUnauthorized) (\<lambda>_.
     bindE (lockTreeTx (cd_store cd) (k_task_id root)) (\<lambda>_.
     let rows = td_tasks (cd_store cd); ks = control_sessions a root rows in
     bindE (ensure_ownership now ks (td_kernel (cd_store cd))) (\<lambda>K.
     bindE (check_session_owners (ac_OwnerID a) ks K) (\<lambda>_.
     let cd = on_store (\<lambda>st. st\<lparr>td_kernel := K\<rparr>) cd in
     case delivered a (cd_events cd) of
       Some e \<Rightarrow>
         bindE (failif (e_request e \<noteq> req) ErrTaskConflict) (\<lambda>_.
         bindE (guard cd) (\<lambda>_. Inr (stored_result e, cd)))
     | None \<Rightarrow>
         let ids = live_tree rows (ct_TaskID req) in
         bindE (failif (ids = []) ErrTaskConflict) (\<lambda>_.
         bindE (failif (task_finished (k_status root) \<or>
                        ct_ExpectedRevision req \<noteq> 0 \<and> k_revision root \<noteq> ct_ExpectedRevision req) ErrTaskConflict) (\<lambda>_.
         bindE (guard cd) (\<lambda>_.
         apply_new h P a ctx rnd now req ks ids root
           (on_store (\<lambda>st. st\<lparr>td_kernel := RevokeForControlTx ids now (td_kernel st)\<rparr>) cd)))))))))))"

definition ApplyWithGuard where
  "ApplyWithGuard h P guard actor ctx rnd now req = run_tx (apply_body h P guard actor ctx rnd now req)"

definition Apply where
  "Apply h P actor ctx rnd now req = ApplyWithGuard h P (\<lambda>_. Inr ()) actor ctx rnd now req"

section \<open>Choosing the target\<close>

definition ResolveTarget :: "Actor option \<Rightarrow> string \<Rightarrow> 'x task_db \<Rightarrow> go_err + TaskRecord" where
  "ResolveTarget actor i st =
     bindE (need (FromContext actor) ErrUnauthorized) (\<lambda>a.
     if i \<noteq> []
     then bindE (task_Get i st) (\<lambda>r. bindE (failif (tt_OwnerID r \<noteq> ac_OwnerID a) ErrUnauthorized) (\<lambda>_. Inr r))
     else case take 2 (sort_key k_created_at
                 (filter (\<lambda>r. k_owner_id r = ac_OwnerID a \<and> \<not> task_finished (k_status r) \<and> k_parent_task_id r = None) (td_tasks st))) of
            [r] \<Rightarrow> Inr (scan_task r)
          | _ \<Rightarrow> Inl ErrTaskConflict)"

definition DeliveryTarget :: "Actor option \<Rightarrow> 'x control_db \<Rightarrow> go_err + string" where
  "DeliveryTarget actor cd =
     bindE (need (FromContext actor) ErrUnauthorized) (\<lambda>a.
     Inr (case delivered a (cd_events cd) of None \<Rightarrow> [] | Some e \<Rightarrow> e_task_id e))"

end
