(* ===== verification/TaskMobile.thy ===== *)
theory TaskMobile
  imports Task
begin

text \<open>
  The verifier of processed mobile notifications (\<^verbatim>\<open>task/mobile_verification.go\<close>): the one path besides
  the owner that completes a task. The tables of attention batches, initiatives, messages and memory
  sources belong to other components; what the verifier reads there is a record of functions. Its
  conditions on tasks, runs and inputs are written out. The summary is in Russian: its texts are
  lists of code points, encoded as UTF-8.
\<close>

definition utf8_of :: "nat list \<Rightarrow> string" where
  "utf8_of cs = concat (map (\<lambda>c. if c < 128 then [char_of c] else [char_of (192 + c div 64), char_of (128 + c mod 64)]) cs)"

record mobile_counts =
  mc_total :: int
  mc_pending :: int
  mc_remembered :: int
  mc_invalid :: int

text \<open>Whether a task belongs to a finished batch and its run left a final result; the batch of a task, when its source is enabled and current and the run
  left a final result for the task's revision; the guard on the run's sources, when one is installed;
  the states of the batch's messages; the queueing of the notification.\<close>

record 'x mobile_ports =
  mb_candidate :: "'x \<Rightarrow> task_row \<Rightarrow> bool"
  mb_batch :: "'x \<Rightarrow> string \<Rightarrow> json option \<Rightarrow> string \<Rightarrow> string \<Rightarrow> int \<Rightarrow> string option"
  mb_source_guard :: "('x task_db \<Rightarrow> string \<Rightarrow> bool) option"
  mb_counts :: "'x \<Rightarrow> string \<Rightarrow> string \<Rightarrow> go_err + mobile_counts"
  mb_notify :: "TaskRecord \<Rightarrow> TaskRecord \<Rightarrow> 'x task_db \<Rightarrow> go_err + 'x"

definition inputs_settled :: "string \<Rightarrow> string \<Rightarrow> string \<Rightarrow> kernel_db \<Rightarrow> bool" where
  "inputs_settled i own runID K \<longleftrightarrow>
     (\<exists>a \<in> set (inputs K). i_run_id a = Some runID \<and> i_task_id a = Some i \<and> i_owner_id a = own \<and> i_status a = ''completed'') \<and>
     \<not> (\<exists>a \<in> set (inputs K). i_task_id a = Some i \<and> (i_status a = ''queued'' \<or> i_status a = ''running''))"

definition mobile_run :: "string \<Rightarrow> string \<Rightarrow> TaskRecord \<Rightarrow> kernel_db \<Rightarrow> run_row option" where
  "mobile_run i own before K =
     (if inputs_settled i own (tt_LastRunID before) K
      then first_row (\<lambda>r. r_run_id r = tt_LastRunID before \<and> r_task_id r = Some i \<and> r_status r = ''completed'' \<and>
                          r_task_revision r = Some (tt_Revision before)) (runs K)
      else None)"

definition mobile_summary :: "int \<Rightarrow> int \<Rightarrow> string" where
  "mobile_summary all_of_them kept =
     utf8_of
     [1056, 1072, 1079, 1086, 1073, 1088, 1072, 1083, 32] @ show_int all_of_them @
     utf8_of
     [32, 1089, 1086, 1086, 1073, 1097, 1077, 1085, 1080, 1081, 32, 1080, 1079, 32, 1088, 1072, 1079, 1088, 1077, 1096,
     1105, 1085, 1085, 1099, 1093, 32, 1087, 1088, 1080, 1083, 1086, 1078, 1077, 1085, 1080, 1081, 46, 32, 1057, 1086,
     1093, 1088, 1072, 1085, 1080, 1083, 32, 1087, 1086, 1083, 1077, 1079, 1085, 1099, 1093, 32, 1079, 1072, 1084, 1077,
     1090, 1086, 1082, 58, 32] @ show_int kept @
     utf8_of
     [46, 32, 1054, 1088, 1080, 1075, 1080, 1085, 1072, 1083, 1099, 32, 1080, 32, 1089, 1082, 1088, 1099, 1090, 1099,
     1081, 32, 1096, 1091, 1084, 32, 1076, 1086, 1089, 1090, 1091, 1087, 1085, 1099, 32, 1076, 1083, 1103, 32, 1087,
     1086, 1080, 1089, 1082, 1072, 46]"

definition mobile_result :: "string \<Rightarrow> string \<Rightarrow> string \<Rightarrow> TaskRecord \<Rightarrow> mobile_counts \<Rightarrow> instant \<Rightarrow> result_row" where
  "mobile_result resultID batch runID before n now =
     \<lparr>q_result_id = resultID, q_task_id = tt_TaskID before, q_task_revision = tt_Revision before, q_run_id = Some runID,
      q_summary = mobile_summary (mc_total n) (mc_remembered n), q_evidence_refs = [''mobile_batch:'' @ batch],
      q_verified_criteria = tt_CompletionCriteria before, q_verdict = ''verified'', q_verifier = ''mobile_batch_v1'',
      q_created_at = now\<rparr>"

definition mobile_completed :: "string \<Rightarrow> instant \<Rightarrow> task_row \<Rightarrow> task_row" where
  "mobile_completed resultID now t =
     t\<lparr>k_status := ''completed'', k_revision := k_revision t + 1, k_constraints_revision := k_constraints_revision t + 1,
        k_completion_result_id := Some resultID, k_finished_at := Some now, k_updated_at := now\<rparr>"

text \<open>The part that writes: the result, the second look at the authority, the completion.
  \<^verbatim>\<open>return nil\<close> before the commit rolls back: it leaves the state of the start.\<close>

definition complete_mobile ::
  "'x task_hooks \<Rightarrow> 'x mobile_ports \<Rightarrow> string option \<Rightarrow> instant \<Rightarrow> instant \<Rightarrow> string \<Rightarrow> string \<Rightarrow> string \<Rightarrow> TaskRecord \<Rightarrow> mobile_counts \<Rightarrow>
     'x task_db \<Rightarrow> go_err + unit \<times> 'x task_db" where
  "complete_mobile h P rnd now now2 own batch runID before n st =
     bindE (newID ''result'' rnd) (\<lambda>resultID.
     bindE (insert_result (mobile_result resultID batch runID before n now) st) (\<lambda>st1.
     case h_authority h st1 (tt_TaskID before) own now2 of
       Inl _ \<Rightarrow> Inr ((), st)
     | Inr _ \<Rightarrow>
         bindE (update_returning ErrTaskNotFound (\<lambda>r. k_task_id r = tt_TaskID before) (mobile_completed resultID now2) st1) (\<lambda>(after, st2).
         if 0 < mc_remembered n
         then bindE (mb_notify P before after st2) (\<lambda>x. Inr ((), st2\<lparr>td_other := x\<rparr>))
         else Inr ((), st2))))"

definition verify_mobile_body ::
  "'x task_hooks \<Rightarrow> 'x mobile_ports \<Rightarrow> string option \<Rightarrow> instant \<Rightarrow> instant \<Rightarrow> string \<Rightarrow> 'x task_db \<Rightarrow> go_err + unit \<times> 'x task_db" where
  "verify_mobile_body h P rnd now now2 i st =
     bindE (need (mb_source_guard P) ErrUnauthorized) (\<lambda>guard.
     bindE (need (tbl_find k_task_id i (td_tasks st)) ErrNoRows) (\<lambda>t.
     bindE (need (tbl_find s_session_key (k_session_key t) (sessions (td_kernel st))) ErrNoRows) (\<lambda>s.
     let before = scan_task t; own = s_user_id s in
     if tt_Status before \<noteq> ''active'' \<or> tt_ParentTaskID before \<noteq> [] \<or> tt_OwnerID before \<noteq> own then Inr ((), st)
     else
       case h_authority h st i own now of
         Inl _ \<Rightarrow> Inr ((), st)
       | Inr _ \<Rightarrow>
           (case (mb_batch P (td_other st) i (map_of (tt_Source before) ''mobile_batch_id'') own (tt_LastRunID before) (tt_Revision before),
                  mobile_run i own before (td_kernel st)) of
              (Some batch, Some r) \<Rightarrow>
                if \<not> guard st (r_run_id r) then Inr ((), st)
                else
                  bindE (mb_counts P (td_other st) batch own) (\<lambda>n.
                  if mc_total n < 1 \<or> mc_pending n \<noteq> 0 \<or> mc_invalid n \<noteq> 0 then Inr ((), st)
                  else complete_mobile h P rnd now now2 own batch (r_run_id r) before n st)
            | _ \<Rightarrow> Inr ((), st)))))"

definition verifyMobileResult where
  "verifyMobileResult h P rnd now now2 i = run_tx (verify_mobile_body h P rnd now now2 i)"

fun verify_all ::
  "'x task_hooks \<Rightarrow> 'x mobile_ports \<Rightarrow> (string \<Rightarrow> string option \<times> instant \<times> instant) \<Rightarrow> string list \<Rightarrow> 'x task_db
     \<Rightarrow> (go_err, unit, 'x task_db) outcome" where
  "verify_all h P src [] st = (Inr (), st)"
| "verify_all h P src (i # is) st =
     (case src i of (rnd, now, now2) \<Rightarrow>
        (case verifyMobileResult h P rnd now now2 i st of
           (Inl e, st') \<Rightarrow> (Inl e, st')
         | (Inr _, st') \<Rightarrow> verify_all h P src is st'))"

definition mobile_candidates :: "'x mobile_ports \<Rightarrow> 'x task_db \<Rightarrow> string list" where
  "mobile_candidates P st =
     take 20 (map k_task_id (sort_key k_created_at (filter (\<lambda>t. k_status t = ''active'' \<and> k_parent_task_id t = None \<and>
       mb_candidate P (td_other st) t \<and>
       (\<exists>r \<in> set (runs (td_kernel st)). k_last_run_id t = Some (r_run_id r) \<and> r_status r = ''completed'' \<and>
          r_task_revision r = Some (k_revision t) \<and> inputs_settled (k_task_id t) (k_owner_id t) (r_run_id r) (td_kernel st))) (td_tasks st))))"

text \<open>Randomness and clock are given per task. Owners and workers may not run the verifier.\<close>

definition ReconcileMobileResults ::
  "'x task_hooks \<Rightarrow> 'x mobile_ports \<Rightarrow> Actor option \<Rightarrow> exec_ctx \<Rightarrow> (string \<Rightarrow> string option \<times> instant \<times> instant) \<Rightarrow> 'x task_db
     \<Rightarrow> (go_err, unit, 'x task_db) outcome" where
  "ReconcileMobileResults h P actor ctx src st =
     (if FromContext actor \<noteq> None \<or> TokenFromContext ctx \<noteq> None then (Inl ErrUnauthorized, st)
      else verify_all h P src (mobile_candidates P st) st)"

end
