(* ===== verification/TaskInv.thy ===== *)
theory TaskInv
  imports TaskControl TaskMobile
begin

text \<open>
  The invariant of the task tables and the steps that keep it: every operation of the store and of
  the owner controls, interleaved with arbitrary changes of the kernel tables and of the other
  components' state. Trees of tasks are the closure of the parent relation.
\<close>

section \<open>The parent relation\<close>

definition up :: "task_row list \<Rightarrow> (string \<times> string) set" where
  "up rows = {(k_task_id r, p) | r p. r \<in> set rows \<and> k_parent_task_id r = Some p \<and> p \<in> k_task_id ` set rows}"

lemma up_domain: "(i, j) \<in> up rows \<Longrightarrow> i \<in> k_task_id ` set rows \<and> j \<in> k_task_id ` set rows"
  by (auto simp: up_def)

lemma up_star_domain: "(i, j) \<in> (up rows)\<^sup>* \<Longrightarrow> j \<in> k_task_id ` set rows \<Longrightarrow> i \<in> k_task_id ` set rows"
  by (induction rule: converse_rtrancl_induct) (auto dest: up_domain)

lemma finite_ids: "finite (k_task_id ` set rows)" "card (k_task_id ` set rows - X) \<le> length rows"
proof -
  have "card (k_task_id ` set rows - X) \<le> card (k_task_id ` set rows)" by (intro card_mono) auto
  also have "\<dots> \<le> length rows" by (metis card_length length_map set_map)
  finally show "card (k_task_id ` set rows - X) \<le> length rows" .
qed simp

lemma task_start_set: "set (task_start rows i) = {i} \<inter> k_task_id ` set rows"
  by (auto simp: task_start_def tbl_find_None_iff split: if_splits)

lemma children_of_iff: "j \<in> set (children_of rows is) \<longleftrightarrow> (\<exists>r \<in> set rows. k_task_id r = j \<and> (\<exists>p \<in> set is. k_parent_task_id r = Some p))"
  by (auto simp: children_of_def)

lemma parents_of_iff: "j \<in> set (parents_of rows is) \<longleftrightarrow> (\<exists>i \<in> set is. (i, j) \<in> up rows)"
  by (auto simp: parents_of_def up_def)

lemma task_tree_reach:
  assumes "i \<in> k_task_id ` set rows"
  shows "set (task_tree rows i) = {j. (j, i) \<in> (up rows)\<^sup>*}"
proof
  have within: "set (children_of rows is) \<subseteq> k_task_id ` set rows" for "is" by (auto simp: children_of_def)
  have i: "i \<in> set (task_start rows i)" using assms by (simp add: task_start_set)
  show "set (task_tree rows i) \<subseteq> {j. (j, i) \<in> (up rows)\<^sup>*}"
  proof
    fix x assume "x \<in> set (task_tree rows i)"
    then have "x \<in> k_task_id ` set rows \<and> (x, i) \<in> (up rows)\<^sup>*"
      unfolding task_tree_def
    proof (rule closure_induct [rotated 2])
      show "j \<in> k_task_id ` set rows \<and> (j, i) \<in> (up rows)\<^sup>*" if "j \<in> set (task_start rows i)" for j
        using that assms by (auto simp: task_start_set)
      show "j \<in> k_task_id ` set rows \<and> (j, i) \<in> (up rows)\<^sup>*"
        if step: "\<And>k. k \<in> set is \<Longrightarrow> k \<in> k_task_id ` set rows \<and> (k, i) \<in> (up rows)\<^sup>*" and child: "j \<in> set (children_of rows is)" for "is" j
      proof -
        obtain r p where r: "r \<in> set rows" "k_task_id r = j" "p \<in> set is" "k_parent_task_id r = Some p"
          using child by (auto simp: children_of_iff)
        with step [OF r(3)] have "(j, p) \<in> up rows" by (auto simp: up_def)
        with step [OF r(3)] r(1,2) show ?thesis by (auto intro: converse_rtrancl_into_rtrancl)
      qed
    qed
    then show "x \<in> {j. (j, i) \<in> (up rows)\<^sup>*}" by simp
  qed
  have closed: "set (children_of rows (task_tree rows i)) \<subseteq> set (task_tree rows i)"
    unfolding task_tree_def by (rule closure_closed [OF finite_ids(1) within finite_ids(2)])
  show "{j. (j, i) \<in> (up rows)\<^sup>*} \<subseteq> set (task_tree rows i)"
  proof
    fix j assume "j \<in> {j. (j, i) \<in> (up rows)\<^sup>*}"
    then have "(j, i) \<in> (up rows)\<^sup>*" by simp
    then show "j \<in> set (task_tree rows i)"
    proof (induction rule: converse_rtrancl_induct)
      case base
      show ?case using i closure_extends [of "task_start rows i"] by (auto simp: task_tree_def)
    next
      case (step a b)
      then have "a \<in> set (children_of rows (task_tree rows i))" by (auto simp: up_def children_of_iff)
      with closed show ?case by blast
    qed
  qed
qed

lemma task_ancestors_reach:
  assumes "i \<in> k_task_id ` set rows"
  shows "set (task_ancestors rows i) = {j. (i, j) \<in> (up rows)\<^sup>*}"
proof
  have within: "set (parents_of rows is) \<subseteq> k_task_id ` set rows" for "is" by (auto simp: parents_of_def)
  have i: "i \<in> set (task_start rows i)" using assms by (simp add: task_start_set)
  show "set (task_ancestors rows i) \<subseteq> {j. (i, j) \<in> (up rows)\<^sup>*}"
  proof
    fix x assume "x \<in> set (task_ancestors rows i)"
    then have "(i, x) \<in> (up rows)\<^sup>*"
      unfolding task_ancestors_def
    proof (rule closure_induct [rotated 2])
      show "(i, j) \<in> (up rows)\<^sup>*" if "j \<in> set (task_start rows i)" for j using that by (simp add: task_start_set)
      show "(i, j) \<in> (up rows)\<^sup>*" if "\<And>k. k \<in> set is \<Longrightarrow> (i, k) \<in> (up rows)\<^sup>*" and "j \<in> set (parents_of rows is)" for "is" j
        using that unfolding parents_of_iff by (blast intro: rtrancl_into_rtrancl)
    qed
    then show "x \<in> {j. (i, j) \<in> (up rows)\<^sup>*}" by simp
  qed
  have closed: "set (parents_of rows (task_ancestors rows i)) \<subseteq> set (task_ancestors rows i)"
    unfolding task_ancestors_def by (rule closure_closed [OF finite_ids(1) within finite_ids(2)])
  show "{j. (i, j) \<in> (up rows)\<^sup>*} \<subseteq> set (task_ancestors rows i)"
  proof
    fix j assume "j \<in> {j. (i, j) \<in> (up rows)\<^sup>*}"
    then have "(i, j) \<in> (up rows)\<^sup>*" by simp
    then show "j \<in> set (task_ancestors rows i)"
    proof (induction rule: rtrancl_induct)
      case base
      show ?case using i closure_extends [of "task_start rows i"] by (auto simp: task_ancestors_def)
    next
      case (step a b)
      then show ?case using closed parents_of_iff by blast
    qed
  qed
qed

text \<open>The joins of the queries that keep duplicates, and that they find the same tasks.\<close>

lemma child_joins: "joins (child_rows rows) = {(p, k_task_id r) | r p. r \<in> set rows \<and> k_parent_task_id r = Some p}"
  by (auto simp: joins_def child_rows_def)

lemma parent_joins: "joins (parent_rows rows) = {(Some (k_task_id r), k_parent_task_id r) | r. r \<in> set rows}"
  by (auto simp: joins_def parent_rows_def split: option.splits)

lemma joins_finite:
  "finite (joins (child_rows rows))" "card (joins (child_rows rows)) \<le> length rows"
  "finite (joins (parent_rows rows))" "card (joins (parent_rows rows)) \<le> length rows"
proof -
  let ?c = "(\<lambda>r. (the (k_parent_task_id r), k_task_id r)) ` set rows" and ?p = "(\<lambda>r. (Some (k_task_id r), k_parent_task_id r)) ` set rows"
  have sub: "joins (child_rows rows) \<subseteq> ?c" "joins (parent_rows rows) \<subseteq> ?p" by (force simp: child_joins parent_joins)+
  then show "finite (joins (child_rows rows))" "finite (joins (parent_rows rows))" by (auto intro: finite_subset)
  have "card ?c \<le> length rows" "card ?p \<le> length rows" by (meson card_image_le card_length finite_set order_trans)+
  with sub show "card (joins (child_rows rows)) \<le> length rows" "card (joins (parent_rows rows)) \<le> length rows"
    by (meson card_mono finite_imageI finite_set order_trans)+
qed

lemma child_joins_up: "a \<in> k_task_id ` set rows \<Longrightarrow> (a, b) \<in> (joins (child_rows rows))\<^sup>* \<longleftrightarrow> (b, a) \<in> (up rows)\<^sup>*"
proof
  assume "a \<in> k_task_id ` set rows" and "(a, b) \<in> (joins (child_rows rows))\<^sup>*"
  from this(2,1) have "b \<in> k_task_id ` set rows \<and> (b, a) \<in> (up rows)\<^sup>*"
    by (induction rule: rtrancl_induct) (auto simp: child_joins up_def intro: converse_rtrancl_into_rtrancl)
  then show "(b, a) \<in> (up rows)\<^sup>*" ..
next
  assume "(b, a) \<in> (up rows)\<^sup>*"
  then show "(a, b) \<in> (joins (child_rows rows))\<^sup>*"
    by (induction rule: converse_rtrancl_induct) (auto simp: child_joins up_def intro: rtrancl_into_rtrancl)
qed

lemma child_joins_acyclic:
  assumes "acyclic (up rows)"
  shows "acyclic (joins (child_rows rows))"
  unfolding acyclic_def
proof (intro allI notI)
  fix x assume cycle: "(x, x) \<in> (joins (child_rows rows))\<^sup>+"
  then obtain y where y: "(x, y) \<in> (joins (child_rows rows))\<^sup>*" "(y, x) \<in> joins (child_rows rows)" by (meson tranclD2)
  then have x: "x \<in> k_task_id ` set rows" by (auto simp: child_joins)
  then have "(y, x) \<in> (up rows)\<^sup>*" using y(1) child_joins_up by blast
  moreover from this have "(x, y) \<in> up rows" using y(2) up_star_domain x by (fastforce simp: child_joins up_def)
  ultimately show False using assms unfolding acyclic_def by (meson rtrancl_into_trancl2)
qed

lemma tree_query_set: "set (tree_query rows i) = set (task_tree rows i)"
proof (cases "i \<in> k_task_id ` set rows")
  case True
  then have start: "set (map k_task_id (filter (\<lambda>r. k_task_id r = i) rows)) = {i}" by force
  have "j \<in> set (tree_query rows i) \<longleftrightarrow> (j, i) \<in> (up rows)\<^sup>*" for j
    unfolding tree_query_def union_all_reach [OF joins_finite(1,2)] start using child_joins_up [OF True] by simp
  then show ?thesis using task_tree_reach [OF True] by (simp add: set_eq_iff)
next
  case False
  then have start: "task_start rows i = []" "filter (\<lambda>r. k_task_id r = i) rows = []"
    by (auto simp: task_start_def tbl_find_None_iff filter_empty_conv)
  have "closure_upto (children_of rows) n [] = []" "union_all (child_rows rows) n [] = []" for n
    by (cases n; simp add: children_of_def)+
  with start show ?thesis by (simp add: tree_query_def task_tree_def)
qed

lemma tree_query_distinct:
  assumes "keyed k_task_id rows" and "acyclic (up rows)"
  shows "distinct (tree_query rows i)"
  unfolding tree_query_def
proof (rule union_all_distinct [OF child_joins_acyclic [OF assms(2)]])
  have dist: "distinct (map k_task_id (filter P rows))" for P
    using assms(1) by (simp only: keyed_def distinct_map_filter)
  then show "distinct (child_rows rows x)" "distinct (map k_task_id (filter (\<lambda>r. k_task_id r = i) rows))" for x
    by (simp_all add: child_rows_def)
  show "x = x'" if y: "y \<in> set (child_rows rows x)" "y \<in> set (child_rows rows x')" for x x' y
  proof -
    obtain r r' where "r \<in> set rows" "r' \<in> set rows" "k_task_id r = k_task_id r'" "k_parent_task_id r = Some x" "k_parent_task_id r' = Some x'"
      using y by (auto simp: child_rows_def)
    then show ?thesis using keyed_eq [OF assms(1), of r r'] by simp
  qed
  show "(w, v) \<notin> (joins (child_rows rows))\<^sup>+"
    if "w \<in> set (map k_task_id (filter (\<lambda>r. k_task_id r = i) rows))" "v \<in> set (map k_task_id (filter (\<lambda>r. k_task_id r = i) rows))" for w v
    using that child_joins_acyclic [OF assms(2)] by (auto simp: acyclic_def)
qed

lemma parent_joins_up:
  assumes "j \<in> k_task_id ` set rows"
  shows "(Some i, Some j) \<in> (joins (parent_rows rows))\<^sup>+ \<longleftrightarrow> (i, j) \<in> (up rows)\<^sup>+"
proof
  have "\<forall>k. v = Some k \<and> k \<in> k_task_id ` set rows \<longrightarrow> (i, k) \<in> (up rows)\<^sup>+" if "(Some i, v) \<in> (joins (parent_rows rows))\<^sup>+" for v
    using that
  proof (induction rule: trancl_induct)
    case (base v)
    then show ?case by (auto simp: parent_joins up_def)
  next
    case (step u v)
    then show ?case by (fastforce simp: parent_joins up_def intro: trancl_into_trancl)
  qed
  then show "(Some i, Some j) \<in> (joins (parent_rows rows))\<^sup>+ \<Longrightarrow> (i, j) \<in> (up rows)\<^sup>+" using assms by blast
  have up_joins: "(Some a, Some b) \<in> joins (parent_rows rows)" if "(a, b) \<in> up rows" for a b using that by (force simp: parent_joins up_def)
  show "(Some i, Some j) \<in> (joins (parent_rows rows))\<^sup>+" if "(i, j) \<in> (up rows)\<^sup>+"
    using that by (induction rule: trancl_induct) (auto intro: up_joins trancl_into_trancl)
qed

lemma parents_query_iff: "p \<in> set (parents_query rows i) \<longleftrightarrow> (Some i, p) \<in> (joins (parent_rows rows))\<^sup>+"
  unfolding parents_query_def union_all_reach [OF joins_finite(3,4)]
  by (auto simp: joins_def dest: tranclD intro: rtrancl_into_trancl2)

lemma proper_ancestors_iff: "j \<in> k_task_id ` set rows \<Longrightarrow> j \<in> set (proper_ancestors rows i) \<longleftrightarrow> (i, j) \<in> (up rows)\<^sup>+"
  using parent_joins_up parents_query_iff by (fastforce simp: proper_ancestors_def split: option.splits)

lemma parent_joins_acyclic:
  assumes "acyclic (up rows)"
  shows "acyclic (joins (parent_rows rows))"
  unfolding acyclic_def
proof (intro allI notI)
  fix v assume cycle: "(v, v) \<in> (joins (parent_rows rows))\<^sup>+"
  then obtain u where "(v, u) \<in> joins (parent_rows rows)" by (meson tranclD)
  then obtain a where "v = Some a" "a \<in> k_task_id ` set rows" by (auto simp: parent_joins)
  then show False using cycle parent_joins_up [of a rows a] assms by (simp add: acyclic_def)
qed

lemma domain_bound:
  "finite (Domain (joins (child_rows rows)))" "card (Domain (joins (child_rows rows))) \<le> length rows"
  "finite (Domain (joins (parent_rows rows)))" "card (Domain (joins (parent_rows rows))) \<le> length rows"
  unfolding Domain_fst using joins_finite [of rows] by (auto intro: order_trans [OF card_image_le])

section \<open>The invariant\<close>

text \<open>The verified result a completed task rests on: it names the task, was saved for the revision the
  completion closed, carries evidence and covers every criterion. The verifier is the owner, for a
  task that has criteria, or the verifier of mobile batches; never the model.\<close>

definition proof_of :: "result_row \<Rightarrow> task_row \<Rightarrow> bool" where
  "proof_of q t \<longleftrightarrow> q_task_id q = k_task_id t \<and> k_completion_result_id t = nullString (q_result_id q) \<and>
     q_verdict q = ''verified'' \<and> (q_verifier q = ''owner'' \<and> k_criteria t \<noteq> [] \<or> q_verifier q = ''mobile_batch_v1'') \<and>
     q_task_revision q = k_revision t - 1 \<and> q_evidence_refs q \<noteq> [] \<and> set (k_criteria t) \<subseteq> set (q_verified_criteria q)"

definition task_ok :: "result_row list \<Rightarrow> task_row \<Rightarrow> bool" where
  "task_ok results t \<longleftrightarrow> k_status t \<in> set task_statuses \<and> 1 \<le> k_revision t \<and>
     (k_finished_at t \<noteq> None \<longrightarrow> task_finished (k_status t)) \<and>
     (k_status t = ''completed'' \<longrightarrow> (\<exists>q \<in> set results. proof_of q t))"

definition policy_ok :: "task_row list \<Rightarrow> bool" where
  "policy_ok rows \<longleftrightarrow>
     (\<forall>r \<in> set rows. \<forall>a \<in> set rows. (k_task_id r, k_task_id a) \<in> (up rows)\<^sup>+ \<and> k_execution_policy a = PolicyPrepareOnly \<and>
        \<not> task_finished (k_status r) \<longrightarrow> k_execution_policy r = PolicyPrepareOnly)"

definition parents_ok :: "task_row list \<Rightarrow> bool" where
  "parents_ok rows \<longleftrightarrow> (\<forall>r \<in> set rows. set_option (k_parent_task_id r) \<subseteq> k_task_id ` set rows)"

definition tasks_inv :: "task_row list \<Rightarrow> result_row list \<Rightarrow> bool" where
  "tasks_inv rows results \<longleftrightarrow> keyed k_task_id rows \<and> parents_ok rows \<and> acyclic (up rows) \<and> list_all (task_ok results) rows \<and> policy_ok rows"

abbreviation store_inv :: "'x task_db \<Rightarrow> bool" where
  "store_inv st \<equiv> tasks_inv (td_tasks st) (td_results st)"

text \<open>How one task may change: never its identity; nothing that matters once it is finished.\<close>

definition same_task :: "task_row \<Rightarrow> task_row \<Rightarrow> bool" where
  "same_task t t' \<longleftrightarrow> k_task_id t' = k_task_id t \<and> k_session_key t' = k_session_key t \<and> k_owner_id t' = k_owner_id t \<and>
     k_parent_task_id t' = k_parent_task_id t \<and> k_result_delivery t' = k_result_delivery t"

definition quiet :: "task_row \<Rightarrow> task_row \<Rightarrow> bool" where
  "quiet t t' \<longleftrightarrow> k_status t' = k_status t \<and> k_revision t' = k_revision t \<and> k_goal t' = k_goal t \<and>
     k_criteria t' = k_criteria t \<and> k_constraints t' = k_constraints t \<and>
     k_completion_result_id t' = k_completion_result_id t \<and> k_finished_at t' = k_finished_at t"

definition task_change :: "task_row \<Rightarrow> task_row \<Rightarrow> bool" where
  "task_change t t' \<longleftrightarrow> same_task t t' \<and> k_revision t \<le> k_revision t' \<and>
     (task_finished (k_status t) \<longrightarrow> quiet t t' \<and> k_execution_policy t' = k_execution_policy t)"

lemma task_change_refl: "task_change t t"
  by (simp add: task_change_def same_task_def quiet_def)

lemma task_change_trans: "task_change t u \<Longrightarrow> task_change u v \<Longrightarrow> task_change t v"
  by (auto simp: task_change_def same_task_def quiet_def)

lemma task_ok_mono: "task_ok rs t \<Longrightarrow> set rs \<subseteq> set rs' \<Longrightarrow> task_ok rs' t"
  by (auto simp: task_ok_def)

lemma task_ok_quiet: "task_ok rs t \<Longrightarrow> same_task t t' \<Longrightarrow> quiet t t' \<Longrightarrow> task_ok rs t'"
  by (auto simp: task_ok_def same_task_def quiet_def proof_of_def)

lemma up_same:
  assumes "map (\<lambda>t. (k_task_id t, k_parent_task_id t)) rows' = map (\<lambda>t. (k_task_id t, k_parent_task_id t)) rows"
  shows "up rows' = up rows"
proof -
  have eq: "up rows = {(i, p). (i, Some p) \<in> set (map (\<lambda>t. (k_task_id t, k_parent_task_id t)) rows) \<and>
      p \<in> fst ` set (map (\<lambda>t. (k_task_id t, k_parent_task_id t)) rows)}" for rows
    by (force simp: up_def image_iff)
  show ?thesis unfolding eq [of rows'] eq [of rows] assms ..
qed

lemma up_update: "(\<And>t. t \<in> set rows \<Longrightarrow> sel t \<Longrightarrow> same_task t (f t)) \<Longrightarrow> up (tbl_update sel f rows) = up rows"
  by (rule up_same) (auto simp: tbl_update_def same_task_def)

lemma parents_ok_update:
  assumes "\<And>t. t \<in> set rows \<Longrightarrow> sel t \<Longrightarrow> same_task t (f t)" and "parents_ok rows"
  shows "parents_ok (tbl_update sel f rows)"
proof -
  have "k_task_id ` set (tbl_update sel f rows) = k_task_id ` set rows"
    unfolding set_tbl_update image_image using assms(1) by (intro image_cong) (auto simp: same_task_def)
  moreover have "\<exists>r \<in> set rows. k_parent_task_id r' = k_parent_task_id r" if "r' \<in> set (tbl_update sel f rows)" for r'
    using that assms(1) by (force simp: set_tbl_update same_task_def)
  ultimately show ?thesis using assms(2) by (fastforce simp: parents_ok_def)
qed

lemma keyed_update_in:
  "(\<And>t. t \<in> set rows \<Longrightarrow> sel t \<Longrightarrow> same_task t (f t)) \<Longrightarrow> keyed k_task_id rows \<Longrightarrow> keyed k_task_id (tbl_update sel f rows)"
proof -
  assume "\<And>t. t \<in> set rows \<Longrightarrow> sel t \<Longrightarrow> same_task t (f t)"
  then have "map k_task_id (tbl_update sel f rows) = map k_task_id rows" by (auto simp: tbl_update_def same_task_def)
  then show "keyed k_task_id rows \<Longrightarrow> ?thesis" by (simp add: keyed_def)
qed

section \<open>Moves in place\<close>

definition good_move :: "result_row list \<Rightarrow> task_row \<Rightarrow> task_row \<Rightarrow> bool" where
  "good_move results t t' \<longleftrightarrow> same_task t t' \<and> k_execution_policy t' = k_execution_policy t \<and> k_revision t \<le> k_revision t' \<and>
     (quiet t t' \<or> \<not> task_finished (k_status t) \<and> task_ok results t')"

definition effect :: "'x task_db \<Rightarrow> 'x task_db \<Rightarrow> bool" where
  "effect st st' \<longleftrightarrow> set (td_results st) \<subseteq> set (td_results st') \<and>
     (\<exists>sel f. td_tasks st' = tbl_update sel f (td_tasks st) \<and>
        (\<forall>t \<in> set (td_tasks st). sel t \<and> task_ok (td_results st') t \<longrightarrow> good_move (td_results st') t (f t)))"

lemma effectI:
  assumes "td_tasks st' = tbl_update sel f (td_tasks st)" and "set (td_results st) \<subseteq> set (td_results st')"
    and "\<And>t. t \<in> set (td_tasks st) \<Longrightarrow> sel t \<Longrightarrow> task_ok (td_results st') t \<Longrightarrow> good_move (td_results st') t (f t)"
  shows "effect st st'"
  unfolding effect_def using assms by blast

lemma effect_keep: "td_tasks st' = td_tasks st \<Longrightarrow> set (td_results st) \<subseteq> set (td_results st') \<Longrightarrow> effect st st'"
  by (rule effectI [where sel = "\<lambda>_. False" and f = id]) (simp_all add: tbl_update_id)

lemma effect_inv:
  assumes "effect st st'" and inv: "store_inv st"
  shows "store_inv st'" and "\<forall>t \<in> set (td_tasks st). \<exists>t' \<in> set (td_tasks st'). task_change t t'"
proof -
  obtain sel f where rows: "td_tasks st' = tbl_update sel f (td_tasks st)" and res: "set (td_results st) \<subseteq> set (td_results st')"
    and mv: "\<And>t. t \<in> set (td_tasks st) \<Longrightarrow> sel t \<Longrightarrow> task_ok (td_results st') t \<Longrightarrow> good_move (td_results st') t (f t)"
    using assms(1) unfolding effect_def by blast
  have ok: "task_ok (td_results st') t" if "t \<in> set (td_tasks st)" for t
    using inv that task_ok_mono [OF _ res] by (simp add: tasks_inv_def list_all_iff)
  note good = mv [OF _ _ ok]
  have same: "same_task t (f t)" if "t \<in> set (td_tasks st)" "sel t" for t
    using good [OF that(1,2) that(1)] by (simp add: good_move_def)
  have up_eq: "up (td_tasks st') = up (td_tasks st)" unfolding rows using same by (rule up_update)
  have "task_ok (td_results st') t'" if t': "t' \<in> set (td_tasks st')" for t'
  proof -
    obtain t where t: "t \<in> set (td_tasks st)" "t' = (if sel t then f t else t)" using t' unfolding rows set_tbl_update by blast
    show ?thesis
    proof (cases "sel t")
      case True
      with good [OF t(1) True t(1)] t task_ok_quiet [OF ok [OF t(1)]] show ?thesis by (auto simp: good_move_def)
    next
      case False
      with t ok show ?thesis by simp
    qed
  qed
  then have oks: "list_all (task_ok (td_results st')) (td_tasks st')" by (simp add: list_all_iff)
  have src: "\<exists>t \<in> set (td_tasks st). k_task_id t' = k_task_id t \<and> k_execution_policy t' = k_execution_policy t \<and>
      (task_finished (k_status t) \<longrightarrow> task_finished (k_status t'))" if t': "t' \<in> set (td_tasks st')" for t'
  proof -
    obtain t where t: "t \<in> set (td_tasks st)" "t' = (if sel t then f t else t)" using t' unfolding rows set_tbl_update by blast
    show ?thesis
    proof (cases "sel t")
      case True
      with good [OF t(1) True t(1)] t show ?thesis by (auto simp: good_move_def same_task_def quiet_def)
    next
      case False
      with t show ?thesis by auto
    qed
  qed
  have pol: "policy_ok (td_tasks st')"
    unfolding policy_ok_def up_eq
  proof (intro ballI impI)
    fix r' a' assume r': "r' \<in> set (td_tasks st')" and a': "a' \<in> set (td_tasks st')"
      and H: "(k_task_id r', k_task_id a') \<in> (up (td_tasks st))\<^sup>+ \<and> k_execution_policy a' = PolicyPrepareOnly \<and> \<not> task_finished (k_status r')"
    obtain r where r: "r \<in> set (td_tasks st)" "k_task_id r' = k_task_id r" "k_execution_policy r' = k_execution_policy r"
      "task_finished (k_status r) \<longrightarrow> task_finished (k_status r')" using src [OF r'] by blast
    obtain a where a: "a \<in> set (td_tasks st)" "k_task_id a' = k_task_id a" "k_execution_policy a' = k_execution_policy a"
      using src [OF a'] by blast
    have "k_execution_policy r = PolicyPrepareOnly"
      using inv r a H unfolding tasks_inv_def policy_ok_def by metis
    with r(3) show "k_execution_policy r' = PolicyPrepareOnly" by simp
  qed
  have "keyed k_task_id (td_tasks st')"
    unfolding rows using same inv by (intro keyed_update_in) (simp_all add: tasks_inv_def)
  moreover have "parents_ok (td_tasks st')"
    unfolding rows using same inv by (intro parents_ok_update) (simp_all add: tasks_inv_def)
  ultimately show "store_inv st'" using inv up_eq oks pol by (simp add: tasks_inv_def)
  show "\<forall>t \<in> set (td_tasks st). \<exists>t' \<in> set (td_tasks st'). task_change t t'"
  proof
    fix t assume t: "t \<in> set (td_tasks st)"
    then have mem: "(if sel t then f t else t) \<in> set (td_tasks st')" unfolding rows set_tbl_update by blast
    have "task_change t (if sel t then f t else t)"
      using good [OF t _ t] task_change_refl by (auto simp: good_move_def task_change_def quiet_def)
    with mem show "\<exists>t' \<in> set (td_tasks st'). task_change t t'" by blast
  qed
qed

section \<open>Every store operation is such a move\<close>

lemma tx_effect:
  assumes "run_tx f st = (res, st')" and "\<And>x. f st = Inr (x, st') \<Longrightarrow> effect st st'"
  shows "effect st st'"
  using assms(1) by (cases rule: run_tx_cases) (auto intro: assms(2) effect_keep)

lemma guarded_effect:
  assumes "guarded ctx now body st = (res, st')" and "\<And>x. body st = Inr (x, st') \<Longrightarrow> effect st st'"
  shows "effect st st'"
  using assms(1) unfolding guarded_def by (rule tx_effect) (auto intro: assms(2))

lemma set_tasks_simps [simp]:
  "td_tasks (set_tasks sel f st) = tbl_update sel f (td_tasks st)" "td_results (set_tasks sel f st) = td_results st"
  "td_kernel (set_tasks sel f st) = td_kernel st" "td_other (set_tasks sel f st) = td_other st"
  by (simp_all add: set_tasks_def)

lemma effect_set:
  "(\<And>t. t \<in> set (td_tasks st) \<Longrightarrow> sel t \<Longrightarrow> task_ok (td_results st) t \<Longrightarrow> good_move (td_results st) t (f t)) \<Longrightarrow>
     effect st (set_tasks sel f st)"
  by (rule effectI [where sel = sel and f = f]) simp_all

lemma insert_result_Inr:
  "insert_result q st = Inr st' \<Longrightarrow> td_tasks st' = td_tasks st \<and> td_results st' = td_results st @ [q] \<and> td_kernel st' = td_kernel st"
  by (auto simp: insert_result_def)

lemmas move_defs = good_move_def same_task_def quiet_def task_ok_def task_finished_def task_statuses_def

lemma attach_effect: "attach_body h i rvn runID ks now st = Inr (x, st') \<Longrightarrow> effect st st'"
  by (rule effectI [where sel = "\<lambda>r. k_task_id r = i" and f = "\<lambda>r. r\<lparr>k_last_run_id := Some runID, k_updated_at := now\<rparr>"])
    (auto simp: attach_body_def Let_def good_move_def same_task_def quiet_def)

lemma update_returning_effect:
  assumes "update_returning e sel f st = Inr (x, st')"
    and "\<And>t. t \<in> set (td_tasks st) \<Longrightarrow> sel t \<Longrightarrow> task_ok (td_results st) t \<Longrightarrow> good_move (td_results st) t (f t)"
  shows "effect st st'"
proof (rule effectI)
  show "td_tasks st' = tbl_update sel f (td_tasks st)" "set (td_results st) \<subseteq> set (td_results st')"
    using assms(1) by (auto simp: update_returning_def)
  show "good_move (td_results st') t (f t)" if "t \<in> set (td_tasks st)" "sel t" "task_ok (td_results st') t" for t
    using assms that by (auto simp: update_returning_def)
qed

lemma saved_working_move: "good_move rs t (saved_working w now t)"
  by (simp add: good_move_def same_task_def quiet_def saved_working_def)

lemma save_working_effect: "SaveWorking h ctx i rvn w now st = (res, st') \<Longrightarrow> effect st st'"
  unfolding SaveWorking_def by (erule guarded_effect) (auto intro: update_returning_effect saved_working_move)

lemma checkpoint_effect: "CheckpointRun h ctx runID rvn w now st = (res, st') \<Longrightarrow> effect st st'"
  unfolding CheckpointRun_def by (erule guarded_effect) (auto intro: update_returning_effect saved_working_move)

lemma attach_run_effect: "AttachRun h ctx i rvn runID ks now st = (res, st') \<Longrightarrow> effect st st'"
  unfolding AttachRun_def by (erule guarded_effect) (rule attach_effect)

lemma block_effect:
  assumes "BlockRun h ctx runID reason now st = (res, st')"
  shows "effect st st'"
  using assms unfolding BlockRun_def
proof (rule guarded_effect)
  fix x assume body: "bindE (need (tbl_find r_run_id runID (runs (td_kernel st))) ErrNoRows) (\<lambda>r.
     case r_task_id r of
       None \<Rightarrow> Inr ((), st)
     | Some i \<Rightarrow>
         bindE (guardTaskWrite h now i st) (\<lambda>_.
         Inr ((), set_tasks
           (\<lambda>t. (k_status t = ''active'' \<or> k_status t = ''waiting_for_user'') \<and> current_attempt st runID t)
           (\<lambda>t. t\<lparr>k_status := ''blocked'',
                   k_working := (k_working t)\<lparr>ws_Scratch := obj_put ''block_reason'' (JStr reason) (ws_Scratch (k_working t))\<rparr>,
                   k_working_revision := k_working_revision t + 1, k_updated_at := now\<rparr>) st))) = Inr (x, st')"
  show "effect st st'"
  proof (cases "\<exists>r. tbl_find r_run_id runID (runs (td_kernel st)) = Some r \<and> r_task_id r \<noteq> None")
    case True
    with body have st': "st' = set_tasks
        (\<lambda>t. (k_status t = ''active'' \<or> k_status t = ''waiting_for_user'') \<and> current_attempt st runID t)
        (\<lambda>t. t\<lparr>k_status := ''blocked'',
             k_working := (k_working t)\<lparr>ws_Scratch := obj_put ''block_reason'' (JStr reason) (ws_Scratch (k_working t))\<rparr>,
             k_working_revision := k_working_revision t + 1, k_updated_at := now\<rparr>) st" by auto
    show ?thesis unfolding st' by (rule effect_set) (auto simp: move_defs)
  next
    case False
    with body show ?thesis by (auto intro: effect_keep)
  qed
qed

lemma wait_effect: "WaitInteractionTx h i rvn c now st = Inr (x, st') \<Longrightarrow> effect st st'"
proof (cases "i = []")
  case False
  moreover assume "WaitInteractionTx h i rvn c now st = Inr (x, st')"
  ultimately have st': "st' = set_tasks (\<lambda>t. pinned i rvn c t \<and> k_status t = ''active'')
      (\<lambda>t. t\<lparr>k_status := ''waiting_for_user'', k_updated_at := now\<rparr>) st"
    by (auto simp: WaitInteractionTx_def Let_def)
  show ?thesis unfolding st' by (rule effect_set) (auto simp: move_defs)
qed (auto simp: WaitInteractionTx_def intro: effect_keep)

lemma resume_effect: "ResumeInteractionTx h i rvn c now st = Inr (x, st') \<Longrightarrow> effect st st'"
proof (cases "i = []")
  case False
  moreover assume "ResumeInteractionTx h i rvn c now st = Inr (x, st')"
  ultimately have st': "st' = set_tasks (\<lambda>t. pinned i rvn c t \<and> (k_status t = ''waiting_for_user'' \<or> k_status t = ''active''))
      (\<lambda>t. t\<lparr>k_status := ''active'', k_updated_at := now\<rparr>) st"
    by (auto simp: ResumeInteractionTx_def Let_def)
  show ?thesis unfolding st' by (rule effect_set) (auto simp: move_defs)
qed (auto simp: ResumeInteractionTx_def intro: effect_keep)

lemma close_effect: "CloseInteractionWaitTx i rvn c now st = Inr (x, st') \<Longrightarrow> effect st st'"
proof (cases "i = []")
  case False
  moreover assume "CloseInteractionWaitTx i rvn c now st = Inr (x, st')"
  ultimately have st': "st' = set_tasks (\<lambda>t. pinned i rvn c t \<and> k_status t = ''waiting_for_user'')
      (\<lambda>t. t\<lparr>k_status := ''blocked'', k_updated_at := now\<rparr>) st"
    by (auto simp: CloseInteractionWaitTx_def)
  show ?thesis unfolding st' by (rule effect_set) (auto simp: move_defs)
qed (auto simp: CloseInteractionWaitTx_def intro: effect_keep)

lemma save_result_effect: "SaveResultTx h ctx res ec now st = Inr (x, st') \<Longrightarrow> effect st st'"
  by (rule effect_keep) (auto simp: SaveResultTx_def split: option.split_asm if_split_asm dest!: insert_result_Inr)

lemma save_verified_effect: "SaveVerifiedResult h actor ctx rnd res now st = (r, st') \<Longrightarrow> effect st st'"
  unfolding SaveVerifiedResult_def
  by (erule tx_effect, rule effect_keep) (auto simp: save_verified_body_def Let_def dest!: insert_result_Inr)

lemma outcome_insert:
  assumes "(if b then Inr st else insert_result q st) = Inr st1"
  shows "td_tasks st1 = td_tasks st \<and> set (td_results st) \<subseteq> set (td_results st1)"
  using assms by (auto split: if_split_asm dest!: insert_result_Inr)

lemma outcome_move: "good_move rs t (let stop = ((state = ''failed'' \<or> state = ''timed_out'') \<and> k_status t = ''active'')
    in t\<lparr>k_status := (if stop then ''blocked'' else k_status t), k_revision := k_revision t + (if stop then 1 else 0), k_updated_at := now\<rparr>)"
  if "task_ok rs t"
  using that by (auto simp: Let_def move_defs)

lemma save_outcome_effect:
  assumes "SaveRunOutcome h ctx runID state remark now st = (res, st')"
  shows "effect st st'"
  using assms unfolding SaveRunOutcome_def
proof (rule guarded_effect)
  let ?move = "\<lambda>q. let stop = ((state = ''failed'' \<or> state = ''timed_out'') \<and> k_status q = ''active'')
    in q\<lparr>k_status := (if stop then ''blocked'' else k_status q), k_revision := k_revision q + (if stop then 1 else 0), k_updated_at := now\<rparr>"
  fix x
  assume body: "(case first_row (\<lambda>r. r_run_id r = runID \<and> r_task_id r \<noteq> None) (runs (td_kernel st)) of
         None \<Rightarrow> Inr ((), st)
       | Some r \<Rightarrow>
           let i = the (r_task_id r) in
           bindE (need (first_row (\<lambda>t. k_task_id t = i \<and> Some (k_revision t) = r_task_revision r) (td_tasks st)) ErrTaskConflict) (\<lambda>t.
           bindE (h_authority h st i (k_owner_id t) now) (\<lambda>_.
           bindE (if TrimSpace remark = [] \<or> tbl_find q_result_id (''run:'' @ runID) (td_results st) \<noteq> None then Inr st
                  else insert_result \<lparr>q_result_id = ''run:'' @ runID, q_task_id = i, q_task_revision = k_revision t,
                         q_run_id = Some runID, q_summary = remark, q_evidence_refs = [], q_verified_criteria = [],
                         q_verdict = ''unverified'', q_verifier = ''model_run'', q_created_at = now\<rparr> st) (\<lambda>st.
           Inr ((), set_tasks (\<lambda>q. k_task_id q = i \<and> k_revision q = k_revision t) ?move st))))) = Inr (x, st')"
  show "effect st st'"
  proof (cases "first_row (\<lambda>r. r_run_id r = runID \<and> r_task_id r \<noteq> None) (runs (td_kernel st))")
    case None
    with body show ?thesis by (auto intro: effect_keep)
  next
    case (Some r)
    obtain q sel b st1 where ins: "(if b then Inr st else insert_result q st) = Inr st1" and st': "st' = set_tasks sel ?move st1"
      using body unfolding Some option.case Let_def bindE_Inr_iff by blast
    show ?thesis
    proof (rule effectI [where sel = sel and f = ?move])
      show "td_tasks st' = tbl_update sel ?move (td_tasks st)" "set (td_results st) \<subseteq> set (td_results st')"
        using outcome_insert [OF ins] unfolding st' by simp_all
    qed (rule outcome_move)
  qed
qed

text \<open>What the check of a completion establishes about the task it lets through.\<close>

lemma validated_result:
  assumes "ValidateVerification (scan_task t) (scanResult q) = Inr u"
  shows "q_task_revision q = k_revision t" "q_verifier q = ''owner''" "q_evidence_refs q \<noteq> []" "k_criteria t \<noteq> []"
    "set (k_criteria t) \<subseteq> set (q_verified_criteria q)"
  using assms by (auto simp: ValidateVerification_def scan_task_def scanResult_def)

lemma completion_proof:
  assumes check: "check_completion ''completed'' i (scan_task t) st = Inr u"
    and same: "k_task_id t' = k_task_id t" "k_criteria t' = k_criteria t" "k_revision t' = k_revision t + 1"
      "k_completion_result_id t' = nullString i"
  shows "\<exists>q \<in> set (td_results st). proof_of q t'"
proof -
  obtain q where q: "first_row (\<lambda>q. q_task_id q = tt_TaskID (scan_task t) \<and> q_result_id q = i) (td_results st) = Some q"
      "q_verdict q = ''verified''" and v: "ValidateVerification (scan_task t) (scanResult q) = Inr u"
    using check by (auto simp: check_completion_def)
  with first_row_SomeD [OF q(1)] validated_result [OF v] same have "proof_of q t'"
    by (simp add: proof_of_def scan_task_def)
  with first_row_SomeD [OF q(1)] show ?thesis by blast
qed

lemma moved_task_good:
  assumes "ValidateTransition (k_status t) status = Inr u" and "check_completion status i (scan_task t) st = Inr v"
    and "task_ok (td_results st) t"
  shows "good_move (td_results st) t (moved_task status i now t)"
proof -
  have "\<exists>q \<in> set (td_results st). proof_of q (moved_task status i now t)" if "status = ''completed''"
    using assms(2) that by (intro completion_proof) (simp_all add: moved_task_def)
  with assms(1,3) show ?thesis
    by (auto simp: good_move_def same_task_def task_ok_def ValidateTransition_def task_finished_def moved_task_def split: if_split_asm)
qed

lemma transition_effect:
  assumes "task_Transition h actor ctx i rvn status resultID now st = (res, st')" and keyed: "keyed k_task_id (td_tasks st)"
  shows "effect st st'"
  using assms(1) unfolding task_Transition_def
proof (rule tx_effect)
  fix x assume body: "transition_body h actor ctx i rvn status resultID now st = Inr (x, st')"
  obtain t where t: "tbl_find k_task_id i (td_tasks st) = Some t" using body by (auto simp: transition_body_def task_find_def)
  show "effect st st'"
  proof (cases "st' = st")
    case False
    with body t obtain u v stored st1 where ok: "ValidateTransition (k_status t) status = Inr u"
        "check_completion status resultID (scan_task t) st = Inr v"
      and upd: "update_returning ErrTaskNotFound (\<lambda>r. k_task_id r = i \<and> k_revision r = rvn) (moved_task status resultID now) st = Inr (stored, st1)"
      and st': "td_tasks st' = td_tasks st1" "td_results st' = td_results st1"
      by (auto simp: transition_body_def task_find_def split: if_split_asm)
    have "r = t" if "r \<in> set (td_tasks st)" "k_task_id r = i" for r
      using keyed_eq [OF keyed] that tbl_find_SomeD [OF t] by auto
    then have "effect st st1"
      using moved_task_good [OF ok] by (intro update_returning_effect [OF upd]) auto
    then show ?thesis unfolding effect_def st' .
  qed (simp add: effect_keep)
qed

lemma coalesce_nullString [simp]: "coalesce (nullString s) = s"
  by (simp add: coalesce_def nullString_def)

lemma newID_nonempty: "newID pre rnd = Inr i \<Longrightarrow> i \<noteq> []"
  by (auto simp: newID_def need_def split: option.split_asm)

lemma scan_task_id: "tt_TaskID (scan_task t) = k_task_id t"
  by (simp add: scan_task_def)

lemma complete_mobile_effect:
  assumes "complete_mobile h P rnd now now2 own batch runID (scan_task t) n st = Inr (x, st')"
    and t: "\<And>r. r \<in> set (td_tasks st) \<Longrightarrow> k_task_id r = k_task_id t \<Longrightarrow> r = t" "\<not> task_finished (k_status t)"
  shows "effect st st'"
proof (cases "st' = st")
  case False
  obtain i where i: "newID ''result'' rnd = Inr i" using assms(1) by (auto simp: complete_mobile_def)
  let ?q = "mobile_result i batch runID (scan_task t) n now"
  obtain st1 where ins: "insert_result ?q st = Inr st1" using assms(1) i by (auto simp: complete_mobile_def)
  obtain stored st2 where upd: "update_returning ErrTaskNotFound (\<lambda>r. k_task_id r = k_task_id t) (mobile_completed i now2) st1 = Inr (stored, st2)"
    and st': "td_tasks st' = td_tasks st2" "td_results st' = td_results st2"
    using assms(1) False i ins scan_task_id [of t]
    by (cases "h_authority h st1 (k_task_id t) own now2") (auto simp: complete_mobile_def split: if_split_asm)
  have rows: "td_tasks st1 = td_tasks st" "td_results st1 = td_results st @ [?q]" using insert_result_Inr [OF ins] by auto
  have "effect st1 st2"
  proof (rule update_returning_effect [OF upd])
    fix r assume r: "r \<in> set (td_tasks st1)" "k_task_id r = k_task_id t" "task_ok (td_results st1) r"
    then have "r = t" using t(1) rows by simp
    moreover have "proof_of ?q (mobile_completed i now2 t)"
      using newID_nonempty [OF i] by (simp add: proof_of_def mobile_result_def mobile_completed_def scan_task_def nullString_def)
    ultimately show "good_move (td_results st1) r (mobile_completed i now2 r)"
      using t(2) r(3) rows(2)
      by (auto simp: good_move_def same_task_def task_ok_def task_statuses_def task_finished_def mobile_completed_def)
  qed
  then show ?thesis using rows unfolding effect_def st' by auto
qed (simp add: effect_keep)

lemma verify_mobile_effect:
  assumes "verifyMobileResult h P rnd now now2 i st = (res, st')" and keyed: "keyed k_task_id (td_tasks st)"
  shows "effect st st'"
  using assms(1) unfolding verifyMobileResult_def
proof (rule tx_effect)
  fix x assume body: "verify_mobile_body h P rnd now now2 i st = Inr (x, st')"
  obtain t where t: "tbl_find k_task_id i (td_tasks st) = Some t" using body by (auto simp: verify_mobile_body_def)
  show "effect st st'"
  proof (cases "st' = st")
    case False
    with body t obtain own batch runID n where c: "complete_mobile h P rnd now now2 own batch runID (scan_task t) n st = Inr (x, st')"
      and active: "k_status t = ''active''"
      by (auto simp: verify_mobile_body_def Let_def scan_task_def split: if_split_asm sum.split_asm option.split_asm)
    show ?thesis
      using keyed_eq [OF keyed] tbl_find_SomeD [OF t] active by (intro complete_mobile_effect [OF c]) (auto simp: task_finished_def)
  qed (simp add: effect_keep)
qed

end
