(* ===== verification/TaskSteps.thy ===== *)
theory TaskSteps
  imports TaskInv
begin

text \<open>
  The two operations that change more than rows in place: creation, which adds a task below an
  active parent, and an owner control, which moves a whole tree. With them the step relation of the
  task tables, its invariant, and the history of one task.
\<close>

section \<open>Creation\<close>

definition born :: "task_row list \<Rightarrow> task_row \<Rightarrow> bool" where
  "born rows t \<longleftrightarrow> k_task_id t \<notin> k_task_id ` set rows \<and> k_status t = ''active'' \<and> k_revision t = 1 \<and> k_finished_at t = None \<and>
     (k_parent_task_id t = None \<or>
      (\<exists>p \<in> set rows. k_parent_task_id t = Some (k_task_id p) \<and> k_status p = ''active'' \<and> k_execution_policy t = k_execution_policy p))"

lemma inherited:
  assumes "inherit_parent h delegated now req st = Inr (req', policy)"
  shows "cq_ParentTaskID req' = cq_ParentTaskID req \<and>
    (cq_ParentTaskID req = [] \<or> (\<exists>p \<in> set (td_tasks st). cq_ParentTaskID req = k_task_id p \<and> k_status p = ''active'' \<and> policy = k_execution_policy p))"
proof (cases "cq_ParentTaskID req = []")
  case True
  with assms show ?thesis by (simp add: inherit_parent_def)
next
  case False
  with assms obtain p where "tbl_find k_task_id (cq_ParentTaskID req) (td_tasks st) = Some p" "k_status p = ''active''"
    "cq_ParentTaskID req' = cq_ParentTaskID req" "policy = k_execution_policy p"
    by (auto simp: inherit_parent_def task_find_def)
  then show ?thesis by (metis tbl_find_SomeD)
qed

lemma bind_assignment_Inr:
  "bind_assignment h now i auth st = Inr st' \<Longrightarrow> td_tasks st' = td_tasks st \<and> td_results st' = td_results st \<and> td_kernel st' = td_kernel st"
  by (auto simp: bind_assignment_def BindAuthorityTx_def split: option.split_asm)

lemma reserve_child_Inr:
  "reserve_child h p i st = Inr st' \<Longrightarrow> td_tasks st' = td_tasks st \<and> td_results st' = td_results st \<and> td_kernel st' = td_kernel st"
  by (auto simp: reserve_child_def split: option.split_asm if_split_asm)

lemma authorized_request_Inr: "authorized_request h owner now req st = Inr req' \<Longrightarrow> cq_ParentTaskID req' = cq_ParentTaskID req"
  by (auto simp: authorized_request_def split: option.split_asm)

lemma insert_task_Inr:
  assumes "insert_task t st = Inr st'"
  shows "td_tasks st' = td_tasks st @ [t] \<and> td_results st' = td_results st \<and> td_kernel st' = td_kernel st \<and> k_task_id t \<notin> k_task_id ` set (td_tasks st)"
  using assms by (auto simp: insert_task_def tbl_find_None_iff)

lemma createTx_Inr:
  assumes "createTx h delegated rnd now req st = Inr (x, st')"
  obtains t where "x = scan_task t" "td_tasks st' = td_tasks st @ [t]" "td_results st' = td_results st" "td_kernel st' = td_kernel st" "born (td_tasks st) t"
proof -
  obtain req1 req2 policy i owner st1 st2 p where inh: "inherit_parent h delegated now req1 st = Inr (req2, policy)"
    and p: "authorized_request h owner now req2 st = Inr p" and b: "reserve_child h (cq_ParentTaskID p) i st = Inr st1"
    and ins: "insert_task (new_task i policy now p) st1 = Inr st2" and bind: "bind_assignment h now i (cq_Authority p) st2 = Inr st'"
    and x: "x = scan_task (new_task i policy now p)"
    using assms unfolding createTx_def Let_def bindE_Inr_iff by (force split: prod.split_asm)
  note kept = reserve_child_Inr [OF b] insert_task_Inr [OF ins] bind_assignment_Inr [OF bind]
  show thesis
  proof (rule that [OF x])
    have "k_task_id (new_task i policy now p) \<notin> k_task_id ` set (td_tasks st)" using kept by simp
    then show "born (td_tasks st) (new_task i policy now p)"
      using inherited [OF inh] authorized_request_Inr [OF p] by (auto simp: born_def new_task_def nullString_def)
  qed (use kept in auto)
qed

lemma up_born: "born rows t \<Longrightarrow> parents_ok rows \<Longrightarrow>
  up (rows @ [t]) = up rows \<union> {(k_task_id t, p) | p. k_parent_task_id t = Some p}"
  by (fastforce simp: up_def born_def parents_ok_def)

lemma nothing_below_born:
  assumes "born rows t" shows "(a, k_task_id t) \<notin> (up rows)\<^sup>+" "(a, k_task_id t) \<in> (up rows)\<^sup>* \<longleftrightarrow> a = k_task_id t"
proof -
  show "(a, k_task_id t) \<notin> (up rows)\<^sup>+"
    using assms by (auto simp: born_def elim!: tranclE dest!: up_domain)
  then show "(a, k_task_id t) \<in> (up rows)\<^sup>* \<longleftrightarrow> a = k_task_id t" by (auto simp: rtrancl_eq_or_trancl)
qed

lemma born_tree:
  assumes b: "born rows t" and ok: "parents_ok rows" and p: "k_parent_task_id t = Some p"
  shows "(up (rows @ [t]))\<^sup>+ = (up rows)\<^sup>+ \<union> {(k_task_id t, j) | j. (p, j) \<in> (up rows)\<^sup>*}"
proof -
  have "up (rows @ [t]) = insert (k_task_id t, p) (up rows)" using up_born [OF b ok] p by auto
  then show ?thesis using nothing_below_born(2) [OF b] by (auto simp: trancl_insert)
qed

lemma born_inv:
  assumes inv: "tasks_inv rows results" and b: "born rows t"
  shows "tasks_inv (rows @ [t]) results"
proof -
  have ok: "parents_ok rows" "acyclic (up rows)" "policy_ok rows" using inv by (auto simp: tasks_inv_def)
  have fresh: "k_task_id t \<notin> k_task_id ` set rows" using b by (simp add: born_def)
  have "acyclic (up (rows @ [t])) \<and> policy_ok (rows @ [t])"
  proof (cases "k_parent_task_id t")
    case None
    then have u: "up (rows @ [t]) = up rows" using up_born [OF b ok(1)] by simp
    have "(k_task_id t, j) \<notin> (up rows)\<^sup>+" for j using fresh by (auto dest!: tranclD up_domain)
    note out = this nothing_below_born(1) [OF b]
    have "policy_ok (rows @ [t])"
      unfolding policy_ok_def u set_append list.set
    proof (intro ballI impI)
      fix r a assume "r \<in> set rows \<union> {t}" "a \<in> set rows \<union> {t}"
        and H: "(k_task_id r, k_task_id a) \<in> (up rows)\<^sup>+ \<and> k_execution_policy a = PolicyPrepareOnly \<and> \<not> task_finished (k_status r)"
      then have "r \<in> set rows" "a \<in> set rows" using out by blast+
      with H ok(3) show "k_execution_policy r = PolicyPrepareOnly" unfolding policy_ok_def by blast
    qed
    with ok(2) show ?thesis unfolding u by blast
  next
    case (Some i)
    have "\<exists>p \<in> set rows. i = k_task_id p \<and> k_status p = ''active'' \<and> k_execution_policy t = k_execution_policy p"
      using b Some by (simp add: born_def)
    then obtain p where p: "p \<in> set rows" "i = k_task_id p" "k_status p = ''active''" "k_execution_policy t = k_execution_policy p"
      by blast
    have keyed: "keyed k_task_id rows" using inv by (simp add: tasks_inv_def)
    note tree = born_tree [OF b ok(1) Some]
    have t_out: "(p', k_task_id t) \<notin> (up rows)\<^sup>*" if "p' \<in> k_task_id ` set rows" for p'
      using that fresh nothing_below_born(2) [OF b, of p'] by metis
    have top: "k_execution_policy t = PolicyPrepareOnly"
      if "a \<in> set rows" "(i, k_task_id a) \<in> (up rows)\<^sup>*" "k_execution_policy a = PolicyPrepareOnly" for a
    proof (cases "i = k_task_id a")
      case True
      then have "p = a" using keyed_eq [OF keyed p(1) that(1)] p(2) by metis
      with p(4) that(3) show ?thesis by metis
    next
      case False
      with that(2) p(2) have "(k_task_id p, k_task_id a) \<in> (up rows)\<^sup>+" by (simp add: rtrancl_eq_or_trancl)
      moreover have "\<not> task_finished (k_status p)" using p(3) by (simp add: task_finished_def)
      ultimately have "k_execution_policy p = PolicyPrepareOnly" using that p(1) ok(3) unfolding policy_ok_def by blast
      with p(4) show ?thesis by simp
    qed
    have "acyclic (up (rows @ [t]))"
      unfolding acyclic_def tree using ok(2) t_out [of i] p by (auto simp: acyclic_def)
    moreover have "k_execution_policy r = PolicyPrepareOnly"
      if r: "r \<in> set (rows @ [t])" and a: "a \<in> set (rows @ [t])" and below: "(k_task_id r, k_task_id a) \<in> (up (rows @ [t]))\<^sup>+"
        and prep: "k_execution_policy a = PolicyPrepareOnly" "\<not> task_finished (k_status r)" for r a
    proof -
      have "a \<in> set rows"
        using a below nothing_below_born(1) [OF b] t_out [of i] p unfolding tree by auto
      moreover have "r = t" if "k_task_id r = k_task_id t" using r that fresh image_eqI [of "k_task_id t" k_task_id r "set rows"] by auto
      moreover have "r \<in> set rows" if "(k_task_id r, k_task_id a) \<in> (up rows)\<^sup>+"
        using r that fresh by (auto dest!: tranclD up_domain)
      ultimately show ?thesis using below prep top ok(3) unfolding tree policy_ok_def by blast
    qed
    ultimately show ?thesis unfolding policy_ok_def by blast
  qed
  moreover have "parents_ok (rows @ [t])" using ok(1) b by (fastforce simp: parents_ok_def born_def)
  moreover have "task_ok results t" using b by (simp add: born_def task_ok_def task_statuses_def task_finished_def)
  ultimately show ?thesis
    using inv fresh unfolding tasks_inv_def by (simp add: keyed_snoc tbl_find_None_iff)
qed

section \<open>Controls\<close>

lemma tbl_update_cong:
  "(\<And>r. r \<in> set rows \<Longrightarrow> sel r = sel' r) \<Longrightarrow> (\<And>r. r \<in> set rows \<Longrightarrow> sel' r \<Longrightarrow> f r = f' r) \<Longrightarrow> tbl_update sel f rows = tbl_update sel' f' rows"
  by (simp add: tbl_update_def)

lemma controlled_same: "same_task t (controlled dels req origin root b status now t)"
  by (simp add: same_task_def controlled_def amended_def Let_def)

lemmas controlled_id [simp] = controlled_same [unfolded same_task_def, THEN conjunct1]

lemma control_target_Inr:
  assumes "control_target notify dels req origin c root status now i cd = Inr cd'"
  obtains t where "tbl_find k_task_id i (td_tasks (cd_store cd)) = Some t"
    "td_tasks (cd_store cd') = tbl_update (\<lambda>r. k_task_id r = i) (controlled (dels (td_other (cd_store cd))) req origin root
       (restricted_by_ancestor (td_tasks (cd_store cd)) i) status now) (td_tasks (cd_store cd))"
    "td_results (cd_store cd') = td_results (cd_store cd)" "td_kernel (cd_store cd') = td_kernel (cd_store cd)" "cd_events cd' = cd_events cd"
  using assms by (auto simp: control_target_def task_find_def Let_def on_store_def split: if_split_asm)

text \<open>The loop over the targets updates every one of them once; only the restriction and the deletions it
  sees differ.\<close>

lemma control_targets_rows:
  assumes "distinct ids" and "control_targets notify dels req origin c root status now ids cd = Inr cd'"
  shows "\<exists>dl rho. td_tasks (cd_store cd') =
    tbl_update (\<lambda>r. k_task_id r \<in> set ids) (\<lambda>r. controlled (dl (k_task_id r)) req origin root (rho (k_task_id r)) status now r) (td_tasks (cd_store cd))"
  using assms
proof (induction ids arbitrary: cd)
  case Nil
  then show ?case by (simp add: tbl_update_id)
next
  case (Cons i "is")
  obtain cd1 where one: "control_target notify dels req origin c root status now i cd = Inr cd1"
    and rest: "control_targets notify dels req origin c root status now is cd1 = Inr cd'" using Cons.prems(2) by auto
  let ?b = "restricted_by_ancestor (td_tasks (cd_store cd)) i" and ?d = "dels (td_other (cd_store cd))"
  have rows1: "td_tasks (cd_store cd1) = tbl_update (\<lambda>r. k_task_id r = i) (controlled ?d req origin root ?b status now) (td_tasks (cd_store cd))"
    by (rule control_target_Inr [OF one]) simp
  obtain dl rho where "td_tasks (cd_store cd') =
    tbl_update (\<lambda>r. k_task_id r \<in> set is) (\<lambda>r. controlled (dl (k_task_id r)) req origin root (rho (k_task_id r)) status now r) (td_tasks (cd_store cd1))"
    using Cons.IH [OF _ rest] Cons.prems(1) by auto
  with Cons.prems(1) have "td_tasks (cd_store cd') = tbl_update (\<lambda>r. k_task_id r \<in> set (i # is))
      (\<lambda>r. controlled ((dl(i := ?d)) (k_task_id r)) req origin root ((rho(i := ?b)) (k_task_id r)) status now r) (td_tasks (cd_store cd))"
    unfolding rows1 by (auto simp: tbl_update_def)
  then show ?case by blast
qed

lemma control_targets_frame:
  "control_targets notify dels req origin c root status now ids cd = Inr cd' \<Longrightarrow>
     td_results (cd_store cd') = td_results (cd_store cd) \<and> td_kernel (cd_store cd') = td_kernel (cd_store cd) \<and> cd_events cd' = cd_events cd"
  by (induction ids arbitrary: cd) (auto elim!: control_target_Inr)

lemma controlled_policy:
  "k_execution_policy (controlled dels req origin root b status now t) =
     (if ct_ExecutionPolicy req = PolicyPrepareOnly \<or> b then PolicyPrepareOnly
      else if k_task_id t = root \<and> ct_ExecutionPolicy req \<noteq> [] then ct_ExecutionPolicy req else k_execution_policy t)"
  by (simp add: controlled_def amended_def Let_def)

lemma restricted_iff:
  assumes "acyclic (up rows)" and "i \<in> k_task_id ` set rows"
  shows "restricted_by_ancestor rows i \<longleftrightarrow> (\<exists>a \<in> set rows. (i, k_task_id a) \<in> (up rows)\<^sup>+ \<and> k_execution_policy a = PolicyPrepareOnly)"
  using proper_ancestors_iff [of _ rows i] by (auto simp: restricted_by_ancestor_def)

text \<open>One target of a control that does not itself forbid effects: nothing becomes restricted that was
  not, and nothing below a restricted ancestor is freed.\<close>

lemma control_one_policy:
  assumes pol: "policy_ok rows" and keyed: "keyed k_task_id rows" and acyc: "acyclic (up rows)"
    and t: "t \<in> set rows" "k_task_id t = i" "\<not> task_finished (k_status t)" and np: "ct_ExecutionPolicy req \<noteq> PolicyPrepareOnly"
    and f_def: "f = controlled dels req origin root (restricted_by_ancestor rows i) status now"
  shows "policy_ok (tbl_update (\<lambda>r. k_task_id r = i) f rows)"
proof -
  have up_eq: "up (tbl_update (\<lambda>r. k_task_id r = i) f rows) = up rows"
    unfolding f_def by (rule up_update) (rule controlled_same)
  have uniq: "r = t" if "r \<in> set rows" "k_task_id r = i" for r using keyed_eq [OF keyed] t that by auto
  have i: "i \<in> k_task_id ` set rows" using t by blast
  have src: "\<exists>r \<in> set rows. k_task_id r' = k_task_id r \<and> (r' = r \<or> r = t \<and> r' = f t)"
    if "r' \<in> set (tbl_update (\<lambda>r. k_task_id r = i) f rows)" for r'
    using that uniq by (fastforce simp: set_tbl_update f_def)
  have restricted: "k_execution_policy t = PolicyPrepareOnly" if "restricted_by_ancestor rows i"
    using that pol t unfolding restricted_iff [OF acyc i] policy_ok_def by blast
  show ?thesis
    unfolding policy_ok_def up_eq
  proof (intro ballI impI)
    fix r' a' assume r': "r' \<in> set (tbl_update (\<lambda>r. k_task_id r = i) f rows)" and a': "a' \<in> set (tbl_update (\<lambda>r. k_task_id r = i) f rows)"
      and H: "(k_task_id r', k_task_id a') \<in> (up rows)\<^sup>+ \<and> k_execution_policy a' = PolicyPrepareOnly \<and> \<not> task_finished (k_status r')"
    obtain r where r: "r \<in> set rows" "k_task_id r' = k_task_id r" "r' = r \<or> r = t \<and> r' = f t" using src [OF r'] by blast
    obtain a where a: "a \<in> set rows" "k_task_id a' = k_task_id a" "a' = a \<or> a = t \<and> a' = f t" using src [OF a'] by blast
    have pa: "k_execution_policy a = PolicyPrepareOnly"
      using a(3) H np restricted by (auto simp: f_def controlled_policy split: if_split_asm)
    have "\<not> task_finished (k_status r)" using r(3) H t by auto
    moreover have below: "(k_task_id r, k_task_id a) \<in> (up rows)\<^sup>+" using H r(2) a(2) by metis
    ultimately have pr: "k_execution_policy r = PolicyPrepareOnly" using r(1) a(1) pa pol unfolding policy_ok_def by blast
    from r(3) show "k_execution_policy r' = PolicyPrepareOnly"
    proof
      assume rt: "r = t \<and> r' = f t"
      with below a(1) pa t(2) have "restricted_by_ancestor rows i" unfolding restricted_iff [OF acyc i] by blast
      with rt show ?thesis by (simp add: f_def controlled_policy)
    qed (simp add: pr)
  qed
qed

lemma control_targets_policy:
  assumes "control_targets notify dels req origin c root status now ids cd = Inr cd'"
    and "distinct ids" and "ct_ExecutionPolicy req \<noteq> PolicyPrepareOnly" and "policy_ok (td_tasks (cd_store cd))"
    and "keyed k_task_id (td_tasks (cd_store cd))" and "acyclic (up (td_tasks (cd_store cd)))"
    and "\<And>t. t \<in> set (td_tasks (cd_store cd)) \<Longrightarrow> k_task_id t \<in> set ids \<Longrightarrow> \<not> task_finished (k_status t)"
  shows "policy_ok (td_tasks (cd_store cd'))"
  using assms
proof (induction ids arbitrary: cd)
  case Nil
  then show ?case by simp
next
  case (Cons i "is")
  obtain cd1 where one: "control_target notify dels req origin c root status now i cd = Inr cd1"
    and rest: "control_targets notify dels req origin c root status now is cd1 = Inr cd'" using Cons.prems(1) by auto
  obtain t where t: "tbl_find k_task_id i (td_tasks (cd_store cd)) = Some t" by (rule control_target_Inr [OF one])
  let ?f = "controlled (dels (td_other (cd_store cd))) req origin root (restricted_by_ancestor (td_tasks (cd_store cd)) i) status now"
  have rows1: "td_tasks (cd_store cd1) = tbl_update (\<lambda>r. k_task_id r = i) ?f (td_tasks (cd_store cd))" by (rule control_target_Inr [OF one])
  have "policy_ok (td_tasks (cd_store cd1))"
    unfolding rows1 using tbl_find_SomeD [OF t] Cons.prems by (intro control_one_policy [OF _ _ _ _ _ _ _ refl]) auto
  moreover have "up (td_tasks (cd_store cd1)) = up (td_tasks (cd_store cd))"
    unfolding rows1 by (rule up_update) (rule controlled_same)
  moreover have "keyed k_task_id (td_tasks (cd_store cd1))"
    unfolding rows1 using Cons.prems(5) by (intro keyed_update_in) (auto intro: controlled_same)
  moreover have "\<not> task_finished (k_status t')" if "t' \<in> set (td_tasks (cd_store cd1))" "k_task_id t' \<in> set is" for t'
    using that Cons.prems(2,7) unfolding rows1 by (auto simp: set_tbl_update split: if_split_asm)
  ultimately show ?case using Cons.prems(2,3,6) by (intro Cons.IH [OF rest]) auto
qed

section \<open>What a new control does\<close>

lemma stop_attempts_Inr:
  assumes "stop_attempts P a ids ks c now st = Inr (u, st')"
  shows "td_tasks st' = td_tasks st" "td_results st' = td_results st" "runs (td_kernel st') = runs (CancelForControlTx ids c now (td_kernel st))"
    "ownership (td_kernel st') = ownership (td_kernel st)"
  using assms by (auto simp: stop_attempts_def with_inputs_def Let_def CancelForControlTx_def terminate_runs_def)

lemma with_inputs_simps [simp]:
  "td_tasks (with_inputs i st) = td_tasks st" "td_results (with_inputs i st) = td_results st"
  "runs (td_kernel (with_inputs i st)) = runs (td_kernel st)" "ownership (td_kernel (with_inputs i st)) = ownership (td_kernel st)"
  by (simp_all add: with_inputs_def)

lemma admit_continuation_Inr:
  assumes "admit_continuation P a req c status root event st = Inr (r, st')"
  shows "td_tasks st' = td_tasks st" "td_results st' = td_results st" "runs (td_kernel st') = runs (td_kernel st)"
    "ownership (td_kernel st') = ownership (td_kernel st)"
  using assms by (auto simp: admit_continuation_def split: if_split_asm)

lemma announce_Inr:
  assumes "announce P a req c status ids updated root st = Inr (r, st')"
  shows "td_tasks st' = td_tasks st" "td_results st' = td_results st" "runs (td_kernel st') = runs (td_kernel st)"
    "ownership (td_kernel st') = ownership (td_kernel st)"
proof -
  obtain event i x n st1 y where adm: "admit_continuation P a req c status root event ((with_inputs i st)\<lparr>td_other := x\<rparr>) = Inr (n, st1)"
    and st': "st' = st1\<lparr>td_other := y\<rparr>"
    using assms unfolding announce_def Let_def by (auto simp del: append.simps)
  show "td_tasks st' = td_tasks st" "td_results st' = td_results st" "runs (td_kernel st') = runs (td_kernel st)"
    "ownership (td_kernel st') = ownership (td_kernel st)"
    using admit_continuation_Inr [OF adm] by (simp_all add: st')
qed

definition control_moves :: "ControlRequest \<Rightarrow> string list \<Rightarrow> task_row \<Rightarrow> string \<Rightarrow> instant \<Rightarrow> task_row list \<Rightarrow> task_row list \<Rightarrow> bool" where
  "control_moves req ids root status now rows rows' \<longleftrightarrow>
     (\<exists>dl origin rho. rows' = tbl_update (\<lambda>r. k_task_id r \<in> set ids)
        (\<lambda>r. controlled (dl (k_task_id r)) req origin (k_task_id root) (rho (k_task_id r)) status now r) rows)"

lemma apply_new_Inr:
  assumes "apply_new h P a ctx rnd now req ks ids root cd = Inr (result, cd')" and "distinct ids"
  obtains status c u where "control_status req (k_status root) = Inr status"
    "check_completion status (ct_ResultID req) (scan_task root) (cd_store cd) = Inr u"
    "control_moves req ids root status now (td_tasks (cd_store cd)) (td_tasks (cd_store cd'))"
    "td_results (cd_store cd') = td_results (cd_store cd)"
    "runs (td_kernel (cd_store cd')) = runs (CancelForControlTx ids c now (td_kernel (cd_store cd)))"
    "ownership (td_kernel (cd_store cd')) = ownership (td_kernel (cd_store cd))"
    "cd_events cd' = cd_events cd @ [(new_event a req c root)\<lparr>e_result := Some result\<rparr>]"
    "ct_ExecutionPolicy req \<noteq> PolicyPrepareOnly \<and> policy_ok (td_tasks (cd_store cd)) \<and> keyed k_task_id (td_tasks (cd_store cd)) \<and>
       acyclic (up (td_tasks (cd_store cd))) \<and>
       (\<forall>t \<in> set (td_tasks (cd_store cd)). k_task_id t \<in> set ids \<longrightarrow> \<not> task_finished (k_status t)) \<longrightarrow> policy_ok (td_tasks (cd_store cd'))"
proof -
  obtain status u1 c uncertain st1 where status: "control_status req (k_status root) = Inr status"
    and comp: "check_completion status (ct_ResultID req) (scan_task root) (cd_store cd) = Inr u1"
    and c: "newID ''control'' rnd = Inr c" and st1: "stop_attempts P a ids ks c now (cd_store cd) = Inr (uncertain, st1)"
    and fresh: "tbl_find e_control_id c (cd_events cd) = None"
    using assms(1) unfolding apply_new_def by auto
  define cd1 where "cd1 = cd\<lparr>cd_store := st1, cd_events := cd_events cd @ [new_event a req c root]\<rparr>"
  define origin where "origin = control_origin a req c"
  obtain cd2 where loop: "control_targets (h_notify h (Some a) ctx (scan_task root)) (cx_deletions P) req origin c (k_task_id root) status now ids cd1 = Inr cd2"
    using assms(1) status comp c st1 fresh unfolding apply_new_def by (auto simp: cd1_def origin_def)
  obtain updated r st2 where ann: "announce P a req c status ids updated root (cd_store cd2) = Inr (r, st2)"
    and cd': "cd_store cd' = st2"
      "cd_events cd' = tbl_update (\<lambda>e. e_control_id e = c) (\<lambda>e. e\<lparr>e_result := Some result\<rparr>) (cd_events cd2)"
    using assms(1) status comp c st1 fresh loop unfolding apply_new_def by (auto simp: Let_def cd1_def origin_def)
  note kept = stop_attempts_Inr [OF st1] announce_Inr [OF ann] control_targets_frame [OF loop]
  show thesis
  proof (rule that [OF status comp])
    show "control_moves req ids root status now (td_tasks (cd_store cd)) (td_tasks (cd_store cd'))"
      unfolding control_moves_def cd'(1) using control_targets_rows [OF assms(2) loop] kept by (auto simp: cd1_def)
    show "td_results (cd_store cd') = td_results (cd_store cd)" unfolding cd'(1) using kept by (simp add: cd1_def)
    show "runs (td_kernel (cd_store cd')) = runs (CancelForControlTx ids c now (td_kernel (cd_store cd)))"
      unfolding cd'(1) using kept by (simp add: cd1_def)
    show "ownership (td_kernel (cd_store cd')) = ownership (td_kernel (cd_store cd))"
      unfolding cd'(1) using kept by (simp add: cd1_def)
    have "tbl_update (\<lambda>e. e_control_id e = c) (\<lambda>e. e\<lparr>e_result := Some result\<rparr>) (cd_events cd) = cd_events cd"
      using fresh by (intro tbl_update_id) (auto simp: tbl_find_None_iff)
    then show "cd_events cd' = cd_events cd @ [(new_event a req c root)\<lparr>e_result := Some result\<rparr>]"
      unfolding cd'(2) using kept by (simp add: cd1_def tbl_update_def new_event_def)
    show "ct_ExecutionPolicy req \<noteq> PolicyPrepareOnly \<and> policy_ok (td_tasks (cd_store cd)) \<and> keyed k_task_id (td_tasks (cd_store cd)) \<and>
       acyclic (up (td_tasks (cd_store cd))) \<and>
       (\<forall>t \<in> set (td_tasks (cd_store cd)). k_task_id t \<in> set ids \<longrightarrow> \<not> task_finished (k_status t)) \<longrightarrow> policy_ok (td_tasks (cd_store cd'))"
      unfolding cd'(1) using control_targets_policy [OF loop assms(2)] kept by (simp add: cd1_def)
  qed
qed

lemma live_tree_props:
  assumes "keyed k_task_id rows" and "acyclic (up rows)"
  shows "distinct (live_tree rows i)" "j \<in> set (live_tree rows i) \<longleftrightarrow> (\<exists>r \<in> set rows. k_task_id r = j \<and> j \<in> set (task_tree rows i) \<and> \<not> task_finished (k_status r))"
proof -
  let ?of = "\<lambda>j. map k_task_id (filter (\<lambda>r. k_task_id r = j \<and> \<not> task_finished (k_status r)) rows)"
  have "distinct (?of j)" for j using assms(1) by (simp only: keyed_def distinct_map_filter)
  then have "distinct (concat (map ?of js))" if "distinct js" for js using that by (induction js) auto
  then show "distinct (live_tree rows i)" unfolding live_tree_def using tree_query_distinct [OF assms] by simp
  show "j \<in> set (live_tree rows i) \<longleftrightarrow> (\<exists>r \<in> set rows. k_task_id r = j \<and> j \<in> set (task_tree rows i) \<and> \<not> task_finished (k_status r))"
    unfolding live_tree_def by (auto simp: tree_query_set)
qed

lemma control_status_cases:
  assumes "control_status req current = Inr status"
  shows "status \<in> set task_statuses" "status = ''completed'' \<Longrightarrow> ct_Kind req = ControlStatus"
    "ct_Kind req = ControlStop \<Longrightarrow> status = ''cancelled''"
  using assms by (auto simp: control_status_def task_statuses_def ValidateTransition_def split: if_split_asm)

lemma plain_control:
  assumes "ValidateControl req = Inr u" and "ct_Kind req \<noteq> ControlAmend"
  shows "ct_CompletionCriteria req = None" "ct_ExecutionPolicy req = []"
  using assms by (auto simp: ValidateControl_def)

lemma amend_is_not_status: "ControlStatus \<noteq> ControlAmend" "ControlStop \<noteq> ControlAmend"
  by (simp_all add: ControlStatus_def ControlAmend_def ControlStop_def)

lemma controlled_ok:
  assumes t: "task_ok rs t" and status: "control_status req current = Inr status" and valid: "ValidateControl req = Inr u"
    and proof_root: "status = ''completed'' \<Longrightarrow> k_task_id t = root \<Longrightarrow>
      check_completion ''completed'' (ct_ResultID req) (scan_task t) st = Inr v \<and> td_results st = rs"
  shows "task_ok rs (controlled dels req origin root b status now t)"
proof -
  let ?t = "controlled dels req origin root b status now t"
  have st: "k_status ?t = (if k_task_id t \<noteq> root \<and> status \<noteq> ''cancelled'' then ''paused'' else status)"
    "k_revision ?t = k_revision t + 1" "k_finished_at ?t = (if task_finished (k_status ?t) then Some now else None)"
    by (simp_all add: controlled_def Let_def)
  have "\<exists>q \<in> set rs. proof_of q ?t" if fin: "k_status ?t = ''completed''"
  proof -
    have root: "status = ''completed''" "k_task_id t = root" using fin st(1) by (auto split: if_split_asm)
    with control_status_cases(2) [OF status] amend_is_not_status have "ct_Kind req \<noteq> ControlAmend" by simp
    with plain_control [OF valid] have "k_criteria ?t = k_criteria t" by (simp add: controlled_def amended_def Let_def)
    with proof_root [OF root] root show ?thesis
      using completion_proof [of "ct_ResultID req" t st v ?t] by (simp add: st) (simp add: controlled_def Let_def)
  qed
  with t control_status_cases(1) [OF status] st show ?thesis
    by (auto simp: task_ok_def task_statuses_def)
qed

lemma control_moves_policy:
  assumes moves: "control_moves req ids root status now rows rows'" and prep: "ct_ExecutionPolicy req = PolicyPrepareOnly"
    and pol: "policy_ok rows" and ids: "\<And>r. r \<in> set rows \<Longrightarrow> k_task_id r \<in> set ids \<longleftrightarrow> (k_task_id r, i) \<in> (up rows)\<^sup>* \<and> \<not> task_finished (k_status r)"
  shows "policy_ok rows'"
proof -
  obtain dl origin rho where rows': "rows' = tbl_update (\<lambda>r. k_task_id r \<in> set ids)
      (\<lambda>r. controlled (dl (k_task_id r)) req origin (k_task_id root) (rho (k_task_id r)) status now r) rows"
    using moves unfolding control_moves_def by blast
  have up_eq: "up rows' = up rows" unfolding rows' by (rule up_update) (rule controlled_same)
  have src: "\<exists>r \<in> set rows. k_task_id r' = k_task_id r \<and> (if k_task_id r \<in> set ids then k_execution_policy r' = PolicyPrepareOnly else r' = r)"
    if "r' \<in> set rows'" for r'
    using that prep by (fastforce simp: rows' set_tbl_update controlled_policy)
  show ?thesis
    unfolding policy_ok_def up_eq
  proof (intro ballI impI)
    fix r' a' assume r': "r' \<in> set rows'" and a': "a' \<in> set rows'"
      and H: "(k_task_id r', k_task_id a') \<in> (up rows)\<^sup>+ \<and> k_execution_policy a' = PolicyPrepareOnly \<and> \<not> task_finished (k_status r')"
    obtain r where r: "r \<in> set rows" "k_task_id r' = k_task_id r" "if k_task_id r \<in> set ids then k_execution_policy r' = PolicyPrepareOnly else r' = r"
      using src [OF r'] by blast
    obtain a where a: "a \<in> set rows" "k_task_id a' = k_task_id a" "if k_task_id a \<in> set ids then k_execution_policy a' = PolicyPrepareOnly else a' = a"
      using src [OF a'] by blast
    have below: "(k_task_id r, k_task_id a) \<in> (up rows)\<^sup>+" using H r(2) a(2) by metis
    show "k_execution_policy r' = PolicyPrepareOnly"
    proof (cases "k_task_id r \<in> set ids")
      case False
      then have same: "r' = r" using r(3) by simp
      have "k_task_id a \<notin> set ids"
        using False H below ids [OF r(1)] ids [OF a(1)] unfolding same by (meson rtrancl_trans trancl_into_rtrancl)
      then have "a' = a" using a(3) by simp
      with same H below r(1) a(1) pol show ?thesis unfolding policy_ok_def by blast
    qed (use r(3) in simp)
  qed
qed

lemma on_store_simps [simp]:
  "cd_store (on_store f cd) = f (cd_store cd)" "cd_events (on_store f cd) = cd_events cd" "cd_targets (on_store f cd) = cd_targets cd"
  "on_store f (on_store g cd) = on_store (\<lambda>st. f (g st)) cd"
  by (simp_all add: on_store_def)

lemma apply_body_cases:
  assumes "apply_body h P guard actor ctx rnd now req cd = Inr (result, cd')"
  obtains (replay) a e ks K where "FromContext actor = Some a" "delivered a (cd_events cd) = Some e" "e_request e = req"
      "result = stored_result e" "ensure_ownership now ks (td_kernel (cd_store cd)) = Inr K" "cd' = on_store (\<lambda>st. st\<lparr>td_kernel := K\<rparr>) cd"
  | (new) a root ks K u where "FromContext actor = Some a" "delivered a (cd_events cd) = None" "ValidateControl req = Inr u"
      "tbl_find k_task_id (ct_TaskID req) (td_tasks (cd_store cd)) = Some root" "k_owner_id root = ac_OwnerID a"
      "\<not> task_finished (k_status root)" "ct_ExpectedRevision req \<noteq> 0 \<longrightarrow> k_revision root = ct_ExpectedRevision req"
      "ensure_ownership now ks (td_kernel (cd_store cd)) = Inr K"
      "apply_new h P a ctx rnd now req ks (live_tree (td_tasks (cd_store cd)) (ct_TaskID req)) root
         (on_store (\<lambda>st. st\<lparr>td_kernel := RevokeForControlTx (live_tree (td_tasks (cd_store cd)) (ct_TaskID req)) now K\<rparr>) cd) = Inr (result, cd')"
proof -
  let ?rows = "td_tasks (cd_store cd)"
  obtain a u root where a: "FromContext actor = Some a" and v: "ValidateControl req = Inr u"
    and root: "tbl_find k_task_id (ct_TaskID req) ?rows = Some root" "k_owner_id root = ac_OwnerID a"
    using assms unfolding apply_body_def by (auto simp: task_find_def Let_def)
  obtain K where K: "ensure_ownership now (control_sessions a root ?rows) (td_kernel (cd_store cd)) = Inr K"
    using assms a v root unfolding apply_body_def by (auto simp: task_find_def Let_def)
  show thesis
  proof (cases "delivered a (cd_events cd)")
    case (Some e)
    then have "e_request e = req" "result = stored_result e" "cd' = on_store (\<lambda>st. st\<lparr>td_kernel := K\<rparr>) cd"
      using assms a v root K unfolding apply_body_def by (auto simp: task_find_def Let_def)
    then show thesis by (rule replay [OF a Some _ _ K])
  next
    case None
    then have "\<not> task_finished (k_status root)" "ct_ExpectedRevision req \<noteq> 0 \<longrightarrow> k_revision root = ct_ExpectedRevision req"
      "apply_new h P a ctx rnd now req (control_sessions a root ?rows) (live_tree ?rows (ct_TaskID req)) root
         (on_store (\<lambda>st. st\<lparr>td_kernel := RevokeForControlTx (live_tree ?rows (ct_TaskID req)) now K\<rparr>) cd) = Inr (result, cd')"
      using assms a v root K unfolding apply_body_def by (auto simp: task_find_def Let_def)
    then show thesis by (intro new [OF a None v root _ _ K])
  qed
qed

lemma live_tree_iff:
  assumes "keyed k_task_id rows" and "acyclic (up rows)" and "r \<in> set rows" and "i \<in> k_task_id ` set rows"
  shows "k_task_id r \<in> set (live_tree rows i) \<longleftrightarrow> (k_task_id r, i) \<in> (up rows)\<^sup>* \<and> \<not> task_finished (k_status r)"
  unfolding live_tree_props(2) [OF assms(1,2)] task_tree_reach [OF assms(4)] using keyed_eq [OF assms(1) _ assms(3)] assms(3) by blast

lemma controlled_revision [simp]: "k_revision (controlled dels req origin root b status now t) = k_revision t + 1"
  by (simp add: controlled_def Let_def)

lemma apply_new_inv:
  assumes inv: "store_inv (cd_store cd)" and root: "tbl_find k_task_id (ct_TaskID req) (td_tasks (cd_store cd)) = Some root"
    and valid: "ValidateControl req = Inr u" and ids: "ids = live_tree (td_tasks (cd_store cd)) (ct_TaskID req)"
    and app: "apply_new h P a ctx rnd now req ks ids root cd = Inr (result, cd')"
  shows "store_inv (cd_store cd')" "\<forall>t \<in> set (td_tasks (cd_store cd)). \<exists>t' \<in> set (td_tasks (cd_store cd')). task_change t t'"
proof -
  let ?rows = "td_tasks (cd_store cd)" and ?rows' = "td_tasks (cd_store cd')"
  have kd: "keyed k_task_id ?rows" "acyclic (up ?rows)" "policy_ok ?rows" "parents_ok ?rows" and ok: "\<And>t. t \<in> set ?rows \<Longrightarrow> task_ok (td_results (cd_store cd)) t"
    using inv by (auto simp: tasks_inv_def list_all_iff)
  have i: "ct_TaskID req \<in> k_task_id ` set ?rows" and rid: "k_task_id root = ct_TaskID req" "root \<in> set ?rows" using tbl_find_SomeD [OF root] by force+
  note member = live_tree_iff [OF kd(1,2) _ i, folded ids]
  have live: "\<not> task_finished (k_status t)" if "t \<in> set ?rows" "k_task_id t \<in> set ids" for t using member that by blast
  have dist: "distinct ids" unfolding ids by (rule live_tree_props(1) [OF kd(1,2)])
  obtain status c v where status: "control_status req (k_status root) = Inr status"
    and comp: "check_completion status (ct_ResultID req) (scan_task root) (cd_store cd) = Inr v"
    and moves: "control_moves req ids root status now ?rows ?rows'" and res: "td_results (cd_store cd') = td_results (cd_store cd)"
    and np: "ct_ExecutionPolicy req \<noteq> PolicyPrepareOnly \<and> policy_ok ?rows \<and> keyed k_task_id ?rows \<and> acyclic (up ?rows) \<and>
       (\<forall>t \<in> set ?rows. k_task_id t \<in> set ids \<longrightarrow> \<not> task_finished (k_status t)) \<longrightarrow> policy_ok ?rows'"
    using apply_new_Inr [OF app dist] by metis
  obtain dl origin rho where rows': "?rows' = tbl_update (\<lambda>r. k_task_id r \<in> set ids)
      (\<lambda>r. controlled (dl (k_task_id r)) req origin (k_task_id root) (rho (k_task_id r)) status now r) ?rows"
    using moves unfolding control_moves_def by blast
  have pol: "policy_ok ?rows'"
  proof (cases "ct_ExecutionPolicy req = PolicyPrepareOnly")
    case True
    show ?thesis by (rule control_moves_policy [OF moves True kd(3)]) (rule member)
  qed (use np kd live in blast)
  have oks: "task_ok (td_results (cd_store cd)) (controlled dels req origin (k_task_id root) b status now t)" if t: "t \<in> set ?rows" for t dels b
  proof (rule controlled_ok [OF ok [OF t] status valid])
    assume "status = ''completed''" "k_task_id t = k_task_id root"
    then show "check_completion ''completed'' (ct_ResultID req) (scan_task t) (cd_store cd) = Inr v \<and> td_results (cd_store cd) = td_results (cd_store cd)"
      using comp keyed_eq [OF kd(1) t rid(2)] by simp
  qed
  have "list_all (task_ok (td_results (cd_store cd))) ?rows'"
    unfolding rows' using ok oks by (intro list_all_tbl_update) (simp_all add: list_all_iff)
  moreover have "keyed k_task_id ?rows'" "parents_ok ?rows'" "up ?rows' = up ?rows"
    unfolding rows' by (intro keyed_update_in parents_ok_update up_update kd controlled_same)+
  ultimately show "store_inv (cd_store cd')" using pol kd(2) res by (simp add: tasks_inv_def)
  show "\<forall>t \<in> set ?rows. \<exists>t' \<in> set ?rows'. task_change t t'"
  proof
    fix t assume t: "t \<in> set ?rows"
    let ?t = "if k_task_id t \<in> set ids then controlled (dl (k_task_id t)) req origin (k_task_id root) (rho (k_task_id t)) status now t else t"
    have "?t \<in> set ?rows'" unfolding rows' set_tbl_update using t by blast
    moreover have "task_change t ?t"
      using live [OF t] controlled_same task_change_refl by (auto simp: task_change_def)
    ultimately show "\<exists>t' \<in> set ?rows'. task_change t t'" by blast
  qed
qed

lemma apply_inv:
  assumes inv: "store_inv (cd_store cd)" and app: "ApplyWithGuard h P guard actor ctx rnd now req cd = (res, cd')"
  shows "store_inv (cd_store cd')" "\<forall>t \<in> set (td_tasks (cd_store cd)). \<exists>t' \<in> set (td_tasks (cd_store cd')). task_change t t'"
proof -
  have "store_inv (cd_store cd') \<and> (\<forall>t \<in> set (td_tasks (cd_store cd)). \<exists>t' \<in> set (td_tasks (cd_store cd')). task_change t t')"
    using app unfolding ApplyWithGuard_def
  proof (cases rule: run_tx_cases)
    case failure
    with inv task_change_refl show ?thesis by blast
  next
    case (success result)
    from this(2) show ?thesis
    proof (cases rule: apply_body_cases)
      case (replay a e ks K)
      with inv task_change_refl show ?thesis by auto
    next
      case (new a root ks K u)
      note facts = apply_new_inv [OF _ _ new(3) _ new(9)]
      show ?thesis using facts inv new(4) by simp
    qed
  qed
  then show "store_inv (cd_store cd')" "\<forall>t \<in> set (td_tasks (cd_store cd)). \<exists>t' \<in> set (td_tasks (cd_store cd')). task_change t t'" by blast+
qed

end
