(* ===== verification/Input.thy ===== *)
theory Input
  imports Task
begin

text \<open>
  The durable queue of accepted inputs (\<^verbatim>\<open>apps/orchestrator/internal/input\<close>): admission of delivered
  events, the ordered claim of the oldest ready head, the writes of the worker that holds a claim,
  and the changes that approvals, interactions, owner controls and schedules make to an input. The
  state is the table \<^verbatim>\<open>accepted_inputs\<close>, the generator of its identity column and the epochs of
  \<^verbatim>\<open>communication_admissions\<close>; what an operation reads of sessions, runs, leases and tasks is an
  argument. A transaction that fails changes nothing.
\<close>

section \<open>Values of type jsonb\<close>

text \<open>The operators \<^verbatim>\<open>->\<close>, \<^verbatim>\<open>->>\<close>, \<^verbatim>\<open>||\<close>, \<^verbatim>\<open>-\<close> and \<^verbatim>\<open>jsonb_set\<close> with a path of one key; \<open>None\<close> is
  \<^verbatim>\<open>NULL\<close>. A value that is not an object has no members.\<close>

fun jb_get :: "string \<Rightarrow> json option \<Rightarrow> json option" where
  "jb_get k (Some (JObj kv)) = map_of kv k"
| "jb_get k _ = None"

fun jb_text :: "jsonb_codec \<Rightarrow> json option \<Rightarrow> string option" where
  "jb_text c (Some (JStr s)) = Some s"
| "jb_text c (Some JNull) = None"
| "jb_text c (Some v) = Some (jb_out c v)"
| "jb_text c None = None"

definition obj_del :: "string \<Rightarrow> (string \<times> json) list \<Rightarrow> (string \<times> json) list" where
  "obj_del k kv = filter (\<lambda>(k', _). k' \<noteq> k) kv"

fun jb_array :: "json \<Rightarrow> json list" where
  "jb_array (JArr vs) = vs"
| "jb_array v = [v]"

fun jb_concat :: "json \<Rightarrow> json \<Rightarrow> json" where
  "jb_concat (JObj a) (JObj b) = JObj (foldl (\<lambda>kv (k, v). obj_put k v kv) a b)"
| "jb_concat a b = JArr (jb_array a @ jb_array b)"

fun jb_minus :: "json \<Rightarrow> string \<Rightarrow> json" where
  "jb_minus (JObj kv) k = JObj (obj_del k kv)"
| "jb_minus (JArr vs) k = JArr (filter (\<lambda>v. v \<noteq> JStr k) vs)"
| "jb_minus v k = v"

definition jb_put :: "json \<Rightarrow> string \<Rightarrow> json \<Rightarrow> json" where
  "jb_put doc k v = jb_concat doc (JObj [(k, v)])"

section \<open>Rows and records\<close>

definition ErrInputNotFound :: go_err where
  "ErrInputNotFound = Sentinel ''input receipt not found''"

definition ErrClaimLost :: go_err where
  "ErrClaimLost = Sentinel ''input claim expired or superseded''"

definition ErrDeliveryConflict :: go_err where
  "ErrDeliveryConflict = Sentinel ''delivery identity conflicts with accepted payload''"

record ingress_event =
  in_EventID :: string
  in_EventType :: int
  in_SessionKey :: string
  in_Source :: string
  in_PayloadJSON :: string
  in_CreatedAt :: instant
  in_IdempotencyKey :: string

record accepted_row =
  ai_input_id :: string
  ai_session_key :: string
  ai_sequence :: int
  ai_event_id :: string
  ai_dedup_key :: string
  ai_source :: string
  ai_owner_id :: string
  ai_event :: ingress_event
  ai_task_id :: "string option"
  ai_run_id :: "string option"
  ai_status :: string
  ai_checkpoint :: string
  ai_checkpoint_json :: json
  ai_attempts :: int
  ai_max_attempts :: int
  ai_claim_id :: string
  ai_claim_expires_at :: "instant option"
  ai_not_before :: instant
  ai_expires_at :: instant
  ai_accepted_at :: instant
  ai_updated_at :: instant
  ai_error_code :: string
  ai_error_message :: string
  ai_ingress_epoch :: int

text \<open>The Go record. Its \<^verbatim>\<open>CheckpointJSON\<close> is only decoded again, so it is kept as a value.\<close>

record InputRecord =
  ir_InputID :: string
  ir_SessionKey :: string
  ir_Sequence :: int
  ir_OwnerID :: string
  ir_Source :: string
  ir_TaskID :: string
  ir_RunID :: string
  ir_Status :: string
  ir_Checkpoint :: string
  ir_CheckpointJSON :: json
  ir_Event :: ingress_event
  ir_Attempts :: int
  ir_MaxAttempts :: int
  ir_ClaimID :: string
  ir_ClaimExpiresAt :: "instant option"
  ir_ExpiresAt :: instant
  ir_AcceptedAt :: instant
  ir_UpdatedAt :: instant
  ir_ErrorCode :: string
  ir_ErrorMessage :: string

definition scan_input :: "accepted_row \<Rightarrow> InputRecord" where
  "scan_input r =
     \<lparr>ir_InputID = ai_input_id r, ir_SessionKey = ai_session_key r, ir_Sequence = ai_sequence r,
      ir_OwnerID = ai_owner_id r, ir_Source = ai_source r, ir_TaskID = coalesce (ai_task_id r),
      ir_RunID = coalesce (ai_run_id r), ir_Status = ai_status r, ir_Checkpoint = ai_checkpoint r,
      ir_CheckpointJSON = ai_checkpoint_json r, ir_Event = ai_event r, ir_Attempts = ai_attempts r,
      ir_MaxAttempts = ai_max_attempts r, ir_ClaimID = ai_claim_id r, ir_ClaimExpiresAt = ai_claim_expires_at r,
      ir_ExpiresAt = ai_expires_at r, ir_AcceptedAt = ai_accepted_at r, ir_UpdatedAt = ai_updated_at r,
      ir_ErrorCode = ai_error_code r, ir_ErrorMessage = ai_error_message r\<rparr>"

record queue_db =
  qd_rows :: "accepted_row list"
  qd_next :: int
  qd_admissions :: "(string \<times> int) list"

text \<open>
  The conversions of the database the queue relies on: \<open>qc_json\<close> those of \<^verbatim>\<open>jsonb\<close>, \<open>qc_time\<close> the cast
  of text to a time stamp, and \<open>qc_event\<close> what is read back of an event that was marshalled and
  converted to \<^verbatim>\<open>jsonb\<close> (an error when the text has no such form, a byte of value zero for one).
\<close>

record queue_codec =
  qc_json :: jsonb_codec
  qc_time :: "string \<Rightarrow> instant option"
  qc_event :: "ingress_event \<Rightarrow> go_err + ingress_event"

definition finished :: "accepted_row \<Rightarrow> bool" where
  "finished r \<longleftrightarrow> ai_status r \<in> {''completed'', ''failed'', ''expired'', ''cancelled''}"

definition input_statuses :: "string list" where
  "input_statuses =
     [''queued'', ''running'', ''waiting_for_user'', ''blocked'', ''completed'', ''failed'', ''expired'', ''cancelled'']"

definition status_check_violation :: go_err where
  "status_check_violation = PgError ''23514'' ''new row for relation \"accepted_inputs\" violates check constraint \"accepted_inputs_status_check\"''"

definition run_fk_violation :: go_err where
  "run_fk_violation = PgError ''23503'' ''insert or update on table \"accepted_inputs\" violates foreign key constraint \"accepted_inputs_run_id_fkey\"''"

definition input_key_violation :: go_err where
  "input_key_violation = PgError ''23505'' ''duplicate key value violates unique constraint \"accepted_inputs_pkey\"''"

definition delivery_key_violation :: go_err where
  "delivery_key_violation = PgError ''23505'' ''duplicate key value violates unique constraint \"accepted_inputs_session_key_source_dedup_key_key\"''"

definition randomID :: "string \<Rightarrow> string option \<Rightarrow> go_err + string" where
  "randomID pre rnd = map_sum id (\<lambda>h. pre @ h) (need rnd (Errorf ''crypto/rand''))"

text \<open>Durations reach the database as whole milliseconds, instants as whole microseconds.\<close>

definition millis :: "duration \<Rightarrow> duration" where
  "millis d = go_div d millisecond * millisecond"

definition micros :: "instant \<Rightarrow> instant" where
  "micros t = t - t mod 1000"

text \<open>Statements: an update of every selected row, and one that must hit exactly one row.\<close>

definition update_rows :: "(accepted_row \<Rightarrow> bool) \<Rightarrow> (accepted_row \<Rightarrow> accepted_row) \<Rightarrow> queue_db \<Rightarrow> queue_db" where
  "update_rows p f q = q\<lparr>qd_rows := tbl_update p f (qd_rows q)\<rparr>"

definition update_one ::
  "go_err \<Rightarrow> (accepted_row \<Rightarrow> bool) \<Rightarrow> (accepted_row \<Rightarrow> accepted_row) \<Rightarrow> queue_db \<Rightarrow> go_err + unit \<times> queue_db" where
  "update_one e p f q = bindE (failif (tbl_count p (qd_rows q) \<noteq> 1) e) (\<lambda>_. Inr ((), update_rows p f q))"

section \<open>Admission\<close>

definition delivery_key :: "accepted_row \<Rightarrow> string \<times> string \<times> string" where
  "delivery_key r = (ai_session_key r, ai_source r, ai_dedup_key r)"

definition new_row ::
  "string \<Rightarrow> int \<Rightarrow> string \<Rightarrow> string \<Rightarrow> string \<Rightarrow> string \<Rightarrow> string \<Rightarrow> string \<Rightarrow> instant \<Rightarrow> ingress_event \<Rightarrow> ingress_event \<Rightarrow> accepted_row" where
  "new_row inputID sq key ownerID taskID status checkpoint code now event stored =
     \<lparr>ai_input_id = inputID, ai_session_key = in_SessionKey event, ai_sequence = sq, ai_event_id = in_EventID event,
      ai_dedup_key = key, ai_source = in_Source event, ai_owner_id = ownerID, ai_event = stored,
      ai_task_id = nullString taskID, ai_run_id = None, ai_status = status, ai_checkpoint = checkpoint,
      ai_checkpoint_json = JObj [], ai_attempts = 0, ai_max_attempts = 3, ai_claim_id = [],
      ai_claim_expires_at = None, ai_not_before = now, ai_expires_at = now + 24 * hour, ai_accepted_at = now,
      ai_updated_at = now, ai_error_code = code, ai_error_message = [], ai_ingress_epoch = 0\<rparr>"

definition event_key :: "ingress_event \<Rightarrow> string" where
  "event_key event = (if in_IdempotencyKey event = [] then in_EventID event else in_IdempotencyKey event)"

definition admissible_task :: "task_row list \<Rightarrow> ingress_event \<Rightarrow> string \<Rightarrow> string \<Rightarrow> bool" where
  "admissible_task tasks event ownerID taskID \<longleftrightarrow>
     taskID = [] \<or> (\<exists>t \<in> set tasks. k_task_id t = taskID \<and> k_session_key t = in_SessionKey event \<and>
                      k_owner_id t = ownerID \<and> k_status t = ''active'')"

text \<open>The row a redelivery is compared with.\<close>

definition same_delivery :: "ingress_event \<Rightarrow> string \<Rightarrow> string \<Rightarrow> InputRecord \<Rightarrow> bool" where
  "same_delivery event ownerID taskID r \<longleftrightarrow>
     ir_OwnerID r = ownerID \<and> ir_TaskID r = taskID \<and> in_PayloadJSON (ir_Event r) = in_PayloadJSON event \<and>
     in_EventType (ir_Event r) = in_EventType event"

definition accept_existing ::
  "ingress_event \<Rightarrow> string \<Rightarrow> string \<Rightarrow> queue_db \<Rightarrow> go_err + (InputRecord \<times> bool) \<times> queue_db" where
  "accept_existing event ownerID taskID q =
     bindE (need (tbl_find delivery_key (in_SessionKey event, in_Source event, event_key event) (qd_rows q))
              (Wrap ''input task or identity invalid'' ErrInputNotFound)) (\<lambda>r.
     bindE (failif (\<not> same_delivery event ownerID taskID (scan_input r)) ErrDeliveryConflict) (\<lambda>_.
     Inr ((scan_input r, False), q)))"

text \<open>
  An insert that finds its delivery key taken does nothing but has drawn a sequence number; one whose
  task is not admissible does not even draw it. The status it inserts is \<^verbatim>\<open>queued\<close> or \<^verbatim>\<open>waiting_for_user\<close>.
\<close>

definition insert_delivery ::
  "task_row list \<Rightarrow> string \<Rightarrow> instant \<Rightarrow> ingress_event \<Rightarrow> ingress_event \<Rightarrow> string \<Rightarrow> string \<Rightarrow> string \<Rightarrow> string \<Rightarrow>
   queue_db \<Rightarrow> go_err + (InputRecord \<times> bool) \<times> queue_db" where
  "insert_delivery tasks i now event stored ownerID taskID status code q =
     (let r = new_row i (qd_next q) (event_key event) ownerID taskID status ''accepted'' code now event stored;
          drawn = q\<lparr>qd_next := qd_next q + 1\<rparr>
      in if \<not> admissible_task tasks event ownerID taskID then accept_existing event ownerID taskID q
         else if tbl_find delivery_key (delivery_key r) (qd_rows q) \<noteq> None then accept_existing event ownerID taskID drawn
         else bindE (failif (tbl_find ai_input_id i (qd_rows q) \<noteq> None) input_key_violation) (\<lambda>_.
              Inr ((scan_input r, True), drawn\<lparr>qd_rows := qd_rows q @ [r]\<rparr>)))"

definition accept_tx ::
  "queue_codec \<Rightarrow> kernel_db \<Rightarrow> task_row list \<Rightarrow> string option \<Rightarrow> instant \<Rightarrow> ingress_event \<Rightarrow> string \<Rightarrow> string \<Rightarrow> string \<Rightarrow> string \<Rightarrow>
   queue_db \<Rightarrow> go_err + (InputRecord \<times> bool) \<times> queue_db" where
  "accept_tx c K tasks rnd now event ownerID taskID status code q =
     bindE (need (tbl_find s_session_key (in_SessionKey event) (sessions K)) ErrNoRows) (\<lambda>s.
     bindE (failif (s_user_id s \<noteq> ownerID) (Errorf ''session owner mismatch'')) (\<lambda>_.
     bindE (randomID ''input-'' rnd) (\<lambda>i.
     bindE (failif (event_key event = []) (Errorf ''event_id or idempotency_key required'')) (\<lambda>_.
     bindE (qc_event c event) (\<lambda>stored.
     insert_delivery tasks i now event stored ownerID taskID status code q)))))"

definition AcceptTx ::
  "queue_codec \<Rightarrow> kernel_db \<Rightarrow> task_row list \<Rightarrow> string option \<Rightarrow> instant \<Rightarrow> ingress_event \<Rightarrow> string \<Rightarrow> string \<Rightarrow>
   queue_db \<Rightarrow> go_err + (InputRecord \<times> bool) \<times> queue_db" where
  "AcceptTx c K tasks rnd now event ownerID taskID = accept_tx c K tasks rnd now event ownerID taskID ''queued'' []"

definition input_Accept ::
  "queue_codec \<Rightarrow> kernel_db \<Rightarrow> task_row list \<Rightarrow> string option \<Rightarrow> instant \<Rightarrow> ingress_event \<Rightarrow> string \<Rightarrow> string \<Rightarrow>
   queue_db \<Rightarrow> (go_err, InputRecord \<times> bool, queue_db) outcome" where
  "input_Accept c K tasks rnd now event ownerID taskID = run_tx (AcceptTx c K tasks rnd now event ownerID taskID)"

definition AcceptWaiting ::
  "queue_codec \<Rightarrow> kernel_db \<Rightarrow> task_row list \<Rightarrow> string option \<Rightarrow> instant \<Rightarrow> ingress_event \<Rightarrow> string \<Rightarrow>
   queue_db \<Rightarrow> (go_err, InputRecord \<times> bool, queue_db) outcome" where
  "AcceptWaiting c K tasks rnd now event ownerID =
     run_tx (accept_tx c K tasks rnd now event ownerID [] ''waiting_for_user'' ''task_target_required'')"

definition input_Get :: "string \<Rightarrow> queue_db \<Rightarrow> go_err + InputRecord" where
  "input_Get i q = bindE (need (tbl_find ai_input_id i (qd_rows q)) ErrInputNotFound) (\<lambda>r. Inr (scan_input r))"

definition ExpireQueued :: "instant \<Rightarrow> queue_db \<Rightarrow> queue_db" where
  "ExpireQueued now =
     update_rows (\<lambda>r. ai_status r = ''queued'' \<and> ai_expires_at r \<le> now)
       (\<lambda>r. r\<lparr>ai_status := ''expired'', ai_error_code := ''input_expired'',
             ai_error_message := ''accepted input deadline expired'', ai_updated_at := now\<rparr>)"

section \<open>Claims\<close>

definition is_head :: "accepted_row list \<Rightarrow> accepted_row \<Rightarrow> bool" where
  "is_head rows r \<longleftrightarrow>
     (\<forall>h \<in> set rows. ai_session_key h = ai_session_key r \<and> ai_sequence h < ai_sequence r \<longrightarrow> finished h)"

definition claimable :: "int \<Rightarrow> instant \<Rightarrow> queue_db \<Rightarrow> accepted_row \<Rightarrow> bool" where
  "claimable epoch now q r \<longleftrightarrow>
     ai_ingress_epoch r \<le> epoch \<and> (\<forall>(i, e) \<in> set (qd_admissions q). i = ai_input_id r \<longrightarrow> e \<le> epoch) \<and>
     ai_status r \<in> {''queued'', ''running''} \<and> ai_checkpoint r \<noteq> ''awaiting_interaction'' \<and> ai_not_before r \<le> now \<and>
     (case ai_claim_expires_at r of None \<Rightarrow> True | Some t \<Rightarrow> t \<le> now) \<and> is_head (qd_rows q) r"

definition accepted_before :: "accepted_row \<Rightarrow> accepted_row \<Rightarrow> bool" where
  "accepted_before a b \<longleftrightarrow>
     ai_accepted_at a < ai_accepted_at b \<or> ai_accepted_at a = ai_accepted_at b \<and> ai_sequence a < ai_sequence b"

fun first_accepted :: "accepted_row list \<Rightarrow> accepted_row option" where
  "first_accepted [] = None"
| "first_accepted (r # rs) =
     (case first_accepted rs of
        None \<Rightarrow> Some r
      | Some s \<Rightarrow> Some (if accepted_before s r then s else r))"

definition claim_row :: "string \<Rightarrow> duration \<Rightarrow> instant \<Rightarrow> accepted_row \<Rightarrow> accepted_row" where
  "claim_row claimID ttl now r =
     r\<lparr>ai_status := ''running'', ai_claim_id := claimID, ai_claim_expires_at := Some (now + millis ttl),
       ai_attempts := ai_attempts r +
         (if ai_checkpoint r \<in> {''approval_ready'', ''interaction_ready''} \<and> ai_status r = ''queued'' then 0 else 1),
       ai_updated_at := now\<rparr>"

text \<open>\<open>locked\<close> lists the inputs whose rows concurrent transactions hold: \<^verbatim>\<open>SKIP LOCKED\<close> passes over them.\<close>

definition input_Claim ::
  "int \<Rightarrow> string option \<Rightarrow> duration \<Rightarrow> string list \<Rightarrow> instant \<Rightarrow> queue_db \<Rightarrow> go_err + InputRecord \<times> queue_db" where
  "input_Claim epoch rnd ttl locked now q =
     bindE (randomID ''claim-'' rnd) (\<lambda>claimID.
     bindE (need (first_accepted (filter (\<lambda>r. claimable epoch now q r \<and> ai_input_id r \<notin> set locked) (qd_rows q)))
              ErrInputNotFound) (\<lambda>r.
     Inr (scan_input (claim_row claimID ttl now r),
          update_rows (\<lambda>r'. ai_input_id r' = ai_input_id r) (claim_row claimID ttl now) q)))"

text \<open>The condition of every write under a claim.\<close>

definition holds_claim :: "InputRecord \<Rightarrow> instant \<Rightarrow> accepted_row \<Rightarrow> bool" where
  "holds_claim r now row \<longleftrightarrow>
     ai_input_id row = ir_InputID r \<and> ai_claim_id row = ir_ClaimID r \<and> ai_status row = ''running'' \<and>
     (case ai_claim_expires_at row of None \<Rightarrow> False | Some t \<Rightarrow> now < t)"

definition input_Renew :: "InputRecord \<Rightarrow> duration \<Rightarrow> instant \<Rightarrow> queue_db \<Rightarrow> go_err + unit \<times> queue_db" where
  "input_Renew r ttl now =
     update_one ErrClaimLost (holds_claim r now) (\<lambda>row. row\<lparr>ai_claim_expires_at := Some (now + millis ttl)\<rparr>)"

definition saved_checkpoint :: "string \<Rightarrow> json \<Rightarrow> json \<Rightarrow> json" where
  "saved_checkpoint stage payload doc =
     (if stage = ''prepared'' then jb_put (jb_minus (jb_minus doc ''prepared'') ''checkpoint_data'') ''prepared'' payload
      else jb_put doc ''checkpoint_data'' payload)"

definition SaveCheckpoint ::
  "queue_codec \<Rightarrow> InputRecord option \<Rightarrow> exec_ctx \<Rightarrow> kernel_db \<Rightarrow> string \<Rightarrow> string \<Rightarrow> string \<Rightarrow> instant \<Rightarrow> queue_db \<Rightarrow> go_err + unit \<times> queue_db" where
  "SaveCheckpoint c claim ctx K runID stage payload now q =
     (case claim of
        None \<Rightarrow> Inr ((), q)
      | Some r \<Rightarrow>
          bindE (own_Begin ctx now K) (\<lambda>_.
          bindE (need (jb_in (qc_json c) payload) jsonb_syntax_error) (\<lambda>v.
          bindE (update_one ErrClaimLost (holds_claim r now)
                   (\<lambda>row. row\<lparr>ai_run_id := Some runID, ai_checkpoint := stage,
                             ai_checkpoint_json := saved_checkpoint stage v (ai_checkpoint_json row), ai_updated_at := now\<rparr>) q) (\<lambda>res.
          bindE (failif (tbl_find r_run_id runID (runs K) = None) run_fk_violation) (\<lambda>_. Inr res)))))"

definition LoadCheckpoint :: "queue_codec \<Rightarrow> string \<Rightarrow> queue_db \<Rightarrow> go_err + string \<times> string" where
  "LoadCheckpoint c runID q =
     bindE (need (first_row (\<lambda>r. ai_run_id r = Some runID) (qd_rows q)) ErrNoRows) (\<lambda>r.
     Inr (ai_checkpoint r, jb_out (qc_json c) (ai_checkpoint_json r)))"

definition finish_status :: "string \<Rightarrow> string \<Rightarrow> string \<Rightarrow> string" where
  "finish_status status code checkpoint =
     (if code = ''communication_state_pending'' \<and> checkpoint = ''awaiting_interaction'' then ''waiting_for_user''
      else if status = ''waiting_for_user'' \<and> checkpoint \<in> {''approval_ready'', ''interaction_ready''} then ''queued''
      else status)"

text \<open>When a finished attempt may be taken up again. \<^verbatim>\<open>GREATEST\<close> ignores a missing value; a text that
  is no time stamp fails the statement.\<close>

definition finish_not_before :: "queue_codec \<Rightarrow> string \<Rightarrow> duration \<Rightarrow> instant \<Rightarrow> accepted_row \<Rightarrow> go_err + instant" where
  "finish_not_before c code delay now row =
     (if code = ''model_retry_pending''
      then (case jb_text (qc_json c) (jb_get ''not_before'' (jb_get ''model_retry'' (Some (ai_checkpoint_json row)))) of
              None \<Rightarrow> Inr now
            | Some t \<Rightarrow> map_sum id (\<lambda>u. max now u)
                (need (qc_time c t) (PgError ''22007'' ''invalid input syntax for type timestamp with time zone'')))
      else Inr (now + millis delay))"

definition finish_row :: "string \<Rightarrow> string \<Rightarrow> string \<Rightarrow> instant \<Rightarrow> instant \<Rightarrow> accepted_row \<Rightarrow> accepted_row" where
  "finish_row status code msg nb now row =
     row\<lparr>ai_status := finish_status status code (ai_checkpoint row),
        ai_attempts := (if code = ''session_busy'' then max (ai_attempts row - 1) 0 else ai_attempts row),
        ai_error_code := code, ai_error_message := msg, ai_claim_id := [], ai_claim_expires_at := None,
        ai_not_before := nb, ai_updated_at := now\<rparr>"

definition input_Finish ::
  "queue_codec \<Rightarrow> InputRecord \<Rightarrow> string \<Rightarrow> string \<Rightarrow> string \<Rightarrow> duration \<Rightarrow> instant \<Rightarrow> queue_db \<Rightarrow> go_err + unit \<times> queue_db" where
  "input_Finish c r status code msg delay now q =
     (case first_row (holds_claim r now) (qd_rows q) of
        None \<Rightarrow> Inl ErrClaimLost
      | Some row \<Rightarrow>
          bindE (finish_not_before c code delay now row) (\<lambda>nb.
          bindE (failif (finish_status status code (ai_checkpoint row) \<notin> set input_statuses) status_check_violation) (\<lambda>_.
          update_one ErrClaimLost (holds_claim r now) (finish_row status code msg nb now) q)))"

end
