(* ===== verification/InputHooks.thy ===== *)
theory InputHooks
  imports Input TaskControl GoJson
begin

text \<open>
  What the other components do to accepted inputs through the queue: approvals and interactions
  suspend the input of a worker and make it ready again, owner controls and schedules withdraw
  inputs, delegation and diagnostics admit inputs of their own.
\<close>

section \<open>Approvals\<close>

definition SuspendApprovalTx ::
  "queue_codec \<Rightarrow> InputRecord option \<Rightarrow> string \<Rightarrow> string \<Rightarrow> string \<Rightarrow> instant \<Rightarrow> queue_db \<Rightarrow> go_err + unit \<times> queue_db" where
  "SuspendApprovalTx c claim runID approvalID payload now q =
     bindE (need claim (Errorf ''durable input claim required for approval suspension'')) (\<lambda>r.
     bindE (need (jb_in (qc_json c) payload) jsonb_syntax_error) (\<lambda>v.
     update_one ErrClaimLost (\<lambda>row. holds_claim r now row \<and> ai_run_id row = Some runID)
       (\<lambda>row. row\<lparr>ai_checkpoint := ''awaiting_approval'',
                 ai_checkpoint_json := jb_put (jb_put (ai_checkpoint_json row) ''approval_id'' (JStr approvalID)) ''continuation'' v,
                 ai_updated_at := now\<rparr>) q))"

definition approval_of :: "queue_codec \<Rightarrow> accepted_row \<Rightarrow> string option" where
  "approval_of c row = jb_text (qc_json c) (jb_get ''approval_id'' (Some (ai_checkpoint_json row)))"

definition approval_ready_row :: "instant \<Rightarrow> accepted_row \<Rightarrow> accepted_row" where
  "approval_ready_row now row =
     row\<lparr>ai_checkpoint := ''approval_ready'',
        ai_status := (if ai_status row = ''running'' then ai_status row else ''queued''),
        ai_not_before := now, ai_updated_at := now\<rparr>"

definition ReadyApprovalTx :: "queue_codec \<Rightarrow> string \<Rightarrow> string \<Rightarrow> instant \<Rightarrow> queue_db \<Rightarrow> go_err + unit \<times> queue_db" where
  "ReadyApprovalTx c runID approvalID now =
     update_one ErrInputNotFound
       (\<lambda>row. ai_run_id row = Some runID \<and> approval_of c row = Some approvalID \<and>
              ai_status row \<in> {''running'', ''waiting_for_user'', ''blocked''})
       (approval_ready_row now)"

text \<open>The continuation of a guarded tab selection that names its approval.\<close>

definition selection_of :: "queue_codec \<Rightarrow> string \<Rightarrow> accepted_row \<Rightarrow> bool" where
  "selection_of c approvalID row \<longleftrightarrow>
     (let j = qc_json c; cont = jb_get ''continuation'' (Some (ai_checkpoint_json row)) in
      approval_of c row = Some approvalID \<and> jb_text j (jb_get ''kind'' cont) = Some ''guarded_tab_selection'' \<and>
      jb_text j (jb_get ''version'' cont) = Some ''1'' \<and> jb_text j (jb_get ''approval_id'' cont) = Some approvalID)"

definition ReadySelectionTx :: "queue_codec \<Rightarrow> string \<Rightarrow> string \<Rightarrow> instant \<Rightarrow> queue_db \<Rightarrow> go_err + unit \<times> queue_db" where
  "ReadySelectionTx c runID approvalID now =
     update_one ErrInputNotFound
       (\<lambda>row. ai_run_id row = Some runID \<and> selection_of c approvalID row \<and>
              ai_status row \<in> {''running'', ''waiting_for_user'', ''blocked'', ''queued''} \<and> now < ai_expires_at row)
       (approval_ready_row now)"

text \<open>The checks a worker makes of its own claim inside another component's transaction.\<close>

definition check_claim :: "InputRecord option \<Rightarrow> string \<Rightarrow> (accepted_row \<Rightarrow> bool) \<Rightarrow> instant \<Rightarrow> queue_db \<Rightarrow> go_err + unit" where
  "check_claim claim runID p now q =
     bindE (need claim ErrClaimLost) (\<lambda>r.
     bindE (need (first_row (\<lambda>row. holds_claim r now row \<and> ai_run_id row = Some runID \<and> p row \<and> now < ai_expires_at row)
              (qd_rows q)) ErrClaimLost) (\<lambda>_. Inr ()))"

definition CheckSelectionClaimTx ::
  "queue_codec \<Rightarrow> InputRecord option \<Rightarrow> string \<Rightarrow> string \<Rightarrow> instant \<Rightarrow> queue_db \<Rightarrow> go_err + unit" where
  "CheckSelectionClaimTx c claim runID approvalID =
     check_claim claim runID (\<lambda>row. ai_checkpoint row = ''approval_ready'' \<and> selection_of c approvalID row)"

definition CheckPendingSelectionClaimTx ::
  "queue_codec \<Rightarrow> InputRecord option \<Rightarrow> string \<Rightarrow> string \<Rightarrow> instant \<Rightarrow> queue_db \<Rightarrow> go_err + unit" where
  "CheckPendingSelectionClaimTx c claim runID approvalID =
     check_claim claim runID
       (\<lambda>row. ai_checkpoint row \<in> {''awaiting_approval'', ''approval_ready''} \<and> selection_of c approvalID row)"

definition CheckDispatchClaimTx ::
  "queue_codec \<Rightarrow> InputRecord option \<Rightarrow> string \<Rightarrow> string \<Rightarrow> string \<Rightarrow> string \<Rightarrow> instant \<Rightarrow> queue_db \<Rightarrow> go_err + unit" where
  "CheckDispatchClaimTx c claim runID callID effectID authorizationID =
     check_claim claim runID
       (\<lambda>row. let j = qc_json c; d = jb_get ''checkpoint_data'' (Some (ai_checkpoint_json row)) in
          ai_checkpoint row = ''tool_dispatching'' \<and> jb_text j (jb_get ''tool_call_id'' d) = Some callID \<and>
          jb_text j (jb_get ''effect_id'' d) = Some effectID \<and> jb_text j (jb_get ''authorization_id'' d) = Some authorizationID)"

definition CheckCommunicationClaimTx ::
  "InputRecord option \<Rightarrow> string \<Rightarrow> string \<Rightarrow> instant \<Rightarrow> queue_db \<Rightarrow> go_err + unit" where
  "CheckCommunicationClaimTx claim runID inputID now q =
     (case claim of
        None \<Rightarrow> Inl ErrClaimLost
      | Some r \<Rightarrow>
          if ir_InputID r \<noteq> inputID \<or> ir_ClaimID r = [] \<or> ir_RunID r \<noteq> [] \<and> ir_RunID r \<noteq> runID then Inl ErrClaimLost
          else check_claim claim runID (\<lambda>_. True) now q)"

section \<open>Interactions\<close>

definition interaction_marker :: "string \<Rightarrow> string \<Rightarrow> json" where
  "interaction_marker kind i = JObj [(''interaction_id'', JStr i), (''kind'', JStr kind), (''version'', JNum 1)]"

definition interaction_of :: "queue_codec \<Rightarrow> string \<Rightarrow> accepted_row \<Rightarrow> string option" where
  "interaction_of c k row = jb_text (qc_json c) (jb_get k (jb_get ''interaction'' (Some (ai_checkpoint_json row))))"

definition SuspendPrivateInteractionTx ::
  "InputRecord option \<Rightarrow> exec_ctx \<Rightarrow> string \<Rightarrow> string \<Rightarrow> string \<Rightarrow> instant \<Rightarrow> queue_db \<Rightarrow> go_err + unit \<times> queue_db" where
  "SuspendPrivateInteractionTx claim ctx runID i kind now q =
     bindE (failif (kind \<notin> {''communication_interaction'', ''credential_interaction'', ''effect_review''}) ErrClaimLost) (\<lambda>_.
     bindE (need claim ErrClaimLost) (\<lambda>r.
     bindE (need (TokenFromContext ctx) ErrClaimLost) (\<lambda>tok.
     bindE (failif (tok_RunID tok \<noteq> runID \<or> ir_RunID r \<noteq> [] \<and> ir_RunID r \<noteq> runID) ErrClaimLost) (\<lambda>_.
     update_one ErrClaimLost
       (\<lambda>row. holds_claim r now row \<and> ai_run_id row = Some runID \<and>
          (ai_checkpoint row = ''tool_dispatching'' \<and> kind \<noteq> ''effect_review'' \<or>
           ai_checkpoint row = ''browser_outcome_observed'' \<and> kind = ''effect_review'') \<and> now < ai_expires_at row)
       (\<lambda>row. row\<lparr>ai_checkpoint := ''awaiting_interaction'',
                 ai_checkpoint_json := jb_put (ai_checkpoint_json row) ''interaction'' (interaction_marker kind i),
                 ai_updated_at := now\<rparr>) q))))"

definition input_SuspendInteractionTx ::
  "InputRecord option \<Rightarrow> exec_ctx \<Rightarrow> string \<Rightarrow> string \<Rightarrow> instant \<Rightarrow> queue_db \<Rightarrow> go_err + unit \<times> queue_db" where
  "input_SuspendInteractionTx claim ctx runID i = SuspendPrivateInteractionTx claim ctx runID i ''communication_interaction''"

definition awaits :: "queue_codec \<Rightarrow> string \<Rightarrow> string \<Rightarrow> accepted_row \<Rightarrow> bool" where
  "awaits c inputID i row \<longleftrightarrow>
     ai_input_id row = inputID \<and> ai_checkpoint row = ''awaiting_interaction'' \<and>
     interaction_of c ''interaction_id'' row = Some i \<and> ai_status row \<in> {''running'', ''waiting_for_user'', ''blocked''}"

definition ReadyInteractionTx ::
  "queue_codec \<Rightarrow> string \<Rightarrow> string \<Rightarrow> bool \<Rightarrow> instant \<Rightarrow> queue_db \<Rightarrow> go_err + unit \<times> queue_db" where
  "ReadyInteractionTx c inputID i paused now =
     update_one ErrClaimLost (awaits c inputID i)
       (\<lambda>row. row\<lparr>ai_checkpoint := ''interaction_ready'',
          ai_status := (if paused then ''blocked''
            else if ai_status row = ''running'' \<and> (case ai_claim_expires_at row of None \<Rightarrow> False | Some t \<Rightarrow> now < t)
            then ''running'' else ''queued''),
          ai_expires_at := now + 600 * second, ai_not_before := now, ai_updated_at := now\<rparr>)"

definition CheckInteractionClaimTx ::
  "queue_codec \<Rightarrow> InputRecord option \<Rightarrow> string \<Rightarrow> string \<Rightarrow> instant \<Rightarrow> queue_db \<Rightarrow> go_err + unit" where
  "CheckInteractionClaimTx c claim runID i =
     check_claim claim runID
       (\<lambda>row. ai_checkpoint row = ''interaction_ready'' \<and> interaction_of c ''interaction_id'' row = Some i)"

text \<open>The transaction validates the worker's lease when it begins and when it commits. Both readings
  of the clock and the state of the leases are those of the one instant \<open>now\<close>.\<close>

definition SaveInteractionPreparation ::
  "queue_codec \<Rightarrow> InputRecord option \<Rightarrow> exec_ctx \<Rightarrow> kernel_db \<Rightarrow> string \<Rightarrow> string \<Rightarrow> string \<Rightarrow> instant \<Rightarrow> queue_db \<Rightarrow> go_err + unit \<times> queue_db" where
  "SaveInteractionPreparation c claim ctx K runID i payload now q =
     bindE (need claim ErrClaimLost) (\<lambda>r.
     bindE (need (TokenFromContext ctx) ErrClaimLost) (\<lambda>tok.
     bindE (failif (tok_RunID tok \<noteq> runID) ErrClaimLost) (\<lambda>_.
     bindE (BeginTransaction ctx now K) (\<lambda>ctx'.
     bindE (need (jb_in (qc_json c) payload) jsonb_syntax_error) (\<lambda>v.
     bindE (update_one ErrClaimLost
              (\<lambda>row. holds_claim r now row \<and> ai_run_id row = Some runID \<and> ai_checkpoint row = ''interaction_ready'' \<and>
                 interaction_of c ''interaction_id'' row = Some i \<and> now < ai_expires_at row)
              (\<lambda>row. row\<lparr>ai_checkpoint_json := jb_put (ai_checkpoint_json row) ''prepared'' v, ai_updated_at := now\<rparr>) q) (\<lambda>res.
     bindE (tx_Commit ctx' now K) (\<lambda>_. Inr res)))))))"

definition CloseInteractionTx :: "queue_codec \<Rightarrow> string \<Rightarrow> string \<Rightarrow> string \<Rightarrow> instant \<Rightarrow> queue_db \<Rightarrow> queue_db" where
  "CloseInteractionTx c inputID i reason now =
     update_rows (awaits c inputID i)
       (\<lambda>row. row\<lparr>ai_status := ''blocked'', ai_claim_id := [], ai_claim_expires_at := None,
                 ai_error_code := ''interaction_'' @ reason, ai_updated_at := now\<rparr>)"

definition HoldInteractionControlTx :: "string \<Rightarrow> string \<Rightarrow> instant \<Rightarrow> queue_db \<Rightarrow> go_err + unit \<times> queue_db" where
  "HoldInteractionControlTx inputID i now =
     update_one ErrClaimLost (\<lambda>row. ai_input_id row = inputID \<and> ai_status row = ''queued'' \<and> ai_run_id row = None)
       (\<lambda>row. row\<lparr>ai_status := ''waiting_for_user'', ai_checkpoint := ''awaiting_interaction'',
          ai_checkpoint_json := jb_put (ai_checkpoint_json row) ''interaction'' (interaction_marker ''communication_interaction'' i),
          ai_updated_at := now\<rparr>)"

section \<open>Controls and schedules\<close>

definition of_task :: "string list \<Rightarrow> accepted_row \<Rightarrow> bool" where
  "of_task taskIDs row \<longleftrightarrow> (case ai_task_id row of None \<Rightarrow> False | Some t \<Rightarrow> t \<in> set taskIDs)"

definition withdrawn :: "string \<Rightarrow> string \<Rightarrow> instant \<Rightarrow> accepted_row \<Rightarrow> accepted_row" where
  "withdrawn code msg now row =
     row\<lparr>ai_status := ''cancelled'', ai_claim_id := [], ai_claim_expires_at := None, ai_error_code := code,
        ai_error_message := msg, ai_updated_at := now\<rparr>"

definition uncertain_input :: "queue_codec \<Rightarrow> accepted_row \<Rightarrow> bool" where
  "uncertain_input c row \<longleftrightarrow>
     ai_checkpoint row \<in> {''tool_dispatching'', ''tool_result_recorded'', ''browser_outcome_observing'', ''browser_outcome_observed''} \<or>
     ai_checkpoint row \<in> {''awaiting_interaction'', ''interaction_ready''} \<and> interaction_of c ''kind'' row = Some ''effect_review''"

definition InvalidateForControlTx ::
  "queue_codec \<Rightarrow> string list \<Rightarrow> string \<Rightarrow> instant \<Rightarrow> queue_db \<Rightarrow> bool \<times> queue_db" where
  "InvalidateForControlTx c taskIDs controlID now q =
     (list_ex (\<lambda>row. of_task taskIDs row \<and> uncertain_input c row) (qd_rows q),
      update_rows (\<lambda>row. of_task taskIDs row \<and> \<not> finished row) (withdrawn ''owner_control'' controlID now) q)"

definition InvalidateForScheduleTx :: "string list \<Rightarrow> instant \<Rightarrow> queue_db \<Rightarrow> queue_db" where
  "InvalidateForScheduleTx taskIDs now =
     update_rows (\<lambda>row. of_task taskIDs row \<and> \<not> finished row)
       (withdrawn ''schedule_changed'' ''owning schedule revision invalidated this occurrence'' now)"

definition ambiguous :: "string list \<Rightarrow> string \<Rightarrow> accepted_row \<Rightarrow> bool" where
  "ambiguous ks owner row \<longleftrightarrow>
     ai_session_key row \<in> set ks \<and> ai_owner_id row = owner \<and> ai_status row = ''waiting_for_user'' \<and>
     ai_error_code row = ''task_target_required''"

definition resolved :: "string \<Rightarrow> instant \<Rightarrow> accepted_row \<Rightarrow> accepted_row" where
  "resolved msg now row = row\<lparr>ai_status := ''cancelled'', ai_error_message := msg, ai_updated_at := now\<rparr>"

definition ResolveAmbiguousForControlTx :: "string list \<Rightarrow> string \<Rightarrow> instant \<Rightarrow> queue_db \<Rightarrow> queue_db" where
  "ResolveAmbiguousForControlTx ks owner now =
     update_rows (ambiguous ks owner) (resolved ''target clarified by authenticated owner'' now)"

definition ResolveConversationAmbiguity ::
  "kernel_db \<Rightarrow> string \<Rightarrow> string \<Rightarrow> instant \<Rightarrow> queue_db \<Rightarrow> go_err + unit \<times> queue_db" where
  "ResolveConversationAmbiguity K session owner now q =
     bindE (need (tbl_find s_session_key session (sessions K)) ErrNoRows) (\<lambda>s.
     bindE (failif (s_user_id s \<noteq> owner) ErrClaimLost) (\<lambda>_.
     Inr ((), ResolveAmbiguousForControlTx [session] owner now q)))"

text \<open>The insert of a control has no conflict clause: a delivery key or an identifier that is taken
  fails the transaction.\<close>

definition AdmitControlTx ::
  "queue_codec \<Rightarrow> string option \<Rightarrow> instant \<Rightarrow> ingress_event \<Rightarrow> string \<Rightarrow> string \<Rightarrow> string \<Rightarrow> string \<Rightarrow> string \<Rightarrow> queue_db
     \<Rightarrow> go_err + string \<times> queue_db" where
  "AdmitControlTx c rnd now event owner taskID status checkpoint code q =
     (let q = (if checkpoint = ''owner_control_applied''
               then update_rows (ambiguous [in_SessionKey event] owner) (resolved ''target resolved by owner control'' now) q
               else q)
      in
     bindE (randomID ''input-'' rnd) (\<lambda>i.
     bindE (qc_event c event) (\<lambda>stored.
     let r = new_row i (qd_next q) (in_IdempotencyKey event) owner taskID status checkpoint code now event stored in
     bindE (failif (status \<notin> set input_statuses) status_check_violation) (\<lambda>_.
     bindE (failif (tbl_find ai_input_id i (qd_rows q) \<noteq> None) input_key_violation) (\<lambda>_.
     bindE (failif (tbl_find delivery_key (delivery_key r) (qd_rows q) \<noteq> None) delivery_key_violation) (\<lambda>_.
     Inr (i, q\<lparr>qd_rows := qd_rows q @ [r], qd_next := qd_next q + 1\<rparr>)))))))"

section \<open>Bounded and diagnostic admissions\<close>

text \<open>The tail both bounded admissions share: a first delivery gets its deadline and number of
  attempts, a redelivery must agree with them.\<close>

definition bound_input ::
  "go_err \<Rightarrow> go_err \<Rightarrow> instant \<Rightarrow> int \<Rightarrow> InputRecord \<times> bool \<Rightarrow> queue_db \<Rightarrow> go_err + string \<times> queue_db" where
  "bound_input conflict failed deadline max_attempts res q =
     (case res of (r, created) \<Rightarrow>
        if \<not> created
        then bindE (failif (ir_ExpiresAt r \<noteq> micros deadline \<or> ir_MaxAttempts r \<noteq> max_attempts) conflict) (\<lambda>_.
             Inr (ir_InputID r, q))
        else bindE (update_one failed (\<lambda>row. ai_input_id row = ir_InputID r \<and> ai_status row = ''queued'')
                      (\<lambda>row. row\<lparr>ai_expires_at := micros deadline, ai_max_attempts := max_attempts\<rparr>) q) (\<lambda>(_, q).
             Inr (ir_InputID r, q)))"

record SourceRef =
  sf_ID :: string
  sf_Revision :: int
  sf_AccessRevision :: int
  sf_Hash :: string

text \<open>The hash decodes to 32 bytes and is the lower-case text of them.\<close>

definition ValidSource :: "SourceRef \<Rightarrow> bool" where
  "ValidSource r \<longleftrightarrow>
     sf_ID r \<noteq> [] \<and> length (sf_ID r) \<le> 512 \<and> list_all (\<lambda>ch. ch \<notin> {CHR 0x00, CHR 0x0D, CHR 0x0A}) (sf_ID r) \<and>
     0 < sf_Revision r \<and> 0 < sf_AccessRevision r \<and> length (sf_Hash r) = 64 \<and>
     list_all (\<lambda>ch. ch \<in> set ''0123456789abcdef'') (sf_Hash r)"

record bounded_request =
  br_OwnerID :: string
  br_SessionKey :: string
  br_TaskID :: string
  br_EventID :: string
  br_ContractSource :: SourceRef
  br_Deadline :: instant
  br_MaxAttempts :: int

definition bounded_payload :: "bounded_request \<Rightarrow> string" where
  "bounded_payload req =
     (let s = br_ContractSource req in
      json_Marshal (JObj [(''task_id'', JStr (br_TaskID req)),
        (''delegation_source'', JObj [(''source_id'', JStr (sf_ID s)), (''revision'', JNum (sf_Revision s)),
           (''access_revision'', JNum (sf_AccessRevision s)), (''content_hash'', JStr (sf_Hash s))])]))"

definition AcceptBoundedTx ::
  "queue_codec \<Rightarrow> kernel_db \<Rightarrow> task_row list \<Rightarrow> string option \<Rightarrow> instant \<Rightarrow> bounded_request \<Rightarrow> queue_db
     \<Rightarrow> go_err + string \<times> queue_db" where
  "AcceptBoundedTx c K tasks rnd now req q =
     bindE (failif (br_OwnerID req = [] \<or> br_SessionKey req = [] \<or> br_TaskID req = [] \<or> br_EventID req = [] \<or>
                    \<not> ValidSource (br_ContractSource req) \<or> br_Deadline req \<le> now \<or> now + 24 * hour < br_Deadline req \<or>
                    br_MaxAttempts req < 1 \<or> 3 < br_MaxAttempts req)
              (Errorf ''invalid bounded child admission'')) (\<lambda>_.
     bindE (AcceptTx c K tasks rnd now
              \<lparr>in_EventID = br_EventID req, in_EventType = 4, in_SessionKey = br_SessionKey req, in_Source = ''delegation'',
               in_PayloadJSON = bounded_payload req, in_CreatedAt = now, in_IdempotencyKey = br_EventID req\<rparr>
              (br_OwnerID req) (br_TaskID req) q) (\<lambda>(res, q).
     bound_input (Errorf ''bounded child identity conflict'') ErrClaimLost (br_Deadline req) (br_MaxAttempts req) res q))"

text \<open>The continuation of a converter's parent; an authenticated owner may not ask for it.\<close>

definition ErrAccess :: go_err where
  "ErrAccess = Sentinel ''current converter authority required''"

record ConverterContinuationRequest =
  cc_ID :: string
  cc_TaskID :: string
  cc_OwnerID :: string
  cc_SessionKey :: string
  cc_Deadline :: instant

definition AcceptConverterContinuationTx ::
  "queue_codec \<Rightarrow> kernel_db \<Rightarrow> task_row list \<Rightarrow> string option \<Rightarrow> instant \<Rightarrow> Actor option \<Rightarrow> ConverterContinuationRequest \<Rightarrow> queue_db
     \<Rightarrow> go_err + string \<times> queue_db" where
  "AcceptConverterContinuationTx c K tasks rnd now actor req q =
     (let event = ''converter-return:'' @ cc_ID req in
     bindE (failif (cc_ID req = [] \<or> cc_TaskID req = [] \<or> cc_OwnerID req = [] \<or> cc_SessionKey req = [] \<or>
                    cc_Deadline req \<le> now \<or> now + 24 * hour < cc_Deadline req \<or> FromContext actor \<noteq> None) ErrAccess) (\<lambda>_.
     bindE (AcceptTx c K tasks rnd now
              \<lparr>in_EventID = event, in_EventType = 4, in_SessionKey = cc_SessionKey req, in_Source = ''converter-return'',
               in_PayloadJSON = json_Marshal (JObj [(''task_id'', JStr (cc_TaskID req)), (''continuation_id'', JStr (cc_ID req))]),
               in_CreatedAt = now, in_IdempotencyKey = event\<rparr>
              (cc_OwnerID req) (cc_TaskID req) q) (\<lambda>(res, q).
     bound_input ErrAccess ErrAccess (cc_Deadline req) 3 res q)))"

definition AcceptDoctorTx ::
  "queue_codec \<Rightarrow> kernel_db \<Rightarrow> task_row list \<Rightarrow> string option \<Rightarrow> instant \<Rightarrow> Actor option \<Rightarrow> ingress_event \<Rightarrow> string \<Rightarrow> string \<Rightarrow> queue_db
     \<Rightarrow> go_err + InputRecord \<times> queue_db" where
  "AcceptDoctorTx c K tasks rnd now actor event owner taskID q =
     (case FromContext actor of
        None \<Rightarrow> Inl (Errorf ''authenticated diagnostic owner required'')
      | Some a \<Rightarrow>
          if ac_OwnerID a \<noteq> owner \<or> ac_Channel a \<noteq> ''web'' \<or> ac_SessionKey a \<noteq> in_SessionKey event \<or> taskID = []
          then Inl (Errorf ''authenticated diagnostic owner required'')
          else
            bindE (AcceptTx c K tasks rnd now event owner taskID q) (\<lambda>((r, created), q).
            bindE (failif (\<not> created) (Errorf ''diagnostic delivery already accepted'')) (\<lambda>_.
            Inr (r, update_rows (\<lambda>row. ai_input_id row = ir_InputID r)
                      (\<lambda>row. row\<lparr>ai_checkpoint_json := jb_put (ai_checkpoint_json row) ''operator_operation'' (JStr ''doctor.check_system'')\<rparr>) q))))"

text \<open>\<^verbatim>\<open>json.Unmarshal\<close> into a struct matches member names without regard to case; a \<^verbatim>\<open>null\<close> leaves the
  field as it was. The name matched has no letter with a fold outside ASCII.\<close>

definition ascii_lower :: "char \<Rightarrow> char" where
  "ascii_lower ch = (let n = of_char ch :: nat in if 65 \<le> n \<and> n \<le> 90 then char_of (n + 32) else ch)"

fun decode_string :: "string \<Rightarrow> string \<Rightarrow> (string \<times> json) list \<Rightarrow> string option" where
  "decode_string field val [] = Some val"
| "decode_string field val ((k, v) # kv) =
     (if map ascii_lower k \<noteq> field then decode_string field val kv
      else case v of
        JStr s \<Rightarrow> decode_string field s kv
      | JNull \<Rightarrow> decode_string field val kv
      | _ \<Rightarrow> None)"

fun doctorAdmission :: "json \<Rightarrow> bool" where
  "doctorAdmission (JObj kv) \<longleftrightarrow> decode_string ''operator_operation'' [] kv = Some ''doctor.check_system''"
| "doctorAdmission _ \<longleftrightarrow> False"

definition GetDoctor :: "Actor option \<Rightarrow> string \<Rightarrow> queue_db \<Rightarrow> go_err + InputRecord" where
  "GetDoctor actor i q =
     bindE (need (FromContext actor) (Errorf ''authenticated owner required'')) (\<lambda>a.
     bindE (input_Get i q) (\<lambda>r.
     bindE (failif (ir_OwnerID r \<noteq> ac_OwnerID a \<or> \<not> doctorAdmission (ir_CheckpointJSON r))
              (Errorf ''diagnostic request unavailable'')) (\<lambda>_. Inr r)))"

end
