(* ===== verification/InputWorker.thy ===== *)
theory InputWorker
  imports InputHooks RunTx
begin

text \<open>
  The worker of \<^verbatim>\<open>service.go\<close>: what it decides about a claimed input before it executes it and how it
  settles the input afterwards. The execution, its heartbeat and its time limits belong to the
  caller. An error of the execution is the value itself with what the worker finds out about it by
  the types in its chain.
\<close>

definition ErrCommunicationStatePending :: go_err where
  "ErrCommunicationStatePending = Sentinel ''communication state verification pending''"

definition ErrModelRetryPending :: go_err where
  "ErrModelRetryPending = Sentinel ''one durable model retry queued''"

definition ErrResultPersistencePending :: go_err where
  "ErrResultPersistencePending = Sentinel ''final result persistence pending; saved answer only may be retried''"

definition ErrDeadlineExceeded :: go_err where
  "ErrDeadlineExceeded = Sentinel ''context deadline exceeded''"

text \<open>
  \<open>xe_observation\<close>: the error is an owned cancellation by a timed out observation of authority;
  \<open>xe_transport\<close>: \<^verbatim>\<open>transport.DiagnosticCode\<close>, empty when there is no transport error in the chain;
  \<open>xe_claim\<close>: a cancellation by the heartbeat, and whether the claim was lost;
  \<open>xe_diagnostic\<close>: the code of the first error of the chain that has one.
\<close>

record exec_error =
  xe_error :: go_err
  xe_observation :: bool
  xe_transport :: string
  xe_claim :: "bool option"
  xe_diagnostic :: "string option"

record exec_result =
  er_ReceiptStatus :: string
  er_ErrorCode :: string
  er_CurrentState :: string

record settlement =
  se_status :: string
  se_code :: string
  se_message :: string
  se_delay :: duration

definition settle :: "string \<Rightarrow> string \<Rightarrow> string \<Rightarrow> duration \<Rightarrow> settlement" where
  "settle status code msg delay = \<lparr>se_status = status, se_code = code, se_message = msg, se_delay = delay\<rparr>"

datatype decision = Settle settlement | Execute | Resume

definition executionFailure :: "exec_error \<Rightarrow> string \<times> string" where
  "executionFailure e =
     (if xe_observation e then (''execution_authority_observation_timeout'', ''execution_authority_observation_timeout'')
      else if xe_transport e \<noteq> [] then (xe_transport e, xe_transport e)
      else (''execution_stopped'', err_text (xe_error e)))"

text \<open>\<open>previous\<close> is the state of the run a previous attempt left, as the run service reports it.\<close>

definition process_before :: "instant \<Rightarrow> (string \<Rightarrow> go_err + string) \<Rightarrow> InputRecord \<Rightarrow> decision" where
  "process_before now previous r =
     (if ir_ExpiresAt r < now then Settle (settle ''expired'' ''input_expired'' ''accepted input deadline expired'' 0)
      else if ir_MaxAttempts r < ir_Attempts r then Settle (settle ''failed'' ''retry_exhausted'' ''bounded input retries exhausted'' 0)
      else if ir_RunID r = [] then Execute
      else case previous (ir_RunID r) of
        Inl e \<Rightarrow> Settle (settle ''blocked'' ''recovery_unavailable'' (err_text e) 0)
      | Inr state \<Rightarrow>
          if state = RunStateCompleted then Settle (settle ''completed'' [] [] 0)
          else if state \<in> {RunStateFailed, RunStateTimedOut, RunStateCancelled}
          then Settle (settle ''failed'' ''prior_attempt_terminal'' ''previous attempt ended; explicit retry required'' 0)
          else if state \<in> {RunStateCreated, RunStateQueued, RunStateAcquired, RunStatePreparing} then Execute
          else Resume)"

definition retry_delay :: "InputRecord \<Rightarrow> duration" where
  "retry_delay r = 2 ^ nat (min (ir_Attempts r) 6) * second"

definition claim_cause :: "bool \<Rightarrow> string" where
  "claim_cause lost = (if lost then ''input_claim_lost'' else ''input_claim_renewal_failed'')"

definition failure_code :: "InputRecord \<Rightarrow> exec_error \<Rightarrow> string" where
  "failure_code r e =
     (let code = fst (executionFailure e);
          code = (case xe_claim e of None \<Rightarrow> code | Some lost \<Rightarrow> claim_cause lost);
          code = (if doctorAdmission (ir_CheckpointJSON r)
                  then (case xe_diagnostic e of
                          None \<Rightarrow> code
                        | Some d \<Rightarrow> if d \<in> {''broker_transport'', ''preparation_denied'', ''authorization_denied''} then d else code)
                  else code)
      in if err_is (xe_error e) ErrDeadlineExceeded then ''execution_deadline_exceeded'' else code)"

text \<open>\<open>now\<close> is the clock of the worker, \<open>stopping\<close> whether the service shuts down: then the claim is
  left to run out.\<close>

definition process_after :: "instant \<Rightarrow> bool \<Rightarrow> InputRecord \<Rightarrow> exec_error + exec_result option \<Rightarrow> settlement option" where
  "process_after now stopping r outcome =
     (if stopping then None
      else Some (case outcome of
        Inl e \<Rightarrow>
          let retry = (ir_Attempts r < ir_MaxAttempts r \<and> now < ir_ExpiresAt r) in
          if err_is (xe_error e) ErrLeaseConflict then settle ''queued'' ''session_busy'' (err_text (xe_error e)) second
          else if err_is (xe_error e) ErrCommunicationStatePending \<and> retry
          then settle ''queued'' ''communication_state_pending'' ''stored communication state awaits verification'' (retry_delay r)
          else if err_is (xe_error e) ErrModelRetryPending \<and> retry
          then settle ''queued'' ''model_retry_pending'' ''one bounded model retry awaits durable backoff'' 0
          else if err_is (xe_error e) ErrResultPersistencePending \<and> retry
          then settle ''queued'' ''result_persistence_pending'' ''saved final answer awaits durable persistence'' (retry_delay r)
          else settle ''blocked'' (failure_code r e)
                 (if doctorAdmission (ir_CheckpointJSON r) then ''diagnostic execution stopped; inspect bounded error code''
                  else snd (executionFailure e)) 0
      | Inr None \<Rightarrow> settle ''completed'' [] [] 0
      | Inr (Some res) \<Rightarrow>
          if er_ReceiptStatus res = ''blocked'' then settle ''blocked'' (er_ErrorCode res) ''owner decision or reconciliation required'' 0
          else if er_CurrentState res = RunStateAwaitingApproval then settle ''waiting_for_user'' [] [] 0
          else settle ''completed'' [] [] 0))"

text \<open>A failing \<^verbatim>\<open>Finish\<close> is only logged.\<close>

definition service_finish :: "queue_codec \<Rightarrow> InputRecord \<Rightarrow> settlement \<Rightarrow> instant \<Rightarrow> queue_db \<Rightarrow> queue_db" where
  "service_finish c r s now q =
     (case input_Finish c r (se_status s) (se_code s) (se_message s) (se_delay s) now q of
        Inl _ \<Rightarrow> q
      | Inr (_, q') \<Rightarrow> q')"

end
