(* ===== verification/InputProps.thy ===== *)
theory InputProps
  imports InputWorker
begin

text \<open>
  What the queue of accepted inputs guarantees. Every operation is a sequence of three abstract moves
  (\<open>queue_move\<close>): rows evolve without changing identity, reviving a finished input or inventing a
  claim; a new row is appended under a new sequence number; the head of a session is claimed. The
  invariant and the facts about later states are proved for the moves and carried to the
  operations by the refinement \<open>input_step_moves\<close>.
\<close>

section \<open>Abstract moves\<close>

definition inp_evolves :: "accepted_row \<Rightarrow> accepted_row \<Rightarrow> bool" where
  "inp_evolves r r' \<longleftrightarrow>
     ai_input_id r' = ai_input_id r \<and> ai_session_key r' = ai_session_key r \<and> ai_sequence r' = ai_sequence r \<and>
     ai_source r' = ai_source r \<and> ai_dedup_key r' = ai_dedup_key r \<and> ai_owner_id r' = ai_owner_id r \<and>
     ai_task_id r' = ai_task_id r \<and> ai_accepted_at r' = ai_accepted_at r \<and>
     (finished r \<longrightarrow> ai_status r' = ai_status r) \<and>
     (ai_status r' = ''running'' \<longrightarrow> ai_status r = ''running'' \<and> ai_claim_id r' = ai_claim_id r) \<and>
     (ai_claim_id r' = ai_claim_id r \<or> ai_claim_id r' = [])"

inductive queue_move :: "string set \<Rightarrow> queue_db \<Rightarrow> queue_db \<Rightarrow> bool" for F where
  evolve: "list_all2 inp_evolves (qd_rows q) (qd_rows q') \<Longrightarrow> qd_next q \<le> qd_next q' \<Longrightarrow> queue_move F q q'"
| append:
    "qd_rows q' = qd_rows q @ [r] \<Longrightarrow> ai_sequence r = qd_next q \<Longrightarrow> qd_next q < qd_next q' \<Longrightarrow>
     tbl_find ai_input_id (ai_input_id r) (qd_rows q) = None \<Longrightarrow>
     tbl_find delivery_key (delivery_key r) (qd_rows q) = None \<Longrightarrow> ai_status r \<noteq> ''running'' \<Longrightarrow> ai_claim_id r = [] \<Longrightarrow>
     queue_move F q q'"
| claim:
    "r \<in> set (qd_rows q) \<Longrightarrow> is_head (qd_rows q) r \<Longrightarrow> \<not> finished r \<Longrightarrow> cid \<noteq> [] \<Longrightarrow> cid \<notin> F \<Longrightarrow>
     queue_move F q (update_rows (\<lambda>r'. ai_input_id r' = ai_input_id r) (claim_row cid ttl now) q)"

definition queue_init :: "queue_db \<Rightarrow> bool" where
  "queue_init q \<longleftrightarrow> qd_rows q = []"

definition queue_inv :: "queue_db \<Rightarrow> bool" where
  "queue_inv q \<longleftrightarrow>
     keyed ai_input_id (qd_rows q) \<and> keyed delivery_key (qd_rows q) \<and> keyed ai_sequence (qd_rows q) \<and>
     (\<forall>r \<in> set (qd_rows q). ai_sequence r < qd_next q \<and>
        (ai_status r = ''running'' \<longrightarrow> is_head (qd_rows q) r \<and> ai_claim_id r \<noteq> []))"

lemma inp_evolves_refl [simp]: "inp_evolves r r"
  by (simp add: inp_evolves_def)

lemma inp_evolves_ids:
  assumes "inp_evolves r r'"
  shows "ai_input_id r' = ai_input_id r" and "ai_session_key r' = ai_session_key r" and "ai_sequence r' = ai_sequence r"
    and "delivery_key r' = delivery_key r" and "ai_owner_id r' = ai_owner_id r" and "ai_task_id r' = ai_task_id r"
  using assms by (simp_all add: inp_evolves_def delivery_key_def)

lemma inp_evolves_running: "inp_evolves r r' \<Longrightarrow> ai_status r' = ''running'' \<Longrightarrow> ai_status r = ''running'' \<and> ai_claim_id r' = ai_claim_id r"
  unfolding inp_evolves_def by blast

lemma inp_evolves_claim: "inp_evolves r r' \<Longrightarrow> ai_claim_id r' = ai_claim_id r \<or> ai_claim_id r' = []"
  unfolding inp_evolves_def by blast

lemma inp_evolves_finished: "inp_evolves r r' \<Longrightarrow> finished r \<Longrightarrow> finished r' \<and> ai_status r' = ai_status r"
  unfolding inp_evolves_def by (metis finished_def)

lemma inp_evolves_keys:
  assumes "list_all2 inp_evolves rows rows'"
  shows "map ai_input_id rows' = map ai_input_id rows" and "map delivery_key rows' = map delivery_key rows"
    and "map ai_sequence rows' = map ai_sequence rows"
  using assms by induction (simp_all add: inp_evolves_ids)

lemma inp_evolves_row:
  assumes "list_all2 inp_evolves rows rows'"
  shows "r' \<in> set rows' \<Longrightarrow> \<exists>r \<in> set rows. inp_evolves r r'" and "r \<in> set rows \<Longrightarrow> \<exists>r' \<in> set rows'. inp_evolves r r'"
  using assms by (metis in_set_conv_nth list_all2_conv_all_nth)+

lemma inp_evolves_head:
  assumes "list_all2 inp_evolves rows rows'" and "is_head rows r" and "inp_evolves r r'"
  shows "is_head rows' r'"
  unfolding is_head_def
proof (intro ballI impI)
  fix h' assume "h' \<in> set rows'" and h: "ai_session_key h' = ai_session_key r' \<and> ai_sequence h' < ai_sequence r'"
  then obtain g where "g \<in> set rows" "inp_evolves g h'" using inp_evolves_row(1) [OF assms(1)] by blast
  with h inp_evolves_ids [OF \<open>inp_evolves g h'\<close>] inp_evolves_ids [OF assms(3)] assms(2) have "finished g" by (simp add: is_head_def)
  with \<open>inp_evolves g h'\<close> show "finished h'" by (blast dest: inp_evolves_finished)
qed

lemma inv_inp_evolve:
  assumes "queue_inv q" and rows: "list_all2 inp_evolves (qd_rows q) (qd_rows q')" and "qd_next q \<le> qd_next q'"
  shows "queue_inv q'"
proof -
  have "ai_sequence r' < qd_next q' \<and> (ai_status r' = ''running'' \<longrightarrow> is_head (qd_rows q') r' \<and> ai_claim_id r' \<noteq> [])"
    if "r' \<in> set (qd_rows q')" for r'
  proof -
    obtain r where r: "r \<in> set (qd_rows q)" "inp_evolves r r'" using inp_evolves_row(1) [OF rows \<open>r' \<in> set (qd_rows q')\<close>] by blast
    then have "ai_sequence r < qd_next q" and "ai_status r = ''running'' \<longrightarrow> is_head (qd_rows q) r \<and> ai_claim_id r \<noteq> []"
      using assms(1) by (simp_all add: queue_inv_def)
    with assms(3) inp_evolves_ids(3) [OF r(2)] inp_evolves_running [OF r(2)] inp_evolves_head [OF rows _ r(2)] show ?thesis by force
  qed
  with assms inp_evolves_keys [OF rows] show ?thesis by (simp add: queue_inv_def keyed_def)
qed

lemma inv_append:
  assumes "queue_inv q" and "qd_rows q' = qd_rows q @ [r]" and "ai_sequence r = qd_next q" and "qd_next q < qd_next q'"
    and "tbl_find ai_input_id (ai_input_id r) (qd_rows q) = None" and "tbl_find delivery_key (delivery_key r) (qd_rows q) = None"
    and "ai_status r \<noteq> ''running''"
  shows "queue_inv q'"
proof -
  have "tbl_find ai_sequence (ai_sequence r) (qd_rows q) = None"
    using assms(1,3) by (auto simp: tbl_find_None_iff queue_inv_def)
  moreover have "is_head (qd_rows q @ [r]) r'" if "is_head (qd_rows q) r'" "r' \<in> set (qd_rows q)" for r'
    using that assms(1,3) by (auto simp: is_head_def queue_inv_def)
  ultimately show ?thesis using assms by (auto simp: queue_inv_def keyed_snoc)
qed

lemma inv_claim:
  assumes inv: "queue_inv q" and r: "r \<in> set (qd_rows q)" "is_head (qd_rows q) r" "\<not> finished r" and "cid \<noteq> []"
  shows "queue_inv (update_rows (\<lambda>r'. ai_input_id r' = ai_input_id r) (claim_row cid ttl now) q)"
proof -
  let ?f = "\<lambda>r'. if ai_input_id r' = ai_input_id r then claim_row cid ttl now r' else r'"
  have same: "h = r" if "h \<in> set (qd_rows q)" "ai_input_id h = ai_input_id r" for h
    using that inv r(1) by (auto simp: queue_inv_def intro: keyed_eq)
  have keep: "ai_session_key (?f h) = ai_session_key h" "ai_sequence (?f h) = ai_sequence h" for h
    by (simp_all add: claim_row_def)
  have head: "is_head (map ?f (qd_rows q)) (?f g)" if g: "g \<in> set (qd_rows q)" "is_head (qd_rows q) g" for g
    unfolding is_head_def set_map
  proof (intro ballI impI)
    fix h' assume "h' \<in> ?f ` set (qd_rows q)" "ai_session_key h' = ai_session_key (?f g) \<and> ai_sequence h' < ai_sequence (?f g)"
    then obtain h where h: "h \<in> set (qd_rows q)" "h' = ?f h" and
        later: "ai_session_key (?f h) = ai_session_key (?f g)" "ai_sequence (?f h) < ai_sequence (?f g)" by blast
    from later have "ai_session_key h = ai_session_key g" "ai_sequence h < ai_sequence g" by (simp_all only: keep)
    with h(1) have "finished h" using g(2) by (auto simp: is_head_def)
    then have "ai_input_id h \<noteq> ai_input_id r" using same [OF h(1)] r(3) by auto
    with h(2) \<open>finished h\<close> show "finished h'" by simp
  qed
  have "ai_sequence r' < qd_next q \<and> (ai_status r' = ''running'' \<longrightarrow> is_head (map ?f (qd_rows q)) r' \<and> ai_claim_id r' \<noteq> [])"
    if row: "r' \<in> ?f ` set (qd_rows q)" for r'
  proof -
    obtain g where g: "g \<in> set (qd_rows q)" "r' = ?f g" using row by blast
    show ?thesis
    proof (cases "ai_input_id g = ai_input_id r")
      case True
      then have "g = r" by (rule same [OF g(1)])
      with head [OF g(1)] r(2) g inv assms(5) show ?thesis by (simp add: queue_inv_def claim_row_def)
    next
      case False
      with head [OF g(1)] g inv show ?thesis by (auto simp: queue_inv_def)
    qed
  qed
  moreover have "keyed ai_input_id (tbl_update (\<lambda>r'. ai_input_id r' = ai_input_id r) (claim_row cid ttl now) (qd_rows q))"
    "keyed delivery_key (tbl_update (\<lambda>r'. ai_input_id r' = ai_input_id r) (claim_row cid ttl now) (qd_rows q))"
    "keyed ai_sequence (tbl_update (\<lambda>r'. ai_input_id r' = ai_input_id r) (claim_row cid ttl now) (qd_rows q))"
    using inv by (subst keyed_tbl_update; simp add: queue_inv_def claim_row_def delivery_key_def)+
  ultimately show ?thesis
    unfolding queue_inv_def update_rows_def by (simp add: tbl_update_def)
qed

interpretation moves: invariant_system queue_init "queue_move F" queue_inv for F
proof
  show "queue_inv s" if "queue_init s" for s
    using that by (simp add: queue_init_def queue_inv_def)
  show "queue_inv t" if "queue_inv s" "queue_move F s t" for s t
    using that(2,1) by cases (auto intro: inv_inp_evolve inv_append inv_claim)
qed

section \<open>What moves preserve\<close>

text \<open>An input keeps its identity, and a finished one its status.\<close>

lemma move_keeps_row:
  assumes "queue_move F q q'" and "r \<in> set (qd_rows q)"
  shows "\<exists>r' \<in> set (qd_rows q'). ai_input_id r' = ai_input_id r \<and> delivery_key r' = delivery_key r \<and>
           ai_owner_id r' = ai_owner_id r \<and> ai_task_id r' = ai_task_id r"
  using assms(1)
proof cases
  case evolve
  then obtain r' where "r' \<in> set (qd_rows q')" "inp_evolves r r'" using inp_evolves_row(2) [OF _ assms(2)] by blast
  then show ?thesis using inp_evolves_ids by metis
next
  case (append r)
  then show ?thesis using assms(2) by auto
next
  case (claim g cid ttl now)
  then have "(if ai_input_id r = ai_input_id g then claim_row cid ttl now r else r) \<in> set (qd_rows q')"
    using assms(2) by (auto simp: update_rows_def set_tbl_update)
  then show ?thesis by (rule bexI [rotated]) (simp add: claim_row_def delivery_key_def)
qed

lemma moves_keep_row:
  assumes "(queue_move F)\<^sup>*\<^sup>* q q'" and "r \<in> set (qd_rows q)"
  shows "\<exists>r' \<in> set (qd_rows q'). ai_input_id r' = ai_input_id r \<and> delivery_key r' = delivery_key r \<and>
           ai_owner_id r' = ai_owner_id r \<and> ai_task_id r' = ai_task_id r"
  using assms
proof (induction rule: rtranclp_induct)
  case base
  then show ?case by blast
next
  case (step u v)
  then obtain s where "s \<in> set (qd_rows u)" "ai_input_id s = ai_input_id r" "delivery_key s = delivery_key r"
      "ai_owner_id s = ai_owner_id r" "ai_task_id s = ai_task_id r" by blast
  then show ?case using move_keeps_row [OF step(2)] by metis
qed

text \<open>A claim identifier that no row carries stays out of the table unless it is drawn again.\<close>

definition unclaimed :: "string \<Rightarrow> queue_db \<Rightarrow> bool" where
  "unclaimed cid q \<longleftrightarrow> (\<forall>r \<in> set (qd_rows q). ai_claim_id r \<noteq> cid)"

lemma move_unclaimed:
  assumes "queue_move {cid} q q'" and "cid \<noteq> []" and "unclaimed cid q"
  shows "unclaimed cid q'"
  using assms(1)
proof cases
  case evolve
  then show ?thesis using assms(2,3) inp_evolves_row(1) [OF evolve(1)] inp_evolves_claim unfolding unclaimed_def by metis
next
  case (append r)
  then show ?thesis using assms(2,3) by (auto simp: unclaimed_def)
next
  case (claim r cid' ttl now)
  then show ?thesis using assms(3) by (auto simp: unclaimed_def update_rows_def set_tbl_update claim_row_def)
qed

lemma moves_unclaimed: "(queue_move {cid})\<^sup>*\<^sup>* q q' \<Longrightarrow> cid \<noteq> [] \<Longrightarrow> unclaimed cid q \<Longrightarrow> unclaimed cid q'"
  by (induction rule: rtranclp_induct) (auto intro: move_unclaimed)

section \<open>Operations refine moves\<close>

text \<open>The operations of the queue and of its clients, as the services call them. \<open>F\<close> are identifiers
  that no claim of the step draws. The last two steps are the sequence numbers of transactions that
  roll back and the statements of other components (the correction of a communication, the review
  of a browser outcome, the closing of stopped attempts, the redaction of private content).\<close>

definition settled_statuses :: "string set" where
  "settled_statuses = {''queued'', ''waiting_for_user'', ''blocked'', ''completed'', ''failed'', ''expired''}"

inductive input_step :: "string set \<Rightarrow> queue_db \<Rightarrow> queue_db \<Rightarrow> bool" for F where
  step_accept: "accept_tx c K tasks rnd now event owner task status code q = Inr (res, q') \<Longrightarrow>
     status \<in> {''queued'', ''waiting_for_user''} \<Longrightarrow> input_step F q q'"
| step_expire: "input_step F q (ExpireQueued now q)"
| step_claim: "input_Claim epoch rnd ttl locked now q = Inr (r, q') \<Longrightarrow> ir_ClaimID r \<notin> F \<Longrightarrow> input_step F q q'"
| step_renew: "input_Renew r ttl now q = Inr (u, q') \<Longrightarrow> input_step F q q'"
| step_checkpoint: "SaveCheckpoint c cl ctx K run stage payload now q = Inr (u, q') \<Longrightarrow> input_step F q q'"
| step_finish: "input_Finish c r status code msg delay now q = Inr (u, q') \<Longrightarrow> status \<in> settled_statuses \<Longrightarrow> input_step F q q'"
| step_suspend_approval: "SuspendApprovalTx c cl run approval payload now q = Inr (u, q') \<Longrightarrow> input_step F q q'"
| step_ready_approval: "ReadyApprovalTx c run approval now q = Inr (u, q') \<Longrightarrow> input_step F q q'"
| step_ready_selection: "ReadySelectionTx c run approval now q = Inr (u, q') \<Longrightarrow> input_step F q q'"
| step_suspend_interaction: "SuspendPrivateInteractionTx cl ctx run i kind now q = Inr (u, q') \<Longrightarrow> input_step F q q'"
| step_ready_interaction: "ReadyInteractionTx c inp i paused now q = Inr (u, q') \<Longrightarrow> input_step F q q'"
| step_preparation: "SaveInteractionPreparation c cl ctx K run i payload now q = Inr (u, q') \<Longrightarrow> input_step F q q'"
| step_close_interaction: "input_step F q (CloseInteractionTx c inp i reason now q)"
| step_hold: "HoldInteractionControlTx inp i now q = Inr (u, q') \<Longrightarrow> input_step F q q'"
| step_control: "input_step F q (snd (InvalidateForControlTx c ids control now q))"
| step_schedule: "input_step F q (InvalidateForScheduleTx ids now q)"
| step_ambiguous: "input_step F q (ResolveAmbiguousForControlTx ks owner now q)"
| step_conversation: "ResolveConversationAmbiguity K session owner now q = Inr (u, q') \<Longrightarrow> input_step F q q'"
| step_admit: "AdmitControlTx c rnd now event owner task status checkpoint code q = Inr (i, q') \<Longrightarrow>
     status \<in> {''queued'', ''completed''} \<Longrightarrow> input_step F q q'"
| step_bounded: "AcceptBoundedTx c K tasks rnd now req q = Inr (i, q') \<Longrightarrow> input_step F q q'"
| step_converter: "AcceptConverterContinuationTx c K tasks rnd now actor creq q = Inr (i, q') \<Longrightarrow> input_step F q q'"
| step_doctor: "AcceptDoctorTx c K tasks rnd now actor event owner task q = Inr (r, q') \<Longrightarrow> input_step F q q'"
| step_drawn: "qd_next q \<le> n \<Longrightarrow> input_step F q (q\<lparr>qd_next := n\<rparr>)"
| step_elsewhere: "list_all2 inp_evolves (qd_rows q) rows \<Longrightarrow> input_step F q (q\<lparr>qd_rows := rows\<rparr>)"

lemma moves_update:
  assumes "\<And>r. p r \<Longrightarrow> inp_evolves r (f r)"
  shows "queue_move F q (update_rows p f q)"
  using assms by (intro evolve) (simp_all add: update_rows_def tbl_update_def list_all2_conv_all_nth)

lemma moves_update_one:
  assumes "update_one e p f q = Inr (u, q')" and "\<And>r. p r \<Longrightarrow> inp_evolves r (f r)"
  shows "queue_move F q q'"
  using assms moves_update [of p f] by (auto simp: update_one_def)

lemma moves_id: "queue_move F q q"
  by (rule evolve) (simp_all add: list_all2_refl)

lemma moves_drawn: "qd_rows q' = qd_rows q \<Longrightarrow> qd_next q \<le> qd_next q' \<Longrightarrow> queue_move F q q'"
  by (rule evolve) (simp_all add: list_all2_refl)

lemma new_row_simps [simp]:
  "ai_input_id (new_row i n k ow t st cp co now ev se) = i"
  "ai_sequence (new_row i n k ow t st cp co now ev se) = n"
  "delivery_key (new_row i n k ow t st cp co now ev se) = (in_SessionKey ev, in_Source ev, k)"
  "ai_status (new_row i n k ow t st cp co now ev se) = st"
  "ai_claim_id (new_row i n k ow t st cp co now ev se) = []"
  "ai_owner_id (new_row i n k ow t st cp co now ev se) = ow"
  "ai_task_id (new_row i n k ow t st cp co now ev se) = nullString t"
  by (simp_all add: new_row_def delivery_key_def)

lemma existing_cases:
  assumes "accept_existing event owner task q = Inr ((rec, created), q')"
  obtains r where "\<not> created" and "rec = scan_input r" and "q' = q" and "same_delivery event owner task rec"
    and "tbl_find delivery_key (in_SessionKey event, in_Source event, event_key event) (qd_rows q) = Some r"
  using assms by (auto simp: accept_existing_def)

lemma accept_cases:
  assumes "accept_tx c K tasks rnd now event owner task status code q = Inr ((rec, created), q')"
  obtains (existing) r where "\<not> created" and "rec = scan_input r" and "same_delivery event owner task rec"
      and "tbl_find delivery_key (in_SessionKey event, in_Source event, event_key event) (qd_rows q) = Some r"
      and "qd_rows q' = qd_rows q" and "qd_next q \<le> qd_next q'"
    | (new) i stored where "created" and "qc_event c event = Inr stored" and "tbl_find ai_input_id i (qd_rows q) = None"
      and "rec = scan_input (new_row i (qd_next q) (event_key event) owner task status ''accepted'' code now event stored)"
      and "tbl_find delivery_key (in_SessionKey event, in_Source event, event_key event) (qd_rows q) = None"
      and "q' = q\<lparr>qd_next := qd_next q + 1,
             qd_rows := qd_rows q @ [new_row i (qd_next q) (event_key event) owner task status ''accepted'' code now event stored]\<rparr>"
proof -
  obtain i stored where c: "qc_event c event = Inr stored" and
    body: "insert_delivery tasks i now event stored owner task status code q = Inr ((rec, created), q')"
    using assms by (auto simp: accept_tx_def)
  show ?thesis
  proof (cases "admissible_task tasks event owner task \<and>
      tbl_find delivery_key (in_SessionKey event, in_Source event, event_key event) (qd_rows q) = None")
    case True
    with body c show ?thesis by (intro new [of stored i]) (auto simp: insert_delivery_def Let_def)
  next
    case False
    define q0 where "q0 = (if admissible_task tasks event owner task then q\<lparr>qd_next := qd_next q + 1\<rparr> else q)"
    have "accept_existing event owner task q0 = Inr ((rec, created), q')"
      using body False by (simp add: insert_delivery_def Let_def q0_def split: if_splits)
    moreover have "qd_rows q0 = qd_rows q" "qd_next q \<le> qd_next q0" by (simp_all add: q0_def)
    ultimately show ?thesis by (elim existing_cases) (rule existing, auto)
  qed
qed

lemma moves_append:
  assumes "ai_sequence r = qd_next q" and "tbl_find ai_input_id (ai_input_id r) (qd_rows q) = None"
    and "tbl_find delivery_key (delivery_key r) (qd_rows q) = None" and "ai_status r \<noteq> ''running''" and "ai_claim_id r = []"
  shows "queue_move F q (q\<lparr>qd_next := qd_next q + 1, qd_rows := qd_rows q @ [r]\<rparr>)"
  by (rule append [where r = r]) (simp_all add: assms)

lemma moves_accept:
  assumes "accept_tx c K tasks rnd now event owner task status code q = Inr ((rec, created), q')" and "status \<noteq> ''running''"
  shows "queue_move F q q'"
  using assms(1)
proof (cases rule: accept_cases)
  case (existing r)
  then show ?thesis by (intro moves_drawn)
next
  case (new i stored)
  with assms(2) show ?thesis by (auto intro!: moves_append)
qed

text \<open>A claim takes the oldest of the ready heads that are not locked.\<close>

lemma first_accepted_SomeD: "first_accepted rows = Some r \<Longrightarrow> r \<in> set rows \<and> (\<forall>s \<in> set rows. \<not> accepted_before s r)"
proof (induction rows arbitrary: r)
  case Nil
  then show ?case by simp
next
  case (Cons a rows)
  show ?case
  proof (cases "first_accepted rows")
    case None
    then have "rows = []" by (cases rows) (auto split: option.splits)
    with Cons.prems show ?thesis by (auto simp: accepted_before_def)
  next
    case (Some m)
    with Cons.IH have m: "m \<in> set rows" "\<forall>s \<in> set rows. \<not> accepted_before s m" by simp_all
    from Cons.prems Some have "r = (if accepted_before m a then m else a)" by simp
    with m show ?thesis by (auto simp: accepted_before_def)
  qed
qed

lemma first_accepted_None_iff: "first_accepted rows = None \<longleftrightarrow> rows = []"
  by (cases rows) (auto split: option.split)

lemma randomID_Inr: "randomID pre rnd = Inr i \<longleftrightarrow> (\<exists>h. rnd = Some h \<and> i = pre @ h)"
  by (cases rnd) (auto simp: randomID_def)

lemma claim_cases:
  assumes "input_Claim epoch rnd ttl locked now q = Inr (rec, q')"
  obtains r h where "rnd = Some h" and "r \<in> set (qd_rows q)" and "claimable epoch now q r" and "ai_input_id r \<notin> set locked"
    and "\<And>s. s \<in> set (qd_rows q) \<Longrightarrow> claimable epoch now q s \<Longrightarrow> ai_input_id s \<notin> set locked \<Longrightarrow> \<not> accepted_before s r"
    and "rec = scan_input (claim_row (''claim-'' @ h) ttl now r)"
    and "q' = update_rows (\<lambda>r'. ai_input_id r' = ai_input_id r) (claim_row (''claim-'' @ h) ttl now) q"
proof -
  obtain h r where "rnd = Some h" and
    r: "first_accepted (filter (\<lambda>r. claimable epoch now q r \<and> ai_input_id r \<notin> set locked) (qd_rows q)) = Some r" and
    "rec = scan_input (claim_row (''claim-'' @ h) ttl now r)"
    "q' = update_rows (\<lambda>r'. ai_input_id r' = ai_input_id r) (claim_row (''claim-'' @ h) ttl now) q"
    using assms by (auto simp: input_Claim_def randomID_Inr)
  with first_accepted_SomeD [OF r] show ?thesis by (intro that [of h r]) simp_all
qed

lemma claimable_unfinished: "claimable epoch now q r \<Longrightarrow> is_head (qd_rows q) r \<and> \<not> finished r"
  unfolding claimable_def finished_def by auto

lemma moves_claim:
  assumes "input_Claim epoch rnd ttl locked now q = Inr (rec, q')" and "ir_ClaimID rec \<notin> F"
  shows "queue_move F q q'"
  using assms(1)
proof (cases rule: claim_cases)
  case (1 r h)
  have "ir_ClaimID rec = ''claim-'' @ h" using 1(6) by (simp add: scan_input_def claim_row_def)
  with assms(2) show ?thesis
    unfolding 1(7) using claimable_unfinished [OF 1(3)] by (intro claim 1(2)) simp_all
qed

text \<open>The conditions of \<open>inp_evolves\<close> for an update that changes neither identity nor claim, for one that
  gives up the claim, and for one of an unfinished row.\<close>

definition same_input :: "accepted_row \<Rightarrow> accepted_row \<Rightarrow> bool" where
  "same_input r r' \<longleftrightarrow>
     ai_input_id r' = ai_input_id r \<and> ai_session_key r' = ai_session_key r \<and> ai_sequence r' = ai_sequence r \<and>
     ai_source r' = ai_source r \<and> ai_dedup_key r' = ai_dedup_key r \<and> ai_owner_id r' = ai_owner_id r \<and>
     ai_task_id r' = ai_task_id r \<and> ai_accepted_at r' = ai_accepted_at r"

lemma inp_evolves_kept: "same_input r r' \<Longrightarrow> ai_status r' = ai_status r \<Longrightarrow> ai_claim_id r' = ai_claim_id r \<Longrightarrow> inp_evolves r r'"
  by (simp add: same_input_def inp_evolves_def)

lemma inp_evolves_released:
  "same_input r r' \<Longrightarrow> \<not> finished r \<Longrightarrow> ai_status r' \<noteq> ''running'' \<Longrightarrow> ai_claim_id r' = [] \<or> ai_claim_id r' = ai_claim_id r \<Longrightarrow> inp_evolves r r'"
  by (auto simp: same_input_def inp_evolves_def)

lemma unfinished:
  "ai_status r = ''running'' \<Longrightarrow> \<not> finished r" "ai_status r = ''queued'' \<Longrightarrow> \<not> finished r"
  "ai_status r = ''waiting_for_user'' \<Longrightarrow> \<not> finished r" "ai_status r = ''blocked'' \<Longrightarrow> \<not> finished r"
  by (simp_all add: finished_def)

lemma inp_evolves_approval_ready:
  "ai_status r \<in> {''running'', ''waiting_for_user'', ''blocked'', ''queued''} \<Longrightarrow> inp_evolves r (approval_ready_row now r)"
proof (cases "ai_status r = ''running''")
  case True
  then show ?thesis by (intro inp_evolves_kept) (simp_all add: approval_ready_row_def same_input_def)
next
  case False
  moreover assume "ai_status r \<in> {''running'', ''waiting_for_user'', ''blocked'', ''queued''}"
  ultimately have "\<not> finished r" by (auto simp: finished_def)
  with False show ?thesis by (intro inp_evolves_released) (simp_all add: approval_ready_row_def same_input_def)
qed

lemma inp_evolves_withdrawn: "\<not> finished r \<Longrightarrow> inp_evolves r (withdrawn code msg now r)"
  by (rule inp_evolves_released) (simp_all add: withdrawn_def same_input_def)

lemma inp_evolves_resolved: "ambiguous ks owner r \<Longrightarrow> inp_evolves r (resolved msg now r)"
  by (rule inp_evolves_released) (simp_all add: resolved_def same_input_def ambiguous_def unfinished)

lemma finish_status_cases: "status \<in> settled_statuses \<Longrightarrow> finish_status status code cp \<noteq> ''running''"
  by (auto simp: finish_status_def settled_statuses_def)

lemma inp_evolves_finish: "holds_claim rec t r \<Longrightarrow> status \<in> settled_statuses \<Longrightarrow> inp_evolves r (finish_row status code msg nb now r)"
  by (rule inp_evolves_released) (simp_all add: holds_claim_def unfinished finish_row_def same_input_def finish_status_cases)

lemma moves_finish:
  assumes "input_Finish c r status code msg delay now q = Inr (u, q')" and "status \<in> settled_statuses"
  shows "queue_move F q q'"
  using assms inp_evolves_finish [OF _ assms(2)]
  by (auto simp: input_Finish_def split: option.splits intro!: moves_update_one)

lemma moves_control: "queue_move F q (snd (InvalidateForControlTx c ids control now q))"
  by (auto simp: InvalidateForControlTx_def intro!: moves_update inp_evolves_withdrawn)

lemma moves_resolve: "queue_move F q (ResolveAmbiguousForControlTx ks owner now q)"
  by (auto simp: ResolveAmbiguousForControlTx_def intro!: moves_update inp_evolves_resolved)

lemma moves_admit:
  assumes "AdmitControlTx c rnd now event owner task status checkpoint code q = Inr (i, q')" and "status \<noteq> ''running''"
  shows "(queue_move F)\<^sup>*\<^sup>* q q'"
proof -
  define q0 where "q0 = (if checkpoint = ''owner_control_applied''
    then update_rows (ambiguous [in_SessionKey event] owner) (resolved ''target resolved by owner control'' now) q else q)"
  have "queue_move F q q0"
    using moves_update [of "ambiguous [in_SessionKey event] owner"] inp_evolves_resolved moves_id by (simp add: q0_def)
  moreover obtain r where "q' = q0\<lparr>qd_next := qd_next q0 + 1, qd_rows := qd_rows q0 @ [r]\<rparr>"
      "ai_sequence r = qd_next q0" "tbl_find ai_input_id (ai_input_id r) (qd_rows q0) = None"
      "tbl_find delivery_key (delivery_key r) (qd_rows q0) = None" "ai_status r \<noteq> ''running''" "ai_claim_id r = []"
  proof -
    from assms obtain stored where "tbl_find ai_input_id i (qd_rows q0) = None"
      "tbl_find delivery_key (in_SessionKey event, in_Source event, in_IdempotencyKey event) (qd_rows q0) = None"
      "q' = q0\<lparr>qd_rows := qd_rows q0 @ [new_row i (qd_next q0) (in_IdempotencyKey event) owner task status checkpoint code now event stored],
         qd_next := qd_next q0 + 1\<rparr>"
      unfolding AdmitControlTx_def q0_def [symmetric] Let_def by auto
    with assms(2) show ?thesis
      by (intro that [of "new_row i (qd_next q0) (in_IdempotencyKey event) owner task status checkpoint code now event stored"]) simp_all
  qed
  then have "queue_move F q0 q'" by (metis moves_append)
  ultimately show ?thesis by (meson converse_rtranclp_into_rtranclp r_into_rtranclp)
qed

lemma moves_bound:
  assumes "bound_input conflict failed deadline n (rec, created) q = Inr (i, q')"
  shows "queue_move F q q'"
proof (cases created)
  case True
  then obtain u where "update_one failed (\<lambda>row. ai_input_id row = ir_InputID rec \<and> ai_status row = ''queued'')
      (\<lambda>row. row\<lparr>ai_expires_at := micros deadline, ai_max_attempts := n\<rparr>) q = Inr (u, q')"
    using assms by (auto simp: bound_input_def)
  then show ?thesis by (rule moves_update_one) (auto intro: inp_evolves_kept simp: same_input_def)
next
  case False
  then show ?thesis using assms moves_id by (auto simp: bound_input_def)
qed

lemma moves_AcceptTx: "AcceptTx c K tasks rnd now event owner task q = Inr ((rec, created), q') \<Longrightarrow> queue_move F q q'"
  unfolding AcceptTx_def by (erule moves_accept) simp

lemma moves_bounded:
  assumes "AcceptBoundedTx c K tasks rnd now req q = Inr (i, q')"
  shows "(queue_move F)\<^sup>*\<^sup>* q q'"
proof -
  obtain rec created q1 ev where "AcceptTx c K tasks rnd now ev (br_OwnerID req) (br_TaskID req) q = Inr ((rec, created), q1)"
    and "bound_input (Errorf ''bounded child identity conflict'') ErrClaimLost (br_Deadline req) (br_MaxAttempts req) (rec, created) q1 = Inr (i, q')"
    using assms by (auto simp: AcceptBoundedTx_def)
  then show ?thesis by (meson moves_AcceptTx moves_bound converse_rtranclp_into_rtranclp r_into_rtranclp)
qed

lemma moves_converter:
  assumes "AcceptConverterContinuationTx c K tasks rnd now actor req q = Inr (i, q')"
  shows "(queue_move F)\<^sup>*\<^sup>* q q'"
proof -
  obtain rec created q1 ev where "AcceptTx c K tasks rnd now ev (cc_OwnerID req) (cc_TaskID req) q = Inr ((rec, created), q1)"
    and "bound_input ErrAccess ErrAccess (cc_Deadline req) 3 (rec, created) q1 = Inr (i, q')"
    using assms by (auto simp: AcceptConverterContinuationTx_def Let_def)
  then show ?thesis by (meson moves_AcceptTx moves_bound converse_rtranclp_into_rtranclp r_into_rtranclp)
qed

lemma moves_doctor:
  assumes "AcceptDoctorTx c K tasks rnd now actor event owner task q = Inr (r, q')"
  shows "(queue_move F)\<^sup>*\<^sup>* q q'"
proof -
  obtain created q1 where accepted: "AcceptTx c K tasks rnd now event owner task q = Inr ((r, created), q1)"
    and q': "q' = update_rows (\<lambda>row. ai_input_id row = ir_InputID r)
      (\<lambda>row. row\<lparr>ai_checkpoint_json := jb_put (ai_checkpoint_json row) ''operator_operation'' (JStr ''doctor.check_system'')\<rparr>) q1"
    using assms by (auto simp: AcceptDoctorTx_def split: option.splits if_splits)
  from accepted have "queue_move F q q1" by (rule moves_AcceptTx)
  moreover have "queue_move F q1 q'"
    unfolding q' by (rule moves_update) (auto intro: inp_evolves_kept simp: same_input_def)
  ultimately show ?thesis by (meson converse_rtranclp_into_rtranclp r_into_rtranclp)
qed

text \<open>Updates of a row under the worker's own claim.\<close>

lemma moves_claimed:
  assumes "update_one e p f q = Inr (u, q')"
    and "\<And>r. same_input r (f r) \<and> ai_status (f r) = ai_status r \<and> ai_claim_id (f r) = ai_claim_id r"
  shows "queue_move F q q'"
  using assms(1) by (rule moves_update_one) (use assms(2) in \<open>blast intro: inp_evolves_kept\<close>)

lemma moves_checkpoint:
  assumes "SaveCheckpoint c cl ctx K run stage payload now q = Inr (u, q')"
  shows "queue_move F q q'"
proof (cases cl)
  case None
  then show ?thesis using assms moves_id by (simp add: SaveCheckpoint_def)
next
  case (Some r)
  then show ?thesis using assms by (auto simp: SaveCheckpoint_def same_input_def elim!: moves_claimed)
qed

lemma moves_suspend_approval: "SuspendApprovalTx c cl run approval payload now q = Inr (u, q') \<Longrightarrow> queue_move F q q'"
  by (auto simp: SuspendApprovalTx_def same_input_def elim!: moves_claimed)

lemma moves_suspend_interaction: "SuspendPrivateInteractionTx cl ctx run i kind now q = Inr (u, q') \<Longrightarrow> queue_move F q q'"
  by (auto simp: SuspendPrivateInteractionTx_def same_input_def elim!: moves_claimed)

lemma moves_preparation: "SaveInteractionPreparation c cl ctx K run i payload now q = Inr (u, q') \<Longrightarrow> queue_move F q q'"
  by (auto simp: SaveInteractionPreparation_def same_input_def elim!: moves_claimed)

lemma moves_ready_interaction:
  assumes "ReadyInteractionTx c inp i paused now q = Inr (u, q')"
  shows "queue_move F q q'"
  using assms unfolding ReadyInteractionTx_def
proof (rule moves_update_one)
  fix r assume "awaits c inp i r"
  then have u: "\<not> finished r" by (auto simp: awaits_def finished_def)
  let ?r = "r\<lparr>ai_checkpoint := ''interaction_ready'', ai_status := (if paused then ''blocked''
      else if ai_status r = ''running'' \<and> (case ai_claim_expires_at r of None \<Rightarrow> False | Some t \<Rightarrow> now < t) then ''running'' else ''queued''),
      ai_expires_at := now + 600 * second, ai_not_before := now, ai_updated_at := now\<rparr>"
  show "inp_evolves r ?r"
  proof (cases "ai_status ?r = ''running''")
    case True
    then have "ai_status r = ''running''" by (auto split: if_splits)
    with True show ?thesis by (intro inp_evolves_kept) (auto simp: same_input_def)
  next
    case False
    with u show ?thesis by (intro inp_evolves_released) (simp_all add: same_input_def)
  qed
qed

theorem input_step_moves: "input_step F q q' \<Longrightarrow> (queue_move F)\<^sup>*\<^sup>* q q'"
proof (induction rule: input_step.induct)
  case (step_accept c K tasks rnd now event owner task status code q res q')
  moreover obtain rec created where "res = (rec, created)" by (cases res)
  ultimately show ?case by (intro r_into_rtranclp) (auto intro: moves_accept)
next
  case (step_expire q now)
  show ?case unfolding ExpireQueued_def
    by (intro r_into_rtranclp moves_update inp_evolves_released) (auto simp: same_input_def unfinished)
next
  case (step_claim epoch rnd ttl locked now q r q')
  then show ?case by (intro r_into_rtranclp moves_claim)
next
  case (step_renew r ttl now q u q')
  then show ?case by (auto simp: input_Renew_def same_input_def elim!: moves_claimed)
next
  case (step_ready_approval c run approval now q u q')
  then show ?case unfolding ReadyApprovalTx_def
    by (intro r_into_rtranclp) (erule moves_update_one, rule inp_evolves_approval_ready, blast)
next
  case (step_ready_selection c run approval now q u q')
  then show ?case unfolding ReadySelectionTx_def
    by (intro r_into_rtranclp) (erule moves_update_one, rule inp_evolves_approval_ready, blast)
next
  case (step_close_interaction q c inp i reason now)
  show ?case unfolding CloseInteractionTx_def
    by (intro r_into_rtranclp moves_update inp_evolves_released) (auto simp: same_input_def awaits_def finished_def)
next
  case (step_hold inp i now q u q')
  then show ?case unfolding HoldInteractionControlTx_def
    by (intro r_into_rtranclp) (erule moves_update_one, rule inp_evolves_released, auto simp: same_input_def unfinished)
next
  case (step_schedule q ids now)
  show ?case unfolding InvalidateForScheduleTx_def
    by (intro r_into_rtranclp moves_update inp_evolves_withdrawn) blast
next
  case (step_conversation K session owner now q u q')
  then show ?case by (auto simp: ResolveConversationAmbiguity_def intro: moves_resolve)
next
  case (step_admit c rnd now event owner task status checkpoint code q i q')
  then show ?case by (intro moves_admit) auto
next
  case (step_drawn q n)
  then show ?case by (intro r_into_rtranclp moves_drawn) simp_all
next
  case (step_elsewhere q rows)
  then show ?case by (intro r_into_rtranclp evolve) simp_all
qed (auto intro: moves_checkpoint moves_finish moves_suspend_approval moves_suspend_interaction moves_ready_interaction
  moves_preparation moves_control moves_resolve moves_bounded moves_converter moves_doctor)

lemma input_steps_moves: "(input_step F)\<^sup>*\<^sup>* q q' \<Longrightarrow> (queue_move F)\<^sup>*\<^sup>* q q'"
  by (induction rule: rtranclp_induct) (auto dest: input_step_moves)

interpretation queue: invariant_system queue_init "input_step F" queue_inv for F
proof
  show "queue_inv s" if "queue_init s" for s
    using that by (rule moves.inv_init)
  show "queue_inv t" if "queue_inv s" "input_step F s t" for s t
    using moves.inv_steps [OF input_step_moves [OF that(2)] that(1)] .
qed

section \<open>Lost claims\<close>

definition claim_only :: "string \<Rightarrow> string \<Rightarrow> queue_db \<Rightarrow> bool" where
  "claim_only cid inp q \<longleftrightarrow> (\<forall>r \<in> set (qd_rows q). ai_claim_id r = cid \<longrightarrow> ai_input_id r = inp)"

lemma move_claim_only:
  assumes "queue_move {cid} q q'" and "cid \<noteq> []" and "claim_only cid inp q"
  shows "claim_only cid inp q'"
  using assms(1)
proof cases
  case evolve
  then show ?thesis using assms(2,3) inp_evolves_row(1) [OF evolve(1)] inp_evolves_claim inp_evolves_ids(1)
    unfolding claim_only_def by metis
next
  case (append r)
  then show ?thesis using assms(2,3) by (auto simp: claim_only_def)
next
  case (claim r cid' ttl now)
  then show ?thesis using assms(3) by (auto simp: claim_only_def update_rows_def set_tbl_update claim_row_def)
qed

lemma moves_claim_only: "(queue_move {cid})\<^sup>*\<^sup>* q q' \<Longrightarrow> cid \<noteq> [] \<Longrightarrow> claim_only cid inp q \<Longrightarrow> claim_only cid inp q'"
  by (induction rule: rtranclp_induct) (auto intro: move_claim_only)

lemma claimed_row:
  assumes "input_Claim epoch rnd ttl locked now q = Inr (rec, q')" and "queue_inv q" and "r \<in> set (qd_rows q')"
  shows "(if ai_input_id r = ir_InputID rec then ai_claim_id r = ir_ClaimID rec else r \<in> set (qd_rows q))"
  using assms(1)
proof (cases rule: claim_cases)
  case (1 g h)
  have "ir_InputID rec = ai_input_id g" "ir_ClaimID rec = ''claim-'' @ h"
    by (simp_all add: 1(6) scan_input_def claim_row_def)
  moreover obtain s where "s \<in> set (qd_rows q)" "r = (if ai_input_id s = ai_input_id g then claim_row (''claim-'' @ h) ttl now s else s)"
    using assms(3) by (auto simp: 1(7) update_rows_def set_tbl_update)
  ultimately show ?thesis by (auto simp: claim_row_def)
qed

lemma claim_nonempty: "input_Claim epoch rnd ttl locked now q = Inr (rec, q') \<Longrightarrow> ir_ClaimID rec \<noteq> []"
  by (elim claim_cases) (simp add: scan_input_def claim_row_def)

lemma unclaimed_not_held: "unclaimed (ir_ClaimID r) q \<Longrightarrow> row \<in> set (qd_rows q) \<Longrightarrow> \<not> holds_claim r now row"
  by (auto simp: unclaimed_def holds_claim_def)

lemma unclaimed_update:
  assumes "unclaimed (ir_ClaimID r) q" and "\<And>row. p row \<Longrightarrow> holds_claim r now row"
  shows "update_one e p f q = Inl e"
proof -
  have "tbl_count p (qd_rows q) = 0" using assms unclaimed_not_held [OF assms(1)] unfolding tbl_count_0_iff by blast
  then show ?thesis by (simp add: update_one_def)
qed

lemma unclaimed_first_row:
  assumes "unclaimed (ir_ClaimID r) q" and "\<And>row. p row \<Longrightarrow> holds_claim r now row"
  shows "first_row p (qd_rows q) = None"
  using assms unclaimed_not_held [OF assms(1)] unfolding first_row_None_iff by blast

section \<open>Properties\<close>

text \<open>C13. Inputs of a session run one at a time and in the order of their acceptance: in every reachable
  state of the queue a running input carries a claim, every earlier input of its session is
  finished and no other input of its session is running, whatever workers, approvals,
  interactions, owner controls, schedules and other components did before.\<close>

theorem session_inputs_run_in_order:
  assumes "queue_init q" and "(input_step F)\<^sup>*\<^sup>* q q'"
    and "r \<in> set (qd_rows q')" and "ai_status r = ''running''"
  shows "ai_claim_id r \<noteq> [] \<and>
    (\<forall>h \<in> set (qd_rows q'). ai_session_key h = ai_session_key r \<and> h \<noteq> r \<longrightarrow>
       (if ai_sequence h < ai_sequence r then finished h else ai_status h \<noteq> ''running''))"
proof -
  have inv: "queue_inv q'" using assms(1,2) by (rule queue.inv_reach)
  then have head: "is_head (qd_rows q') g \<and> ai_claim_id g \<noteq> []" if "g \<in> set (qd_rows q')" "ai_status g = ''running''" for g
    using that by (simp add: queue_inv_def)
  have "ai_sequence r < ai_sequence h" if "h \<in> set (qd_rows q')" "h \<noteq> r" "\<not> ai_sequence h < ai_sequence r" for h
    using that inv assms(3) keyed_eq [of ai_sequence "qd_rows q'" h r] by (force simp: queue_inv_def)
  then show ?thesis using head assms(3,4) unfinished(1) [OF assms(4)] by (fastforce simp: is_head_def)
qed

text \<open>C14. A worker whose claim was taken over is fenced off for good. Once another worker has claimed the
  same input, no write or check under the old claim succeeds any more, in any later state in
  which the old claim identifier has not been drawn a second time: renewal and settlement report
  the lost claim, and no checkpoint, suspension or preparation is stored.\<close>

theorem superseded_claim_is_lost:
  assumes "queue_init q" and "(input_step G)\<^sup>*\<^sup>* q q0" and "unclaimed (ir_ClaimID r) q0"
    and first: "input_Claim epoch rnd ttl locked t0 q0 = Inr (r, q1)"
    and "(input_step {ir_ClaimID r})\<^sup>*\<^sup>* q1 q2"
    and second: "input_Claim epoch' rnd' ttl' locked' t1 q2 = Inr (r', q3)"
    and "ir_InputID r' = ir_InputID r" and "ir_ClaimID r' \<noteq> ir_ClaimID r"
    and "(input_step {ir_ClaimID r})\<^sup>*\<^sup>* q3 q4"
  shows "input_Renew r d now q4 = Inl ErrClaimLost \<and> input_Finish c r status code msg d now q4 = Inl ErrClaimLost \<and>
    check_claim (Some r) run p now q4 = Inl ErrClaimLost \<and>
    SaveCheckpoint c (Some r) ctx K run stage payload now q4 \<noteq> Inr (u, q5) \<and>
    SuspendApprovalTx c (Some r) run approval payload now q4 \<noteq> Inr (u, q5) \<and>
    SuspendPrivateInteractionTx (Some r) ctx run i kind now q4 \<noteq> Inr (u, q5) \<and>
    SaveInteractionPreparation c (Some r) ctx K run i payload now q4 \<noteq> Inr (u, q5)"
proof -
  let ?c = "ir_ClaimID r"
  have c: "?c \<noteq> []" using first by (rule claim_nonempty)
  have inv0: "queue_inv q0" using assms(1,2) by (rule queue.inv_reach)
  have "claim_only ?c (ir_InputID r) q1"
    using assms(3) claimed_row [OF first inv0] unfolding claim_only_def unclaimed_def by metis
  then have only: "claim_only ?c (ir_InputID r) q2"
    using moves_claim_only [OF input_steps_moves [OF assms(5)] c] by blast
  have "input_step {} q0 q1" using first by (rule step_claim) simp
  with inv0 have "queue_inv q1" by (rule queue.inv_step)
  then have "queue_inv q2" using assms(5) by (rule queue.inv_steps [rotated])
  then have "unclaimed ?c q3"
    using only assms(7,8) claimed_row [OF second] unfolding unclaimed_def claim_only_def by metis
  then have q4: "unclaimed ?c q4" using moves_unclaimed [OF input_steps_moves [OF assms(9)] c] by blast
  have written: "update_one e (\<lambda>row. holds_claim r now row \<and> P row) f q4 = Inl e" for e P f
    by (rule unclaimed_update [OF q4, where now = now]) simp
  have read: "first_row (\<lambda>row. holds_claim r now row \<and> P row) (qd_rows q4) = None" for P
    by (rule unclaimed_first_row [OF q4, where now = now]) simp
  note lost = written written [where P = "\<lambda>_. True", simplified] read read [where P = "\<lambda>_. True", simplified]
  show ?thesis
    by (simp add: input_Renew_def input_Finish_def check_claim_def SaveCheckpoint_def SuspendApprovalTx_def
        SuspendPrivateInteractionTx_def SaveInteractionPreparation_def lost)
qed

text \<open>C25. A delivery becomes one input, once: after an event was accepted under a session, source and
  key, every later delivery with that identity, whatever happened to the input in between, finds
  the same input. It is answered with that input when owner, task, payload and type agree with
  what is stored, it is refused as a conflict otherwise, and in both cases no row is added or changed.\<close>

theorem delivery_is_accepted_once:
  assumes "queue_init q" and "(input_step F)\<^sup>*\<^sup>* q q0"
    and first: "accept_tx c K tasks rnd now event owner task status code q0 = Inr ((rec, created), q1)"
    and "status \<in> {''queued'', ''waiting_for_user''}" and "(input_step G)\<^sup>*\<^sup>* q1 q2"
    and "in_SessionKey event' = in_SessionKey event" and "in_Source event' = in_Source event"
    and "event_key event' = event_key event"
    and "tbl_find s_session_key (in_SessionKey event') (sessions K') = Some s" and "s_user_id s = owner'"
    and "rnd' = Some x" and "qc_event c' event' = Inr stored"
  shows "\<exists>h \<in> set (qd_rows q2). ai_input_id h = ir_InputID rec \<and> ai_owner_id h = owner \<and> coalesce (ai_task_id h) = task \<and>
    (\<exists>n. accept_tx c' K' tasks' rnd' now' event' owner' task' status' code' q2 =
       (if same_delivery event' owner' task' (scan_input h)
        then Inr ((scan_input h, False), q2\<lparr>qd_next := n\<rparr>) else Inl ErrDeliveryConflict))"
proof -
  have step: "input_step F q0 q1" using first assms(4) by (rule step_accept)
  have inv2: "queue_inv q2"
    using queue.inv_steps [OF assms(5)] queue.inv_step [OF queue.inv_reach [OF assms(1,2)] step] by blast
  have key: "event_key event \<noteq> []" using first by (auto simp: accept_tx_def)
  have "\<exists>g \<in> set (qd_rows q1). delivery_key g = (in_SessionKey event, in_Source event, event_key event) \<and>
      ai_input_id g = ir_InputID rec \<and> ai_owner_id g = owner \<and> coalesce (ai_task_id g) = task"
    using first
  proof (cases rule: accept_cases)
    case (existing r)
    then show ?thesis using tbl_find_SomeD [OF existing(4)] by (auto simp: scan_input_def same_delivery_def)
  next
    case (new i st)
    then show ?thesis by (auto simp: scan_input_def coalesce_def nullString_def)
  qed
  then obtain h where h: "h \<in> set (qd_rows q2)" "delivery_key h = (in_SessionKey event', in_Source event', event_key event')"
      "ai_input_id h = ir_InputID rec" "ai_owner_id h = owner" "coalesce (ai_task_id h) = task"
    using moves_keep_row [OF input_steps_moves [OF assms(5)]] assms(6-8) by metis
  have found: "tbl_find delivery_key (in_SessionKey event', in_Source event', event_key event') (qd_rows q2) = Some h"
    using inv2 h(1,2) tbl_find_keyed [of delivery_key "qd_rows q2" h] by (simp add: queue_inv_def)
  have "accept_existing event' owner' task' (q2\<lparr>qd_next := n\<rparr>) =
      (if same_delivery event' owner' task' (scan_input h) then Inr ((scan_input h, False), q2\<lparr>qd_next := n\<rparr>) else Inl ErrDeliveryConflict)" for n
    using found by (simp add: accept_existing_def)
  from this [of "qd_next q2"] this [of "qd_next q2 + 1"] key assms(8-12) found
  have "\<exists>n \<in> {qd_next q2, qd_next q2 + 1}. accept_tx c' K' tasks' rnd' now' event' owner' task' status' code' q2 =
       (if same_delivery event' owner' task' (scan_input h)
        then Inr ((scan_input h, False), q2\<lparr>qd_next := n\<rparr>) else Inl ErrDeliveryConflict)"
    by (cases "admissible_task tasks' event' owner' task'")
      (auto simp: accept_tx_def insert_delivery_def Let_def randomID_def)
  with h show ?thesis by blast
qed

end
