(* ===== verification/ControlQueue.thy ===== *)
theory ControlQueue
  imports TaskSteps InputProps
begin

text \<open>
  Owner controls and the input queue together: the controller of \<^verbatim>\<open>apps/orchestrator/internal/task\<close> runs
  with the queue of \<^verbatim>\<open>apps/orchestrator/internal/input\<close> behind its interface. The queue is the first
  component of the other components' state; the column values the kernel reads of an input are
  projected after every change. Approvals, transcript and deletions act on the rest of the state;
  the interactions may act on the queue as well.
\<close>

definition as_input :: "accepted_row \<Rightarrow> input_row" where
  "as_input r =
     \<lparr>i_input_id = ai_input_id r, i_run_id = ai_run_id r, i_task_id = ai_task_id r, i_owner_id = ai_owner_id r,
      i_status = ai_status r, i_claim_id = ai_claim_id r, i_claim_expires_at = ai_claim_expires_at r\<rparr>"

definition control_ingress :: "control_event \<Rightarrow> ingress_event" where
  "control_ingress e =
     \<lparr>in_EventID = ce_EventID e, in_EventType = 1, in_SessionKey = ce_SessionKey e, in_Source = ce_Source e,
      in_PayloadJSON = json_Marshal (ce_Payload e), in_CreatedAt = 0, in_IdempotencyKey = ce_EventID e\<rparr>"

type_synonym 'y with_queue = "queue_db \<times> 'y"

definition in_queue :: "queue_db \<Rightarrow> 'y \<Rightarrow> 'y with_queue inputs_state" where
  "in_queue q y = (map as_input (qd_rows q), (q, y))"

definition beside_queue :: "('y \<Rightarrow> go_err + 'y) \<Rightarrow> 'y with_queue \<Rightarrow> go_err + 'y with_queue" where
  "beside_queue f x = map_sum id (\<lambda>y. (fst x, y)) (f (snd x))"

text \<open>\<open>rnd\<close> is the random part of the identifier of the input admitted for an event.\<close>

definition queue_ports ::
  "queue_codec \<Rightarrow> instant \<Rightarrow> (string \<Rightarrow> string option) \<Rightarrow> 'y control_ports \<Rightarrow>
   (string list \<Rightarrow> string \<Rightarrow> string \<Rightarrow> 'y with_queue \<Rightarrow> go_err + 'y with_queue) option \<Rightarrow> 'y with_queue control_ports" where
  "queue_ports c now rnd P interactions =
     \<lparr>cx_invalidate_inputs = (\<lambda>ids control (_, q, y). let (uncertain, q') = InvalidateForControlTx c ids control now q in Inr (uncertain, in_queue q' y)),
      cx_resolve_ambiguous = (\<lambda>ks owner (_, q, y). Inr (in_queue (ResolveAmbiguousForControlTx ks owner now q) y)),
      cx_admit = (\<lambda>e owner task status checkpoint (_, q, y).
        map_sum id (\<lambda>(i, q'). (i, in_queue q' y))
          (AdmitControlTx c (rnd (ce_EventID e)) now (control_ingress e) owner task status checkpoint [] q)),
      cx_invalidate_approvals = (\<lambda>ids control owner. beside_queue (cx_invalidate_approvals P ids control owner)),
      cx_append_transcript = (\<lambda>key control text meta. beside_queue (cx_append_transcript P key control text meta)),
      cx_interactions = interactions,
      cx_deletions = (\<lambda>x. cx_deletions P (snd x))\<rparr>"

definition queue_of :: "'y with_queue task_db \<Rightarrow> queue_db" where
  "queue_of st = fst (td_other st)"

text \<open>What the other components promise: notifications leave the queue alone, interactions change it by
  operations of the queue only.\<close>

definition notifies_beside :: "'y with_queue task_hooks \<Rightarrow> Actor \<Rightarrow> exec_ctx \<Rightarrow> bool" where
  "notifies_beside h a ctx \<longleftrightarrow> (\<forall>old new st x. h_notify h (Some a) ctx old new st = Inr x \<longrightarrow> fst x = queue_of st)"

definition interacts_by_steps ::
  "(string list \<Rightarrow> string \<Rightarrow> string \<Rightarrow> 'y with_queue \<Rightarrow> go_err + 'y with_queue) option \<Rightarrow> bool" where
  "interacts_by_steps I \<longleftrightarrow>
     (\<forall>f ids kind cont x x'. I = Some f \<and> f ids kind cont x = Inr x' \<longrightarrow> (input_step {})\<^sup>*\<^sup>* (fst x) (fst x'))"

section \<open>The controller moves the queue\<close>

lemma queue_ports_simps [simp]:
  "cx_invalidate_inputs (queue_ports c now rnd P I) ids control (i, q, y) =
     (let (uncertain, q') = InvalidateForControlTx c ids control now q in Inr (uncertain, in_queue q' y))"
  "cx_resolve_ambiguous (queue_ports c now rnd P I) ks owner (i, q, y) = Inr (in_queue (ResolveAmbiguousForControlTx ks owner now q) y)"
  "cx_interactions (queue_ports c now rnd P I) = I"
  by (simp_all add: queue_ports_def)

lemma beside_queue_Inr: "beside_queue f x = Inr x' \<Longrightarrow> fst x' = fst x"
  by (auto simp: beside_queue_def map_sum_Inr)

lemma queue_of_with_inputs [simp]: "queue_of (with_inputs (i, q, y) st) = q" "queue_of (with_inputs (in_queue q y) st) = q"
  "queue_of (st\<lparr>td_kernel := K\<rparr>) = queue_of st" "queue_of (st\<lparr>td_other := x\<rparr>) = fst x"
  by (simp_all add: queue_of_def with_inputs_def in_queue_def)

lemma stop_attempts_queue:
  assumes "stop_attempts (queue_ports c now rnd P I) a ids ks control now' st = Inr (u, st')"
  shows "\<exists>q. queue_of st' = ResolveAmbiguousForControlTx ks (ac_OwnerID a) now q \<and>
    q = snd (InvalidateForControlTx c ids control now (queue_of st))"
proof -
  obtain q y where st: "td_other st = (q, y)" by (cases "td_other st")
  obtain uncertain q' where inv: "InvalidateForControlTx c ids control now q = (uncertain, q')" by fastforce
  from assms obtain x where "st' = (with_inputs (in_queue (ResolveAmbiguousForControlTx ks (ac_OwnerID a) now q') y) st)
      \<lparr>td_other := x, td_kernel := CancelForControlTx ids control now' (td_kernel (with_inputs (in_queue (ResolveAmbiguousForControlTx ks (ac_OwnerID a) now q') y) st))\<rparr>"
    and x: "cx_invalidate_approvals (queue_ports c now rnd P I) ids control (ac_OwnerID a)
      (td_other (with_inputs (in_queue (ResolveAmbiguousForControlTx ks (ac_OwnerID a) now q') y) st)) = Inr x"
    by (auto simp: stop_attempts_def inputs_of_def st inv Let_def in_queue_def)
  moreover have "fst x = ResolveAmbiguousForControlTx ks (ac_OwnerID a) now q'"
    using x by (auto simp: queue_ports_def with_inputs_def in_queue_def dest!: beside_queue_Inr)
  ultimately show ?thesis by (simp add: queue_of_def st inv)
qed

lemma control_targets_queue:
  assumes "\<And>old st x. notify old st = Inr x \<Longrightarrow> fst x = queue_of st"
  shows "control_targets notify dels req origin control root status now ids cd = Inr cd' \<Longrightarrow> queue_of (cd_store cd') = queue_of (cd_store cd)"
proof (induction ids arbitrary: cd)
  case Nil
  then show ?case by simp
next
  case (Cons i ids)
  then obtain cd1 where "control_target notify dels req origin control root status now i cd = Inr cd1"
    and "control_targets notify dels req origin control root status now ids cd1 = Inr cd'" by auto
  moreover have "queue_of (cd_store cd1) = queue_of (cd_store cd)"
    using calculation(1)
    by (auto simp: control_target_def Let_def on_store_def set_tasks_def queue_of_def split: if_split_asm dest!: assms)
  ultimately show ?case using Cons.IH by simp
qed

lemma admit_queue:
  assumes "cx_admit (queue_ports c now rnd P I) e owner task status checkpoint (inputs_of st) = Inr (i, s)"
    and "status \<in> {''queued'', ''completed''}"
  shows "input_step F (queue_of st) (queue_of (with_inputs s st'))"
proof -
  obtain q y where st: "td_other st = (q, y)" by (cases "td_other st")
  from assms(1) obtain q' where "AdmitControlTx c (rnd (ce_EventID e)) now (control_ingress e) owner task status checkpoint [] q = Inr (i, q')"
    and "s = in_queue q' y"
    by (auto simp: queue_ports_def inputs_of_def st map_sum_Inr)
  then show ?thesis using assms(2) by (auto simp: queue_of_def st with_inputs_def in_queue_def intro: step_admit)
qed

lemma continuation_queue:
  assumes "admit_continuation (queue_ports c now rnd P I) a req control status root event st = Inr (n, st')"
  shows "(input_step F)\<^sup>*\<^sup>* (queue_of st) (queue_of st')"
proof (cases "status = ''active'' \<and> (ct_Kind req = ControlAmend \<or> ct_Kind req = ControlResume)")
  case True
  with assms obtain e i where "cx_admit (queue_ports c now rnd P I) e (ac_OwnerID a) (k_task_id root) ''queued'' ''accepted'' (inputs_of st) = Inr (n, i)"
    and "st' = with_inputs i st"
    unfolding admit_continuation_def by (auto simp del: append.simps)
  then show ?thesis by (simp add: admit_queue r_into_rtranclp)
next
  case False
  with assms show ?thesis by (simp add: admit_continuation_def)
qed

lemma announce_queue:
  assumes ann: "announce (queue_ports c now rnd P I) a req control status ids updated root st = Inr (r, st')"
    and inter: "interacts_by_steps I"
  shows "(input_step {})\<^sup>*\<^sup>* (queue_of st) (queue_of st')"
proof -
  let ?P = "queue_ports c now rnd P I"
  obtain event i s x n st1 y body meta where
    first: "cx_admit ?P event (ac_OwnerID a) (k_task_id root) ''completed'' ''owner_control_applied'' (inputs_of st) = Inr (i, s)"
    and appended: "cx_append_transcript ?P (k_session_key root) control body meta (td_other (with_inputs s st)) = Inr x"
    and cont: "admit_continuation ?P a req control status root event ((with_inputs s st)\<lparr>td_other := x\<rparr>) = Inr (n, st1)"
    and last: "(case I of None \<Rightarrow> Inr (td_other st1) | Some f \<Rightarrow> f ids (ct_Kind req) n (td_other st1)) = Inr y"
    and st': "st' = st1\<lparr>td_other := y\<rparr>"
    using ann unfolding announce_def Let_def queue_ports_simps(3) by (auto simp del: append.simps)
  have 1: "input_step {} (queue_of st) (queue_of (with_inputs s st))" using first by (rule admit_queue) simp
  have 2: "queue_of ((with_inputs s st)\<lparr>td_other := x\<rparr>) = queue_of (with_inputs s st)"
    using appended by (auto simp: queue_ports_def queue_of_def dest!: beside_queue_Inr)
  have 3: "(input_step {})\<^sup>*\<^sup>* (queue_of ((with_inputs s st)\<lparr>td_other := x\<rparr>)) (queue_of st1)"
    using cont by (rule continuation_queue)
  have 4: "(input_step {})\<^sup>*\<^sup>* (queue_of st1) (queue_of st')"
  proof (cases I)
    case None
    then show ?thesis using last by (simp add: st' queue_of_def)
  next
    case (Some f)
    then have "f ids (ct_Kind req) n (td_other st1) = Inr y" using last by simp
    with Some inter have "(input_step {})\<^sup>*\<^sup>* (fst (td_other st1)) (fst y)" unfolding interacts_by_steps_def by blast
    then show ?thesis by (simp add: st' queue_of_def)
  qed
  show ?thesis using 1 2 3 4 by (metis converse_rtranclp_into_rtranclp rtranclp_trans)
qed

lemma apply_new_queue:
  assumes "apply_new h (queue_ports c now' rnd' P I) a ctx rnd now req ks ids root cd = Inr (result, cd')"
    and notify: "notifies_beside h a ctx"
    and inter: "interacts_by_steps I"
  shows "\<exists>control. (input_step {})\<^sup>*\<^sup>* (snd (InvalidateForControlTx c ids control now' (queue_of (cd_store cd)))) (queue_of (cd_store cd'))"
proof -
  let ?P = "queue_ports c now' rnd' P I"
  obtain status control uncertain st1 where st1: "stop_attempts ?P a ids ks control now (cd_store cd) = Inr (uncertain, st1)"
    and head: "control_status req (k_status root) = Inr status" "newID ''control'' rnd = Inr control"
    using assms(1) unfolding apply_new_def by auto
  obtain cd2 updated r st2 where
    loop: "control_targets (h_notify h (Some a) ctx (scan_task root)) (cx_deletions ?P) req (control_origin a req control) control
      (k_task_id root) status now ids (cd\<lparr>cd_store := st1, cd_events := cd_events cd @ [new_event a req control root]\<rparr>) = Inr cd2"
    and ann: "announce ?P a req control status ids updated root (cd_store cd2) = Inr (r, st2)" and "cd_store cd' = st2"
    using assms(1) head st1 unfolding apply_new_def by (auto simp: Let_def)
  moreover have "queue_of (cd_store cd2) = queue_of st1"
  proof -
    have "fst x = queue_of st" if "h_notify h (Some a) ctx (scan_task root) old st = Inr x" for old st x
      using that notify unfolding notifies_beside_def by blast
    then show ?thesis using control_targets_queue [OF _ loop] by force
  qed
  ultimately have "(input_step {})\<^sup>*\<^sup>* (queue_of st1) (queue_of (cd_store cd'))"
    using announce_queue [OF ann inter] by simp
  moreover have "input_step {} (snd (InvalidateForControlTx c ids control now' (queue_of (cd_store cd)))) (queue_of st1)"
    using stop_attempts_queue [OF st1] step_ambiguous by metis
  ultimately show ?thesis by (meson converse_rtranclp_into_rtranclp)
qed

section \<open>Finished inputs\<close>

lemma move_keeps_finished:
  assumes "queue_move F q q'" and "queue_inv q" and "r \<in> set (qd_rows q)" and "finished r"
  shows "\<exists>r' \<in> set (qd_rows q'). ai_input_id r' = ai_input_id r \<and> ai_status r' = ai_status r"
  using assms(1)
proof cases
  case evolve
  then obtain r' where "r' \<in> set (qd_rows q')" "inp_evolves r r'" using inp_evolves_row(2) [OF _ assms(3)] by blast
  then show ?thesis using inp_evolves_ids(1) inp_evolves_finished [OF _ assms(4)] by blast
next
  case (append g)
  then show ?thesis using assms(3) by auto
next
  case (claim g cid ttl now)
  then have "ai_input_id r \<noteq> ai_input_id g"
    using assms(2-4) keyed_eq [of ai_input_id "qd_rows q" r g] by (auto simp: queue_inv_def)
  then have "r \<in> set (qd_rows q')" unfolding claim(1) using assms(3)
    by (auto simp: update_rows_def set_tbl_update image_iff)
  then show ?thesis by blast
qed

lemma steps_keep_finished:
  assumes "(input_step F)\<^sup>*\<^sup>* q q'" and "queue_inv q" and "r \<in> set (qd_rows q)" and "finished r"
  shows "\<exists>r' \<in> set (qd_rows q'). ai_input_id r' = ai_input_id r \<and> ai_status r' = ai_status r"
  using input_steps_moves [OF assms(1)]
proof (induction rule: rtranclp_induct)
  case base
  then show ?case using assms(3) by blast
next
  case (step u v)
  then obtain s where s: "s \<in> set (qd_rows u)" "ai_input_id s = ai_input_id r" "ai_status s = ai_status r" by blast
  moreover have "finished s" using s(3) assms(4) by (simp add: finished_def)
  moreover have "queue_inv u" using step(1) assms(2) by (rule moves.inv_steps)
  ultimately show ?case using move_keeps_finished [OF step(2)] by metis
qed

section \<open>Properties\<close>

text \<open>C15. An owner control on a task tree withdraws the inputs of the tree for good: every unfinished input
  of a live task below the target is cancelled when the control is applied, stays cancelled in
  every later state of the queue, and the worker that was executing it can neither renew its claim
  nor settle the input any more.\<close>

theorem control_withdraws_inputs:
  assumes queue: "queue_inv (queue_of (cd_store cd))"
    and app: "ApplyWithGuard h (queue_ports c t rnd' P I) guard actor ctx rnd now req cd = (Inr result, cd')"
    and new: "FromContext actor = Some a" "delivered a (cd_events cd) = None"
    and notify: "notifies_beside h a ctx"
    and inter: "interacts_by_steps I"
    and r: "r \<in> set (qd_rows (queue_of (cd_store cd)))" "\<not> finished r" "ai_task_id r = Some task"
    and task: "task \<in> set (live_tree (td_tasks (cd_store cd)) (ct_TaskID req))"
    and later: "(input_step G)\<^sup>*\<^sup>* (queue_of (cd_store cd')) q"
  shows "(\<exists>r' \<in> set (qd_rows q). ai_input_id r' = ai_input_id r \<and> ai_status r' = ''cancelled'') \<and>
    (\<forall>w d u c' status code msg delay. ir_InputID w = ai_input_id r \<longrightarrow>
       input_Renew w d u q = Inl ErrClaimLost \<and> input_Finish c' w status code msg delay u q = Inl ErrClaimLost)"
proof -
  let ?ids = "live_tree (td_tasks (cd_store cd)) (ct_TaskID req)"
  have "apply_body h (queue_ports c t rnd' P I) guard actor ctx rnd now req cd = Inr (result, cd')"
    using app unfolding ApplyWithGuard_def run_tx_Inr_iff .
  then obtain root ks K where
    body: "apply_new h (queue_ports c t rnd' P I) a ctx rnd now req ks ?ids root
      (on_store (\<lambda>st. st\<lparr>td_kernel := RevokeForControlTx ?ids now K\<rparr>) cd) = Inr (result, cd')"
    by (cases rule: apply_body_cases) (use new in auto)
  obtain control where steps: "(input_step {})\<^sup>*\<^sup>* (snd (InvalidateForControlTx c ?ids control t (queue_of (cd_store cd)))) (queue_of (cd_store cd'))"
    using apply_new_queue [OF body notify inter] by (auto simp: on_store_def)
  let ?q1 = "snd (InvalidateForControlTx c ?ids control t (queue_of (cd_store cd)))"
  have inv1: "queue_inv ?q1" using queue step_control by (rule queue.inv_step)
  have inv2: "queue_inv (queue_of (cd_store cd'))" using steps inv1 by (rule queue.inv_steps)
  have inv3: "queue_inv q" using later inv2 by (rule queue.inv_steps)
  let ?w = "withdrawn ''owner_control'' control t r"
  have "?w \<in> set (qd_rows ?q1)" using r task
    by (auto simp: InvalidateForControlTx_def update_rows_def set_tbl_update of_task_def image_iff)
  moreover have w: "ai_status ?w = ''cancelled''" "ai_input_id ?w = ai_input_id r" "finished ?w"
    by (simp_all add: withdrawn_def finished_def)
  ultimately obtain r1 where "r1 \<in> set (qd_rows (queue_of (cd_store cd')))" "ai_input_id r1 = ai_input_id r" "ai_status r1 = ''cancelled''"
    using steps_keep_finished [OF steps inv1] by metis
  moreover from this have "finished r1" by (simp add: finished_def)
  ultimately obtain r' where r': "r' \<in> set (qd_rows q)" "ai_input_id r' = ai_input_id r" "ai_status r' = ''cancelled''"
    using steps_keep_finished [OF later inv2] by metis
  have free: "\<not> holds_claim w u row" if "ir_InputID w = ai_input_id r" "row \<in> set (qd_rows q)" for w u row
    using that r' inv3 keyed_eq [of ai_input_id "qd_rows q" row r'] by (auto simp: holds_claim_def queue_inv_def)
  have "input_Renew w d u q = Inl ErrClaimLost \<and> input_Finish c' w status code msg delay u q = Inl ErrClaimLost"
    if "ir_InputID w = ai_input_id r" for w d u c' status code msg delay
  proof -
    have "tbl_count (holds_claim w u) (qd_rows q) = 0" "first_row (holds_claim w u) (qd_rows q) = None"
      using free [OF that] by (auto simp: tbl_count_0_iff first_row_None_iff)
    then show ?thesis by (simp add: input_Renew_def update_one_def input_Finish_def)
  qed
  with r' show ?thesis by blast
qed

end
