(* ===== verification/InputExamples.thy ===== *)
theory InputExamples
  imports InputProps
begin

text \<open>Concrete runs of the input queue: a delivery is accepted, claimed by one worker, claimed again by
  another after the claim ran out, and delivered a second time.\<close>

definition text_codec :: jsonb_codec where
  "text_codec = \<lparr>jb_in = (\<lambda>s. Some (JStr s)), jb_out = json_Marshal\<rparr>"

definition plain_codec :: queue_codec where
  "plain_codec = \<lparr>qc_json = text_codec, qc_time = (\<lambda>_. None), qc_event = Inr\<rparr>"

definition chat :: session_row where
  "chat = \<lparr>s_session_id = ''1'', s_session_key = ''web:alice'', s_user_id = ''alice'', s_channel = ''web'',
     s_metadata = JObj [], s_summary = [], s_created_at = 0, s_updated_at = 0\<rparr>"

definition chats :: kernel_db where
  "chats = \<lparr>sessions = [chat], ownership = [], runs = [], transitions = [], inputs = [], stopped = []\<rparr>"

definition hello :: ingress_event where
  "hello = \<lparr>in_EventID = ''7'', in_EventType = 1, in_SessionKey = ''web:alice'', in_Source = ''web'',
     in_PayloadJSON = ''{}'', in_CreatedAt = 5, in_IdempotencyKey = []\<rparr>"

definition queue0 :: queue_db where
  "queue0 = \<lparr>qd_rows = [], qd_next = 1, qd_admissions = []\<rparr>"

definition hello_row :: accepted_row where
  "hello_row = new_row ''input-1'' 1 ''7'' ''alice'' [] ''queued'' ''accepted'' [] 10 hello hello"

definition queue1 :: queue_db where
  "queue1 = queue0\<lparr>qd_next := 2, qd_rows := [hello_row]\<rparr>"

definition claimed_by :: "string \<Rightarrow> instant \<Rightarrow> accepted_row \<Rightarrow> accepted_row" where
  "claimed_by w now r = claim_row (''claim-'' @ w) (60 * second) now r"

definition queue2 :: queue_db where
  "queue2 = queue0\<lparr>qd_next := 2, qd_rows := [claimed_by ''a'' 20 hello_row]\<rparr>"

definition queue3 :: queue_db where
  "queue3 = queue0\<lparr>qd_next := 2, qd_rows := [claimed_by ''b'' 60000000020 (claimed_by ''a'' 20 hello_row)]\<rparr>"

lemmas demo_simps = queue0_def queue1_def queue2_def queue3_def hello_row_def new_row_def hello_def claimed_by_def claim_row_def
  update_rows_def millis_def go_div_def

lemma demo_accepted:
  "accept_tx plain_codec chats [] (Some ''1'') 10 hello ''alice'' [] ''queued'' [] queue0 = Inr ((scan_input hello_row, True), queue1)"
  by (simp add: accept_tx_def insert_delivery_def chats_def chat_def randomID_def event_key_def admissible_task_def plain_codec_def
      demo_simps Let_def)

lemma demo_claimed:
  "input_Claim 0 (Some ''a'') (60 * second) [] 20 queue1 = Inr (scan_input (claimed_by ''a'' 20 hello_row), queue2)"
  by (simp add: input_Claim_def randomID_def claimable_def is_head_def demo_simps)

lemma demo_reclaimed:
  "input_Claim 0 (Some ''b'') (60 * second) [] 60000000020 queue2 =
     Inr (scan_input (claimed_by ''b'' 60000000020 (claimed_by ''a'' 20 hello_row)), queue3)"
  by (simp add: input_Claim_def randomID_def claimable_def is_head_def demo_simps)

lemma demo_reach: "queue_init queue0" "(input_step F)\<^sup>*\<^sup>* queue0 queue1" "(input_step {})\<^sup>*\<^sup>* queue0 queue2"
proof -
  show "queue_init queue0" by (simp add: queue_init_def queue0_def)
  have "input_step F queue0 queue1" for F by (rule step_accept [OF demo_accepted]) simp
  moreover have "input_step {} queue1 queue2" by (rule step_claim [OF demo_claimed]) simp
  ultimately show "(input_step F)\<^sup>*\<^sup>* queue0 queue1" "(input_step {})\<^sup>*\<^sup>* queue0 queue2"
    by (meson r_into_rtranclp rtranclp.rtrancl_into_rtrancl)+
qed

theorem session_inputs_run_in_order_witness:
  "ai_claim_id (claimed_by ''a'' 20 hello_row) \<noteq> [] \<and> qd_rows queue2 = [claimed_by ''a'' 20 hello_row]"
  using session_inputs_run_in_order [OF demo_reach(1) demo_reach(3), of "claimed_by ''a'' 20 hello_row"]
  by (simp add: queue2_def queue0_def claimed_by_def claim_row_def)

theorem superseded_claim_is_lost_witness:
  "input_Renew (scan_input (claimed_by ''a'' 20 hello_row)) (60 * second) 60000000030 queue3 = Inl ErrClaimLost"
proof -
  let ?a = "scan_input (claimed_by ''a'' 20 hello_row)" and ?b = "scan_input (claimed_by ''b'' 60000000020 (claimed_by ''a'' 20 hello_row))"
  have "unclaimed (ir_ClaimID ?a) queue1" by (simp add: unclaimed_def scan_input_def demo_simps)
  moreover have "ir_InputID ?b = ir_InputID ?a" "ir_ClaimID ?b \<noteq> ir_ClaimID ?a" by (simp_all add: scan_input_def demo_simps)
  ultimately show ?thesis
    using superseded_claim_is_lost [OF demo_reach(1) demo_reach(2) _ demo_claimed rtranclp.rtrancl_refl demo_reclaimed _ _ rtranclp.rtrancl_refl]
    by blast
qed

theorem delivery_is_accepted_once_witness:
  "\<exists>h \<in> set (qd_rows queue1). ai_input_id h = ''input-1'' \<and>
    (\<exists>n. accept_tx plain_codec chats [] (Some ''2'') 30 hello ''alice'' [] ''queued'' [] queue1 =
       (if same_delivery hello ''alice'' [] (scan_input h) then Inr ((scan_input h, False), queue1\<lparr>qd_next := n\<rparr>) else Inl ErrDeliveryConflict))"
proof -
  have owner: "tbl_find s_session_key (in_SessionKey hello) (sessions chats) = Some chat" "s_user_id chat = ''alice''"
    and event: "qc_event plain_codec hello = Inr hello" and i: "ir_InputID (scan_input hello_row) = ''input-1''"
    by (simp_all add: chats_def chat_def hello_def plain_codec_def hello_row_def new_row_def scan_input_def)
  have "''queued'' \<in> {''queued'', ''waiting_for_user''}" by simp
  from delivery_is_accepted_once [OF demo_reach(1) rtranclp.rtrancl_refl demo_accepted this rtranclp.rtrancl_refl refl refl refl
      owner refl event, where tasks' = "[]" and now' = 30 and task' = "[]" and status' = "''queued''" and code' = "[]" and x = "''2''"]
  show ?thesis unfolding i by blast
qed

end
