(* ===== verification/TaskProps.thy ===== *)
theory TaskProps
  imports TaskSteps
begin

text \<open>
  The step relation of the task tables and what holds along every sequence of steps: completed tasks
  rest on verified results, finished tasks are frozen, outdated revisions lose, a prepare-only
  restriction binds the whole tree, a stop ends every attempt below its target, and a redelivered
  control is answered from its record.
\<close>

section \<open>Steps\<close>

text \<open>What approvals, browser selections and privacy deletions write to the table of tasks: working
  state, and the status of a live task between running, waiting and blocked.\<close>

definition parks :: "task_row \<Rightarrow> task_row \<Rightarrow> bool" where
  "parks t t' \<longleftrightarrow> (\<exists>s w n u. t' = t\<lparr>k_status := s, k_working := w, k_working_revision := n, k_updated_at := u\<rparr> \<and>
     (s = k_status t \<or> \<not> task_finished (k_status t) \<and> s \<in> {''active'', ''waiting_for_user'', ''blocked''}))"

inductive task_step :: "'x control_db \<Rightarrow> 'x control_db \<Rightarrow> bool" where
  creates: "run_tx (createTx h delegated rnd now req) (cd_store cd) = (res, st') \<Longrightarrow> task_step cd (cd\<lparr>cd_store := st'\<rparr>)"
| attaches: "AttachRun h ctx i rvn runID ks now (cd_store cd) = (res, st') \<Longrightarrow> task_step cd (cd\<lparr>cd_store := st'\<rparr>)"
| works: "SaveWorking h ctx i rvn w now (cd_store cd) = (res, st') \<Longrightarrow> task_step cd (cd\<lparr>cd_store := st'\<rparr>)"
| checkpoints: "CheckpointRun h ctx runID rvn w now (cd_store cd) = (res, st') \<Longrightarrow> task_step cd (cd\<lparr>cd_store := st'\<rparr>)"
| blocks: "BlockRun h ctx runID reason now (cd_store cd) = (res, st') \<Longrightarrow> task_step cd (cd\<lparr>cd_store := st'\<rparr>)"
| ends_run: "SaveRunOutcome h ctx runID state remark now (cd_store cd) = (res, st') \<Longrightarrow> task_step cd (cd\<lparr>cd_store := st'\<rparr>)"
| reports: "SaveResultTx h ctx r ec now (cd_store cd) = Inr (x, st') \<Longrightarrow> task_step cd (cd\<lparr>cd_store := st'\<rparr>)"
| waits: "WaitInteractionTx h i rvn c now (cd_store cd) = Inr (x, st') \<Longrightarrow> task_step cd (cd\<lparr>cd_store := st'\<rparr>)"
| resumes: "ResumeInteractionTx h i rvn c now (cd_store cd) = Inr (x, st') \<Longrightarrow> task_step cd (cd\<lparr>cd_store := st'\<rparr>)"
| closes: "CloseInteractionWaitTx i rvn c now (cd_store cd) = Inr (x, st') \<Longrightarrow> task_step cd (cd\<lparr>cd_store := st'\<rparr>)"
| verifies: "SaveVerifiedResult h actor ctx rnd r now (cd_store cd) = (res, st') \<Longrightarrow> task_step cd (cd\<lparr>cd_store := st'\<rparr>)"
| moves: "task_Transition h actor ctx i rvn status resultID now (cd_store cd) = (res, st') \<Longrightarrow> task_step cd (cd\<lparr>cd_store := st'\<rparr>)"
| reconciles: "verifyMobileResult h M rnd now now2 i (cd_store cd) = (res, st') \<Longrightarrow> task_step cd (cd\<lparr>cd_store := st'\<rparr>)"
| controls: "ApplyWithGuard h P guard actor ctx rnd now req cd = (res, cd') \<Longrightarrow> task_step cd cd'"
| elsewhere: "td_tasks (cd_store cd') = tbl_update sel f (td_tasks (cd_store cd)) \<Longrightarrow> (\<And>t. t \<in> set (td_tasks (cd_store cd)) \<Longrightarrow> sel t \<Longrightarrow> parks t (f t)) \<Longrightarrow>
    td_results (cd_store cd') = td_results (cd_store cd) \<Longrightarrow> cd_events cd' = cd_events cd \<Longrightarrow> task_step cd cd'"

inductive_cases task_stepE: "task_step cd cd'"

lemma parks_move:
  assumes "parks t t'" and "task_ok rs t"
  shows "good_move rs t t'"
proof -
  obtain s w n u where t': "t' = t\<lparr>k_status := s, k_working := w, k_working_revision := n, k_updated_at := u\<rparr>"
    and s: "s = k_status t \<or> \<not> task_finished (k_status t) \<and> s \<in> {''active'', ''waiting_for_user'', ''blocked''}"
    using assms(1) unfolding parks_def by blast
  from s show ?thesis
  proof
    assume "s = k_status t"
    then show ?thesis unfolding t' by (simp add: good_move_def same_task_def quiet_def)
  next
    assume live: "\<not> task_finished (k_status t) \<and> s \<in> {''active'', ''waiting_for_user'', ''blocked''}"
    then have "s \<in> set task_statuses" "s \<noteq> ''completed''" by (auto simp: task_statuses_def)
    moreover have "k_finished_at t = None" using live assms(2) by (auto simp: task_ok_def)
    ultimately show ?thesis using live assms(2) unfolding t' by (simp add: good_move_def same_task_def task_ok_def)
  qed
qed

lemma elsewhere_effect:
  assumes "td_tasks (cd_store cd') = tbl_update sel f (td_tasks (cd_store cd))"
    and "\<And>t. t \<in> set (td_tasks (cd_store cd)) \<Longrightarrow> sel t \<Longrightarrow> parks t (f t)" and "td_results (cd_store cd') = td_results (cd_store cd)"
  shows "effect (cd_store cd) (cd_store cd')"
  using assms by (intro effectI [OF assms(1)]) (auto intro: parks_move)

lemma create_task_inv:
  assumes "run_tx (createTx h delegated rnd now req) st = (res, st')" and "store_inv st"
  shows "store_inv st' \<and> (\<forall>t \<in> set (td_tasks st). \<exists>t' \<in> set (td_tasks st'). task_change t t')"
  using assms(1)
proof (cases rule: run_tx_cases)
  case failure
  with assms(2) task_change_refl show ?thesis by blast
next
  case (success x)
  then obtain t where "td_tasks st' = td_tasks st @ [t]" "td_results st' = td_results st" "born (td_tasks st) t"
    using createTx_Inr by metis
  with born_inv [OF assms(2)] show ?thesis by (auto intro: task_change_refl)
qed

lemmas store_effects = attach_run_effect save_working_effect checkpoint_effect block_effect save_outcome_effect save_result_effect
  wait_effect resume_effect close_effect save_verified_effect elsewhere_effect

lemma step_inv:
  assumes "task_step cd cd'" and inv: "store_inv (cd_store cd)"
  shows "store_inv (cd_store cd') \<and> (\<forall>t \<in> set (td_tasks (cd_store cd)). \<exists>t' \<in> set (td_tasks (cd_store cd')). task_change t t')"
proof -
  have keyed: "keyed k_task_id (td_tasks (cd_store cd))" using inv by (simp add: tasks_inv_def)
  have done_by_effect: ?thesis if "effect (cd_store cd) (cd_store cd')" using effect_inv [OF that inv] by blast
  from assms(1) show ?thesis
  proof cases
    case creates
    then show ?thesis using create_task_inv [OF _ inv] by simp
  next
    case controls
    then show ?thesis by (intro conjI apply_inv [OF inv])
  next
    case moves
    then show ?thesis using done_by_effect transition_effect [OF _ keyed] by simp
  next
    case reconciles
    then show ?thesis using done_by_effect verify_mobile_effect [OF _ keyed] by simp
  qed (rule done_by_effect, fastforce intro: store_effects)+
qed

definition task_revision :: "'x control_db \<Rightarrow> string \<Rightarrow> int" where
  "task_revision cd i = (case tbl_find k_task_id i (td_tasks (cd_store cd)) of None \<Rightarrow> 0 | Some t \<Rightarrow> k_revision t)"

lemma task_revision_mono:
  assumes "store_inv (cd_store cd)" and "task_step cd cd'"
  shows "task_revision cd i \<le> task_revision cd' i"
proof -
  have inv': "store_inv (cd_store cd')" and ch: "\<And>t. t \<in> set (td_tasks (cd_store cd)) \<Longrightarrow> \<exists>t' \<in> set (td_tasks (cd_store cd')). task_change t t'"
    using step_inv [OF assms(2,1)] by auto
  have pos: "0 \<le> task_revision cd' i"
    using inv' by (auto simp: task_revision_def tasks_inv_def task_ok_def list_all_iff split: option.split dest!: tbl_find_SomeD)
  show ?thesis
  proof (cases "tbl_find k_task_id i (td_tasks (cd_store cd))")
    case None
    with pos show ?thesis by (simp add: task_revision_def)
  next
    case (Some t)
    then obtain t' where t': "t' \<in> set (td_tasks (cd_store cd'))" "task_change t t'" using ch tbl_find_SomeD [OF Some] by blast
    have "keyed k_task_id (td_tasks (cd_store cd'))" using inv' by (simp add: tasks_inv_def)
    with t' tbl_find_SomeD [OF Some] have "tbl_find k_task_id i (td_tasks (cd_store cd')) = Some t'"
      using tbl_find_keyed [of k_task_id "td_tasks (cd_store cd')" t'] by (simp add: task_change_def same_task_def)
    with Some t'(2) show ?thesis by (simp add: task_revision_def task_change_def)
  qed
qed

interpretation tasks: monotone_system "\<lambda>cd. td_tasks (cd_store cd) = []" task_step "\<lambda>cd. store_inv (cd_store cd)" task_revision
proof
  show "store_inv (cd_store cd)" if "td_tasks (cd_store cd) = []" for cd :: "'x control_db"
    using that by (simp add: tasks_inv_def up_def acyclic_def policy_ok_def parents_ok_def)
qed (auto dest: step_inv intro: task_revision_mono)

lemma task_change_steps:
  assumes "task_step\<^sup>*\<^sup>* cd cd'" and "store_inv (cd_store cd)" and "t \<in> set (td_tasks (cd_store cd))"
  shows "\<exists>t' \<in> set (td_tasks (cd_store cd')). task_change t t'"
  using assms(1)
proof (induction rule: rtranclp_induct)
  case base
  with assms(3) task_change_refl show ?case by blast
next
  case (step y z)
  then obtain u where "u \<in> set (td_tasks (cd_store y))" "task_change t u" by blast
  moreover have "store_inv (cd_store y)" using step.hyps(1) assms(2) by (rule tasks.inv_steps)
  ultimately show ?case using step_inv [OF step.hyps(2)] task_change_trans by blast
qed

section \<open>Facts about single controls\<close>

lemma run_tx_snd: "(\<And>x s'. f s = Inr (x, s') \<Longrightarrow> P s') \<Longrightarrow> P s \<Longrightarrow> P (snd (run_tx f s))"
  by (auto simp: run_tx_def split: sum.split)

lemma transition_outdated:
  assumes "tbl_find k_task_id i (td_tasks st) = Some t" and "k_revision t \<noteq> rvn"
  shows "snd (task_Transition h actor ctx i rvn status resultID now st) = st"
  unfolding task_Transition_def
  by (rule run_tx_snd) (use assms in \<open>auto simp: transition_body_def task_find_def split: if_split_asm\<close>)

lemma control_outdated:
  assumes "tbl_find k_task_id (ct_TaskID req) (td_tasks (cd_store cd)) = Some t"
    and "ct_ExpectedRevision req \<noteq> 0" and "k_revision t \<noteq> ct_ExpectedRevision req"
  shows "td_tasks (cd_store (snd (ApplyWithGuard h P guard actor ctx rnd now req cd))) = td_tasks (cd_store cd)"
  unfolding ApplyWithGuard_def
proof (rule run_tx_snd)
  fix result cd' assume "apply_body h P guard actor ctx rnd now req cd = Inr (result, cd')"
  then show "td_tasks (cd_store cd') = td_tasks (cd_store cd)"
    by (cases rule: apply_body_cases) (use assms in auto)
qed simp

lemma ensure_ownership_props:
  assumes "ensure_ownership now ks K = Inr K'"
  shows "runs K' = runs K" "lease_inv K \<Longrightarrow> lease_inv K'"
    "tbl_find o_session_key k (ownership K) = Some r \<Longrightarrow> tbl_find o_session_key k (ownership K') = Some r"
proof -
  have "runs K' = runs K \<and> (lease_inv K \<longrightarrow> lease_inv K') \<and>
    (\<forall>k r. tbl_find o_session_key k (ownership K) = Some r \<longrightarrow> tbl_find o_session_key k (ownership K') = Some r)"
    using assms
  proof (induction now ks K rule: ensure_ownership.induct)
    case (2 now key ks K)
    let ?K = "K\<lparr>ownership := ownership K @ [default_lease now key]\<rparr>"
    show ?case
    proof (cases "tbl_find o_session_key key (ownership K)")
      case None
      have "lease_inv ?K" if "lease_inv K"
        using that None by (auto simp: lease_inv_def lease_ids_unique_def keyed_snoc default_lease_def)
      with 2 None show ?thesis by (auto simp: tbl_find_snoc split: if_split_asm)
    next
      case (Some r)
      with 2 show ?thesis by simp
    qed
  qed simp
  then show "runs K' = runs K" "lease_inv K \<Longrightarrow> lease_inv K'"
    "tbl_find o_session_key k (ownership K) = Some r \<Longrightarrow> tbl_find o_session_key k (ownership K') = Some r" by auto
qed

lemma cancel_ends_runs:
  assumes "r \<in> set (runs (CancelForControlTx ids c now K))" and "r_task_id r = Some i" and "i \<in> set ids"
  shows "IsTerminalRunState (r_current_state r)"
  using assms by (auto simp: CancelForControlTx_def terminate_runs_def Let_def set_tbl_update of_tasks_def IsTerminalRunState_def
    split: if_split_asm)

text \<open>What a new control leaves of the runs and leases of the tasks it moves.\<close>

lemma new_control_kernel:
  assumes app: "apply_new h P a ctx rnd now req ks ids root (on_store (\<lambda>st. st\<lparr>td_kernel := RevokeForControlTx ids now K\<rparr>) cd) = Inr (result, cd')"
    and K: "ensure_ownership now ks' (td_kernel (cd_store cd)) = Inr K" and dist: "distinct ids" and i: "i \<in> set ids"
  shows "r \<in> set (runs (td_kernel (cd_store cd'))) \<Longrightarrow> r_task_id r = Some i \<Longrightarrow> IsTerminalRunState (r_current_state r)"
    and "lease_inv (td_kernel (cd_store cd)) \<Longrightarrow> token_valid tok t0 (td_kernel (cd_store cd)) \<Longrightarrow> run \<in> set (runs (td_kernel (cd_store cd))) \<Longrightarrow>
      r_run_id run = tok_RunID tok \<Longrightarrow> r_task_id run = Some i \<Longrightarrow> lease_step\<^sup>*\<^sup>* (td_kernel (cd_store cd')) db2 \<Longrightarrow> \<not> token_valid tok t1 db2"
proof -
  obtain c where rk: "runs (td_kernel (cd_store cd')) = runs (CancelForControlTx ids c now (RevokeForControlTx ids now K))"
    and ok: "ownership (td_kernel (cd_store cd')) = ownership (RevokeForControlTx ids now K)"
    using apply_new_Inr [OF app dist] by (metis on_store_simps(1) task_db.select_convs(1) task_db.surjective task_db.update_convs(1))
  show "IsTerminalRunState (r_current_state r)" if "r \<in> set (runs (td_kernel (cd_store cd')))" "r_task_id r = Some i"
    using that i cancel_ends_runs unfolding rk by blast
  assume inv: "lease_inv (td_kernel (cd_store cd))" and tok: "token_valid tok t0 (td_kernel (cd_store cd))"
    and run: "run \<in> set (runs (td_kernel (cd_store cd)))" "r_run_id run = tok_RunID tok" "r_task_id run = Some i"
    and steps: "lease_step\<^sup>*\<^sup>* (td_kernel (cd_store cd')) db2"
  have tokK: "token_valid tok t0 K"
    using tok ensure_ownership_props(3) [OF K] by (auto simp: token_valid_def split: option.split_asm)
  have "tok_FenceEpoch tok < epoch_obs (td_kernel (cd_store cd')) (tok_SessionKey tok)"
    using revoke_passes_token [OF tokK _ run(2,3) i] run(1) ensure_ownership_props(1) [OF K] ok by (simp add: epoch_obs_def fence_epoch_def)
  moreover have "lease_inv (td_kernel (cd_store cd'))"
    using lease_inv_step [OF step_revoke ensure_ownership_props(2) [OF K inv]] ok by (simp add: lease_inv_def)
  ultimately show "\<not> token_valid tok t1 db2" using steps by (intro passed_token_stale)
qed

lemma new_control_moves:
  assumes inv: "store_inv (cd_store cd)" and root: "tbl_find k_task_id (ct_TaskID req) (td_tasks (cd_store cd)) = Some root"
    and app: "apply_new h P a ctx rnd now req ks ids root (on_store (\<lambda>st. st\<lparr>td_kernel := K'\<rparr>) cd) = Inr (result, cd')" and dist: "distinct ids"
    and t: "t \<in> set (td_tasks (cd_store cd))" "k_task_id t \<in> set ids" and stop: "ct_Kind req = ControlStop"
  shows "\<exists>t' \<in> set (td_tasks (cd_store cd')). k_task_id t' = k_task_id t \<and> k_status t' = ''cancelled'' \<and> k_revision t' = k_revision t + 1"
proof -
  obtain status where st: "control_status req (k_status root) = Inr status"
    and "control_moves req ids root status now (td_tasks (cd_store cd)) (td_tasks (cd_store cd'))"
    by (rule apply_new_Inr [OF app dist]) simp
  then obtain dl origin rho where rows: "td_tasks (cd_store cd') = tbl_update (\<lambda>r. k_task_id r \<in> set ids)
      (\<lambda>r. controlled (dl (k_task_id r)) req origin (k_task_id root) (rho (k_task_id r)) status now r) (td_tasks (cd_store cd))"
    unfolding control_moves_def by blast
  let ?t = "controlled (dl (k_task_id t)) req origin (k_task_id root) (rho (k_task_id t)) status now t"
  have "?t \<in> set (td_tasks (cd_store cd'))" unfolding rows set_tbl_update using t by force
  moreover have "k_status ?t = ''cancelled''" using control_status_cases(3) [OF st stop] by (simp add: controlled_def Let_def)
  ultimately show ?thesis by (intro bexI [of _ ?t]) simp_all
qed

lemma control_records:
  assumes "store_inv (cd_store cd)" and app: "ApplyWithGuard h P guard actor ctx rnd now req cd = (res, cd')"
  shows "\<exists>es. cd_events cd' = cd_events cd @ es"
    "res = Inr result \<Longrightarrow> \<exists>a e. FromContext actor = Some a \<and> delivered a (cd_events cd') = Some e \<and> e_request e = req \<and> stored_result e = result \<and>
       (delivered a (cd_events cd) = None \<or> delivered a (cd_events cd) = Some e \<and> td_tasks (cd_store cd') = td_tasks (cd_store cd) \<and>
        runs (td_kernel (cd_store cd')) = runs (td_kernel (cd_store cd)) \<and> cd_events cd' = cd_events cd)"
proof -
  have dist: "distinct (live_tree (td_tasks (cd_store cd)) i)" for i
    using assms(1) live_tree_props(1) by (simp add: tasks_inv_def)
  have "(\<exists>es. cd_events cd' = cd_events cd @ es) \<and> (res = Inr result \<longrightarrow>
    (\<exists>a e. FromContext actor = Some a \<and> delivered a (cd_events cd') = Some e \<and> e_request e = req \<and> stored_result e = result \<and>
       (delivered a (cd_events cd) = None \<or> delivered a (cd_events cd) = Some e \<and> td_tasks (cd_store cd') = td_tasks (cd_store cd) \<and>
        runs (td_kernel (cd_store cd')) = runs (td_kernel (cd_store cd)) \<and> cd_events cd' = cd_events cd)))" for result
    using app unfolding ApplyWithGuard_def
  proof (cases rule: run_tx_cases)
    case failure
    then show ?thesis by simp
  next
    case (success x)
    from this(2) show ?thesis
    proof (cases rule: apply_body_cases)
      case (replay a e ks K)
      with success(1) ensure_ownership_props(1) [OF replay(5)] show ?thesis by auto
    next
      case (new a root ks K u)
      obtain c where ev: "cd_events cd' = cd_events cd @ [(new_event a req c root)\<lparr>e_result := Some x\<rparr>]"
        by (rule apply_new_Inr [OF new(9) dist]) simp
      have "delivered a (cd_events cd') = Some ((new_event a req c root)\<lparr>e_result := Some x\<rparr>)"
        using new(2) unfolding ev by (simp add: delivered_def first_row_append new_event_def)
      with new(1,2) success(1) show ?thesis
        by (auto simp: ev stored_result_def new_event_def)
    qed
  qed
  then show "\<exists>es. cd_events cd' = cd_events cd @ es"
    "res = Inr result \<Longrightarrow> \<exists>a e. FromContext actor = Some a \<and> delivered a (cd_events cd') = Some e \<and> e_request e = req \<and> stored_result e = result \<and>
       (delivered a (cd_events cd) = None \<or> delivered a (cd_events cd) = Some e \<and> td_tasks (cd_store cd') = td_tasks (cd_store cd) \<and>
        runs (td_kernel (cd_store cd')) = runs (td_kernel (cd_store cd)) \<and> cd_events cd' = cd_events cd)" by blast+
qed

lemma step_events: "task_step cd cd' \<Longrightarrow> store_inv (cd_store cd) \<Longrightarrow> \<exists>es. cd_events cd' = cd_events cd @ es"
  by (erule task_stepE) (auto dest: control_records(1))

lemma delivered_steps:
  assumes "task_step\<^sup>*\<^sup>* cd cd'" and "store_inv (cd_store cd)" and "delivered a (cd_events cd) = Some e"
  shows "delivered a (cd_events cd') = Some e"
proof (rule tasks.stable_steps [where P = "\<lambda>c. delivered a (cd_events c) = Some e", OF _ assms])
  show "delivered a (cd_events v) = Some e" if "store_inv (cd_store u)" "task_step u v" "delivered a (cd_events u) = Some e" for u v
    using step_events [OF that(2,1)] that(3) by (auto simp: delivered_def first_row_append)
qed

section \<open>Properties\<close>

text \<open>C11. In every state reachable from empty tables, whatever tasks, runs, owners and other components
  did, a completed task names a saved result of its own with a verified verdict, given by the owner
  or by the verifier of mobile batches and never by a model run, for exactly the revision that was
  completed, with evidence, covering every completion criterion.\<close>

theorem completed_task_rests_on_verified_result:
  assumes "td_tasks (cd_store cd0) = []" and "task_step\<^sup>*\<^sup>* cd0 cd"
    and "t \<in> set (td_tasks (cd_store cd))" and "k_status t = ''completed''"
  shows "\<exists>q \<in> set (td_results (cd_store cd)). coalesce (k_completion_result_id t) = q_result_id q \<and> q_task_id q = k_task_id t \<and>
    q_verdict q = ''verified'' \<and> (q_verifier q = ''owner'' \<and> k_criteria t \<noteq> [] \<or> q_verifier q = ''mobile_batch_v1'') \<and>
    q_task_revision q = k_revision t - 1 \<and> q_evidence_refs q \<noteq> [] \<and> set (k_criteria t) \<subseteq> set (q_verified_criteria q)"
proof -
  have "store_inv (cd_store cd)" using assms(1,2) by (rule tasks.inv_reach)
  with assms(3,4) have "\<exists>q \<in> set (td_results (cd_store cd)). proof_of q t" by (simp add: tasks_inv_def task_ok_def list_all_iff)
  then obtain q where "q \<in> set (td_results (cd_store cd))" "proof_of q t" by blast
  then show ?thesis by (intro bexI [of _ q]) (simp_all add: proof_of_def)
qed

text \<open>C29. A cancelled or completed task is final: no later operation, no owner control and no write of
  another component changes its status, revision, goal, constraints, criteria, policy or the result
  it was completed with.\<close>

theorem finished_task_is_frozen:
  assumes "store_inv (cd_store cd)" and "task_step\<^sup>*\<^sup>* cd cd'"
    and "t \<in> set (td_tasks (cd_store cd))" and "task_finished (k_status t)"
  shows "\<exists>t' \<in> set (td_tasks (cd_store cd')). k_task_id t' = k_task_id t \<and> k_status t' = k_status t \<and>
    k_revision t' = k_revision t \<and> k_goal t' = k_goal t \<and> k_constraints t' = k_constraints t \<and> k_criteria t' = k_criteria t \<and>
    k_execution_policy t' = k_execution_policy t \<and> k_completion_result_id t' = k_completion_result_id t"
  using task_change_steps [OF assms(2,1,3)] assms(4) by (fastforce simp: task_change_def same_task_def quiet_def)

text \<open>Optimistic concurrency: once a task has moved past a revision, a transition or an owner control
  decided on that revision changes no task, however many operations lie in between.\<close>

theorem outdated_revision_changes_nothing:
  assumes inv: "store_inv (cd_store cd)" and steps: "task_step\<^sup>*\<^sup>* cd cd'"
    and t: "t \<in> set (td_tasks (cd_store cd))" and old: "rvn < k_revision t"
    and req: "ct_TaskID req = k_task_id t" "ct_ExpectedRevision req = rvn" "rvn \<noteq> 0"
  shows "snd (task_Transition h actor ctx (k_task_id t) rvn status resultID now (cd_store cd')) = cd_store cd' \<and>
    td_tasks (cd_store (snd (ApplyWithGuard h P guard actor ctx rnd now req cd'))) = td_tasks (cd_store cd')"
proof -
  have "keyed k_task_id (td_tasks (cd_store cd))" "keyed k_task_id (td_tasks (cd_store cd'))"
    using inv tasks.inv_steps [OF steps inv] by (simp_all add: tasks_inv_def)
  moreover obtain t' where t': "t' \<in> set (td_tasks (cd_store cd'))" "task_change t t'" using task_change_steps [OF steps inv t] by blast
  ultimately have found: "tbl_find k_task_id (k_task_id t) (td_tasks (cd_store cd')) = Some t'"
    using tbl_find_keyed [of k_task_id "td_tasks (cd_store cd')" t'] by (simp add: task_change_def same_task_def)
  have new: "k_revision t' \<noteq> rvn" using t'(2) old by (simp add: task_change_def)
  show ?thesis
    using transition_outdated [OF found new] control_outdated [of req cd' t'] found new req by simp
qed

text \<open>C27. In every reachable state, a task that is not finished and has a prepare-only ancestor is
  prepare-only itself: neither the creation of children nor any owner control loosens it.\<close>

theorem prepare_only_binds_descendants:
  assumes "td_tasks (cd_store cd0) = []" and "task_step\<^sup>*\<^sup>* cd0 cd"
    and "r \<in> set (td_tasks (cd_store cd))" and "a \<in> set (td_tasks (cd_store cd))"
    and "k_task_id a \<in> set (proper_ancestors (td_tasks (cd_store cd)) (k_task_id r))"
    and "k_execution_policy a = PolicyPrepareOnly" and "\<not> task_finished (k_status r)"
  shows "k_execution_policy r = PolicyPrepareOnly"
proof -
  have inv: "store_inv (cd_store cd)" using assms(1,2) by (rule tasks.inv_reach)
  then have "(k_task_id r, k_task_id a) \<in> (up (td_tasks (cd_store cd)))\<^sup>+"
    using proper_ancestors_iff assms(4,5) by blast
  with inv assms(3,4,6,7) show ?thesis unfolding tasks_inv_def policy_ok_def by blast
qed

text \<open>C12. A stop is complete: every live task of the tree below the target is cancelled under a new
  revision, each of its runs is terminal, and no worker holding a token for such a run ever passes
  the fence again.\<close>

theorem stop_control_halts_the_tree:
  assumes inv: "store_inv (cd_store cd)" "lease_inv (td_kernel (cd_store cd))"
    and app: "ApplyWithGuard h P guard actor ctx rnd now req cd = (Inr result, cd')" and stop: "ct_Kind req = ControlStop"
    and new: "FromContext actor = Some a" "delivered a (cd_events cd) = None"
    and t: "t \<in> set (td_tasks (cd_store cd))" "k_task_id t \<in> set (task_tree (td_tasks (cd_store cd)) (ct_TaskID req))"
      "\<not> task_finished (k_status t)"
  shows "(\<exists>t' \<in> set (td_tasks (cd_store cd')). k_task_id t' = k_task_id t \<and> k_status t' = ''cancelled'' \<and> k_revision t' = k_revision t + 1) \<and>
    (\<forall>r \<in> set (runs (td_kernel (cd_store cd'))). r_task_id r = Some (k_task_id t) \<longrightarrow> IsTerminalRunState (r_current_state r)) \<and>
    (\<forall>tok t0 run db2 t1. token_valid tok t0 (td_kernel (cd_store cd)) \<and> run \<in> set (runs (td_kernel (cd_store cd))) \<and>
       r_run_id run = tok_RunID tok \<and> r_task_id run = Some (k_task_id t) \<and>
       lease_step\<^sup>*\<^sup>* (td_kernel (cd_store cd')) db2 \<longrightarrow> \<not> token_valid tok t1 db2)"
proof -
  let ?ids = "live_tree (td_tasks (cd_store cd)) (ct_TaskID req)"
  have "keyed k_task_id (td_tasks (cd_store cd))" "acyclic (up (td_tasks (cd_store cd)))" using inv(1) by (simp_all add: tasks_inv_def)
  note ids = live_tree_props [OF this]
  have i: "k_task_id t \<in> set ?ids" unfolding ids(2) using t by blast
  have "apply_body h P guard actor ctx rnd now req cd = Inr (result, cd')" using app unfolding ApplyWithGuard_def run_tx_Inr_iff .
  then obtain root ks K where root: "tbl_find k_task_id (ct_TaskID req) (td_tasks (cd_store cd)) = Some root"
    and K: "ensure_ownership now ks (td_kernel (cd_store cd)) = Inr K"
    and body: "apply_new h P a ctx rnd now req ks ?ids root (on_store (\<lambda>st. st\<lparr>td_kernel := RevokeForControlTx ?ids now K\<rparr>) cd) = Inr (result, cd')"
    by (cases rule: apply_body_cases) (use new in auto)
  note kernel = new_control_kernel [OF body K ids(1) i]
  show ?thesis
    using new_control_moves [OF inv(1) root body ids(1) t(1) i stop] kernel(1) kernel(2) [OF inv(2)] by blast
qed

text \<open>C28. One delivery of an owner control is applied once: whatever happens after it, the same delivery
  is only accepted again with the same request, is answered with the recorded result, and changes no
  task, run or record.\<close>

theorem control_delivery_is_idempotent:
  assumes inv: "store_inv (cd_store cd)"
    and first: "ApplyWithGuard h P guard actor ctx rnd now req cd = (Inr result, cd1)"
    and steps: "task_step\<^sup>*\<^sup>* cd1 cd2"
    and again: "ApplyWithGuard h' P' guard' actor ctx' rnd' now' req' cd2 = (Inr result', cd3)"
  shows "req' = req \<and> result' = result \<and> td_tasks (cd_store cd3) = td_tasks (cd_store cd2) \<and>
    runs (td_kernel (cd_store cd3)) = runs (td_kernel (cd_store cd2)) \<and> cd_events cd3 = cd_events cd2"
proof -
  obtain a e where a: "FromContext actor = Some a" and e: "delivered a (cd_events cd1) = Some e" "e_request e = req" "stored_result e = result"
    using control_records(2) [OF inv first refl] by blast
  have inv1: "store_inv (cd_store cd1)" using inv first by (rule apply_inv)
  have e2: "delivered a (cd_events cd2) = Some e" using steps inv1 e(1) by (rule delivered_steps)
  have inv2: "store_inv (cd_store cd2)" using steps inv1 by (rule tasks.inv_steps)
  obtain e' where "delivered a (cd_events cd3) = Some e'" "e_request e' = req'" "stored_result e' = result'"
      "delivered a (cd_events cd2) = Some e' \<and> td_tasks (cd_store cd3) = td_tasks (cd_store cd2) \<and>
        runs (td_kernel (cd_store cd3)) = runs (td_kernel (cd_store cd2)) \<and> cd_events cd3 = cd_events cd2"
    using control_records(2) [OF inv2 again refl] a e2 by auto
  with e e2 show ?thesis by simp
qed

lemma proper_ancestors_stored:
  assumes "parents_ok rows"
  shows "set (proper_ancestors rows i) \<subseteq> k_task_id ` set rows"
proof
  fix j assume "j \<in> set (proper_ancestors rows i)"
  then have "(Some i, Some j) \<in> (joins (parent_rows rows))\<^sup>+" by (auto simp: proper_ancestors_def parents_query_iff split: option.splits)
  then obtain u where "(u, Some j) \<in> joins (parent_rows rows)" by (meson tranclD2)
  then show "j \<in> k_task_id ` set rows" using assms by (fastforce simp: parent_joins parents_ok_def)
qed

text \<open>C40. The recursive queries of the owner controls end: in every reachable state, after as many rounds as there are tasks
  the next one of the query over the tree and of the query over the parents finds no row. The tree query lists the target
  and its descendants, each once although it keeps duplicates, and the parents query finds exactly the proper ancestors.\<close>

theorem control_queries_end:
  assumes "td_tasks (cd_store cd0) = []" and "task_step\<^sup>*\<^sup>* cd0 cd" and "rows = td_tasks (cd_store cd)"
    and "i \<in> k_task_id ` set rows"
  shows "query_rounds (child_rows rows) (Suc (length rows)) [i] = [] \<and> distinct (tree_query rows i) \<and>
    set (tree_query rows i) = {j. (j, i) \<in> (up rows)\<^sup>*} \<and>
    query_rounds (parent_rows rows) (Suc (length rows)) (parent_rows rows (Some i)) = [] \<and>
    set (proper_ancestors rows i) = {j. (i, j) \<in> (up rows)\<^sup>+}"
proof -
  have inv: "tasks_inv rows (td_results (cd_store cd))" using tasks.inv_reach [OF assms(1,2)] assms(3) by simp
  then have keyed: "keyed k_task_id rows" and acyc: "acyclic (up rows)" and parents: "parents_ok rows" by (simp_all add: tasks_inv_def)
  have "set (proper_ancestors rows i) \<subseteq> k_task_id ` set rows" using proper_ancestors_stored [OF parents] .
  moreover have "(i, j) \<in> (up rows)\<^sup>+ \<Longrightarrow> j \<in> k_task_id ` set rows" for j by (meson tranclD2 up_domain)
  ultimately have "set (proper_ancestors rows i) = {j. (i, j) \<in> (up rows)\<^sup>+}" using proper_ancestors_iff [of _ rows i] by blast
  moreover have "query_rounds (child_rows rows) (Suc (length rows)) [i] = []" "query_rounds (parent_rows rows) (Suc (length rows)) (parent_rows rows (Some i)) = []"
    using rounds_end [OF child_joins_acyclic [OF acyc] domain_bound(1,2)] rounds_end [OF parent_joins_acyclic [OF acyc] domain_bound(3,4)] by blast+
  ultimately show ?thesis using tree_query_distinct [OF keyed acyc] tree_query_set task_tree_reach [OF assms(4)] by simp
qed

end
