(* ===== verification/TaskExamples.thy ===== *)
theory TaskExamples
  imports TaskProps
begin

text \<open>
  A small history of the task tables, evaluated in the logic: a task and its child are created, a
  run of the child is at work, the owner forbids effects, stops the tree, or verifies and completes
  the task. The properties are applied to it.
\<close>

definition demo_hooks :: "'x task_hooks" where
  "demo_hooks = \<lparr>h_authority = (\<lambda>_ _ _ _. Inr \<lparr>as_TaskID = [], as_OwnerID = [], as_GoalID = [], as_GoalRevision = 0,
      as_MandateID = [], as_MandateRevision = 0, as_Purpose = [], as_InitiativeReason = [], as_ObservationRef = [], as_PolicyRevision = 0\<rparr>),
    h_assignment = (\<lambda>_ _ _. Inr ()), h_child_budget = None, h_delivery_ready = True, h_notify = (\<lambda>_ _ _ _ st. Inr (td_other st))\<rparr>"

definition demo_ports :: "unit control_ports" where
  "demo_ports = \<lparr>cx_invalidate_inputs = (\<lambda>_ _ s. Inr (False, s)), cx_resolve_ambiguous = (\<lambda>_ _ s. Inr s),
    cx_admit = (\<lambda>e _ _ _ _ s. Inr (ce_EventID e, s)), cx_invalidate_approvals = (\<lambda>_ _ _ x. Inr x),
    cx_append_transcript = (\<lambda>_ _ _ _ x. Inr x), cx_interactions = None, cx_deletions = (\<lambda>_. [])\<rparr>"

definition demo_kernel :: kernel_db where
  "demo_kernel = \<lparr>sessions = [\<lparr>s_session_id = ''1'', s_session_key = ''s'', s_user_id = ''o'', s_channel = ''web'',
      s_metadata = JObj [], s_summary = [], s_created_at = 1, s_updated_at = 1\<rparr>],
    ownership = [demo_row], runs = [demo_run\<lparr>r_task_id := Some ''task_b''\<rparr>], transitions = [], inputs = [], stopped = []\<rparr>"

definition demo_empty :: "unit control_db" where
  "demo_empty = \<lparr>cd_store = \<lparr>td_kernel = demo_kernel, td_tasks = [], td_results = [], td_bindings = [], td_other = ()\<rparr>,
    cd_events = [], cd_targets = []\<rparr>"

definition demo_request :: "string \<Rightarrow> CreateRequest" where
  "demo_request parent = \<lparr>cq_ResultDelivery = [], cq_InitialExecutionPolicy = [], cq_Authority = None, cq_SessionKey = ''s'',
    cq_OwnerID = ''o'', cq_ParentTaskID = parent, cq_Goal = ''g'', cq_Source = [(''x'', JNull)], cq_Constraints = [], cq_CompletionCriteria = [''c'']\<rparr>"

definition demo_actor :: "string \<Rightarrow> Actor" where
  "demo_actor delivery = \<lparr>ac_OwnerID = ''o'', ac_Channel = ''web'', ac_SessionKey = ''s'', ac_DeliveryID = delivery\<rparr>"

definition demo_control :: "string \<Rightarrow> string \<Rightarrow> ControlRequest" where
  "demo_control kind policy = \<lparr>ct_TaskID = ''task_a'', ct_ExpectedRevision = 0, ct_Kind = kind, ct_Instruction = [], ct_Goal = None,
    ct_Constraints = None, ct_CompletionCriteria = None, ct_ExecutionPolicy = policy, ct_Status = [], ct_ResultID = []\<rparr>"

definition no_token :: exec_ctx where
  "no_token = \<lparr>ctx_token = None, ctx_guarded = False, ctx_max_conns = 2\<rparr>"

definition task_a :: task_row where
  "task_a = new_task ''task_a'' PolicyNormal 10 (demo_request [])"

definition task_b :: task_row where
  "task_b = new_task ''task_b'' PolicyNormal 10 ((demo_request ''task_a'')\<lparr>cq_ResultDelivery := ''attempt''\<rparr>)"

definition with_tasks :: "task_row list \<Rightarrow> unit control_db" where
  "with_tasks rows = demo_empty\<lparr>cd_store := (cd_store demo_empty)\<lparr>td_tasks := rows\<rparr>\<rparr>"

lemma task_a_simps [simp]:
  "k_task_id task_a = ''task_a''" "k_session_key task_a = ''s''" "k_owner_id task_a = ''o''" "k_parent_task_id task_a = None"
  "k_status task_a = ''active''" "k_revision task_a = 1" "k_execution_policy task_a = PolicyNormal" "k_result_delivery task_a = ''attempt''"
  "k_constraints task_a = []" "k_criteria task_a = [''c'']"
  by (simp_all add: task_a_def new_task_def demo_request_def nullString_def)

lemma task_b_simps [simp]:
  "k_task_id task_b = ''task_b''" "k_session_key task_b = ''s''" "k_owner_id task_b = ''o''" "k_parent_task_id task_b = Some ''task_a''"
  "k_status task_b = ''active''" "k_revision task_b = 1" "k_execution_policy task_b = PolicyNormal" "k_result_delivery task_b = ''attempt''"
  by (simp_all add: task_b_def new_task_def demo_request_def nullString_def)

lemma with_tasks_simps [simp]:
  "td_tasks (cd_store (with_tasks rows)) = rows" "td_results (cd_store (with_tasks rows)) = []"
  "td_kernel (cd_store (with_tasks rows)) = demo_kernel" "cd_events (with_tasks rows) = []"
  by (simp_all add: with_tasks_def demo_empty_def)

lemma demo_request_valid: "ValidateCreate (demo_request p) = Inr ()" "validateStrings [] = Inr ()"
  by (simp_all add: ValidateCreate_def demo_request_def ValidatePolicy_def validateStrings_def TrimSpace_def strip.simps space_encodings_def starts_def)

lemma demo_request_simps [simp]:
  "cq_ParentTaskID (demo_request p) = p" "cq_SessionKey (demo_request p) = ''s''" "cq_OwnerID (demo_request p) = ''o''"
  "cq_Constraints (demo_request p) = []" "cq_Source (demo_request p) = [(''x'', JNull)]" "cq_Authority (demo_request p) = None"
  "cq_ResultDelivery (demo_request p) = []" "cq_InitialExecutionPolicy (demo_request p) = []"
  by (simp_all add: demo_request_def)

lemma demo_session: "tbl_find s_session_key ''s'' (sessions demo_kernel) = Some (hd (sessions demo_kernel))" "s_user_id (hd (sessions demo_kernel)) = ''o''"
  "map o_session_key (ownership demo_kernel) = [''s'']"
  by (simp_all add: demo_kernel_def demo_row_def)

lemma tree_of_a: "task_ancestors [task_a] ''task_a'' = [''task_a'']" "task_tree [task_a, task_b] ''task_a'' = [''task_a'', ''task_b'']"
  "task_ancestors [task_a, task_b] ''task_a'' = [''task_a'']"  "task_ancestors [task_a, task_b] ''task_b'' = [''task_b'', ''task_a'']"
  by (simp_all add: task_ancestors_def task_tree_def task_start_def parents_of_def children_of_def)

lemma demo_empty_simps [simp]:
  "td_kernel (cd_store demo_empty) = demo_kernel" "td_results (cd_store demo_empty) = []" "cd_events demo_empty = []" "td_other (cd_store demo_empty) = ()"
  by (simp_all add: demo_empty_def)

lemmas create_defs = run_tx_def createTx_def demo_request_valid demo_session Let_def inherit_parent_def authorized_request_def newID_def
  reserve_child_def demo_hooks_def insert_task_def bind_assignment_def with_tasks_def task_find_def lockTreeTx_def

lemma create_a:
  "run_tx (createTx demo_hooks False (Some ''a'') 10 (demo_request [])) (cd_store (with_tasks [])) = (Inr (scan_task task_a), cd_store (with_tasks [task_a]))"
  by (simp add: create_defs task_a_def [symmetric])

lemma task_b_eq: "new_task ''task_b'' PolicyNormal 10 (demo_request ''task_a''\<lparr>cq_ResultDelivery := ''attempt'', cq_Authority := None, cq_Constraints := []\<rparr>) = task_b"
  by (simp add: task_b_def new_task_def)

lemma create_b:
  "run_tx (createTx demo_hooks False (Some ''b'') 10 (demo_request ''task_a'')) (cd_store (with_tasks [task_a])) =
    (Inr (scan_task task_b), cd_store (with_tasks [task_a, task_b]))"
  by (simp add: create_defs tree_of_a task_b_eq)

text \<open>The tree of the two tasks is reachable from empty tables, and satisfies the invariant.\<close>

lemma reach_tree: "task_step\<^sup>*\<^sup>* (with_tasks []) (with_tasks [task_a, task_b])"
proof -
  have upd: "(with_tasks rows)\<lparr>cd_store := cd_store (with_tasks rows')\<rparr> = with_tasks rows'" for rows rows'
    by (simp add: with_tasks_def)
  have "task_step (with_tasks []) (with_tasks [task_a])" using creates [OF create_a] unfolding upd .
  moreover have "task_step (with_tasks [task_a]) (with_tasks [task_a, task_b])" using creates [OF create_b] unfolding upd .
  ultimately show ?thesis by (blast intro: rtranclp.intros)
qed

lemma tree_inv: "store_inv (cd_store (with_tasks [task_a, task_b]))"
  by (rule tasks.inv_reach [OF _ reach_tree]) simp

section \<open>Controls of the tree\<close>

definition demo_apply :: "string \<Rightarrow> string \<Rightarrow> string \<Rightarrow> unit control_db \<Rightarrow> (go_err, ControlResult, unit control_db) outcome" where
  "demo_apply delivery kind policy = ApplyWithGuard demo_hooks demo_ports (\<lambda>_. Inr ()) (Some (demo_actor delivery)) no_token
     (Some delivery) 40 (demo_control kind policy)"

lemma demo_sessions: "control_sessions (demo_actor d) task_a [task_a, task_b] = [''s'']"
  by (simp add: control_sessions_def tree_of_a demo_actor_def)

lemma query_of_a: "tree_query [task_a, task_b] ''task_a'' = [''task_a'', ''task_b'']" "parents_query [task_a, task_b] ''task_a'' = [None]"
  "parents_query [task_a, task_b] ''task_b'' = [Some ''task_a'', None]"
  by (simp_all add: tree_query_def child_rows_def parents_query_def parent_rows_def)

lemma demo_live: "live_tree [task_a, task_b] ''task_a'' = [''task_a'', ''task_b'']"
  by (simp add: live_tree_def query_of_a task_finished_def insort_key_def)

theorem control_queries_end_witness:
  "query_rounds (child_rows [task_a, task_b]) 3 [''task_a''] = [] \<and> distinct (tree_query [task_a, task_b] ''task_a'') \<and>
   query_rounds (parent_rows [task_a, task_b]) 3 (parent_rows [task_a, task_b] (Some ''task_a'')) = []"
proof -
  have stored: "''task_a'' \<in> k_task_id ` set [task_a, task_b]" by simp
  have "td_tasks (cd_store (with_tasks [])) = []" "[task_a, task_b] = td_tasks (cd_store (with_tasks [task_a, task_b]))" by simp_all
  note ends = control_queries_end [OF this(1) reach_tree this(2) stored]
  have "Suc (length [task_a, task_b]) = 3" by simp
  with ends show ?thesis by metis
qed

lemma demo_control_simps [simp]:
  "ct_TaskID (demo_control k p) = ''task_a''" "ct_ExpectedRevision (demo_control k p) = 0" "ct_Kind (demo_control k p) = k"
  "ct_ExecutionPolicy (demo_control k p) = p" "ct_Instruction (demo_control k p) = []"
  by (simp_all add: demo_control_def)

lemma demo_control_valid: "ValidateControl (demo_control ControlStop []) = Inr ()" "ValidateControl (demo_control ControlAmend PolicyPrepareOnly) = Inr ()"
  by (simp_all add: ValidateControl_def demo_control_def check_kind_def ControlStop_def ControlAmend_def PolicyPrepareOnly_def PolicyNormal_def)

lemma demo_actor_ok: "FromContext (Some (demo_actor (c # d))) = Some (demo_actor (c # d))" "ac_OwnerID (demo_actor d) = ''o''"
  by (simp_all add: FromContext_def demo_actor_def)

lemma demo_status: "control_status (demo_control ControlStop p) s = Inr ''cancelled''" "control_status (demo_control ControlAmend p) s = Inr ''active''"
  by (simp_all add: control_status_def ControlStop_def ControlAmend_def ControlPause_def ControlResume_def ControlStatus_def)

lemmas control_defs = ApplyWithGuard_def run_tx_def apply_body_def apply_new_def demo_actor_ok demo_control_valid task_find_def lockTreeTx_def
  tree_of_a demo_sessions demo_live Let_def delivered_def task_finished_def demo_status check_completion_def check_activation_def newID_def stop_attempts_def
  demo_ports_def inputs_of_def task_Get_def demo_hooks_def announce_def control_target_def admit_continuation_def

lemma demo_ownership: "ensure_ownership now [''s''] demo_kernel = Inr demo_kernel" "check_session_owners ''o'' [''s''] demo_kernel = Inr ()"
  by (simp_all add: demo_kernel_def demo_row_def)

lemma stop_accepted: "\<exists>result cd'. demo_apply ''2'' ControlStop [] (with_tasks [task_a, task_b]) = (Inr result, cd')"
  by (simp add: demo_apply_def control_defs demo_ownership del: ensure_ownership.simps check_session_owners.simps)

lemma sessions_kept: "sessions (td_kernel (with_inputs i st)) = sessions (td_kernel st)" "sessions (RevokeForControlTx ids now K) = sessions K"
  "sessions (CancelForControlTx ids c now K) = sessions K" "ownership (CancelForControlTx ids c now K) = ownership K"
  "map o_session_key (ownership (RevokeForControlTx ids now K)) = map o_session_key (ownership K)"
  by (simp_all add: tbl_update_def with_inputs_def RevokeForControlTx_def CancelForControlTx_def terminate_runs_def Let_def)

lemma controlled_view: "k_status (controlled dels req origin root b status now t) = (if k_task_id t \<noteq> root \<and> status \<noteq> ''cancelled'' then ''paused'' else status)"
  "k_parent_task_id (controlled dels req origin root b status now t) = k_parent_task_id t"
  by (simp_all add: controlled_def amended_def Let_def)

lemma prepare_accepted: "\<exists>result cd'. demo_apply ''1'' ControlAmend PolicyPrepareOnly (with_tasks [task_a, task_b]) = (Inr result, cd') \<and>
   map k_task_id (td_tasks (cd_store cd')) = [''task_a'', ''task_b''] \<and> map k_parent_task_id (td_tasks (cd_store cd')) = [None, Some ''task_a''] \<and>
   map k_status (td_tasks (cd_store cd')) = [''active'', ''paused''] \<and> map k_execution_policy (td_tasks (cd_store cd')) = [PolicyPrepareOnly, PolicyPrepareOnly]"
  by (simp add: demo_apply_def control_defs demo_ownership proper_ancestors_def query_of_a demo_session controlled_policy sessions_kept controlled_view
    del: ensure_ownership.simps check_session_owners.simps)

definition demo_stopped :: "unit control_db" where
  "demo_stopped = snd (demo_apply ''2'' ControlStop [] (with_tasks [task_a, task_b]))"

lemma demo_stopped_tasks:
  "map (\<lambda>r. (k_task_id r, k_parent_task_id r, k_session_key r, k_owner_id r, k_status r)) (td_tasks (cd_store demo_stopped)) =
     [(''task_a'', None, ''s'', ''o'', ''cancelled''), (''task_b'', Some ''task_a'', ''s'', ''o'', ''cancelled'')]"
  by (simp add: demo_stopped_def demo_apply_def control_defs demo_ownership controlled_view controlled_same [unfolded same_task_def]
    del: ensure_ownership.simps check_session_owners.simps)

lemma demo_stopped_kernel: "sessions (td_kernel (cd_store demo_stopped)) = sessions demo_kernel"
    "map o_session_key (ownership (td_kernel (cd_store demo_stopped))) = [''s'']"
  by (simp_all add: demo_stopped_def demo_apply_def control_defs demo_ownership sessions_kept demo_session(3)
    del: ensure_ownership.simps check_session_owners.simps)

lemma demo_stopped_event: "\<exists>e. delivered (demo_actor ''2'') (cd_events demo_stopped) = Some e \<and> e_request e = demo_control ControlStop []"
proof -
  obtain result cd' where "demo_apply ''2'' ControlStop [] (with_tasks [task_a, task_b]) = (Inr result, cd')" using stop_accepted by blast
  then have "ApplyWithGuard demo_hooks demo_ports (\<lambda>_. Inr ()) (Some (demo_actor ''2'')) no_token (Some ''2'') 40 (demo_control ControlStop [])
      (with_tasks [task_a, task_b]) = (Inr result, demo_stopped)" by (simp add: demo_apply_def demo_stopped_def)
  from control_records(2) [OF tree_inv this refl] show ?thesis by (auto simp: demo_actor_ok)
qed

text \<open>The same delivery once more is accepted.\<close>

lemma stop_redelivered: "\<exists>result cd'. demo_apply ''2'' ControlStop [] demo_stopped = (Inr result, cd')"
proof -
  obtain x y where rows: "td_tasks (cd_store demo_stopped) = [x, y]" and x: "k_task_id x = ''task_a''" "k_parent_task_id x = None" "k_session_key x = ''s''" "k_owner_id x = ''o''"
    and y: "k_task_id y = ''task_b''" "k_parent_task_id y = Some ''task_a''" "k_session_key y = ''s''"
    using demo_stopped_tasks by (auto simp: map_eq_Cons_conv)
  obtain w where w: "ownership (td_kernel (cd_store demo_stopped)) = [w]" "o_session_key w = ''s''" using demo_stopped_kernel(2) by (auto simp: map_eq_Cons_conv)
  obtain e where e: "delivered (demo_actor ''2'') (cd_events demo_stopped) = Some e" "e_request e = demo_control ControlStop []" using demo_stopped_event by blast
  have tree: "task_ancestors [x, y] ''task_a'' = [''task_a'']" "task_tree [x, y] ''task_a'' = [''task_a'', ''task_b'']"
    by (simp_all add: task_ancestors_def task_tree_def task_start_def parents_of_def children_of_def x y)
  have ks: "control_sessions (demo_actor ''2'') x [x, y] = [''s'']" by (simp add: control_sessions_def tree x y demo_actor_def)
  have kernel: "ensure_ownership 40 [''s''] (td_kernel (cd_store demo_stopped)) = Inr (td_kernel (cd_store demo_stopped))"
    "check_session_owners ''o'' [''s''] (td_kernel (cd_store demo_stopped)) = Inr ()"
    using w by (simp_all add: demo_stopped_kernel(1) demo_session)
  show ?thesis
    by (simp add: demo_apply_def ApplyWithGuard_def run_tx_def apply_body_def demo_actor_ok demo_control_valid task_find_def lockTreeTx_def rows x tree ks kernel e Let_def
      del: ensure_ownership.simps check_session_owners.simps)
qed

theorem control_delivery_is_idempotent_witness:
  "\<exists>result cd'. demo_apply ''2'' ControlStop [] demo_stopped = (Inr result, cd') \<and> fst (demo_apply ''2'' ControlStop [] (with_tasks [task_a, task_b])) = Inr result \<and>
     td_tasks (cd_store cd') = td_tasks (cd_store demo_stopped)"
proof -
  obtain result where one: "demo_apply ''2'' ControlStop [] (with_tasks [task_a, task_b]) = (Inr result, demo_stopped)"
    using stop_accepted by (auto simp: demo_stopped_def)
  obtain result' cd' where two: "demo_apply ''2'' ControlStop [] demo_stopped = (Inr result', cd')" using stop_redelivered by blast
  from control_delivery_is_idempotent [OF tree_inv one [unfolded demo_apply_def] rtranclp.rtrancl_refl two [unfolded demo_apply_def]] one two
  show ?thesis by auto
qed

theorem stop_control_halts_the_tree_witness:
  "(\<exists>t' \<in> set (td_tasks (cd_store demo_stopped)). k_task_id t' = ''task_b'' \<and> k_status t' = ''cancelled'' \<and> k_revision t' = 2) \<and>
   token_valid demo_token 50 demo_kernel \<and> \<not> token_valid demo_token 50 (td_kernel (cd_store demo_stopped))"
proof -
  obtain result where app: "demo_apply ''2'' ControlStop [] (with_tasks [task_a, task_b]) = (Inr result, demo_stopped)"
    using stop_accepted by (auto simp: demo_stopped_def)
  have "lease_inv demo_kernel" by (simp add: lease_inv_def lease_ids_unique_def demo_kernel_def)
  then have halted: "(\<exists>t' \<in> set (td_tasks (cd_store demo_stopped)). k_task_id t' = k_task_id task_b \<and> k_status t' = ''cancelled'' \<and> k_revision t' = k_revision task_b + 1) \<and>
    (\<forall>r \<in> set (runs (td_kernel (cd_store demo_stopped))). r_task_id r = Some (k_task_id task_b) \<longrightarrow> IsTerminalRunState (r_current_state r)) \<and>
    (\<forall>tok t0 run db2 t1. token_valid tok t0 demo_kernel \<and> run \<in> set (runs demo_kernel) \<and>
       r_run_id run = tok_RunID tok \<and> r_task_id run = Some (k_task_id task_b) \<and>
       lease_step\<^sup>*\<^sup>* (td_kernel (cd_store demo_stopped)) db2 \<longrightarrow> \<not> token_valid tok t1 db2)"
    by (intro stop_control_halts_the_tree [OF tree_inv _ app [unfolded demo_apply_def], of "demo_actor ''2''" task_b, unfolded with_tasks_simps])
      (simp_all add: demo_actor_ok delivered_def tree_of_a task_finished_def)
  have tok: "token_valid demo_token 50 demo_kernel" by (simp add: token_valid_def demo_kernel_def demo_defs)
  moreover have "demo_run\<lparr>r_task_id := Some ''task_b''\<rparr> \<in> set (runs demo_kernel)" by (simp add: demo_kernel_def)
  moreover have "r_run_id (demo_run\<lparr>r_task_id := Some ''task_b''\<rparr>) = tok_RunID demo_token" by (simp add: demo_run_def demo_token_def)
  ultimately have "\<not> token_valid demo_token 50 (td_kernel (cd_store demo_stopped))"
    using halted rtranclp.rtrancl_refl by (metis run_row.select_convs(18) run_row.surjective run_row.update_convs(18) task_b_simps(1))
  with halted tok show ?thesis by simp
qed

definition demo_prepared :: "unit control_db" where
  "demo_prepared = snd (demo_apply ''1'' ControlAmend PolicyPrepareOnly (with_tasks [task_a, task_b]))"

lemma reach_control: "task_step\<^sup>*\<^sup>* (with_tasks []) (snd (demo_apply d k p (with_tasks [task_a, task_b])))"
  using reach_tree controls [OF prod.collapse [symmetric]] unfolding demo_apply_def by (rule rtranclp.rtrancl_into_rtrancl)

theorem prepare_only_binds_descendants_witness:
  "\<exists>a \<in> set (td_tasks (cd_store demo_prepared)). \<exists>r \<in> set (td_tasks (cd_store demo_prepared)).
     k_task_id a \<in> set (proper_ancestors (td_tasks (cd_store demo_prepared)) (k_task_id r)) \<and>
     k_execution_policy a = PolicyPrepareOnly \<and> k_execution_policy r = PolicyPrepareOnly"
proof -
  obtain x y where rows: "td_tasks (cd_store demo_prepared) = [x, y]" and x: "k_task_id x = ''task_a''" "k_parent_task_id x = None" "k_execution_policy x = PolicyPrepareOnly"
    and y: "k_task_id y = ''task_b''" "k_parent_task_id y = Some ''task_a''" "k_status y = ''paused''"
    using prepare_accepted by (auto simp: demo_prepared_def map_eq_Cons_conv)
  have anc: "k_task_id x \<in> set (proper_ancestors [x, y] (k_task_id y))"
    by (simp add: proper_ancestors_def parents_query_def parent_rows_def x y)
  have "task_step\<^sup>*\<^sup>* (with_tasks []) demo_prepared" unfolding demo_prepared_def by (rule reach_control)
  then have "k_execution_policy y = PolicyPrepareOnly"
    by (rule prepare_only_binds_descendants [rotated, of _ _ _ x]) (use anc x y in \<open>simp_all add: rows task_finished_def\<close>)
  with anc x show ?thesis by (simp add: rows)
qed

section \<open>Completion\<close>

definition demo_result :: TaskResult where
  "demo_result = \<lparr>rs_ResultID = [], rs_TaskID = ''task_a'', rs_TaskRevision = 1, rs_RunID = [], rs_Summary = ''m'', rs_EvidenceRefs = [''e''],
    rs_VerifiedCriteria = [''c''], rs_Verdict = ''verified'', rs_Verifier = ''owner'', rs_CreatedAt = 0\<rparr>"

definition demo_q :: result_row where
  "demo_q = \<lparr>q_result_id = ''result_q'', q_task_id = ''task_a'', q_task_revision = 1, q_run_id = None, q_summary = ''m'', q_evidence_refs = [''e''],
    q_verified_criteria = [''c''], q_verdict = ''verified'', q_verifier = ''owner'', q_created_at = 20\<rparr>"

definition with_result :: "task_row list \<Rightarrow> unit control_db" where
  "with_result rows = demo_empty\<lparr>cd_store := (cd_store demo_empty)\<lparr>td_tasks := rows, td_results := [demo_q]\<rparr>\<rparr>"

definition completed_a :: task_row where
  "completed_a = moved_task ''completed'' ''result_q'' 30 task_a"

lemma demo_verified: "ValidateVerification (scan_task task_a) demo_result = Inr ()" "ValidateVerification (scan_task task_a) (scanResult demo_q) = Inr ()"
  by (simp_all add: ValidateVerification_def scan_task_def demo_result_def scanResult_def demo_q_def validateStrings_def TrimSpace_def strip.simps space_encodings_def starts_def)

lemma demo_result_simps:
  "rs_TaskID demo_result = ''task_a''" "rs_RunID demo_result = []" "rs_TaskRevision demo_result = 1" "rs_Summary demo_result = ''m''"
  "rs_EvidenceRefs demo_result = [''e'']" "rs_VerifiedCriteria demo_result = [''c'']"
  by (simp_all add: demo_result_def)

lemma demo_owner: "owns_task (demo_actor d) ''o'' ''s''" "TokenFromContext no_token = None" "h_authority demo_hooks st i u now \<noteq> Inl e"
  "h_notify demo_hooks v ctx b f st = Inr (td_other st)"
  by (simp_all add: owns_task_def demo_actor_def no_token_def TokenFromContext_def demo_hooks_def)

lemma demo_authority: "bindE (h_authority demo_hooks st i u now) (\<lambda>_. m) = m"
  by (simp add: demo_hooks_def)

lemma verify_a:
  "SaveVerifiedResult demo_hooks (Some (demo_actor ''3'')) no_token (Some ''q'') demo_result 20 (cd_store (with_tasks [task_a, task_b])) =
     (Inr (scanResult demo_q), cd_store (with_result [task_a, task_b]))"
  by (simp add: SaveVerifiedResult_def run_tx_def save_verified_body_def demo_verified demo_actor_ok demo_owner demo_authority task_find_def demo_result_simps
    task_finished_def newID_def Let_def nullString_def insert_result_def demo_q_def [symmetric] with_tasks_def with_result_def)

lemma complete_a:
  "task_Transition demo_hooks (Some (demo_actor ''4'')) no_token ''task_a'' 1 ''completed'' ''result_q'' 30 (cd_store (with_result [task_a, task_b])) =
     (Inr (scan_task completed_a), cd_store (with_result [completed_a, task_b]))"
proof -
  have "check_completion ''completed'' ''result_q'' (scan_task task_a) (cd_store (with_result [task_a, task_b])) = Inr ()"
    using demo_verified(2) by (simp add: check_completion_def with_result_def scan_task_id) (simp add: demo_q_def)
  then show ?thesis
    by (simp add: task_Transition_def run_tx_def transition_body_def demo_owner demo_authority task_find_def ValidateTransition_def task_statuses_def
      update_returning_def set_tasks_def completed_a_def with_result_def)
qed

lemma reach_completed: "task_step\<^sup>*\<^sup>* (with_tasks []) (with_result [completed_a, task_b])"
proof -
  have upd: "(with_tasks rows)\<lparr>cd_store := cd_store (with_result rows')\<rparr> = with_result rows'"
    "(with_result rows)\<lparr>cd_store := cd_store (with_result rows')\<rparr> = with_result rows'" for rows rows'
    by (simp_all add: with_tasks_def with_result_def)
  have "task_step (with_tasks [task_a, task_b]) (with_result [task_a, task_b])" using verifies [OF verify_a] unfolding upd .
  moreover have "task_step (with_result [task_a, task_b]) (with_result [completed_a, task_b])" using moves [OF complete_a] unfolding upd .
  ultimately show ?thesis using reach_tree by (blast intro: rtranclp.rtrancl_into_rtrancl)
qed

lemma completed_a_simps [simp]: "k_task_id completed_a = ''task_a''" "k_status completed_a = ''completed''" "k_revision completed_a = 2"
  "k_criteria completed_a = [''c'']" "td_tasks (cd_store (with_result rows)) = rows" "td_results (cd_store (with_result rows)) = [demo_q]"
  by (simp_all add: completed_a_def moved_task_def with_result_def)

theorem completed_task_rests_on_verified_result_witness:
  "\<exists>q \<in> set (td_results (cd_store (with_result [completed_a, task_b]))). q_task_id q = ''task_a'' \<and> q_verdict q = ''verified'' \<and> q_task_revision q = 1"
  using completed_task_rests_on_verified_result [OF _ reach_completed, of completed_a] by simp

lemma completed_inv: "store_inv (cd_store (with_result [completed_a, task_b]))"
  by (rule tasks.inv_reach [OF _ reach_completed]) simp

theorem finished_task_is_frozen_witness:
  "\<exists>t' \<in> set (td_tasks (cd_store (snd (demo_apply ''5'' ControlStop [] (with_result [completed_a, task_b]))))).
     k_task_id t' = ''task_a'' \<and> k_status t' = ''completed'' \<and> k_revision t' = 2"
proof -
  have "task_step\<^sup>*\<^sup>* (with_result [completed_a, task_b]) (snd (demo_apply ''5'' ControlStop [] (with_result [completed_a, task_b])))"
    using controls [OF prod.collapse [symmetric]] unfolding demo_apply_def by (rule r_into_rtranclp)
  from finished_task_is_frozen [OF completed_inv this, of completed_a] show ?thesis by (auto simp: task_finished_def)
qed

theorem outdated_revision_changes_nothing_witness:
  "snd (task_Transition demo_hooks (Some (demo_actor ''6'')) no_token ''task_a'' 1 ''cancelled'' [] 50 (cd_store (with_result [completed_a, task_b]))) =
     cd_store (with_result [completed_a, task_b])"
  using outdated_revision_changes_nothing [OF completed_inv rtranclp.rtrancl_refl, of completed_a 1 "demo_control ControlStop []\<lparr>ct_ExpectedRevision := 1\<rparr>"
    demo_hooks "Some (demo_actor ''6'')" no_token "''cancelled''" "[]" 50]
  by simp

end
