(* ===== verification/ControlExamples.thy ===== *)
theory ControlExamples
  imports ControlQueue InputExamples TaskExamples
begin

text \<open>The stop of the task tree of the earlier example while a worker executes an input of the child.\<close>

definition work_row :: accepted_row where
  "work_row = claimed_by ''a'' 20 (new_row ''input-1'' 1 ''7'' ''o'' ''task_b'' ''queued'' ''accepted'' [] 10 hello hello)"

definition work_queue :: queue_db where
  "work_queue = \<lparr>qd_rows = [work_row], qd_next = 2, qd_admissions = []\<rparr>"

definition busy_tree :: "unit with_queue control_db" where
  "busy_tree = \<lparr>cd_store = \<lparr>td_kernel = demo_kernel, td_tasks = [task_a, task_b], td_results = [], td_bindings = [], td_other = (work_queue, ())\<rparr>,
    cd_events = [], cd_targets = []\<rparr>"

definition busy_ports :: "unit with_queue control_ports" where
  "busy_ports = queue_ports plain_codec 40 Some demo_ports None"

lemma busy_tree_simps [simp]:
  "td_tasks (cd_store busy_tree) = [task_a, task_b]" "td_results (cd_store busy_tree) = []" "td_kernel (cd_store busy_tree) = demo_kernel"
  "td_other (cd_store busy_tree) = (work_queue, ())" "cd_events busy_tree = []"
  by (simp_all add: busy_tree_def)

lemma work_row_simps [simp]:
  "ai_status work_row = ''running''" "ai_input_id work_row = ''input-1''" "ai_claim_id work_row = ''claim-a''" "ai_task_id work_row = Some ''task_b''"
  "ai_sequence work_row = 1" "delivery_key work_row = (''web:alice'', ''web'', ''7'')"
  by (simp_all add: work_row_def claimed_by_def claim_row_def new_row_def nullString_def hello_def delivery_key_def)

lemma work_queue_inv: "queue_inv work_queue"
  by (simp add: queue_inv_def work_queue_def is_head_def)

text \<open>The queue after the inputs were withdrawn, and after the control was recorded in it.\<close>

definition withdrawn_queue :: queue_db where
  "withdrawn_queue = work_queue\<lparr>qd_rows := [withdrawn ''owner_control'' ''control_2'' 40 work_row]\<rparr>"

lemma work_withdrawn: "InvalidateForControlTx plain_codec [''task_a'', ''task_b''] ''control_2'' 40 work_queue = (False, withdrawn_queue)"
  "ResolveAmbiguousForControlTx [''s''] ''o'' 40 withdrawn_queue = withdrawn_queue"
  by (simp_all add: InvalidateForControlTx_def work_queue_def of_task_def uncertain_input_def update_rows_def finished_def withdrawn_queue_def
      ResolveAmbiguousForControlTx_def ambiguous_def withdrawn_def)
    (simp add: work_row_def claimed_by_def claim_row_def new_row_def)

definition recorded_queue :: "control_event \<Rightarrow> queue_db" where
  "recorded_queue e = withdrawn_queue\<lparr>qd_next := 3, qd_rows := qd_rows withdrawn_queue @
     [new_row ''input-control_2'' 2 ''control_2'' ''o'' ''task_a'' ''completed'' ''owner_control_applied'' [] 40 (control_ingress e) (control_ingress e)]\<rparr>"

lemma control_recorded:
  "ce_EventID e = ''control_2'' \<Longrightarrow> AdmitControlTx plain_codec (Some ''control_2'') 40 (control_ingress e) ''o'' ''task_a'' ''completed'' ''owner_control_applied'' []
     withdrawn_queue = Inr (''input-control_2'', recorded_queue e)"
  by (simp add: AdmitControlTx_def randomID_def plain_codec_def control_ingress_def input_statuses_def withdrawn_queue_def work_queue_def
      update_rows_def ambiguous_def delivery_key_def withdrawn_def Let_def recorded_queue_def)
    (simp add: work_row_def claimed_by_def claim_row_def new_row_def hello_def)

lemma busy_stop_accepted:
  "\<exists>result cd'. ApplyWithGuard demo_hooks busy_ports (\<lambda>_. Inr ()) (Some (demo_actor ''2'')) no_token (Some ''2'') 40 (demo_control ControlStop []) busy_tree = (Inr result, cd')"
  by (simp add: busy_ports_def queue_ports_def control_defs demo_ownership work_withdrawn in_queue_def beside_queue_def with_inputs_def control_recorded
      on_store_def set_tasks_def del: ensure_ownership.simps check_session_owners.simps)

theorem control_withdraws_inputs_witness:
  "\<exists>result cd'. ApplyWithGuard demo_hooks busy_ports (\<lambda>_. Inr ()) (Some (demo_actor ''2'')) no_token (Some ''2'') 40 (demo_control ControlStop []) busy_tree = (Inr result, cd') \<and>
     (\<exists>r' \<in> set (qd_rows (queue_of (cd_store cd'))). ai_input_id r' = ''input-1'' \<and> ai_status r' = ''cancelled'') \<and>
     input_Renew (scan_input work_row) second 41 (queue_of (cd_store cd')) = Inl ErrClaimLost"
proof -
  obtain result cd' where app: "ApplyWithGuard demo_hooks busy_ports (\<lambda>_. Inr ()) (Some (demo_actor ''2'')) no_token (Some ''2'') 40 (demo_control ControlStop []) busy_tree = (Inr result, cd')"
    using busy_stop_accepted by blast
  have "queue_inv (queue_of (cd_store busy_tree))" using work_queue_inv by (simp add: queue_of_def)
  moreover have "delivered (demo_actor ''2'') (cd_events busy_tree) = None" by (simp add: delivered_def)
  moreover have "notifies_beside demo_hooks (demo_actor ''2'') no_token" by (simp add: notifies_beside_def demo_hooks_def queue_of_def)
  moreover have "interacts_by_steps (None :: (string list \<Rightarrow> string \<Rightarrow> string \<Rightarrow> unit with_queue \<Rightarrow> go_err + unit with_queue) option)" by (simp add: interacts_by_steps_def)
  moreover have "work_row \<in> set (qd_rows (queue_of (cd_store busy_tree)))" "\<not> finished work_row"
    by (simp_all add: queue_of_def work_queue_def finished_def)
  moreover have "''task_b'' \<in> set (live_tree (td_tasks (cd_store busy_tree)) (ct_TaskID (demo_control ControlStop [])))"
    by (simp add: demo_live)
  moreover have "ir_InputID (scan_input work_row) = ai_input_id work_row" by (simp add: scan_input_def)
  ultimately have "(\<exists>r' \<in> set (qd_rows (queue_of (cd_store cd'))). ai_input_id r' = ai_input_id work_row \<and> ai_status r' = ''cancelled'') \<and>
     input_Renew (scan_input work_row) second 41 (queue_of (cd_store cd')) = Inl ErrClaimLost"
    using control_withdraws_inputs [OF _ app [unfolded busy_ports_def] demo_actor_ok(1) _ _ _ _ _ work_row_simps(4) _ rtranclp.rtrancl_refl] by blast
  with app show ?thesis by auto
qed

end
