(* ===== verification/Action.thy ===== *)
theory Action
  imports Input GoJson
begin

text \<open>
  Proposed actions (\<^verbatim>\<open>internal/actionauth\<close>): the binding of an action, the credential references found
  in its arguments, the class of its effect, the restriction of a task to preparation, the identity
  an effect keeps across runs, and the proofs of a runtime that an effect did not happen. Digests and
  the JSON text of a binding are arguments. Documents of other packages inside a binding or a policy
  (pages, scopes of federated logins) are kept as JSON values: nothing here looks into them.
\<close>

section \<open>Data\<close>

definition EffectRead :: string where "EffectRead = ''read''"
definition EffectPrepare :: string where "EffectPrepare = ''prepare''"
definition EffectCommit :: string where "EffectCommit = ''commit''"
definition EffectUnknown :: string where "EffectUnknown = ''unknown''"

lemmas effect_classes = EffectRead_def EffectPrepare_def EffectCommit_def EffectUnknown_def

record CredentialRef =
  cr_Alias :: string
  cr_Field :: string

record DataRef =
  dr_ID :: string
  dr_Revision :: int
  dr_AccessRevision :: int
  dr_Hash :: string

record ActionBinding =
  ab_BrowserSSOInspection :: "json option"
  ab_ExternalAuth :: "json option"
  ab_BrowserSSO :: "json option"
  ab_BrowserPage :: "json option"
  ab_BrowserScopeURL :: string
  ab_BrowserScopeEpoch :: int
  ab_OwnerCommunication :: bool
  ab_CommunicationDestinationsHash :: string
  ab_ActionID :: string
  ab_ActionHash :: string
  ab_RunID :: string
  ab_ToolCallID :: string
  ab_ToolName :: string
  ab_ContractHash :: string
  ab_ContractRevision :: string
  ab_ArgsHash :: string
  ab_Resource :: string
  ab_CredentialRefs :: "CredentialRef list"
  ab_CredentialMetadataHash :: string
  ab_TaskID :: string
  ab_TaskRevision :: int
  ab_ConstraintsRevision :: int
  ab_OwnerID :: string
  ab_Effect :: string
  ab_GoalID :: string
  ab_GoalRevision :: int
  ab_MandateID :: string
  ab_MandateRevision :: int
  ab_Purpose :: string
  ab_OwnerPolicyRevision :: int
  ab_ExtensionID :: string
  ab_ExtensionManifestHash :: string
  ab_ExtensionGeneration :: int
  ab_ExtensionAccessRevision :: int
  ab_ExtensionAccessExpiresAt :: "instant option"
  ab_ConverterID :: string
  ab_ConverterPackageHash :: string
  ab_ConverterNeedHash :: string
  ab_ConverterGeneration :: int
  ab_DataSources :: "DataRef list"

record LocalPreparationBinding =
  lb_SessionID :: string
  lb_ExpectedURL :: string
  lb_ObservationVersion :: nat

record EffectPolicy =
  ep_SSO :: "json option"
  ep_Login :: "json option"
  ep_RetrySafety :: string
  ep_VerificationMethod :: string
  ep_IdempotencyHeader :: string
  ep_ScopeOrigin :: string
  ep_VerificationURL :: string
  ep_LocalPreparation :: "LocalPreparationBinding option"

record EffectEvidence =
  ee_SSO :: "json option"
  ee_Login :: "json option"
  ee_EvidenceID :: string
  ee_ActionID :: string
  ee_SourceActionID :: string
  ee_SourceToolCallID :: string
  ee_SourceRunID :: string
  ee_Source :: string
  ee_Method :: string
  ee_Verdict :: string
  ee_ResultDigest :: string
  ee_ArtifactDigest :: string
  ee_NormalizedResultDigest :: string
  ee_ErrorCategory :: string
  ee_ObservedAt :: instant
  ee_RecordedAt :: instant

record Grant =
  gr_InputClaimHash :: string
  gr_ID :: string
  gr_Binding :: ActionBinding
  gr_ApprovalID :: string
  gr_MandateID :: string
  gr_MandateRevision :: int
  gr_LeaseID :: string
  gr_LeaseEpoch :: int
  gr_AutonomyMode :: int
  gr_ExpiresAt :: instant
  gr_State :: string

record Intent =
  it_Binding :: ActionBinding
  it_RequiresApproval :: bool
  it_ExpiresAt :: instant
  it_EffectID :: string
  it_EffectFingerprint :: string
  it_EffectPolicy :: EffectPolicy

section \<open>Credential references\<close>

text \<open>The walk through decoded arguments; a member that is not a string reads as the empty string.\<close>

definition string_member :: "string \<Rightarrow> (string \<times> json) list \<Rightarrow> string" where
  "string_member k kv = (case map_of kv k of Some (JStr s) \<Rightarrow> s | _ \<Rightarrow> [])"

fun walk_refs :: "json \<Rightarrow> go_err + CredentialRef list"
and walk_values :: "json list \<Rightarrow> go_err + CredentialRef list"
and walk_members :: "(string \<times> json) list \<Rightarrow> go_err + CredentialRef list" where
  "walk_refs (JObj kv) =
     (if map_of kv ''type'' = Some (JStr ''credential_ref'')
      then if string_member ''alias'' kv = [] \<or> string_member ''field'' kv = []
        then Inl (Errorf ''credential reference requires alias and field'')
        else Inr [\<lparr>cr_Alias = string_member ''alias'' kv, cr_Field = string_member ''field'' kv\<rparr>]
      else walk_members kv)"
| "walk_refs (JArr vs) = walk_values vs"
| "walk_refs v = Inr []"
| "walk_values [] = Inr []"
| "walk_values (v # vs) = bindE (walk_refs v) (\<lambda>rs. bindE (walk_values vs) (\<lambda>rs'. Inr (rs @ rs')))"
| "walk_members [] = Inr []"
| "walk_members ((k, v) # kv) = bindE (walk_refs v) (\<lambda>rs. bindE (walk_members kv) (\<lambda>rs'. Inr (rs @ rs')))"

fun drop_repeated :: "CredentialRef list \<Rightarrow> CredentialRef list" where
  "drop_repeated [] = []"
| "drop_repeated [r] = [r]"
| "drop_repeated (r # s # rs) = (if r = s then drop_repeated (s # rs) else r # drop_repeated (s # rs))"

definition normalizeRefs :: "CredentialRef list \<Rightarrow> CredentialRef list" where
  "normalizeRefs refs = drop_repeated (sort_key cr_Alias (sort_key cr_Field refs))"

definition argumentRefs :: "json \<Rightarrow> go_err + CredentialRef list" where
  "argumentRefs v = map_sum id normalizeRefs (walk_refs v)"

section \<open>Classes of effects\<close>

text \<open>
  \<^verbatim>\<open>strings.ToUpper\<close>, for comparison with ASCII text: of the other code points exactly U+0131 and
  U+017F have an upper case in ASCII, so the rest is kept as it is.
\<close>

fun ToUpper :: "string \<Rightarrow> string" where
  "ToUpper [] = []"
| "ToUpper (c # d # cs) =
     (if c = CHR 0xC4 \<and> d = CHR 0xB1 then CHR ''I'' # ToUpper cs
      else if c = CHR 0xC5 \<and> d = CHR 0xBF then CHR ''S'' # ToUpper cs
      else (if CHR ''a'' \<le> c \<and> c \<le> CHR ''z'' then char_of (of_char c - (32 :: nat)) else c) # ToUpper (d # cs))"
| "ToUpper [c] = [if CHR ''a'' \<le> c \<and> c \<le> CHR ''z'' then char_of (of_char c - (32 :: nat)) else c]"

definition read_tools :: "string list" where
  "read_tools =
     [''browser.open_pages'', ''browser.pages'', ''browser.page_snapshot'', ''browser.page_freeze_snapshot'', ''browser.sso_inspect'',
      ''tools.search'', ''tools.load'', ''workspace.read'', ''memory.search'', ''memory.open'', ''memory.neighbors'', ''memory.facts'',
      ''messages.search'', ''messages.inbox'', ''browser.submit_get_form'', ''browser.follow_link'',
      ''schedule.list'', ''schedule.get'', ''credentials.search'', ''credentials.request_status'',
      ''browser.freeze_snapshot'', ''converters.discover'', ''converters.collect'', ''skills.search'', ''skills.load'', ''browser.read'',
      ''browser.open'', ''browser.navigate'', ''browser.snapshot'', ''browser.extract_text'', ''browser.wait_for'', ''browser.close'',
      ''single_tab.status'', ''single_tab.capture_visible'', ''single_tab.extract_text'', ''doctor.check_system'',
      ''doctor.check_container'', ''doctor.check_database'', ''doctor.check_provider'', ''web.search'', ''web.fetch'',
      ''web.fetch_batch'', ''web.extract'', ''http.download'', ''http.parse_html'']"

definition prepare_tools :: "string list" where
  "prepare_tools =
     [''communication.message'', ''communication.photo'', ''communication.report'', ''communication.widget'', ''schedule.create'',
      ''schedule.update'', ''schedule.cancel'', ''credentials.request_access'', ''credentials.request_create'',
      ''credentials.request_otp'', ''credentials.request_login'', ''credentials.request_sso_login'',
      ''credentials.request_external_login'', ''workspace.create'', ''workspace.write'', ''messages.process'',
      ''memory.propose_candidate'', ''single_tab.bind.guarded'', ''task.delegate'', ''task.delegate_converter'',
      ''converters.develop'', ''converters.test'', ''converters.trial'', ''converters.activate'', ''converters.rollback'',
      ''skills.propose'', ''browser.prepare_fill'', ''browser.prepare_type'', ''single_tab.bind'', ''browser.set_cookie'',
      ''browser.restore_storage_state'', ''doctor.generate_report'']"

definition commit_tools :: "string list" where
  "commit_tools = [''browser.login'', ''browser.sso_login'']"

definition http_effect :: "string \<Rightarrow> string" where
  "http_effect verb =
     (let up = ToUpper verb
      in if up = [] \<or> up = ''GET'' \<or> up = ''HEAD'' \<or> up = ''OPTIONS'' then EffectRead
         else if up = ''POST'' \<or> up = ''PUT'' \<or> up = ''PATCH'' \<or> up = ''DELETE'' then EffectCommit
         else EffectUnknown)"

definition classifyEffect :: "string \<Rightarrow> (string \<times> json) list \<Rightarrow> string" where
  "classifyEffect tool args =
     (if tool \<in> set commit_tools then EffectCommit
      else if tool = ''http.request'' then http_effect (string_member ''method'' args)
      else if tool \<in> set read_tools then EffectRead
      else if tool \<in> set prepare_tools then EffectPrepare
      else EffectUnknown)"

text \<open>A contract may carry a converter or an extension with its declared effect.\<close>

definition CatalogEffect :: "bool \<Rightarrow> string option \<Rightarrow> string \<Rightarrow> string" where
  "CatalogEffect converter extension tool =
     (if converter then EffectPrepare
      else case extension of Some eff \<Rightarrow> eff | None \<Rightarrow> classifyEffect tool [])"

definition CheckExecutionPolicy :: "string \<Rightarrow> string \<Rightarrow> go_err + unit" where
  "CheckExecutionPolicy policy eff =
     (if policy = [] \<or> policy = ''normal'' then Inr ()
      else if policy = ''prepare_only''
      then failif (eff \<noteq> EffectRead) (Errorf ''task permits preparation only; external or unknown effects are denied'')
      else Inl (Errorf ''unsupported trusted task execution policy''))"

section \<open>Identities\<close>

definition InputClaimHash :: "(string \<Rightarrow> string) \<Rightarrow> string \<Rightarrow> string \<Rightarrow> string" where
  "InputClaimHash dig inputID claimID =
     (if inputID = [] \<or> claimID = [] \<or> 512 < length inputID \<or> 512 < length claimID
         \<or> CHR 0x00 \<in> set inputID \<or> CHR 0x00 \<in> set claimID then []
      else dig (''butler-guarded-input-claim-v1'' @ [CHR 0x00] @ inputID @ [CHR 0x00] @ claimID))"

definition StableActionID :: "(string \<Rightarrow> string) \<Rightarrow> string \<Rightarrow> string \<Rightarrow> string" where
  "StableActionID dig runID callID = ''action_'' @ dig (runID @ [CHR 0x00] @ callID)"

text \<open>What identifies an effect across runs: the binding without the identity of the execution.\<close>

definition without_execution :: "ActionBinding \<Rightarrow> ActionBinding" where
  "without_execution b = b\<lparr>ab_ActionID := [], ab_ActionHash := [], ab_RunID := [], ab_ToolCallID := []\<rparr>"

definition EffectIdentity ::
  "(string \<Rightarrow> string) \<Rightarrow> (ActionBinding \<Rightarrow> go_err + string) \<Rightarrow> ActionBinding \<Rightarrow> string \<Rightarrow> go_err + string \<times> string" where
  "EffectIdentity dig enc b logicalRef =
     bindE (enc (without_execution b)) (\<lambda>encoded.
       if logicalRef = [] then Inr (ab_ActionID b, dig encoded)
       else if 160 < length logicalRef \<or> TrimSpace logicalRef \<noteq> logicalRef
            \<or> (\<exists>c \<in> set logicalRef. c \<in> {CHR 0x00, CHR 0x0D, CHR 0x0A})
       then Inl (Errorf ''logical action reference requires a trusted task checkpoint'')
       else if ab_TaskID b = [] then Inr (ab_ActionID b, dig encoded)
       else Inr (''effect_'' @ dig (ab_OwnerID b @ [CHR 0x00] @ ab_TaskID b @ [CHR 0x00] @ logicalRef), dig encoded))"

section \<open>Proofs that nothing happened\<close>

definition BrowserGETVerification :: string where
  "BrowserGETVerification = ''guarded_browser_get_v1''"

definition browserReadContract :: "ActionBinding \<Rightarrow> bool" where
  "browserReadContract b \<longleftrightarrow>
     ab_ContractRevision b = ''2'' \<and> (ab_ToolName b = ''browser.submit_get_form'' \<or> ab_ToolName b = ''browser.follow_link'')
     \<or> ab_ContractRevision b = ''4'' \<and> ab_ToolName b = ''browser.navigate''"

definition browserReadReason :: "ActionBinding \<Rightarrow> string \<Rightarrow> bool" where
  "browserReadReason b reason =
     (if reason \<in> {''page_changed'', ''stale_observation'', ''invalid_args''} then True
      else if reason \<in> {''get_form_denied'', ''invalid_selector''} then ab_ContractRevision b = ''2''
      else if reason \<in> {''session_lost'', ''network_frozen''}
      then ab_ToolName b = ''browser.navigate'' \<and> ab_ContractRevision b = ''4''
      else False)"

text \<open>A marshalled Go map lists its keys in ascending order.\<close>

definition browserReadRejectionDigest :: "(string \<Rightarrow> string) \<Rightarrow> string \<Rightarrow> string" where
  "browserReadRejectionDigest dig reason =
     dig (json_Marshal (JObj [(''navigation_dispatched'', JBool False), (''read_rejection'', JStr ''pre_navigation_v1''),
                              (''reason'', JStr reason)]))"

definition browserReadAbsenceEvidence ::
  "(string \<Rightarrow> string) \<Rightarrow> ActionBinding \<Rightarrow> EffectPolicy \<Rightarrow> string \<Rightarrow> EffectEvidence \<Rightarrow> bool" where
  "browserReadAbsenceEvidence dig b p outc e =
     (if ab_Effect b \<noteq> EffectRead \<or> \<not> browserReadContract b \<or> ab_CredentialRefs b \<noteq> [] \<or> ep_RetrySafety p \<noteq> ''read_only''
         \<or> ep_VerificationMethod p \<noteq> BrowserGETVerification \<or> outc \<noteq> ''dispatch_completed'' \<or> ee_ArtifactDigest e \<noteq> [] then False
      else if ab_ToolName b = ''browser.navigate''
         \<and> (ep_IdempotencyHeader p \<noteq> [] \<or> ep_ScopeOrigin p \<noteq> [] \<or> ep_VerificationURL p \<noteq> []) then False
      else \<exists>reason \<in> set [''page_changed'', ''stale_observation'', ''get_form_denied'', ''invalid_args'', ''invalid_selector'',
                           ''session_lost'', ''network_frozen''].
             browserReadReason b reason \<and> ee_ResultDigest e = browserReadRejectionDigest dig reason)"

definition preparationRejectionDigest :: "(string \<Rightarrow> string) \<Rightarrow> string \<Rightarrow> string" where
  "preparationRejectionDigest dig reason =
     dig (json_Marshal (JObj [(''input_dispatched'', JBool False), (''preparation_rejection'', JStr ''pre_input_v1''),
                              (''reason'', JStr reason)]))"

definition preparationAbsenceEvidence ::
  "(string \<Rightarrow> string) \<Rightarrow> ActionBinding \<Rightarrow> EffectPolicy \<Rightarrow> string \<Rightarrow> EffectEvidence \<Rightarrow> bool" where
  "preparationAbsenceEvidence dig b p outc e =
     (case ep_LocalPreparation p of
        None \<Rightarrow> False
      | Some pin \<Rightarrow>
          if ab_Effect b \<noteq> EffectPrepare \<or> (ab_ContractRevision b \<noteq> ''3'' \<and> ab_ContractRevision b \<noteq> ''4'')
             \<or> (ab_ToolName b \<noteq> ''browser.prepare_fill'' \<and> ab_ToolName b \<noteq> ''browser.prepare_type'')
             \<or> lb_SessionID pin = [] \<or> lb_ObservationVersion pin = 0
             \<or> ab_Resource b \<noteq> ''browser:'' @ lb_SessionID pin @ '':'' @ lb_ExpectedURL pin
             \<or> ep_RetrySafety p \<noteq> ''unsafe'' \<or> ep_VerificationMethod p \<noteq> ''local_browser_preparation_v1''
             \<or> ep_IdempotencyHeader p \<noteq> [] \<or> ep_ScopeOrigin p \<noteq> [] \<or> ep_VerificationURL p \<noteq> []
             \<or> outc \<noteq> ''dispatch_completed'' \<or> ee_ArtifactDigest e \<noteq> [] then False
          else (\<exists>reason \<in> set [''page_changed'', ''stale_observation'', ''invalid_args'', ''invalid_selector''].
                  ee_ResultDigest e = preparationRejectionDigest dig reason)
               \<or> ab_ContractRevision b = ''4'' \<and> ee_ResultDigest e = preparationRejectionDigest dig ''session_lost'')"

section \<open>Properties\<close>

text \<open>The order in which references are listed.\<close>

definition ref_less :: "CredentialRef \<Rightarrow> CredentialRef \<Rightarrow> bool" where
  "ref_less r s \<longleftrightarrow> cr_Alias r < cr_Alias s \<or> cr_Alias r = cr_Alias s \<and> cr_Field r < cr_Field s"

definition ref_le :: "CredentialRef \<Rightarrow> CredentialRef \<Rightarrow> bool" where
  "ref_le r s \<longleftrightarrow> r = s \<or> ref_less r s"

lemma ref_le_iff: "ref_le r s \<longleftrightarrow> cr_Alias r < cr_Alias s \<or> cr_Alias r = cr_Alias s \<and> cr_Field r \<le> cr_Field s"
  by (cases r; cases s) (auto simp: ref_le_def ref_less_def)

lemma ref_less_irrefl [simp]: "\<not> ref_less r r"
  by (simp add: ref_less_def)

lemma ref_less_trans: "ref_less r s \<Longrightarrow> ref_less s t \<Longrightarrow> ref_less r t"
  by (auto simp: ref_less_def)

lemma ref_le_less_trans: "ref_le r s \<Longrightarrow> ref_less s t \<Longrightarrow> ref_less r t"
  by (auto simp: ref_le_def intro: ref_less_trans)

lemma insort_ref_le:
  assumes "sorted_wrt ref_le ys" and "\<And>y. y \<in> set ys \<Longrightarrow> cr_Field x \<le> cr_Field y"
  shows "sorted_wrt ref_le (insort_key cr_Alias x ys)"
  using assms
proof (induction ys)
  case Nil
  then show ?case by simp
next
  case (Cons y ys)
  show ?case
  proof (cases "cr_Alias x \<le> cr_Alias y")
    case True
    then have xy: "ref_le x y" using Cons.prems(2) [of y] by (auto simp: ref_le_iff)
    have "ref_le x z" if "z \<in> set ys" for z
      using that xy Cons.prems by (auto simp: ref_le_iff)
    with True xy Cons.prems show ?thesis by simp
  next
    case False
    then have "ref_le y x" by (auto simp: ref_le_iff)
    with False Cons show ?thesis by (simp add: set_insort_key)
  qed
qed

lemma sorted_refs: "sorted_wrt ref_le (sort_key cr_Alias (sort_key cr_Field refs))"
proof -
  have "sorted_wrt ref_le (sort_key cr_Alias xs)" if "sorted (map cr_Field xs)" for xs
    using that
  proof (induction xs)
    case (Cons x xs)
    then show ?case by (auto intro: insort_ref_le)
  qed simp
  then show ?thesis by simp
qed

lemma set_drop_repeated [simp]: "set (drop_repeated rs) = set rs"
  by (induction rs rule: drop_repeated.induct) auto

lemma drop_repeated_strict: "sorted_wrt ref_le rs \<Longrightarrow> sorted_wrt ref_less (drop_repeated rs)"
proof (induction rs rule: drop_repeated.induct)
  case (3 r s rs)
  then show ?case by (auto simp: ref_le_def intro: ref_less_trans)
qed simp_all

lemma set_normalizeRefs [simp]: "set (normalizeRefs refs) = set refs"
  by (simp add: normalizeRefs_def)

lemma normalizeRefs_strict: "sorted_wrt ref_less (normalizeRefs refs)"
  by (simp add: normalizeRefs_def drop_repeated_strict sorted_refs)

lemma strict_refs_eq: "sorted_wrt ref_less xs \<Longrightarrow> sorted_wrt ref_less ys \<Longrightarrow> set xs = set ys \<Longrightarrow> xs = ys"
proof (induction xs arbitrary: ys)
  case Nil
  then show ?case by simp
next
  case (Cons x xs)
  then obtain y ys' where ys: "ys = y # ys'" by (cases ys) auto
  have "x = y"
    using Cons.prems ref_less_trans ref_less_irrefl unfolding ys by (metis insert_iff list.set(2) sorted_wrt.simps(2))
  moreover have "x \<notin> set xs" and "y \<notin> set ys'"
    using Cons.prems(1,2) by (auto simp: ys)
  ultimately have "set xs = set ys'" using Cons.prems(3) by (auto simp: ys)
  with Cons \<open>x = y\<close> show ?case by (simp add: ys)
qed

text \<open>The list of credential references an action is bound to is canonical: two collections of
  references have the same list exactly when they have the same elements, whatever the order in which
  a map was walked and however often a reference occurs.\<close>

theorem credential_refs_are_canonical: "normalizeRefs xs = normalizeRefs ys \<longleftrightarrow> set xs = set ys"
  using strict_refs_eq [OF normalizeRefs_strict normalizeRefs_strict] set_normalizeRefs by metis

end
