(* ===== verification/GoUrl.thy ===== *)
theory GoUrl
  imports GoTime
begin

text \<open>
  What the policies use of \<^verbatim>\<open>net/url\<close>, \<^verbatim>\<open>strings\<close> and \<^verbatim>\<open>path\<close>. A parsed URL is a record of the parts the
  sources read; the parser itself (\<^verbatim>\<open>url.Parse\<close>) is an argument of the definitions that call it, so the
  results hold for the parser of every release of the library. \<open>u_EscapedPath\<close> is the result of the method
  of that name.
\<close>

record URL =
  u_Scheme :: string
  u_Opaque :: string
  u_User :: bool
  u_Host :: string
  u_Path :: string
  u_EscapedPath :: string
  u_RawQuery :: string
  u_Fragment :: string

section \<open>Strings\<close>

definition TrimPrefix :: "string \<Rightarrow> string \<Rightarrow> string" where
  "TrimPrefix s p = (if HasPrefix s p then drop (length p) s else s)"

definition TrimSuffix :: "string \<Rightarrow> string \<Rightarrow> string" where
  "TrimSuffix s p = (if HasSuffix s p then take (length s - length p) s else s)"

definition ContainsAny :: "string \<Rightarrow> string \<Rightarrow> bool" where
  "ContainsAny s chars \<longleftrightarrow> (\<exists>c \<in> set s. c \<in> set chars)"

text \<open>The text from the first occurrence of \<open>sub\<close> on, as \<^verbatim>\<open>strings.Index\<close> and a slice give it.\<close>

fun from_first :: "string \<Rightarrow> string \<Rightarrow> string option" where
  "from_first sub [] = (if sub = [] then Some [] else None)"
| "from_first sub (c # cs) = (if HasPrefix (c # cs) sub then Some (c # cs) else from_first sub cs)"

section \<open>Hosts and ports\<close>

definition split_last :: "char \<Rightarrow> string \<Rightarrow> (string \<times> string) option" where
  "split_last c s =
     (if c \<in> set s then Some (rev (tl (dropWhile (\<lambda>d. d \<noteq> c) (rev s))), rev (takeWhile (\<lambda>d. d \<noteq> c) (rev s))) else None)"

definition decimal :: "string \<Rightarrow> bool" where
  "decimal s \<longleftrightarrow> list_all isDigit s"

definition splitHostPort :: "string \<Rightarrow> string \<times> string" where
  "splitHostPort hostPort =
     (let (host, port) = (case split_last CHR '':'' hostPort of
            Some (h, p) \<Rightarrow> if decimal p then (h, p) else (hostPort, [])
          | None \<Rightarrow> (hostPort, []))
      in (if HasPrefix host ''['' \<and> HasSuffix host '']'' then butlast (tl host) else host, port))"

definition Hostname :: "URL \<Rightarrow> string" where
  "Hostname u = fst (splitHostPort (u_Host u))"

definition Port :: "URL \<Rightarrow> string" where
  "Port u = snd (splitHostPort (u_Host u))"

section \<open>Paths\<close>

text \<open>
  \<^verbatim>\<open>path.Clean\<close>: \<open>out\<close> is the buffer, reversed, \<open>dotdot\<close> the length below which \<^verbatim>\<open>..\<close> removes nothing, and
  the last argument what is left of the path.
\<close>

fun drop_element :: "nat \<Rightarrow> string \<Rightarrow> string" where
  "drop_element dotdot [] = []"
| "drop_element dotdot (c # out) = (if dotdot < length out \<and> c \<noteq> CHR ''/'' then drop_element dotdot out else out)"

function clean_loop :: "bool \<Rightarrow> nat \<Rightarrow> string \<Rightarrow> string \<Rightarrow> string" where
  "clean_loop rooted dotdot out [] = out"
| "clean_loop rooted dotdot out (c # rest) =
     (if c = CHR ''/'' then clean_loop rooted dotdot out rest
      else if c = CHR ''.'' \<and> (rest = [] \<or> hd rest = CHR ''/'') then clean_loop rooted dotdot out rest
      else if c = CHR ''.'' \<and> HasPrefix rest ''.'' \<and> (tl rest = [] \<or> hd (tl rest) = CHR ''/'')
      then if dotdot < length out then clean_loop rooted dotdot (drop_element dotdot out) (tl rest)
           else if \<not> rooted
           then let out = ''..'' @ (if out \<noteq> [] then CHR ''/'' # out else out)
                in clean_loop rooted (length out) out (tl rest)
           else clean_loop rooted dotdot out (tl rest)
      else let out = (if rooted \<and> length out \<noteq> 1 \<or> \<not> rooted \<and> out \<noteq> [] then CHR ''/'' # out else out);
               name = takeWhile (\<lambda>d. d \<noteq> CHR ''/'') (c # rest)
           in clean_loop rooted dotdot (rev name @ out) (drop (length name) (c # rest)))"
  by pat_completeness auto
termination
  by (relation "measure (\<lambda>(rooted, dotdot, out, rest). length rest)") auto

declare clean_loop.simps(2) [simp del]

definition Clean :: "string \<Rightarrow> string" where
  "Clean p =
     (if p = [] then ''.''
      else let rooted = (hd p = CHR ''/'');
               out = (if rooted then clean_loop True 1 ''/'' (tl p) else clean_loop False 0 [] p)
           in if out = [] then ''.'' else rev out)"

end
