(* ===== verification/Mandate.thy ===== *)
theory Mandate
  imports Action GoUrl Scheduling
begin

text \<open>
  Mandates of the owner (\<^verbatim>\<open>internal/actionauth\<close>: \<^verbatim>\<open>mandate.go\<close>, \<^verbatim>\<open>owner_authority.go\<close>, \<^verbatim>\<open>owner_deadline.go\<close>,
  \<^verbatim>\<open>browser_scope.go\<close>, \<^verbatim>\<open>owner_reply.go\<close>, \<^verbatim>\<open>schedules.go\<close>, \<^verbatim>\<open>tool_catalog.go\<close>, \<^verbatim>\<open>release.go\<close>,
  \<^verbatim>\<open>converter_authority.go\<close>, \<^verbatim>\<open>credential_control.go\<close>): what a mandate is, when it is well formed, how long it is
  in force, and which actions it covers. \<open>auth_lib\<close> holds what the code takes from elsewhere: the parser of URLs,
  the case tables, the time zones, the targets of the scoped login documents (\<open>None\<close> for an invalid document) and
  of a page, and the digests of the contracts that the catalog, schedule, credential and communication packages
  publish for a tool.
\<close>

section \<open>Data\<close>

definition ErrOwnerAuthority :: go_err where
  "ErrOwnerAuthority = Sentinel ''owner goal or mandate authority unavailable, stale or outside scope''"

record auth_lib =
  al_url :: "string \<Rightarrow> URL option"
  al_lower :: "string \<Rightarrow> string"
  al_tz :: "string \<Rightarrow> location option"
  al_inspection :: "json \<Rightarrow> string list option"
  al_external :: "json \<Rightarrow> string list option"
  al_sso :: "json \<Rightarrow> string list option"
  al_page_url :: "json \<Rightarrow> string"
  al_catalog :: "string \<Rightarrow> string option"
  al_schedule :: "string \<Rightarrow> string option"
  al_credential :: "string \<Rightarrow> string option"
  al_message :: "string \<Rightarrow> string option"

record ResourceScope =
  rs_Origin :: string
  rs_PathPrefix :: string

record ActiveHours =
  ah_Timezone :: string
  ah_StartMinute :: int
  ah_EndMinute :: int
  ah_Weekdays :: "int list"

record MandateBudget =
  mb_ModelTurns :: int
  mb_Tokens :: int
  mb_CostMicros :: int
  mb_ExternalCalls :: int
  mb_Children :: int
  mb_ActiveMillis :: int
  mb_EgressBytes :: int
  mb_ProviderInputBytes :: int

record ExtensionPermission =
  xp_Source :: string
  xp_ExtensionID :: string
  xp_ManifestHash :: string
  xp_Tools :: "string list"

record ConverterPermission =
  cp_ConverterID :: string
  cp_Class :: string
  cp_InputSchemaHash :: string
  cp_OutputSchemaHash :: string
  cp_RuntimePin :: string
  cp_InputBytes :: int
  cp_OutputBytes :: int
  cp_Rows :: int
  cp_FieldBytes :: int
  cp_Millis :: int
  cp_Trials :: int

record Mandate =
  m_ScopeKind :: string
  m_GoalID :: string
  m_GoalRevision :: int
  m_Status :: string
  m_Purpose :: string
  m_ResourceScopes :: "ResourceScope list"
  m_DenyTools :: "string list"
  m_DenyResources :: "ResourceScope list"
  m_Privacy :: string
  m_Budget :: MandateBudget
  m_BudgetDeadline :: instant
  m_Hours :: "ActiveHours option"
  m_AllowInitiative :: bool
  m_Intervention :: "string list"
  m_Reporting :: string
  m_Extensions :: "ExtensionPermission list"
  m_Converters :: "ConverterPermission list"
  m_Source :: "(string \<times> string) list"
  m_ID :: string
  m_OwnerID :: string
  m_TaskID :: string
  m_TaskRevision :: int
  m_ConstraintsRevision :: int
  m_Revision :: int
  m_Tools :: "string list"
  m_Resources :: "string list"
  m_Effects :: "string list"
  m_CredentialRefs :: "CredentialRef list"
  m_ExpiresAt :: instant
  m_RevokedAt :: "instant option"

text \<open>A goal of the owner, and with it the preferences and constraints of its purpose.\<close>

record GoalEntry =
  gp_ID :: string
  gp_OwnerID :: string
  gp_Kind :: string
  gp_Status :: string
  gp_Revision :: int
  gp_Title :: string
  gp_Purpose :: string
  gp_Constraints :: "string list"
  gp_ExpiresAt :: instant

record GoalPolicy = GoalEntry +
  gp_Policies :: "GoalEntry list"

section \<open>Active hours\<close>

definition local_minute :: "location \<Rightarrow> instant \<Rightarrow> int" where
  "local_minute loc t = in_loc loc t mod day div minute"

definition withinHours :: "ActiveHours \<Rightarrow> location \<Rightarrow> instant \<Rightarrow> bool" where
  "withinHours h loc at =
     (let mi = local_minute loc at
      in if weekday (in_loc loc at div day) \<notin> set (ah_Weekdays h) then False
         else if ah_StartMinute h < ah_EndMinute h then ah_StartMinute h \<le> mi \<and> mi < ah_EndMinute h
         else if ah_EndMinute h < ah_StartMinute h then ah_StartMinute h \<le> mi \<or> mi < ah_EndMinute h
         else False)"

definition WithinActiveHours :: "auth_lib \<Rightarrow> ActiveHours option \<Rightarrow> instant \<Rightarrow> bool" where
  "WithinActiveHours L h at =
     (case h of None \<Rightarrow> True
      | Some h \<Rightarrow> (case al_tz L (ah_Timezone h) of None \<Rightarrow> False | Some loc \<Rightarrow> withinHours h loc at))"

text \<open>The walk over the minutes after an instant, to the first one outside the hours.\<close>

fun hours_end :: "(instant \<Rightarrow> bool) \<Rightarrow> nat \<Rightarrow> instant \<Rightarrow> instant option" where
  "hours_end within 0 boundary = None"
| "hours_end within (Suc n) boundary =
     (if \<not> within boundary then Some boundary else hours_end within n (boundary + minute))"

fun earliest :: "instant \<Rightarrow> instant list \<Rightarrow> go_err + instant" where
  "earliest deadline [] = Inr deadline"
| "earliest deadline (t # ts) =
     bindE (failif (t = 0) ErrOwnerAuthority) (\<lambda>_. earliest (if t < deadline then t else deadline) ts)"

definition AuthorityDeadline :: "auth_lib \<Rightarrow> Mandate \<Rightarrow> GoalPolicy \<Rightarrow> instant \<Rightarrow> go_err + instant" where
  "AuthorityDeadline L m g at =
     bindE (earliest (m_ExpiresAt m) (m_BudgetDeadline m # gp_ExpiresAt g # map gp_ExpiresAt (gp_Policies g))) (\<lambda>deadline.
     bindE (case m_Hours m of
              None \<Rightarrow> Inr deadline
            | Some h \<Rightarrow>
                bindE (need (al_tz L (ah_Timezone h)) ErrOwnerAuthority) (\<lambda>loc.
                bindE (failif (\<not> withinHours h loc at) ErrOwnerAuthority) (\<lambda>_.
                bindE (need (hours_end (withinHours h loc) (48 * 60) (at - at mod minute + minute)) ErrOwnerAuthority) (\<lambda>boundary.
                Inr (if boundary < deadline then boundary else deadline))))) (\<lambda>deadline.
     bindE (failif (deadline = 0 \<or> deadline \<le> at) ErrOwnerAuthority) (\<lambda>_.
     Inr deadline)))"

section \<open>Scopes of resources\<close>

definition name_chars :: string where
  "name_chars = [CHR ''*'', CHR ''?'', CHR ''/'', CHR 0x5C, CHR '':'', CHR ''#'', CHR '' '', CHR 0x09, CHR 0x0D, CHR 0x0A]"

definition validResourceScope :: "auth_lib \<Rightarrow> ResourceScope \<Rightarrow> bool" where
  "validResourceScope L s =
     (if HasPrefix (rs_Origin s) ''tool:''
      then let name = TrimPrefix (rs_Origin s) ''tool:''
           in rs_PathPrefix s = [] \<and> name \<noteq> [] \<and> contains name ''.'' \<and> \<not> ContainsAny name name_chars
      else case al_url L (rs_Origin s) of
        None \<Rightarrow> False
      | Some u \<Rightarrow>
          if u_User u \<or> u_Scheme u \<noteq> ''http'' \<and> u_Scheme u \<noteq> ''https'' \<or> u_Host u = [] \<or> u_Path u \<noteq> [] \<or> u_RawQuery u \<noteq> []
             \<or> u_Fragment u \<noteq> [] \<or> ContainsAny (u_Host u) ''*? '' then False
          else HasPrefix (rs_PathPrefix s) ''/'' \<and> Clean (rs_PathPrefix s) = TrimSuffix (rs_PathPrefix s) ''/''
               \<and> \<not> ContainsAny (rs_PathPrefix s) [CHR ''%'', CHR ''?'', CHR 0x5C, CHR ''#'']
               \<or> rs_PathPrefix s = ''/'')"

text \<open>The resource of a page or a tab names its context first.\<close>

definition without_context :: "string \<Rightarrow> string" where
  "without_context raw =
     (if HasPrefix raw ''browser:'' \<or> HasPrefix raw ''single_tab:''
      then (case from_first ''http'' raw of None \<Rightarrow> raw | Some r \<Rightarrow> r) else raw)"

definition ambiguous_path :: "auth_lib \<Rightarrow> URL \<Rightarrow> string \<Rightarrow> bool" where
  "ambiguous_path L u p \<longleftrightarrow>
     (let escaped = al_lower L (u_EscapedPath u)
      in contains escaped ''%2f'' \<or> contains escaped ''%5c'' \<or> contains escaped ''%2e'' \<or> contains p [CHR 0x5C]
         \<or> Clean p \<noteq> TrimSuffix p ''/'' \<and> p \<noteq> ''/'')"

definition resourceWithin :: "auth_lib \<Rightarrow> ResourceScope \<Rightarrow> string \<Rightarrow> bool" where
  "resourceWithin L s raw =
     (if HasPrefix (rs_Origin s) ''tool:'' then validResourceScope L s \<and> raw = rs_Origin s
      else case al_url L (without_context raw) of
        None \<Rightarrow> False
      | Some u \<Rightarrow>
          if u_User u \<or> u_Host u = [] \<or> al_lower L (u_Scheme u @ ''://'' @ u_Host u) \<noteq> al_lower L (rs_Origin s) then False
          else let p = (if u_Path u = [] then ''/'' else u_Path u); pre = TrimSuffix (rs_PathPrefix s) ''/''
               in \<not> ambiguous_path L u p \<and> (pre = [] \<or> p = pre \<or> HasPrefix p (pre @ ''/'')))"

section \<open>Fixed local actions\<close>

definition local_contract :: "string option \<Rightarrow> string \<Rightarrow> ActionBinding \<Rightarrow> bool" where
  "local_contract digest eff b \<longleftrightarrow>
     digest = Some (ab_ContractHash b) \<and> ab_Resource b = ''tool:'' @ ab_ToolName b \<and> ab_CredentialRefs b = [] \<and> ab_Effect b = eff"

definition standardCatalogAction :: "auth_lib \<Rightarrow> ActionBinding \<Rightarrow> bool" where
  "standardCatalogAction L b = local_contract (al_catalog L (ab_ToolName b)) EffectRead b"

definition standardScheduleAction :: "auth_lib \<Rightarrow> ActionBinding \<Rightarrow> bool" where
  "standardScheduleAction L b =
     local_contract (al_schedule L (ab_ToolName b))
       (if ab_ToolName b = ''schedule.list'' \<or> ab_ToolName b = ''schedule.get'' then EffectRead else EffectPrepare) b"

definition standardCredentialAction :: "auth_lib \<Rightarrow> ActionBinding \<Rightarrow> bool" where
  "standardCredentialAction L b =
     local_contract (al_credential L (ab_ToolName b))
       (if ab_ToolName b = ''credentials.search'' \<or> ab_ToolName b = ''credentials.request_status'' then EffectRead else EffectPrepare) b"

definition ownerReplyResource :: "auth_lib \<Rightarrow> ActionBinding \<Rightarrow> bool" where
  "ownerReplyResource L b \<longleftrightarrow>
     local_contract (al_message L (ab_ToolName b)) EffectPrepare b \<and> length (ab_CommunicationDestinationsHash b) = 64"

definition hex_text :: "string \<Rightarrow> bool" where
  "hex_text s \<longleftrightarrow> even (length s) \<and> list_all isHex s"

definition BrowserContextRead :: "ActionBinding \<Rightarrow> bool" where
  "BrowserContextRead b =
     (if ab_Effect b \<noteq> EffectRead \<or> ab_CredentialRefs b \<noteq> [] then False
      else if ab_ToolName b \<notin> {''browser.snapshot'', ''browser.freeze_snapshot'', ''browser.extract_text'', ''browser.close''} then False
      else let i = TrimSuffix (TrimPrefix (ab_Resource b) ''browser:'') '':''
           in hex_text i \<and> length i = 32 \<and> ab_Resource b = ''browser:'' @ i @ '':'' \<and> \<not> ContainsAny i [CHR '':'', CHR ''/'', CHR 0x5C])"

section \<open>Scoped login documents\<close>

text \<open>The targets of the document of an action, when the document is valid for the action.\<close>

definition inspection_targets :: "auth_lib \<Rightarrow> ActionBinding \<Rightarrow> string list option" where
  "inspection_targets L b =
     (if ab_ToolName b \<noteq> ''browser.sso_inspect'' \<or> ab_Effect b \<noteq> EffectRead then None
      else Option.bind (ab_BrowserSSOInspection b) (al_inspection L))"

definition external_targets :: "auth_lib \<Rightarrow> ActionBinding \<Rightarrow> string list option" where
  "external_targets L b =
     (if ab_ToolName b \<noteq> ''credentials.request_external_login'' then None else Option.bind (ab_ExternalAuth b) (al_external L))"

definition sso_targets :: "auth_lib \<Rightarrow> ActionBinding \<Rightarrow> string list option" where
  "sso_targets L b =
     (if ab_ToolName b \<noteq> ''browser.sso_login'' \<and> ab_ToolName b \<noteq> ''credentials.request_sso_login'' then None
      else Option.bind (ab_BrowserSSO b) (al_sso L))"

definition validSSOInspection :: "auth_lib \<Rightarrow> ActionBinding \<Rightarrow> bool" where
  "validSSOInspection L b \<longleftrightarrow> inspection_targets L b \<noteq> None"

definition validExternalScope :: "auth_lib \<Rightarrow> ActionBinding \<Rightarrow> bool" where
  "validExternalScope L b \<longleftrightarrow> external_targets L b \<noteq> None"

definition validSSOScope :: "auth_lib \<Rightarrow> ActionBinding \<Rightarrow> bool" where
  "validSSOScope L b \<longleftrightarrow> sso_targets L b \<noteq> None"

text \<open>A document that is present is valid.\<close>

definition documents_valid :: "auth_lib \<Rightarrow> ActionBinding \<Rightarrow> bool" where
  "documents_valid L b \<longleftrightarrow>
     (ab_BrowserSSOInspection b \<noteq> None \<longrightarrow> validSSOInspection L b) \<and> (ab_ExternalAuth b \<noteq> None \<longrightarrow> validExternalScope L b)
     \<and> (ab_BrowserSSO b \<noteq> None \<longrightarrow> validSSOScope L b)"

definition some_target :: "auth_lib \<Rightarrow> ResourceScope \<Rightarrow> string list option \<Rightarrow> bool" where
  "some_target L s targets \<longleftrightarrow> (case targets of None \<Rightarrow> False | Some ts \<Rightarrow> list_ex (resourceWithin L s) ts)"

definition page_tools :: "string list" where
  "page_tools = [''browser.open_pages'', ''browser.pages'', ''browser.page_snapshot'', ''browser.page_freeze_snapshot'',
     ''browser.page_click'', ''browser.page_fill'', ''browser.page_type'', ''browser.page_close'']"

definition scopedResourceWithin :: "auth_lib \<Rightarrow> ResourceScope \<Rightarrow> ActionBinding \<Rightarrow> bool" where
  "scopedResourceWithin L s b \<longleftrightarrow>
     some_target L s (inspection_targets L b) \<or> some_target L s (external_targets L b) \<or> some_target L s (sso_targets L b)
     \<or> resourceWithin L s (ab_Resource b)
     \<or> BrowserContextRead b \<and> ab_BrowserScopeURL b \<noteq> [] \<and> resourceWithin L s (ab_BrowserScopeURL b)
     \<or> (case ab_BrowserPage b of None \<Rightarrow> False
        | Some pg \<Rightarrow> ab_ToolName b \<in> set page_tools \<and> resourceWithin L s (al_page_url L pg))"

text \<open>Every target of a document lies in a scope of the mandate (the three functions of the login protocols).\<close>

definition owner_resources :: "auth_lib \<Rightarrow> Mandate \<Rightarrow> string list option \<Rightarrow> bool" where
  "owner_resources L m targets \<longleftrightarrow>
     (case targets of None \<Rightarrow> False | Some ts \<Rightarrow> list_all (\<lambda>t. list_ex (\<lambda>s. resourceWithin L s t) (m_ResourceScopes m)) ts)"

definition CheckDenyOverrides :: "auth_lib \<Rightarrow> ActionBinding \<Rightarrow> string list \<Rightarrow> ResourceScope list \<Rightarrow> go_err + unit" where
  "CheckDenyOverrides L b tools resources =
     failif (\<not> documents_valid L b \<or> ab_ToolName b \<in> set tools \<or> list_ex (\<lambda>s. scopedResourceWithin L s b) resources) ErrOwnerAuthority"

section \<open>Credential requests\<close>

definition request_alias :: "string \<Rightarrow> string \<Rightarrow> bool" where
  "request_alias pre alias \<longleftrightarrow> length alias = 69 \<and> HasPrefix alias pre \<and> hex_text (drop 5 alias)"

fun login_fields :: "string \<Rightarrow> string \<Rightarrow> string list \<Rightarrow> CredentialRef list \<Rightarrow> bool" where
  "login_fields pre alias seen [] = True"
| "login_fields pre alias seen (r # rs) =
     (request_alias pre (cr_Alias r) \<and> (cr_Field r = ''username'' \<or> cr_Field r = ''password'') \<and> cr_Field r \<notin> set seen
      \<and> (alias = [] \<or> alias = cr_Alias r) \<and> login_fields pre (cr_Alias r) (cr_Field r # seen) rs)"

definition vaultRequestBinding :: "auth_lib \<Rightarrow> ActionBinding \<Rightarrow> bool" where
  "vaultRequestBinding L b =
     (let sso = (ab_ToolName b = ''browser.sso_login'')
      in if ab_ToolName b = ''browser.login'' \<or> sso
         then ab_Effect b = EffectCommit \<and> ab_ContractRevision b = ''1'' \<and> length (ab_CredentialMetadataHash b) = 64
              \<and> length (ab_CredentialRefs b) = 2 \<and> (sso \<longrightarrow> validSSOScope L b)
              \<and> login_fields (if sso then ''ssoq_'' else ''creq_'') [] [] (ab_CredentialRefs b)
         else ab_Effect b = EffectPrepare \<and> (ab_ToolName b = ''browser.prepare_fill'' \<or> ab_ToolName b = ''browser.prepare_type'')
              \<and> ab_ContractRevision b \<in> {''2'', ''3'', ''4''} \<and> length (ab_CredentialMetadataHash b) = 64 \<and> ab_CredentialRefs b \<noteq> []
              \<and> list_all (\<lambda>r. request_alias ''creq_'' (cr_Alias r) \<and> cr_Field r \<in> {''username'', ''password'', ''otp''}) (ab_CredentialRefs b))"

section \<open>What a mandate covers\<close>

definition ownerMandateAllows :: "auth_lib \<Rightarrow> Mandate \<Rightarrow> ActionBinding \<Rightarrow> instant \<Rightarrow> bool" where
  "ownerMandateAllows L m b at =
     (if \<not> documents_valid L b then False
      else if ab_BrowserScopeURL b \<noteq> [] \<and> \<not> BrowserContextRead b then False
      else let standard = (standardScheduleAction L b \<or> standardCatalogAction L b \<or> standardCredentialAction L b)
      in if m_ScopeKind m \<noteq> ''owner_goal'' \<or> m_Status m \<noteq> ''active'' \<or> m_RevokedAt m \<noteq> None \<or> m_ExpiresAt m \<le> at
            \<or> \<not> WithinActiveHours L (m_Hours m) at \<or> m_OwnerID m \<noteq> ab_OwnerID b \<or> m_GoalID m \<noteq> ab_GoalID b
            \<or> m_GoalRevision m \<noteq> ab_GoalRevision b \<or> m_ID m \<noteq> ab_MandateID b \<or> m_Revision m \<noteq> ab_MandateRevision b
            \<or> m_Purpose m \<noteq> ab_Purpose b \<or> ab_ToolName b \<in> set (m_DenyTools m)
            \<or> ab_ToolName b \<notin> set (m_Tools m) \<and> \<not> standard then False
         else if list_ex (\<lambda>s. scopedResourceWithin L s b) (m_DenyResources m) then False
         else let resourceOK =
                (if ab_BrowserSSOInspection b \<noteq> None then owner_resources L m (inspection_targets L b)
                 else if ab_ExternalAuth b \<noteq> None then owner_resources L m (external_targets L b)
                 else if ab_BrowserSSO b \<noteq> None then owner_resources L m (sso_targets L b)
                 else standard \<or> ownerReplyResource L b \<or> list_ex (\<lambda>s. scopedResourceWithin L s b) (m_ResourceScopes m))
              in resourceOK \<and> ab_Effect b \<in> set (m_Effects m)
                 \<and> list_all (\<lambda>r. r \<in> set (m_CredentialRefs m) \<or> vaultRequestBinding L b) (ab_CredentialRefs b))"

definition CheckAssignedAction :: "auth_lib \<Rightarrow> Mandate \<Rightarrow> ActionBinding \<Rightarrow> instant \<Rightarrow> go_err + unit" where
  "CheckAssignedAction L m b at = failif (\<not> ownerMandateAllows L m b at) ErrOwnerAuthority"

definition origin_of :: "auth_lib \<Rightarrow> string \<Rightarrow> string" where
  "origin_of L resource =
     (case al_url L resource of
        Some u \<Rightarrow> if Hostname u \<noteq> [] then al_lower L (u_Scheme u @ ''://'' @ u_Host u) else resource
      | None \<Rightarrow> resource)"

definition mandateAllows :: "auth_lib \<Rightarrow> Mandate \<Rightarrow> ActionBinding \<Rightarrow> instant \<Rightarrow> bool" where
  "mandateAllows L m b at =
     (if (ab_BrowserSSO b \<noteq> None \<or> ab_ExternalAuth b \<noteq> None) \<and> m_ScopeKind m \<noteq> ''owner_goal'' then False
      else if m_ScopeKind m = ''owner_goal'' then ownerMandateAllows L m b at
      else if m_RevokedAt m \<noteq> None \<or> m_ExpiresAt m \<le> at \<or> m_OwnerID m \<noteq> ab_OwnerID b \<or> m_TaskID m \<noteq> ab_TaskID b
              \<or> m_TaskRevision m \<noteq> ab_TaskRevision b \<or> m_ConstraintsRevision m \<noteq> ab_ConstraintsRevision b then False
      else (ab_ToolName b \<in> set (m_Tools m) \<or> standardCatalogAction L b) \<and> ab_Effect b \<in> set (m_Effects m)
           \<and> (standardCatalogAction L b
              \<or> list_ex (\<lambda>a. TrimSuffix (al_lower L a) ''/'' = TrimSuffix (origin_of L (without_context (ab_Resource b))) ''/'') (m_Resources m))
           \<and> list_all (\<lambda>r. r \<in> set (m_CredentialRefs m)) (ab_CredentialRefs b))"

text \<open>A release of data needs the purpose of an owner's goal.\<close>

definition releaseMandateAllowed :: "auth_lib \<Rightarrow> Mandate \<Rightarrow> ActionBinding \<Rightarrow> bool \<Rightarrow> instant \<Rightarrow> bool" where
  "releaseMandateAllowed L m b requires at \<longleftrightarrow>
     mandateAllows L m b at \<and> (\<not> requires \<or> m_ScopeKind m = ''owner_goal'' \<and> ab_Purpose b \<noteq> [] \<and> ab_GoalID b \<noteq> [])"

definition in_force :: "auth_lib \<Rightarrow> Mandate \<Rightarrow> instant \<Rightarrow> bool" where
  "in_force L m at \<longleftrightarrow>
     m_ScopeKind m = ''owner_goal'' \<and> m_Status m = ''active'' \<and> m_RevokedAt m = None \<and> at < m_ExpiresAt m \<and> WithinActiveHours L (m_Hours m) at"

definition CheckExtensionAttachment ::
  "auth_lib \<Rightarrow> Mandate \<Rightarrow> string \<Rightarrow> string \<Rightarrow> string \<Rightarrow> string list \<Rightarrow> instant \<Rightarrow> go_err + unit" where
  "CheckExtensionAttachment L m source i manifest tools at =
     bindE (failif (\<not> in_force L m at) ErrOwnerAuthority) (\<lambda>_.
     bindE (need (find (\<lambda>p. xp_Source p = source \<and> xp_ExtensionID p = i \<and> xp_ManifestHash p = manifest) (m_Extensions m)) ErrOwnerAuthority) (\<lambda>p.
     failif (\<not> list_all (\<lambda>t. t \<in> set (xp_Tools p) \<and> t \<notin> set (m_DenyTools m)) tools) ErrOwnerAuthority))"

section \<open>Well-formed mandates\<close>

definition lower_hex :: "char \<Rightarrow> bool" where
  "lower_hex c \<longleftrightarrow> isDigit c \<or> c \<in> set ''abcdef''"

definition converterDigest :: "string \<Rightarrow> bool" where
  "converterDigest s \<longleftrightarrow> length s = 64 \<and> list_all lower_hex s"

definition lower_letter :: "char \<Rightarrow> bool" where
  "lower_letter c \<longleftrightarrow> c \<in> set ''abcdefghijklmnopqrstuvwxyz''"

definition converterID :: "string \<Rightarrow> bool" where
  "converterID s \<longleftrightarrow>
     (case s of [] \<Rightarrow> False | c # cs \<Rightarrow> lower_letter c \<and> length cs \<le> 62 \<and> list_all (\<lambda>d. lower_letter d \<or> isDigit d \<or> d = CHR ''-'') cs)"

definition ConverterPermission_Validate :: "ConverterPermission \<Rightarrow> bool" where
  "ConverterPermission_Validate p \<longleftrightarrow>
     converterID (cp_ConverterID p) \<and> cp_Class p = ''delimited_json_v1'' \<and> converterDigest (cp_InputSchemaHash p)
     \<and> converterDigest (cp_OutputSchemaHash p) \<and> converterDigest (cp_RuntimePin p)
     \<and> 1 \<le> cp_InputBytes p \<and> cp_InputBytes p \<le> 64 * 1024 \<and> 1 \<le> cp_OutputBytes p \<and> cp_OutputBytes p \<le> 256 * 1024
     \<and> 1 \<le> cp_Rows p \<and> cp_Rows p \<le> 512 \<and> 1 \<le> cp_FieldBytes p \<and> cp_FieldBytes p \<le> 4096
     \<and> 1 \<le> cp_Millis p \<and> cp_Millis p \<le> 2000 \<and> 1 \<le> cp_Trials p \<and> cp_Trials p \<le> 8"

definition AllowsConverterAttachment :: "auth_lib \<Rightarrow> Mandate \<Rightarrow> ConverterPermission \<Rightarrow> instant \<Rightarrow> bool" where
  "AllowsConverterAttachment L m p at \<longleftrightarrow>
     ConverterPermission_Validate p \<and> in_force L m at
     \<and> ''converter.'' @ cp_ConverterID p @ ''.convert'' \<notin> set (m_DenyTools m) \<and> p \<in> set (m_Converters m)"

definition exact_tool :: "string \<Rightarrow> bool" where
  "exact_tool name \<longleftrightarrow> name \<noteq> [] \<and> \<not> ContainsAny name ''*? '' \<and> contains name ''.''"

definition exact_ref :: "CredentialRef \<Rightarrow> bool" where
  "exact_ref r \<longleftrightarrow> cr_Alias r \<noteq> [] \<and> cr_Field r \<noteq> [] \<and> \<not> ContainsAny (cr_Alias r @ cr_Field r) ''*?''"

definition budget_limits :: "MandateBudget \<Rightarrow> int list" where
  "budget_limits q =
     [mb_ModelTurns q, mb_Tokens q, mb_CostMicros q, mb_ExternalCalls q, mb_Children q, mb_ActiveMillis q, mb_EgressBytes q, mb_ProviderInputBytes q]"

definition check_hours :: "auth_lib \<Rightarrow> ActiveHours option \<Rightarrow> go_err + unit" where
  "check_hours L hours =
     (case hours of
        None \<Rightarrow> Inr ()
      | Some h \<Rightarrow>
          bindE (failif (al_tz L (ah_Timezone h) = None) (Errorf ''unknown time zone'')) (\<lambda>_.
          bindE (failif (ah_StartMinute h < 0 \<or> 1440 \<le> ah_StartMinute h \<or> ah_EndMinute h < 0 \<or> 1440 < ah_EndMinute h
                   \<or> ah_StartMinute h = ah_EndMinute h \<or> ah_Weekdays h = []) (Errorf ''bounded active hours required'')) (\<lambda>_.
          failif (\<not> list_all (\<lambda>d. 0 \<le> d \<and> d \<le> 6) (ah_Weekdays h)) ErrOwnerAuthority)))"

fun check_extensions :: "string list \<Rightarrow> ExtensionPermission list \<Rightarrow> go_err + unit" where
  "check_extensions tools [] = Inr ()"
| "check_extensions tools (e # es) =
     bindE (failif (xp_Source e = [] \<or> xp_ExtensionID e = [] \<or> length (xp_ManifestHash e) \<noteq> 64 \<or> xp_Tools e = [])
              (Errorf ''exact extension source, identity, manifest digest and capabilities required'')) (\<lambda>_.
     bindE (failif (\<not> list_all (\<lambda>t. t \<in> set tools) (xp_Tools e)) (Errorf ''extension capabilities exceed mandate'')) (\<lambda>_.
     check_extensions tools es))"

definition check_converters :: "string list \<Rightarrow> ConverterPermission list \<Rightarrow> bool" where
  "check_converters tools ps \<longleftrightarrow>
     length ps \<le> 8 \<and> distinct (map cp_ConverterID ps)
     \<and> list_all (\<lambda>p. ConverterPermission_Validate p \<and> ''converter.'' @ cp_ConverterID p @ ''.convert'' \<in> set tools) ps"

definition effect_names :: "string list" where
  "effect_names = [EffectRead, EffectPrepare, EffectCommit, EffectUnknown]"

definition check_capabilities :: "auth_lib \<Rightarrow> Mandate \<Rightarrow> go_err + unit" where
  "check_capabilities L m =
     bindE (failif (m_Tools m = [] \<or> 64 < length (m_Tools m) \<or> m_ResourceScopes m = [] \<or> 64 < length (m_ResourceScopes m)
              \<or> m_Effects m = [] \<or> m_Intervention m = [] \<or> m_Reporting m = [])
              (Errorf ''purpose, bounded capabilities/resources, intervention and reporting required'')) (\<lambda>_.
     bindE (failif (m_Reporting m \<notin> {''exceptions'', ''daily'', ''each_result''}) (Errorf ''explicit reporting policy required'')) (\<lambda>_.
     bindE (failif (\<not> set (m_Intervention m) \<subseteq> {''effect_unknown'', ''scope_change'', ''budget_exhausted'', ''credential_required''})
              (Errorf ''unsupported intervention boundary'')) (\<lambda>_.
     bindE (failif (\<not> list_all exact_tool (m_Tools m @ m_DenyTools m)) (Errorf ''exact tool names required'')) (\<lambda>_.
     bindE (failif (\<not> list_all (validResourceScope L) (m_ResourceScopes m @ m_DenyResources m))
              (Errorf ''exact origin and canonical path prefix required'')) (\<lambda>_.
     bindE (failif (\<not> set (m_Effects m) \<subseteq> set effect_names) ErrOwnerAuthority) (\<lambda>_.
     failif (\<not> list_all exact_ref (m_CredentialRefs m)) (Errorf ''exact credential metadata references required'')))))))"

definition ValidateOwnerMandate :: "auth_lib \<Rightarrow> Mandate \<Rightarrow> instant \<Rightarrow> go_err + unit" where
  "ValidateOwnerMandate L m now =
     bindE (failif (m_ID m = [] \<or> m_OwnerID m = [] \<or> m_ScopeKind m \<noteq> ''owner_goal'' \<or> m_GoalID m = [] \<or> m_GoalRevision m \<le> 0
              \<or> m_Revision m \<le> 0 \<or> m_TaskID m \<noteq> [] \<or> m_Purpose m = []) ErrOwnerAuthority) (\<lambda>_.
     bindE (failif (m_Status m \<notin> {''active'', ''paused'', ''revoked''}) ErrOwnerAuthority) (\<lambda>_.
     bindE (failif (m_Status m = ''active'' \<and> m_ExpiresAt m \<le> now \<or> now + 366 * day < m_ExpiresAt m \<or> m_BudgetDeadline m = 0
              \<or> m_Revision m = 1 \<and> m_ExpiresAt m < m_BudgetDeadline m)
              (Errorf ''mandate requires a finite deadline within one year and immutable budget deadline'')) (\<lambda>_.
     bindE (failif (m_Privacy m \<noteq> ''local_only'' \<and> m_Privacy m \<noteq> ''cloud_allowed'') (Errorf ''explicit model privacy policy required'')) (\<lambda>_.
     bindE (check_capabilities L m) (\<lambda>_.
     bindE (failif (\<not> list_all (\<lambda>n. 0 \<le> n \<and> n \<le> 2 ^ 50) (budget_limits (m_Budget m))) (Errorf ''finite nonnegative budget required'')) (\<lambda>_.
     bindE (failif (mb_ModelTurns (m_Budget m) = 0 \<or> mb_Tokens (m_Budget m) = 0 \<or> mb_ActiveMillis (m_Budget m) = 0)
              (Errorf ''positive model, token and duration limits required'')) (\<lambda>_.
     bindE (check_hours L (m_Hours m)) (\<lambda>_.
     bindE (check_extensions (m_Tools m) (m_Extensions m)) (\<lambda>_.
     failif (\<not> check_converters (m_Tools m) (m_Converters m)) ErrOwnerAuthority)))))))))"

definition valid_origin :: "auth_lib \<Rightarrow> string \<Rightarrow> bool" where
  "valid_origin L resource \<longleftrightarrow>
     (case al_url L resource of
        None \<Rightarrow> False
      | Some u \<Rightarrow> \<not> u_User u \<and> Hostname u \<noteq> [] \<and> (u_Scheme u = ''http'' \<or> u_Scheme u = ''https'') \<and> (u_Path u = [] \<or> u_Path u = ''/'')
          \<and> u_RawQuery u = [] \<and> u_Fragment u = [] \<and> \<not> ContainsAny (u_Host u) ''*?'')"

fun check_resources :: "auth_lib \<Rightarrow> string list \<Rightarrow> go_err + unit" where
  "check_resources L [] = Inr ()"
| "check_resources L (r # rs) =
     bindE (if HasPrefix r ''tool:'' then failif (ContainsAny r ''*? '') (Errorf ''tool resource must be exact'')
            else failif (\<not> valid_origin L r) (Errorf ''mandate resources must be exact HTTP(S) origins or exact tool resources'')) (\<lambda>_.
     check_resources L rs)"

definition ValidateMandate :: "auth_lib \<Rightarrow> Mandate \<Rightarrow> instant \<Rightarrow> go_err + unit" where
  "ValidateMandate L m now =
     (if m_ScopeKind m = ''owner_goal'' then ValidateOwnerMandate L m now
      else
        bindE (failif (m_ID m = [] \<or> m_OwnerID m = [] \<or> m_TaskID m = [] \<or> m_TaskRevision m \<le> 0 \<or> m_ConstraintsRevision m \<le> 0 \<or> m_Revision m \<le> 0)
                 (Errorf ''mandate identity and current task versions are required'')) (\<lambda>_.
        bindE (failif (m_ExpiresAt m \<le> now \<or> now + 7 * day < m_ExpiresAt m) (Errorf ''mandate expiry must be within seven days'')) (\<lambda>_.
        bindE (failif (m_Tools m = [] \<or> 64 < length (m_Tools m) \<or> m_Resources m = [] \<or> 64 < length (m_Resources m) \<or> m_Effects m = [])
                 (Errorf ''bounded tools, resources and effects are required'')) (\<lambda>_.
        bindE (failif (\<not> list_all exact_tool (m_Tools m)) (Errorf ''mandate tools must be exact names'')) (\<lambda>_.
        bindE (check_resources L (m_Resources m)) (\<lambda>_.
        bindE (failif (\<not> set (m_Effects m) \<subseteq> set effect_names) (Errorf ''unsupported mandate effect'')) (\<lambda>_.
        failif (\<not> list_all exact_ref (m_CredentialRefs m)) (Errorf ''mandate credential fields must be exact''))))))))"

text \<open>The tools a mandate offers: its own with the fixed local ones; the lists are those of the other packages.\<close>

fun add_missing :: "string list \<Rightarrow> string list \<Rightarrow> string list" where
  "add_missing tools [] = tools"
| "add_missing tools (t # ts) = add_missing (if t \<in> set tools then tools else tools @ [t]) ts"

definition EffectiveMandateTools :: "string list \<Rightarrow> string list \<Rightarrow> string list \<Rightarrow> Mandate \<Rightarrow> string list" where
  "EffectiveMandateTools catalog credential schedule m =
     (let tools = add_missing (m_Tools m) catalog
      in if m_ScopeKind m = ''owner_goal'' then add_missing (add_missing tools credential) schedule else tools)"

end
