(* ===== verification/Effect.thy ===== *)
theory Effect
  imports Mandate
begin

text \<open>
  The durable journal of effects (\<^verbatim>\<open>internal/actionauth/postgres.go\<close>, \<^verbatim>\<open>effect_postgres.go\<close>): an intent
  names the effect of a proposed action, a grant authorizes one execution, claiming the grant commits
  the dispatch before the runtime is contacted, and evidence settles the outcome. Every operation is
  one transaction; it reads the leases, runs, tasks and inputs of the other components. Budgets,
  capability and source guards are called through interfaces, so they are functions here
  (\<open>effect_ports\<close>), as are the scoped login protocols; \<open>None\<close> is an interface left unset. Columns of
  creation times that nothing reads are left out. Documents read back from \<^verbatim>\<open>jsonb\<close> columns are the
  values that were stored.
\<close>

section \<open>Tables\<close>

definition StatePrepared :: string where "StatePrepared = ''prepared''"
definition StateAllowed :: string where "StateAllowed = ''allowed''"
definition StateExecuting :: string where "StateExecuting = ''executing''"
definition StateConfirmed :: string where "StateConfirmed = ''effect_confirmed''"
definition StateAbsent :: string where "StateAbsent = ''effect_absent''"
definition StateUnknown :: string where "StateUnknown = ''effect_unknown''"

lemmas effect_state_defs =
  StatePrepared_def StateAllowed_def StateExecuting_def StateConfirmed_def StateAbsent_def StateUnknown_def

record effect_row =
  ew_ActionID :: string
  ew_Fingerprint :: string
  ew_Binding :: ActionBinding
  ew_Policy :: EffectPolicy
  ew_State :: string
  ew_IdempotencyKey :: string
  ew_AuthorizationID :: string
  ew_DispatchOutcome :: string
  ew_CreatedAt :: instant
  ew_UpdatedAt :: instant

record EffectRecord = effect_row +
  ew_EvidenceRefs :: "string list"

record intent_row =
  iw_action_id :: string
  iw_run_id :: string
  iw_tool_call_id :: string
  iw_action_hash :: string
  iw_binding :: ActionBinding
  iw_requires_approval :: bool
  iw_expires_at :: instant
  iw_effect_id :: string
  iw_effect_fingerprint :: string
  iw_effect_policy :: EffectPolicy

record authorization_row =
  au_authorization_id :: string
  au_action_id :: string
  au_action_hash :: string
  au_grant :: Grant
  au_mandate_id :: "string option"
  au_mandate_revision :: int
  au_expires_at :: instant
  au_state :: string
  au_dispatched_at :: "instant option"
  au_finished_at :: "instant option"

record dispatch_row =
  ds_authorization_id :: string
  ds_action_id :: string
  ds_execution_action_id :: string
  ds_outcome :: string
  ds_dispatched_at :: instant
  ds_finished_at :: "instant option"

record evidence_row =
  ev_evidence_id :: string
  ev_action_id :: string
  ev_source_action_id :: string
  ev_evidence :: EffectEvidence
  ev_observed_at :: instant
  ev_recorded_at :: instant

record mandate_row =
  md_mandate_id :: string
  md_owner_id :: string
  md_task_id :: string
  md_revision :: int
  md_expires_at :: instant
  md_revoked_at :: "instant option"
  md_scope_kind :: string
  md_goal_id :: "string option"
  md_goal_revision :: int
  md_status :: string
  md_data :: Mandate

record 'x effect_db =
  ef_kernel :: kernel_db
  ef_tasks :: "task_row list"
  ef_inputs :: "accepted_row list"
  ef_mandates :: "mandate_row list"
  ef_effects :: "effect_row list"
  ef_intents :: "intent_row list"
  ef_authorizations :: "authorization_row list"
  ef_dispatches :: "dispatch_row list"
  ef_evidence :: "evidence_row list"
  ef_other :: 'x

record ToolIdentity =
  ti_OwnerCommunication :: bool
  ti_OwnerReply :: bool
  ti_OwnerCredentialInteraction :: bool
  ti_RunID :: string
  ti_MandateID :: string
  ti_EffectID :: string
  ti_ToolName :: string
  ti_ArgsHash :: string
  ti_ContractHash :: string
  ti_Effect :: string
  ti_TaskRevision :: int
  ti_ConstraintsRevision :: int

text \<open>
  What the journal calls elsewhere: digests, the digests of the contracts the communication and the
  credential package publish for a tool, \<^verbatim>\<open>CheckTaskActionTx\<close>, the interfaces \<^verbatim>\<open>DispatchClaimGuard\<close>,
  \<^verbatim>\<open>ContractGuard\<close> and \<^verbatim>\<open>runDataGuard\<close>, the budget controller, and the scoped login protocols with the
  page a federated login ended on.
\<close>

record 'x effect_ports =
  pt_digest :: "string \<Rightarrow> string"
  pt_message_contract :: "string \<Rightarrow> string option"
  pt_credential_contract :: "string \<Rightarrow> string option"
  pt_task_action :: "'x effect_db \<Rightarrow> ActionBinding \<Rightarrow> instant \<Rightarrow> go_err + unit"
  pt_admission :: "('x effect_db \<Rightarrow> Grant \<Rightarrow> go_err + unit) option"
  pt_claim_action :: "('x \<Rightarrow> Grant \<Rightarrow> string \<Rightarrow> go_err + 'x) option"
  pt_run_data :: "('x effect_db \<Rightarrow> Token \<Rightarrow> go_err + unit) option"
  pt_contract :: "('x effect_db \<Rightarrow> ActionBinding \<Rightarrow> go_err + unit) option"
  pt_reserve :: "('x \<Rightarrow> ToolIdentity \<Rightarrow> go_err + 'x) option"
  pt_observe :: "('x \<Rightarrow> ToolIdentity \<Rightarrow> string \<Rightarrow> string \<Rightarrow> go_err + 'x) option"
  pt_login_ok :: "EffectPolicy \<Rightarrow> ActionBinding \<Rightarrow> json option \<Rightarrow> bool"
  pt_sso_ok :: "EffectPolicy \<Rightarrow> ActionBinding \<Rightarrow> json option \<Rightarrow> bool"
  pt_sso_current :: "'x effect_db \<Rightarrow> EffectPolicy \<Rightarrow> ActionBinding \<Rightarrow> json option \<Rightarrow> bool"

definition set_effect :: "string \<Rightarrow> (effect_row \<Rightarrow> effect_row) \<Rightarrow> 'x effect_db \<Rightarrow> 'x effect_db" where
  "set_effect i f db = db\<lparr>ef_effects := tbl_update (\<lambda>r. ew_ActionID r = i) f (ef_effects db)\<rparr>"

section \<open>Intents\<close>

definition intent_key_violation :: go_err where
  "intent_key_violation = PgError ''23505'' ''duplicate key value violates unique constraint \"action_intents_run_id_tool_call_id_key\"''"

text \<open>\<^verbatim>\<open>INSERT INTO action_effects ... ON CONFLICT ... RETURNING fingerprint\<close>.\<close>

definition put_effect :: "string \<Rightarrow> instant \<Rightarrow> Intent \<Rightarrow> 'x effect_db \<Rightarrow> string \<times> 'x effect_db" where
  "put_effect key now i db =
     (case tbl_find ew_ActionID (it_EffectID i) (ef_effects db) of
        Some r \<Rightarrow> (ew_Fingerprint r, db)
      | None \<Rightarrow>
          (it_EffectFingerprint i,
           db\<lparr>ef_effects := ef_effects db @
                [\<lparr>ew_ActionID = it_EffectID i, ew_Fingerprint = it_EffectFingerprint i, ew_Binding = it_Binding i,
                  ew_Policy = it_EffectPolicy i, ew_State = StatePrepared, ew_IdempotencyKey = key,
                  ew_AuthorizationID = [], ew_DispatchOutcome = [], ew_CreatedAt = now, ew_UpdatedAt = now\<rparr>]\<rparr>))"

text \<open>An effect whose dispatch has not begun: only such a row may be upgraded or authorized.\<close>

definition open_state :: "string \<Rightarrow> bool" where
  "open_state s \<longleftrightarrow> s = StatePrepared \<or> s = StateAllowed"

definition upgradable :: "Intent \<Rightarrow> 'x effect_db \<Rightarrow> effect_row \<Rightarrow> bool" where
  "upgradable i db r \<longleftrightarrow>
     ew_ActionID r = it_EffectID i \<and> ew_Fingerprint r = ab_ActionHash (it_Binding i) \<and> open_state (ew_State r)
     \<and> (\<exists>w \<in> set (ef_intents db). iw_action_id w = it_EffectID i \<and> iw_action_hash w = ab_ActionHash (it_Binding i)
            \<and> iw_effect_id w = it_EffectID i)"

definition upgrade_effect :: "string \<Rightarrow> Intent \<Rightarrow> 'x effect_db \<Rightarrow> go_err + 'x effect_db" where
  "upgrade_effect key i db =
     bindE (failif (tbl_count (upgradable i db) (ef_effects db) \<noteq> 1)
              (Errorf ''logical action identity already binds a different effect''))
       (\<lambda>_. Inr (db\<lparr>ef_effects := tbl_update (upgradable i db)
            (\<lambda>r. r\<lparr>ew_Fingerprint := it_EffectFingerprint i, ew_Policy := it_EffectPolicy i, ew_IdempotencyKey := key\<rparr>)
            (ef_effects db)\<rparr>))"

definition new_intent :: "Intent \<Rightarrow> intent_row" where
  "new_intent i =
     (let b = it_Binding i
      in \<lparr>iw_action_id = ab_ActionID b, iw_run_id = ab_RunID b, iw_tool_call_id = ab_ToolCallID b,
          iw_action_hash = ab_ActionHash b, iw_binding = b, iw_requires_approval = it_RequiresApproval i,
          iw_expires_at = micros (it_ExpiresAt i), iw_effect_id = it_EffectID i,
          iw_effect_fingerprint = it_EffectFingerprint i, iw_effect_policy = it_EffectPolicy i\<rparr>)"

definition put_intent_row :: "Intent \<Rightarrow> 'x effect_db \<Rightarrow> go_err + 'x effect_db" where
  "put_intent_row i db =
     (let w = new_intent i
      in case tbl_find iw_action_id (iw_action_id w) (ef_intents db) of
           Some old \<Rightarrow>
             if iw_action_hash old = iw_action_hash w \<and> iw_effect_id old = iw_effect_id w
             then Inr (db\<lparr>ef_intents := tbl_update (\<lambda>r. iw_action_id r = iw_action_id w)
                   (\<lambda>r. r\<lparr>iw_effect_fingerprint := iw_effect_fingerprint w, iw_effect_policy := iw_effect_policy w\<rparr>)
                   (ef_intents db)\<rparr>)
             else Inl ErrNoRows
         | None \<Rightarrow>
             if \<exists>r \<in> set (ef_intents db). iw_run_id r = iw_run_id w \<and> iw_tool_call_id r = iw_tool_call_id w
             then Inl intent_key_violation
             else Inr (db\<lparr>ef_intents := ef_intents db @ [w]\<rparr>))"

definition PutIntent :: "'x effect_ports \<Rightarrow> instant \<Rightarrow> Intent \<Rightarrow> 'x effect_db \<Rightarrow> (go_err, unit, 'x effect_db) outcome" where
  "PutIntent P now i =
     run_tx (\<lambda>db.
       bindE (failif (it_EffectID i = [] \<or> it_EffectFingerprint i = []) (Errorf ''durable effect identity is required'')) (\<lambda>_.
       let key = (if ep_RetrySafety (it_EffectPolicy i) = ''external_idempotency''
                  then ''butler_'' @ pt_digest P (it_EffectID i @ [CHR 0x00] @ it_EffectFingerprint i) else []);
           (fingerprint, db1) = put_effect key now i db
       in bindE (if fingerprint \<noteq> it_EffectFingerprint i then upgrade_effect key i db1 else Inr db1) (\<lambda>db2.
          bindE (put_intent_row i db2) (\<lambda>db3. Inr ((), db3)))))"

definition scan_intent :: "intent_row \<Rightarrow> Intent" where
  "scan_intent w =
     \<lparr>it_Binding = iw_binding w, it_RequiresApproval = iw_requires_approval w, it_ExpiresAt = iw_expires_at w,
      it_EffectID = iw_effect_id w, it_EffectFingerprint = iw_effect_fingerprint w, it_EffectPolicy = iw_effect_policy w\<rparr>"

definition GetIntent :: "string \<Rightarrow> 'x effect_db \<Rightarrow> go_err + Intent" where
  "GetIntent i db = map_sum id scan_intent (need (tbl_find iw_action_id i (ef_intents db)) ErrNoRows)"

section \<open>Grants\<close>

text \<open>The effect an action's intent names, if the action is bound to it.\<close>

definition effect_of :: "string \<Rightarrow> 'x effect_db \<Rightarrow> effect_row option" where
  "effect_of actionID db =
     (case tbl_find iw_action_id actionID (ef_intents db) of
        None \<Rightarrow> None
      | Some w \<Rightarrow> tbl_find ew_ActionID (iw_effect_id w) (ef_effects db))"

definition new_authorization :: "Grant \<Rightarrow> authorization_row" where
  "new_authorization g =
     \<lparr>au_authorization_id = gr_ID g, au_action_id = ab_ActionID (gr_Binding g),
      au_action_hash = ab_ActionHash (gr_Binding g), au_grant = g, au_mandate_id = nullString (gr_MandateID g),
      au_mandate_revision = gr_MandateRevision g, au_expires_at = micros (gr_ExpiresAt g), au_state = ''authorized'',
      au_dispatched_at = None, au_finished_at = None\<rparr>"

text \<open>
  \<^verbatim>\<open>INSERT INTO action_authorizations ... ON CONFLICT(action_id) DO UPDATE ... WHERE\<close>: an unused
  authorization of the same action is refreshed. The statement fails when another row has the
  identifier, or when the mandate does not exist.
\<close>

definition put_authorization :: "Grant \<Rightarrow> 'x effect_db \<Rightarrow> 'x effect_db option" where
  "put_authorization g db =
     (let n = new_authorization g
      in if (case au_mandate_id n of None \<Rightarrow> False | Some m \<Rightarrow> tbl_find md_mandate_id m (ef_mandates db) = None) then None
         else case tbl_find au_action_id (au_action_id n) (ef_authorizations db) of
           None \<Rightarrow>
             if tbl_find au_authorization_id (au_authorization_id n) (ef_authorizations db) \<noteq> None then None
             else Some (db\<lparr>ef_authorizations := ef_authorizations db @ [n]\<rparr>)
         | Some old \<Rightarrow>
             if au_state old \<noteq> ''authorized'' \<or> au_action_hash old \<noteq> au_action_hash n then None
             else if \<exists>r \<in> set (ef_authorizations db). au_authorization_id r = au_authorization_id n \<and> au_action_id r \<noteq> au_action_id n
             then None
             else Some (db\<lparr>ef_authorizations := tbl_update (\<lambda>r. au_action_id r = au_action_id n)
                    (\<lambda>r. r\<lparr>au_authorization_id := au_authorization_id n, au_grant := g, au_mandate_id := au_mandate_id n,
                           au_mandate_revision := au_mandate_revision n, au_expires_at := au_expires_at n\<rparr>)
                    (ef_authorizations db)\<rparr>))"

definition PutGrant :: "instant \<Rightarrow> Grant \<Rightarrow> 'x effect_db \<Rightarrow> (go_err, Grant, 'x effect_db) outcome" where
  "PutGrant now g =
     run_tx (\<lambda>db.
       let refused = Errorf ''external effect already dispatched; reconcile before any new attempt'';
           b = gr_Binding g
       in bindE (need (tbl_find iw_action_id (ab_ActionID b) (ef_intents db)) refused) (\<lambda>w.
          bindE (failif (iw_action_hash w \<noteq> ab_ActionHash b) refused) (\<lambda>_.
          bindE (need (tbl_find ew_ActionID (iw_effect_id w) (ef_effects db)) refused) (\<lambda>e.
          bindE (failif (\<not> open_state (ew_State e)) refused) (\<lambda>_.
          bindE (need (put_authorization g db) (Errorf ''action authorization cannot be refreshed after dispatch'')) (\<lambda>db1.
          Inr (g, set_effect (ew_ActionID e)
                    (\<lambda>r. r\<lparr>ew_State := StateAllowed, ew_AuthorizationID := gr_ID g, ew_UpdatedAt := now\<rparr>) db1)))))))"

definition grantInTx :: "string \<Rightarrow> 'x effect_db \<Rightarrow> go_err + Grant" where
  "grantInTx i db =
     map_sum id (\<lambda>a. (au_grant a)\<lparr>gr_State := au_state a\<rparr>)
       (need (tbl_find au_authorization_id i (ef_authorizations db)) ErrNoRows)"

definition GetGrant :: "string \<Rightarrow> 'x effect_db \<Rightarrow> go_err + Grant" where
  "GetGrant = grantInTx"

section \<open>Dispatch\<close>

text \<open>
  The clock readings of a claim: the start of the transaction, then in order of their use the lease
  check, the clock of the process, the input of a credential request, the authority and the input
  again after the budget, and the claim itself.
\<close>

record claim_clock =
  ck_tx :: instant
  ck_lease :: instant
  ck_go :: instant
  ck_input :: instant
  ck_task :: instant
  ck_input2 :: instant
  ck_claim :: instant

definition credential_tool :: "string \<Rightarrow> bool" where
  "credential_tool name \<longleftrightarrow>
     name \<in> {''credentials.search'', ''credentials.request_access'', ''credentials.request_create'', ''credentials.request_otp'',
             ''credentials.request_status'', ''credentials.request_login'', ''credentials.request_sso_login'',
             ''credentials.request_external_login''}"

definition LoginTool :: string where "LoginTool = ''browser.login''"
definition LoginVerification :: string where "LoginVerification = ''browser_login_v1''"
definition SSOVerification :: string where "SSOVerification = ''browser_sso_login_v1''"

definition claims_input :: "string \<Rightarrow> bool" where
  "claims_input tool \<longleftrightarrow> credential_tool tool \<or> tool = LoginTool"

definition owning_input :: "Grant \<Rightarrow> 'x effect_db \<Rightarrow> accepted_row \<Rightarrow> bool" where
  "owning_input g db n \<longleftrightarrow>
     (let b = gr_Binding g
      in ai_run_id n = Some (ab_RunID b) \<and> ai_owner_id n = ab_OwnerID b \<and> coalesce (ai_task_id n) = ab_TaskID b
         \<and> ai_status n = ''running''
         \<and> (\<exists>r \<in> set (runs (ef_kernel db)). r_run_id r = ab_RunID b \<and> r_session_key r = ai_session_key n
              \<and> coalesce (r_task_id r) = ab_TaskID b)
         \<and> (\<exists>s \<in> set (sessions (ef_kernel db)). s_session_key s = ai_session_key n \<and> s_user_id s = ai_owner_id n))"

definition checkCredentialInputTx :: "(string \<Rightarrow> string) \<Rightarrow> instant \<Rightarrow> Grant \<Rightarrow> 'x effect_db \<Rightarrow> go_err + unit" where
  "checkCredentialInputTx dig now g db =
     (let changed = Errorf ''credential request owning Input claim changed before dispatch commit''
      in bindE (need (first_row (owning_input g db) (ef_inputs db)) changed) (\<lambda>n.
         bindE (need (ai_claim_expires_at n) changed) (\<lambda>claim_expiry.
         bindE (failif (length (gr_InputClaimHash g) \<noteq> 64
                  \<or> InputClaimHash dig (ai_input_id n) (ai_claim_id n) \<noteq> gr_InputClaimHash g) changed) (\<lambda>_.
         failif (claim_expiry \<le> now \<or> ai_expires_at n \<le> now)
           (Errorf ''credential request owning Input claim expired before dispatch commit'')))))"

definition owns_run :: "Grant \<Rightarrow> instant \<Rightarrow> ownership_row \<Rightarrow> bool" where
  "owns_run g now o' \<longleftrightarrow>
     o_run_id o' = ab_RunID (gr_Binding g) \<and> o_lease_id o' = gr_LeaseID g \<and> o_fence_epoch o' = gr_LeaseEpoch g \<and> now < o_expires_at o'"

definition ended_state :: "string \<Rightarrow> bool" where
  "ended_state v \<longleftrightarrow> v \<in> {[], ''completed'', ''failed'', ''cancelled'', ''finalizing''}"

definition guard_task :: "'x effect_ports \<Rightarrow> instant \<Rightarrow> ActionBinding \<Rightarrow> 'x effect_db \<Rightarrow> go_err + unit" where
  "guard_task P now b db =
     (let changed = Errorf ''task authority changed before dispatch commit''
      in bindE (need (first_row (\<lambda>r. r_run_id r = ab_RunID b \<and> r_task_id r = Some (ab_TaskID b)) (runs (ef_kernel db)))
                  (Errorf ''pinned task run is unavailable'')) (\<lambda>r.
         bindE (need (r_task_revision r) (Errorf ''pinned task run is unavailable'')) (\<lambda>pin.
         bindE (need (tbl_find k_task_id (ab_TaskID b) (ef_tasks db)) changed) (\<lambda>t.
         bindE (failif (k_status t \<noteq> ''active'' \<or> k_revision t \<noteq> ab_TaskRevision b \<or> pin \<noteq> k_revision t
                  \<or> k_constraints_revision t \<noteq> ab_ConstraintsRevision b \<or> k_owner_id t \<noteq> ab_OwnerID b) changed) (\<lambda>_.
         bindE (CheckExecutionPolicy (k_execution_policy t) (ab_Effect b)) (\<lambda>_.
         pt_task_action P db b now))))))"

definition reviewed_tool :: "ActionBinding \<Rightarrow> bool" where
  "reviewed_tool b \<longleftrightarrow>
     ab_ExtensionID b \<noteq> [] \<or> ab_ConverterID b \<noteq> [] \<or> HasPrefix (ab_ToolName b) ''skills.''
     \<or> HasPrefix (ab_ToolName b) ''converters.'' \<or> HasPrefix (ab_ToolName b) ''converter.''"

definition guardDispatch :: "'x effect_ports \<Rightarrow> claim_clock \<Rightarrow> Grant \<Rightarrow> 'x effect_db \<Rightarrow> go_err + unit" where
  "guardDispatch P ck g db =
     (let b = gr_Binding g
      in bindE (need (first_row (owns_run g (ck_lease ck)) (ownership (ef_kernel db)))
                  (Errorf ''live execution ownership is required at dispatch commit'')) (\<lambda>own.
         bindE (need (tbl_find r_run_id (ab_RunID b) (runs (ef_kernel db)))
                  (Errorf ''live run is required at dispatch commit'')) (\<lambda>r.
         bindE (failif (ended_state (r_current_state r) \<or> ended_state (r_status r))
                  (Errorf ''run is terminal or finalizing before dispatch commit'')) (\<lambda>_.
         bindE (if ab_TaskID b \<noteq> [] then guard_task P (ck_go ck) b db else Inr ()) (\<lambda>_.
         bindE (case pt_run_data P of
                  None \<Rightarrow> Inr ()
                | Some guard \<Rightarrow> guard db \<lparr>tok_SessionKey = o_session_key own, tok_RunID = ab_RunID b,
                                       tok_LeaseID = gr_LeaseID g, tok_FenceEpoch = gr_LeaseEpoch g\<rparr>) (\<lambda>_.
         bindE (case pt_contract P of
                  None \<Rightarrow> failif (reviewed_tool b) (Errorf ''reviewed capability admission is unavailable at dispatch'')
                | Some guard \<Rightarrow> guard db b) (\<lambda>_.
         if claims_input (ab_ToolName b) then checkCredentialInputTx (pt_digest P) (ck_input ck) g db else Inr ())))))))"

definition standardCredentialControl :: "'x effect_ports \<Rightarrow> ActionBinding \<Rightarrow> bool" where
  "standardCredentialControl P b =
     (case pt_credential_contract P (ab_ToolName b) of
        None \<Rightarrow> False
      | Some h \<Rightarrow>
          ab_Resource b = ''tool:'' @ ab_ToolName b \<and> ab_CredentialRefs b = [] \<and> h = ab_ContractHash b
          \<and> ab_Effect b = (if ab_ToolName b = ''credentials.search'' \<or> ab_ToolName b = ''credentials.request_status''
                          then EffectRead else EffectPrepare))"

definition toolBudgetIdentity :: "'x effect_ports \<Rightarrow> Grant \<Rightarrow> string \<Rightarrow> ToolIdentity" where
  "toolBudgetIdentity P g effectID =
     (let b = gr_Binding g;
          reply = (ab_ToolName b = ''communication.message'' \<and> ab_Effect b = EffectPrepare \<and> length (gr_InputClaimHash g) = 64
                   \<and> length (ab_CommunicationDestinationsHash b) = 64 \<and> ab_CredentialRefs b = []
                   \<and> ab_Resource b = ''tool:communication.message'' \<and> pt_message_contract P (ab_ToolName b) = Some (ab_ContractHash b))
      in \<lparr>ti_OwnerCommunication = ab_OwnerCommunication b, ti_OwnerReply = reply,
          ti_OwnerCredentialInteraction =
            (standardCredentialControl P b \<and> ab_Effect b = EffectPrepare \<and> length (gr_InputClaimHash g) = 64),
          ti_RunID = ab_RunID b, ti_MandateID = gr_MandateID g, ti_EffectID = effectID, ti_ToolName = ab_ToolName b,
          ti_ArgsHash = ab_ArgsHash b, ti_ContractHash = ab_ContractHash b, ti_Effect = ab_Effect b,
          ti_TaskRevision = ab_TaskRevision b, ti_ConstraintsRevision = ab_ConstraintsRevision b\<rparr>)"

text \<open>The condition of the update that consumes an authorization.\<close>

definition mandate_live :: "instant \<Rightarrow> 'x effect_db \<Rightarrow> authorization_row \<Rightarrow> bool" where
  "mandate_live now db a =
     (case au_mandate_id a of
        None \<Rightarrow> True
      | Some m \<Rightarrow> \<exists>r \<in> set (ef_mandates db). md_mandate_id r = m \<and> md_revision r = au_mandate_revision a
                    \<and> md_revoked_at r = None \<and> now < md_expires_at r)"

definition usable :: "string \<Rightarrow> instant \<Rightarrow> 'x effect_db \<Rightarrow> authorization_row \<Rightarrow> bool" where
  "usable i now db a \<longleftrightarrow>
     au_authorization_id a = i \<and> au_state a = ''authorized'' \<and> now < au_expires_at a \<and> mandate_live now db a"

definition on_other :: "('x \<Rightarrow> go_err + 'x) \<Rightarrow> 'x effect_db \<Rightarrow> go_err + 'x effect_db" where
  "on_other f db = map_sum id (\<lambda>x. db\<lparr>ef_other := x\<rparr>) (f (ef_other db))"

definition dispatch_key_violation :: go_err where
  "dispatch_key_violation = PgError ''23505'' ''duplicate key value violates unique constraint \"action_effect_dispatches_pkey\"''"

definition begin_dispatch :: "string \<Rightarrow> instant \<Rightarrow> string \<Rightarrow> string \<Rightarrow> 'x effect_db \<Rightarrow> go_err + 'x effect_db" where
  "begin_dispatch i now effectID actionID db =
     bindE (failif (tbl_find ds_authorization_id i (ef_dispatches db) \<noteq> None) dispatch_key_violation) (\<lambda>_.
       Inr (db\<lparr>ef_dispatches := ef_dispatches db @
              [\<lparr>ds_authorization_id = i, ds_action_id = effectID, ds_execution_action_id = actionID,
                ds_outcome = ''executing'', ds_dispatched_at = now, ds_finished_at = None\<rparr>]\<rparr>))"

definition claim_target :: "string \<Rightarrow> string \<Rightarrow> 'x effect_db \<Rightarrow> string option" where
  "claim_target i actionID db =
     (case effect_of actionID db of
        None \<Rightarrow> None
      | Some e \<Rightarrow> if ew_State e = StateAllowed \<and> ew_AuthorizationID e = i then Some (ew_ActionID e) else None)"

definition commit_claim :: "instant \<Rightarrow> instant \<Rightarrow> string \<Rightarrow> string \<Rightarrow> string \<Rightarrow> 'x effect_db \<Rightarrow> go_err + 'x effect_db" where
  "commit_claim now at i effectID actionID db =
     bindE (failif (tbl_count (usable i at db) (ef_authorizations db) \<noteq> 1)
              (Errorf ''authorization already dispatched, expired or revoked; do not replay the action'')) (\<lambda>_.
     begin_dispatch i now effectID actionID
       (set_effect effectID (\<lambda>r. r\<lparr>ew_State := StateExecuting, ew_DispatchOutcome := ''executing'', ew_UpdatedAt := now\<rparr>)
         (db\<lparr>ef_authorizations := tbl_update (usable i at db)
              (\<lambda>a. a\<lparr>au_state := ''inflight'', au_dispatched_at := Some now\<rparr>) (ef_authorizations db)\<rparr>)))"

definition ClaimGrant ::
  "'x effect_ports \<Rightarrow> claim_clock \<Rightarrow> string \<Rightarrow> 'x effect_db \<Rightarrow> (go_err, unit, 'x effect_db) outcome" where
  "ClaimGrant P ck i =
     run_tx (\<lambda>db.
       bindE (grantInTx i db) (\<lambda>g.
       bindE (case pt_admission P of None \<Rightarrow> Inr () | Some guard \<Rightarrow> guard db g) (\<lambda>_.
       bindE (guardDispatch P ck g db) (\<lambda>_.
       let b = gr_Binding g
       in bindE (need (claim_target i (ab_ActionID b) db)
                   (Errorf ''external effect is already executing or uncertain; do not replay'')) (\<lambda>effectID.
          bindE (case pt_reserve P of None \<Rightarrow> Inr db
                 | Some reserve \<Rightarrow> on_other (\<lambda>x. reserve x (toolBudgetIdentity P g effectID)) db) (\<lambda>db1.
          bindE (if ab_TaskID b \<noteq> [] then pt_task_action P db1 b (ck_task ck) else Inr ()) (\<lambda>_.
          bindE (case pt_claim_action P of None \<Rightarrow> Inr db1
                 | Some claim \<Rightarrow> on_other (\<lambda>x. claim x g effectID) db1) (\<lambda>db2.
          bindE (if claims_input (ab_ToolName b) then checkCredentialInputTx (pt_digest P) (ck_input2 ck) g db2 else Inr ()) (\<lambda>_.
          bindE (commit_claim (ck_tx ck) (ck_claim ck) i effectID (ab_ActionID b) db2) (\<lambda>db3. Inr ((), db3)))))))))))"

section \<open>Evidence\<close>

definition scan_effect :: "effect_row \<Rightarrow> string list \<Rightarrow> EffectRecord" where
  "scan_effect r refs =
     \<lparr>ew_ActionID = ew_ActionID r, ew_Fingerprint = ew_Fingerprint r, ew_Binding = ew_Binding r, ew_Policy = ew_Policy r,
      ew_State = ew_State r, ew_IdempotencyKey = ew_IdempotencyKey r, ew_AuthorizationID = ew_AuthorizationID r,
      ew_DispatchOutcome = ew_DispatchOutcome r, ew_CreatedAt = ew_CreatedAt r, ew_UpdatedAt = ew_UpdatedAt r,
      ew_EvidenceRefs = refs\<rparr>"

definition evidence_refs :: "string \<Rightarrow> 'x effect_db \<Rightarrow> string list" where
  "evidence_refs i db =
     map ev_evidence_id (sort_key ev_recorded_at (sort_key ev_evidence_id (filter (\<lambda>e. ev_action_id e = i) (ef_evidence db))))"

definition effectIn :: "string \<Rightarrow> 'x effect_db \<Rightarrow> go_err + EffectRecord" where
  "effectIn i db =
     bindE (need (tbl_find ew_ActionID i (ef_effects db)) ErrNoRows) (\<lambda>r. Inr (scan_effect r (evidence_refs i db)))"

definition GetEffect :: "string \<Rightarrow> 'x effect_db \<Rightarrow> go_err + EffectRecord" where
  "GetEffect = effectIn"

definition GetEffectEvidence :: "string \<Rightarrow> 'x effect_db \<Rightarrow> go_err + EffectEvidence" where
  "GetEffectEvidence i db = map_sum id ev_evidence (need (tbl_find ev_evidence_id i (ef_evidence db)) ErrNoRows)"

record RunEffect =
  re_ActionID :: string
  re_EffectState :: string
  re_EvidenceRefs :: "string list"

definition GetRunEvidence :: "string \<Rightarrow> 'x effect_db \<Rightarrow> RunEffect list" where
  "GetRunEvidence runID db =
     map (\<lambda>e. \<lparr>re_ActionID = ew_ActionID e, re_EffectState = ew_State e, re_EvidenceRefs = evidence_refs (ew_ActionID e) db\<rparr>)
       (sort_key ew_ActionID
          (filter (\<lambda>e. \<exists>w \<in> set (ef_intents db). iw_effect_id w = ew_ActionID e \<and> iw_run_id w = runID) (ef_effects db)))"

definition evidence_key_violation :: go_err where
  "evidence_key_violation = PgError ''23505'' ''duplicate key value violates unique constraint \"action_effect_evidence_pkey\"''"

definition evidence_fk_violation :: go_err where
  "evidence_fk_violation = PgError ''23503'' ''insert or update on table \"action_effect_evidence\" violates foreign key constraint''"

definition insertEvidence :: "instant \<Rightarrow> EffectEvidence \<Rightarrow> 'x effect_db \<Rightarrow> go_err + 'x effect_db" where
  "insertEvidence now e db =
     bindE (failif (ee_EvidenceID e = [] \<or> ee_ActionID e = [] \<or> ee_SourceActionID e = [] \<or> ee_SourceRunID e = []
              \<or> ee_SourceToolCallID e = [] \<or> ee_ObservedAt e = 0 \<or> ee_RecordedAt e = 0 \<or> ee_RecordedAt e < ee_ObservedAt e
              \<or> now + 60 * second < ee_RecordedAt e) (Errorf ''invalid effect evidence provenance'')) (\<lambda>_.
     bindE (failif (tbl_find ev_evidence_id (ee_EvidenceID e) (ef_evidence db) \<noteq> None) evidence_key_violation) (\<lambda>_.
     bindE (failif (tbl_find ew_ActionID (ee_ActionID e) (ef_effects db) = None
              \<or> tbl_find iw_action_id (ee_SourceActionID e) (ef_intents db) = None) evidence_fk_violation) (\<lambda>_.
     Inr (db\<lparr>ef_evidence := ef_evidence db @
            [\<lparr>ev_evidence_id = ee_EvidenceID e, ev_action_id = ee_ActionID e, ev_source_action_id = ee_SourceActionID e,
              ev_evidence = e, ev_observed_at = micros (ee_ObservedAt e), ev_recorded_at = micros (ee_RecordedAt e)\<rparr>]\<rparr>))))"

section \<open>Outcomes\<close>

text \<open>The dispatch of an authorization ends; one that has ended already keeps its outcome.\<close>

definition end_dispatch :: "string \<Rightarrow> string \<Rightarrow> instant \<Rightarrow> 'x effect_db \<Rightarrow> 'x effect_db" where
  "end_dispatch i outc now db =
     db\<lparr>ef_dispatches := tbl_update (\<lambda>d. ds_authorization_id d = i \<and> ds_outcome d = ''executing'')
          (\<lambda>d. d\<lparr>ds_outcome := outc, ds_finished_at := Some now\<rparr>) (ef_dispatches db)\<rparr>"

definition end_authorization :: "string \<Rightarrow> string \<Rightarrow> (instant option \<Rightarrow> instant) \<Rightarrow> 'x effect_db \<Rightarrow> 'x effect_db" where
  "end_authorization i outc at db =
     db\<lparr>ef_authorizations := tbl_update (\<lambda>a. au_authorization_id a = i \<and> au_state a = ''inflight'')
          (\<lambda>a. a\<lparr>au_state := outc, au_finished_at := Some (at (au_finished_at a))\<rparr>) (ef_authorizations db)\<rparr>"

definition settle_effect :: "string \<Rightarrow> string \<Rightarrow> (string \<Rightarrow> string) \<Rightarrow> instant \<Rightarrow> 'x effect_db \<Rightarrow> 'x effect_db" where
  "settle_effect i verdict outc now =
     set_effect i (\<lambda>r. r\<lparr>ew_State := verdict, ew_DispatchOutcome := outc (ew_DispatchOutcome r), ew_UpdatedAt := now\<rparr>)"

text \<open>The checks of an outcome against the executing effect, in the order of the source.\<close>

definition outcome_matches :: "string \<Rightarrow> EffectEvidence \<Rightarrow> Grant \<Rightarrow> EffectRecord \<Rightarrow> bool" where
  "outcome_matches i e g r \<longleftrightarrow>
     gr_State g = ''inflight'' \<and> ew_State r = StateExecuting \<and> ew_AuthorizationID r = i \<and> ee_ActionID e = ew_ActionID r
     \<and> ee_SourceActionID e = ab_ActionID (gr_Binding g) \<and> ee_SourceRunID e = ab_RunID (gr_Binding g)
     \<and> ee_SourceToolCallID e = ab_ToolCallID (gr_Binding g) \<and> ee_Source e = ''runtime_response''
     \<and> ee_Method e = ep_VerificationMethod (ew_Policy r)"

definition verdict_supported ::
  "'x effect_ports \<Rightarrow> string \<Rightarrow> EffectEvidence \<Rightarrow> ActionBinding \<Rightarrow> EffectPolicy \<Rightarrow> bool" where
  "verdict_supported P outc e b p \<longleftrightarrow>
     ee_Verdict e = StateUnknown \<or> ee_Verdict e = StateConfirmed
     \<or> ee_Verdict e = StateAbsent
       \<and> (browserReadAbsenceEvidence (pt_digest P) b p outc e \<or> preparationAbsenceEvidence (pt_digest P) b p outc e)"

definition check_outcome ::
  "'x effect_ports \<Rightarrow> string \<Rightarrow> string \<Rightarrow> EffectEvidence \<Rightarrow> Grant \<Rightarrow> EffectRecord \<Rightarrow> 'x effect_db \<Rightarrow> go_err + unit" where
  "check_outcome P i outc e g r db =
     (let b = gr_Binding g; p = ew_Policy r; m = ep_VerificationMethod p; confirmed = (ee_Verdict e = StateConfirmed)
      in bindE (failif (\<not> outcome_matches i e g r) (Errorf ''dispatch evidence does not match the executing intent'')) (\<lambda>_.
         bindE (failif (\<not> verdict_supported P outc e b p)
                 (Errorf ''dispatch cannot prove absence without owning pre-navigation read evidence'')) (\<lambda>_.
         bindE (failif (confirmed \<and> (outc \<noteq> ''dispatch_completed'' \<or> ee_ResultDigest e = [] \<or> m = ''none''
                   \<or> m = ''external_receipt_v1'' \<and> ee_ArtifactDigest e = []))
                 (Errorf ''confirmed effect requires supported evidence'')) (\<lambda>_.
         bindE (failif (confirmed \<and> m = LoginVerification \<and> \<not> pt_login_ok P p b (ee_Login e))
                 (Errorf ''login evidence does not match the scoped protocol'')) (\<lambda>_.
         bindE (failif (confirmed \<and> m = SSOVerification \<and> \<not> pt_sso_ok P p b (ee_SSO e))
                 (Errorf ''SSO evidence does not match the scoped protocol'')) (\<lambda>_.
         failif (confirmed \<and> m = SSOVerification \<and> \<not> pt_sso_current P db p b (ee_SSO e))
           (Errorf ''SSO result page is no longer current'')))))))"

definition commit_outcome ::
  "'x effect_ports \<Rightarrow> instant \<Rightarrow> string \<Rightarrow> string \<Rightarrow> EffectEvidence \<Rightarrow> Grant \<Rightarrow> string \<Rightarrow> 'x effect_db \<Rightarrow> go_err + 'x effect_db" where
  "commit_outcome P now i outc e g effectID db =
     bindE (failif (tbl_count (\<lambda>a. au_authorization_id a = i \<and> au_state a = ''inflight'') (ef_authorizations db) \<noteq> 1)
              (Errorf ''dispatch outcome cannot be recorded'')) (\<lambda>_.
     let db1 = settle_effect effectID (ee_Verdict e) (\<lambda>_. outc) now
                 (end_dispatch i outc now (end_authorization i outc (\<lambda>_. now) db));
         category = (if ee_ErrorCategory e \<noteq> [] then ee_ErrorCategory e else ee_Verdict e);
         result_digest = (if ee_ErrorCategory e \<noteq> [] then [] else ee_NormalizedResultDigest e)
     in case pt_observe P of
          None \<Rightarrow> Inr db1
        | Some observe \<Rightarrow> on_other (\<lambda>x. observe x (toolBudgetIdentity P g effectID) category result_digest) db1)"

definition RecordDispatchOutcome ::
  "'x effect_ports \<Rightarrow> instant \<Rightarrow> instant \<Rightarrow> string \<Rightarrow> string \<Rightarrow> EffectEvidence \<Rightarrow> 'x effect_db
     \<Rightarrow> (go_err, EffectRecord, 'x effect_db) outcome" where
  "RecordDispatchOutcome P now go_now i outc e =
     run_tx (\<lambda>db.
       bindE (failif (outc \<noteq> ''dispatch_completed'' \<and> outc \<noteq> ''unknown'') (Errorf ''invalid dispatch outcome'')) (\<lambda>_.
       bindE (grantInTx i db) (\<lambda>g.
       bindE (need (tbl_find iw_action_id (ab_ActionID (gr_Binding g)) (ef_intents db)) ErrNoRows) (\<lambda>w.
       bindE (effectIn (iw_effect_id w) db) (\<lambda>r.
       bindE (check_outcome P i outc e g r db) (\<lambda>_.
       bindE (insertEvidence go_now e db) (\<lambda>db1.
       bindE (commit_outcome P now i outc e g (ew_ActionID r) db1) (\<lambda>db2.
       Inr (r\<lparr>ew_State := ee_Verdict e, ew_DispatchOutcome := outc, ew_UpdatedAt := now,
              ew_EvidenceRefs := ew_EvidenceRefs r @ [ee_EvidenceID e]\<rparr>, db2)))))))))"

definition verification_key :: string where
  "verification_key = ''{idempotency_key}''"

text \<open>\<^verbatim>\<open>strings.ReplaceAll\<close> of the placeholder.\<close>

function fill_key :: "string \<Rightarrow> string \<Rightarrow> string" where
  "fill_key key [] = []"
| "fill_key key (c # cs) =
     (if HasPrefix (c # cs) verification_key
      then key @ fill_key key (drop (length verification_key) (c # cs)) else c # fill_key key cs)"
  by pat_completeness auto
termination
  by (relation "measure (\<lambda>(key, s). length s)") (auto simp: verification_key_def)

definition verificationResource :: "EffectRecord \<Rightarrow> string" where
  "verificationResource r = fill_key (ew_IdempotencyKey r) (ep_VerificationURL (ew_Policy r))"

definition reconciles :: "EffectRecord \<Rightarrow> EffectRecord \<Rightarrow> string \<Rightarrow> EffectEvidence \<Rightarrow> bool" where
  "reconciles target source targetID e \<longleftrightarrow>
     (ew_State target = StateUnknown \<or> ew_State target = StateExecuting) \<and> ew_State source = StateConfirmed
     \<and> ab_Effect (ew_Binding source) = EffectRead \<and> ab_ToolName (ew_Binding source) = ''http.request''
     \<and> ep_VerificationMethod (ew_Policy target) = ''external_receipt_v1'' \<and> ee_Source e = ''independent_lookup''
     \<and> ee_Method e = ''external_receipt_v1'' \<and> ee_ActionID e = targetID
     \<and> ab_OwnerID (ew_Binding source) = ab_OwnerID (ew_Binding target)
     \<and> ab_TaskID (ew_Binding source) = ab_TaskID (ew_Binding target)
     \<and> (ee_Verdict e = StateConfirmed \<or> ee_Verdict e = StateAbsent) \<and> ee_ResultDigest e \<noteq> []
     \<and> (ee_Verdict e = StateConfirmed \<longrightarrow> ee_ArtifactDigest e \<noteq> [])"

definition captured :: "string \<Rightarrow> EffectEvidence \<Rightarrow> evidence_row \<Rightarrow> bool" where
  "captured sourceID e x \<longleftrightarrow>
     ev_action_id x = sourceID \<and> ev_source_action_id x = ee_SourceActionID e \<and> ee_Source (ev_evidence x) = ''runtime_response''
     \<and> ee_Verdict (ev_evidence x) = ''effect_confirmed'' \<and> ee_SourceRunID (ev_evidence x) = ee_SourceRunID e
     \<and> ee_SourceToolCallID (ev_evidence x) = ee_SourceToolCallID e \<and> ee_ResultDigest (ev_evidence x) = ee_ResultDigest e
     \<and> ev_observed_at x = micros (ee_ObservedAt e)"

definition ReconcileEffect ::
  "instant \<Rightarrow> instant \<Rightarrow> string \<Rightarrow> string \<Rightarrow> EffectEvidence \<Rightarrow> 'x effect_db \<Rightarrow> (go_err, EffectRecord, 'x effect_db) outcome" where
  "ReconcileEffect now go_now targetID sourceID e =
     run_tx (\<lambda>db.
       bindE (failif (targetID = sourceID) (Errorf ''independent observation is required'')) (\<lambda>_.
       bindE (effectIn targetID db) (\<lambda>target.
       bindE (effectIn sourceID db) (\<lambda>source.
       bindE (failif (\<not> reconciles target source targetID e) (Errorf ''independent evidence cannot reconcile this intent'')) (\<lambda>_.
       bindE (need (first_row (\<lambda>w. iw_action_id w = ee_SourceActionID e \<and> iw_effect_id w = sourceID) (ef_intents db)) ErrNoRows) (\<lambda>w.
       let b = iw_binding w
       in bindE (failif (ab_Resource b \<noteq> verificationResource target \<or> ab_RunID b \<noteq> ee_SourceRunID e
                    \<or> ab_ToolCallID b \<noteq> ee_SourceToolCallID e \<or> ab_Effect b \<noteq> EffectRead)
                  (Errorf ''observation resource or provenance changed'')) (\<lambda>_.
          bindE (failif (\<not> list_ex (captured sourceID e) (ef_evidence db))
                  (Errorf ''observation was not independently captured'')) (\<lambda>_.
          bindE (insertEvidence go_now e db) (\<lambda>db1.
          let keep = (\<lambda>o'. if o' = ''executing'' then ''unknown'' else o');
              db2 = end_dispatch (ew_AuthorizationID target) ''unknown'' now
                     (end_authorization (ew_AuthorizationID target) ''unknown'' (\<lambda>t. case t of None \<Rightarrow> now | Some t' \<Rightarrow> t')
                       (settle_effect targetID (ee_Verdict e) keep now db1))
          in Inr (target\<lparr>ew_State := ee_Verdict e, ew_DispatchOutcome := keep (ew_DispatchOutcome target), ew_UpdatedAt := now,
                         ew_EvidenceRefs := ew_EvidenceRefs target @ [ee_EvidenceID e]\<rparr>, db2))))))))))"

definition MarkInterruptedEffect :: "instant \<Rightarrow> string \<Rightarrow> 'x effect_db \<Rightarrow> (go_err, unit, 'x effect_db) outcome" where
  "MarkInterruptedEffect now i =
     run_tx (\<lambda>db.
       bindE (effectIn i db) (\<lambda>r.
       bindE (failif (ew_State r \<noteq> StateExecuting) (Errorf ''only an interrupted executing effect can become unknown'')) (\<lambda>_.
       Inr ((), end_dispatch (ew_AuthorizationID r) ''unknown'' now
                 (end_authorization (ew_AuthorizationID r) ''unknown'' (\<lambda>_. now)
                   (settle_effect i StateUnknown (\<lambda>_. ''unknown'') now db))))))"

text \<open>\<^verbatim>\<open>FinishGrant\<close> reads the grant and its intent before the transaction; the outcome checks both again.\<close>

definition FinishGrant ::
  "'x effect_ports \<Rightarrow> instant \<Rightarrow> instant \<Rightarrow> string \<Rightarrow> string \<Rightarrow> string \<Rightarrow> 'x effect_db \<Rightarrow> (go_err, unit, 'x effect_db) outcome" where
  "FinishGrant P now go_now rnd i state db =
     (case bindE (failif (state \<noteq> ''dispatch_completed'' \<and> state \<noteq> ''unknown'') (Errorf ''unsupported dispatch outcome'')) (\<lambda>_.
            bindE (GetGrant i db) (\<lambda>g. bindE (GetIntent (ab_ActionID (gr_Binding g)) db) (\<lambda>w. Inr (g, w)))) of
        Inl err \<Rightarrow> (Inl err, db)
      | Inr (g, w) \<Rightarrow>
          let b = gr_Binding g
          in apfst (map_sum id (\<lambda>_. ())) (RecordDispatchOutcome P now go_now i state
               \<lparr>ee_SSO = None, ee_Login = None, ee_EvidenceID = ''evidence_'' @ rnd, ee_ActionID = it_EffectID w,
                ee_SourceActionID = ab_ActionID b, ee_SourceToolCallID = ab_ToolCallID b, ee_SourceRunID = ab_RunID b,
                ee_Source = ''runtime_response'', ee_Method = ep_VerificationMethod (it_EffectPolicy w),
                ee_Verdict = StateUnknown, ee_ResultDigest = [], ee_ArtifactDigest = [], ee_NormalizedResultDigest = [],
                ee_ErrorCategory = [], ee_ObservedAt = go_now, ee_RecordedAt = go_now\<rparr> db))"

section \<open>Mandates\<close>

definition read_mandate :: "mandate_row \<Rightarrow> Mandate" where
  "read_mandate r =
     (md_data r)\<lparr>m_Revision := md_revision r, m_RevokedAt := md_revoked_at r, m_Status := md_status r, m_ExpiresAt := md_expires_at r\<rparr>"

definition GetMandate :: "string \<Rightarrow> 'x effect_db \<Rightarrow> go_err + Mandate" where
  "GetMandate i db = map_sum id read_mandate (need (tbl_find md_mandate_id i (ef_mandates db)) ErrNoRows)"

text \<open>Mandates of a single task; \<^verbatim>\<open>INSERT ... ON CONFLICT(mandate_id) DO UPDATE ... WHERE\<close> and the number of rows it affected.\<close>

definition PutMandate :: "auth_lib \<Rightarrow> instant \<Rightarrow> Mandate \<Rightarrow> 'x effect_db \<Rightarrow> (go_err, unit, 'x effect_db) outcome" where
  "PutMandate L go_now m =
     run_tx (\<lambda>db.
       bindE (failif (m_ScopeKind m = ''owner_goal'') (Errorf ''broad owner authority requires authenticated owner goal service'')) (\<lambda>_.
       bindE (ValidateMandate L m go_now) (\<lambda>_.
       case tbl_find md_mandate_id (m_ID m) (ef_mandates db) of
         None \<Rightarrow>
           Inr ((), db\<lparr>ef_mandates := ef_mandates db @
             [\<lparr>md_mandate_id = m_ID m, md_owner_id = m_OwnerID m, md_task_id = m_TaskID m, md_revision = m_Revision m,
               md_expires_at = micros (m_ExpiresAt m), md_revoked_at = None, md_scope_kind = ''task'', md_goal_id = None,
               md_goal_revision = 0, md_status = ''active'', md_data = m\<rparr>]\<rparr>)
       | Some r \<Rightarrow>
           bindE (failif (\<not> (md_scope_kind r = ''task'' \<and> md_owner_id r = m_OwnerID m \<and> md_task_id r = m_TaskID m
                    \<and> md_revision r + 1 = m_Revision m \<and> md_revoked_at r = None)) (Errorf ''mandate owner or revision is incompatible'')) (\<lambda>_.
           Inr ((), db\<lparr>ef_mandates := tbl_update (\<lambda>r. md_mandate_id r = m_ID m)
             (\<lambda>r. r\<lparr>md_revision := m_Revision m, md_data := m, md_expires_at := micros (m_ExpiresAt m)\<rparr>) (ef_mandates db)\<rparr>)))))"

definition RevokeMandate :: "instant \<Rightarrow> string \<Rightarrow> string \<Rightarrow> int \<Rightarrow> 'x effect_db \<Rightarrow> (go_err, unit, 'x effect_db) outcome" where
  "RevokeMandate now i ownerID revision =
     run_tx (\<lambda>db.
       let sel = (\<lambda>m. md_mandate_id m = i \<and> md_owner_id m = ownerID \<and> md_revision m = revision
                      \<and> md_scope_kind m = ''task'' \<and> md_revoked_at m = None)
       in bindE (failif (tbl_count sel (ef_mandates db) \<noteq> 1) (Errorf ''mandate owner or revision is incompatible'')) (\<lambda>_.
          Inr ((), db\<lparr>ef_mandates := tbl_update sel
                 (\<lambda>m. m\<lparr>md_revoked_at := Some now, md_status := ''revoked'', md_revision := md_revision m + 1\<rparr>) (ef_mandates db)\<rparr>)))"

end
