(* ===== verification/EffectProps.thy ===== *)
theory EffectProps
  imports Effect
begin

text \<open>
  The journal as a state machine. \<open>journal_move\<close> is the abstract specification: an effect is proposed,
  stays open while it is authorized, is dispatched once, and is settled from an uncertain state with
  evidence. \<open>effect_step\<close> has one rule per operation of the store, one for each kind of statement other
  components run on the journal, and one for changes of the tables the journal only reads;
  \<open>effect_step_moves\<close> is the refinement.
\<close>

section \<open>The abstract journal\<close>

type_synonym journal = "effect_row list \<times> dispatch_row list \<times> evidence_row list"

definition journal_of :: "'x effect_db \<Rightarrow> journal" where
  "journal_of db = (ef_effects db, ef_dispatches db, ef_evidence db)"

definition uncertain :: "string \<Rightarrow> bool" where
  "uncertain s \<longleftrightarrow> s = StateExecuting \<or> s = StateUnknown"

definition settled_state :: "string \<Rightarrow> bool" where
  "settled_state s \<longleftrightarrow> s = StateConfirmed \<or> s = StateAbsent"

definition proves :: "string \<Rightarrow> string \<Rightarrow> evidence_row \<Rightarrow> bool" where
  "proves i verdict x \<longleftrightarrow> ev_action_id x = i \<and> ee_Verdict (ev_evidence x) = verdict"

abbreviation ending :: "string \<Rightarrow> string \<Rightarrow> instant option \<Rightarrow> dispatch_row list \<Rightarrow> dispatch_row list" where
  "ending a outc t \<equiv> tbl_update (\<lambda>d. ds_authorization_id d = a \<and> ds_outcome d = ''executing'')
                       (\<lambda>d. d\<lparr>ds_outcome := outc, ds_finished_at := t\<rparr>)"

inductive journal_move :: "journal \<Rightarrow> journal \<Rightarrow> bool" where
  mv_none: "journal_move j j"
| mv_propose:
    "tbl_find ew_ActionID (ew_ActionID e) es = None \<Longrightarrow> ew_State e = StatePrepared \<Longrightarrow>
     journal_move (es, ds, xs) (es @ [e], ds, xs)"
| mv_open:
    "(\<And>r. r \<in> set es \<Longrightarrow> p r \<Longrightarrow> open_state (ew_State r) \<and> open_state (ew_State (f r)) \<and> ew_ActionID (f r) = ew_ActionID r) \<Longrightarrow>
     journal_move (es, ds, xs) (tbl_update p f es, ds, xs)"
| mv_dispatch:
    "tbl_find ew_ActionID i es = Some e \<Longrightarrow> ew_State e = StateAllowed \<Longrightarrow>
     tbl_find ds_authorization_id (ew_AuthorizationID e) ds = None \<Longrightarrow>
     ds_authorization_id d = ew_AuthorizationID e \<Longrightarrow> ds_action_id d = i \<Longrightarrow> ds_outcome d = ''executing'' \<Longrightarrow>
     journal_move (es, ds, xs)
       (tbl_update (\<lambda>r. ew_ActionID r = i) (\<lambda>r. r\<lparr>ew_State := StateExecuting, ew_DispatchOutcome := ''executing'', ew_UpdatedAt := t\<rparr>) es,
        ds @ [d], xs)"
| mv_register:
    "tbl_find ew_ActionID (ew_ActionID e) es = None \<Longrightarrow> ew_State e = StateExecuting \<Longrightarrow>
     tbl_find ds_authorization_id (ew_AuthorizationID e) ds = None \<Longrightarrow>
     ds_authorization_id d = ew_AuthorizationID e \<Longrightarrow> ds_action_id d = ew_ActionID e \<Longrightarrow> ds_outcome d = ''executing'' \<Longrightarrow>
     journal_move (es, ds, xs) (es @ [e], ds @ [d], xs)"
| mv_evidence: "journal_move (es, ds, xs) (es, ds, xs @ ys)"
| mv_settle:
    "tbl_find ew_ActionID i es = Some e \<Longrightarrow> uncertain (ew_State e) \<Longrightarrow>
     verdict = StateUnknown \<or> settled_state verdict \<and> (\<exists>x \<in> set (xs @ ys). proves i verdict x) \<Longrightarrow> outc \<noteq> ''executing'' \<Longrightarrow>
     journal_move (es, ds, xs)
       (tbl_update (\<lambda>r. ew_ActionID r = i)
          (\<lambda>r. r\<lparr>ew_State := verdict, ew_DispatchOutcome := g (ew_DispatchOutcome r), ew_UpdatedAt := t\<rparr>) es,
        ending (ew_AuthorizationID e) outc t' ds, xs @ ys)"

inductive_cases journal_moveE: "journal_move j j'"

text \<open>Rows agree: a dispatch is the one dispatch of its effect, and it runs exactly while the effect executes.\<close>

definition belongs :: "effect_row \<Rightarrow> dispatch_row \<Rightarrow> bool" where
  "belongs e d \<longleftrightarrow>
     ew_ActionID e = ds_action_id d \<and> ew_AuthorizationID e = ds_authorization_id d \<and> \<not> open_state (ew_State e)
     \<and> (ds_outcome d = ''executing'' \<longleftrightarrow> ew_State e = StateExecuting)"

definition effect_state_known :: "string \<Rightarrow> bool" where
  "effect_state_known s \<longleftrightarrow> open_state s \<or> uncertain s \<or> settled_state s"

definition effect_ok :: "string set \<Rightarrow> evidence_row set \<Rightarrow> effect_row \<Rightarrow> bool" where
  "effect_ok dispatched xs e \<longleftrightarrow>
     effect_state_known (ew_State e) \<and> (open_state (ew_State e) \<or> ew_ActionID e \<in> dispatched)
     \<and> (settled_state (ew_State e) \<longrightarrow> (\<exists>x \<in> xs. proves (ew_ActionID e) (ew_State e) x))"

fun journal_ok :: "journal \<Rightarrow> bool" where
  "journal_ok (es, ds, xs) \<longleftrightarrow>
     keyed ew_ActionID es \<and> keyed ds_action_id ds \<and> keyed ds_authorization_id ds
     \<and> (\<forall>d \<in> set ds. \<exists>e \<in> set es. belongs e d)
     \<and> (\<forall>e \<in> set es. effect_ok (ds_action_id ` set ds) (set xs) e)"

lemma state_facts [simp]:
  "open_state StatePrepared" "open_state StateAllowed" "\<not> open_state StateExecuting" "\<not> open_state StateUnknown"
  "\<not> settled_state StateExecuting" "\<not> settled_state StateUnknown" "\<not> settled_state StatePrepared" "\<not> settled_state StateAllowed"
  "StateUnknown \<noteq> StateExecuting" "StateConfirmed \<noteq> StateExecuting" "StateAbsent \<noteq> StateExecuting" "StateAllowed \<noteq> StateExecuting"
  "uncertain StateExecuting" "uncertain StateUnknown"
  by (simp_all add: open_state_def settled_state_def uncertain_def effect_state_defs)

lemma state_kinds:
  "settled_state s \<Longrightarrow> \<not> open_state s" "settled_state s \<Longrightarrow> \<not> uncertain s" "uncertain s \<Longrightarrow> \<not> open_state s"
  "settled_state s \<Longrightarrow> s \<noteq> StateExecuting"
  by (auto simp: open_state_def settled_state_def uncertain_def effect_state_defs)

lemma known_effect_states [simp]:
  "open_state s \<Longrightarrow> effect_state_known s" "uncertain s \<Longrightarrow> effect_state_known s" "settled_state s \<Longrightarrow> effect_state_known s"
  by (simp_all add: effect_state_known_def)

lemma belongs_kept: "belongs e d \<Longrightarrow> ew_ActionID e' = ew_ActionID e \<Longrightarrow> ew_AuthorizationID e' = ew_AuthorizationID e \<Longrightarrow>
    \<not> open_state (ew_State e') \<Longrightarrow> (ew_State e' = StateExecuting \<longleftrightarrow> ew_State e = StateExecuting) \<Longrightarrow> belongs e' d"
  by (simp add: belongs_def)

lemma dispatch_of_effect:
  assumes "journal_ok (es, ds, xs)" and "d \<in> set ds" and "e \<in> set es" and "ds_action_id d = ew_ActionID e"
  shows "belongs e d"
proof -
  from assms(1,2) obtain e' where "e' \<in> set es" and "belongs e' d" by auto
  moreover have "e' = e"
    using assms calculation keyed_eq [of ew_ActionID es e' e] by (simp add: belongs_def)
  ultimately show ?thesis by simp
qed

lemma effect_ok_mono: "effect_ok A xs e \<Longrightarrow> A \<subseteq> B \<Longrightarrow> xs \<subseteq> ys \<Longrightarrow> effect_ok B ys e"
  by (auto simp: effect_ok_def)

lemma effect_ok_open [simp]: "open_state (ew_State e) \<Longrightarrow> effect_ok A xs e"
  by (auto simp: effect_ok_def dest: state_kinds)

lemma dispatched_iff_closed:
  assumes "journal_ok (es, ds, xs)" and "e \<in> set es"
  shows "ew_ActionID e \<in> ds_action_id ` set ds \<longleftrightarrow> \<not> open_state (ew_State e)"
proof
  assume "ew_ActionID e \<in> ds_action_id ` set ds"
  then obtain d where "d \<in> set ds" and "ds_action_id d = ew_ActionID e" by auto
  with dispatch_of_effect [OF assms(1) _ assms(2)] have "belongs e d" by blast
  then show "\<not> open_state (ew_State e)" by (simp add: belongs_def)
next
  assume "\<not> open_state (ew_State e)"
  with assms show "ew_ActionID e \<in> ds_action_id ` set ds" by (auto simp: effect_ok_def)
qed

text \<open>Every move keeps the rows in agreement.\<close>

lemma ok_propose:
  assumes "journal_ok (es, ds, xs)" and "tbl_find ew_ActionID (ew_ActionID e) es = None" and "ew_State e = StatePrepared"
  shows "journal_ok (es @ [e], ds, xs)"
  using assms by (simp add: keyed_snoc)

lemma ok_open:
  assumes ok: "journal_ok (es, ds, xs)"
    and p: "\<And>r. r \<in> set es \<Longrightarrow> p r \<Longrightarrow> open_state (ew_State r) \<and> open_state (ew_State (f r)) \<and> ew_ActionID (f r) = ew_ActionID r"
  shows "journal_ok (tbl_update p f es, ds, xs)"
proof -
  have ids: "map ew_ActionID (tbl_update p f es) = map ew_ActionID es"
    using p by (simp add: tbl_update_def)
  have "\<exists>e \<in> set (tbl_update p f es). belongs e d" if "d \<in> set ds" for d
  proof -
    from ok that obtain e where e: "e \<in> set es" "belongs e d" by auto
    then have "\<not> p e" using p by (auto simp: belongs_def)
    with e show ?thesis by (auto simp: set_tbl_update)
  qed
  moreover have "effect_ok (ds_action_id ` set ds) (set xs) r" if "r \<in> set (tbl_update p f es)" for r
    using that ok p by (auto simp: set_tbl_update)
  ultimately show ?thesis using ok ids by (simp add: keyed_def)
qed

text \<open>An update of the row of one effect.\<close>

abbreviation at_effect :: "string \<Rightarrow> (effect_row \<Rightarrow> effect_row) \<Rightarrow> effect_row list \<Rightarrow> effect_row list" where
  "at_effect i f \<equiv> tbl_update (\<lambda>r. ew_ActionID r = i) f"

lemma in_at_effect:
  "r \<in> set (at_effect i f es) \<longleftrightarrow> (\<exists>e \<in> set es. r = (if ew_ActionID e = i then f e else e))"
  by (simp only: set_tbl_update image_iff)

lemma at_effectI:
  "e \<in> set es \<Longrightarrow> ew_ActionID e = i \<Longrightarrow> f e \<in> set (at_effect i f es)"
  "e \<in> set es \<Longrightarrow> ew_ActionID e \<noteq> i \<Longrightarrow> e \<in> set (at_effect i f es)"
  by (auto simp: in_at_effect)

lemma ok_evidence: "journal_ok (es, ds, xs) \<Longrightarrow> journal_ok (es, ds, xs @ ys)"
  by (auto simp: effect_ok_def)

lemma ok_register:
  assumes "journal_ok (es, ds, xs)" and "tbl_find ew_ActionID (ew_ActionID e) es = None" and "ew_State e = StateExecuting"
    and "tbl_find ds_authorization_id (ew_AuthorizationID e) ds = None"
    and "ds_authorization_id d = ew_AuthorizationID e" and "ds_action_id d = ew_ActionID e" and "ds_outcome d = ''executing''"
  shows "journal_ok (es @ [e], ds @ [d], xs)"
proof -
  have "ew_ActionID e \<noteq> ds_action_id d'" if "d' \<in> set ds" for d'
  proof -
    from assms(1) that obtain e' where "e' \<in> set es" and "ew_ActionID e' = ds_action_id d'" by (auto simp: belongs_def)
    with assms(2) show ?thesis by (metis image_eqI tbl_find_None_iff)
  qed
  then have "tbl_find ds_action_id (ds_action_id d) ds = None"
    by (auto simp: tbl_find_None_iff assms(6))
  moreover have "effect_ok (ds_action_id ` set (ds @ [d])) (set xs) r" if "r \<in> set (es @ [e])" for r
    using that assms(1,3,6) by (auto simp: effect_ok_def)
  moreover have "belongs e d" using assms by (simp add: belongs_def)
  ultimately show ?thesis using assms(1,2,4,5) by (simp add: keyed_snoc)
qed

lemma ok_dispatch:
  assumes ok: "journal_ok (es, ds, xs)" and e: "tbl_find ew_ActionID i es = Some e" "ew_State e = StateAllowed"
    and fresh: "tbl_find ds_authorization_id (ew_AuthorizationID e) ds = None"
    and d: "ds_authorization_id d = ew_AuthorizationID e" "ds_action_id d = i" "ds_outcome d = ''executing''"
    and f: "\<And>r. ew_ActionID (f r) = ew_ActionID r" "\<And>r. ew_AuthorizationID (f r) = ew_AuthorizationID r"
      "\<And>r. ew_State (f r) = StateExecuting"
  shows "journal_ok (at_effect i f es, ds @ [d], xs)"
proof -
  from e have es: "e \<in> set es" "ew_ActionID e = i" by (auto dest: tbl_find_SomeD)
  have none: "ds_action_id d' \<noteq> i" if "d' \<in> set ds" for d'
    using dispatch_of_effect [OF ok that es(1)] es e(2) by (auto simp: belongs_def)
  then have "tbl_find ds_action_id (ds_action_id d) ds = None" by (auto simp: tbl_find_None_iff d)
  then have keys: "keyed ds_action_id (ds @ [d])" "keyed ds_authorization_id (ds @ [d])"
    using ok fresh d by (simp_all add: keyed_snoc)
  have "\<exists>r \<in> set (at_effect i f es). belongs r d'" if "d' \<in> set (ds @ [d])" for d'
  proof (cases "d' = d")
    case True
    then have "belongs (f e) d'" using es by (simp add: belongs_def d f)
    with es show ?thesis by (blast intro: at_effectI)
  next
    case False
    with that ok obtain r where "r \<in> set es" "belongs r d'" by auto
    moreover have "ew_ActionID r \<noteq> i" using none [of d'] False that calculation by (auto simp: belongs_def)
    ultimately show ?thesis by (blast intro: at_effectI(2))
  qed
  moreover have "effect_ok (ds_action_id ` set (ds @ [d])) (set xs) r" if "r \<in> set (at_effect i f es)" for r
  proof -
    from that obtain r' where r': "r' \<in> set es" "r = (if ew_ActionID r' = i then f r' else r')" by (auto simp: in_at_effect)
    with ok have "effect_ok (ds_action_id ` set ds) (set xs) r'" by simp
    then show ?thesis by (auto simp: r'(2) f d effect_ok_def)
  qed
  ultimately show ?thesis using ok keys by (simp add: keyed_tbl_update f)
qed

lemma ok_settle:
  assumes ok: "journal_ok (es, ds, xs)" and e: "tbl_find ew_ActionID i es = Some e" "uncertain (ew_State e)"
    and v: "verdict = StateUnknown \<or> settled_state verdict \<and> (\<exists>x \<in> set (xs @ ys). proves i verdict x)"
    and outc: "outc \<noteq> ''executing''"
    and f: "\<And>r. ew_ActionID (f r) = ew_ActionID r" "\<And>r. ew_AuthorizationID (f r) = ew_AuthorizationID r"
      "\<And>r. ew_State (f r) = verdict"
  shows "journal_ok (at_effect i f es, ending (ew_AuthorizationID e) outc t ds, xs @ ys)"
proof -
  from e have es: "e \<in> set es" "ew_ActionID e = i" by (auto dest: tbl_find_SomeD)
  have vs: "\<not> open_state verdict" "verdict \<noteq> StateExecuting" using v state_kinds(1,4) [of verdict] state_facts(4,9) by metis+
  let ?ds = "ending (ew_AuthorizationID e) outc t ds"
  have "\<exists>r \<in> set (at_effect i f es). belongs r d'" if "d' \<in> set ?ds" for d'
  proof -
    from that obtain d where d: "d \<in> set ds" and d': "d' = (if ds_authorization_id d = ew_AuthorizationID e \<and> ds_outcome d = ''executing''
        then d\<lparr>ds_outcome := outc, ds_finished_at := t\<rparr> else d)"
      by (auto simp: set_tbl_update)
    from ok d obtain r where r: "r \<in> set es" "belongs r d" by auto
    show ?thesis
    proof (cases "ew_ActionID r = i")
      case True
      with r es ok have "r = e" by (auto intro: keyed_eq)
      with r have "belongs (f e) d'" using vs outc by (auto simp: belongs_def d' f)
      with es show ?thesis by (blast intro: at_effectI)
    next
      case False
      have "ds_authorization_id d \<noteq> ew_AuthorizationID e \<or> ds_outcome d \<noteq> ''executing''"
      proof (rule ccontr)
        assume "\<not> ?thesis"
        moreover from dispatched_iff_closed [OF ok es(1)] es(2) e(2)
        obtain d2 where "d2 \<in> set ds" "ds_action_id d2 = i" by (auto dest: state_kinds)
        moreover have "belongs e d2" using dispatch_of_effect [OF ok] calculation es by simp
        ultimately have "d2 = d" using ok d keyed_eq [of ds_authorization_id ds d2 d] by (simp add: belongs_def)
        with r(2) False \<open>ds_action_id d2 = i\<close> show False by (simp add: belongs_def)
      qed
      then have "d' = d" by (auto simp: d')
      with r False show ?thesis by (blast intro: at_effectI(2))
    qed
  qed
  moreover have "keyed ds_action_id ?ds" "keyed ds_authorization_id ?ds"
    using ok by (simp_all add: keyed_tbl_update)
  moreover have "effect_ok (ds_action_id ` set ?ds) (set (xs @ ys)) r" if "r \<in> set (at_effect i f es)" for r
  proof -
    have ids: "ds_action_id ` set ?ds = ds_action_id ` set ds"
      by (simp only: list.set_map [symmetric]) (simp add: map_key_tbl_update)
    from that obtain r' where r': "r' \<in> set es" "r = (if ew_ActionID r' = i then f r' else r')" by (auto simp: in_at_effect)
    show ?thesis
    proof (cases "ew_ActionID r' = i")
      case True
      with r' es ok have "r' = e" by (auto intro: keyed_eq)
      then have "i \<in> ds_action_id ` set ds"
        using dispatched_iff_closed [OF ok es(1)] e(2) es(2) by (auto dest: state_kinds)
      with v True show ?thesis unfolding ids by (auto simp: r'(2) f effect_ok_def)
    next
      case False
      with r' ok show ?thesis unfolding ids by (auto intro: effect_ok_mono)
    qed
  qed
  ultimately show ?thesis using ok by (simp add: keyed_tbl_update f)
qed

lemma journal_move_ok: "journal_move j j' \<Longrightarrow> journal_ok j \<Longrightarrow> journal_ok j'"
proof (induction rule: journal_move.induct)
  case (mv_dispatch i es e ds d xs t)
  then show ?case by (intro ok_dispatch) simp_all
next
  case (mv_settle i es e verdict xs ys outc ds t g t')
  then show ?case by (intro ok_settle) simp_all
qed (blast intro: ok_propose ok_open ok_register ok_evidence)+

section \<open>Steps\<close>

text \<open>
  The rules after the operations of the store are statements of other components: a login with an
  external provider registers an effect that executes at once and ends with the evidence of the
  credential kernel; stopped attempts and attestations of the owner settle an unknown effect with
  evidence, and stopped attempts record evidence before they settle. The last rule covers every change of
  tables the journal does not own.
\<close>

inductive effect_step :: "'x effect_db \<Rightarrow> 'x effect_db \<Rightarrow> bool" where
  st_intent: "PutIntent P now i s = (res, t) \<Longrightarrow> effect_step s t"
| st_grant: "PutGrant now g s = (res, t) \<Longrightarrow> effect_step s t"
| st_claim: "ClaimGrant P ck i s = (res, t) \<Longrightarrow> effect_step s t"
| st_outcome: "RecordDispatchOutcome P now go_now i outc e s = (res, t) \<Longrightarrow> effect_step s t"
| st_finish: "FinishGrant P now go_now rnd i outc s = (res, t) \<Longrightarrow> effect_step s t"
| st_reconcile: "ReconcileEffect now go_now i j e s = (res, t) \<Longrightarrow> effect_step s t"
| st_interrupt: "MarkInterruptedEffect now i s = (res, t) \<Longrightarrow> effect_step s t"
| st_revoke: "RevokeMandate now i ow n s = (res, t) \<Longrightarrow> effect_step s t"
| st_external_begin:
    "tbl_find ew_ActionID (ew_ActionID e) (ef_effects s) = None \<Longrightarrow> ew_State e = StateExecuting \<Longrightarrow>
     tbl_find ds_authorization_id (ew_AuthorizationID e) (ef_dispatches s) = None \<Longrightarrow>
     ds_authorization_id d = ew_AuthorizationID e \<Longrightarrow> ds_action_id d = ew_ActionID e \<Longrightarrow> ds_outcome d = ''executing'' \<Longrightarrow>
     effect_step s (s\<lparr>ef_effects := ef_effects s @ [e], ef_intents := ws, ef_dispatches := ef_dispatches s @ [d], ef_other := x\<rparr>)"
| st_external_finish:
    "effectIn (ee_ActionID e) s = Inr r \<Longrightarrow> ew_State r = StateExecuting \<Longrightarrow>
     ee_Verdict e = StateUnknown \<or> settled_state (ee_Verdict e) \<Longrightarrow> insertEvidence go_now e s = Inr s1 \<Longrightarrow> outc \<noteq> ''executing'' \<Longrightarrow>
     effect_step s (end_dispatch (ew_AuthorizationID r) outc now
                     (settle_effect (ee_ActionID e) (ee_Verdict e) (\<lambda>_. outc) now s1))"
| st_attested:
    "effectIn i s = Inr r \<Longrightarrow> ew_State r = StateUnknown \<Longrightarrow> settled_state verdict \<Longrightarrow>
     \<exists>x \<in> set (ef_evidence s @ xs). proves i verdict x \<Longrightarrow>
     effect_step s (settle_effect i verdict id now (s\<lparr>ef_evidence := ef_evidence s @ xs\<rparr>))"
| st_evidence: "insertEvidence go_now e s = Inr t \<Longrightarrow> effect_step s t"
| st_elsewhere:
    "journal_of t = journal_of s \<Longrightarrow> effect_step s t"

lemma journal_of_update [simp]:
  "journal_of (s\<lparr>ef_intents := ws\<rparr>) = journal_of s" "journal_of (s\<lparr>ef_authorizations := as\<rparr>) = journal_of s"
  "journal_of (s\<lparr>ef_other := x\<rparr>) = journal_of s" "journal_of (s\<lparr>ef_mandates := ms\<rparr>) = journal_of s"
  by (simp_all add: journal_of_def)

lemma journal_of_tables:
  "journal_of (set_effect i f s) = (at_effect i f (ef_effects s), ef_dispatches s, ef_evidence s)"
  "journal_of (settle_effect i v g t s) =
     (at_effect i (\<lambda>r. r\<lparr>ew_State := v, ew_DispatchOutcome := g (ew_DispatchOutcome r), ew_UpdatedAt := t\<rparr>) (ef_effects s),
      ef_dispatches s, ef_evidence s)"
  "journal_of (end_dispatch a outc now s) = (ef_effects s, ending a outc (Some now) (ef_dispatches s), ef_evidence s)"
  "journal_of (end_authorization a outc w s) = journal_of s"
  by (simp_all add: journal_of_def set_effect_def settle_effect_def end_dispatch_def end_authorization_def)

lemma table_simps [simp]:
  "ef_effects (end_dispatch a outc now s) = ef_effects s"
  "ef_dispatches (end_dispatch a outc now s) = ending a outc (Some now) (ef_dispatches s)"
  "ef_evidence (end_dispatch a outc now s) = ef_evidence s"
  "ef_effects (end_authorization a outc w s) = ef_effects s"
  "ef_dispatches (end_authorization a outc w s) = ef_dispatches s"
  "ef_evidence (end_authorization a outc w s) = ef_evidence s"
  "ef_effects (settle_effect i v g t s) =
     at_effect i (\<lambda>r. r\<lparr>ew_State := v, ew_DispatchOutcome := g (ew_DispatchOutcome r), ew_UpdatedAt := t\<rparr>) (ef_effects s)"
  "ef_dispatches (settle_effect i v g t s) = ef_dispatches s"
  "ef_evidence (settle_effect i v g t s) = ef_evidence s"
  "ef_effects (set_effect i f s) = at_effect i f (ef_effects s)"
  "ef_dispatches (set_effect i f s) = ef_dispatches s"
  "ef_evidence (set_effect i f s) = ef_evidence s"
  by (simp_all add: set_effect_def settle_effect_def end_dispatch_def end_authorization_def)

lemma on_other_tables:
  assumes "on_other f db = Inr db'"
  shows "ef_effects db' = ef_effects db" "ef_dispatches db' = ef_dispatches db" "ef_evidence db' = ef_evidence db"
    "ef_authorizations db' = ef_authorizations db" "ef_intents db' = ef_intents db" "ef_mandates db' = ef_mandates db"
  using assms by (auto simp: on_other_def map_sum_def split: sum.splits)

lemma effectIn_Inr: "effectIn i db = Inr r \<longleftrightarrow>
    (\<exists>e. tbl_find ew_ActionID i (ef_effects db) = Some e \<and> r = scan_effect e (evidence_refs i db))"
  by (auto simp: effectIn_def)

lemma scan_effect_simps [simp]:
  "ew_ActionID (scan_effect e refs) = ew_ActionID e" "ew_State (scan_effect e refs) = ew_State e"
  "ew_AuthorizationID (scan_effect e refs) = ew_AuthorizationID e" "ew_Policy (scan_effect e refs) = ew_Policy e"
  "ew_Binding (scan_effect e refs) = ew_Binding e" "ew_EvidenceRefs (scan_effect e refs) = refs"
  by (simp_all add: scan_effect_def)

lemma insertEvidence_tables:
  assumes "insertEvidence now e db = Inr db'"
  obtains x where "ef_evidence db' = ef_evidence db @ [x]" and "proves (ee_ActionID e) (ee_Verdict e) x"
    and "ef_effects db' = ef_effects db" and "ef_dispatches db' = ef_dispatches db"
    and "ef_authorizations db' = ef_authorizations db"
  using assms by (auto simp: insertEvidence_def proves_def)

section \<open>Refinement\<close>

lemma put_effect_moves:
  assumes "put_effect key now i s = (fp, t)"
  shows "journal_move (journal_of s) (journal_of t)"
proof (cases "tbl_find ew_ActionID (it_EffectID i) (ef_effects s)")
  case None
  with assms show ?thesis by (auto simp: put_effect_def journal_of_def intro!: mv_propose)
next
  case (Some r)
  with assms show ?thesis by (auto simp: put_effect_def intro: mv_none)
qed

lemma upgrade_effect_moves: "upgrade_effect key i s = Inr t \<Longrightarrow> journal_move (journal_of s) (journal_of t)"
  by (auto simp: upgrade_effect_def journal_of_def upgradable_def intro!: mv_open)

lemma put_intent_row_journal: "put_intent_row i s = Inr t \<Longrightarrow> journal_of t = journal_of s"
  by (auto simp: put_intent_row_def Let_def split: option.splits if_splits)

lemma PutIntent_moves:
  assumes "PutIntent P now i s = (res, t)"
  shows "journal_move (journal_of s) (journal_of t)"
  using assms unfolding PutIntent_def
proof (cases rule: run_tx_cases)
  case failure
  then show ?thesis by (simp add: mv_none)
next
  case success
  then obtain key fp s1 s2 where put: "put_effect key now i s = (fp, s1)"
    and up: "(if fp \<noteq> it_EffectFingerprint i then upgrade_effect key i s1 else Inr s1) = Inr s2"
    and row: "put_intent_row i s2 = Inr t"
    by (auto simp: Let_def split: prod.splits)
  show ?thesis
  proof (cases "fp = it_EffectFingerprint i")
    case True
    with up put_effect_moves [OF put] put_intent_row_journal [OF row] show ?thesis by simp
  next
    case False
    then have "s1 = s" using put by (auto simp: put_effect_def split: option.splits)
    with False up upgrade_effect_moves [of key i s s2] put_intent_row_journal [OF row] show ?thesis by simp
  qed
qed

lemma put_authorization_journal: "put_authorization g s = Some t \<Longrightarrow> journal_of t = journal_of s"
  by (auto simp: put_authorization_def Let_def split: option.splits if_splits)

lemma journal_of_eqD:
  assumes "journal_of t = journal_of s"
  shows "ef_effects t = ef_effects s" "ef_dispatches t = ef_dispatches s" "ef_evidence t = ef_evidence s"
  using assms by (simp_all add: journal_of_def)

lemma PutGrant_Inr:
  assumes "PutGrant now g s = (Inr g', t)"
  obtains w e s1 where "g' = g" and "tbl_find iw_action_id (ab_ActionID (gr_Binding g)) (ef_intents s) = Some w"
    and "tbl_find ew_ActionID (iw_effect_id w) (ef_effects s) = Some e" and "open_state (ew_State e)"
    and "put_authorization g s = Some s1"
    and "t = set_effect (ew_ActionID e) (\<lambda>r. r\<lparr>ew_State := StateAllowed, ew_AuthorizationID := gr_ID g, ew_UpdatedAt := now\<rparr>) s1"
  using assms by (auto simp: PutGrant_def run_tx_Inr_iff Let_def)

lemma PutGrant_moves:
  assumes "PutGrant now g s = (res, t)" and ok: "journal_ok (journal_of s)"
  shows "journal_move (journal_of s) (journal_of t)"
proof (cases res)
  case (Inl e)
  with assms show ?thesis by (auto simp: PutGrant_def dest: run_tx_Inl intro: mv_none)
next
  case (Inr g')
  then have "PutGrant now g s = (Inr g', t)" using assms(1) by simp
  then obtain w e s1 where "g' = g" and "tbl_find iw_action_id (ab_ActionID (gr_Binding g)) (ef_intents s) = Some w"
    and e: "tbl_find ew_ActionID (iw_effect_id w) (ef_effects s) = Some e" "open_state (ew_State e)"
    and s1: "put_authorization g s = Some s1"
    and t: "t = set_effect (ew_ActionID e) (\<lambda>r. r\<lparr>ew_State := StateAllowed, ew_AuthorizationID := gr_ID g, ew_UpdatedAt := now\<rparr>) s1"
    by (rule PutGrant_Inr)
  have "open_state (ew_State r)" if "r \<in> set (ef_effects s)" "ew_ActionID r = ew_ActionID e" for r
    using that e ok keyed_eq [of ew_ActionID "ef_effects s" r e] by (auto simp: journal_of_def dest: tbl_find_SomeD)
  then show ?thesis
    using journal_of_eqD [OF put_authorization_journal [OF s1]]
    by (auto simp: t journal_of_tables journal_of_def [of s] intro!: mv_open)
qed

text \<open>What a successful claim has checked and done.\<close>

lemma ClaimGrant_Inr:
  assumes "ClaimGrant P ck i s = (Inr u, t)"
  obtains g e d where "grantInTx i s = Inr g" and "guardDispatch P ck g s = Inr ()"
    and "effect_of (ab_ActionID (gr_Binding g)) s = Some e" and "ew_State e = StateAllowed" and "ew_AuthorizationID e = i"
    and "tbl_find ds_authorization_id i (ef_dispatches s) = None"
    and "\<exists>a \<in> set (ef_authorizations s). au_authorization_id a = i \<and> au_state a = ''authorized'' \<and> ck_claim ck < au_expires_at a
           \<and> mandate_live (ck_claim ck) s a"
    and "ds_authorization_id d = i" and "ds_action_id d = ew_ActionID e" and "ds_outcome d = ''executing''"
    and "journal_of t =
      (at_effect (ew_ActionID e) (\<lambda>r. r\<lparr>ew_State := StateExecuting, ew_DispatchOutcome := ''executing'', ew_UpdatedAt := ck_tx ck\<rparr>) (ef_effects s),
       ef_dispatches s @ [d], ef_evidence s)"
proof -
  from assms obtain g j s1 s2 where g: "grantInTx i s = Inr g" "guardDispatch P ck g s = Inr ()"
    and j: "claim_target i (ab_ActionID (gr_Binding g)) s = Some j"
    and s1: "(case pt_reserve P of None \<Rightarrow> Inr s | Some reserve \<Rightarrow> on_other (\<lambda>x. reserve x (toolBudgetIdentity P g j)) s) = Inr s1"
    and s2: "(case pt_claim_action P of None \<Rightarrow> Inr s1 | Some claim \<Rightarrow> on_other (\<lambda>x. claim x g j) s1) = Inr s2"
    and t: "commit_claim (ck_tx ck) (ck_claim ck) i j (ab_ActionID (gr_Binding g)) s2 = Inr t"
    unfolding ClaimGrant_def run_tx_Inr_iff Let_def bindE_Inr_iff need_Inr_iff by auto
  from j obtain e where e: "effect_of (ab_ActionID (gr_Binding g)) s = Some e" "ew_State e = StateAllowed" "ew_AuthorizationID e = i"
    and je: "j = ew_ActionID e"
    by (auto simp: claim_target_def split: option.splits if_splits)
  have "ef_effects s1 = ef_effects s \<and> ef_dispatches s1 = ef_dispatches s \<and> ef_evidence s1 = ef_evidence s
        \<and> ef_authorizations s1 = ef_authorizations s \<and> ef_mandates s1 = ef_mandates s"
    using s1 by (auto dest: on_other_tables split: option.splits)
  then have s2': "ef_effects s2 = ef_effects s" "ef_dispatches s2 = ef_dispatches s" "ef_evidence s2 = ef_evidence s"
      "ef_authorizations s2 = ef_authorizations s" "ef_mandates s2 = ef_mandates s"
    using s2 by (auto dest: on_other_tables split: option.splits)
  from t have "tbl_count (usable i (ck_claim ck) s2) (ef_authorizations s2) \<noteq> 0" by (auto simp: commit_claim_def)
  then obtain a where a: "a \<in> set (ef_authorizations s2)" "usable i (ck_claim ck) s2 a" by (auto simp: tbl_count_0_iff)
  have live: "\<exists>a \<in> set (ef_authorizations s). au_authorization_id a = i \<and> au_state a = ''authorized'' \<and> ck_claim ck < au_expires_at a
           \<and> mandate_live (ck_claim ck) s a"
    using a by (intro bexI [of _ a]) (cases "au_mandate_id a"; simp add: usable_def s2' mandate_live_def)+
  define d where "d = \<lparr>ds_authorization_id = i, ds_action_id = j, ds_execution_action_id = ab_ActionID (gr_Binding g),
      ds_outcome = ''executing'', ds_dispatched_at = ck_tx ck, ds_finished_at = None\<rparr>"
  have none: "tbl_find ds_authorization_id i (ef_dispatches s) = None"
    and jt: "journal_of t =
      (at_effect j (\<lambda>r. r\<lparr>ew_State := StateExecuting, ew_DispatchOutcome := ''executing'', ew_UpdatedAt := ck_tx ck\<rparr>) (ef_effects s),
       ef_dispatches s @ [d], ef_evidence s)"
    using t by (auto simp: commit_claim_def begin_dispatch_def journal_of_def s2' d_def)
  show thesis by (rule that [OF g e none live, of d]) (simp_all add: d_def jt je)
qed

lemma ClaimGrant_moves:
  assumes "ClaimGrant P ck i s = (res, t)"
  shows "journal_move (journal_of s) (journal_of t)"
proof (cases res)
  case (Inl e)
  with assms show ?thesis by (auto simp: ClaimGrant_def dest: run_tx_Inl intro: mv_none)
next
  case (Inr u)
  then have "ClaimGrant P ck i s = (Inr u, t)" using assms by simp
  then show ?thesis
  proof (rule ClaimGrant_Inr)
    fix g e d
    assume e: "effect_of (ab_ActionID (gr_Binding g)) s = Some e" "ew_State e = StateAllowed" "ew_AuthorizationID e = i"
      and fresh: "tbl_find ds_authorization_id i (ef_dispatches s) = None"
      and d: "ds_authorization_id d = i" "ds_action_id d = ew_ActionID e" "ds_outcome d = ''executing''"
      and t: "journal_of t =
        (at_effect (ew_ActionID e) (\<lambda>r. r\<lparr>ew_State := StateExecuting, ew_DispatchOutcome := ''executing'', ew_UpdatedAt := ck_tx ck\<rparr>)
           (ef_effects s), ef_dispatches s @ [d], ef_evidence s)"
    have "tbl_find ew_ActionID (ew_ActionID e) (ef_effects s) = Some e"
      using e(1) tbl_find_SomeD by (fastforce simp: effect_of_def split: option.splits)
    then show ?thesis
      unfolding t unfolding journal_of_def by (rule mv_dispatch) (use e fresh d in simp_all)
  qed
qed

text \<open>A settlement, as the operations write it.\<close>

lemma settle_moves:
  assumes "tbl_find ew_ActionID i (ef_effects s) = Some e" and "uncertain (ew_State e)"
    and "verdict = StateUnknown \<or> settled_state verdict \<and> (\<exists>x \<in> set (ef_evidence s @ ys). proves i verdict x)"
    and "outc \<noteq> ''executing''" and "ef_effects s1 = ef_effects s" and "ef_dispatches s1 = ef_dispatches s"
    and "ef_evidence s1 = ef_evidence s @ ys"
    and "journal_of t = (at_effect i (\<lambda>r. r\<lparr>ew_State := verdict, ew_DispatchOutcome := g (ew_DispatchOutcome r), ew_UpdatedAt := now\<rparr>)
           (ef_effects s1), ending (ew_AuthorizationID e) outc (Some now) (ef_dispatches s1), ef_evidence s1)"
  shows "journal_move (journal_of s) (journal_of t)"
  unfolding assms(5-8) unfolding journal_of_def by (rule mv_settle) (use assms(1-4) in simp_all)

lemma RecordDispatchOutcome_Inr:
  assumes "RecordDispatchOutcome P now go_now i outc e s = (Inr r', t)"
  obtains g w r s1 s2 where "grantInTx i s = Inr g" and "tbl_find iw_action_id (ab_ActionID (gr_Binding g)) (ef_intents s) = Some w"
    and "tbl_find ew_ActionID (iw_effect_id w) (ef_effects s) = Some r" and "ew_State r = StateExecuting" and "ew_AuthorizationID r = i"
    and "ee_ActionID e = ew_ActionID r" and "ee_Verdict e = StateUnknown \<or> settled_state (ee_Verdict e)"
    and "outc \<noteq> ''executing''" and "insertEvidence go_now e s = Inr s1"
    and "s2 = settle_effect (ew_ActionID r) (ee_Verdict e) (\<lambda>_. outc) now (end_dispatch i outc now (end_authorization i outc (\<lambda>_. now) s1))"
    and "journal_of t = journal_of s2"
proof -
  from assms obtain g w r s1 where g: "grantInTx i s = Inr g"
    and w: "tbl_find iw_action_id (ab_ActionID (gr_Binding g)) (ef_intents s) = Some w"
    and outc: "\<not> (outc \<noteq> ''dispatch_completed'' \<and> outc \<noteq> ''unknown'')"
    and r: "effectIn (iw_effect_id w) s = Inr r" and check: "check_outcome P i outc e g r s = Inr ()"
    and s1: "insertEvidence go_now e s = Inr s1" and t: "commit_outcome P now i outc e g (ew_ActionID r) s1 = Inr t"
    unfolding RecordDispatchOutcome_def run_tx_Inr_iff bindE_Inr_iff need_Inr_iff failif_Inr_iff by auto
  from r obtain r0 where r0: "tbl_find ew_ActionID (iw_effect_id w) (ef_effects s) = Some r0"
    and rr: "r = scan_effect r0 (evidence_refs (iw_effect_id w) s)" by (auto simp: effectIn_Inr)
  let ?s2 = "settle_effect (ew_ActionID r0) (ee_Verdict e) (\<lambda>_. outc) now (end_dispatch i outc now (end_authorization i outc (\<lambda>_. now) s1))"
  have "journal_of t = journal_of ?s2"
    using t by (auto simp: commit_outcome_def Let_def rr journal_of_def dest: on_other_tables split: option.splits)
  moreover have "outc \<noteq> ''executing''" using outc by auto
  moreover have "outcome_matches i e g r" and "verdict_supported P outc e (gr_Binding g) (ew_Policy r)"
    using check by (simp_all add: check_outcome_def Let_def)
  ultimately show thesis
    by (intro that [OF g w r0 _ _ _ _ _ s1 refl]) (auto simp: rr outcome_matches_def verdict_supported_def settled_state_def)
qed

lemma evidence_of_verdict:
  assumes "insertEvidence now e s = Inr s1" and "ee_Verdict e = StateUnknown \<or> settled_state (ee_Verdict e)"
  obtains ys where "ef_evidence s1 = ef_evidence s @ ys" and "ef_effects s1 = ef_effects s" and "ef_dispatches s1 = ef_dispatches s"
    and "ee_Verdict e = StateUnknown \<or> settled_state (ee_Verdict e) \<and> (\<exists>x \<in> set (ef_evidence s @ ys). proves (ee_ActionID e) (ee_Verdict e) x)"
proof -
  from assms(1) obtain x where x: "ef_evidence s1 = ef_evidence s @ [x]" "proves (ee_ActionID e) (ee_Verdict e) x"
    "ef_effects s1 = ef_effects s" "ef_dispatches s1 = ef_dispatches s"
    by (rule insertEvidence_tables)
  show thesis by (rule that [of "[x]"]) (use x assms(2) in auto)
qed

lemma RecordDispatchOutcome_moves:
  assumes "RecordDispatchOutcome P now go_now i outc e s = (res, t)"
  shows "journal_move (journal_of s) (journal_of t)"
proof (cases res)
  case (Inl err)
  with assms show ?thesis by (auto simp: RecordDispatchOutcome_def dest: run_tx_Inl intro: mv_none)
next
  case (Inr r')
  then have "RecordDispatchOutcome P now go_now i outc e s = (Inr r', t)" using assms by simp
  then show ?thesis
  proof (rule RecordDispatchOutcome_Inr)
    fix w r s1 s2
    assume r: "tbl_find ew_ActionID (iw_effect_id w) (ef_effects s) = Some r" "ew_State r = StateExecuting" "ew_AuthorizationID r = i"
      and e: "ee_ActionID e = ew_ActionID r" "ee_Verdict e = StateUnknown \<or> settled_state (ee_Verdict e)"
      and outc: "outc \<noteq> ''executing''" and s1: "insertEvidence go_now e s = Inr s1"
      and s2: "s2 = settle_effect (ew_ActionID r) (ee_Verdict e) (\<lambda>_. outc) now (end_dispatch i outc now (end_authorization i outc (\<lambda>_. now) s1))"
      and t: "journal_of t = journal_of s2"
    from s1 e(2) obtain ys where ys: "ef_evidence s1 = ef_evidence s @ ys" "ef_effects s1 = ef_effects s" "ef_dispatches s1 = ef_dispatches s"
      "ee_Verdict e = StateUnknown \<or> settled_state (ee_Verdict e) \<and> (\<exists>x \<in> set (ef_evidence s @ ys). proves (ee_ActionID e) (ee_Verdict e) x)"
      by (rule evidence_of_verdict)
    have "iw_effect_id w = ew_ActionID r" using r(1) by (auto dest: tbl_find_SomeD)
    then show ?thesis
      using settle_moves [of "ew_ActionID r" s r "ee_Verdict e" ys outc s1 t now "\<lambda>_. outc"] r ys e outc
      by (simp add: t s2 journal_of_tables)
  qed
qed

lemma FinishGrant_cases:
  assumes "FinishGrant P now go_now rnd i outc s = (res, t)"
  obtains "t = s" | e res' where "RecordDispatchOutcome P now go_now i outc e s = (res', t)"
  using assms unfolding FinishGrant_def Let_def by (auto simp: apfst_def map_prod_def split: sum.splits prod.splits)

lemma ReconcileEffect_Inr:
  assumes "ReconcileEffect now go_now i j e s = (Inr r', t)"
  obtains target s1 where "tbl_find ew_ActionID i (ef_effects s) = Some target" and "uncertain (ew_State target)"
    and "ee_ActionID e = i" and "settled_state (ee_Verdict e)" and "insertEvidence go_now e s = Inr s1"
    and "\<exists>x \<in> set (ef_evidence s). captured j e x"
    and "t = end_dispatch (ew_AuthorizationID target) ''unknown'' now
          (end_authorization (ew_AuthorizationID target) ''unknown'' (\<lambda>t. case t of None \<Rightarrow> now | Some t' \<Rightarrow> t')
            (settle_effect i (ee_Verdict e) (\<lambda>o'. if o' = ''executing'' then ''unknown'' else o') now s1))"
proof -
  from assms obtain target source s1 where target: "effectIn i s = Inr target" and rec: "reconciles target source i e"
    and cap: "list_ex (captured j e) (ef_evidence s)" and s1: "insertEvidence go_now e s = Inr s1"
    and t: "t = end_dispatch (ew_AuthorizationID target) ''unknown'' now
          (end_authorization (ew_AuthorizationID target) ''unknown'' (\<lambda>t. case t of None \<Rightarrow> now | Some t' \<Rightarrow> t')
            (settle_effect i (ee_Verdict e) (\<lambda>o'. if o' = ''executing'' then ''unknown'' else o') now s1))"
    unfolding ReconcileEffect_def run_tx_Inr_iff bindE_Inr_iff need_Inr_iff failif_Inr_iff Let_def by auto
  from target obtain r0 where r0: "tbl_find ew_ActionID i (ef_effects s) = Some r0" and rr: "target = scan_effect r0 (evidence_refs i s)"
    by (auto simp: effectIn_Inr)
  show thesis
    by (rule that [OF r0 _ _ _ s1])
      (use rec cap t in \<open>auto simp: reconciles_def uncertain_def settled_state_def list_ex_iff rr\<close>)
qed

lemma ReconcileEffect_moves:
  assumes "ReconcileEffect now go_now i j e s = (res, t)"
  shows "journal_move (journal_of s) (journal_of t)"
proof (cases res)
  case (Inl err)
  with assms show ?thesis by (auto simp: ReconcileEffect_def dest: run_tx_Inl intro: mv_none)
next
  case (Inr r')
  then have "ReconcileEffect now go_now i j e s = (Inr r', t)" using assms by simp
  then show ?thesis
  proof (rule ReconcileEffect_Inr)
    fix target s1
    assume target: "tbl_find ew_ActionID i (ef_effects s) = Some target" "uncertain (ew_State target)"
      and e: "ee_ActionID e = i" "settled_state (ee_Verdict e)" and s1: "insertEvidence go_now e s = Inr s1"
      and t: "t = end_dispatch (ew_AuthorizationID target) ''unknown'' now
          (end_authorization (ew_AuthorizationID target) ''unknown'' (\<lambda>t. case t of None \<Rightarrow> now | Some t' \<Rightarrow> t')
            (settle_effect i (ee_Verdict e) (\<lambda>o'. if o' = ''executing'' then ''unknown'' else o') now s1))"
    from s1 obtain ys where ys: "ef_evidence s1 = ef_evidence s @ ys" "ef_effects s1 = ef_effects s" "ef_dispatches s1 = ef_dispatches s"
      "ee_Verdict e = StateUnknown \<or> settled_state (ee_Verdict e) \<and> (\<exists>x \<in> set (ef_evidence s @ ys). proves (ee_ActionID e) (ee_Verdict e) x)"
      by (rule evidence_of_verdict) (use e in blast)
    then show ?thesis
      using settle_moves [of i s target "ee_Verdict e" ys "''unknown''" s1 t now "\<lambda>o'. if o' = ''executing'' then ''unknown'' else o'"]
        target e by (simp add: t journal_of_tables)
  qed
qed

lemma MarkInterruptedEffect_moves:
  assumes "MarkInterruptedEffect now i s = (res, t)"
  shows "journal_move (journal_of s) (journal_of t)"
  using assms unfolding MarkInterruptedEffect_def
proof (cases rule: run_tx_cases)
  case failure
  then show ?thesis by (simp add: mv_none)
next
  case success
  then obtain r where r: "tbl_find ew_ActionID i (ef_effects s) = Some r" "ew_State r = StateExecuting"
    and t: "t = end_dispatch (ew_AuthorizationID r) ''unknown'' now
                 (end_authorization (ew_AuthorizationID r) ''unknown'' (\<lambda>_. now) (settle_effect i StateUnknown (\<lambda>_. ''unknown'') now s))"
    by (auto simp: effectIn_Inr)
  show ?thesis
    by (rule settle_moves [of i s r StateUnknown "[]" "''unknown''" s t now "\<lambda>_. ''unknown''"])
      (use r in \<open>simp_all add: t journal_of_tables\<close>)
qed

text \<open>An unknown effect has no running dispatch left to end.\<close>

lemma ending_unknown:
  assumes ok: "journal_ok (es, ds, xs)" and e: "tbl_find ew_ActionID i es = Some e" "ew_State e = StateUnknown"
  shows "ending (ew_AuthorizationID e) outc t ds = ds"
proof (rule tbl_update_id)
  fix d assume d: "d \<in> set ds"
  have es: "e \<in> set es" "ew_ActionID e = i" using e(1) by (auto dest: tbl_find_SomeD)
  obtain d2 where d2: "d2 \<in> set ds" "ds_action_id d2 = ew_ActionID e"
    using dispatched_iff_closed [OF ok es(1)] e(2) by auto
  have b: "belongs e d2" using dispatch_of_effect [OF ok d2(1) es(1) d2(2)] .
  show "\<not> (ds_authorization_id d = ew_AuthorizationID e \<and> ds_outcome d = ''executing'')"
  proof
    assume "ds_authorization_id d = ew_AuthorizationID e \<and> ds_outcome d = ''executing''"
    moreover have "d = d2" using calculation b ok d d2(1) by (auto simp: belongs_def intro: keyed_eq [of ds_authorization_id ds])
    ultimately show False using b e(2) by (simp add: belongs_def)
  qed
qed

theorem effect_step_moves:
  assumes "effect_step s t" and ok: "journal_ok (journal_of s)"
  shows "journal_move (journal_of s) (journal_of t)"
  using assms
proof (induction rule: effect_step.induct)
  case (st_finish P now go_now rnd i outc s res t)
  from st_finish(1) show ?case
    by (cases rule: FinishGrant_cases) (auto intro: mv_none RecordDispatchOutcome_moves)
next
  case (st_revoke now i ow n s res t)
  then have "journal_of t = journal_of s"
    unfolding RevokeMandate_def by (cases rule: run_tx_cases) (auto simp: Let_def)
  then show ?case by (simp add: mv_none)
next
  case (st_external_begin e s d ws x)
  then show ?case unfolding journal_of_def by (simp add: mv_register)
next
  case (st_external_finish e s r go_now s1 outc now)
  from st_external_finish(4,3) obtain ys where ys: "ef_evidence s1 = ef_evidence s @ ys" "ef_effects s1 = ef_effects s"
    "ef_dispatches s1 = ef_dispatches s"
    "ee_Verdict e = StateUnknown \<or> settled_state (ee_Verdict e) \<and> (\<exists>x \<in> set (ef_evidence s @ ys). proves (ee_ActionID e) (ee_Verdict e) x)"
    by (rule evidence_of_verdict)
  from st_external_finish(1) obtain r0 where r0: "tbl_find ew_ActionID (ee_ActionID e) (ef_effects s) = Some r0"
    and r: "ew_AuthorizationID r = ew_AuthorizationID r0" "ew_State r = ew_State r0" by (auto simp: effectIn_Inr)
  show ?case
    by (rule settle_moves [OF r0 _ ys(4) st_external_finish(5) ys(2,3,1)])
      (use st_external_finish(2) in \<open>simp_all add: r journal_of_tables\<close>)
next
  case (st_attested i s r verdict xs now)
  from st_attested(1) obtain r0 where r0: "tbl_find ew_ActionID i (ef_effects s) = Some r0"
    and r: "ew_State r = ew_State r0" by (auto simp: effectIn_Inr)
  have "ending (ew_AuthorizationID r0) ''unknown'' (Some now) (ef_dispatches s) = ef_dispatches s"
    using ending_unknown [OF st_attested(5) [unfolded journal_of_def] r0] st_attested(2) r by simp
  with r0 show ?case
    by (intro settle_moves [of i s r0 verdict xs "''unknown''" "s\<lparr>ef_evidence := ef_evidence s @ xs\<rparr>" _ now id])
      (use st_attested(2-4) in \<open>simp_all add: r journal_of_tables uncertain_def\<close>)
next
  case (st_evidence go_now e s t)
  then show ?case by (auto simp: insertEvidence_def journal_of_def bindE_Inr_iff intro: mv_evidence)
next
  case (st_elsewhere t s)
  then show ?case by (simp add: mv_none)
qed (auto intro: PutIntent_moves PutGrant_moves ClaimGrant_moves RecordDispatchOutcome_moves ReconcileEffect_moves
      MarkInterruptedEffect_moves)

definition journal_init :: "'x effect_db \<Rightarrow> bool" where
  "journal_init s \<longleftrightarrow> journal_of s = ([], [], [])"

definition journal_inv :: "'x effect_db \<Rightarrow> bool" where
  "journal_inv s \<longleftrightarrow> journal_ok (journal_of s)"

interpretation ej: invariant_system journal_init effect_step journal_inv
  by unfold_locales
    (auto simp: journal_init_def journal_inv_def intro: journal_move_ok effect_step_moves)

text \<open>What every later state keeps of an effect that was dispatched.\<close>

definition closed_effect :: "string \<Rightarrow> 'x effect_db \<Rightarrow> bool" where
  "closed_effect i s \<longleftrightarrow> (\<exists>e \<in> set (ef_effects s). ew_ActionID e = i \<and> \<not> open_state (ew_State e))"

definition settled_effect :: "string \<Rightarrow> string \<Rightarrow> 'x effect_db \<Rightarrow> bool" where
  "settled_effect i v s \<longleftrightarrow> settled_state v \<and> (\<exists>e \<in> set (ef_effects s). ew_ActionID e = i \<and> ew_State e = v)"

lemma journal_move_keeps:
  assumes "journal_move j j'" and "journal_ok j" and "e \<in> set (fst j)" and "\<not> open_state (ew_State e)"
  shows "\<exists>e' \<in> set (fst j'). ew_ActionID e' = ew_ActionID e \<and> \<not> open_state (ew_State e')
    \<and> (settled_state (ew_State e) \<longrightarrow> ew_State e' = ew_State e)"
  using assms
proof (induction rule: journal_move.induct)
  case (mv_open es p f ds xs)
  then have "\<not> p e" by auto
  with mv_open show ?case by (auto simp: set_tbl_update)
next
  case (mv_dispatch i es r ds d xs t)
  have "ew_ActionID e \<noteq> i"
    using mv_dispatch keyed_eq [of ew_ActionID es e r] by (auto dest: tbl_find_SomeD)
  with mv_dispatch show ?case by (auto intro!: bexI [of _ e] at_effectI)
next
  case (mv_settle i es r verdict xs ys outc ds t g t')
  show ?case
  proof (cases "ew_ActionID e = i")
    case True
    have "e \<in> set es" and "keyed ew_ActionID es" using mv_settle(5,6) by simp_all
    moreover have "r \<in> set es" and "ew_ActionID r = i" using mv_settle(1) by (auto dest: tbl_find_SomeD)
    ultimately have "e = r" using True by (auto intro: keyed_eq)
    with mv_settle(2) have "\<not> settled_state (ew_State e)" by (auto dest: state_kinds)
    moreover have "\<not> open_state verdict" using mv_settle(3) by (auto dest: state_kinds)
    moreover have "e\<lparr>ew_State := verdict, ew_DispatchOutcome := g (ew_DispatchOutcome e), ew_UpdatedAt := t\<rparr> \<in>
        set (at_effect i (\<lambda>r. r\<lparr>ew_State := verdict, ew_DispatchOutcome := g (ew_DispatchOutcome r), ew_UpdatedAt := t\<rparr>) es)"
      using at_effectI(1) [OF \<open>e \<in> set es\<close> True] .
    ultimately show ?thesis by (intro bexI) simp_all
  next
    case False
    with mv_settle show ?thesis by (auto intro!: bexI [of _ e] at_effectI)
  qed
qed auto

lemma closed_effect_steps:
  assumes "effect_step\<^sup>*\<^sup>* s t" and "journal_inv s" and "closed_effect i s"
  shows "closed_effect i t"
proof (rule ej.stable_steps [where P = "closed_effect i", OF _ assms])
  fix u v assume "journal_inv u" and "effect_step u v" and "closed_effect i u"
  then obtain e where "e \<in> set (ef_effects u)" "ew_ActionID e = i" "\<not> open_state (ew_State e)" by (auto simp: closed_effect_def)
  with journal_move_keeps [OF effect_step_moves [OF \<open>effect_step u v\<close>], of e] \<open>journal_inv u\<close> show "closed_effect i v"
    by (auto simp: journal_inv_def journal_of_def closed_effect_def)
qed

lemma settled_effect_steps:
  assumes "effect_step\<^sup>*\<^sup>* s t" and "journal_inv s" and "settled_effect i v s"
  shows "settled_effect i v t"
proof (rule ej.stable_steps [where P = "settled_effect i v", OF _ assms])
  fix u w assume u: "journal_inv u" "effect_step u w" and "settled_effect i v u"
  then obtain e where "e \<in> set (ef_effects u)" "ew_ActionID e = i" "ew_State e = v" "settled_state v" by (auto simp: settled_effect_def)
  with journal_move_keeps [OF effect_step_moves [OF u(2)], of e] u(1) show "settled_effect i v w"
    by (auto simp: journal_inv_def journal_of_def settled_effect_def dest: state_kinds)
qed

lemma evidence_grows: "effect_step\<^sup>*\<^sup>* s t \<Longrightarrow> journal_inv s \<Longrightarrow> \<exists>ys. ef_evidence t = ef_evidence s @ ys"
proof (induction rule: rtranclp_induct)
  case base
  then show ?case by simp
next
  case (step u v)
  then have "journal_inv u" by (blast intro: ej.inv_steps)
  with step(2) have "journal_move (journal_of u) (journal_of v)" by (intro effect_step_moves) (simp_all add: journal_inv_def)
  then have "\<exists>ys. ef_evidence v = ef_evidence u @ ys" by (cases rule: journal_moveE) (auto simp: journal_of_def)
  with step(3) [OF step(4)] show ?case by auto
qed

section \<open>Properties\<close>

text \<open>The effect the grant \<open>i\<close> would dispatch.\<close>

definition claimed_effect :: "string \<Rightarrow> 'x effect_db \<Rightarrow> string option" where
  "claimed_effect i s =
     (case grantInTx i s of Inl _ \<Rightarrow> None | Inr g \<Rightarrow> map_option ew_ActionID (effect_of (ab_ActionID (gr_Binding g)) s))"

lemma effect_of_in: "effect_of a s = Some e \<Longrightarrow> e \<in> set (ef_effects s)"
  by (auto simp: effect_of_def dest: tbl_find_SomeD split: option.splits)

lemma claim_closes:
  assumes "ClaimGrant P ck i s = (Inr u, t)"
  shows "\<exists>j. claimed_effect i s = Some j \<and> closed_effect j t"
  using assms
proof (rule ClaimGrant_Inr)
  fix g e d
  let ?f = "\<lambda>r. r\<lparr>ew_State := StateExecuting, ew_DispatchOutcome := ''executing'', ew_UpdatedAt := ck_tx ck\<rparr>"
  assume g: "grantInTx i s = Inr g" and e: "effect_of (ab_ActionID (gr_Binding g)) s = Some e"
    and t: "journal_of t = (at_effect (ew_ActionID e) ?f (ef_effects s), ef_dispatches s @ [d], ef_evidence s)"
  have "?f e \<in> set (ef_effects t)" using at_effectI(1) [OF effect_of_in [OF e] refl, of ?f] t by (simp add: journal_of_def)
  then have "closed_effect (ew_ActionID e) t" unfolding closed_effect_def by (rule bexI [rotated]) simp
  with g e show ?thesis by (simp add: claimed_effect_def)
qed

lemma claim_needs_open:
  assumes "ClaimGrant P ck i s = (Inr u, t)" and "journal_inv s" and "claimed_effect i s = Some j"
  shows "\<not> closed_effect j s"
  using assms(1)
proof (rule ClaimGrant_Inr)
  fix g e
  assume g: "grantInTx i s = Inr g" and e: "effect_of (ab_ActionID (gr_Binding g)) s = Some e" "ew_State e = StateAllowed"
  have "open_state (ew_State r)" if "r \<in> set (ef_effects s)" "ew_ActionID r = ew_ActionID e" for r
  proof -
    have "r = e" using that assms(2) effect_of_in [OF e(1)] by (auto simp: journal_inv_def journal_of_def intro: keyed_eq)
    with e(2) show ?thesis by simp
  qed
  moreover have "j = ew_ActionID e" using g e(1) assms(3) by (simp add: claimed_effect_def)
  ultimately show ?thesis by (auto simp: closed_effect_def)
qed

text \<open>C4. An effect is dispatched at most once: whatever proposals, authorizations, outcomes and
  interruptions lie between them, two successful claims never dispatch the same effect, and every
  effect has at most one row of dispatches.\<close>

theorem effect_is_dispatched_once:
  assumes "journal_init s0" and "effect_step\<^sup>*\<^sup>* s0 s" and "ClaimGrant P ck i s = (Inr (), t)"
    and "effect_step\<^sup>*\<^sup>* t u" and "ClaimGrant P' ck' i' u = (Inr (), v)"
  shows "claimed_effect i s \<noteq> None \<and> claimed_effect i s \<noteq> claimed_effect i' u \<and> distinct (map ds_action_id (ef_dispatches v))"
proof -
  have "journal_inv s" using assms(1,2) by (rule ej.inv_reach)
  then have t: "journal_inv t" using st_claim [OF assms(3)] by (rule ej.inv_step)
  then have u: "journal_inv u" using assms(4) by (blast intro: ej.inv_steps)
  then have "journal_inv v" using st_claim [OF assms(5)] by (rule ej.inv_step)
  then have "distinct (map ds_action_id (ef_dispatches v))" by (simp add: journal_inv_def journal_of_def keyed_def)
  moreover obtain j where j: "claimed_effect i s = Some j" "closed_effect j t" using claim_closes [OF assms(3)] by blast
  moreover have "closed_effect j u" using closed_effect_steps [OF assms(4) t j(2)] .
  ultimately show ?thesis using claim_needs_open [OF assms(5) u] by auto
qed

text \<open>C5. An outcome is final and rests on evidence: an effect recorded as confirmed or absent has a
  row of evidence with that verdict, keeps that state for good, and evidence is only ever appended.\<close>

theorem settled_effect_is_final:
  assumes "journal_init s0" and "effect_step\<^sup>*\<^sup>* s0 s" and "tbl_find ew_ActionID i (ef_effects s) = Some e"
    and "ew_State e = StateConfirmed \<or> ew_State e = StateAbsent" and "effect_step\<^sup>*\<^sup>* s t"
  shows "(\<exists>x \<in> set (ef_evidence s). ev_action_id x = i \<and> ee_Verdict (ev_evidence x) = ew_State e)
    \<and> (\<exists>e'. tbl_find ew_ActionID i (ef_effects t) = Some e' \<and> ew_State e' = ew_State e)
    \<and> (\<exists>ys. ef_evidence t = ef_evidence s @ ys)"
proof -
  have s: "journal_inv s" using assms(1,2) by (rule ej.inv_reach)
  have e: "e \<in> set (ef_effects s)" "ew_ActionID e = i" "settled_state (ew_State e)"
    using assms(3,4) by (auto simp: settled_state_def dest: tbl_find_SomeD)
  then have "\<exists>x \<in> set (ef_evidence s). proves i (ew_State e) x"
    using s by (auto simp: journal_inv_def journal_of_def effect_ok_def)
  moreover have "settled_effect i (ew_State e) t"
    using settled_effect_steps [OF assms(5) s, of i "ew_State e"] e by (auto simp: settled_effect_def)
  then obtain e' where "e' \<in> set (ef_effects t)" "ew_ActionID e' = i" "ew_State e' = ew_State e" by (auto simp: settled_effect_def)
  moreover have "journal_inv t" using s assms(5) by (blast intro: ej.inv_steps)
  ultimately show ?thesis
    using evidence_grows [OF assms(5) s] tbl_find_keyed [of ew_ActionID "ef_effects t" e']
    by (auto simp: proves_def journal_inv_def journal_of_def)
qed

text \<open>C34. The rows of the journal agree in every reachable state: states are those of the schema, an
  effect has a dispatch exactly when it has left the open states, the dispatch carries the
  authorization of the effect, and it is running exactly while the effect executes.\<close>

theorem journal_rows_agree:
  assumes "journal_init s0" and "effect_step\<^sup>*\<^sup>* s0 s" and "e \<in> set (ef_effects s)"
  shows "ew_State e \<in> {''prepared'', ''allowed'', ''executing'', ''effect_confirmed'', ''effect_absent'', ''effect_unknown''} \<and>
    ((\<exists>d \<in> set (ef_dispatches s). ds_action_id d = ew_ActionID e) \<longleftrightarrow> \<not> open_state (ew_State e)) \<and>
    (\<forall>d \<in> set (ef_dispatches s). ds_action_id d = ew_ActionID e \<longrightarrow>
       ds_authorization_id d = ew_AuthorizationID e \<and> (ds_outcome d = ''executing'' \<longleftrightarrow> ew_State e = StateExecuting))"
proof -
  have ok: "journal_ok (ef_effects s, ef_dispatches s, ef_evidence s)"
    using ej.inv_reach [OF assms(1,2)] by (simp add: journal_inv_def journal_of_def)
  then have "effect_state_known (ew_State e)" using assms(3) by (simp add: effect_ok_def)
  then have "ew_State e \<in> {''prepared'', ''allowed'', ''executing'', ''effect_confirmed'', ''effect_absent'', ''effect_unknown''}"
    by (auto simp: effect_state_known_def open_state_def uncertain_def settled_state_def effect_state_defs)
  moreover have "(\<exists>d \<in> set (ef_dispatches s). ds_action_id d = ew_ActionID e) \<longleftrightarrow> \<not> open_state (ew_State e)"
    using dispatched_iff_closed [OF ok assms(3)] unfolding image_iff by metis
  moreover have "belongs e d" if "d \<in> set (ef_dispatches s)" "ds_action_id d = ew_ActionID e" for d
    using dispatch_of_effect [OF ok that(1) assms(3) that(2)] .
  ultimately show ?thesis by (auto simp: belongs_def)
qed

lemma guardDispatch_Inr:
  assumes "guardDispatch P ck g s = Inr ()"
  shows "\<exists>own \<in> set (ownership (ef_kernel s)). owns_run g (ck_lease ck) own"
    and "\<exists>r \<in> set (runs (ef_kernel s)). r_run_id r = ab_RunID (gr_Binding g) \<and> \<not> ended_state (r_current_state r) \<and> \<not> ended_state (r_status r)"
    and "ab_TaskID (gr_Binding g) \<noteq> [] \<Longrightarrow> guard_task P (ck_go ck) (gr_Binding g) s = Inr ()"
  using assms unfolding guardDispatch_def Let_def
  by (auto dest!: first_row_SomeD tbl_find_SomeD split: if_splits)

lemma prepare_only_reads: "CheckExecutionPolicy ''prepare_only'' eff = Inr () \<longleftrightarrow> eff = EffectRead"
  by (simp add: CheckExecutionPolicy_def)

lemma guard_task_Inr:
  assumes "guard_task P now b s = Inr ()"
  obtains t where "t \<in> set (ef_tasks s)" and "k_task_id t = ab_TaskID b" and "k_status t = ''active''"
    and "k_revision t = ab_TaskRevision b" and "k_owner_id t = ab_OwnerID b"
    and "CheckExecutionPolicy (k_execution_policy t) (ab_Effect b) = Inr ()"
  using assms unfolding guard_task_def Let_def by (auto dest!: tbl_find_SomeD)

lemma not_ended: "\<not> ended_state v \<Longrightarrow> v \<noteq> RunStateFinalizing \<and> (IsTerminalRunState v \<longrightarrow> v = RunStateTimedOut)"
  by (auto simp: ended_state_def IsTerminalRunState_def)

text \<open>C6. A dispatch is committed only under current authority: when the claim succeeds the worker holds an
  unexpired lease of the run, the run is not finalizing and neither completed nor failed nor cancelled
  (the switch of the guard leaves out the fourth terminal state, timed out), the task of the action is
  active at the revision the action was bound to and, when it is restricted to preparation, the
  action only reads, and the authorization is unused, unexpired and not under a revoked mandate.\<close>

theorem dispatch_needs_live_authority:
  assumes "ClaimGrant P ck i s = (Inr (), t)"
  shows "\<exists>g. grantInTx i s = Inr g \<and>
    (\<exists>own \<in> set (ownership (ef_kernel s)). o_run_id own = ab_RunID (gr_Binding g) \<and> o_lease_id own = gr_LeaseID g
        \<and> o_fence_epoch own = gr_LeaseEpoch g \<and> ck_lease ck < o_expires_at own) \<and>
    (\<exists>r \<in> set (runs (ef_kernel s)). r_run_id r = ab_RunID (gr_Binding g) \<and>
        (\<forall>state \<in> {r_current_state r, r_status r}. state \<noteq> RunStateFinalizing \<and> (IsTerminalRunState state \<longrightarrow> state = RunStateTimedOut))) \<and>
    (ab_TaskID (gr_Binding g) \<noteq> [] \<longrightarrow>
       (\<exists>k \<in> set (ef_tasks s). k_task_id k = ab_TaskID (gr_Binding g) \<and> k_status k = ''active'' \<and> k_revision k = ab_TaskRevision (gr_Binding g)
          \<and> k_owner_id k = ab_OwnerID (gr_Binding g) \<and> (k_execution_policy k = ''prepare_only'' \<longrightarrow> ab_Effect (gr_Binding g) = EffectRead))) \<and>
    (\<exists>a \<in> set (ef_authorizations s). au_authorization_id a = i \<and> au_state a = ''authorized'' \<and> ck_claim ck < au_expires_at a
        \<and> mandate_live (ck_claim ck) s a)"
  using assms
proof (rule ClaimGrant_Inr)
  fix g
  assume g: "grantInTx i s = Inr g" "guardDispatch P ck g s = Inr ()"
    and a: "\<exists>a \<in> set (ef_authorizations s). au_authorization_id a = i \<and> au_state a = ''authorized'' \<and> ck_claim ck < au_expires_at a
        \<and> mandate_live (ck_claim ck) s a"
  have "\<exists>k \<in> set (ef_tasks s). k_task_id k = ab_TaskID (gr_Binding g) \<and> k_status k = ''active'' \<and> k_revision k = ab_TaskRevision (gr_Binding g)
          \<and> k_owner_id k = ab_OwnerID (gr_Binding g) \<and> (k_execution_policy k = ''prepare_only'' \<longrightarrow> ab_Effect (gr_Binding g) = EffectRead)"
    if task: "ab_TaskID (gr_Binding g) \<noteq> []"
  proof -
    obtain k where "k \<in> set (ef_tasks s)" "k_task_id k = ab_TaskID (gr_Binding g)" "k_status k = ''active''"
      "k_revision k = ab_TaskRevision (gr_Binding g)" "k_owner_id k = ab_OwnerID (gr_Binding g)"
      "CheckExecutionPolicy (k_execution_policy k) (ab_Effect (gr_Binding g)) = Inr ()"
      using guardDispatch_Inr(3) [OF g(2) task] by (rule guard_task_Inr)
    then show ?thesis by (intro bexI [of _ k]) (auto simp: prepare_only_reads)
  qed
  moreover have "\<exists>r \<in> set (runs (ef_kernel s)). r_run_id r = ab_RunID (gr_Binding g) \<and>
      (\<forall>state \<in> {r_current_state r, r_status r}. state \<noteq> RunStateFinalizing \<and> (IsTerminalRunState state \<longrightarrow> state = RunStateTimedOut))"
    using guardDispatch_Inr(2) [OF g(2)] by (auto dest!: not_ended)
  ultimately show ?thesis using g(1) a guardDispatch_Inr(1) [OF g(2)] unfolding owns_run_def by blast
qed

text \<open>C24. A worker that lost its session dispatches nothing: once another acquisition of the session has
  succeeded, no grant that pins the old lease can be claimed, whatever lease operations follow and
  whatever the clocks show, and the refused claim changes nothing. The lease identifier is drawn at
  random, so no other session is given it.\<close>

theorem superseded_worker_cannot_dispatch:
  assumes "lease_inv db" and "token_valid tok t0 db" and "pg_AcquireLease lid p now db = (Inr r, db1)"
    and "ap_SessionKey p = tok_SessionKey tok" and "lease_step\<^sup>*\<^sup>* db1 (ef_kernel s)"
    and "\<And>own. own \<in> set (ownership (ef_kernel s)) \<Longrightarrow> o_lease_id own = tok_LeaseID tok \<Longrightarrow> o_session_key own = tok_SessionKey tok"
    and "grantInTx i s = Inr g" and "gr_LeaseID g = tok_LeaseID tok" and "gr_LeaseEpoch g = tok_FenceEpoch tok"
    and "ab_RunID (gr_Binding g) = tok_RunID tok"
  shows "\<exists>e. ClaimGrant P ck i s = (Inl e, s)"
proof -
  have inv: "lease_inv db1" using assms(1,3) by (rule lease_inv_acquire)
  have "tok_FenceEpoch tok < epoch_obs db1 (tok_SessionKey tok)"
    using token_valid_epoch [OF assms(2)] acquire_raises_epoch [OF assms(3)] assms(4) by simp
  with inv have stale: "\<not> token_valid tok t (ef_kernel s)" for t using assms(5) by (rule passed_token_stale)
  have "keyed o_session_key (ownership (ef_kernel s))"
    using fence.inv_steps [OF assms(5) inv] by (simp add: lease_inv_def)
  then have "\<not> owns_run g (ck_lease ck) own" if "own \<in> set (ownership (ef_kernel s))" for own
    using stale [of "ck_lease ck"] that assms(6) [OF that] tbl_find_keyed [of o_session_key "ownership (ef_kernel s)" own] assms(8-10)
    by (auto simp: owns_run_def token_valid_def)
  then have "guardDispatch P ck g s \<noteq> Inr ()" using guardDispatch_Inr(1) by blast
  then have "ClaimGrant P ck i s \<noteq> (Inr u, t)" for u t
    using assms(7) by (auto elim!: ClaimGrant_Inr)
  then obtain e t where "ClaimGrant P ck i s = (Inl e, t)"
    by (metis old.prod.exhaust sum.exhaust)
  moreover from this have "t = s" unfolding ClaimGrant_def by (rule run_tx_Inl)
  ultimately show ?thesis by simp
qed

end
