(* ===== verification/EffectExamples.thy ===== *)
theory EffectExamples
  imports EffectProps
begin

text \<open>
  A history of the journal: two reads of one run are proposed, authorized and dispatched, and the
  first is confirmed. The worker holds the lease of \<open>demo_row\<close>.
\<close>

section \<open>Rows\<close>

definition act :: "string \<Rightarrow> ActionBinding" where
  "act a =
     \<lparr>ab_BrowserSSOInspection = None, ab_ExternalAuth = None, ab_BrowserSSO = None, ab_BrowserPage = None,
      ab_BrowserScopeURL = [], ab_BrowserScopeEpoch = 0, ab_OwnerCommunication = False, ab_CommunicationDestinationsHash = [],
      ab_ActionID = a, ab_ActionHash = a, ab_RunID = ''r1'', ab_ToolCallID = a, ab_ToolName = ''web.fetch'',
      ab_ContractHash = ''c'', ab_ContractRevision = ''1'', ab_ArgsHash = ''h'', ab_Resource = ''https://a'',
      ab_CredentialRefs = [], ab_CredentialMetadataHash = [], ab_TaskID = ''t'', ab_TaskRevision = 1, ab_ConstraintsRevision = 1,
      ab_OwnerID = ''u'', ab_Effect = ''read'', ab_GoalID = [], ab_GoalRevision = 0, ab_MandateID = [], ab_MandateRevision = 0,
      ab_Purpose = [], ab_OwnerPolicyRevision = 0, ab_ExtensionID = [], ab_ExtensionManifestHash = [], ab_ExtensionGeneration = 0,
      ab_ExtensionAccessRevision = 0, ab_ExtensionAccessExpiresAt = None, ab_ConverterID = [], ab_ConverterPackageHash = [],
      ab_ConverterNeedHash = [], ab_ConverterGeneration = 0, ab_DataSources = []\<rparr>"

lemma act_simps [simp]:
  "ab_ActionID (act a) = a" "ab_ActionHash (act a) = a" "ab_RunID (act a) = ''r1''" "ab_ToolCallID (act a) = a"
  "ab_ToolName (act a) = ''web.fetch''" "ab_TaskID (act a) = ''t''" "ab_TaskRevision (act a) = 1" "ab_ConstraintsRevision (act a) = 1"
  "ab_OwnerID (act a) = ''u''" "ab_Effect (act a) = ''read''" "ab_ExtensionID (act a) = []" "ab_ConverterID (act a) = []"
  by (simp_all add: act_def)

definition read_policy :: EffectPolicy where
  "read_policy = \<lparr>ep_SSO = None, ep_Login = None, ep_RetrySafety = ''read_only'', ep_VerificationMethod = ''read_result'',
     ep_IdempotencyHeader = [], ep_ScopeOrigin = [], ep_VerificationURL = [], ep_LocalPreparation = None\<rparr>"

lemma read_policy_simps [simp]: "ep_RetrySafety read_policy = ''read_only''" "ep_VerificationMethod read_policy = ''read_result''"
  by (simp_all add: read_policy_def)

definition proposal :: "string \<Rightarrow> Intent" where
  "proposal a = \<lparr>it_Binding = act a, it_RequiresApproval = False, it_ExpiresAt = 90000, it_EffectID = a, it_EffectFingerprint = ''f'',
     it_EffectPolicy = read_policy\<rparr>"

definition permit :: "string \<Rightarrow> string \<Rightarrow> Grant" where
  "permit a st = \<lparr>gr_InputClaimHash = [], gr_ID = CHR ''g'' # a, gr_Binding = act a, gr_ApprovalID = [], gr_MandateID = [],
     gr_MandateRevision = 0, gr_LeaseID = ''lease-1'', gr_LeaseEpoch = 4, gr_AutonomyMode = 3, gr_ExpiresAt = 90000, gr_State = st\<rparr>"

lemma permit_simps [simp]:
  "gr_ID (permit a st) = CHR ''g'' # a" "gr_Binding (permit a st) = act a" "gr_LeaseID (permit a st) = ''lease-1''"
  "gr_LeaseEpoch (permit a st) = 4" "gr_MandateID (permit a st) = []" "gr_MandateRevision (permit a st) = 0"
  "gr_ExpiresAt (permit a st) = 90000" "(permit a st)\<lparr>gr_State := st'\<rparr> = permit a st'" "gr_State (permit a st) = st"
  by (simp_all add: permit_def)

definition erow :: "string \<Rightarrow> string \<Rightarrow> string \<Rightarrow> string \<Rightarrow> instant \<Rightarrow> effect_row" where
  "erow a st au outc t = \<lparr>ew_ActionID = a, ew_Fingerprint = ''f'', ew_Binding = act a, ew_Policy = read_policy, ew_State = st,
     ew_IdempotencyKey = [], ew_AuthorizationID = au, ew_DispatchOutcome = outc, ew_CreatedAt = 1, ew_UpdatedAt = t\<rparr>"

definition irow :: "string \<Rightarrow> intent_row" where
  "irow a = new_intent (proposal a)"

definition arow :: "string \<Rightarrow> string \<Rightarrow> instant option \<Rightarrow> instant option \<Rightarrow> authorization_row" where
  "arow a st at fin = \<lparr>au_authorization_id = CHR ''g'' # a, au_action_id = a, au_action_hash = a, au_grant = permit a ''authorized'',
     au_mandate_id = None, au_mandate_revision = 0, au_expires_at = 90000, au_state = st, au_dispatched_at = at, au_finished_at = fin\<rparr>"

definition drow :: "string \<Rightarrow> string \<Rightarrow> instant option \<Rightarrow> dispatch_row" where
  "drow a outc fin = \<lparr>ds_authorization_id = CHR ''g'' # a, ds_action_id = a, ds_execution_action_id = a, ds_outcome = outc,
     ds_dispatched_at = 5, ds_finished_at = fin\<rparr>"

lemma row_simps [simp]:
  "ew_ActionID (erow a st au outc t) = a" "ew_State (erow a st au outc t) = st" "ew_Fingerprint (erow a st au outc t) = ''f''"
  "ew_AuthorizationID (erow a st au outc t) = au" "ew_Policy (erow a st au outc t) = read_policy"
  "iw_action_id (irow a) = a" "iw_action_hash (irow a) = a" "iw_effect_id (irow a) = a" "iw_run_id (irow a) = ''r1''"
  "iw_tool_call_id (irow a) = a"
  "au_authorization_id (arow a st at fin) = CHR ''g'' # a" "au_action_id (arow a st at fin) = a" "au_state (arow a st at fin) = st"
  "au_grant (arow a st at fin) = permit a ''authorized''" "au_mandate_id (arow a st at fin) = None" "au_expires_at (arow a st at fin) = 90000"
  "ds_authorization_id (drow a outc fin) = CHR ''g'' # a" "ds_action_id (drow a outc fin) = a" "ds_outcome (drow a outc fin) = outc"
  by (simp_all add: erow_def irow_def new_intent_def proposal_def arow_def drow_def Let_def)

definition the_task :: task_row where
  "the_task = \<lparr>k_task_id = ''t'', k_session_key = ''s'', k_owner_id = ''u'', k_parent_task_id = None, k_goal = ''g'', k_source = [],
     k_status = ''active'', k_revision = 1, k_constraints_revision = 1, k_execution_policy = ''prepare_only'', k_constraints = [],
     k_criteria = [], k_working = empty_working, k_working_revision = 1, k_last_run_id = None, k_completion_result_id = None,
     k_legacy = False, k_result_delivery = [], k_created_at = 0, k_updated_at = 0, k_finished_at = None\<rparr>"

definition the_ports :: "unit effect_ports" where
  "the_ports = \<lparr>pt_digest = id, pt_message_contract = (\<lambda>_. None), pt_credential_contract = (\<lambda>_. None),
     pt_task_action = (\<lambda>_ _ _. Inr ()), pt_admission = None, pt_claim_action = None, pt_run_data = None, pt_contract = None,
     pt_reserve = None, pt_observe = None, pt_login_ok = (\<lambda>_ _ _. False), pt_sso_ok = (\<lambda>_ _ _. False),
     pt_sso_current = (\<lambda>_ _ _ _. False)\<rparr>"

definition the_clock :: claim_clock where
  "the_clock = \<lparr>ck_tx = 5, ck_lease = 50, ck_go = 50, ck_input = 50, ck_task = 50, ck_input2 = 50, ck_claim = 50\<rparr>"

definition jdb ::
  "effect_row list \<Rightarrow> intent_row list \<Rightarrow> authorization_row list \<Rightarrow> dispatch_row list \<Rightarrow> evidence_row list \<Rightarrow> unit effect_db" where
  "jdb es ws as ds xs = \<lparr>ef_kernel = demo_db\<lparr>runs := [demo_run]\<rparr>, ef_tasks = [the_task], ef_inputs = [], ef_mandates = [], ef_effects = es,
     ef_intents = ws, ef_authorizations = as, ef_dispatches = ds, ef_evidence = xs, ef_other = ()\<rparr>"

lemma jdb_simps [simp]:
  "ef_kernel (jdb es ws as ds xs) = demo_db\<lparr>runs := [demo_run]\<rparr>" "ef_tasks (jdb es ws as ds xs) = [the_task]"
  "ef_effects (jdb es ws as ds xs) = es" "ef_intents (jdb es ws as ds xs) = ws" "ef_authorizations (jdb es ws as ds xs) = as"
  "ef_dispatches (jdb es ws as ds xs) = ds" "ef_evidence (jdb es ws as ds xs) = xs" "ef_mandates (jdb es ws as ds xs) = []"
  "(jdb es ws as ds xs)\<lparr>ef_effects := es'\<rparr> = jdb es' ws as ds xs" "(jdb es ws as ds xs)\<lparr>ef_intents := ws'\<rparr> = jdb es ws' as ds xs"
  "(jdb es ws as ds xs)\<lparr>ef_authorizations := as'\<rparr> = jdb es ws as' ds xs"
  "(jdb es ws as ds xs)\<lparr>ef_dispatches := ds'\<rparr> = jdb es ws as ds' xs" "(jdb es ws as ds xs)\<lparr>ef_evidence := xs'\<rparr> = jdb es ws as ds xs'"
  by (simp_all add: jdb_def)

section \<open>The history\<close>

lemma propose_first: "PutIntent the_ports 1 (proposal ''a'') (jdb [] [] [] [] []) = (Inr (), jdb [erow ''a'' StatePrepared [] [] 1] [irow ''a''] [] [] [])"
  by (simp add: PutIntent_def run_tx_def put_effect_def put_intent_row_def irow_def [symmetric] Let_def)
    (simp add: proposal_def erow_def irow_def)

lemma propose_second:
  "PutIntent the_ports 1 (proposal ''b'') (jdb [erow ''a'' StatePrepared [] [] 1] [irow ''a''] [] [] []) =
   (Inr (), jdb [erow ''a'' StatePrepared [] [] 1, erow ''b'' StatePrepared [] [] 1] [irow ''a'', irow ''b''] [] [] [])"
  by (simp add: PutIntent_def run_tx_def put_effect_def put_intent_row_def irow_def [symmetric] Let_def)
    (simp add: proposal_def erow_def irow_def [symmetric])

lemma allow_first:
  "PutGrant 2 (permit ''a'' ''authorized'') (jdb [erow ''a'' StatePrepared [] [] 1, erow ''b'' StatePrepared [] [] 1] [irow ''a'', irow ''b''] [] [] []) =
   (Inr (permit ''a'' ''authorized''), jdb [erow ''a'' StateAllowed ''ga'' [] 2, erow ''b'' StatePrepared [] [] 1] [irow ''a'', irow ''b'']
      [arow ''a'' ''authorized'' None None] [] [])"
  by (simp add: PutGrant_def run_tx_def put_authorization_def new_authorization_def nullString_def set_effect_def Let_def)
    (simp add: erow_def arow_def micros_def)

lemma allow_second:
  "PutGrant 2 (permit ''b'' ''authorized'') (jdb [erow ''a'' StateAllowed ''ga'' [] 2, erow ''b'' StatePrepared [] [] 1] [irow ''a'', irow ''b'']
      [arow ''a'' ''authorized'' None None] [] []) =
   (Inr (permit ''b'' ''authorized''), jdb [erow ''a'' StateAllowed ''ga'' [] 2, erow ''b'' StateAllowed ''gb'' [] 2] [irow ''a'', irow ''b'']
      [arow ''a'' ''authorized'' None None, arow ''b'' ''authorized'' None None] [] [])"
  by (simp add: PutGrant_def run_tx_def put_authorization_def new_authorization_def nullString_def set_effect_def Let_def)
    (simp add: erow_def arow_def micros_def)

text \<open>The guard of a dispatch passes for both reads, whatever the journal holds.\<close>

lemma the_guard: "guardDispatch the_ports the_clock (permit a st) (jdb es ws as ds xs) = Inr ()"
  by (simp add: guardDispatch_def guard_task_def owns_run_def the_clock_def the_ports_def demo_db_def demo_row_def demo_run_def
      the_task_def ended_state_def CheckExecutionPolicy_def EffectRead_def reviewed_tool_def HasPrefix_def claims_input_def
      credential_tool_def LoginTool_def)

lemmas claim_defs = ClaimGrant_def run_tx_def grantInTx_def claim_target_def effect_of_def commit_claim_def begin_dispatch_def
  usable_def mandate_live_def set_effect_def claims_input_def credential_tool_def LoginTool_def the_clock_def

lemma the_ports_simps [simp]:
  "pt_admission the_ports = None" "pt_reserve the_ports = None" "pt_claim_action the_ports = None" "pt_observe the_ports = None"
  "pt_task_action the_ports db b t = Inr ()"
  by (simp_all add: the_ports_def)

lemma claim_first:
  "ClaimGrant the_ports the_clock ''ga'' (jdb [erow ''a'' StateAllowed ''ga'' [] 2, erow ''b'' StateAllowed ''gb'' [] 2] [irow ''a'', irow ''b'']
      [arow ''a'' ''authorized'' None None, arow ''b'' ''authorized'' None None] [] []) =
   (Inr (), jdb [erow ''a'' StateExecuting ''ga'' ''executing'' 5, erow ''b'' StateAllowed ''gb'' [] 2] [irow ''a'', irow ''b'']
      [arow ''a'' ''inflight'' (Some 5) None, arow ''b'' ''authorized'' None None] [drow ''a'' ''executing'' None] [])"
  using the_guard by (simp add: claim_defs) (simp add: erow_def arow_def drow_def)

lemma claim_second:
  "ClaimGrant the_ports the_clock ''gb'' (jdb [erow ''a'' StateExecuting ''ga'' ''executing'' 5, erow ''b'' StateAllowed ''gb'' [] 2] [irow ''a'', irow ''b'']
      [arow ''a'' ''inflight'' (Some 5) None, arow ''b'' ''authorized'' None None] [drow ''a'' ''executing'' None] []) =
   (Inr (), jdb [erow ''a'' StateExecuting ''ga'' ''executing'' 5, erow ''b'' StateExecuting ''gb'' ''executing'' 5] [irow ''a'', irow ''b'']
      [arow ''a'' ''inflight'' (Some 5) None, arow ''b'' ''inflight'' (Some 5) None] [drow ''a'' ''executing'' None, drow ''b'' ''executing'' None] [])"
  using the_guard by (simp add: claim_defs) (simp add: erow_def arow_def drow_def)

definition answer :: EffectEvidence where
  "answer = \<lparr>ee_SSO = None, ee_Login = None, ee_EvidenceID = ''x'', ee_ActionID = ''a'', ee_SourceActionID = ''a'', ee_SourceToolCallID = ''a'',
     ee_SourceRunID = ''r1'', ee_Source = ''runtime_response'', ee_Method = ''read_result'', ee_Verdict = StateConfirmed, ee_ResultDigest = ''d'',
     ee_ArtifactDigest = [], ee_NormalizedResultDigest = [], ee_ErrorCategory = [], ee_ObservedAt = 6000, ee_RecordedAt = 6000\<rparr>"

definition xrow :: evidence_row where
  "xrow = \<lparr>ev_evidence_id = ''x'', ev_action_id = ''a'', ev_source_action_id = ''a'', ev_evidence = answer, ev_observed_at = 6000, ev_recorded_at = 6000\<rparr>"

lemma confirm_first:
  "snd (RecordDispatchOutcome the_ports 7 6000 ''ga'' ''dispatch_completed'' answer
     (jdb [erow ''a'' StateExecuting ''ga'' ''executing'' 5, erow ''b'' StateAllowed ''gb'' [] 2] [irow ''a'', irow ''b'']
      [arow ''a'' ''inflight'' (Some 5) None, arow ''b'' ''authorized'' None None] [drow ''a'' ''executing'' None] [])) =
   jdb [erow ''a'' StateConfirmed ''ga'' ''dispatch_completed'' 7, erow ''b'' StateAllowed ''gb'' [] 2] [irow ''a'', irow ''b'']
      [arow ''a'' ''dispatch_completed'' (Some 5) (Some 7), arow ''b'' ''authorized'' None None]
      [drow ''a'' ''dispatch_completed'' (Some 7)] [xrow]"
  by (simp add: RecordDispatchOutcome_def run_tx_def grantInTx_def effectIn_def check_outcome_def outcome_matches_def verdict_supported_def
      insertEvidence_def commit_outcome_def settle_effect_def set_effect_def end_dispatch_def end_authorization_def Let_def
      LoginVerification_def SSOVerification_def answer_def)
    (simp add: erow_def arow_def drow_def xrow_def answer_def micros_def)

section \<open>Witnesses\<close>

lemma start_journal: "journal_init (jdb [] [] [] [] [])"
  by (simp add: journal_init_def journal_of_def)

lemma then_step: "effect_step\<^sup>*\<^sup>* s t \<Longrightarrow> effect_step t u \<Longrightarrow> effect_step\<^sup>*\<^sup>* s u"
  by (rule rtranclp.rtrancl_into_rtrancl)

lemma history_to_allowed:
  "effect_step\<^sup>*\<^sup>* (jdb [] [] [] [] []) (jdb [erow ''a'' StateAllowed ''ga'' [] 2, erow ''b'' StateAllowed ''gb'' [] 2] [irow ''a'', irow ''b'']
      [arow ''a'' ''authorized'' None None, arow ''b'' ''authorized'' None None] [] [])"
proof -
  have "effect_step\<^sup>*\<^sup>* (jdb [] [] [] [] []) (jdb [erow ''a'' StatePrepared [] [] 1] [irow ''a''] [] [] [])"
    by (rule r_into_rtranclp) (rule st_intent, rule propose_first)
  then have "effect_step\<^sup>*\<^sup>* (jdb [] [] [] [] [])
      (jdb [erow ''a'' StatePrepared [] [] 1, erow ''b'' StatePrepared [] [] 1] [irow ''a'', irow ''b''] [] [] [])"
    by (rule then_step) (rule st_intent, rule propose_second)
  then show ?thesis
    by (rule then_step [OF then_step]) (rule st_grant, rule allow_first, rule st_grant, rule allow_second)
qed

lemma history_to_executing:
  "effect_step\<^sup>*\<^sup>* (jdb [] [] [] [] []) (jdb [erow ''a'' StateExecuting ''ga'' ''executing'' 5, erow ''b'' StateAllowed ''gb'' [] 2]
      [irow ''a'', irow ''b''] [arow ''a'' ''inflight'' (Some 5) None, arow ''b'' ''authorized'' None None] [drow ''a'' ''executing'' None] [])"
  by (rule then_step [OF history_to_allowed st_claim]) (rule claim_first)

lemma history_to_confirmed:
  "effect_step\<^sup>*\<^sup>* (jdb [] [] [] [] []) (jdb [erow ''a'' StateConfirmed ''ga'' ''dispatch_completed'' 7, erow ''b'' StateAllowed ''gb'' [] 2]
      [irow ''a'', irow ''b''] [arow ''a'' ''dispatch_completed'' (Some 5) (Some 7), arow ''b'' ''authorized'' None None]
      [drow ''a'' ''dispatch_completed'' (Some 7)] [xrow])"
  unfolding confirm_first [symmetric] by (rule then_step [OF history_to_executing], rule st_outcome, rule surjective_pairing)

theorem effect_is_dispatched_once_witness:
  "\<exists>(s :: unit effect_db) (u :: unit effect_db) v. claimed_effect ''ga'' s \<noteq> None \<and> claimed_effect ''ga'' s \<noteq> claimed_effect ''gb'' u \<and>
     distinct (map ds_action_id (ef_dispatches (v :: unit effect_db))) \<and> length (ef_dispatches v) = 2"
proof -
  note once = effect_is_dispatched_once [OF start_journal history_to_allowed claim_first rtranclp.rtrancl_refl claim_second]
  show ?thesis by (intro exI conjI, rule once [THEN conjunct1], rule once [THEN conjunct2, THEN conjunct1],
        rule once [THEN conjunct2, THEN conjunct2]) simp
qed

theorem settled_effect_is_final_witness:
  "\<exists>s t. (\<exists>x \<in> set (ef_evidence (s :: unit effect_db)). ev_action_id x = ''a'' \<and> ee_Verdict (ev_evidence x) = StateConfirmed)
     \<and> (\<exists>e'. tbl_find ew_ActionID ''a'' (ef_effects t) = Some e' \<and> ew_State e' = StateConfirmed)
     \<and> (\<exists>ys. ef_evidence t = ef_evidence s @ ys) \<and> t = snd (MarkInterruptedEffect 9 ''a'' s)"
proof -
  let ?s = "jdb [erow ''a'' StateConfirmed ''ga'' ''dispatch_completed'' 7, erow ''b'' StateAllowed ''gb'' [] 2]
      [irow ''a'', irow ''b''] [arow ''a'' ''dispatch_completed'' (Some 5) (Some 7), arow ''b'' ''authorized'' None None]
      [drow ''a'' ''dispatch_completed'' (Some 7)] [xrow]"
  have "tbl_find ew_ActionID ''a'' (ef_effects ?s) = Some (erow ''a'' StateConfirmed ''ga'' ''dispatch_completed'' 7)" by simp
  moreover have "effect_step\<^sup>*\<^sup>* ?s (snd (MarkInterruptedEffect 9 ''a'' ?s))"
    by (rule r_into_rtranclp, rule st_interrupt, rule surjective_pairing)
  ultimately show ?thesis
    using settled_effect_is_final [OF start_journal history_to_confirmed, of "''a''"] by fastforce
qed

theorem journal_rows_agree_witness:
  "\<exists>e s. e \<in> set (ef_effects (s :: unit effect_db)) \<and> ew_State e = StateExecuting
     \<and> (\<exists>d \<in> set (ef_dispatches s). ds_action_id d = ew_ActionID e \<and> ds_outcome d = ''executing'')"
proof -
  let ?s = "jdb [erow ''a'' StateExecuting ''ga'' ''executing'' 5, erow ''b'' StateAllowed ''gb'' [] 2] [irow ''a'', irow ''b'']
      [arow ''a'' ''inflight'' (Some 5) None, arow ''b'' ''authorized'' None None] [drow ''a'' ''executing'' None] []"
  have "erow ''a'' StateExecuting ''ga'' ''executing'' 5 \<in> set (ef_effects ?s)" by simp
  from this journal_rows_agree [OF start_journal history_to_executing this] show ?thesis
    by (intro exI [of _ "erow ''a'' StateExecuting ''ga'' ''executing'' 5"] exI [of _ ?s]) auto
qed

theorem dispatch_needs_live_authority_witness:
  "\<exists>g s. grantInTx ''ga'' (s :: unit effect_db) = Inr g \<and> ab_TaskID (gr_Binding g) = ''t''
     \<and> (\<exists>k \<in> set (ef_tasks s). k_task_id k = ''t'' \<and> k_status k = ''active'' \<and> (k_execution_policy k = ''prepare_only'' \<longrightarrow> ab_Effect (gr_Binding g) = EffectRead))
     \<and> (\<exists>k \<in> set (ef_tasks s). k_execution_policy k = ''prepare_only'')"
proof -
  let ?s = "jdb [erow ''a'' StateAllowed ''ga'' [] 2, erow ''b'' StateAllowed ''gb'' [] 2] [irow ''a'', irow ''b'']
      [arow ''a'' ''authorized'' None None, arow ''b'' ''authorized'' None None] [] []"
  have g: "grantInTx ''ga'' ?s = Inr (permit ''a'' ''authorized'')" by (simp add: grantInTx_def)
  moreover have "k_execution_policy the_task = ''prepare_only''" by (simp add: the_task_def)
  ultimately show ?thesis
    using dispatch_needs_live_authority [OF claim_first] by (intro exI [of _ "permit ''a'' ''authorized''"] exI [of _ ?s]) auto
qed

text \<open>The guard of a dispatch does not stop a timed-out run, although its state is terminal.\<close>

definition timed_out_run :: run_row where
  "timed_out_run = demo_run\<lparr>r_status := RunStateTimedOut, r_current_state := RunStateTimedOut, r_finished_at := Some 30\<rparr>"

theorem timed_out_run_can_dispatch:
  "\<exists>s t. ClaimGrant the_ports the_clock ''ga'' s = (Inr (), t) \<and> runs (ef_kernel s) = [timed_out_run] \<and>
     IsTerminalRunState (r_current_state timed_out_run) \<and> ef_dispatches s = [] \<and> ef_dispatches t \<noteq> []"
proof -
  let ?s = "(jdb [erow ''a'' StateAllowed ''ga'' [] 2] [irow ''a''] [arow ''a'' ''authorized'' None None] [] [])
    \<lparr>ef_kernel := demo_db\<lparr>runs := [timed_out_run]\<rparr>\<rparr>"
  have guard: "guardDispatch the_ports the_clock (permit ''a'' ''authorized'') ?s = Inr ()"
    by (simp add: guardDispatch_def guard_task_def owns_run_def the_clock_def the_ports_def demo_db_def demo_row_def
        timed_out_run_def demo_run_def the_task_def ended_state_def CheckExecutionPolicy_def EffectRead_def reviewed_tool_def
        HasPrefix_def claims_input_def credential_tool_def LoginTool_def)
  obtain t where "ClaimGrant the_ports the_clock ''ga'' ?s = (Inr (), t)" "ef_dispatches t \<noteq> []"
    using guard by (simp add: claim_defs the_ports_def)
  moreover have "runs (ef_kernel ?s) = [timed_out_run]" "ef_dispatches ?s = []" by simp_all
  moreover have "IsTerminalRunState (r_current_state timed_out_run)" by (simp add: timed_out_run_def IsTerminalRunState_def)
  ultimately show ?thesis by blast
qed

text \<open>The lease of the worker ran out and was taken over; its grant is still there.\<close>

theorem superseded_worker_cannot_dispatch_witness:
  "\<exists>db1 e. \<not> token_valid demo_token 50 db1 \<and>
     (let s = (jdb [erow ''a'' StateAllowed ''ga'' [] 2] [irow ''a''] [arow ''a'' ''authorized'' None None] [] [])\<lparr>ef_kernel := db1\<rparr>
      in ClaimGrant the_ports the_clock ''ga'' s = (Inl e, s))"
proof -
  obtain r db1 where acq: "pg_AcquireLease ''lease-2'' demo_params 150 demo_db = (Inr r, db1)" using demo_acquire by blast
  let ?s = "(jdb [erow ''a'' StateAllowed ''ga'' [] 2] [irow ''a''] [arow ''a'' ''authorized'' None None] [] [])\<lparr>ef_kernel := db1\<rparr>"
  have tok: "token_valid demo_token 50 demo_db" by (simp add: token_valid_def demo_defs)
  have key: "ap_SessionKey demo_params = tok_SessionKey demo_token" by (simp add: demo_defs)
  have steps: "lease_step\<^sup>*\<^sup>* db1 (ef_kernel ?s)" by simp
  have ids: "o_session_key own = tok_SessionKey demo_token" if "own \<in> set (ownership (ef_kernel ?s))" for own
    using that acq by (auto simp: pg_AcquireLease_def validateAcquireLeaseParams_def lease_id_taken_def demo_defs split: if_splits)
  have g: "grantInTx ''ga'' ?s = Inr (permit ''a'' ''authorized'')" by (simp add: grantInTx_def)
  have "\<exists>e. ClaimGrant the_ports the_clock ''ga'' ?s = (Inl e, ?s)"
    by (rule superseded_worker_cannot_dispatch [OF demo_inv tok acq key steps ids g]) (simp_all add: demo_defs)
  moreover have "\<not> token_valid demo_token 50 db1"
    using passed_token_stale [OF lease_inv_acquire [OF demo_inv acq] _ rtranclp.rtrancl_refl, of demo_token]
      token_valid_epoch [OF tok] acquire_raises_epoch [OF acq] key by simp
  ultimately show ?thesis by (auto simp: Let_def)
qed

end
