(* ===== verification/Approval.thy ===== *)
theory Approval
  imports InputHooks Action
begin

text \<open>
  Approvals (\<^verbatim>\<open>apps/orchestrator/internal/approval\<close>): the repository of approval requests, tab candidates
  and approval events (\<^verbatim>\<open>store.go\<close>), durable actions that suspend a run until its owner decides
  (\<^verbatim>\<open>durable.go\<close>), the invalidation by owner controls (\<^verbatim>\<open>control.go\<close>) and the service above them
  (\<^verbatim>\<open>service.go\<close>). The state holds the tables of the component together with the kernel tables, the
  tasks and the queue of accepted inputs, because a durable approval changes all of them in one
  transaction. The checkpoint hooks are those of the queue. The triggers that keep erased payloads
  erased, and repositories other than the PostgreSQL one, are not modelled.
\<close>

section \<open>Data\<close>

definition ErrApprovalNotFound :: go_err where
  "ErrApprovalNotFound = Sentinel ''approval not found''"

definition ErrApprovalStatusConflict :: go_err where
  "ErrApprovalStatusConflict = Sentinel ''approval status conflict''"

definition ErrTabCandidateNotFound :: go_err where
  "ErrTabCandidateNotFound = Sentinel ''approval tab candidate not found''"

definition ErrApprovalUnauthorized :: go_err where
  "ErrApprovalUnauthorized = Sentinel ''authenticated owner and authorized approval channel required''"

definition ErrActionInvalid :: go_err where
  "ErrActionInvalid = Sentinel ''approval action changed, expired or cancelled''"

definition StatusPending :: string where "StatusPending = ''pending''"
definition StatusApproved :: string where "StatusApproved = ''approved''"
definition StatusRejected :: string where "StatusRejected = ''rejected''"
definition StatusExpired :: string where "StatusExpired = ''expired''"
definition StatusFailed :: string where "StatusFailed = ''failed''"

definition ApprovalTypeToolCall :: string where "ApprovalTypeToolCall = ''tool_call''"
definition ApprovalTypeBrowserTabSelection :: string where "ApprovalTypeBrowserTabSelection = ''browser_tab_selection''"

definition ResolvedViaTelegram :: string where "ResolvedViaTelegram = ''telegram''"
definition ResolvedViaWeb :: string where "ResolvedViaWeb = ''web''"
definition ResolvedViaSystem :: string where "ResolvedViaSystem = ''system''"
definition RequestedViaTelegram :: string where "RequestedViaTelegram = ''telegram''"

lemmas approval_statuses = StatusPending_def StatusApproved_def StatusRejected_def StatusExpired_def StatusFailed_def
lemmas approval_names = ApprovalTypeToolCall_def ApprovalTypeBrowserTabSelection_def ResolvedViaTelegram_def ResolvedViaWeb_def
  ResolvedViaSystem_def RequestedViaTelegram_def

record approval_row =
  vw_approval_id :: string
  vw_run_id :: string
  vw_session_key :: string
  vw_tool_call_id :: string
  vw_approval_type :: string
  vw_status :: string
  vw_requested_via :: string
  vw_resolved_via :: "string option"
  vw_tool_name :: string
  vw_args_json :: json
  vw_payload_json :: json
  vw_risk_level :: string
  vw_summary :: string
  vw_details_json :: json
  vw_requested_at :: instant
  vw_resolved_at :: "instant option"
  vw_resolved_by :: string
  vw_resolution_reason :: string
  vw_expires_at :: "instant option"
  vw_updated_at :: instant

record ApprovalRecord =
  vc_ApprovalID :: string
  vc_RunID :: string
  vc_SessionKey :: string
  vc_ToolCallID :: string
  vc_ApprovalType :: string
  vc_Status :: string
  vc_RequestedVia :: string
  vc_ResolvedVia :: string
  vc_ToolName :: string
  vc_ArgsJSON :: string
  vc_PayloadJSON :: string
  vc_RiskLevel :: string
  vc_Summary :: string
  vc_DetailsJSON :: string
  vc_RequestedAt :: instant
  vc_ResolvedAt :: "instant option"
  vc_ResolvedBy :: string
  vc_ResolutionReason :: string
  vc_ExpiresAt :: "instant option"
  vc_UpdatedAt :: instant

text \<open>A durable action. Its \<^verbatim>\<open>binding_json\<close> is kept as the binding it was made of.\<close>

record action_row =
  aw_approval_id :: string
  aw_action_id :: string
  aw_action_hash :: string
  aw_task_id :: "string option"
  aw_task_revision :: int
  aw_constraints_revision :: int
  aw_owner_id :: string
  aw_channel :: string
  aw_binding :: ActionBinding
  aw_continuation_json :: json
  aw_state :: string
  aw_decision_input_id :: "string option"
  aw_updated_at :: instant

record decision_row =
  dw_decision_input_id :: string
  dw_approval_id :: string
  dw_source :: string
  dw_delivery_id :: string
  dw_owner_id :: string
  dw_approved :: bool

record candidate_row =
  tw_approval_id :: string
  tw_candidate_token :: string
  tw_internal_tab_ref :: string
  tw_title :: string
  tw_domain :: string
  tw_current_url :: string
  tw_favicon_url :: string
  tw_display_label :: string
  tw_status :: string
  tw_created_at :: instant
  tw_selected_at :: "instant option"

record approval_event_row =
  nw_approval_id :: string
  nw_run_id :: string
  nw_session_key :: string
  nw_event_type :: string
  nw_status_before :: "string option"
  nw_status_after :: "string option"
  nw_actor_type :: string
  nw_actor_id :: string
  nw_reason :: string
  nw_metadata_json :: json
  nw_created_at :: instant

record approval_db =
  vd_kernel :: kernel_db
  vd_tasks :: "task_row list"
  vd_queue :: queue_db
  vd_approvals :: "approval_row list"
  vd_actions :: "action_row list"
  vd_decisions :: "decision_row list"
  vd_candidates :: "candidate_row list"
  vd_events :: "approval_event_row list"

record CreateApprovalParams =
  va_ApprovalID :: string
  va_RunID :: string
  va_SessionKey :: string
  va_ToolCallID :: string
  va_ApprovalType :: string
  va_RequestedVia :: string
  va_ToolName :: string
  va_ArgsJSON :: string
  va_PayloadJSON :: string
  va_RiskLevel :: string
  va_Summary :: string
  va_DetailsJSON :: string
  va_ExpiresAt :: "instant option"
  va_RequestedAt :: instant

record CreateTabCandidateParams =
  tq_ApprovalID :: string
  tq_CandidateToken :: string
  tq_InternalTabRef :: string
  tq_Title :: string
  tq_Domain :: string
  tq_CurrentURL :: string
  tq_FaviconURL :: string
  tq_DisplayLabel :: string
  tq_Status :: string

record ResolveParams =
  vr_ApprovalID :: string
  vr_ExpectedStatus :: string
  vr_Status :: string
  vr_ResolvedVia :: string
  vr_ResolvedBy :: string
  vr_ResolutionReason :: string
  vr_ResolvedAt :: instant

record ApprovalEvent =
  ve_ApprovalID :: string
  ve_RunID :: string
  ve_SessionKey :: string
  ve_EventType :: string
  ve_StatusBefore :: string
  ve_StatusAfter :: string
  ve_ActorType :: string
  ve_ActorID :: string
  ve_Reason :: string
  ve_MetadataJSON :: string
  ve_CreatedAt :: instant

text \<open>
  The conversions the component relies on: the codec of the queue, \<^verbatim>\<open>json.Unmarshal\<close> into a value, the
  digest of canonical arguments (\<^verbatim>\<open>actionauth.ArgumentsHash\<close>, nothing for malformed ones) and the JSON form of a binding.
\<close>

record approval_codec =
  vk_queue :: queue_codec
  vk_decode :: "string \<Rightarrow> json option"
  vk_args_hash :: "string \<Rightarrow> string option"
  vk_binding :: "ActionBinding \<Rightarrow> json"

definition vk_json :: "approval_codec \<Rightarrow> jsonb_codec" where
  "vk_json C = qc_json (vk_queue C)"

section \<open>Constraint violations\<close>

definition check_violation :: "string \<Rightarrow> go_err" where
  "check_violation con = PgError ''23514'' (''new row violates check constraint '' @ con)"

definition unique_violation :: "string \<Rightarrow> go_err" where
  "unique_violation con = PgError ''23505'' (''duplicate key value violates unique constraint '' @ con)"

definition fk_violation :: "string \<Rightarrow> go_err" where
  "fk_violation con = PgError ''23503'' (''insert or update violates foreign key constraint '' @ con)"

definition not_null_violation :: "string \<Rightarrow> go_err" where
  "not_null_violation col = PgError ''23502'' (''null value in column '' @ col)"

section \<open>The repository\<close>

definition scanRecord :: "jsonb_codec \<Rightarrow> approval_row \<Rightarrow> ApprovalRecord" where
  "scanRecord J r =
     \<lparr>vc_ApprovalID = vw_approval_id r, vc_RunID = vw_run_id r, vc_SessionKey = vw_session_key r,
      vc_ToolCallID = vw_tool_call_id r, vc_ApprovalType = vw_approval_type r, vc_Status = vw_status r,
      vc_RequestedVia = vw_requested_via r, vc_ResolvedVia = coalesce (vw_resolved_via r), vc_ToolName = vw_tool_name r,
      vc_ArgsJSON = jb_out J (vw_args_json r), vc_PayloadJSON = jb_out J (vw_payload_json r),
      vc_RiskLevel = vw_risk_level r, vc_Summary = vw_summary r, vc_DetailsJSON = jb_out J (vw_details_json r),
      vc_RequestedAt = vw_requested_at r, vc_ResolvedAt = vw_resolved_at r, vc_ResolvedBy = vw_resolved_by r,
      vc_ResolutionReason = vw_resolution_reason r, vc_ExpiresAt = vw_expires_at r, vc_UpdatedAt = vw_updated_at r\<rparr>"

definition or_default :: "string \<Rightarrow> string \<Rightarrow> string" where
  "or_default d s = (if s = [] then d else s)"

definition defaulted :: "instant \<Rightarrow> CreateApprovalParams \<Rightarrow> CreateApprovalParams" where
  "defaulted go p =
     p\<lparr>va_RequestedAt := (if va_RequestedAt p = 0 then go else va_RequestedAt p),
       va_RequestedVia := or_default RequestedViaTelegram (va_RequestedVia p),
       va_ApprovalType := or_default ApprovalTypeToolCall (va_ApprovalType p),
       va_RiskLevel := or_default ''medium'' (va_RiskLevel p),
       va_ArgsJSON := or_default ''{}'' (va_ArgsJSON p),
       va_PayloadJSON := or_default ''{}'' (va_PayloadJSON p),
       va_DetailsJSON := or_default ''{}'' (va_DetailsJSON p)\<rparr>"

definition new_approval :: "jsonb_codec \<Rightarrow> CreateApprovalParams \<Rightarrow> go_err + approval_row" where
  "new_approval J p =
     bindE (need (jb_in J (va_ArgsJSON p)) jsonb_syntax_error) (\<lambda>args.
     bindE (need (jb_in J (va_PayloadJSON p)) jsonb_syntax_error) (\<lambda>payload.
     bindE (need (jb_in J (va_DetailsJSON p)) jsonb_syntax_error) (\<lambda>details.
     Inr \<lparr>vw_approval_id = va_ApprovalID p, vw_run_id = va_RunID p, vw_session_key = va_SessionKey p,
          vw_tool_call_id = va_ToolCallID p, vw_approval_type = va_ApprovalType p, vw_status = StatusPending,
          vw_requested_via = va_RequestedVia p, vw_resolved_via = None, vw_tool_name = va_ToolName p,
          vw_args_json = args, vw_payload_json = payload, vw_risk_level = va_RiskLevel p, vw_summary = va_Summary p,
          vw_details_json = details, vw_requested_at = micros (va_RequestedAt p), vw_resolved_at = None,
          vw_resolved_by = [], vw_resolution_reason = [], vw_expires_at = map_option micros (va_ExpiresAt p),
          vw_updated_at = micros (va_RequestedAt p)\<rparr>)))"

text \<open>The insert: a taken identifier inserts nothing, every other violation is an error.\<close>

definition insert_approval :: "approval_row \<Rightarrow> approval_db \<Rightarrow> go_err + bool \<times> approval_db" where
  "insert_approval r db =
     bindE (failif (vw_requested_via r \<notin> {''telegram'', ''web'', ''both''}) (check_violation ''approvals_requested_via_check'')) (\<lambda>_.
     bindE (failif (vw_risk_level r \<notin> {''low'', ''medium'', ''high''}) (check_violation ''approvals_risk_level_check'')) (\<lambda>_.
     bindE (failif (vw_approval_type r \<notin> {ApprovalTypeToolCall, ApprovalTypeBrowserTabSelection})
              (check_violation ''approvals_approval_type_check'')) (\<lambda>_.
     if tbl_find vw_approval_id (vw_approval_id r) (vd_approvals db) \<noteq> None then Inr (False, db)
     else bindE (failif (\<exists>q \<in> set (vd_approvals db). vw_tool_call_id q = vw_tool_call_id r \<and> vw_status q = StatusPending)
              (unique_violation ''idx_approvals_tool_call_pending'')) (\<lambda>_.
          bindE (failif (tbl_find r_run_id (vw_run_id r) (runs (vd_kernel db)) = None) (fk_violation ''approvals_run_id_fkey'')) (\<lambda>_.
          bindE (failif (tbl_find s_session_key (vw_session_key r) (sessions (vd_kernel db)) = None)
              (fk_violation ''approvals_session_key_fkey'')) (\<lambda>_.
          Inr (True, db\<lparr>vd_approvals := vd_approvals db @ [r]\<rparr>)))))))"

definition GetApprovalByID :: "jsonb_codec \<Rightarrow> string \<Rightarrow> approval_db \<Rightarrow> go_err + ApprovalRecord" where
  "GetApprovalByID J i db =
     bindE (need (tbl_find vw_approval_id i (vd_approvals db)) ErrApprovalNotFound) (\<lambda>r. Inr (scanRecord J r))"

definition CreateApproval ::
  "jsonb_codec \<Rightarrow> exec_ctx \<Rightarrow> instant \<Rightarrow> instant \<Rightarrow> CreateApprovalParams \<Rightarrow> approval_db \<Rightarrow> go_err + ApprovalRecord \<times> approval_db" where
  "CreateApproval J ctx go now p db =
     bindE (own_Begin ctx now (vd_kernel db)) (\<lambda>_.
     case bindE (new_approval J (defaulted go p)) (\<lambda>r. map_sum id (\<lambda>(new, db'). (r, new, db')) (insert_approval r db)) of
       Inl e \<Rightarrow> Inl (Wrap ''create approval'' e)
     | Inr (r, True, db') \<Rightarrow> Inr (scanRecord J r, db')
     | Inr (r, False, db') \<Rightarrow> bindE (GetApprovalByID J (va_ApprovalID p) db) (\<lambda>old. Inr (old, db)))"

text \<open>\<^verbatim>\<open>ORDER BY requested_at DESC LIMIT 1\<close>: rows of the same time come in the order of the table.\<close>

definition latest :: "(approval_row \<Rightarrow> bool) \<Rightarrow> approval_db \<Rightarrow> approval_row option" where
  "latest p db =
     (case sort_key (\<lambda>r. - vw_requested_at r) (filter p (vd_approvals db)) of [] \<Rightarrow> None | r # _ \<Rightarrow> Some r)"

definition GetApprovalByToolCallID :: "jsonb_codec \<Rightarrow> string \<Rightarrow> approval_db \<Rightarrow> go_err + ApprovalRecord" where
  "GetApprovalByToolCallID J call db =
     bindE (need (latest (\<lambda>r. vw_tool_call_id r = call) db) ErrApprovalNotFound) (\<lambda>r. Inr (scanRecord J r))"

definition GetApprovalByCandidateToken :: "jsonb_codec \<Rightarrow> string \<Rightarrow> approval_db \<Rightarrow> go_err + ApprovalRecord" where
  "GetApprovalByCandidateToken J token db =
     bindE (need (first_row (\<lambda>r. \<exists>t \<in> set (vd_candidates db). tw_candidate_token t = token \<and> tw_approval_id t = vw_approval_id r)
                    (vd_approvals db)) ErrApprovalNotFound) (\<lambda>r. Inr (scanRecord J r))"

definition ListApprovals :: "jsonb_codec \<Rightarrow> string \<Rightarrow> string \<Rightarrow> string \<Rightarrow> int \<Rightarrow> int \<Rightarrow> approval_db \<Rightarrow> ApprovalRecord list" where
  "ListApprovals J status runID sessionKey limit offset db =
     (let limit = (if limit \<le> 0 then 50 else if 200 < limit then 200 else limit);
          offset = (if offset < 0 then 0 else offset);
          rows = filter (\<lambda>r. (status = [] \<or> vw_status r = status) \<and> (runID = [] \<or> vw_run_id r = runID) \<and>
                             (sessionKey = [] \<or> vw_session_key r = sessionKey)) (vd_approvals db)
      in map (scanRecord J) (take (nat limit) (drop (nat offset)
           (rev (sort_key vw_requested_at (sort_key vw_approval_id rows))))))"

subsection \<open>Tab candidates\<close>

definition new_candidate :: "instant \<Rightarrow> CreateTabCandidateParams \<Rightarrow> candidate_row" where
  "new_candidate now p =
     \<lparr>tw_approval_id = tq_ApprovalID p, tw_candidate_token = tq_CandidateToken p, tw_internal_tab_ref = tq_InternalTabRef p,
      tw_title = tq_Title p, tw_domain = tq_Domain p, tw_current_url = tq_CurrentURL p, tw_favicon_url = tq_FaviconURL p,
      tw_display_label = tq_DisplayLabel p, tw_status = or_default ''available'' (tq_Status p), tw_created_at = now,
      tw_selected_at = None\<rparr>"

text \<open>An empty reference becomes \<^verbatim>\<open>NULL\<close>, which the column does not admit.\<close>

definition insert_candidate :: "candidate_row \<Rightarrow> approval_db \<Rightarrow> go_err + approval_db" where
  "insert_candidate t db =
     bindE (failif (tw_internal_tab_ref t = []) (not_null_violation ''internal_tab_ref'')) (\<lambda>_.
     bindE (failif (tw_status t \<notin> {''available'', ''selected'', ''expired'', ''cancelled''})
              (check_violation ''approval_tab_candidates_status_check'')) (\<lambda>_.
     if tbl_find tw_candidate_token (tw_candidate_token t) (vd_candidates db) \<noteq> None then Inr db
     else bindE (failif (tw_status t = ''selected'' \<and>
                   (\<exists>q \<in> set (vd_candidates db). tw_approval_id q = tw_approval_id t \<and> tw_status q = ''selected''))
              (unique_violation ''idx_approval_tab_candidates_selected_per_approval'')) (\<lambda>_.
          bindE (failif (tbl_find vw_approval_id (tw_approval_id t) (vd_approvals db) = None)
              (fk_violation ''approval_tab_candidates_approval_id_fkey'')) (\<lambda>_.
          Inr (db\<lparr>vd_candidates := vd_candidates db @ [t]\<rparr>)))))"

fun insert_candidates :: "candidate_row list \<Rightarrow> approval_db \<Rightarrow> go_err + approval_db" where
  "insert_candidates [] db = Inr db"
| "insert_candidates (t # ts) db = bindE (insert_candidate t db) (insert_candidates ts)"

text \<open>A batch runs in one implicit transaction.\<close>

definition CreateTabCandidates :: "instant \<Rightarrow> CreateTabCandidateParams list \<Rightarrow> approval_db \<Rightarrow> go_err + approval_db" where
  "CreateTabCandidates now ps db =
     (case insert_candidates (map (new_candidate now) ps) db of
        Inl e \<Rightarrow> Inl (Wrap ''create approval tab candidates'' e)
      | Inr db' \<Rightarrow> Inr db')"

definition ListTabCandidates :: "string \<Rightarrow> approval_db \<Rightarrow> candidate_row list" where
  "ListTabCandidates i db =
     sort_key tw_created_at (sort_key tw_candidate_token (filter (\<lambda>t. tw_approval_id t = i) (vd_candidates db)))"

definition GetTabCandidateByToken :: "string \<Rightarrow> approval_db \<Rightarrow> go_err + candidate_row" where
  "GetTabCandidateByToken token db = need (tbl_find tw_candidate_token token (vd_candidates db)) ErrTabCandidateNotFound"

definition selectable :: "string \<Rightarrow> string \<Rightarrow> candidate_row \<Rightarrow> bool" where
  "selectable i token t \<longleftrightarrow>
     tw_approval_id t = i \<and> tw_candidate_token t = token \<and> (tw_status t = ''available'' \<or> tw_status t = ''selected'')"

definition cancel_others :: "string \<Rightarrow> string \<Rightarrow> candidate_row list \<Rightarrow> candidate_row list" where
  "cancel_others i token =
     tbl_update (\<lambda>t. tw_approval_id t = i \<and> tw_candidate_token t \<noteq> token \<and> tw_status t = ''available'')
       (\<lambda>t. t\<lparr>tw_status := ''cancelled''\<rparr>)"

definition SelectTabCandidate :: "string \<Rightarrow> string \<Rightarrow> instant \<Rightarrow> instant \<Rightarrow> approval_db \<Rightarrow> (go_err, candidate_row, approval_db) outcome" where
  "SelectTabCandidate i token at go =
     run_tx (\<lambda>db.
       let at = micros (if at = 0 then go else at);
           rows = cancel_others i token (vd_candidates db)
       in bindE (need (first_row (selectable i token) rows) ErrTabCandidateNotFound) (\<lambda>t.
          bindE (failif (\<exists>q \<in> set rows. tw_approval_id q = i \<and> tw_candidate_token q \<noteq> token \<and> tw_status q = ''selected'')
              (Wrap ''select approval tab candidate'' (unique_violation ''idx_approval_tab_candidates_selected_per_approval''))) (\<lambda>_.
          let f = (\<lambda>t. t\<lparr>tw_status := ''selected'', tw_selected_at := Some at\<rparr>)
          in Inr (f t, db\<lparr>vd_candidates := tbl_update (selectable i token) f rows\<rparr>))))"

subsection \<open>Decisions\<close>

definition decide :: "ResolveParams \<Rightarrow> approval_row \<Rightarrow> approval_row" where
  "decide p r =
     r\<lparr>vw_status := vr_Status p, vw_resolved_via := Some (vr_ResolvedVia p), vw_resolved_by := vr_ResolvedBy p,
       vw_resolution_reason := vr_ResolutionReason p, vw_resolved_at := Some (micros (vr_ResolvedAt p)),
       vw_updated_at := micros (vr_ResolvedAt p)\<rparr>"

definition expected :: "ResolveParams \<Rightarrow> approval_row \<Rightarrow> bool" where
  "expected p r \<longleftrightarrow>
     vw_approval_id r = vr_ApprovalID p \<and> vw_status r = or_default StatusPending (vr_ExpectedStatus p)"

definition ResolveApproval ::
  "jsonb_codec \<Rightarrow> instant \<Rightarrow> ResolveParams \<Rightarrow> approval_db \<Rightarrow> go_err + ApprovalRecord \<times> approval_db" where
  "ResolveApproval J go p db =
     (let p = p\<lparr>vr_ResolvedAt := (if vr_ResolvedAt p = 0 then go else vr_ResolvedAt p)\<rparr>
      in case first_row (expected p) (vd_approvals db) of
           Some r \<Rightarrow>
             bindE (failif (vr_Status p \<notin> {StatusPending, StatusApproved, StatusRejected, StatusExpired, StatusFailed})
                      (Wrap ''resolve approval'' (check_violation ''approvals_status_check''))) (\<lambda>_.
             bindE (failif (vr_ResolvedVia p \<notin> {ResolvedViaTelegram, ResolvedViaWeb, ResolvedViaSystem})
                      (Wrap ''resolve approval'' (check_violation ''approvals_resolved_via_check''))) (\<lambda>_.
             Inr (scanRecord J (decide p r), db\<lparr>vd_approvals := tbl_update (expected p) (decide p) (vd_approvals db)\<rparr>)))
         | None \<Rightarrow>
             bindE (GetApprovalByID J (vr_ApprovalID p) db) (\<lambda>old.
             if vc_Status old \<noteq> or_default StatusPending (vr_ExpectedStatus p) then Inl ErrApprovalStatusConflict
             else Inl ErrApprovalNotFound))"

definition insert_event :: "approval_event_row \<Rightarrow> approval_db \<Rightarrow> go_err + approval_db" where
  "insert_event n db =
     bindE (failif (nw_actor_type n \<notin> {''system'', ''telegram'', ''web'', ''operator''})
              (check_violation ''approval_events_actor_type_check'')) (\<lambda>_.
     bindE (failif (tbl_find vw_approval_id (nw_approval_id n) (vd_approvals db) = None)
              (fk_violation ''approval_events_approval_id_fkey'')) (\<lambda>_.
     bindE (failif (tbl_find r_run_id (nw_run_id n) (runs (vd_kernel db)) = None) (fk_violation ''approval_events_run_id_fkey'')) (\<lambda>_.
     bindE (failif (tbl_find s_session_key (nw_session_key n) (sessions (vd_kernel db)) = None)
              (fk_violation ''approval_events_session_key_fkey'')) (\<lambda>_.
     Inr (db\<lparr>vd_events := vd_events db @ [n]\<rparr>)))))"

definition approval_InsertEvent ::
  "jsonb_codec \<Rightarrow> exec_ctx \<Rightarrow> instant \<Rightarrow> instant \<Rightarrow> ApprovalEvent \<Rightarrow> approval_db \<Rightarrow> go_err + approval_db" where
  "approval_InsertEvent J ctx go now e db =
     bindE (own_Begin ctx now (vd_kernel db)) (\<lambda>_.
     case bindE (need (jb_in J (or_default ''{}'' (ve_MetadataJSON e))) jsonb_syntax_error) (\<lambda>meta.
          insert_event
            \<lparr>nw_approval_id = ve_ApprovalID e, nw_run_id = ve_RunID e, nw_session_key = ve_SessionKey e,
             nw_event_type = ve_EventType e, nw_status_before = nullString (ve_StatusBefore e),
             nw_status_after = nullString (ve_StatusAfter e), nw_actor_type = ve_ActorType e, nw_actor_id = ve_ActorID e,
             nw_reason = ve_Reason e, nw_metadata_json = meta,
             nw_created_at = micros (if ve_CreatedAt e = 0 then go else ve_CreatedAt e)\<rparr> db) of
       Inl err \<Rightarrow> Inl (Wrap ''insert approval event'' err)
     | Inr db' \<Rightarrow> Inr db')"

end
