(* ===== verification/ApprovalFlow.thy ===== *)
theory ApprovalFlow
  imports Approval
begin

text \<open>
  Durable approvals and the approval service (\<^verbatim>\<open>durable.go\<close>, \<^verbatim>\<open>control.go\<close>, \<^verbatim>\<open>service.go\<close> of
  \<^verbatim>\<open>apps/orchestrator/internal/approval\<close>): the request that suspends a run, the owner's decision, the
  sweep that expires invalid requests, the invalidation by owner controls, and the writes of the two
  other components that change approvals (guarded tab selection and privacy redaction).

  \<open>go\<close> is the clock of the process, \<open>now\<close> the clock of the database: one reading of each per
  transaction. \<open>rnd\<close> is the random part of an identifier, \<open>None\<close> when the generator fails.
\<close>

section \<open>Identifiers\<close>

definition unix_nano :: "instant \<Rightarrow> int" where
  "unix_nano t = t - 62135596800 * second"

definition newApprovalID :: "string option \<Rightarrow> instant \<Rightarrow> string" where
  "newApprovalID rnd go =
     ''approval-'' @ show_int (unix_nano go) @ (case rnd of None \<Rightarrow> [] | Some h \<Rightarrow> ''-'' @ h)"

text \<open>The verb \<^verbatim>\<open>%q\<close> on text without quotes, backslashes and unprintable bytes.\<close>

definition quoted :: "string \<Rightarrow> string" where
  "quoted s = CHR 0x22 # s @ [CHR 0x22]"

section \<open>Requesting a durable approval\<close>

record CreatePendingParams =
  pp_ActionBinding :: ActionBinding
  pp_ContinuationJSON :: string
  pp_RunID :: string
  pp_SessionKey :: string
  pp_ToolCallID :: string
  pp_ApprovalType :: string
  pp_RequestedVia :: string
  pp_ToolName :: string
  pp_ArgsJSON :: string
  pp_PayloadJSON :: string
  pp_RiskLevel :: string
  pp_Summary :: string
  pp_DetailsJSON :: string
  pp_TabCandidates :: "CreateTabCandidateParams list"
  pp_RequestedAt :: instant
  pp_ExpiresAt :: "instant option"

text \<open>\<^verbatim>\<open>json.Unmarshal\<close> into a struct with one integer field \<^verbatim>\<open>version\<close>.\<close>

fun decode_version :: "int \<Rightarrow> (string \<times> json) list \<Rightarrow> int option" where
  "decode_version n [] = Some n"
| "decode_version n ((k, v) # kv) =
     (if map ascii_lower k \<noteq> ''version'' then decode_version n kv
      else case v of
        JNum i \<Rightarrow> if int64 i then decode_version i kv else None
      | JNull \<Rightarrow> decode_version n kv
      | _ \<Rightarrow> None)"

definition continuation_version :: "approval_codec \<Rightarrow> string \<Rightarrow> int option" where
  "continuation_version C text =
     (case vk_decode C text of
        Some (JObj kv) \<Rightarrow> decode_version 0 kv
      | Some JNull \<Rightarrow> Some 0
      | _ \<Rightarrow> None)"

definition check_durable :: "approval_codec \<Rightarrow> instant \<Rightarrow> CreatePendingParams \<Rightarrow> go_err + unit" where
  "check_durable C go p =
     (let b = pp_ActionBinding p in
     bindE (failif (vk_args_hash C (pp_ArgsJSON p) \<noteq> Some (ab_ArgsHash b)) ErrActionInvalid) (\<lambda>_.
     bindE (failif (ab_ActionID b = [] \<or> ab_ActionHash b = [] \<or> ab_RunID b \<noteq> pp_RunID p \<or> ab_ToolCallID b \<noteq> pp_ToolCallID p \<or>
                    ab_ToolName b \<noteq> pp_ToolName p \<or> ab_OwnerID b = [] \<or> ab_ArgsHash b = [])
              (Errorf ''exact durable action and checkpoint hooks required'')) (\<lambda>_.
     bindE (failif (1024 * 1024 < length (pp_ContinuationJSON p) \<or> continuation_version C (pp_ContinuationJSON p) \<noteq> Some 1)
              (Errorf ''version 1 data-only continuation required'')) (\<lambda>_.
     failif (case pp_ExpiresAt p of None \<Rightarrow> True | Some t \<Rightarrow> t \<le> go) ErrActionInvalid))))"

definition check_task :: "ActionBinding \<Rightarrow> task_row list \<Rightarrow> go_err + unit" where
  "check_task b tasks =
     (if ab_TaskID b = [] then Inr ()
      else bindE (need (tbl_find k_task_id (ab_TaskID b) tasks) ErrActionInvalid) (\<lambda>t.
        failif (k_revision t \<noteq> ab_TaskRevision b \<or> k_constraints_revision t \<noteq> ab_ConstraintsRevision b \<or> k_status t \<noteq> ''active'')
          ErrActionInvalid))"

definition revision_or_0 :: "run_row \<Rightarrow> int" where
  "revision_or_0 r = (case r_task_revision r of None \<Rightarrow> 0 | Some n \<Rightarrow> n)"

definition check_run :: "CreatePendingParams \<Rightarrow> approval_db \<Rightarrow> go_err + unit" where
  "check_run p db =
     (let b = pp_ActionBinding p; K = vd_kernel db in
     bindE (need (first_row (\<lambda>r. r_run_id r = pp_RunID p \<and> r_session_key r = pp_SessionKey p) (runs K)) ErrNoRows) (\<lambda>r.
     bindE (need (tbl_find s_session_key (r_session_key r) (sessions K)) ErrNoRows) (\<lambda>s.
     bindE (failif (s_user_id s \<noteq> ab_OwnerID b \<or> r_current_state r \<noteq> ''tool_pending'' \<or> coalesce (r_task_id r) \<noteq> ab_TaskID b \<or>
                    revision_or_0 r \<noteq> ab_TaskRevision b) ErrActionInvalid) (\<lambda>_.
     check_task b (vd_tasks db)))))"

definition durable_params :: "approval_codec \<Rightarrow> string \<Rightarrow> CreatePendingParams \<Rightarrow> CreateApprovalParams" where
  "durable_params C i p =
     \<lparr>va_ApprovalID = i, va_RunID = pp_RunID p, va_SessionKey = pp_SessionKey p, va_ToolCallID = pp_ToolCallID p,
      va_ApprovalType = ApprovalTypeToolCall, va_RequestedVia = pp_RequestedVia p, va_ToolName = pp_ToolName p,
      va_ArgsJSON = pp_ArgsJSON p, va_PayloadJSON = pp_PayloadJSON p, va_RiskLevel = pp_RiskLevel p,
      va_Summary = pp_Summary p, va_DetailsJSON = json_Marshal (JObj [(''action_binding'', vk_binding C (pp_ActionBinding p))]),
      va_ExpiresAt = pp_ExpiresAt p, va_RequestedAt = pp_RequestedAt p\<rparr>"

definition new_action :: "string \<Rightarrow> json \<Rightarrow> instant \<Rightarrow> CreatePendingParams \<Rightarrow> action_row" where
  "new_action i cont now p =
     (let b = pp_ActionBinding p in
      \<lparr>aw_approval_id = i, aw_action_id = ab_ActionID b, aw_action_hash = ab_ActionHash b, aw_task_id = nullString (ab_TaskID b),
       aw_task_revision = ab_TaskRevision b, aw_constraints_revision = ab_ConstraintsRevision b, aw_owner_id = ab_OwnerID b,
       aw_channel = pp_RequestedVia p, aw_binding = b, aw_continuation_json = cont, aw_state = ''waiting'',
       aw_decision_input_id = None, aw_updated_at = now\<rparr>)"

definition insert_action :: "action_row \<Rightarrow> approval_db \<Rightarrow> go_err + approval_db" where
  "insert_action a db =
     bindE (failif (aw_channel a \<noteq> ''web'' \<and> aw_channel a \<noteq> ''telegram'') (check_violation ''approval_actions_channel_check'')) (\<lambda>_.
     bindE (failif (tbl_find aw_approval_id (aw_approval_id a) (vd_actions db) \<noteq> None) (unique_violation ''approval_actions_pkey'')) (\<lambda>_.
     bindE (failif (tbl_find aw_action_id (aw_action_id a) (vd_actions db) \<noteq> None)
              (unique_violation ''approval_actions_action_id_key'')) (\<lambda>_.
     Inr (db\<lparr>vd_actions := vd_actions db @ [a]\<rparr>))))"

definition await_run :: "string \<Rightarrow> instant \<Rightarrow> kernel_db \<Rightarrow> kernel_db" where
  "await_run runID now K =
     K\<lparr>runs := tbl_update (\<lambda>r. r_run_id r = runID)
        (\<lambda>r. r\<lparr>r_status := ''awaiting_approval'', r_current_state := ''awaiting_approval'', r_updated_at := now\<rparr>) (runs K)\<rparr>"

definition await_task :: "string \<Rightarrow> instant \<Rightarrow> task_row list \<Rightarrow> task_row list" where
  "await_task taskID now =
     (if taskID = [] then id
      else tbl_update (\<lambda>t. k_task_id t = taskID) (\<lambda>t. t\<lparr>k_status := ''waiting_for_user'', k_updated_at := now\<rparr>))"

definition log_await :: "approval_codec \<Rightarrow> string \<Rightarrow> string \<Rightarrow> instant \<Rightarrow> approval_db \<Rightarrow> go_err + approval_db" where
  "log_await C runID i now db =
     bindE (need (jb_in (vk_json C) (''{\"approval_id\":'' @ quoted i @ '',\"durable\":true}'')) jsonb_syntax_error) (\<lambda>meta.
     Inr (db\<lparr>vd_kernel := (vd_kernel db)\<lparr>transitions := transitions (vd_kernel db) @
        [\<lparr>t_run_id = runID, t_from_state = ''tool_pending'', t_to_state = ''awaiting_approval'',
          t_triggered_by = ''orchestrator'', t_metadata = meta, t_transitioned_at = now\<rparr>]\<rparr>\<rparr>))"

definition requested_event :: "string \<Rightarrow> CreatePendingParams \<Rightarrow> ApprovalEvent" where
  "requested_event i p =
     \<lparr>ve_ApprovalID = i, ve_RunID = pp_RunID p, ve_SessionKey = pp_SessionKey p, ve_EventType = ''approval_requested'',
      ve_StatusBefore = [], ve_StatusAfter = StatusPending, ve_ActorType = ''system'', ve_ActorID = ''orchestrator'',
      ve_Reason = ''durable exact action prepared; execution suspended'', ve_MetadataJSON = ''{\"continuation_version\":1}'',
      ve_CreatedAt = 0\<rparr>"

text \<open>What follows the insert of the approval inside the transaction.\<close>

definition suspend_run ::
  "approval_codec \<Rightarrow> InputRecord option \<Rightarrow> exec_ctx \<Rightarrow> instant \<Rightarrow> instant \<Rightarrow> CreatePendingParams \<Rightarrow> string \<Rightarrow> approval_db
     \<Rightarrow> go_err + approval_db" where
  "suspend_run C claim ctx go now p i db =
     bindE (need (jb_in (vk_json C) (pp_ContinuationJSON p)) jsonb_syntax_error) (\<lambda>cont.
     bindE (insert_action (new_action i cont now p) db) (\<lambda>db.
     let db = db\<lparr>vd_kernel := await_run (pp_RunID p) now (vd_kernel db),
                 vd_tasks := await_task (ab_TaskID (pp_ActionBinding p)) now (vd_tasks db)\<rparr>
     in bindE (SuspendApprovalTx (vk_queue C) claim (pp_RunID p) i (pp_ContinuationJSON p) now (vd_queue db)) (\<lambda>(_, q).
        bindE (approval_InsertEvent (vk_json C) ctx go now (requested_event i p) (db\<lparr>vd_queue := q\<rparr>)) (\<lambda>db.
        log_await C (pp_RunID p) i now db))))"

definition CreateDurable ::
  "approval_codec \<Rightarrow> InputRecord option \<Rightarrow> exec_ctx \<Rightarrow> string option \<Rightarrow> instant \<Rightarrow> instant \<Rightarrow> CreatePendingParams \<Rightarrow> approval_db
     \<Rightarrow> (go_err, ApprovalRecord, approval_db) outcome" where
  "CreateDurable C claim ctx rnd go now p =
     run_tx (\<lambda>db.
       bindE (own_Begin ctx now (vd_kernel db)) (\<lambda>ctx.
       bindE (check_durable C go p) (\<lambda>_.
       bindE (check_run p db) (\<lambda>_.
       bindE (CreateApproval (vk_json C) ctx go now (durable_params C (newApprovalID rnd go) p) db) (\<lambda>(rec, db).
       bindE (suspend_run C claim ctx go now p (vc_ApprovalID rec) db) (\<lambda>db.
       Inr (rec, db)))))))"

definition MarkActionCheckpoint ::
  "exec_ctx \<Rightarrow> string \<Rightarrow> string \<Rightarrow> string \<Rightarrow> instant \<Rightarrow> approval_db \<Rightarrow> go_err + approval_db" where
  "MarkActionCheckpoint ctx runID toolCallID state now db =
     bindE (failif (state \<noteq> ''dispatching'' \<and> state \<noteq> ''completed'' \<and> state \<noteq> ''blocked'')
              (Errorf ''unsupported continuation state'')) (\<lambda>_.
     bindE (own_Begin ctx now (vd_kernel db)) (\<lambda>_.
     Inr (db\<lparr>vd_actions := tbl_update
        (\<lambda>d. (\<exists>a \<in> set (vd_approvals db). vw_approval_id a = aw_approval_id d \<and> vw_run_id a = runID \<and>
                vw_tool_call_id a = toolCallID \<and> vw_status a = StatusApproved) \<and>
             (aw_state d = ''ready'' \<or> aw_state d = ''dispatching''))
        (\<lambda>d. d\<lparr>aw_state := state, aw_updated_at := now\<rparr>) (vd_actions db)\<rparr>)))"

section \<open>Verification\<close>

record ApprovalSnapshot =
  vs_ApprovalID :: string
  vs_Status :: string
  vs_Binding :: ActionBinding
  vs_ExpiresAt :: instant
  vs_ResolvedAt :: instant
  vs_ResolvedVia :: string

definition ended_run :: "string \<Rightarrow> bool" where
  "ended_run s \<longleftrightarrow> s = ''cancelled'' \<or> s = ''completed'' \<or> s = ''failed'' \<or> s = ''timed_out''"

text \<open>The task a run belongs to is the bound one at the bound revisions. A missing row reads as revision 0 and no status.\<close>

definition task_current :: "ActionBinding \<Rightarrow> task_row option \<Rightarrow> bool" where
  "task_current b t \<longleftrightarrow>
     ab_TaskID b = [] \<or>
     (case t of None \<Rightarrow> 0 | Some t \<Rightarrow> k_revision t) = ab_TaskRevision b \<and>
     (case t of None \<Rightarrow> 0 | Some t \<Rightarrow> k_constraints_revision t) = ab_ConstraintsRevision b \<and>
     (case t of None \<Rightarrow> False | Some t \<Rightarrow> k_status t = ''active'' \<or> k_status t = ''waiting_for_user'')"

definition run_task :: "run_row \<Rightarrow> task_row list \<Rightarrow> task_row option" where
  "run_task r tasks = (case r_task_id r of None \<Rightarrow> None | Some i \<Rightarrow> tbl_find k_task_id i tasks)"

definition verifyAction :: "instant \<Rightarrow> string \<Rightarrow> ActionBinding \<Rightarrow> approval_db \<Rightarrow> go_err + ApprovalSnapshot" where
  "verifyAction now i requested db =
     bindE (need (tbl_find vw_approval_id i (vd_approvals db)) ErrActionInvalid) (\<lambda>a.
     bindE (need (tbl_find aw_approval_id i (vd_actions db)) ErrActionInvalid) (\<lambda>d.
     bindE (need (tbl_find r_run_id (vw_run_id a) (runs (vd_kernel db))) ErrActionInvalid) (\<lambda>r.
     bindE (need (tbl_find s_session_key (vw_session_key a) (sessions (vd_kernel db))) ErrActionInvalid) (\<lambda>s.
     bindE (need (vw_expires_at a) ErrActionInvalid) (\<lambda>expires.
     let b = aw_binding d in
     bindE (failif (b \<noteq> requested \<or> expires \<le> now \<or> s_user_id s \<noteq> ab_OwnerID b \<or> coalesce (r_task_id r) \<noteq> ab_TaskID b \<or>
                    revision_or_0 r \<noteq> ab_TaskRevision b \<or> \<not> task_current b (run_task r (vd_tasks db)) \<or>
                    ended_run (r_current_state r)) ErrActionInvalid) (\<lambda>_.
     Inr \<lparr>vs_ApprovalID = vw_approval_id a, vs_Status = vw_status a, vs_Binding = b, vs_ExpiresAt = expires,
          vs_ResolvedAt = (case vw_resolved_at a of None \<Rightarrow> vw_requested_at a | Some t \<Rightarrow> t),
          vs_ResolvedVia = coalesce (vw_resolved_via a)\<rparr>))))))"

definition VerifyActionApproval :: "instant \<Rightarrow> string \<Rightarrow> ActionBinding \<Rightarrow> approval_db \<Rightarrow> go_err + ApprovalSnapshot" where
  "VerifyActionApproval = verifyAction"

section \<open>Deciding a durable approval\<close>

definition may_decide :: "bool \<Rightarrow> bool \<Rightarrow> Actor \<Rightarrow> action_row \<Rightarrow> approval_row \<Rightarrow> bool" where
  "may_decide review approved actor d a \<longleftrightarrow>
     ac_OwnerID actor = aw_owner_id d \<and>
     (review \<or> ac_Channel actor = aw_channel d \<and>
        (aw_channel d \<noteq> ResolvedViaTelegram \<or> ac_SessionKey actor = vw_session_key a)) \<and>
     \<not> (review \<and> approved)"

definition decision_status :: "bool \<Rightarrow> bool \<Rightarrow> string \<Rightarrow> string \<Rightarrow> string \<times> string" where
  "decision_status approved verified run_state reason =
     (if run_state \<noteq> ''awaiting_approval'' then (StatusExpired, ''run no longer awaits this action'')
      else if \<not> verified then (StatusExpired, ''action/task revision changed, cancelled or approval expired'')
      else (if approved then StatusApproved else StatusRejected, reason))"

text \<open>The insert of a decision: \<open>None\<close> when the delivery is already recorded.\<close>

definition insert_decision :: "decision_row \<Rightarrow> approval_db \<Rightarrow> go_err + approval_db option" where
  "insert_decision d db =
     (if \<exists>q \<in> set (vd_decisions db). dw_source q = dw_source d \<and> dw_delivery_id q = dw_delivery_id d then Inr None
      else bindE (failif (tbl_find dw_decision_input_id (dw_decision_input_id d) (vd_decisions db) \<noteq> None)
              (unique_violation ''approval_decision_inputs_pkey'')) (\<lambda>_.
           Inr (Some (db\<lparr>vd_decisions := vd_decisions db @ [d]\<rparr>))))"

definition same_decision :: "decision_row \<Rightarrow> approval_db \<Rightarrow> go_err + unit" where
  "same_decision d db =
     bindE (need (first_row (\<lambda>q. dw_source q = dw_source d \<and> dw_delivery_id q = dw_delivery_id d) (vd_decisions db)) ErrNoRows) (\<lambda>q.
     failif (dw_approval_id q \<noteq> dw_approval_id d \<or> dw_owner_id q \<noteq> dw_owner_id d \<or> dw_approved q \<noteq> dw_approved d)
       (Errorf ''decision delivery identity conflicts with accepted decision''))"

definition mark_action :: "string \<Rightarrow> string \<Rightarrow> string \<Rightarrow> instant \<Rightarrow> approval_db \<Rightarrow> approval_db" where
  "mark_action i status decision now db =
     db\<lparr>vd_actions := tbl_update (\<lambda>d. aw_approval_id d = i)
        (\<lambda>d. d\<lparr>aw_state := (if status = StatusApproved then ''ready'' else ''blocked''),
               aw_decision_input_id := Some decision, aw_updated_at := now\<rparr>) (vd_actions db)\<rparr>"

definition settle_task :: "string \<Rightarrow> int \<Rightarrow> string \<Rightarrow> instant \<Rightarrow> approval_db \<Rightarrow> approval_db" where
  "settle_task taskID revision status now db =
     (if taskID = [] then db
      else db\<lparr>vd_tasks := tbl_update (\<lambda>t. k_task_id t = taskID \<and> k_revision t = revision \<and> k_status t = ''waiting_for_user'')
        (\<lambda>t. if status = StatusApproved then t\<lparr>k_status := ''active'', k_updated_at := now\<rparr>
              else t\<lparr>k_status := ''blocked'',
                     k_working := (k_working t)\<lparr>ws_Scratch :=
                       obj_put ''block_reason'' (JStr (''approval_'' @ status)) (ws_Scratch (k_working t))\<rparr>,
                     k_working_revision := k_working_revision t + 1, k_updated_at := now\<rparr>) (vd_tasks db)\<rparr>)"

definition resolved_event :: "ApprovalRecord \<Rightarrow> string \<Rightarrow> Actor \<Rightarrow> string \<Rightarrow> ApprovalEvent" where
  "resolved_event rec status actor reason =
     \<lparr>ve_ApprovalID = vc_ApprovalID rec, ve_RunID = vc_RunID rec, ve_SessionKey = vc_SessionKey rec,
      ve_EventType = ''approval_resolved'', ve_StatusBefore = StatusPending, ve_StatusAfter = status,
      ve_ActorType = ac_Channel actor, ve_ActorID = ac_OwnerID actor, ve_Reason = reason,
      ve_MetadataJSON = ''{\"durable_decision\":true}'', ve_CreatedAt = 0\<rparr>"

definition settle_decision ::
  "approval_codec \<Rightarrow> exec_ctx \<Rightarrow> instant \<Rightarrow> instant \<Rightarrow> ApprovalRecord \<Rightarrow> action_row \<Rightarrow> Actor \<Rightarrow> string \<Rightarrow> string \<Rightarrow> string \<Rightarrow> approval_db
     \<Rightarrow> go_err + ApprovalRecord \<times> approval_db" where
  "settle_decision C ctx go now rec d actor status reason decision db =
     bindE (ResolveApproval (vk_json C) go
              \<lparr>vr_ApprovalID = vc_ApprovalID rec, vr_ExpectedStatus = [], vr_Status = status, vr_ResolvedVia = ac_Channel actor,
               vr_ResolvedBy = ac_OwnerID actor, vr_ResolutionReason = reason, vr_ResolvedAt = go\<rparr> db) (\<lambda>(updated, db).
     let db = settle_task (coalesce (aw_task_id d)) (ab_TaskRevision (aw_binding d)) status now
                (mark_action (vc_ApprovalID rec) status decision now db)
     in bindE (ReadyApprovalTx (vk_queue C) (vc_RunID rec) (vc_ApprovalID rec) now (vd_queue db)) (\<lambda>(_, q).
        bindE (approval_InsertEvent (vk_json C) ctx go now (resolved_event rec status actor reason) (db\<lparr>vd_queue := q\<rparr>)) (\<lambda>db.
        Inr (updated, db))))"

text \<open>The decision of a request that is still pending.\<close>

definition decide_pending ::
  "approval_codec \<Rightarrow> exec_ctx \<Rightarrow> string option \<Rightarrow> instant \<Rightarrow> instant \<Rightarrow> bool \<Rightarrow> ApprovalRecord \<Rightarrow> bool \<Rightarrow> Actor \<Rightarrow> string \<Rightarrow>
   action_row \<Rightarrow> approval_row \<Rightarrow> string \<Rightarrow> approval_db \<Rightarrow> go_err + (ApprovalRecord \<times> bool) \<times> approval_db" where
  "decide_pending C ctx rnd go now review rec approved actor reason d a run_state db =
     (let verified = (case verifyAction now (vc_ApprovalID rec) (aw_binding d) db of Inl _ \<Rightarrow> False | Inr _ \<Rightarrow> True);
          current = scanRecord (vk_json C) a;
          decision = newApprovalID rnd go;
          input = \<lparr>dw_decision_input_id = decision, dw_approval_id = vc_ApprovalID rec, dw_source = ac_Channel actor,
                   dw_delivery_id = ac_DeliveryID actor, dw_owner_id = ac_OwnerID actor, dw_approved = approved\<rparr>
      in if review \<and> verified then Inr ((current, False), db)
         else case decision_status approved verified run_state reason of (status, reason) \<Rightarrow>
           bindE (insert_decision input db) (\<lambda>inserted.
           case inserted of
             None \<Rightarrow> bindE (same_decision input db) (\<lambda>_. Inr ((current, False), db))
           | Some db' \<Rightarrow>
               bindE (settle_decision C ctx go now rec d actor status reason decision db') (\<lambda>(updated, db'').
               Inr ((updated, True), db''))))"

definition ResolveDurable ::
  "approval_codec \<Rightarrow> exec_ctx \<Rightarrow> string option \<Rightarrow> instant \<Rightarrow> instant \<Rightarrow> bool \<Rightarrow> ApprovalRecord \<Rightarrow> bool \<Rightarrow> Actor \<Rightarrow> string \<Rightarrow> approval_db
     \<Rightarrow> (go_err, ApprovalRecord \<times> bool, approval_db) outcome" where
  "ResolveDurable C ctx rnd go now review rec approved actor reason =
     run_tx (\<lambda>db.
       bindE (failif (ac_OwnerID actor = [] \<or> ac_Channel actor = [] \<or> ac_DeliveryID actor = []) ErrApprovalUnauthorized) (\<lambda>_.
       bindE (need (tbl_find aw_approval_id (vc_ApprovalID rec) (vd_actions db)) ErrApprovalNotFound) (\<lambda>d.
       bindE (need (tbl_find vw_approval_id (vc_ApprovalID rec) (vd_approvals db)) ErrApprovalNotFound) (\<lambda>a.
       bindE (need (tbl_find r_run_id (vw_run_id a) (runs (vd_kernel db))) ErrApprovalNotFound) (\<lambda>r.
       bindE (failif (\<not> may_decide review approved actor d a) ErrApprovalUnauthorized) (\<lambda>_.
       if vw_status a \<noteq> StatusPending then Inr ((scanRecord (vk_json C) a, False), db)
       else decide_pending C ctx rnd go now review rec approved actor reason d a (r_current_state r) db))))))"

section \<open>The sweep\<close>

definition past :: "instant \<Rightarrow> instant option \<Rightarrow> bool" where
  "past now t = (case t of None \<Rightarrow> False | Some t \<Rightarrow> t \<le> now)"

definition task_moved :: "action_row \<Rightarrow> task_row list \<Rightarrow> bool" where
  "task_moved d tasks =
     (case aw_task_id d of
        None \<Rightarrow> False
      | Some i \<Rightarrow>
          (case tbl_find k_task_id i tasks of
             None \<Rightarrow> False
           | Some t \<Rightarrow> k_revision t \<noteq> aw_task_revision d \<or> k_constraints_revision t \<noteq> aw_constraints_revision d \<or>
                       k_status t \<noteq> ''active'' \<and> k_status t \<noteq> ''waiting_for_user''))"

definition sweepable :: "instant \<Rightarrow> approval_db \<Rightarrow> approval_row \<Rightarrow> bool" where
  "sweepable now db a \<longleftrightarrow>
     vw_status a = StatusPending \<and>
     (case (tbl_find aw_approval_id (vw_approval_id a) (vd_actions db), tbl_find r_run_id (vw_run_id a) (runs (vd_kernel db))) of
        (Some d, Some r) \<Rightarrow>
          past now (vw_expires_at a) \<or> r_current_state r \<noteq> ''awaiting_approval'' \<or> task_moved d (vd_tasks db)
      | _ \<Rightarrow> False)"

text \<open>Identifiers and owners of the requests to expire: a hundred at most, the oldest first.\<close>

definition due_actions :: "instant \<Rightarrow> approval_db \<Rightarrow> (string \<times> string) list" where
  "due_actions now db =
     map (\<lambda>a. (vw_approval_id a,
               case tbl_find aw_approval_id (vw_approval_id a) (vd_actions db) of None \<Rightarrow> [] | Some d \<Rightarrow> aw_owner_id d))
       (take 100 (sort_key vw_requested_at (filter (sweepable now db) (vd_approvals db))))"

definition sweep_actor :: "string \<Rightarrow> string \<Rightarrow> Actor" where
  "sweep_actor i owner =
     \<lparr>ac_OwnerID = owner, ac_Channel = ResolvedViaSystem, ac_SessionKey = [], ac_DeliveryID = ''invalid-approval:'' @ i\<rparr>"

text \<open>Every request is decided in a transaction of its own; \<open>tick\<close> gives its random value and clocks.\<close>

fun sweep_each ::
  "approval_codec \<Rightarrow> exec_ctx \<Rightarrow> (string \<Rightarrow> string option \<times> instant \<times> instant) \<Rightarrow> (string \<times> string) list \<Rightarrow> approval_db
     \<Rightarrow> (go_err, unit, approval_db) outcome" where
  "sweep_each C ctx tick [] db = (Inr (), db)"
| "sweep_each C ctx tick ((i, owner) # rest) db =
     (case GetApprovalByID (vk_json C) i db of
        Inl e \<Rightarrow> (Inl e, db)
      | Inr rec \<Rightarrow>
          (case tick i of (rnd, go, now) \<Rightarrow>
           case ResolveDurable C ctx rnd go now True rec False (sweep_actor i owner) ''approval expired or intended task changed'' db of
             (Inl e, db') \<Rightarrow> (Inl e, db')
           | (Inr _, db') \<Rightarrow> sweep_each C ctx tick rest db'))"

definition ExpireInvalidPending ::
  "approval_codec \<Rightarrow> exec_ctx \<Rightarrow> (string \<Rightarrow> string option \<times> instant \<times> instant) \<Rightarrow> instant \<Rightarrow> approval_db \<Rightarrow> (go_err, unit, approval_db) outcome" where
  "ExpireInvalidPending C ctx tick now db = sweep_each C ctx tick (due_actions now db) db"

definition HasDurableAction :: "string \<Rightarrow> approval_db \<Rightarrow> bool" where
  "HasDurableAction i db \<longleftrightarrow> tbl_find aw_approval_id i (vd_actions db) \<noteq> None"

definition LoadContinuationByRun :: "approval_codec \<Rightarrow> string \<Rightarrow> approval_db \<Rightarrow> go_err + ApprovalRecord \<times> string" where
  "LoadContinuationByRun C runID db =
     bindE (need (latest (\<lambda>a. vw_run_id a = runID \<and> HasDurableAction (vw_approval_id a) db) db) ErrNoRows) (\<lambda>a.
     bindE (need (tbl_find aw_approval_id (vw_approval_id a) (vd_actions db)) ErrNoRows) (\<lambda>d.
     bindE (GetApprovalByID (vk_json C) (vw_approval_id a) db) (\<lambda>rec.
     Inr (rec, jb_out (vk_json C) (aw_continuation_json d)))))"

section \<open>Owner controls\<close>

definition run_of_tasks :: "string list \<Rightarrow> string \<Rightarrow> approval_db \<Rightarrow> bool" where
  "run_of_tasks taskIDs runID db \<longleftrightarrow>
     (\<exists>r \<in> set (runs (vd_kernel db)). r_run_id r = runID \<and> (case r_task_id r of None \<Rightarrow> False | Some t \<Rightarrow> t \<in> set taskIDs))"

definition withdraw_approval :: "instant \<Rightarrow> approval_row \<Rightarrow> approval_row" where
  "withdraw_approval now a =
     a\<lparr>vw_status := StatusExpired, vw_resolved_at := Some now, vw_resolved_via := Some ResolvedViaSystem,
       vw_resolution_reason := ''task changed by owner'', vw_updated_at := now\<rparr>"

definition withdrawn_event :: "string \<Rightarrow> string \<Rightarrow> instant \<Rightarrow> approval_row \<Rightarrow> approval_event_row" where
  "withdrawn_event controlID owner now a =
     \<lparr>nw_approval_id = vw_approval_id a, nw_run_id = vw_run_id a, nw_session_key = vw_session_key a,
      nw_event_type = ''owner_control'', nw_status_before = Some StatusPending, nw_status_after = Some StatusExpired,
      nw_actor_type = ''operator'', nw_actor_id = owner, nw_reason = ''task changed by owner'',
      nw_metadata_json = JObj [(''control_id'', JStr controlID)], nw_created_at = now\<rparr>"

definition InvalidateApprovalsTx :: "string list \<Rightarrow> string \<Rightarrow> string \<Rightarrow> instant \<Rightarrow> approval_db \<Rightarrow> approval_db" where
  "InvalidateApprovalsTx taskIDs controlID owner now db =
     (let hit = (\<lambda>a. run_of_tasks taskIDs (vw_run_id a) db \<and> vw_status a = StatusPending);
          stopped = (\<lambda>d. (\<exists>a \<in> set (vd_approvals db). vw_approval_id a = aw_approval_id d \<and> run_of_tasks taskIDs (vw_run_id a) db) \<and>
                         (aw_state d = ''waiting'' \<or> aw_state d = ''ready''))
      in db\<lparr>vd_approvals := tbl_update hit (withdraw_approval now) (vd_approvals db),
            vd_events := vd_events db @ map (withdrawn_event controlID owner now) (filter hit (vd_approvals db)),
            vd_actions := tbl_update stopped (\<lambda>d. d\<lparr>aw_state := ''blocked'', aw_updated_at := now\<rparr>) (vd_actions db)\<rparr>)"

section \<open>The service\<close>

text \<open>The service with the calls it has made to the gate of the waiting tool calls; \<open>None\<close> without a gate.\<close>

record approval_svc =
  sv_db :: approval_db
  sv_gate :: "(string \<times> bool) list option"

definition gate_Resolve :: "string \<Rightarrow> bool \<Rightarrow> approval_svc \<Rightarrow> approval_svc" where
  "gate_Resolve call approved s = s\<lparr>sv_gate := map_option (\<lambda>calls. calls @ [(call, approved)]) (sv_gate s)\<rparr>"

definition ignored :: "(approval_db \<Rightarrow> go_err + approval_db) \<Rightarrow> approval_db \<Rightarrow> approval_db" where
  "ignored f db = (case f db of Inl _ \<Rightarrow> db | Inr db' \<Rightarrow> db')"

definition or_blank :: "string \<Rightarrow> string \<Rightarrow> string" where
  "or_blank d s = (if TrimSpace s = [] then d else s)"

definition pending_defaults :: "instant \<Rightarrow> CreatePendingParams \<Rightarrow> CreatePendingParams" where
  "pending_defaults go p =
     p\<lparr>pp_RequestedAt := (if pp_RequestedAt p = 0 then go else pp_RequestedAt p),
       pp_ApprovalType := or_blank ApprovalTypeToolCall (pp_ApprovalType p),
       pp_RequestedVia := or_blank RequestedViaTelegram (pp_RequestedVia p),
       pp_PayloadJSON := or_blank ''{}'' (pp_PayloadJSON p)\<rparr>"

definition check_pending :: "CreatePendingParams \<Rightarrow> go_err + unit" where
  "check_pending p =
     bindE (failif (TrimSpace (pp_RunID p) = [] \<or> TrimSpace (pp_SessionKey p) = [] \<or> TrimSpace (pp_ToolCallID p) = [])
              (Errorf ''run_id, session_key and tool_call_id are required'')) (\<lambda>_.
     failif (TrimSpace (pp_ToolName p) = []) (Errorf ''tool_name is required''))"

definition pending_params :: "string \<Rightarrow> CreatePendingParams \<Rightarrow> CreateApprovalParams" where
  "pending_params i p =
     \<lparr>va_ApprovalID = i, va_RunID = pp_RunID p, va_SessionKey = pp_SessionKey p, va_ToolCallID = pp_ToolCallID p,
      va_ApprovalType = pp_ApprovalType p, va_RequestedVia = pp_RequestedVia p, va_ToolName = pp_ToolName p,
      va_ArgsJSON = pp_ArgsJSON p, va_PayloadJSON = pp_PayloadJSON p, va_RiskLevel = pp_RiskLevel p,
      va_Summary = pp_Summary p, va_DetailsJSON = pp_DetailsJSON p, va_ExpiresAt = pp_ExpiresAt p,
      va_RequestedAt = pp_RequestedAt p\<rparr>"

definition pre_wait_event :: "instant \<Rightarrow> ApprovalRecord \<Rightarrow> ApprovalEvent" where
  "pre_wait_event at rec =
     \<lparr>ve_ApprovalID = vc_ApprovalID rec, ve_RunID = vc_RunID rec, ve_SessionKey = vc_SessionKey rec,
      ve_EventType = ''approval_requested'', ve_StatusBefore = [], ve_StatusAfter = StatusPending,
      ve_ActorType = ''system'', ve_ActorID = ''orchestrator'', ve_Reason = ''approval required before tool execution'',
      ve_MetadataJSON = ''{\"phase\":\"pre_wait\",\"approval_type\":'' @ quoted (vc_ApprovalType rec) @ ''}'', ve_CreatedAt = at\<rparr>"

text \<open>
  The writes of a plain request are separate statements: an approval whose candidates cannot be
  stored stays, and the event is best effort.
\<close>

definition create_plain ::
  "approval_codec \<Rightarrow> exec_ctx \<Rightarrow> string option \<Rightarrow> instant \<Rightarrow> instant \<Rightarrow> CreatePendingParams \<Rightarrow> approval_db
     \<Rightarrow> (go_err, ApprovalRecord, approval_db) outcome" where
  "create_plain C ctx rnd go now p db =
     (case CreateApproval (vk_json C) ctx go now (pending_params (newApprovalID rnd go) p) db of
        Inl e \<Rightarrow> (Inl e, db)
      | Inr (rec, db1) \<Rightarrow>
          (case CreateTabCandidates now (map (\<lambda>t. t\<lparr>tq_ApprovalID := vc_ApprovalID rec\<rparr>) (pp_TabCandidates p)) db1 of
             Inl e \<Rightarrow> (Inl e, db1)
           | Inr db2 \<Rightarrow>
               (Inr rec, ignored (approval_InsertEvent (vk_json C) ctx go now (pre_wait_event (pp_RequestedAt p) rec)) db2)))"

definition CreatePendingApproval ::
  "approval_codec \<Rightarrow> InputRecord option \<Rightarrow> exec_ctx \<Rightarrow> string option \<Rightarrow> instant \<Rightarrow> instant \<Rightarrow> CreatePendingParams \<Rightarrow> approval_db
     \<Rightarrow> (go_err, ApprovalRecord, approval_db) outcome" where
  "CreatePendingApproval C claim ctx rnd go now p db =
     (if ab_ActionID (pp_ActionBinding p) \<noteq> [] then CreateDurable C claim ctx rnd go now p db
      else case check_pending p of
        Inl e \<Rightarrow> (Inl e, db)
      | Inr _ \<Rightarrow>
          let p = pending_defaults go p
          in if pp_ApprovalType p = ApprovalTypeBrowserTabSelection \<and> pp_TabCandidates p = []
             then (Inl (Errorf ''browser_tab_selection approvals require at least one tab candidate''), db)
             else create_plain C ctx rnd go now p db)"

definition plain_event :: "ApprovalRecord \<Rightarrow> bool \<Rightarrow> string \<Rightarrow> string \<Rightarrow> instant \<Rightarrow> string \<Rightarrow> string \<Rightarrow> ApprovalEvent" where
  "plain_event rec approved via reason at actorType actorID =
     \<lparr>ve_ApprovalID = vc_ApprovalID rec, ve_RunID = vc_RunID rec, ve_SessionKey = vc_SessionKey rec,
      ve_EventType = ''approval_resolved'', ve_StatusBefore = StatusPending,
      ve_StatusAfter = (if approved then StatusApproved else StatusRejected), ve_ActorType = actorType, ve_ActorID = actorID,
      ve_Reason = reason,
      ve_MetadataJSON = ''{\"resolved_via\":'' @ quoted via @ '',\"approved\":'' @ (if approved then ''true'' else ''false'') @ ''}'',
      ve_CreatedAt = at\<rparr>"

definition resolve_plain ::
  "approval_codec \<Rightarrow> exec_ctx \<Rightarrow> instant \<Rightarrow> instant \<Rightarrow> ApprovalRecord \<Rightarrow> bool \<Rightarrow> string \<Rightarrow> string \<Rightarrow> string \<Rightarrow> instant \<Rightarrow> string \<Rightarrow> string \<Rightarrow> approval_svc
     \<Rightarrow> (go_err, ApprovalRecord \<times> bool, approval_svc) outcome" where
  "resolve_plain C ctx go now rec approved via by_whom reason at actorType actorID s =
     (if vc_Status rec \<noteq> StatusPending
      then (Inr (rec, False), gate_Resolve (vc_ToolCallID rec) (vc_Status rec = StatusApproved) s)
      else case ResolveApproval (vk_json C) go
          \<lparr>vr_ApprovalID = vc_ApprovalID rec, vr_ExpectedStatus = StatusPending,
           vr_Status = (if approved then StatusApproved else StatusRejected), vr_ResolvedVia = via, vr_ResolvedBy = by_whom,
           vr_ResolutionReason = reason, vr_ResolvedAt = at\<rparr> (sv_db s) of
        Inl e \<Rightarrow>
          if e = ErrApprovalStatusConflict
          then (case GetApprovalByID (vk_json C) (vc_ApprovalID rec) (sv_db s) of
                  Inl e \<Rightarrow> (Inl e, s)
                | Inr again \<Rightarrow> (Inr (again, False), gate_Resolve (vc_ToolCallID rec) (vc_Status again = StatusApproved) s))
          else (Inl e, s)
      | Inr (updated, db) \<Rightarrow>
          (Inr (updated, True),
           gate_Resolve (vc_ToolCallID rec) approved
             (s\<lparr>sv_db := ignored (approval_InsertEvent (vk_json C) ctx go now
                            (plain_event updated approved via reason at actorType actorID)) db\<rparr>)))"

definition resolveRecord ::
  "approval_codec \<Rightarrow> exec_ctx \<Rightarrow> Actor option \<Rightarrow> string option \<Rightarrow> instant \<Rightarrow> instant \<Rightarrow> ApprovalRecord \<Rightarrow> bool \<Rightarrow> string \<Rightarrow> string \<Rightarrow> string \<Rightarrow> instant \<Rightarrow> string \<Rightarrow> string
     \<Rightarrow> approval_svc \<Rightarrow> (go_err, ApprovalRecord \<times> bool, approval_svc) outcome" where
  "resolveRecord C ctx actor rnd go now rec approved via by_whom reason at actorType actorID s =
     (if HasDurableAction (vc_ApprovalID rec) (sv_db s)
      then (case FromContext actor of
              None \<Rightarrow> (Inl ErrApprovalUnauthorized, s)
            | Some a \<Rightarrow>
                (case ResolveDurable C ctx rnd go now False rec approved a reason (sv_db s) of (res, db) \<Rightarrow> (res, s\<lparr>sv_db := db\<rparr>)))
      else resolve_plain C ctx go now rec approved via by_whom reason at actorType actorID s)"

record ResolveByParams =
  rb_ID :: string
  rb_Approved :: bool
  rb_ResolvedVia :: string
  rb_ResolvedBy :: string
  rb_ResolutionReason :: string
  rb_ResolvedAt :: instant
  rb_ActorType :: string
  rb_ActorID :: string

definition resolve_found ::
  "approval_codec \<Rightarrow> exec_ctx \<Rightarrow> Actor option \<Rightarrow> string option \<Rightarrow> instant \<Rightarrow> instant \<Rightarrow> (string \<Rightarrow> approval_db \<Rightarrow> go_err + ApprovalRecord) \<Rightarrow> string
     \<Rightarrow> ResolveByParams \<Rightarrow> approval_svc \<Rightarrow> (go_err, ApprovalRecord \<times> bool, approval_svc) outcome" where
  "resolve_found C ctx actor rnd go now get missing p s =
     (let i = TrimSpace (rb_ID p) in
      if i = [] then (Inl (Errorf missing), s)
      else case get i (sv_db s) of
        Inl e \<Rightarrow> (Inl e, s)
      | Inr rec \<Rightarrow>
          resolveRecord C ctx actor rnd go now rec (rb_Approved p)
            (or_default ResolvedViaSystem (TrimSpace (rb_ResolvedVia p))) (rb_ResolvedBy p) (rb_ResolutionReason p)
            (if rb_ResolvedAt p = 0 then go else rb_ResolvedAt p)
            (or_default ''system'' (TrimSpace (rb_ActorType p))) (rb_ActorID p) s)"

definition ResolveByToolCall ::
  "approval_codec \<Rightarrow> exec_ctx \<Rightarrow> Actor option \<Rightarrow> string option \<Rightarrow> instant \<Rightarrow> instant \<Rightarrow> ResolveByParams \<Rightarrow> approval_svc
     \<Rightarrow> (go_err, ApprovalRecord \<times> bool, approval_svc) outcome" where
  "ResolveByToolCall C ctx actor rnd go now =
     resolve_found C ctx actor rnd go now (GetApprovalByToolCallID (vk_json C)) ''tool_call_id is required''"

definition ResolveByApprovalID ::
  "approval_codec \<Rightarrow> exec_ctx \<Rightarrow> Actor option \<Rightarrow> string option \<Rightarrow> instant \<Rightarrow> instant \<Rightarrow> ResolveByParams \<Rightarrow> approval_svc
     \<Rightarrow> (go_err, ApprovalRecord \<times> bool, approval_svc) outcome" where
  "ResolveByApprovalID C ctx actor rnd go now =
     resolve_found C ctx actor rnd go now (GetApprovalByID (vk_json C)) ''approval_id is required''"

section \<open>Writes of other components\<close>

text \<open>
  The guarded selection of a tab (\<^verbatim>\<open>internal/singletabcontrol\<close>): the row it requires and the decision it
  writes. The service of plain tab sessions uses \<open>ResolveApproval\<close> on requests of the same type.
\<close>

definition BindTool :: string where "BindTool = ''single_tab.bind.guarded''"

definition guarded_selectable :: "string \<Rightarrow> string \<Rightarrow> string \<Rightarrow> approval_row \<Rightarrow> bool" where
  "guarded_selectable i runID sessionKey a \<longleftrightarrow>
     vw_approval_id a = i \<and> vw_run_id a = runID \<and> vw_session_key a = sessionKey \<and>
     vw_approval_type a = ApprovalTypeBrowserTabSelection \<and> vw_tool_name a = BindTool \<and>
     (vw_status a = StatusPending \<or> vw_status a = StatusApproved)"

definition approve_selection :: "Actor \<Rightarrow> instant \<Rightarrow> approval_row \<Rightarrow> approval_row" where
  "approve_selection actor now a =
     a\<lparr>vw_status := StatusApproved, vw_resolved_via := Some (ac_Channel actor), vw_resolved_by := ac_OwnerID actor,
       vw_resolution_reason := ''guarded tab selected by authenticated owner'', vw_resolved_at := Some now, vw_updated_at := now\<rparr>"

text \<open>The redaction of the payloads of runs whose sources were deleted (\<^verbatim>\<open>internal/memory/catalog\<close>).\<close>

definition redact_approval :: "instant \<Rightarrow> approval_row \<Rightarrow> approval_row" where
  "redact_approval now a =
     a\<lparr>vw_args_json := JObj [], vw_summary := [], vw_details_json := JObj [], vw_resolution_reason := ''privacy_redacted'',
       vw_status := (if vw_status a = StatusPending then StatusFailed else vw_status a), vw_updated_at := now\<rparr>"

definition redact_event :: "string \<Rightarrow> approval_event_row \<Rightarrow> approval_event_row" where
  "redact_event deletion n =
     n\<lparr>nw_reason := ''privacy_redacted'',
       nw_metadata_json := JObj [(''deletion_id'', JStr deletion), (''privacy_redacted'', JBool True)]\<rparr>"

definition redact_runs :: "string list \<Rightarrow> string \<Rightarrow> instant \<Rightarrow> approval_db \<Rightarrow> approval_db" where
  "redact_runs runIDs deletion now db =
     db\<lparr>vd_approvals := tbl_update (\<lambda>a. vw_run_id a \<in> set runIDs) (redact_approval now) (vd_approvals db),
        vd_events := tbl_update (\<lambda>n. nw_run_id n \<in> set runIDs) (redact_event deletion) (vd_events db)\<rparr>"

text \<open>The identity a Telegram channel stores.\<close>

definition NormalizeTelegramOwner :: "string \<Rightarrow> string" where
  "NormalizeTelegramOwner v = (if HasPrefix v ''telegram_user:'' then drop (length ''telegram_user:'') v else v)"

end
