(* ===== verification/ApprovalProps.thy ===== *)
theory ApprovalProps
  imports ApprovalFlow
begin

text \<open>
  Correctness of approvals. \<open>approval_step\<close> lists every write of the component and of the components that
  change its tables; \<open>approval_move\<close> is the abstract life of a request: it is added as pending, quiet
  changes never approve an action, and a decision records the delivery it rests on. Every step is a
  move (\<open>approval_step_moves\<close>), and the properties follow from the invariant of the moves.
\<close>

section \<open>The tables an operation leaves alone\<close>

definition same_tables :: "approval_db \<Rightarrow> approval_db \<Rightarrow> bool" where
  "same_tables db db' \<longleftrightarrow>
     vd_approvals db' = vd_approvals db \<and> vd_actions db' = vd_actions db \<and> vd_decisions db' = vd_decisions db"

lemma same_tables_refl [simp]: "same_tables db db"
  by (simp add: same_tables_def)

lemma same_tables_trans: "same_tables db db' \<Longrightarrow> same_tables db' db'' \<Longrightarrow> same_tables db db''"
  by (simp add: same_tables_def)

lemma insert_event_same: "insert_event n db = Inr db' \<Longrightarrow> same_tables db db'"
  unfolding insert_event_def same_tables_def bindE_Inr_iff failif_Inr_iff by auto

lemma InsertEvent_same:
  assumes "approval_InsertEvent J ctx go now e db = Inr db'"
  shows "same_tables db db' \<and> vd_kernel db' = vd_kernel db \<and> vd_tasks db' = vd_tasks db \<and> vd_queue db' = vd_queue db"
  using assms unfolding approval_InsertEvent_def insert_event_def same_tables_def
  by (auto split: sum.split_asm)

lemma ignored_same: "same_tables db (ignored (approval_InsertEvent J ctx go now e) db)"
  using InsertEvent_same by (auto simp: ignored_def split: sum.split)

lemma insert_candidate_same: "insert_candidate t db = Inr db' \<Longrightarrow> same_tables db db'"
  unfolding insert_candidate_def bindE_Inr_iff failif_Inr_iff by (auto simp: same_tables_def split: if_split_asm)

lemma insert_candidates_same: "insert_candidates ts db = Inr db' \<Longrightarrow> same_tables db db'"
proof (induction ts arbitrary: db)
  case Nil
  then show ?case by simp
next
  case (Cons t ts)
  then obtain db1 where "insert_candidate t db = Inr db1" "insert_candidates ts db1 = Inr db'" by auto
  then show ?case using insert_candidate_same Cons.IH same_tables_trans by blast
qed

lemma CreateTabCandidates_same: "CreateTabCandidates now ps db = Inr db' \<Longrightarrow> same_tables db db'"
  unfolding CreateTabCandidates_def by (auto split: sum.split_asm dest: insert_candidates_same)

lemma SelectTabCandidate_same: "SelectTabCandidate i token at go db = (res, db') \<Longrightarrow> same_tables db db'"
  unfolding SelectTabCandidate_def by (erule run_tx_cases) (auto simp: Let_def same_tables_def)

section \<open>What the operations write\<close>

lemma new_approval_row:
  assumes "new_approval J p = Inr r"
  shows "vw_approval_id r = va_ApprovalID p \<and> vw_status r = StatusPending \<and> vw_approval_type r = va_ApprovalType p \<and>
    vw_run_id r = va_RunID p \<and> vw_session_key r = va_SessionKey p \<and> vw_expires_at r = map_option micros (va_ExpiresAt p)"
  using assms unfolding new_approval_def by auto

lemma insert_approval_Inr:
  assumes "insert_approval r db = Inr (new, db')"
  shows "if new then tbl_find vw_approval_id (vw_approval_id r) (vd_approvals db) = None \<and> db' = db\<lparr>vd_approvals := vd_approvals db @ [r]\<rparr>
    else tbl_find vw_approval_id (vw_approval_id r) (vd_approvals db) \<noteq> None \<and> db' = db"
  using assms unfolding insert_approval_def bindE_Inr_iff failif_Inr_iff by (auto split: if_split_asm)

lemma CreateApproval_fresh:
  assumes "CreateApproval J ctx go now p db = Inr (rec, db')"
    and "tbl_find vw_approval_id (va_ApprovalID p) (vd_approvals db) = None"
  obtains r where "new_approval J (defaulted go p) = Inr r" and "rec = scanRecord J r"
    and "db' = db\<lparr>vd_approvals := vd_approvals db @ [r]\<rparr>"
proof -
  obtain r new db1 where r: "new_approval J (defaulted go p) = Inr r" and ins: "insert_approval r db = Inr (new, db1)"
    and res: "(if new then Inr (scanRecord J r, db1) else bindE (GetApprovalByID J (va_ApprovalID p) db) (\<lambda>old. Inr (old, db))) = Inr (rec, db')"
    using assms(1) unfolding CreateApproval_def
    by (cases "new_approval J (defaulted go p)") (auto simp: map_sum_Inr split: sum.split_asm bool.split_asm)
  have "vw_approval_id r = va_ApprovalID p" using new_approval_row [OF r] by (simp add: defaulted_def)
  then have new using insert_approval_Inr [OF ins] assms(2) by (auto split: if_split_asm)
  then show ?thesis using that [OF r] insert_approval_Inr [OF ins] res by auto
qed

lemma check_durable_Inr:
  assumes "check_durable C go p = Inr u"
  shows "ab_RunID (pp_ActionBinding p) = pp_RunID p \<and> ab_OwnerID (pp_ActionBinding p) \<noteq> [] \<and> ab_ActionID (pp_ActionBinding p) \<noteq> [] \<and>
    (\<exists>t. pp_ExpiresAt p = Some t \<and> go < t)"
  using assms unfolding check_durable_def Let_def bindE_Inr_iff failif_Inr_iff by (auto split: option.split_asm)

lemma suspend_run_Inr:
  assumes "suspend_run C claim ctx go now p i db = Inr db'"
  obtains cont q n where "jb_in (vk_json C) (pp_ContinuationJSON p) = Some cont"
    and "pp_RequestedVia p = ''web'' \<or> pp_RequestedVia p = ''telegram''"
    and "SuspendApprovalTx (vk_queue C) claim (pp_RunID p) i (pp_ContinuationJSON p) now (vd_queue db) = Inr (n, q)"
    and "vd_approvals db' = vd_approvals db" and "vd_actions db' = vd_actions db @ [new_action i cont now p]"
    and "vd_decisions db' = vd_decisions db" and "vd_queue db' = q"
    and "vd_tasks db' = await_task (ab_TaskID (pp_ActionBinding p)) now (vd_tasks db)"
    and "runs (vd_kernel db') = runs (await_run (pp_RunID p) now (vd_kernel db))"
    and "sessions (vd_kernel db') = sessions (vd_kernel db)" and "tbl_find aw_approval_id i (vd_actions db) = None"
proof -
  obtain cont db1 n q db3 where cont: "jb_in (vk_json C) (pp_ContinuationJSON p) = Some cont"
    and ins: "insert_action (new_action i cont now p) db = Inr db1"
    and sus: "SuspendApprovalTx (vk_queue C) claim (pp_RunID p) i (pp_ContinuationJSON p) now (vd_queue db1) = Inr (n, q)"
    and ev: "approval_InsertEvent (vk_json C) ctx go now (requested_event i p)
      (db1\<lparr>vd_kernel := await_run (pp_RunID p) now (vd_kernel db1),
           vd_tasks := await_task (ab_TaskID (pp_ActionBinding p)) now (vd_tasks db1), vd_queue := q\<rparr>) = Inr db3"
    and log: "log_await C (pp_RunID p) i now db3 = Inr db'"
    using assms unfolding suspend_run_def Let_def bindE_Inr_iff need_Inr_iff by auto
  have db1: "db1 = db\<lparr>vd_actions := vd_actions db @ [new_action i cont now p]\<rparr>"
    and via: "pp_RequestedVia p = ''web'' \<or> pp_RequestedVia p = ''telegram''"
    and free: "tbl_find aw_approval_id i (vd_actions db) = None"
    using ins unfolding insert_action_def bindE_Inr_iff failif_Inr_iff by (auto simp: new_action_def Let_def)
  note ev' = InsertEvent_same [OF ev]
  show ?thesis
  proof (rule that [OF cont via])
    show "SuspendApprovalTx (vk_queue C) claim (pp_RunID p) i (pp_ContinuationJSON p) now (vd_queue db) = Inr (n, q)"
      using sus db1 by simp
    show "tbl_find aw_approval_id i (vd_actions db) = None" by (rule free)
  qed (use log ev' db1 in \<open>auto simp: log_await_def same_tables_def await_run_def\<close>)
qed

lemma CreateDurable_Inr:
  assumes "CreateDurable C claim ctx rnd go now p db = (Inr rec, db')"
    and "tbl_find vw_approval_id (newApprovalID rnd go) (vd_approvals db) = None"
  obtains r ctx' u where "check_durable C go p = Inr u" and "check_run p db = Inr u"
    and "new_approval (vk_json C) (defaulted go (durable_params C (newApprovalID rnd go) p)) = Inr r"
    and "rec = scanRecord (vk_json C) r"
    and "suspend_run C claim ctx' go now p (newApprovalID rnd go) (db\<lparr>vd_approvals := vd_approvals db @ [r]\<rparr>) = Inr db'"
proof -
  obtain ctx' db1 where chk: "check_durable C go p = Inr ()" "check_run p db = Inr ()"
    and cre: "CreateApproval (vk_json C) ctx' go now (durable_params C (newApprovalID rnd go) p) db = Inr (rec, db1)"
    and sus: "suspend_run C claim ctx' go now p (vc_ApprovalID rec) db1 = Inr db'"
    using assms(1) unfolding CreateDurable_def run_tx_Inr_iff bindE_Inr_iff by auto
  have "tbl_find vw_approval_id (va_ApprovalID (durable_params C (newApprovalID rnd go) p)) (vd_approvals db) = None"
    using assms(2) by (simp add: durable_params_def)
  from CreateApproval_fresh [OF cre this] obtain r
    where r: "new_approval (vk_json C) (defaulted go (durable_params C (newApprovalID rnd go) p)) = Inr r"
      "rec = scanRecord (vk_json C) r" "db1 = db\<lparr>vd_approvals := vd_approvals db @ [r]\<rparr>" by blast
  have "vc_ApprovalID rec = newApprovalID rnd go"
    using new_approval_row [OF r(1)] r(2) by (simp add: scanRecord_def defaulted_def durable_params_def)
  then show ?thesis using that [OF chk r(1,2)] sus r(3) by simp
qed

definition decision_input :: "string option \<Rightarrow> instant \<Rightarrow> ApprovalRecord \<Rightarrow> bool \<Rightarrow> Actor \<Rightarrow> decision_row" where
  "decision_input rnd go rec approved actor =
     \<lparr>dw_decision_input_id = newApprovalID rnd go, dw_approval_id = vc_ApprovalID rec, dw_source = ac_Channel actor,
      dw_delivery_id = ac_DeliveryID actor, dw_owner_id = ac_OwnerID actor, dw_approved = approved\<rparr>"

definition decision_params :: "instant \<Rightarrow> ApprovalRecord \<Rightarrow> Actor \<Rightarrow> string \<Rightarrow> string \<Rightarrow> ResolveParams" where
  "decision_params go rec actor status reason =
     \<lparr>vr_ApprovalID = vc_ApprovalID rec, vr_ExpectedStatus = [], vr_Status = status, vr_ResolvedVia = ac_Channel actor,
      vr_ResolvedBy = ac_OwnerID actor, vr_ResolutionReason = reason, vr_ResolvedAt = go\<rparr>"

lemma ResolveApproval_Inr:
  assumes "ResolveApproval J go p db = Inr (rec, db')"
  obtains p' where "p' = p\<lparr>vr_ResolvedAt := vr_ResolvedAt p'\<rparr>"
    and "db' = db\<lparr>vd_approvals := tbl_update (expected p') (decide p') (vd_approvals db)\<rparr>"
    and "vc_Status rec = vr_Status p"
proof -
  let ?p = "p\<lparr>vr_ResolvedAt := (if vr_ResolvedAt p = 0 then go else vr_ResolvedAt p)\<rparr>"
  have "db' = db\<lparr>vd_approvals := tbl_update (expected ?p) (decide ?p) (vd_approvals db)\<rparr>"
    and "vc_Status rec = vr_Status p"
    using assms unfolding ResolveApproval_def Let_def bindE_Inr_iff
    by (auto simp: scanRecord_def decide_def split: option.split_asm if_split_asm)
  then show ?thesis by (intro that [of ?p]) simp_all
qed

lemma settle_decision_Inr:
  assumes "settle_decision C ctx go now rec d actor status reason decision db = Inr (updated, db')"
  obtains p n q where "vr_ApprovalID p = vc_ApprovalID rec" and "vr_ExpectedStatus p = []" and "vr_Status p = status"
    and "vr_ResolvedVia p = ac_Channel actor" and "vr_ResolvedBy p = ac_OwnerID actor"
    and "vd_approvals db' = tbl_update (expected p) (decide p) (vd_approvals db)"
    and "vd_actions db' = vd_actions (mark_action (vc_ApprovalID rec) status decision now db)"
    and "vd_decisions db' = vd_decisions db" and "vd_queue db' = q"
    and "ReadyApprovalTx (vk_queue C) (vc_RunID rec) (vc_ApprovalID rec) now (vd_queue db) = Inr (n, q)"
    and "vd_kernel db' = vd_kernel db" and "vc_Status updated = status"
proof -
  obtain db1 n q where res: "ResolveApproval (vk_json C) go (decision_params go rec actor status reason) db = Inr (updated, db1)"
    and ready: "ReadyApprovalTx (vk_queue C) (vc_RunID rec) (vc_ApprovalID rec) now
      (vd_queue (settle_task (coalesce (aw_task_id d)) (ab_TaskRevision (aw_binding d)) status now
        (mark_action (vc_ApprovalID rec) status decision now db1))) = Inr (n, q)"
    and ev: "approval_InsertEvent (vk_json C) ctx go now (resolved_event rec status actor reason)
      ((settle_task (coalesce (aw_task_id d)) (ab_TaskRevision (aw_binding d)) status now
        (mark_action (vc_ApprovalID rec) status decision now db1))\<lparr>vd_queue := q\<rparr>) = Inr db'"
    using assms unfolding settle_decision_def Let_def bindE_Inr_iff decision_params_def by auto
  from res obtain p where p: "p = (decision_params go rec actor status reason)\<lparr>vr_ResolvedAt := vr_ResolvedAt p\<rparr>"
    "db1 = db\<lparr>vd_approvals := tbl_update (expected p) (decide p) (vd_approvals db)\<rparr>"
    and st: "vc_Status updated = vr_Status (decision_params go rec actor status reason)" by (rule ResolveApproval_Inr)
  note ev' = InsertEvent_same [OF ev]
  show ?thesis
  proof (rule that)
    show "vr_ApprovalID p = vc_ApprovalID rec" "vr_ExpectedStatus p = []" "vr_Status p = status"
      "vr_ResolvedVia p = ac_Channel actor" "vr_ResolvedBy p = ac_OwnerID actor"
      by (subst p(1), simp add: decision_params_def)+
    show "ReadyApprovalTx (vk_queue C) (vc_RunID rec) (vc_ApprovalID rec) now (vd_queue db) = Inr (n, q)"
      using ready p(2) by (simp add: settle_task_def mark_action_def split: if_split_asm)
    show "vc_Status updated = status" using st by (simp add: decision_params_def)
  qed (use ev' p(2) in \<open>auto simp: same_tables_def settle_task_def mark_action_def\<close>)
qed

definition verified_by :: "instant \<Rightarrow> ApprovalRecord \<Rightarrow> action_row \<Rightarrow> approval_db \<Rightarrow> bool" where
  "verified_by now rec d db = (\<not> isl (verifyAction now (vc_ApprovalID rec) (aw_binding d) db))"

lemma decide_pending_cases:
  assumes "decide_pending C ctx rnd go now review rec approved actor reason d a run_state db = Inr ((u, changed), db')"
  obtains (unchanged) "\<not> changed" and "db' = db" and "u = scanRecord (vk_json C) a"
  | (decided) status why db1 where "changed"
      and "(status, why) = decision_status approved (verified_by now rec d db) run_state reason"
      and "\<not> (review \<and> verified_by now rec d db)"
      and "insert_decision (decision_input rnd go rec approved actor) db = Inr (Some db1)"
      and "settle_decision C ctx go now rec d actor status why (newApprovalID rnd go) db1 = Inr (u, db')"
proof -
  let ?v = "case verifyAction now (vc_ApprovalID rec) (aw_binding d) db of Inl _ \<Rightarrow> False | Inr _ \<Rightarrow> True"
  have v: "?v = verified_by now rec d db" by (simp add: verified_by_def split: sum.split)
  obtain status why where st: "decision_status approved (verified_by now rec d db) run_state reason = (status, why)" by fastforce
  show ?thesis
  proof (cases "review \<and> verified_by now rec d db")
    case True
    then show ?thesis using assms that(1) unfolding decide_pending_def Let_def v by simp
  next
    case False
    then have "bindE (insert_decision (decision_input rnd go rec approved actor) db) (\<lambda>inserted.
           case inserted of
             None \<Rightarrow> bindE (same_decision (decision_input rnd go rec approved actor) db) (\<lambda>_. Inr ((scanRecord (vk_json C) a, False), db))
           | Some db' \<Rightarrow>
               bindE (settle_decision C ctx go now rec d actor status why (newApprovalID rnd go) db') (\<lambda>(updated, db'').
               Inr ((updated, True), db''))) = Inr ((u, changed), db')"
      using assms st unfolding decide_pending_def Let_def v decision_input_def by (simp only: if_False prod.case)
    then show ?thesis using False st that unfolding bindE_Inr_iff by (auto split: option.split_asm)
  qed
qed

lemma ResolveDurable_cases:
  assumes "ResolveDurable C ctx rnd go now review rec approved actor reason db = (res, db')"
  obtains (unchanged) "db' = db" and "\<And>u. res \<noteq> Inr (u, True)"
  | (decided) d a r status why updated db1 where
      "tbl_find aw_approval_id (vc_ApprovalID rec) (vd_actions db) = Some d"
      and "tbl_find vw_approval_id (vc_ApprovalID rec) (vd_approvals db) = Some a"
      and "tbl_find r_run_id (vw_run_id a) (runs (vd_kernel db)) = Some r"
      and "ac_OwnerID actor \<noteq> []"
      and "may_decide review approved actor d a" and "vw_status a = StatusPending"
      and "(status, why) = decision_status approved (verified_by now rec d db) (r_current_state r) reason"
      and "\<not> (review \<and> verified_by now rec d db)"
      and "insert_decision (decision_input rnd go rec approved actor) db = Inr (Some db1)"
      and "settle_decision C ctx go now rec d actor status why (newApprovalID rnd go) db1 = Inr (updated, db')"
      and "res = Inr (updated, True)"
proof (cases res)
  case (Inl e)
  with assms have "db' = db" unfolding ResolveDurable_def by (auto dest: run_tx_Inl)
  then show ?thesis using Inl that(1) by simp
next
  case (Inr x)
  obtain u changed where x: "x = (u, changed)" by (cases x)
  from assms obtain d a r where rows: "tbl_find aw_approval_id (vc_ApprovalID rec) (vd_actions db) = Some d"
      "tbl_find vw_approval_id (vc_ApprovalID rec) (vd_approvals db) = Some a"
      "tbl_find r_run_id (vw_run_id a) (runs (vd_kernel db)) = Some r" "ac_OwnerID actor \<noteq> []" "may_decide review approved actor d a"
    and body: "(if vw_status a \<noteq> StatusPending then Inr ((scanRecord (vk_json C) a, False), db)
       else decide_pending C ctx rnd go now review rec approved actor reason d a (r_current_state r) db) = Inr ((u, changed), db')"
    unfolding Inr x ResolveDurable_def run_tx_Inr_iff bindE_Inr_iff need_Inr_iff failif_Inr_iff by blast
  show ?thesis
  proof (cases "vw_status a = StatusPending")
    case False
    then show ?thesis using body that(1) Inr x by auto
  next
    case True
    then have "decide_pending C ctx rnd go now review rec approved actor reason d a (r_current_state r) db = Inr ((u, changed), db')"
      using body by simp
    then show ?thesis
    proof (cases rule: decide_pending_cases)
      case unchanged
      then show ?thesis using that(1) Inr x by auto
    next
      case (decided status why db1)
      then show ?thesis using that(2) [OF rows True decided(2-5)] Inr x by simp
    qed
  qed
qed

section \<open>The abstract life of a request\<close>

lemma status_distinct [simp]:
  "StatusPending \<noteq> StatusApproved" "StatusApproved \<noteq> StatusPending" "StatusExpired \<noteq> StatusPending" "StatusExpired \<noteq> StatusApproved"
  "StatusRejected \<noteq> StatusPending" "StatusRejected \<noteq> StatusApproved" "StatusFailed \<noteq> StatusPending" "StatusFailed \<noteq> StatusApproved"
  "StatusApproved \<noteq> StatusExpired" "StatusApproved \<noteq> StatusRejected" "StatusPending \<noteq> []" "ApprovalTypeToolCall \<noteq> ApprovalTypeBrowserTabSelection" "ApprovalTypeBrowserTabSelection \<noteq> ApprovalTypeToolCall"
  by (simp_all add: approval_statuses ApprovalTypeToolCall_def ApprovalTypeBrowserTabSelection_def)

text \<open>
  A quiet change of a request may end it, but approves it only when no durable action hangs on it; a
  decided request keeps its status and, unless it is a tab selection, its decision.
\<close>

definition keeps_row :: "approval_db \<Rightarrow> approval_row \<Rightarrow> approval_row \<Rightarrow> bool" where
  "keeps_row db a a' \<longleftrightarrow>
     vw_approval_id a' = vw_approval_id a \<and> vw_approval_type a' = vw_approval_type a \<and> vw_run_id a' = vw_run_id a \<and>
     (if vw_status a = StatusPending then vw_status a' = StatusApproved \<longrightarrow> \<not> HasDurableAction (vw_approval_id a) db
      else vw_status a' = vw_status a \<and>
        (vw_approval_type a = ApprovalTypeBrowserTabSelection \<or>
         vw_resolved_via a' = vw_resolved_via a \<and> vw_resolved_by a' = vw_resolved_by a \<and> vw_resolved_at a' = vw_resolved_at a))"

definition pending_in :: "approval_db \<Rightarrow> string \<Rightarrow> bool" where
  "pending_in db i \<longleftrightarrow> (\<exists>a \<in> set (vd_approvals db). vw_approval_id a = i \<and> vw_status a = StatusPending)"

definition keeps_action :: "approval_db \<Rightarrow> action_row \<Rightarrow> action_row \<Rightarrow> bool" where
  "keeps_action db' d d' \<longleftrightarrow>
     aw_approval_id d' = aw_approval_id d \<and> aw_owner_id d' = aw_owner_id d \<and> aw_channel d' = aw_channel d \<and>
     aw_binding d' = aw_binding d \<and> aw_decision_input_id d' = aw_decision_input_id d \<and>
     (aw_state d' = aw_state d \<or>
      aw_state d' = ''blocked'' \<and> aw_state d \<in> {''waiting'', ''ready'', ''dispatching''} \<and> \<not> pending_in db' (aw_approval_id d) \<or>
      aw_state d \<in> {''ready'', ''dispatching''} \<and> aw_state d' \<in> {''dispatching'', ''completed''})"

inductive approval_move :: "approval_db \<Rightarrow> approval_db \<Rightarrow> bool" where
  quiet: "list_all2 (keeps_row db) (vd_approvals db) (vd_approvals db') \<Longrightarrow>
    list_all2 (keeps_action db') (vd_actions db) (vd_actions db') \<Longrightarrow> vd_decisions db' = vd_decisions db \<Longrightarrow>
    approval_move db db'"
| add: "vd_approvals db' = vd_approvals db @ [a] \<Longrightarrow> vw_status a = StatusPending \<Longrightarrow>
    tbl_find vw_approval_id (vw_approval_id a) (vd_approvals db) = None \<Longrightarrow>
    vd_actions db' = vd_actions db @ ds \<Longrightarrow> vd_decisions db' = vd_decisions db \<Longrightarrow>
    ds = [] \<or> vw_approval_type a = ApprovalTypeToolCall \<and>
      (\<exists>d. ds = [d] \<and> aw_approval_id d = vw_approval_id a \<and> aw_state d = ''waiting'') \<Longrightarrow>
    approval_move db db'"
| decide_action: "tbl_find aw_approval_id i (vd_actions db) = Some d \<Longrightarrow> pending_in db i \<Longrightarrow>
    vd_approvals db' = tbl_update (\<lambda>a. vw_approval_id a = i \<and> vw_status a = StatusPending)
      (\<lambda>a. (f a)\<lparr>vw_approval_id := i, vw_approval_type := vw_approval_type a, vw_run_id := vw_run_id a, vw_status := status\<rparr>) (vd_approvals db) \<Longrightarrow>
    vd_actions db' = vd_actions (mark_action i status (dw_decision_input_id w) now db) \<Longrightarrow>
    vd_decisions db' = vd_decisions db @ [w] \<Longrightarrow>
    \<forall>q \<in> set (vd_decisions db). dw_decision_input_id q \<noteq> dw_decision_input_id w \<and> (dw_source q, dw_delivery_id q) \<noteq> (dw_source w, dw_delivery_id w) \<Longrightarrow>
    status \<noteq> StatusPending \<Longrightarrow> dw_approval_id w = i \<Longrightarrow>
    status = StatusApproved \<longrightarrow> dw_approved w \<and> dw_owner_id w = aw_owner_id d \<and> dw_source w = aw_channel d \<Longrightarrow>
    approval_move db db'"

text \<open>What holds of an action and its request: an undecided action waits, an action that proceeds is
  approved, and an approval rests on a recorded delivery of the owner through the channel of the action.\<close>

definition live_action :: "action_row \<Rightarrow> bool" where
  "live_action d \<longleftrightarrow> aw_state d = ''ready'' \<or> aw_state d = ''dispatching'' \<or> aw_state d = ''completed''"

definition rests_on :: "decision_row list \<Rightarrow> action_row \<Rightarrow> bool" where
  "rests_on ws d \<longleftrightarrow>
     (\<exists>w \<in> set ws. aw_decision_input_id d = Some (dw_decision_input_id w) \<and> dw_approval_id w = aw_approval_id d \<and>
        dw_approved w \<and> dw_owner_id w = aw_owner_id d \<and> dw_source w = aw_channel d)"

definition agrees :: "decision_row list \<Rightarrow> approval_row \<Rightarrow> action_row \<Rightarrow> bool" where
  "agrees ws a d \<longleftrightarrow>
     vw_approval_type a = ApprovalTypeToolCall \<and> (vw_status a = StatusPending \<longrightarrow> aw_state d = ''waiting'') \<and>
     (live_action d \<longrightarrow> vw_status a = StatusApproved) \<and> (vw_status a = StatusApproved \<longrightarrow> rests_on ws d)"

definition approval_inv :: "approval_db \<Rightarrow> bool" where
  "approval_inv db \<longleftrightarrow>
     keyed vw_approval_id (vd_approvals db) \<and> keyed aw_approval_id (vd_actions db) \<and>
     keyed dw_decision_input_id (vd_decisions db) \<and> keyed (\<lambda>w. (dw_source w, dw_delivery_id w)) (vd_decisions db) \<and>
     (\<forall>d \<in> set (vd_actions db). \<exists>a \<in> set (vd_approvals db). vw_approval_id a = aw_approval_id d \<and> agrees (vd_decisions db) a d)"

definition approval_init :: "approval_db \<Rightarrow> bool" where
  "approval_init db \<longleftrightarrow> vd_approvals db = [] \<and> vd_actions db = [] \<and> vd_decisions db = []"

lemma list_all2_keyed:
  assumes "list_all2 R xs ys" and "\<And>x y. R x y \<Longrightarrow> key y = key x"
  shows "keyed key ys = keyed key xs"
proof -
  have "map key ys = map key xs" using assms(1) by (induction rule: list_all2_induct) (auto dest: assms(2))
  then show ?thesis by (simp add: keyed_def)
qed

lemma list_all2_set1: "list_all2 R xs ys \<Longrightarrow> x \<in> set xs \<Longrightarrow> \<exists>y \<in> set ys. R x y"
  by (induction rule: list_all2_induct) auto

lemma list_all2_set2: "list_all2 R xs ys \<Longrightarrow> y \<in> set ys \<Longrightarrow> \<exists>x \<in> set xs. R x y"
  by (induction rule: list_all2_induct) auto

lemma keeps_row_refl [simp]: "keeps_row db a a"
  by (simp add: keeps_row_def)

lemma keeps_action_refl [simp]: "keeps_action db d d"
  by (simp add: keeps_action_def)

lemma rests_on_mono: "rests_on ws d \<Longrightarrow> rests_on (ws @ us) d"
  by (auto simp: rests_on_def)

lemma action_request:
  assumes "approval_inv db" and "d \<in> set (vd_actions db)" and "a \<in> set (vd_approvals db)" and "vw_approval_id a = aw_approval_id d"
  shows "agrees (vd_decisions db) a d"
proof -
  obtain a' where a': "a' \<in> set (vd_approvals db)" "vw_approval_id a' = aw_approval_id d" "agrees (vd_decisions db) a' d"
    using assms(1,2) unfolding approval_inv_def by blast
  moreover have "a' = a"
    using keyed_eq [of vw_approval_id "vd_approvals db" a' a] assms a' unfolding approval_inv_def by simp
  ultimately show ?thesis by simp
qed

text \<open>Each move keeps the agreement of actions and requests.\<close>

lemma quiet_agrees:
  assumes a: "keeps_row db a a'" and d: "keeps_action db' d d'" and old: "agrees ws a d"
    and "vw_approval_id a = aw_approval_id d" and "d \<in> set (vd_actions db)" and "a' \<in> set (vd_approvals db')"
  shows "agrees ws a' d'"
proof -
  have act: "HasDurableAction (vw_approval_id a) db"
    using assms(4,5) by (auto simp: HasDurableAction_def tbl_find_None_iff)
  have rest: "rests_on ws d' = rests_on ws d" using d by (simp add: rests_on_def keeps_action_def)
  have pend: "vw_status a' = StatusPending \<Longrightarrow> vw_status a = StatusPending \<and> pending_in db' (aw_approval_id d)"
    using assms(4,6) a by (auto simp: pending_in_def keeps_row_def split: if_split_asm)
  have stat: "vw_status a' = StatusApproved \<longleftrightarrow> vw_status a = StatusApproved"
    using a act by (auto simp: keeps_row_def split: if_split_asm)
  have "vw_approval_type a' = vw_approval_type a" using a by (simp add: keeps_row_def)
  moreover have "vw_status a' = StatusPending \<longrightarrow> aw_state d' = ''waiting''"
    using pend old d unfolding agrees_def keeps_action_def by auto
  moreover have "live_action d' \<longrightarrow> live_action d"
    using d unfolding live_action_def keeps_action_def by auto
  ultimately show ?thesis using old stat rest unfolding agrees_def by auto
qed

lemma move_inv:
  assumes inv: "approval_inv db" and "approval_move db db'"
  shows "approval_inv db'"
  using assms(2)
proof cases
  case quiet
  have keyed: "keyed vw_approval_id (vd_approvals db')" "keyed aw_approval_id (vd_actions db')"
    using inv list_all2_keyed [OF quiet(1), of vw_approval_id] list_all2_keyed [OF quiet(2), of aw_approval_id]
    by (auto simp: approval_inv_def keeps_row_def keeps_action_def)
  have "\<exists>a' \<in> set (vd_approvals db'). vw_approval_id a' = aw_approval_id d' \<and> agrees (vd_decisions db') a' d'"
    if d': "d' \<in> set (vd_actions db')" for d'
  proof -
    obtain d where d: "d \<in> set (vd_actions db)" "keeps_action db' d d'" using list_all2_set2 [OF quiet(2) d'] by blast
    obtain a where a: "a \<in> set (vd_approvals db)" "vw_approval_id a = aw_approval_id d" "agrees (vd_decisions db) a d"
      using inv d(1) unfolding approval_inv_def by blast
    obtain a' where a': "a' \<in> set (vd_approvals db')" "keeps_row db a a'" using list_all2_set1 [OF quiet(1) a(1)] by blast
    have "agrees (vd_decisions db) a' d'" using a'(2) d(2) a(3,2) d(1) a'(1) by (rule quiet_agrees)
    moreover have "vw_approval_id a' = aw_approval_id d'" using a' d a by (simp add: keeps_row_def keeps_action_def)
    ultimately show ?thesis using a'(1) quiet(3) by auto
  qed
  with keyed show ?thesis using inv quiet(3) by (simp add: approval_inv_def)
next
  case (add a ds)
  have fresh: "tbl_find aw_approval_id (vw_approval_id a) (vd_actions db) = None"
  proof (rule ccontr)
    assume "tbl_find aw_approval_id (vw_approval_id a) (vd_actions db) \<noteq> None"
    then obtain d where "d \<in> set (vd_actions db)" "aw_approval_id d = vw_approval_id a" by (auto dest: tbl_find_SomeD)
    then obtain b where "b \<in> set (vd_approvals db)" "vw_approval_id b = vw_approval_id a"
      using inv unfolding approval_inv_def by fastforce
    then have "vw_approval_id a \<in> vw_approval_id ` set (vd_approvals db)" by (metis imageI)
    then show False using add(3) by (simp add: tbl_find_None_iff)
  qed
  have "keyed aw_approval_id (vd_actions db')"
    using add(4,6) inv fresh by (auto simp: approval_inv_def keyed_snoc)
  moreover have "keyed vw_approval_id (vd_approvals db')" using add(1,3) inv by (simp add: approval_inv_def keyed_snoc)
  moreover have "\<exists>a' \<in> set (vd_approvals db'). vw_approval_id a' = aw_approval_id d \<and> agrees (vd_decisions db') a' d"
    if "d \<in> set (vd_actions db')" for d
  proof (cases "d \<in> set (vd_actions db)")
    case True
    then show ?thesis using inv add(1,5) unfolding approval_inv_def by force
  next
    case False
    with that add(4,6) have "aw_approval_id d = vw_approval_id a" "aw_state d = ''waiting''" "vw_approval_type a = ApprovalTypeToolCall"
      by auto
    then show ?thesis using add(1,2) by (auto simp: agrees_def live_action_def)
  qed
  ultimately show ?thesis using inv add(5) by (simp add: approval_inv_def)
next
  case (decide_action i d status f w now)
  have inv': "keyed vw_approval_id (vd_approvals db)" "keyed aw_approval_id (vd_actions db)"
    using inv by (simp_all add: approval_inv_def)
  have keyed1: "keyed vw_approval_id (vd_approvals db')"
    unfolding decide_action(3) using inv'(1) by (subst keyed_tbl_update) auto
  have keyed2: "keyed aw_approval_id (vd_actions db')"
    unfolding decide_action(4) mark_action_def using inv'(2) by (simp add: keyed_tbl_update)
  have "keyed dw_decision_input_id (vd_decisions db')" "keyed (\<lambda>w. (dw_source w, dw_delivery_id w)) (vd_decisions db')"
    using inv decide_action(5,6) by (auto simp: approval_inv_def keyed_snoc tbl_find_None_iff)
  moreover have "\<exists>a' \<in> set (vd_approvals db'). vw_approval_id a' = aw_approval_id e \<and> agrees (vd_decisions db') a' e"
    if e: "e \<in> set (vd_actions db')" for e
  proof -
    let ?f = "\<lambda>a. (f a)\<lparr>vw_approval_id := i, vw_approval_type := vw_approval_type a, vw_run_id := vw_run_id a, vw_status := status\<rparr>"
    let ?g = "\<lambda>e. e\<lparr>aw_state := (if status = StatusApproved then ''ready'' else ''blocked''),
      aw_decision_input_id := Some (dw_decision_input_id w), aw_updated_at := now\<rparr>"
    obtain e0 where e0: "e0 \<in> set (vd_actions db)" "e = (if aw_approval_id e0 = i then ?g e0 else e0)"
      using e unfolding decide_action(4) mark_action_def by (auto simp: set_tbl_update)
    obtain a where a: "a \<in> set (vd_approvals db)" "vw_approval_id a = aw_approval_id e0" "agrees (vd_decisions db) a e0"
      using inv e0(1) unfolding approval_inv_def by blast
    show ?thesis
    proof (cases "aw_approval_id e0 = i")
      case True
      obtain p where "p \<in> set (vd_approvals db)" "vw_approval_id p = i" "vw_status p = StatusPending"
        using decide_action(2) by (auto simp: pending_in_def)
      then have pend: "vw_status a = StatusPending"
        using a True inv keyed_eq [of vw_approval_id "vd_approvals db" p a] by (simp add: approval_inv_def)
      have "e0 = d" using e0(1) True tbl_find_SomeD [OF decide_action(1)] inv keyed_eq [of aw_approval_id "vd_actions db" e0 d]
        by (simp add: approval_inv_def)
      then have "status = StatusApproved \<Longrightarrow> rests_on (vd_decisions db') e"
        using decide_action(5,8,9) e0(2) True by (auto simp: rests_on_def)
      moreover have "?f a \<in> set (vd_approvals db')" unfolding decide_action(3) using a(1,2) True pend
        by (auto simp: set_tbl_update image_iff)
      moreover have "agrees (vd_decisions db') (?f a) e"
        using a(3) decide_action(7) calculation(1) e0(2) True by (auto simp: agrees_def live_action_def)
      ultimately show ?thesis using e0(2) True by force
    next
      case False
      then have "a \<in> set (vd_approvals db')" unfolding decide_action(3) using a(1,2) by (auto simp: set_tbl_update image_iff)
      moreover have "agrees (vd_decisions db') a e0"
        using a(3) decide_action(5) rests_on_mono by (auto simp: agrees_def)
      ultimately show ?thesis using a(2) e0(2) False by auto
    qed
  qed
  ultimately show ?thesis using keyed1 keyed2 by (simp add: approval_inv_def)
qed

interpretation am: invariant_system approval_init approval_move approval_inv
proof
  show "approval_inv s" if "approval_init s" for s using that by (simp add: approval_init_def approval_inv_def)
  show "approval_inv t" if "approval_inv s" "approval_move s t" for s t using that by (rule move_inv)
qed

end
