(* ===== verification/ApprovalSteps.thy ===== *)
theory ApprovalSteps
  imports ApprovalProps
begin

text \<open>
  The steps of the program on the tables of approvals, and that each is a move of the abstract life of
  a request.
\<close>

section \<open>Steps\<close>

text \<open>
  A request draws an identifier that is not in use. \<open>others\<close> stands for every change the rest of the
  program makes to runs, sessions, tasks and inputs: nothing is assumed of it.
\<close>

inductive approval_step :: "approval_db \<Rightarrow> approval_db \<Rightarrow> bool" where
  request: "CreatePendingApproval C claim ctx rnd go now p db = (res, db') \<Longrightarrow>
    tbl_find vw_approval_id (newApprovalID rnd go) (vd_approvals db) = None \<Longrightarrow> approval_step db db'"
| decision: "resolveRecord C ctx actor rnd go now rec approved via by_whom reason at actorType actorID s = (res, s') \<Longrightarrow>
    approval_step (sv_db s) (sv_db s')"
| sweep: "ExpireInvalidPending C ctx tick now db = (res, db') \<Longrightarrow> approval_step db db'"
| checkpoint: "MarkActionCheckpoint ctx runID callID state now db = Inr db' \<Longrightarrow> approval_step db db'"
| control: "approval_step db (InvalidateApprovalsTx taskIDs controlID owner now db)"
| redaction: "approval_step db (redact_runs runIDs deletion now db)"
| guarded_request: "insert_approval r db = Inr (new, db') \<Longrightarrow> vw_status r = StatusPending \<Longrightarrow>
    vw_approval_type r = ApprovalTypeBrowserTabSelection \<Longrightarrow> approval_step db db'"
| guarded_selection: "approval_step db
    (db\<lparr>vd_approvals := tbl_update (guarded_selectable i runID sessionKey) (approve_selection actor now) (vd_approvals db)\<rparr>)"
| activation: "ResolveApproval J go p db = Inr (rec, db') \<Longrightarrow> vr_ExpectedStatus p = StatusPending \<Longrightarrow> vr_Status p = StatusApproved \<Longrightarrow>
    GetApprovalByID J (vr_ApprovalID p) db = Inr old \<Longrightarrow> vc_ApprovalType old = ApprovalTypeBrowserTabSelection \<Longrightarrow> approval_step db db'"
| candidate: "SelectTabCandidate i token at go db = (res, db') \<Longrightarrow> approval_step db db'"
| event: "approval_InsertEvent J ctx go now e db = Inr db' \<Longrightarrow> approval_step db db'"
| others: "approval_step db (db\<lparr>vd_kernel := K, vd_tasks := ts, vd_queue := q\<rparr>)"

section \<open>Every step is a sequence of moves\<close>

lemma same_tables_move: "same_tables db db' \<Longrightarrow> approval_move db db'"
  by (rule approval_move.quiet) (auto simp: same_tables_def list.rel_refl_strong)

lemma move_same_tables:
  assumes "approval_move db db1" and "same_tables db1 db2"
  shows "approval_move db db2"
proof -
  have keep: "keeps_action db2 = keeps_action db1" and "pending_in db2 = pending_in db1"
    using assms(2) by (auto simp: keeps_action_def pending_in_def same_tables_def fun_eq_iff)
  from assms(1) show ?thesis
  proof cases
    case quiet
    then show ?thesis using assms(2) keep by (auto intro!: approval_move.quiet simp: same_tables_def)
  next
    case (add a ds)
    then show ?thesis using assms(2) by (intro approval_move.add [where a = a and ds = ds]) (auto simp: same_tables_def)
  next
    case (decide_action i d status f w now)
    then show ?thesis using assms(2)
      by (intro approval_move.decide_action [where i = i and d = d and status = status and f = f and w = w and now = now])
        (auto simp: same_tables_def)
  qed
qed

lemma approvals_move:
  assumes "\<And>a. a \<in> set (vd_approvals db) \<Longrightarrow> p a \<Longrightarrow> keeps_row db a (f a)"
    and "vd_approvals db' = tbl_update p f (vd_approvals db)" and "vd_actions db' = vd_actions db" and "vd_decisions db' = vd_decisions db"
  shows "approval_move db db'"
  using assms by (intro approval_move.quiet) (auto intro: list_all2_tbl_update simp: list.rel_refl_strong)

lemma actions_move:
  assumes "\<And>d. d \<in> set (vd_actions db) \<Longrightarrow> p d \<Longrightarrow> keeps_action db' d (f d)"
    and "vd_actions db' = tbl_update p f (vd_actions db)" and "vd_approvals db' = vd_approvals db" and "vd_decisions db' = vd_decisions db"
  shows "approval_move db db'"
  using assms by (intro approval_move.quiet) (auto intro: list_all2_tbl_update simp: list.rel_refl_strong)

lemma ResolveApproval_move:
  assumes "ResolveApproval J go p db = Inr (rec, db')" and "or_default StatusPending (vr_ExpectedStatus p) = StatusPending"
    and "\<not> HasDurableAction (vr_ApprovalID p) db"
  shows "approval_move db db'"
proof -
  obtain p' where p': "p' = p\<lparr>vr_ResolvedAt := vr_ResolvedAt p'\<rparr>"
    and db': "db' = db\<lparr>vd_approvals := tbl_update (expected p') (decide p') (vd_approvals db)\<rparr>"
    using assms(1) by (rule ResolveApproval_Inr)
  have "vr_ApprovalID p' = vr_ApprovalID p" "vr_ExpectedStatus p' = vr_ExpectedStatus p" by (subst p', simp)+
  then show ?thesis using assms(2,3) db'
    by (intro approvals_move [where p = "expected p'" and f = "decide p'"]) (auto simp: expected_def decide_def keeps_row_def)
qed

lemma ResolveDurable_move:
  assumes inv: "approval_inv db" and res: "ResolveDurable C ctx rnd go now review rec approved actor reason db = (res, db')"
  shows "approval_move db db'"
  using res
proof (cases rule: ResolveDurable_cases)
  case unchanged
  then show ?thesis by (simp add: same_tables_move)
next
  case (decided d a r status why updated db1)
  let ?w = "decision_input rnd go rec approved actor"
  have db1: "db1 = db\<lparr>vd_decisions := vd_decisions db @ [?w]\<rparr>"
    and fresh: "\<forall>q \<in> set (vd_decisions db). dw_decision_input_id q \<noteq> dw_decision_input_id ?w \<and>
      (dw_source q, dw_delivery_id q) \<noteq> (dw_source ?w, dw_delivery_id ?w)"
    using decided(9) unfolding insert_decision_def by (auto simp: tbl_find_None_iff image_iff split: if_split_asm)
  from decided(10) obtain p n q where p: "vr_ApprovalID p = vc_ApprovalID rec" "vr_ExpectedStatus p = []" "vr_Status p = status"
    and tabs: "vd_approvals db' = tbl_update (expected p) (decide p) (vd_approvals db1)"
      "vd_actions db' = vd_actions (mark_action (vc_ApprovalID rec) status (newApprovalID rnd go) now db1)"
      "vd_decisions db' = vd_decisions db1"
    by (rule settle_decision_Inr)
  have a: "a \<in> set (vd_approvals db)" "vw_approval_id a = vc_ApprovalID rec" using tbl_find_SomeD [OF decided(2)] by auto
  have st: "status \<noteq> StatusPending" "status = StatusApproved \<longrightarrow> approved \<and> \<not> review"
    using decided(5,7) by (auto simp: decision_status_def may_decide_def split: if_split_asm)
  show ?thesis
  proof (rule approval_move.decide_action [where i = "vc_ApprovalID rec" and d = d and status = status and w = ?w and now = now])
    show "vd_approvals db' = tbl_update (\<lambda>a. vw_approval_id a = vc_ApprovalID rec \<and> vw_status a = StatusPending)
      (\<lambda>a. (decide p a)\<lparr>vw_approval_id := vc_ApprovalID rec, vw_approval_type := vw_approval_type a, vw_run_id := vw_run_id a, vw_status := status\<rparr>)
      (vd_approvals db)"
      unfolding tabs(1) db1 using p by (simp add: tbl_update_def expected_def or_default_def decide_def)
    show "status = StatusApproved \<longrightarrow> dw_approved ?w \<and> dw_owner_id ?w = aw_owner_id d \<and> dw_source ?w = aw_channel d"
      using st(2) decided(5) by (auto simp: decision_input_def may_decide_def)
  qed (use decided(1,6) tabs fresh st a in \<open>auto simp: db1 pending_in_def decision_input_def mark_action_def\<close>)
qed

lemma sweep_moves:
  "approval_inv db \<Longrightarrow> sweep_each C ctx tick due db = (res, db') \<Longrightarrow> approval_move\<^sup>*\<^sup>* db db'"
proof (induction C ctx tick due db rule: sweep_each.induct)
  case (1 C ctx tick db)
  then show ?case by simp
next
  case (2 C ctx tick i owner rest db)
  obtain rnd go now where tick: "tick i = (rnd, go, now)" by (cases "tick i")
  show ?case
  proof (cases "GetApprovalByID (vk_json C) i db")
    case (Inl e)
    then show ?thesis using 2(3) by simp
  next
    case (Inr rec)
    let ?R = "ResolveDurable C ctx rnd go now True rec False (sweep_actor i owner) ''approval expired or intended task changed''"
    obtain r db1 where one: "?R db = (r, db1)" by fastforce
    have move: "approval_move db db1" using ResolveDurable_move [OF 2(2) one] .
    then have inv: "approval_inv db1" using 2(2) move_inv by blast
    show ?thesis
    proof (cases r)
      case (Inl e)
      then show ?thesis using 2(3) Inr tick one move by simp
    next
      case (Inr x)
      have "sweep_each C ctx tick rest db1 = (res, db')"
        using 2(3) \<open>GetApprovalByID (vk_json C) i db = Inr rec\<close> tick one Inr by simp
      then have "approval_move\<^sup>*\<^sup>* db1 db'"
        using 2(1) \<open>GetApprovalByID (vk_json C) i db = Inr rec\<close> tick one Inr inv by fastforce
      with move show ?thesis by (rule converse_rtranclp_into_rtranclp)
    qed
  qed
qed

lemma create_plain_move:
  assumes "create_plain C ctx rnd go now p db = (res, db')" and "tbl_find vw_approval_id (newApprovalID rnd go) (vd_approvals db) = None"
  shows "approval_move db db'"
proof (cases "CreateApproval (vk_json C) ctx go now (pending_params (newApprovalID rnd go) p) db")
  case (Inl e)
  then show ?thesis using assms(1) by (simp add: create_plain_def same_tables_move)
next
  case (Inr x)
  then obtain rec db1 where cre: "CreateApproval (vk_json C) ctx go now (pending_params (newApprovalID rnd go) p) db = Inr (rec, db1)"
    by (cases x) simp
  have "tbl_find vw_approval_id (va_ApprovalID (pending_params (newApprovalID rnd go) p)) (vd_approvals db) = None"
    using assms(2) by (simp add: pending_params_def)
  from CreateApproval_fresh [OF cre this] obtain r
    where r: "new_approval (vk_json C) (defaulted go (pending_params (newApprovalID rnd go) p)) = Inr r"
      "db1 = db\<lparr>vd_approvals := vd_approvals db @ [r]\<rparr>" by blast
  have "approval_move db db1" using new_approval_row [OF r(1)] assms(2) r(2)
    by (intro approval_move.add [where a = r and ds = "[]"]) (auto simp: defaulted_def pending_params_def)
  moreover have "same_tables db1 db'"
    using assms(1) cre CreateTabCandidates_same ignored_same same_tables_trans
    unfolding create_plain_def by (fastforce split: sum.split_asm)
  ultimately show ?thesis by (rule move_same_tables)
qed

lemma CreateDurable_move:
  assumes "CreateDurable C claim ctx rnd go now p db = (res, db')" and "tbl_find vw_approval_id (newApprovalID rnd go) (vd_approvals db) = None"
  shows "approval_move db db'"
proof (cases res)
  case (Inl e)
  with assms(1) have "db' = db" unfolding CreateDurable_def by (auto dest: run_tx_Inl)
  then show ?thesis by (simp add: same_tables_move)
next
  case (Inr rec)
  with assms(1) have "CreateDurable C claim ctx rnd go now p db = (Inr rec, db')" by simp
  from this assms(2) obtain r ctx' u where
    r: "new_approval (vk_json C) (defaulted go (durable_params C (newApprovalID rnd go) p)) = Inr r"
    and sus: "suspend_run C claim ctx' go now p (newApprovalID rnd go) (db\<lparr>vd_approvals := vd_approvals db @ [r]\<rparr>) = Inr db'"
    by (rule CreateDurable_Inr)
  from sus obtain cont where tabs: "vd_approvals db' = vd_approvals db @ [r]"
    "vd_actions db' = vd_actions db @ [new_action (newApprovalID rnd go) cont now p]" "vd_decisions db' = vd_decisions db"
    by (rule suspend_run_Inr) auto
  have row: "vw_approval_id r = newApprovalID rnd go" "vw_status r = StatusPending" "vw_approval_type r = ApprovalTypeToolCall"
    using new_approval_row [OF r] by (simp_all add: defaulted_def durable_params_def or_default_def)
  show ?thesis
  proof (rule approval_move.add)
    let ?d = "new_action (newApprovalID rnd go) cont now p"
    have "aw_approval_id ?d = vw_approval_id r \<and> aw_state ?d = ''waiting''" by (simp add: new_action_def Let_def row(1))
    then show "[?d] = [] \<or> vw_approval_type r = ApprovalTypeToolCall \<and>
      (\<exists>d. [?d] = [d] \<and> aw_approval_id d = vw_approval_id r \<and> aw_state d = ''waiting'')" using row(3) by blast
  qed (use tabs assms(2) row in simp_all)
qed

lemma request_move:
  assumes "CreatePendingApproval C claim ctx rnd go now p db = (res, db')" and "tbl_find vw_approval_id (newApprovalID rnd go) (vd_approvals db) = None"
  shows "approval_move db db'"
  using assms CreateDurable_move create_plain_move same_tables_move
  by (auto simp: CreatePendingApproval_def Let_def split: if_split_asm sum.split_asm)

lemma resolve_plain_move:
  assumes "resolve_plain C ctx go now rec approved via by_whom reason at actorType actorID s = (res, s')"
    and "\<not> HasDurableAction (vc_ApprovalID rec) (sv_db s)"
  shows "approval_move (sv_db s) (sv_db s')"
proof (cases "same_tables (sv_db s) (sv_db s')")
  case True
  then show ?thesis by (rule same_tables_move)
next
  case False
  define p where "p = \<lparr>vr_ApprovalID = vc_ApprovalID rec, vr_ExpectedStatus = StatusPending,
    vr_Status = (if approved then StatusApproved else StatusRejected), vr_ResolvedVia = via, vr_ResolvedBy = by_whom,
    vr_ResolutionReason = reason, vr_ResolvedAt = at\<rparr>"
  have pending: "vc_Status rec = StatusPending"
    using False assms(1) by (auto simp: resolve_plain_def gate_Resolve_def split: if_split_asm)
  obtain updated db where res: "ResolveApproval (vk_json C) go p (sv_db s) = Inr (updated, db)"
    and s': "sv_db s' = ignored (approval_InsertEvent (vk_json C) ctx go now (plain_event updated approved via reason at actorType actorID)) db"
  proof (cases "ResolveApproval (vk_json C) go p (sv_db s)")
    case (Inl e)
    then have "same_tables (sv_db s) (sv_db s')"
      using assms(1) pending unfolding resolve_plain_def p_def [symmetric] gate_Resolve_def by (auto split: if_split_asm sum.split_asm)
    with False show ?thesis by simp
  next
    case (Inr x)
    then show ?thesis using assms(1) pending that unfolding resolve_plain_def p_def [symmetric] gate_Resolve_def by (cases x) auto
  qed
  have "approval_move (sv_db s) db"
    using ResolveApproval_move [OF res] assms(2) by (simp add: p_def or_default_def)
  then show ?thesis unfolding s' using ignored_same by (rule move_same_tables)
qed

lemma resolveRecord_move:
  assumes "approval_inv (sv_db s)"
    and "resolveRecord C ctx actor rnd go now rec approved via by_whom reason at actorType actorID s = (res, s')"
  shows "approval_move (sv_db s) (sv_db s')"
proof (cases "HasDurableAction (vc_ApprovalID rec) (sv_db s)")
  case True
  show ?thesis
  proof (cases "FromContext actor")
    case None
    then show ?thesis using assms(2) True by (simp add: resolveRecord_def same_tables_move)
  next
    case (Some a)
    obtain r db where one: "ResolveDurable C ctx rnd go now False rec approved a reason (sv_db s) = (r, db)" by fastforce
    then have "sv_db s' = db" using assms(2) True Some by (auto simp: resolveRecord_def)
    then show ?thesis using ResolveDurable_move [OF assms(1) one] by simp
  qed
next
  case False
  then show ?thesis using assms(2) by (intro resolve_plain_move) (auto simp: resolveRecord_def)
qed

lemma action_not_pending:
  assumes "approval_inv db" and "a \<in> set (vd_approvals db)" and "vw_approval_id a = i" and "vw_status a \<noteq> StatusPending"
  shows "\<not> pending_in db i"
  using assms keyed_eq [of vw_approval_id "vd_approvals db"] unfolding pending_in_def approval_inv_def by metis

lemma checkpoint_move:
  assumes inv: "approval_inv db" and "MarkActionCheckpoint ctx runID callID state now db = Inr db'"
  shows "approval_move db db'"
proof -
  let ?p = "\<lambda>d. (\<exists>a \<in> set (vd_approvals db). vw_approval_id a = aw_approval_id d \<and> vw_run_id a = runID \<and>
      vw_tool_call_id a = callID \<and> vw_status a = StatusApproved) \<and> (aw_state d = ''ready'' \<or> aw_state d = ''dispatching'')"
  let ?f = "\<lambda>d. d\<lparr>aw_state := state, aw_updated_at := now\<rparr>"
  have state: "state = ''dispatching'' \<or> state = ''completed'' \<or> state = ''blocked''"
    and db': "db' = db\<lparr>vd_actions := tbl_update ?p ?f (vd_actions db)\<rparr>"
    using assms(2) unfolding MarkActionCheckpoint_def bindE_Inr_iff failif_Inr_iff by auto
  have "keeps_action db' d (?f d)" if "?p d" for d
  proof -
    have "\<not> pending_in db (aw_approval_id d)" using that action_not_pending [OF inv] by auto
    then show ?thesis using that state db' by (auto simp: keeps_action_def pending_in_def)
  qed
  then show ?thesis by (rule actions_move [where p = ?p]) (simp_all add: db')
qed

lemma control_move:
  assumes inv: "approval_inv db"
  shows "approval_move db (InvalidateApprovalsTx taskIDs controlID owner now db)" (is "approval_move db ?db'")
proof (rule approval_move.quiet)
  let ?hit = "\<lambda>a. run_of_tasks taskIDs (vw_run_id a) db \<and> vw_status a = StatusPending"
  have rows: "vd_approvals ?db' = tbl_update ?hit (withdraw_approval now) (vd_approvals db)"
    by (simp add: InvalidateApprovalsTx_def Let_def)
  show "list_all2 (keeps_row db) (vd_approvals db) (vd_approvals ?db')"
    unfolding rows by (rule list_all2_tbl_update) (simp_all add: keeps_row_def withdraw_approval_def)
  have "\<not> pending_in ?db' (aw_approval_id d)"
    if "a \<in> set (vd_approvals db)" "vw_approval_id a = aw_approval_id d" "run_of_tasks taskIDs (vw_run_id a) db" for a d
  proof
    assume "pending_in ?db' (aw_approval_id d)"
    then obtain b where b: "b \<in> set (vd_approvals db)" "vw_approval_id b = aw_approval_id d" "vw_status b = StatusPending" "\<not> ?hit b"
      unfolding pending_in_def rows set_tbl_update by (auto simp: withdraw_approval_def split: if_split_asm)
    then have "b = a" using that inv keyed_eq [of vw_approval_id "vd_approvals db" b a] by (simp add: approval_inv_def)
    with b that show False by simp
  qed
  then show "list_all2 (keeps_action ?db') (vd_actions db) (vd_actions ?db')"
    by (subst InvalidateApprovalsTx_def, simp add: Let_def, intro list_all2_tbl_update) (auto simp: keeps_action_def)
qed (simp add: InvalidateApprovalsTx_def Let_def)

text \<open>Durable actions hang on requests of tool calls, so a tab selection never approves one.\<close>

lemma tab_selection_has_no_action:
  assumes "approval_inv db" and "a \<in> set (vd_approvals db)" and "vw_approval_type a = ApprovalTypeBrowserTabSelection"
  shows "\<not> HasDurableAction (vw_approval_id a) db"
  using assms action_request by (fastforce simp: HasDurableAction_def agrees_def dest: tbl_find_SomeD)

theorem approval_step_moves:
  assumes "approval_step db db'" and inv: "approval_inv db"
  shows "approval_move\<^sup>*\<^sup>* db db'"
  using assms(1)
proof cases
  case (sweep C ctx tick now res)
  then show ?thesis using sweep_moves [OF inv] by (simp add: ExpireInvalidPending_def)
next
  case (decision C ctx actor rnd go now rec approved via by_whom reason at actorType actorID s res s')
  then show ?thesis using inv resolveRecord_move by blast
next
  case (redaction runIDs deletion now)
  then have "approval_move db db'"
    by (intro approvals_move [where p = "\<lambda>a. vw_run_id a \<in> set runIDs" and f = "redact_approval now"])
      (auto simp: redact_runs_def redact_approval_def keeps_row_def)
  then show ?thesis by blast
next
  case (guarded_request r new)
  then have "approval_move db db'"
    using insert_approval_Inr [of r db new db'] by (cases new) (auto intro: same_tables_move approval_move.add [where a = r and ds = "[]"])
  then show ?thesis by blast
next
  case (guarded_selection i runID sessionKey actor now)
  then have "approval_move db db'"
    using tab_selection_has_no_action [OF inv]
    by (intro approvals_move [where p = "guarded_selectable i runID sessionKey" and f = "approve_selection actor now"])
      (auto simp: guarded_selectable_def approve_selection_def keeps_row_def)
  then show ?thesis by blast
next
  case (activation J go p rec old)
  obtain a where "a \<in> set (vd_approvals db)" "vw_approval_id a = vr_ApprovalID p" "vw_approval_type a = ApprovalTypeBrowserTabSelection"
    using activation(4,5) by (auto simp: GetApprovalByID_def scanRecord_def dest: tbl_find_SomeD)
  then have "\<not> HasDurableAction (vr_ApprovalID p) db" using tab_selection_has_no_action [OF inv] by metis
  then have "approval_move db db'" using ResolveApproval_move [OF activation(1)] activation(2) by (simp add: or_default_def)
  then show ?thesis by blast
next
  case (request C claim ctx rnd go now p res)
  then show ?thesis using request_move by blast
next
  case (checkpoint ctx runID callID state now)
  then show ?thesis using checkpoint_move [OF inv] by blast
next
  case (control taskIDs controlID owner now)
  then show ?thesis using control_move [OF inv] by blast
next
  case (candidate i token at go res)
  then show ?thesis using SelectTabCandidate_same same_tables_move by blast
next
  case (event J ctx go now e)
  then show ?thesis using InsertEvent_same same_tables_move by blast
next
  case (others K ts q)
  then have "same_tables db db'" by (simp add: same_tables_def)
  then show ?thesis using same_tables_move by blast
qed

interpretation ap: invariant_system approval_init approval_step approval_inv
proof
  show "approval_inv s" if "approval_init s" for s using that by (rule am.inv_init)
  show "approval_inv t" if "approval_inv s" "approval_step s t" for s t
    using approval_step_moves [OF that(2,1)] that(1) by (rule am.inv_steps)
qed

section \<open>What moves keep\<close>

lemma approval_steps_moves: "approval_step\<^sup>*\<^sup>* db db' \<Longrightarrow> approval_inv db \<Longrightarrow> approval_move\<^sup>*\<^sup>* db db'"
proof (induction rule: rtranclp_induct)
  case base
  then show ?case by simp
next
  case (step u v)
  then have "approval_inv u" by (blast intro: ap.inv_steps)
  with step show ?case using approval_step_moves by (meson rtranclp_trans)
qed

text \<open>The decision of a request: its status and, for a tool call, who decided it, where and when.\<close>

definition same_decision_of :: "approval_row \<Rightarrow> approval_row \<Rightarrow> bool" where
  "same_decision_of a a' \<longleftrightarrow>
     vw_approval_id a' = vw_approval_id a \<and> vw_approval_type a' = vw_approval_type a \<and> vw_status a' = vw_status a \<and>
     (vw_approval_type a = ApprovalTypeToolCall \<longrightarrow>
        vw_resolved_via a' = vw_resolved_via a \<and> vw_resolved_by a' = vw_resolved_by a \<and> vw_resolved_at a' = vw_resolved_at a)"

lemma move_keeps_decision:
  assumes "approval_inv db" and "approval_move db db'" and a: "a \<in> set (vd_approvals db)" "vw_status a \<noteq> StatusPending"
  shows "\<exists>a' \<in> set (vd_approvals db'). same_decision_of a a'"
  using assms(2)
proof cases
  case quiet
  obtain a' where "a' \<in> set (vd_approvals db')" "keeps_row db a a'" using list_all2_set1 [OF quiet(1) a(1)] by blast
  moreover from this(2) have "same_decision_of a a'" using a(2) by (auto simp: keeps_row_def same_decision_of_def)
  ultimately show ?thesis by blast
next
  case (add b ds)
  then show ?thesis using a by (auto simp: same_decision_of_def)
next
  case (decide_action i d status f w now)
  then have "a \<in> set (vd_approvals db')" using a by (auto simp: set_tbl_update image_iff)
  then show ?thesis by (auto simp: same_decision_of_def)
qed

lemma moves_keep_decision:
  assumes "approval_move\<^sup>*\<^sup>* db db'" and "approval_inv db" and "a \<in> set (vd_approvals db)" and "vw_status a \<noteq> StatusPending"
  shows "\<exists>a' \<in> set (vd_approvals db'). same_decision_of a a'"
  using assms(1)
proof (induction rule: rtranclp_induct)
  case base
  then show ?case using assms(3) by (auto simp: same_decision_of_def)
next
  case (step u v)
  then obtain b where b: "b \<in> set (vd_approvals u)" "same_decision_of a b" by blast
  moreover have "approval_inv u" using step(1) assms(2) by (rule am.inv_steps)
  moreover have "vw_status b \<noteq> StatusPending" using b(2) assms(4) by (simp add: same_decision_of_def)
  ultimately obtain c where "c \<in> set (vd_approvals v)" "same_decision_of b c" using move_keeps_decision step(2) by blast
  with b(2) show ?case by (auto simp: same_decision_of_def)
qed

text \<open>A blocked action stays blocked: its request is decided, so no decision can reach it again.\<close>

lemma move_keeps_blocked:
  assumes inv: "approval_inv db" and "approval_move db db'" and d: "d \<in> set (vd_actions db)" "aw_state d = ''blocked''"
  shows "\<exists>d' \<in> set (vd_actions db'). aw_approval_id d' = aw_approval_id d \<and> aw_state d' = ''blocked''"
  using assms(2)
proof cases
  case quiet
  obtain d' where "d' \<in> set (vd_actions db')" "keeps_action db' d d'" using list_all2_set1 [OF quiet(2) d(1)] by blast
  then show ?thesis using d(2) by (auto simp: keeps_action_def)
next
  case (add b ds)
  then show ?thesis using d by auto
next
  case (decide_action i e status f w now)
  have "aw_approval_id d \<noteq> i"
  proof
    assume i: "aw_approval_id d = i"
    obtain a where a: "a \<in> set (vd_approvals db)" "vw_approval_id a = i" "vw_status a = StatusPending"
      using decide_action(2) by (auto simp: pending_in_def)
    then have "aw_state d = ''waiting''" using action_request [OF inv d(1) a(1)] i by (simp add: agrees_def)
    with d(2) show False by simp
  qed
  then have "d \<in> set (vd_actions db')" unfolding decide_action(4) mark_action_def using d(1) by (auto simp: set_tbl_update image_iff)
  then show ?thesis using d(2) by blast
qed

lemma moves_keep_blocked:
  assumes "approval_move\<^sup>*\<^sup>* db db'" and "approval_inv db" and "d \<in> set (vd_actions db)" and "aw_state d = ''blocked''"
  shows "\<exists>d' \<in> set (vd_actions db'). aw_approval_id d' = aw_approval_id d \<and> aw_state d' = ''blocked''"
  using assms(1)
proof (induction rule: rtranclp_induct)
  case base
  then show ?case using assms(3,4) by blast
next
  case (step u v)
  then obtain e where "e \<in> set (vd_actions u)" "aw_approval_id e = aw_approval_id d" "aw_state e = ''blocked''" by blast
  moreover have "approval_inv u" using step(1) assms(2) by (rule am.inv_steps)
  ultimately show ?case using move_keeps_blocked step(2) by metis
qed

section \<open>Properties\<close>

text \<open>C8. A decided approval request is final: in every later state of the system it has the same
  status, and for a tool call the same decider, channel and time of the decision, whatever requests,
  decisions, sweeps, controls, redactions, tab selections and other components do in between.\<close>

theorem decided_approval_is_final:
  assumes "approval_init s" and "approval_step\<^sup>*\<^sup>* s db" and "approval_step\<^sup>*\<^sup>* db db'"
    and "a \<in> set (vd_approvals db)" and "vw_status a \<noteq> StatusPending"
  shows "\<exists>a' \<in> set (vd_approvals db'). vw_approval_id a' = vw_approval_id a \<and> vw_status a' = vw_status a \<and>
    (vw_approval_type a = ApprovalTypeToolCall \<longrightarrow>
       vw_resolved_via a' = vw_resolved_via a \<and> vw_resolved_by a' = vw_resolved_by a \<and> vw_resolved_at a' = vw_resolved_at a)"
proof -
  have inv: "approval_inv db" using assms(1,2) by (rule ap.inv_reach)
  show ?thesis using moves_keep_decision [OF approval_steps_moves [OF assms(3) inv] inv assms(4,5)]
    by (auto simp: same_decision_of_def)
qed

text \<open>C9. No durable action proceeds without its owner: in every reachable state an action that is ready,
  dispatching or completed has an approved request, and its decision is a recorded positive delivery for
  this request by the owner of the action through the channel the request was made on.\<close>

theorem proceeding_action_was_approved:
  assumes "approval_init s" and "approval_step\<^sup>*\<^sup>* s db"
    and "d \<in> set (vd_actions db)" and "aw_state d = ''ready'' \<or> aw_state d = ''dispatching'' \<or> aw_state d = ''completed''"
  shows "(\<exists>a \<in> set (vd_approvals db). vw_approval_id a = aw_approval_id d \<and> vw_status a = StatusApproved) \<and>
    (\<exists>w \<in> set (vd_decisions db). aw_decision_input_id d = Some (dw_decision_input_id w) \<and> dw_approval_id w = aw_approval_id d \<and>
       dw_approved w \<and> dw_owner_id w = aw_owner_id d \<and> dw_source w = aw_channel d)"
proof -
  have "approval_inv db" using assms(1,2) by (rule ap.inv_reach)
  then obtain a where "a \<in> set (vd_approvals db)" "vw_approval_id a = aw_approval_id d" "agrees (vd_decisions db) a d"
    using assms(3) unfolding approval_inv_def by blast
  moreover from this(3) have "vw_status a = StatusApproved" "rests_on (vd_decisions db) d"
    using assms(4) by (auto simp: agrees_def live_action_def)
  ultimately show ?thesis unfolding rests_on_def by blast
qed

text \<open>C16. An owner control on a task ends the actions of its runs for good: an action that was waiting or
  ready when the control was applied is blocked in every later state, its request is decided, and a
  request that was pending stays expired.\<close>

theorem withdrawn_action_never_proceeds:
  assumes "approval_init s" and "approval_step\<^sup>*\<^sup>* s db"
    and "approval_step\<^sup>*\<^sup>* (InvalidateApprovalsTx taskIDs controlID owner now db) db'"
    and d: "d \<in> set (vd_actions db)" "aw_state d = ''waiting'' \<or> aw_state d = ''ready''"
    and a: "a \<in> set (vd_approvals db)" "vw_approval_id a = aw_approval_id d" "run_of_tasks taskIDs (vw_run_id a) db"
  shows "(\<exists>d' \<in> set (vd_actions db'). aw_approval_id d' = aw_approval_id d \<and> aw_state d' = ''blocked'') \<and>
    (vw_status a = StatusPending \<longrightarrow>
       (\<exists>a' \<in> set (vd_approvals db'). vw_approval_id a' = vw_approval_id a \<and> vw_status a' = StatusExpired))"
proof -
  let ?db1 = "InvalidateApprovalsTx taskIDs controlID owner now db"
  have "approval_inv db" using assms(1,2) by (rule ap.inv_reach)
  then have inv: "approval_inv ?db1" by (rule ap.inv_step) (rule approval_step.control)
  note moves = approval_steps_moves [OF assms(3) inv]
  let ?d = "d\<lparr>aw_state := ''blocked'', aw_updated_at := now\<rparr>"
  have "?d \<in> set (vd_actions ?db1)" using d a by (force simp: InvalidateApprovalsTx_def Let_def set_tbl_update image_iff)
  from moves_keep_blocked [OF moves inv this]
  have "\<exists>d' \<in> set (vd_actions db'). aw_approval_id d' = aw_approval_id d \<and> aw_state d' = ''blocked''" by simp
  moreover have "\<exists>a' \<in> set (vd_approvals db'). vw_approval_id a' = vw_approval_id a \<and> vw_status a' = StatusExpired"
    if "vw_status a = StatusPending"
  proof -
    have "withdraw_approval now a \<in> set (vd_approvals ?db1)"
      using a that by (auto simp: InvalidateApprovalsTx_def Let_def set_tbl_update image_iff)
    from moves_keep_decision [OF moves inv this] show ?thesis by (auto simp: withdraw_approval_def same_decision_of_def)
  qed
  ultimately show ?thesis by blast
qed

end
