(* ===== verification/ApprovalLive.thy ===== *)
theory ApprovalLive
  imports ApprovalSteps
begin

text \<open>
  What a single decision needs and does: an approval needs the current action, a suspended action can be
  decided, and what the sweep passes over.
\<close>

section \<open>Verification\<close>

lemma verifyAction_Inr:
  assumes "verifyAction now i b db = Inr snap"
  obtains a d r s expires where "tbl_find vw_approval_id i (vd_approvals db) = Some a" and "tbl_find aw_approval_id i (vd_actions db) = Some d"
    and "tbl_find r_run_id (vw_run_id a) (runs (vd_kernel db)) = Some r"
    and "tbl_find s_session_key (vw_session_key a) (sessions (vd_kernel db)) = Some s"
    and "vw_expires_at a = Some expires" and "now < expires" and "aw_binding d = b" and "s_user_id s = ab_OwnerID b"
    and "coalesce (r_task_id r) = ab_TaskID b" and "revision_or_0 r = ab_TaskRevision b"
    and "task_current b (run_task r (vd_tasks db))" and "\<not> ended_run (r_current_state r)"
proof -
  obtain a d r s expires where rows: "tbl_find vw_approval_id i (vd_approvals db) = Some a" "tbl_find aw_approval_id i (vd_actions db) = Some d"
      "tbl_find r_run_id (vw_run_id a) (runs (vd_kernel db)) = Some r"
      "tbl_find s_session_key (vw_session_key a) (sessions (vd_kernel db)) = Some s" "vw_expires_at a = Some expires"
    and ok: "\<not> (aw_binding d \<noteq> b \<or> expires \<le> now \<or> s_user_id s \<noteq> ab_OwnerID (aw_binding d) \<or> coalesce (r_task_id r) \<noteq> ab_TaskID (aw_binding d) \<or>
        revision_or_0 r \<noteq> ab_TaskRevision (aw_binding d) \<or> \<not> task_current (aw_binding d) (run_task r (vd_tasks db)) \<or> ended_run (r_current_state r))"
    using assms unfolding verifyAction_def Let_def bindE_Inr_iff need_Inr_iff failif_Inr_iff by blast
  show ?thesis by (rule that [OF rows]) (use ok in auto)
qed

lemma task_current_row:
  assumes "task_current b (run_task r tasks)" and "coalesce (r_task_id r) = ab_TaskID b" and "ab_TaskID b \<noteq> []"
  shows "\<exists>t \<in> set tasks. k_task_id t = ab_TaskID b \<and> k_revision t = ab_TaskRevision b \<and>
    k_constraints_revision t = ab_ConstraintsRevision b \<and> k_status t \<in> {''active'', ''waiting_for_user''}"
proof -
  obtain i t where "r_task_id r = Some i" and t: "tbl_find k_task_id i tasks = Some t"
    and cur: "k_revision t = ab_TaskRevision b" "k_constraints_revision t = ab_ConstraintsRevision b"
      "k_status t = ''active'' \<or> k_status t = ''waiting_for_user''"
    using assms(1,3) unfolding task_current_def run_task_def by (auto split: option.split_asm)
  moreover have "i = ab_TaskID b" using assms(2) calculation(1) by (simp add: coalesce_def)
  ultimately show ?thesis using tbl_find_SomeD [OF t] by auto
qed

lemma decision_status_approved:
  assumes "(status, why) = decision_status approved verified run_state reason" and "status = StatusApproved"
  shows "approved \<and> verified \<and> run_state = ''awaiting_approval''"
  using assms by (auto simp: decision_status_def split: if_split_asm)

lemma ReadyApprovalTx_Inr:
  assumes "ReadyApprovalTx c runID i now q = Inr (u, q')"
  shows "\<exists>n \<in> set (qd_rows q'). ai_run_id n = Some runID \<and> ai_checkpoint n = ''approval_ready''"
proof -
  let ?p = "\<lambda>row. ai_run_id row = Some runID \<and> approval_of c row = Some i \<and> ai_status row \<in> {''running'', ''waiting_for_user'', ''blocked''}"
  have q': "q' = update_rows ?p (approval_ready_row now) q" and "tbl_count ?p (qd_rows q) \<noteq> 0"
    using assms unfolding ReadyApprovalTx_def update_one_def by auto
  then obtain n where "n \<in> set (qd_rows q)" "?p n" by (auto simp: tbl_count_0_iff)
  then have "approval_ready_row now n \<in> set (qd_rows q')" unfolding q' update_rows_def by (auto simp: set_tbl_update image_iff)
  then show ?thesis using \<open>?p n\<close> by (intro bexI [of _ "approval_ready_row now n"]) (simp_all add: approval_ready_row_def)
qed

text \<open>What a decision writes to the action and the queue.\<close>

lemma decision_writes:
  assumes "ResolveDurable C ctx rnd go now review rec approved actor reason db = (Inr (updated, True), db')"
  shows "(\<exists>d \<in> set (vd_actions db'). aw_approval_id d = vc_ApprovalID rec \<and>
      aw_state d = (if vc_Status updated = StatusApproved then ''ready'' else ''blocked'')) \<and>
    (\<exists>n \<in> set (qd_rows (vd_queue db')). ai_run_id n = Some (vc_RunID rec) \<and> ai_checkpoint n = ''approval_ready'')"
  using assms
proof (cases rule: ResolveDurable_cases)
  case unchanged
  then show ?thesis by blast
next
  case (decided d a r status why updated' db1)
  have acts1: "vd_actions db1 = vd_actions db" using decided(9) unfolding insert_decision_def by (auto split: if_split_asm)
  have up: "updated' = updated" using decided(11) by simp
  from decided(10) obtain n q where acts: "vd_actions db' = vd_actions (mark_action (vc_ApprovalID rec) status (newApprovalID rnd go) now db1)"
    and ready: "vd_queue db' = q" "ReadyApprovalTx (vk_queue C) (vc_RunID rec) (vc_ApprovalID rec) now (vd_queue db1) = Inr (n, q)"
    and st: "vc_Status updated' = status"
    by (rule settle_decision_Inr)
  let ?d = "d\<lparr>aw_state := (if status = StatusApproved then ''ready'' else ''blocked''),
      aw_decision_input_id := Some (newApprovalID rnd go), aw_updated_at := now\<rparr>"
  have d: "d \<in> set (vd_actions db)" "aw_approval_id d = vc_ApprovalID rec" using tbl_find_SomeD [OF decided(1)] by auto
  then have "?d \<in> set (vd_actions db')" unfolding acts mark_action_def acts1 by (auto simp: acts1 set_tbl_update image_iff)
  then have "\<exists>d' \<in> set (vd_actions db'). aw_approval_id d' = vc_ApprovalID rec \<and>
      aw_state d' = (if vc_Status updated = StatusApproved then ''ready'' else ''blocked'')"
    using d(2) st up by (intro bexI [of _ ?d]) simp_all
  then show ?thesis using ReadyApprovalTx_Inr [OF ready(2)] ready(1) by blast
qed

text \<open>C10. A durable request is approved only by its owner and only while the action is current: the actor owns
  the action and answers on its channel (in the same conversation for Telegram), the request was pending
  and has not expired, the run still awaits the approval and is pinned to the bound task revision, and
  the task is live at the bound revisions. The action is then ready and an input of the run is resumed.\<close>

theorem approval_needs_current_action:
  assumes "ResolveDurable C ctx rnd go now review rec approved actor reason db = (Inr (updated, True), db')"
    and "vc_Status updated = StatusApproved"
  shows "\<exists>d a r s expires.
    tbl_find aw_approval_id (vc_ApprovalID rec) (vd_actions db) = Some d \<and> tbl_find vw_approval_id (vc_ApprovalID rec) (vd_approvals db) = Some a \<and>
    tbl_find r_run_id (vw_run_id a) (runs (vd_kernel db)) = Some r \<and> tbl_find s_session_key (vw_session_key a) (sessions (vd_kernel db)) = Some s \<and>
    approved \<and> \<not> review \<and> ac_OwnerID actor = aw_owner_id d \<and> ac_Channel actor = aw_channel d \<and>
    (aw_channel d = ResolvedViaTelegram \<longrightarrow> ac_SessionKey actor = vw_session_key a) \<and> s_user_id s = ab_OwnerID (aw_binding d) \<and>
    vw_status a = StatusPending \<and> vw_expires_at a = Some expires \<and> now < expires \<and>
    r_current_state r = ''awaiting_approval'' \<and> coalesce (r_task_id r) = ab_TaskID (aw_binding d) \<and> revision_or_0 r = ab_TaskRevision (aw_binding d) \<and>
    (ab_TaskID (aw_binding d) \<noteq> [] \<longrightarrow>
      (\<exists>t \<in> set (vd_tasks db). k_task_id t = ab_TaskID (aw_binding d) \<and> k_revision t = ab_TaskRevision (aw_binding d) \<and>
        k_constraints_revision t = ab_ConstraintsRevision (aw_binding d) \<and> k_status t \<in> {''active'', ''waiting_for_user''})) \<and>
    (\<exists>d' \<in> set (vd_actions db'). aw_approval_id d' = vc_ApprovalID rec \<and> aw_state d' = ''ready'') \<and>
    (\<exists>n \<in> set (qd_rows (vd_queue db')). ai_run_id n = Some (vc_RunID rec) \<and> ai_checkpoint n = ''approval_ready'')"
  using assms(1)
proof (cases rule: ResolveDurable_cases)
  case unchanged
  then show ?thesis using assms(1) by blast
next
  case (decided d a r status why updated' db1)
  from decided(10) have "vc_Status updated' = status" by (rule settle_decision_Inr)
  then have status: "status = StatusApproved" using decided(11) assms(2) by simp
  have dec: "approved" "verified_by now rec d db" "r_current_state r = ''awaiting_approval''"
    using decision_status_approved [OF decided(7) status] by auto
  then obtain snap where "verifyAction now (vc_ApprovalID rec) (aw_binding d) db = Inr snap"
    by (cases "verifyAction now (vc_ApprovalID rec) (aw_binding d) db") (auto simp: verified_by_def)
  then obtain a2 d2 r2 s expires where v: "tbl_find vw_approval_id (vc_ApprovalID rec) (vd_approvals db) = Some a2"
      "tbl_find aw_approval_id (vc_ApprovalID rec) (vd_actions db) = Some d2"
      "tbl_find r_run_id (vw_run_id a2) (runs (vd_kernel db)) = Some r2"
      "tbl_find s_session_key (vw_session_key a2) (sessions (vd_kernel db)) = Some s"
      "vw_expires_at a2 = Some expires" "now < expires" "s_user_id s = ab_OwnerID (aw_binding d)"
      "coalesce (r_task_id r2) = ab_TaskID (aw_binding d)" "revision_or_0 r2 = ab_TaskRevision (aw_binding d)"
      "task_current (aw_binding d) (run_task r2 (vd_tasks db))"
    by (rule verifyAction_Inr)
  have same: "a2 = a" "r2 = r" using v(1,3) decided(2,3) by auto
  have "\<not> review" using decided(5) dec(1) by (simp add: may_decide_def)
  then have actor: "ac_OwnerID actor = aw_owner_id d" "ac_Channel actor = aw_channel d"
    "aw_channel d = ResolvedViaTelegram \<longrightarrow> ac_SessionKey actor = vw_session_key a"
    using decided(5) by (auto simp: may_decide_def)
  have writes: "\<exists>d' \<in> set (vd_actions db'). aw_approval_id d' = vc_ApprovalID rec \<and> aw_state d' = ''ready''"
    "\<exists>n \<in> set (qd_rows (vd_queue db')). ai_run_id n = Some (vc_RunID rec) \<and> ai_checkpoint n = ''approval_ready''"
    using decision_writes [OF assms(1)] assms(2) by auto
  show ?thesis
    using decided(1,2,3,6) v(4-9) [unfolded same] task_current_row [OF v(10) v(8), unfolded same] dec actor \<open>\<not> review\<close> writes
    by blast
qed

section \<open>The sweep\<close>

lemma review_of_verified:
  assumes "tbl_find aw_approval_id i (vd_actions db) = Some d" and "aw_owner_id d \<noteq> []"
    and "verifyAction now i (aw_binding d) db = Inr snap" and "GetApprovalByID (vk_json C) i db = Inr rec"
  shows "\<exists>u. ResolveDurable C ctx rnd go now True rec False (sweep_actor i (aw_owner_id d)) reason db = (Inr (u, False), db)"
proof -
  obtain a r where a: "tbl_find vw_approval_id i (vd_approvals db) = Some a" "tbl_find r_run_id (vw_run_id a) (runs (vd_kernel db)) = Some r"
    using assms(3) by (rule verifyAction_Inr) auto
  have "rec = scanRecord (vk_json C) a" using assms(4) a(1) by (simp add: GetApprovalByID_def)
  moreover have "vw_approval_id a = i" using tbl_find_SomeD [OF a(1)] by simp
  ultimately have i: "vc_ApprovalID rec = i" by (simp add: scanRecord_def)
  have "ResolveDurable C ctx rnd go now True rec False (sweep_actor i (aw_owner_id d)) reason db = (Inr (scanRecord (vk_json C) a, False), db)"
    unfolding ResolveDurable_def run_tx_Inr_iff using assms(1-3) a
    by (simp add: i sweep_actor_def may_decide_def ResolvedViaSystem_def decide_pending_def)
  then show ?thesis by blast
qed

lemma sweep_each_verified:
  assumes "\<And>i owner. (i, owner) \<in> set due \<Longrightarrow> \<exists>d snap. tbl_find aw_approval_id i (vd_actions db) = Some d \<and> owner = aw_owner_id d \<and>
    aw_owner_id d \<noteq> [] \<and> verifyAction (snd (snd (tick i))) i (aw_binding d) db = Inr snap"
  shows "sweep_each C ctx tick due db = (Inr (), db)"
  using assms
proof (induction due)
  case Nil
  then show ?case by simp
next
  case (Cons x due)
  obtain i owner where x: "x = (i, owner)" by (cases x)
  obtain rnd go now where tick: "tick i = (rnd, go, now)" by (cases "tick i")
  obtain d snap where d: "tbl_find aw_approval_id i (vd_actions db) = Some d" "owner = aw_owner_id d" "aw_owner_id d \<noteq> []"
    "verifyAction now i (aw_binding d) db = Inr snap"
    using Cons.prems [of i owner] x tick by auto
  obtain a where "tbl_find vw_approval_id i (vd_approvals db) = Some a" using d(4) by (rule verifyAction_Inr) auto
  then have rec: "GetApprovalByID (vk_json C) i db = Inr (scanRecord (vk_json C) a)" by (simp add: GetApprovalByID_def)
  obtain u where "ResolveDurable C ctx rnd go now True (scanRecord (vk_json C) a) False (sweep_actor i owner)
      ''approval expired or intended task changed'' db = (Inr (u, False), db)"
    using review_of_verified [OF d(1,3,4) rec] d(2) by blast
  then have "sweep_each C ctx tick (x # due) db = sweep_each C ctx tick due db" by (simp add: x rec tick)
  then show ?case using Cons by simp
qed

text \<open>When every request the sweep selects still verifies at its turn, the sweep changes nothing. It also selects requests whose run has left the
  state that awaits them; such a request stays pending although an owner's answer would expire it.\<close>

lemma sweep_passes_over_verified_requests:
  assumes "\<forall>(i, owner) \<in> set (due_actions now db). \<exists>d snap. tbl_find aw_approval_id i (vd_actions db) = Some d \<and>
    aw_owner_id d \<noteq> [] \<and> verifyAction (snd (snd (tick i))) i (aw_binding d) db = Inr snap"
  shows "ExpireInvalidPending C ctx tick now db = (Inr (), db)"
  unfolding ExpireInvalidPending_def
proof (rule sweep_each_verified)
  fix i owner
  assume due: "(i, owner) \<in> set (due_actions now db)"
  then obtain d snap where d: "tbl_find aw_approval_id i (vd_actions db) = Some d" "aw_owner_id d \<noteq> []"
    "verifyAction (snd (snd (tick i))) i (aw_binding d) db = Inr snap" using assms by blast
  moreover have "owner = aw_owner_id d" using due d(1) by (auto simp: due_actions_def)
  ultimately show "\<exists>d snap. tbl_find aw_approval_id i (vd_actions db) = Some d \<and> owner = aw_owner_id d \<and>
    aw_owner_id d \<noteq> [] \<and> verifyAction (snd (snd (tick i))) i (aw_binding d) db = Inr snap" by blast
qed

section \<open>A suspended action can be decided\<close>

text \<open>The rows of a fresh durable request.\<close>

record request_rows =
  rr_approval :: approval_row
  rr_action :: action_row
  rr_run :: run_row
  rr_session :: session_row

definition requested_rows :: "CreatePendingParams \<Rightarrow> string \<Rightarrow> approval_db \<Rightarrow> request_rows \<Rightarrow> bool" where
  "requested_rows p i db x \<longleftrightarrow>
     tbl_find vw_approval_id i (vd_approvals db) = Some (rr_approval x) \<and> tbl_find aw_approval_id i (vd_actions db) = Some (rr_action x) \<and>
     tbl_find r_run_id (pp_RunID p) (runs (vd_kernel db)) = Some (rr_run x) \<and>
     tbl_find s_session_key (pp_SessionKey p) (sessions (vd_kernel db)) = Some (rr_session x) \<and>
     vw_approval_id (rr_approval x) = i \<and> vw_status (rr_approval x) = StatusPending \<and>
     vw_run_id (rr_approval x) = pp_RunID p \<and> vw_session_key (rr_approval x) = pp_SessionKey p \<and>
     vw_expires_at (rr_approval x) = map_option micros (pp_ExpiresAt p) \<and>
     aw_owner_id (rr_action x) = ab_OwnerID (pp_ActionBinding p) \<and> aw_channel (rr_action x) = pp_RequestedVia p \<and>
     aw_binding (rr_action x) = pp_ActionBinding p \<and>
     r_current_state (rr_run x) = ''awaiting_approval'' \<and> coalesce (r_task_id (rr_run x)) = ab_TaskID (pp_ActionBinding p) \<and>
     revision_or_0 (rr_run x) = ab_TaskRevision (pp_ActionBinding p) \<and>
     task_current (pp_ActionBinding p) (run_task (rr_run x) (vd_tasks db)) \<and>
     s_user_id (rr_session x) = ab_OwnerID (pp_ActionBinding p)"

lemma check_task_await:
  assumes "check_task b tasks = Inr u" and "coalesce (r_task_id r) = ab_TaskID b"
  shows "task_current b (run_task r (await_task (ab_TaskID b) now tasks))"
proof (cases "ab_TaskID b = []")
  case True
  then show ?thesis by (simp add: task_current_def)
next
  case False
  then obtain t where t: "tbl_find k_task_id (ab_TaskID b) tasks = Some t" "k_revision t = ab_TaskRevision b"
    "k_constraints_revision t = ab_ConstraintsRevision b"
    using assms(1) unfolding check_task_def by auto
  have "r_task_id r = Some (ab_TaskID b)" using assms(2) False by (cases "r_task_id r") (auto simp: coalesce_def)
  moreover have "k_task_id t = ab_TaskID b" using tbl_find_SomeD [OF t(1)] by simp
  ultimately show ?thesis using False t
    by (simp add: task_current_def run_task_def await_task_def tbl_find_update)
qed

lemma CreateDurable_rows:
  assumes "CreateDurable C claim ctx rnd go now p db = (Inr rec, db')" and fresh: "tbl_find vw_approval_id (newApprovalID rnd go) (vd_approvals db) = None"
    and keys: "keyed r_run_id (runs (vd_kernel db))"
  obtains x n q where "requested_rows p (newApprovalID rnd go) db' x" and "rec = scanRecord (vk_json C) (rr_approval x)"
    and "vc_ApprovalID rec = newApprovalID rnd go" and "vc_RunID rec = pp_RunID p" and "vc_SessionKey rec = pp_SessionKey p"
    and "pp_RequestedVia p = ''web'' \<or> pp_RequestedVia p = ''telegram''" and "vd_decisions db' = vd_decisions db" and "vd_queue db' = q"
    and "SuspendApprovalTx (vk_queue C) claim (pp_RunID p) (newApprovalID rnd go) (pp_ContinuationJSON p) now (vd_queue db) = Inr (n, q)"
proof -
  let ?i = "newApprovalID rnd go" and ?b = "pp_ActionBinding p"
  from assms(1) fresh obtain a ctx' u where run: "check_run p db = Inr u"
    and a: "new_approval (vk_json C) (defaulted go (durable_params C ?i p)) = Inr a" and rec: "rec = scanRecord (vk_json C) a"
    and sus: "suspend_run C claim ctx' go now p ?i (db\<lparr>vd_approvals := vd_approvals db @ [a]\<rparr>) = Inr db'"
    by (rule CreateDurable_Inr)
  have row: "vw_approval_id a = ?i" "vw_status a = StatusPending" "vw_run_id a = pp_RunID p" "vw_session_key a = pp_SessionKey p"
    "vw_expires_at a = map_option micros (pp_ExpiresAt p)"
    using new_approval_row [OF a] by (simp_all add: defaulted_def durable_params_def)
  from sus obtain cont q n where via: "pp_RequestedVia p = ''web'' \<or> pp_RequestedVia p = ''telegram''"
    and q: "SuspendApprovalTx (vk_queue C) claim (pp_RunID p) ?i (pp_ContinuationJSON p) now (vd_queue (db\<lparr>vd_approvals := vd_approvals db @ [a]\<rparr>)) = Inr (n, q)"
    and tabs: "vd_approvals db' = vd_approvals (db\<lparr>vd_approvals := vd_approvals db @ [a]\<rparr>)"
      "vd_actions db' = vd_actions (db\<lparr>vd_approvals := vd_approvals db @ [a]\<rparr>) @ [new_action ?i cont now p]"
      "vd_decisions db' = vd_decisions (db\<lparr>vd_approvals := vd_approvals db @ [a]\<rparr>)" "vd_queue db' = q"
      "vd_tasks db' = await_task (ab_TaskID ?b) now (vd_tasks (db\<lparr>vd_approvals := vd_approvals db @ [a]\<rparr>))"
      "runs (vd_kernel db') = runs (await_run (pp_RunID p) now (vd_kernel (db\<lparr>vd_approvals := vd_approvals db @ [a]\<rparr>)))"
      "sessions (vd_kernel db') = sessions (vd_kernel (db\<lparr>vd_approvals := vd_approvals db @ [a]\<rparr>))"
    and free: "tbl_find aw_approval_id ?i (vd_actions (db\<lparr>vd_approvals := vd_approvals db @ [a]\<rparr>)) = None"
    by (rule suspend_run_Inr)
  obtain r s where r: "first_row (\<lambda>r. r_run_id r = pp_RunID p \<and> r_session_key r = pp_SessionKey p) (runs (vd_kernel db)) = Some r"
    and s: "tbl_find s_session_key (r_session_key r) (sessions (vd_kernel db)) = Some s" "s_user_id s = ab_OwnerID ?b"
    and bound: "coalesce (r_task_id r) = ab_TaskID ?b" "revision_or_0 r = ab_TaskRevision ?b"
    and task: "check_task ?b (vd_tasks db) = Inr u"
    using run unfolding check_run_def Let_def bindE_Inr_iff need_Inr_iff failif_Inr_iff by auto
  have rid: "r \<in> set (runs (vd_kernel db))" "r_run_id r = pp_RunID p" "r_session_key r = pp_SessionKey p" using first_row_SomeD [OF r] by auto
  then have found: "tbl_find r_run_id (pp_RunID p) (runs (vd_kernel db)) = Some r" using tbl_find_keyed [OF keys rid(1)] by simp
  let ?r = "r\<lparr>r_status := ''awaiting_approval'', r_current_state := ''awaiting_approval'', r_updated_at := now\<rparr>"
  have r': "tbl_find r_run_id (pp_RunID p) (runs (vd_kernel db')) = Some ?r"
    using found rid(2) tabs(6) by (simp add: await_run_def tbl_find_update)
  have "task_current ?b (run_task ?r (vd_tasks db'))"
    using check_task_await [OF task, of ?r now] bound(1) tabs(5) by simp
  then have rows: "requested_rows p ?i db' \<lparr>rr_approval = a, rr_action = new_action ?i cont now p, rr_run = ?r, rr_session = s\<rparr>"
    using row fresh free tabs r' s rid(3) bound
    by (simp add: requested_rows_def new_action_def Let_def tbl_find_snoc revision_or_0_def)
  show ?thesis by (rule that [OF rows]) (use rec row via tabs(3,4) q in \<open>simp_all add: scanRecord_def\<close>)
qed

lemma verify_requested:
  assumes "requested_rows p i db x" and "pp_ExpiresAt p = Some t" and "now < micros t"
  shows "\<exists>snap. verifyAction now i (pp_ActionBinding p) db = Inr snap"
  using assms by (auto simp: requested_rows_def verifyAction_def Let_def ended_run_def)

text \<open>The suspended input is the only one that names the request, so it is found again.\<close>

definition awaits_input :: "queue_codec \<Rightarrow> string \<Rightarrow> string \<Rightarrow> accepted_row \<Rightarrow> bool" where
  "awaits_input c runID i row \<longleftrightarrow>
     ai_run_id row = Some runID \<and> approval_of c row = Some i \<and> ai_status row \<in> {''running'', ''waiting_for_user'', ''blocked''}"

lemma ReadyApprovalTx_awaits:
  "ReadyApprovalTx c runID i now = update_one ErrInputNotFound (awaits_input c runID i) (approval_ready_row now)"
  unfolding ReadyApprovalTx_def awaits_input_def [abs_def] ..

lemma approval_of_suspended:
  assumes "ai_checkpoint_json row = JObj kv"
  shows "approval_of c (row\<lparr>ai_checkpoint := st, ai_checkpoint_json := jb_put (jb_put (ai_checkpoint_json row) ''approval_id'' (JStr i)) ''continuation'' v,
    ai_updated_at := now\<rparr>) = Some i"
proof -
  have "map_of (filter (\<lambda>x. fst x \<noteq> ''approval_id'' \<and> fst x \<noteq> ''continuation'') kv) ''approval_id'' = None"
    by (induction kv) auto
  then show ?thesis using assms by (simp add: approval_of_def jb_put_def obj_put_def map_add_def)
qed

lemma ready_after_suspend:
  assumes "SuspendApprovalTx c claim runID i payload now q = Inr (u, q1)"
    and "\<forall>n \<in> set (qd_rows q). (\<exists>kv. ai_checkpoint_json n = JObj kv) \<and> approval_of c n \<noteq> Some i"
  shows "tbl_count (awaits_input c runID i) (qd_rows q1) = 1 \<and>
    (\<forall>n \<in> set (qd_rows q1). awaits_input c runID i n \<longrightarrow> ai_checkpoint n = ''awaiting_approval'')"
proof -
  obtain w v where count: "tbl_count (\<lambda>row. holds_claim w now row \<and> ai_run_id row = Some runID) (qd_rows q) = 1"
    and q1: "q1 = update_rows (\<lambda>row. holds_claim w now row \<and> ai_run_id row = Some runID)
       (\<lambda>row. row\<lparr>ai_checkpoint := ''awaiting_approval'',
                 ai_checkpoint_json := jb_put (jb_put (ai_checkpoint_json row) ''approval_id'' (JStr i)) ''continuation'' v,
                 ai_updated_at := now\<rparr>) q"
    using assms(1) unfolding SuspendApprovalTx_def update_one_def by auto
  let ?p = "\<lambda>row. holds_claim w now row \<and> ai_run_id row = Some runID"
  let ?f = "\<lambda>row. row\<lparr>ai_checkpoint := ''awaiting_approval'',
      ai_checkpoint_json := jb_put (jb_put (ai_checkpoint_json row) ''approval_id'' (JStr i)) ''continuation'' v, ai_updated_at := now\<rparr>"
  let ?g = "\<lambda>row. ai_run_id row = Some runID \<and> approval_of c row = Some i \<and> ai_status row \<in> {''running'', ''waiting_for_user'', ''blocked''}"
  have g: "?g (if ?p n then ?f n else n) = ?p n" if "n \<in> set (qd_rows q)" for n
  proof (cases "?p n")
    case True
    obtain kv where "ai_checkpoint_json n = JObj kv" using assms(2) \<open>n \<in> set (qd_rows q)\<close> by blast
    then have "approval_of c (?f n) = Some i" by (rule approval_of_suspended)
    moreover have "ai_status n = ''running''" using True by (simp add: holds_claim_def)
    ultimately show ?thesis using True by simp
  next
    case False
    then show ?thesis using assms(2) that by auto
  qed
  then have "tbl_count ?g (tbl_update ?p ?f rows) = tbl_count ?p rows" if "set rows \<subseteq> set (qd_rows q)" for rows
    using that by (induction rows) auto
  then have "tbl_count ?g (qd_rows q1) = 1" using count unfolding q1 update_rows_def by simp
  moreover have "ai_checkpoint n' = ''awaiting_approval''" if row: "n' \<in> set (qd_rows q1)" and await: "?g n'" for n'
  proof -
    obtain n where n: "n \<in> set (qd_rows q)" "n' = (if ?p n then ?f n else n)"
      using row unfolding q1 update_rows_def by (auto simp: set_tbl_update)
    then have "?p n" using g [OF n(1)] await by simp
    then show ?thesis using n(2) by simp
  qed
  ultimately show ?thesis unfolding awaits_input_def by blast
qed

text \<open>The decision of a fresh request goes through.\<close>

lemma InsertEvent_ok:
  assumes "ctx_token ctx = None" and "jb_in J (ve_MetadataJSON e) = Some m" and "ve_MetadataJSON e \<noteq> []"
    and "ve_ActorType e = ''web'' \<or> ve_ActorType e = ''telegram''"
    and "tbl_find vw_approval_id (ve_ApprovalID e) (vd_approvals db) \<noteq> None" and "tbl_find r_run_id (ve_RunID e) (runs (vd_kernel db)) \<noteq> None"
    and "tbl_find s_session_key (ve_SessionKey e) (sessions (vd_kernel db)) \<noteq> None"
  shows "\<exists>db'. approval_InsertEvent J ctx go now e db = Inr db'"
proof -
  have "own_Begin ctx now (vd_kernel db) = Inr ctx" using assms(1) by (simp add: own_Begin_def)
  moreover have "ve_ActorType e \<in> {''system'', ''telegram'', ''web'', ''operator''}" using assms(4) by blast
  ultimately show ?thesis using assms(2,3,5-7)
    by (auto simp: approval_InsertEvent_def or_default_def insert_event_def)
qed

lemma settle_pending:
  assumes a: "tbl_find vw_approval_id i (vd_approvals db) = Some a" "vw_status a = StatusPending"
    and rec: "vc_ApprovalID rec = i" and found: "tbl_find r_run_id (vc_RunID rec) (runs (vd_kernel db)) \<noteq> None"
      "tbl_find s_session_key (vc_SessionKey rec) (sessions (vd_kernel db)) \<noteq> None"
    and via: "ac_Channel actor = ''web'' \<or> ac_Channel actor = ''telegram''"
    and status: "status = StatusApproved \<or> status = StatusRejected"
    and ready: "ReadyApprovalTx (vk_queue C) (vc_RunID rec) i now (vd_queue db) = Inr ((), q)"
    and ctx: "ctx_token ctx = None" and meta: "jb_in (vk_json C) ''{\"durable_decision\":true}'' = Some m"
  shows "\<exists>updated db'. settle_decision C ctx go now rec d actor status reason decision db = Inr (updated, db')"
proof -
  let ?p = "(decision_params go rec actor status reason)\<lparr>vr_ResolvedAt := (if go = 0 then go else go)\<rparr>"
  let ?db1 = "db\<lparr>vd_approvals := tbl_update (expected ?p) (decide ?p) (vd_approvals db)\<rparr>"
  have "a \<in> set (vd_approvals db)" "expected ?p a"
    using tbl_find_SomeD [OF a(1)] a(2) rec by (auto simp: expected_def decision_params_def or_default_def)
  then obtain r where first: "first_row (expected ?p) (vd_approvals db) = Some r"
    by (metis first_row_None_iff option.exhaust)
  have "vr_Status ?p \<in> {StatusPending, StatusApproved, StatusRejected, StatusExpired, StatusFailed}"
    using status by (auto simp: decision_params_def)
  moreover have "vr_ResolvedVia ?p \<in> {ResolvedViaTelegram, ResolvedViaWeb, ResolvedViaSystem}"
    using via by (auto simp: decision_params_def approval_names)
  moreover have p: "(decision_params go rec actor status reason)\<lparr>vr_ResolvedAt := (if vr_ResolvedAt (decision_params go rec actor status reason) = 0 then go
      else vr_ResolvedAt (decision_params go rec actor status reason))\<rparr> = ?p" by (simp add: decision_params_def)
  ultimately have "ResolveApproval (vk_json C) go (decision_params go rec actor status reason) db = Inr (scanRecord (vk_json C) (decide ?p r), ?db1)"
    unfolding ResolveApproval_def Let_def p using first by simp
  moreover define db2 where "db2 = settle_task (coalesce (aw_task_id d)) (ab_TaskRevision (aw_binding d)) status now (mark_action i status decision now ?db1)"
  moreover have same: "vd_queue db2 = vd_queue db" "vd_kernel db2 = vd_kernel db"
    "vd_approvals db2 = tbl_update (expected ?p) (decide ?p) (vd_approvals db)"
    by (simp_all add: db2_def settle_task_def mark_action_def)
  moreover have "\<exists>db'. approval_InsertEvent (vk_json C) ctx go now (resolved_event rec status actor reason) (db2\<lparr>vd_queue := q\<rparr>) = Inr db'"
  proof (rule InsertEvent_ok)
    show "ctx_token ctx = None" by (rule ctx)
    show "jb_in (vk_json C) (ve_MetadataJSON (resolved_event rec status actor reason)) = Some m" using meta by (simp add: resolved_event_def)
    show "tbl_find vw_approval_id (ve_ApprovalID (resolved_event rec status actor reason)) (vd_approvals (db2\<lparr>vd_queue := q\<rparr>)) \<noteq> None"
      using a(1) by (simp add: same resolved_event_def rec tbl_find_update decide_def)
  qed (use via found in \<open>auto simp: same resolved_event_def\<close>)
  ultimately show ?thesis using ready rec
    unfolding settle_decision_def Let_def decision_params_def [symmetric] by (auto simp: db2_def [symmetric])
qed

text \<open>
  A request can be answered: it is pending, its action verifies, its run awaits it, and one input of the run that is not
  queued or finished names it.
\<close>

definition answerable :: "approval_codec \<Rightarrow> string \<Rightarrow> instant \<Rightarrow> approval_db \<Rightarrow> bool" where
  "answerable C i now db =
     (case (tbl_find vw_approval_id i (vd_approvals db), tbl_find aw_approval_id i (vd_actions db)) of
        (Some a, Some d) \<Rightarrow>
          vw_status a = StatusPending \<and> aw_owner_id d \<noteq> [] \<and> (aw_channel d = ''web'' \<or> aw_channel d = ''telegram'') \<and>
          (case verifyAction now i (aw_binding d) db of Inl _ \<Rightarrow> False | Inr _ \<Rightarrow> True) \<and>
          (case tbl_find r_run_id (vw_run_id a) (runs (vd_kernel db)) of None \<Rightarrow> False | Some r \<Rightarrow> r_current_state r = ''awaiting_approval'') \<and>
          tbl_count (awaits_input (vk_queue C) (vw_run_id a) i) (qd_rows (vd_queue db)) = 1
      | _ \<Rightarrow> False)"

lemma decide_answerable:
  assumes ans: "answerable C i now db" and a: "tbl_find vw_approval_id i (vd_approvals db) = Some a"
    and d: "tbl_find aw_approval_id i (vd_actions db) = Some d"
    and actor: "ac_OwnerID actor = aw_owner_id d" "ac_Channel actor = aw_channel d" "ac_SessionKey actor = vw_session_key a" "ac_DeliveryID actor \<noteq> []"
    and delivery: "\<forall>w \<in> set (vd_decisions db). dw_decision_input_id w \<noteq> newApprovalID rnd go \<and>
      (dw_source w, dw_delivery_id w) \<noteq> (ac_Channel actor, ac_DeliveryID actor)"
    and ctx: "ctx_token ctx = None" and meta: "jb_in (vk_json C) ''{\"durable_decision\":true}'' = Some m"
  shows "\<exists>updated db2. ResolveDurable C ctx rnd go now False (scanRecord (vk_json C) a) approved actor reason db = (Inr (updated, True), db2) \<and>
    vc_Status updated = (if approved then StatusApproved else StatusRejected)"
proof -
  let ?rec = "scanRecord (vk_json C) a" and ?status = "if approved then StatusApproved else StatusRejected"
  let ?w = "decision_input rnd go ?rec approved actor" and ?db = "db\<lparr>vd_decisions := vd_decisions db @ [decision_input rnd go (scanRecord (vk_json C) a) approved actor]\<rparr>"
  have rec: "vc_ApprovalID ?rec = i" "vc_RunID ?rec = vw_run_id a" "vc_SessionKey ?rec = vw_session_key a"
    using tbl_find_SomeD [OF a] by (simp_all add: scanRecord_def)
  have x: "vw_status a = StatusPending" "aw_owner_id d \<noteq> []" "aw_channel d = ''web'' \<or> aw_channel d = ''telegram''"
    "tbl_count (awaits_input (vk_queue C) (vw_run_id a) i) (qd_rows (vd_queue db)) = 1"
    using ans by (simp_all add: answerable_def a d)
  obtain snap where snap: "verifyAction now i (aw_binding d) db = Inr snap"
    using ans by (cases "verifyAction now i (aw_binding d) db") (simp_all add: answerable_def a d)
  obtain r where r: "tbl_find r_run_id (vw_run_id a) (runs (vd_kernel db)) = Some r" "r_current_state r = ''awaiting_approval''"
    using ans by (cases "tbl_find r_run_id (vw_run_id a) (runs (vd_kernel db))") (simp_all add: answerable_def a d)
  obtain sess where s: "tbl_find s_session_key (vw_session_key a) (sessions (vd_kernel db)) = Some sess"
    using snap by (rule verifyAction_Inr) (use a in simp)
  have ins: "insert_decision ?w db = Inr (Some ?db)"
    using delivery by (auto simp: insert_decision_def decision_input_def tbl_find_None_iff)
  obtain q where ready: "ReadyApprovalTx (vk_queue C) (vc_RunID ?rec) i now (vd_queue ?db) = Inr ((), q)"
    using x(4) rec(2) by (simp add: ReadyApprovalTx_awaits update_one_def)
  have "\<exists>updated db2. settle_decision C ctx go now ?rec d actor ?status reason (newApprovalID rnd go) ?db = Inr (updated, db2)"
  proof (rule settle_pending [OF _ x(1) rec(1) _ _ _ _ ready ctx meta])
    show "tbl_find vw_approval_id i (vd_approvals ?db) = Some a" using a by simp
    show "tbl_find r_run_id (vc_RunID ?rec) (runs (vd_kernel ?db)) \<noteq> None" using r(1) rec(2) by simp
    show "tbl_find s_session_key (vc_SessionKey ?rec) (sessions (vd_kernel ?db)) \<noteq> None" using s rec(3) by simp
    show "ac_Channel actor = ''web'' \<or> ac_Channel actor = ''telegram''" using x(3) actor(2) by simp
  qed simp
  then obtain updated db2 where settled: "settle_decision C ctx go now ?rec d actor ?status reason (newApprovalID rnd go) ?db = Inr (updated, db2)"
    by blast
  have "verifyAction now (vc_ApprovalID ?rec) (aw_binding d) db = Inr snap" using snap rec(1) by simp
  then have "decide_pending C ctx rnd go now False ?rec approved actor reason d a (r_current_state r) db = Inr ((updated, True), db2)"
    using ins [unfolded decision_input_def] settled [unfolded decision_input_def] r(2)
    by (simp add: decide_pending_def decision_status_def Let_def)
  moreover have "may_decide False approved actor d a" using actor by (simp add: may_decide_def)
  moreover have "ac_OwnerID actor \<noteq> []" "ac_Channel actor \<noteq> []" using actor(1,2) x(2,3) by auto
  ultimately have res: "ResolveDurable C ctx rnd go now False ?rec approved actor reason db = (Inr (updated, True), db2)"
    unfolding ResolveDurable_def run_tx_Inr_iff using actor(4) x(1) a d r(1) by (simp add: rec(1))
  from settled have "vc_Status updated = ?status" by (rule settle_decision_Inr)
  then show ?thesis using res by blast
qed

text \<open>What a decision leaves in the queue: the suspended input is ready.\<close>

lemma decision_queue:
  assumes "ResolveDurable C ctx rnd go now review rec approved actor reason db = (Inr (updated, True), db')"
  shows "vd_queue db' = update_rows (awaits_input (vk_queue C) (vc_RunID rec) (vc_ApprovalID rec)) (approval_ready_row now) (vd_queue db)"
  using assms
proof (cases rule: ResolveDurable_cases)
  case unchanged
  then show ?thesis by blast
next
  case (decided d a r status why updated' db1)
  have "vd_queue db1 = vd_queue db" using decided(9) unfolding insert_decision_def by (auto split: if_split_asm)
  moreover from decided(10) obtain n q where "vd_queue db' = q" "ReadyApprovalTx (vk_queue C) (vc_RunID rec) (vc_ApprovalID rec) now (vd_queue db1) = Inr (n, q)"
    by (rule settle_decision_Inr)
  ultimately show ?thesis by (auto simp: ReadyApprovalTx_awaits update_one_def)
qed

lemma requested_answerable:
  assumes "requested_rows p i db x" and "pp_ExpiresAt p = Some t" and "now < micros t" and "ab_OwnerID (pp_ActionBinding p) \<noteq> []"
    and "pp_RequestedVia p = ''web'' \<or> pp_RequestedVia p = ''telegram''"
    and "tbl_count (awaits_input (vk_queue C) (pp_RunID p) i) (qd_rows (vd_queue db)) = 1"
  shows "answerable C i now db"
  using verify_requested [OF assms(1-3)] assms by (auto simp: requested_rows_def answerable_def)

text \<open>The settlement of a worker keeps the input in place.\<close>

lemma finish_awaits:
  assumes "input_Finish c w ''waiting_for_user'' [] msg delay u q = Inr (v, q')" and "tbl_count (awaits_input c' runID i) (qd_rows q) = 1"
    and "\<forall>n \<in> set (qd_rows q). awaits_input c' runID i n \<longrightarrow> ai_checkpoint n = ''awaiting_approval''"
  shows "tbl_count (awaits_input c' runID i) (qd_rows q') = 1"
proof -
  obtain nb where q': "q' = update_rows (holds_claim w u) (finish_row ''waiting_for_user'' [] msg nb u) q"
    using assms(1) by (auto simp: input_Finish_def update_one_def split: option.split_asm)
  have "awaits_input c' runID i (if holds_claim w u n then finish_row ''waiting_for_user'' [] msg nb u n else n) = awaits_input c' runID i n"
    if "n \<in> set (qd_rows q)" for n
    using assms(3) that
    by (auto simp: awaits_input_def finish_row_def finish_status_def approval_of_def holds_claim_def)
  then have "tbl_count (awaits_input c' runID i) (tbl_update (holds_claim w u) (finish_row ''waiting_for_user'' [] msg nb u) rows) =
      tbl_count (awaits_input c' runID i) rows" if "set rows \<subseteq> set (qd_rows q)" for rows
    using that by (induction rows) auto
  then show ?thesis using assms(2) by (simp add: q' update_rows_def)
qed

lemma decide_requested:
  assumes cre: "CreateDurable C claim ctx rnd go now p db = (Inr rec, db1)"
    and fresh: "tbl_find vw_approval_id (newApprovalID rnd go) (vd_approvals db) = None" and keys: "keyed r_run_id (runs (vd_kernel db))"
    and inputs: "\<forall>n \<in> set (qd_rows (vd_queue db)). (\<exists>kv. ai_checkpoint_json n = JObj kv) \<and> approval_of (vk_queue C) n \<noteq> Some (newApprovalID rnd go)"
    and expiry: "pp_ExpiresAt p = Some t" "now' < micros t"
  obtains a d where "tbl_find vw_approval_id (vc_ApprovalID rec) (vd_approvals db1) = Some a" and "rec = scanRecord (vk_json C) a"
    and "tbl_find aw_approval_id (vc_ApprovalID rec) (vd_actions db1) = Some d" and "answerable C (vc_ApprovalID rec) now' db1"
    and "\<forall>w msg delay u v q. input_Finish (vk_queue C) w ''waiting_for_user'' [] msg delay u (vd_queue db1) = Inr (v, q) \<longrightarrow>
      answerable C (vc_ApprovalID rec) now' (db1\<lparr>vd_queue := q\<rparr>)"
    and "aw_owner_id d = ab_OwnerID (pp_ActionBinding p)" and "aw_channel d = pp_RequestedVia p" and "vw_session_key a = pp_SessionKey p"
    and "vd_decisions db1 = vd_decisions db"
proof -
  let ?i = "newApprovalID rnd go"
  from cre fresh keys obtain x n q where rows: "requested_rows p ?i db1 x" and rec: "rec = scanRecord (vk_json C) (rr_approval x)" and i: "vc_ApprovalID rec = ?i"
    and via: "pp_RequestedVia p = ''web'' \<or> pp_RequestedVia p = ''telegram''" and decs: "vd_decisions db1 = vd_decisions db"
    and q: "vd_queue db1 = q" "SuspendApprovalTx (vk_queue C) claim (pp_RunID p) ?i (pp_ContinuationJSON p) now (vd_queue db) = Inr (n, q)"
    by (rule CreateDurable_rows)
  have owner: "ab_OwnerID (pp_ActionBinding p) \<noteq> []"
    using cre fresh by (rule CreateDurable_Inr) (use check_durable_Inr in blast)
  have waits: "tbl_count (awaits_input (vk_queue C) (pp_RunID p) ?i) (qd_rows (vd_queue db1)) = 1"
    "\<forall>n \<in> set (qd_rows (vd_queue db1)). awaits_input (vk_queue C) (pp_RunID p) ?i n \<longrightarrow> ai_checkpoint n = ''awaiting_approval''"
    using ready_after_suspend [OF q(2) inputs] unfolding q(1) by blast+
  have "answerable C ?i now' db1" by (rule requested_answerable [OF rows expiry owner via waits(1)])
  moreover have "answerable C ?i now' (db1\<lparr>vd_queue := q'\<rparr>)"
    if fin: "input_Finish (vk_queue C) w ''waiting_for_user'' [] msg delay u (vd_queue db1) = Inr (v, q')" for w msg delay u v q'
  proof (rule requested_answerable [OF _ expiry owner via])
    show "requested_rows p ?i (db1\<lparr>vd_queue := q'\<rparr>) x" using rows by (simp add: requested_rows_def)
    show "tbl_count (awaits_input (vk_queue C) (pp_RunID p) ?i) (qd_rows (vd_queue (db1\<lparr>vd_queue := q'\<rparr>))) = 1"
      using finish_awaits [OF fin waits] by simp
  qed
  ultimately show ?thesis using rows rec by (intro that [of "rr_approval x" "rr_action x"]) (auto simp: i decs requested_rows_def scanRecord_def)
qed

text \<open>The settlement of the worker that still runs the input after the decision.\<close>

lemma finish_resumes:
  assumes keys: "keyed ai_input_id (qd_rows q)" and n: "n \<in> set (qd_rows q)" "ai_checkpoint n = ''approval_ready''" "holds_claim w u n"
  shows "\<exists>q'. input_Finish c w ''waiting_for_user'' [] msg delay u q = Inr ((), q') \<and>
    (\<exists>n' \<in> set (qd_rows q'). ai_input_id n' = ai_input_id n \<and> ai_checkpoint n' = ''approval_ready'' \<and> ai_status n' = ''queued'')"
proof -
  have only: "m = n" if "m \<in> set (qd_rows q)" "holds_claim w u m" for m
    using keyed_eq [OF keys that(1) n(1)] that(2) n(3) by (simp add: holds_claim_def)
  have "tbl_count (holds_claim w u) (qd_rows q) \<le> 1"
    using tbl_count_keyed [OF keys, of "ir_InputID w"] unfolding holds_claim_def [abs_def] .
  moreover have "tbl_count (holds_claim w u) (qd_rows q) \<noteq> 0" using n by (auto simp: tbl_count_0_iff)
  ultimately have count: "tbl_count (holds_claim w u) (qd_rows q) = 1" by linarith
  obtain m where m: "first_row (holds_claim w u) (qd_rows q) = Some m"
    using n by (metis first_row_None_iff option.exhaust)
  then have first: "first_row (holds_claim w u) (qd_rows q) = Some n" using only first_row_SomeD [OF m] by simp
  let ?f = "finish_row ''waiting_for_user'' [] msg (u + millis delay) u"
  have "input_Finish c w ''waiting_for_user'' [] msg delay u q = Inr ((), update_rows (holds_claim w u) ?f q)"
    using count n(2) by (simp add: input_Finish_def first finish_not_before_def finish_status_def input_statuses_def update_one_def)
  moreover have "?f n \<in> set (qd_rows (update_rows (holds_claim w u) ?f q))"
    using n by (auto simp: update_rows_def set_tbl_update image_iff)
  moreover have "ai_input_id (?f n) = ai_input_id n \<and> ai_checkpoint (?f n) = ''approval_ready'' \<and> ai_status (?f n) = ''queued''"
    using n(2) by (simp add: finish_row_def finish_status_def)
  ultimately show ?thesis by blast
qed

text \<open>C19. A durable request can be answered from the moment it is made until it expires: the action verifies, the run awaits it, and
  exactly one input of the run names it, both in the state the request leaves and after the worker that held the input has
  settled it.\<close>

theorem durable_request_is_answerable:
  assumes "CreateDurable C claim ctx rnd go now p db = (Inr rec, db1)"
    and "tbl_find vw_approval_id (newApprovalID rnd go) (vd_approvals db) = None" and "keyed r_run_id (runs (vd_kernel db))"
    and "\<forall>n \<in> set (qd_rows (vd_queue db)). (\<exists>kv. ai_checkpoint_json n = JObj kv) \<and> approval_of (vk_queue C) n \<noteq> Some (newApprovalID rnd go)"
    and "pp_ExpiresAt p = Some t" and "now' < micros t"
  shows "answerable C (vc_ApprovalID rec) now' db1 \<and>
    (\<forall>w msg delay u v q. input_Finish (vk_queue C) w ''waiting_for_user'' [] msg delay u (vd_queue db1) = Inr (v, q) \<longrightarrow>
      answerable C (vc_ApprovalID rec) now' (db1\<lparr>vd_queue := q\<rparr>))"
  using assms by (rule decide_requested) blast

text \<open>C18. A suspended action is never stranded: in every state in which its request can be answered, an answer of the owner on the
  channel of the request that carries a new delivery decides it. The decision is the owner's, the action becomes ready or blocked
  accordingly, and the suspended input is the worker's again: an input that was settled is queued and due at once, and one whose
  worker still runs is queued when that worker settles it.\<close>

theorem suspended_action_resumes:
  assumes ans: "answerable C i now db" and rows: "tbl_find vw_approval_id i (vd_approvals db) = Some a" "tbl_find aw_approval_id i (vd_actions db) = Some d"
    and keys: "keyed ai_input_id (qd_rows (vd_queue db))"
    and actor: "ac_OwnerID actor = aw_owner_id d" "ac_Channel actor = aw_channel d" "ac_SessionKey actor = vw_session_key a" "ac_DeliveryID actor \<noteq> []"
    and delivery: "\<forall>w \<in> set (vd_decisions db). dw_decision_input_id w \<noteq> newApprovalID rnd go \<and>
      (dw_source w, dw_delivery_id w) \<noteq> (ac_Channel actor, ac_DeliveryID actor)"
    and ctx: "ctx_token ctx = None" and meta: "jb_in (vk_json C) ''{\"durable_decision\":true}'' = Some m"
  shows "\<exists>updated db2 n n'. ResolveDurable C ctx rnd go now False (scanRecord (vk_json C) a) approved actor reason db = (Inr (updated, True), db2) \<and>
    vc_Status updated = (if approved then StatusApproved else StatusRejected) \<and>
    (\<exists>d' \<in> set (vd_actions db2). aw_approval_id d' = i \<and> aw_state d' = (if approved then ''ready'' else ''blocked'')) \<and>
    n \<in> set (qd_rows (vd_queue db)) \<and> ai_run_id n = Some (vw_run_id a) \<and> approval_of (vk_queue C) n = Some i \<and>
    n' \<in> set (qd_rows (vd_queue db2)) \<and> ai_input_id n' = ai_input_id n \<and> ai_checkpoint n' = ''approval_ready'' \<and> ai_not_before n' = now \<and>
    (ai_status n \<noteq> ''running'' \<longrightarrow> ai_status n' = ''queued'') \<and>
    (\<forall>w msg delay u. holds_claim w u n' \<longrightarrow>
      (\<exists>q. input_Finish (vk_queue C) w ''waiting_for_user'' [] msg delay u (vd_queue db2) = Inr ((), q) \<and>
        (\<exists>k \<in> set (qd_rows q). ai_input_id k = ai_input_id n \<and> ai_checkpoint k = ''approval_ready'' \<and> ai_status k = ''queued'')))"
proof -
  obtain updated db2 where res: "ResolveDurable C ctx rnd go now False (scanRecord (vk_json C) a) approved actor reason db = (Inr (updated, True), db2)"
    and st: "vc_Status updated = (if approved then StatusApproved else StatusRejected)"
    using decide_answerable [OF ans rows actor delivery ctx meta] by blast
  have rec: "vc_ApprovalID (scanRecord (vk_json C) a) = i" "vc_RunID (scanRecord (vk_json C) a) = vw_run_id a"
    using tbl_find_SomeD [OF rows(1)] by (simp_all add: scanRecord_def)
  have act: "\<exists>d' \<in> set (vd_actions db2). aw_approval_id d' = i \<and> aw_state d' = (if approved then ''ready'' else ''blocked'')"
    using decision_writes [OF res] st by (cases approved) (auto simp: rec)
  have q: "vd_queue db2 = update_rows (awaits_input (vk_queue C) (vw_run_id a) i) (approval_ready_row now) (vd_queue db)"
    using decision_queue [OF res] by (simp add: rec)
  have "tbl_count (awaits_input (vk_queue C) (vw_run_id a) i) (qd_rows (vd_queue db)) \<noteq> 0" using ans by (simp add: answerable_def rows)
  then obtain n where n: "n \<in> set (qd_rows (vd_queue db))" "awaits_input (vk_queue C) (vw_run_id a) i n" by (auto simp: tbl_count_0_iff)
  let ?n = "approval_ready_row now n"
  have n': "?n \<in> set (qd_rows (vd_queue db2))" using n by (auto simp: q update_rows_def set_tbl_update image_iff)
  have row: "ai_input_id ?n = ai_input_id n" "ai_checkpoint ?n = ''approval_ready''" "ai_not_before ?n = now"
    "ai_status n \<noteq> ''running'' \<longrightarrow> ai_status ?n = ''queued''"
    by (simp_all add: approval_ready_row_def)
  have "keyed ai_input_id (qd_rows (vd_queue db2))"
    using keys by (simp add: q update_rows_def keyed_tbl_update approval_ready_row_def)
  then have fin: "\<exists>q. input_Finish (vk_queue C) w ''waiting_for_user'' [] msg delay u (vd_queue db2) = Inr ((), q) \<and>
      (\<exists>k \<in> set (qd_rows q). ai_input_id k = ai_input_id n \<and> ai_checkpoint k = ''approval_ready'' \<and> ai_status k = ''queued'')"
    if "holds_claim w u ?n" for w u msg delay
    using finish_resumes [OF _ n' row(2) that] row(1) by simp
  show ?thesis
    by (intro exI [of _ updated] exI [of _ db2] exI [of _ n] exI [of _ ?n] conjI allI impI res st act n(1) n' row(1-3) row(4) [rule_format] fin)
      (use n(2) in \<open>simp_all add: awaits_input_def\<close>)
qed

end
