(* ===== verification/ApprovalExamples.thy ===== *)
theory ApprovalExamples
  imports ApprovalLive EffectExamples InputExamples
begin

text \<open>
  A durable approval, evaluated in the logic: the run of a task proposes a read, is suspended, and its
  owner approves it from the web, or the sweep looks at it after the run has moved on.
\<close>

section \<open>The state\<close>

definition epoch0 :: instant where "epoch0 = 62135596800000000000"

definition ap_codec :: approval_codec where
  "ap_codec = \<lparr>vk_queue = plain_codec, vk_decode = (\<lambda>_. Some (JObj [(''version'', JNum 1)])), vk_args_hash = (\<lambda>_. Some ''h''),
     vk_binding = (\<lambda>_. JObj [])\<rparr>"

definition ap_run :: run_row where
  "ap_run = demo_run\<lparr>r_status := ''tool_pending'', r_current_state := ''tool_pending''\<rparr>"

definition ap_kernel :: kernel_db where
  "ap_kernel = \<lparr>sessions = [chat\<lparr>s_session_key := ''s'', s_user_id := ''u''\<rparr>], ownership = [], runs = [ap_run], transitions = [],
     inputs = [], stopped = []\<rparr>"

definition ap_input :: accepted_row where
  "ap_input = hello_row\<lparr>ai_run_id := Some ''r1'', ai_status := ''running'', ai_claim_id := ''claim-a'',
     ai_claim_expires_at := Some (epoch0 + 9000)\<rparr>"

definition ap_db0 :: approval_db where
  "ap_db0 = \<lparr>vd_kernel = ap_kernel, vd_tasks = [the_task], vd_queue = queue0\<lparr>qd_rows := [ap_input]\<rparr>, vd_approvals = [],
     vd_actions = [], vd_decisions = [], vd_candidates = [], vd_events = []\<rparr>"

definition ap_request :: CreatePendingParams where
  "ap_request = \<lparr>pp_ActionBinding = act ''a'', pp_ContinuationJSON = ''{}'', pp_RunID = ''r1'', pp_SessionKey = ''s'', pp_ToolCallID = ''a'',
     pp_ApprovalType = [], pp_RequestedVia = ''web'', pp_ToolName = ''web.fetch'', pp_ArgsJSON = ''{}'', pp_PayloadJSON = [],
     pp_RiskLevel = [], pp_Summary = [], pp_DetailsJSON = [], pp_TabCandidates = [], pp_RequestedAt = 0,
     pp_ExpiresAt = Some (epoch0 + 5000)\<rparr>"

definition ap_ctx :: exec_ctx where
  "ap_ctx = \<lparr>ctx_token = None, ctx_guarded = False, ctx_max_conns = 2\<rparr>"

definition ap_owner :: Actor where
  "ap_owner = \<lparr>ac_OwnerID = ''u'', ac_Channel = ''web'', ac_SessionKey = ''s'', ac_DeliveryID = ''d1''\<rparr>"

definition ap_id :: string where "ap_id = newApprovalID (Some ''x'') (epoch0 + 7)"

lemma ids: "newApprovalID (Some ''x'') (epoch0 + 7) = ''approval-7-x''" "newApprovalID (Some ''y'') (epoch0 + 8) = ''approval-8-y''"
  by code_simp+

lemmas ap_defs = ap_codec_def ap_run_def ap_kernel_def ap_input_def ap_db0_def ap_request_def ap_ctx_def ap_owner_def
  demo_run_def chat_def the_task_def plain_codec_def text_codec_def vk_json_def epoch0_def act_def hello_row_def new_row_def hello_def queue0_def

definition ap_create :: "(go_err, ApprovalRecord, approval_db) outcome" where
  "ap_create = CreateDurable ap_codec (Some (scan_input ap_input)) ap_ctx (Some ''x'') (epoch0 + 7) (epoch0 + 8) ap_request ap_db0"

lemma ap_checks: "check_durable ap_codec (epoch0 + 7) ap_request = Inr ()" "check_run ap_request ap_db0 = Inr ()"
  by (simp_all add: check_durable_def check_run_def check_task_def continuation_version_def ascii_lower_def int64_defs revision_or_0_def
      coalesce_def ap_defs)

lemma ap_created: "\<exists>rec db1. ap_create = (Inr rec, db1)"
  unfolding ap_create_def CreateDurable_def
  by (simp add: run_tx_def ap_checks ids)
    (simp add: own_Begin_def CreateApproval_def new_approval_def defaulted_def durable_params_def insert_approval_def or_default_def
      suspend_run_def insert_action_def new_action_def SuspendApprovalTx_def update_one_def holds_claim_def scan_input_def scanRecord_def
      approval_InsertEvent_def insert_event_def requested_event_def log_await_def await_run_def await_task_def update_rows_def
      approval_statuses approval_names Let_def ap_defs)

section \<open>The history\<close>

definition ap_answer :: "ApprovalRecord \<Rightarrow> approval_db \<Rightarrow> (go_err, ApprovalRecord \<times> bool, approval_db) outcome" where
  "ap_answer rec db1 = ResolveDurable ap_codec ap_ctx (Some ''y'') (epoch0 + 8) (epoch0 + 9) False rec True ap_owner ''yes'' db1"

lemma ap_fresh: "tbl_find vw_approval_id (newApprovalID (Some ''x'') (epoch0 + 7)) (vd_approvals ap_db0) = None"
  "keyed r_run_id (runs (vd_kernel ap_db0))"
  by (simp_all add: ap_db0_def ap_kernel_def)

lemma ap_inputs: "\<forall>n \<in> set (qd_rows (vd_queue ap_db0)). (\<exists>kv. ai_checkpoint_json n = JObj kv) \<and>
    approval_of (vk_queue ap_codec) n \<noteq> Some (newApprovalID (Some ''x'') (epoch0 + 7))"
  by (simp add: approval_of_def ap_defs)

lemma ap_actor: "ac_OwnerID ap_owner = ab_OwnerID (pp_ActionBinding ap_request)" "ac_Channel ap_owner = pp_RequestedVia ap_request"
  "ac_SessionKey ap_owner = pp_SessionKey ap_request" "ac_DeliveryID ap_owner \<noteq> []" "FromContext (Some ap_owner) = Some ap_owner"
  by (simp_all add: ap_owner_def ap_request_def FromContext_def)

lemma ap_delivery: "\<forall>w \<in> set (vd_decisions ap_db0). dw_decision_input_id w \<noteq> newApprovalID (Some ''y'') (epoch0 + 8) \<and>
    (dw_source w, dw_delivery_id w) \<noteq> (ac_Channel ap_owner, ac_DeliveryID ap_owner)"
  by (simp add: ap_db0_def)

lemma ap_expiry: "pp_ExpiresAt ap_request = Some (epoch0 + 5000)" "epoch0 + 9 < micros (epoch0 + 5000)"
  by (simp_all add: ap_request_def micros_def epoch0_def)

lemma ap_context: "ctx_token ap_ctx = None"
  "jb_in (vk_json ap_codec) ''{\"durable_decision\":true}'' = Some (JStr ''{\"durable_decision\":true}'')"
  by (simp_all add: ap_ctx_def ap_codec_def plain_codec_def text_codec_def vk_json_def)

lemmas ap_hyps = ap_fresh ap_inputs ap_expiry

lemma ap_decides:
  assumes cre: "ap_create = (Inr rec, db1)"
  shows "\<exists>updated db2. ap_answer rec db1 = (Inr (updated, True), db2) \<and> vc_Status updated = StatusApproved"
proof -
  from cre [unfolded ap_create_def] ap_hyps obtain a d where rows: "tbl_find vw_approval_id (vc_ApprovalID rec) (vd_approvals db1) = Some a"
      "rec = scanRecord (vk_json ap_codec) a" "tbl_find aw_approval_id (vc_ApprovalID rec) (vd_actions db1) = Some d"
    and ans: "answerable ap_codec (vc_ApprovalID rec) (epoch0 + 9) db1"
    and act: "aw_owner_id d = ab_OwnerID (pp_ActionBinding ap_request)" "aw_channel d = pp_RequestedVia ap_request"
      "vw_session_key a = pp_SessionKey ap_request" and decs: "vd_decisions db1 = vd_decisions ap_db0"
    by (rule decide_requested)
  show ?thesis
    using decide_answerable [OF ans rows(1,3) ap_actor(1-3) [folded act] ap_actor(4) ap_delivery [folded decs] ap_context, of True "''yes''"]
    unfolding ap_answer_def rows(2) [symmetric] if_True .
qed

lemma ap_history:
  obtains rec db1 updated db2 where "ap_create = (Inr rec, db1)" and "ap_answer rec db1 = (Inr (updated, True), db2)"
    and "vc_Status updated = StatusApproved" and "approval_step\<^sup>*\<^sup>* ap_db0 db1" and "approval_step\<^sup>*\<^sup>* ap_db0 db2"
    and "vc_ApprovalID rec = ''approval-7-x''"
proof -
  obtain rec db1 where cre: "ap_create = (Inr rec, db1)" using ap_created by blast
  note cre' = cre [unfolded ap_create_def]
  obtain updated db2 where ans: "ap_answer rec db1 = (Inr (updated, True), db2)" and st: "vc_Status updated = StatusApproved"
    using ap_decides [OF cre] by blast
  have "CreatePendingApproval ap_codec (Some (scan_input ap_input)) ap_ctx (Some ''x'') (epoch0 + 7) (epoch0 + 8) ap_request ap_db0 = (Inr rec, db1)"
    using cre' by (simp add: CreatePendingApproval_def ap_request_def)
  then have 1: "approval_step ap_db0 db1" using ap_fresh(1) by (rule approval_step.request)
  from cre' ap_fresh obtain x where x: "requested_rows ap_request (newApprovalID (Some ''x'') (epoch0 + 7)) db1 x"
    and i: "vc_ApprovalID rec = newApprovalID (Some ''x'') (epoch0 + 7)"
    by (rule CreateDurable_rows)
  have "resolveRecord ap_codec ap_ctx (Some ap_owner) (Some ''y'') (epoch0 + 8) (epoch0 + 9) rec True [] [] ''yes'' 0 [] []
      \<lparr>sv_db = db1, sv_gate = None\<rparr> = (Inr (updated, True), \<lparr>sv_db = db2, sv_gate = None\<rparr>)"
    using ans x i by (simp add: resolveRecord_def ap_answer_def HasDurableAction_def requested_rows_def ap_actor(5))
  then have 2: "approval_step db1 db2" using approval_step.decision by fastforce
  have "approval_step\<^sup>*\<^sup>* ap_db0 db1" "approval_step\<^sup>*\<^sup>* ap_db0 db2" using 1 2 by (auto intro: rtranclp_trans)
  then show ?thesis using that [OF cre ans st] i by (simp add: ids)
qed

lemma ap_start: "approval_init ap_db0"
  by (simp add: approval_init_def ap_db0_def)

section \<open>Witnesses\<close>

text \<open>The request is made, the worker settles its input, and the owner's approval queues it again.\<close>

definition ap_settle :: "approval_db \<Rightarrow> go_err + unit \<times> queue_db" where
  "ap_settle db = input_Finish (vk_queue ap_codec) (scan_input ap_input) ''waiting_for_user'' [] [] 0 (epoch0 + 8) (vd_queue db)"

lemma ap_settled:
  assumes "ap_create = (Inr rec, db1)"
  obtains q where "ap_settle db1 = Inr ((), q)" and "keyed ai_input_id (qd_rows q)" and "\<forall>n \<in> set (qd_rows q). ai_status n = ''waiting_for_user''"
proof -
  from assms [unfolded ap_create_def] ap_fresh obtain x n q where q: "vd_queue db1 = q"
    "SuspendApprovalTx (vk_queue ap_codec) (Some (scan_input ap_input)) (pp_RunID ap_request) (newApprovalID (Some ''x'') (epoch0 + 7))
      (pp_ContinuationJSON ap_request) (epoch0 + 8) (vd_queue ap_db0) = Inr (n, q)"
    by (rule CreateDurable_rows)
  obtain r where r: "qd_rows q = [r]" "ai_input_id r = ai_input_id ap_input" "ai_claim_id r = ''claim-a''" "ai_status r = ''running''"
      "ai_claim_expires_at r = Some (epoch0 + 9000)" "ai_checkpoint r = ''awaiting_approval''"
    using q(2) by (auto simp: SuspendApprovalTx_def update_one_def update_rows_def holds_claim_def scan_input_def ap_defs)
  have "holds_claim (scan_input ap_input) (epoch0 + 8) r" using r by (simp add: holds_claim_def scan_input_def ap_input_def)
  then have "ap_settle db1 = Inr ((), q\<lparr>qd_rows := [finish_row ''waiting_for_user'' [] [] (epoch0 + 8) (epoch0 + 8) r]\<rparr>)"
    using r(1,6) by (simp add: ap_settle_def q(1) input_Finish_def finish_not_before_def finish_status_def input_statuses_def update_one_def
        update_rows_def millis_def go_div_def)
  then show ?thesis by (rule that) (simp_all add: finish_row_def finish_status_def r(6))
qed

theorem durable_request_is_answerable_witness:
  "\<exists>rec db1. ap_create = (Inr rec, db1) \<and> answerable ap_codec (vc_ApprovalID rec) (epoch0 + 9) db1"
proof -
  obtain rec db1 where cre: "ap_create = (Inr rec, db1)" using ap_created by blast
  show ?thesis using durable_request_is_answerable [OF cre [unfolded ap_create_def] ap_hyps] cre by blast
qed

theorem suspended_action_resumes_witness:
  "\<exists>rec db1 q updated db2. ap_create = (Inr rec, db1) \<and> ap_settle db1 = Inr ((), q) \<and>
    ap_answer rec (db1\<lparr>vd_queue := q\<rparr>) = (Inr (updated, True), db2) \<and> vc_Status updated = StatusApproved \<and>
    (\<exists>d \<in> set (vd_actions db2). aw_approval_id d = vc_ApprovalID rec \<and> aw_state d = ''ready'') \<and>
    (\<exists>n \<in> set (qd_rows (vd_queue db2)). ai_checkpoint n = ''approval_ready'' \<and> ai_status n = ''queued'')"
proof -
  obtain rec db1 where cre: "ap_create = (Inr rec, db1)" using ap_created by blast
  obtain q where q: "ap_settle db1 = Inr ((), q)" "keyed ai_input_id (qd_rows q)" "\<forall>n \<in> set (qd_rows q). ai_status n = ''waiting_for_user''"
    using cre by (rule ap_settled)
  from cre [unfolded ap_create_def] ap_hyps obtain a d where rows: "tbl_find vw_approval_id (vc_ApprovalID rec) (vd_approvals db1) = Some a"
      "rec = scanRecord (vk_json ap_codec) a" "tbl_find aw_approval_id (vc_ApprovalID rec) (vd_actions db1) = Some d"
    and ans: "\<forall>w msg delay u v q. input_Finish (vk_queue ap_codec) w ''waiting_for_user'' [] msg delay u (vd_queue db1) = Inr (v, q) \<longrightarrow>
      answerable ap_codec (vc_ApprovalID rec) (epoch0 + 9) (db1\<lparr>vd_queue := q\<rparr>)"
    and act: "aw_owner_id d = ab_OwnerID (pp_ActionBinding ap_request)" "aw_channel d = pp_RequestedVia ap_request"
      "vw_session_key a = pp_SessionKey ap_request" and decs: "vd_decisions db1 = vd_decisions ap_db0"
    by (rule decide_requested)
  let ?db = "db1\<lparr>vd_queue := q\<rparr>"
  have rows': "tbl_find vw_approval_id (vc_ApprovalID rec) (vd_approvals ?db) = Some a"
    "tbl_find aw_approval_id (vc_ApprovalID rec) (vd_actions ?db) = Some d" "keyed ai_input_id (qd_rows (vd_queue ?db))"
    "vd_decisions ?db = vd_decisions ap_db0"
    using rows q(2) decs by simp_all
  obtain updated db2 n n' where "ap_answer rec ?db = (Inr (updated, True), db2)" "vc_Status updated = StatusApproved"
      "\<exists>d \<in> set (vd_actions db2). aw_approval_id d = vc_ApprovalID rec \<and> aw_state d = ''ready''"
    and n: "n \<in> set (qd_rows (vd_queue ?db))" "n' \<in> set (qd_rows (vd_queue db2))" "ai_checkpoint n' = ''approval_ready''"
      "ai_status n \<noteq> ''running'' \<longrightarrow> ai_status n' = ''queued''"
    using suspended_action_resumes [OF ans [rule_format, OF q(1) [unfolded ap_settle_def]] rows'(1-3) ap_actor(1-3) [folded act] ap_actor(4)
        ap_delivery [folded rows'(4)] ap_context, of True "''yes''"]
    unfolding ap_answer_def rows(2) [symmetric] if_True by blast
  moreover have "ai_status n' = ''queued''" using n(1,4) q(3) by simp
  ultimately show ?thesis using cre q(1) by blast
qed

text \<open>What the owner's approval shows about the state it was given in.\<close>

theorem approval_needs_current_action_witness:
  "\<exists>rec db1 updated db2 a r expires. ap_create = (Inr rec, db1) \<and> ap_answer rec db1 = (Inr (updated, True), db2) \<and>
    tbl_find vw_approval_id (vc_ApprovalID rec) (vd_approvals db1) = Some a \<and> tbl_find r_run_id (vw_run_id a) (runs (vd_kernel db1)) = Some r \<and>
    vw_status a = StatusPending \<and> vw_expires_at a = Some expires \<and> epoch0 + 9 < expires \<and> r_current_state r = ''awaiting_approval''"
proof -
  obtain rec db1 updated db2 where cre: "ap_create = (Inr rec, db1)" and ans: "ap_answer rec db1 = (Inr (updated, True), db2)"
    and st: "vc_Status updated = StatusApproved"
    by (rule ap_history)
  show ?thesis using approval_needs_current_action [OF ans [unfolded ap_answer_def] st] cre ans by blast
qed

text \<open>The action of the approved request rests on the delivery of its owner.\<close>

theorem proceeding_action_was_approved_witness:
  "\<exists>db2. approval_step\<^sup>*\<^sup>* ap_db0 db2 \<and> (\<exists>d \<in> set (vd_actions db2). aw_state d = ''ready'' \<and>
    (\<exists>w \<in> set (vd_decisions db2). aw_decision_input_id d = Some (dw_decision_input_id w) \<and> dw_approved w \<and> dw_owner_id w = aw_owner_id d))"
proof -
  obtain rec db1 updated db2 where ans: "ap_answer rec db1 = (Inr (updated, True), db2)" and st: "vc_Status updated = StatusApproved"
    and reach: "approval_step\<^sup>*\<^sup>* ap_db0 db2"
    by (rule ap_history)
  obtain d where d: "d \<in> set (vd_actions db2)" "aw_state d = ''ready''" using decision_writes [OF ans [unfolded ap_answer_def]] st by auto
  show ?thesis using proceeding_action_was_approved [OF ap_start reach d(1)] d reach by blast
qed

text \<open>The approved request outlives a later control on its task.\<close>

theorem decided_approval_is_final_witness:
  "\<exists>db2 a. approval_step\<^sup>*\<^sup>* ap_db0 db2 \<and> a \<in> set (vd_approvals db2) \<and> vw_status a = StatusApproved \<and>
    (\<exists>a' \<in> set (vd_approvals (InvalidateApprovalsTx [''t''] ''c'' ''u'' (epoch0 + 10) db2)).
       vw_approval_id a' = vw_approval_id a \<and> vw_status a' = StatusApproved)"
proof -
  obtain rec db1 updated db2 where ans: "ap_answer rec db1 = (Inr (updated, True), db2)" and st: "vc_Status updated = StatusApproved"
    and reach: "approval_step\<^sup>*\<^sup>* ap_db0 db2"
    by (rule ap_history)
  obtain d where d: "d \<in> set (vd_actions db2)" "aw_state d = ''ready''" using decision_writes [OF ans [unfolded ap_answer_def]] st by auto
  have "approval_inv db2" using ap_start reach by (rule ap.inv_reach)
  then obtain a where a: "a \<in> set (vd_approvals db2)" "agrees (vd_decisions db2) a d" using d(1) unfolding approval_inv_def by blast
  then have approved: "vw_status a = StatusApproved" using d(2) by (simp add: agrees_def live_action_def)
  have "approval_step\<^sup>*\<^sup>* db2 (InvalidateApprovalsTx [''t''] ''c'' ''u'' (epoch0 + 10) db2)" using approval_step.control by blast
  from decided_approval_is_final [OF ap_start reach this a(1)] show ?thesis using approved reach a(1) by auto
qed

text \<open>A control on the task of the suspended read withdraws its request.\<close>

theorem withdrawn_action_never_proceeds_witness:
  "\<exists>db1. approval_step\<^sup>*\<^sup>* ap_db0 db1 \<and>
    (\<exists>d \<in> set (vd_actions (InvalidateApprovalsTx [''t''] ''c'' ''u'' (epoch0 + 10) db1)). aw_approval_id d = ''approval-7-x'' \<and> aw_state d = ''blocked'') \<and>
    (\<exists>a \<in> set (vd_approvals (InvalidateApprovalsTx [''t''] ''c'' ''u'' (epoch0 + 10) db1)). vw_approval_id a = ''approval-7-x'' \<and> vw_status a = StatusExpired)"
proof -
  obtain rec db1 where cre: "ap_create = (Inr rec, db1)" and reach: "approval_step\<^sup>*\<^sup>* ap_db0 db1" by (rule ap_history)
  from cre [unfolded ap_create_def] ap_fresh obtain x where x: "requested_rows ap_request (newApprovalID (Some ''x'') (epoch0 + 7)) db1 x"
    by (rule CreateDurable_rows)
  have a: "rr_approval x \<in> set (vd_approvals db1)" "vw_approval_id (rr_approval x) = ''approval-7-x''" "vw_status (rr_approval x) = StatusPending"
    and d: "rr_action x \<in> set (vd_actions db1)" "aw_approval_id (rr_action x) = ''approval-7-x''"
    and r: "rr_run x \<in> set (runs (vd_kernel db1))" "r_run_id (rr_run x) = vw_run_id (rr_approval x)"
    using x by (auto simp: requested_rows_def ids dest: tbl_find_SomeD)
  have "coalesce (r_task_id (rr_run x)) = ''t''" using x by (simp add: requested_rows_def ap_request_def)
  then have run: "run_of_tasks [''t''] (vw_run_id (rr_approval x)) db1"
    using r by (cases "r_task_id (rr_run x)") (auto simp: run_of_tasks_def coalesce_def)
  have "approval_inv db1" using ap_start reach by (rule ap.inv_reach)
  then have "agrees (vd_decisions db1) (rr_approval x) (rr_action x)" using d a by (intro action_request) simp_all
  then have w: "aw_state (rr_action x) = ''waiting''" using a(3) by (simp add: agrees_def)
  show ?thesis
    using withdrawn_action_never_proceeds [OF ap_start reach rtranclp.rtrancl_refl d(1) _ a(1) _ run, of "''c''" "''u''" "epoch0 + 10"]
      reach w a d by auto
qed

text \<open>A pending request of a run that has gone on: the sweep selects it and leaves it pending.\<close>

definition ap_left :: approval_db where
  "ap_left = ap_db0\<lparr>vd_approvals := [\<lparr>vw_approval_id = ''q'', vw_run_id = ''r1'', vw_session_key = ''s'', vw_tool_call_id = ''a'',
      vw_approval_type = ApprovalTypeToolCall, vw_status = StatusPending, vw_requested_via = ''web'', vw_resolved_via = None,
      vw_tool_name = ''web.fetch'', vw_args_json = JObj [], vw_payload_json = JObj [], vw_risk_level = ''medium'', vw_summary = [],
      vw_details_json = JObj [], vw_requested_at = epoch0, vw_resolved_at = None, vw_resolved_by = [], vw_resolution_reason = [],
      vw_expires_at = Some (epoch0 + 5000), vw_updated_at = epoch0\<rparr>],
     vd_actions := [new_action ''q'' (JObj []) epoch0 ap_request]\<rparr>"

lemma ap_left_due: "due_actions (epoch0 + 9) ap_left = [(''q'', ''u'')]"
  by (simp add: due_actions_def sweepable_def ap_left_def new_action_def past_def Let_def ap_db0_def ap_kernel_def ap_run_def demo_run_def ap_request_def)

lemma ap_left_verified: "\<exists>d snap. tbl_find aw_approval_id ''q'' (vd_actions ap_left) = Some d \<and> aw_owner_id d \<noteq> [] \<and>
    verifyAction (epoch0 + 9) ''q'' (aw_binding d) ap_left = Inr snap"
  by (simp add: ap_left_def new_action_def verifyAction_def Let_def revision_or_0_def coalesce_def task_current_def run_task_def ended_run_def
      ap_db0_def ap_kernel_def ap_run_def demo_run_def ap_request_def chat_def the_task_def)

lemma sweep_passes_over_selected_request:
  "due_actions (epoch0 + 9) ap_left = [(''q'', ''u'')] \<and>
   ExpireInvalidPending ap_codec ap_ctx (\<lambda>_. (Some ''z'', epoch0 + 9, epoch0 + 9)) (epoch0 + 9) ap_left = (Inr (), ap_left)"
  using sweep_passes_over_verified_requests [of "epoch0 + 9" ap_left "\<lambda>_. (Some ''z'', epoch0 + 9, epoch0 + 9)" ap_codec ap_ctx]
    ap_left_due ap_left_verified by simp

end
