(* ===== verification/Egress.thy ===== *)
theory Egress
  imports GoUrl "HOL-Library.Word"
begin

text \<open>
  The network boundary of model-selected resources (\<^verbatim>\<open>internal/security/egress/policy.go\<close>,
  \<^verbatim>\<open>class_allowlists.go\<close>, \<^verbatim>\<open>counter.go\<close>): which URLs, names and addresses an outbound request may use. An
  address is a word of its width with the zone of an IPv6 address. The parsers of the standard library and
  \<^verbatim>\<open>strings.ToLower\<close> are arguments (\<open>net_lib\<close>), and so is the resolver.
\<close>

unbundle bit_operations_syntax

section \<open>Addresses\<close>

datatype Addr = V4 "32 word" | V6 "128 word" string

record net_lib =
  nl_url :: "string \<Rightarrow> URL option"
  nl_addr :: "string \<Rightarrow> Addr option"
  nl_lower :: "string \<Rightarrow> string"

fun Unmap :: "Addr \<Rightarrow> Addr" where
  "Unmap (V4 w) = V4 w"
| "Unmap (V6 w zone) = (if drop_bit 32 w = 0xFFFF then V4 (ucast w) else V6 w zone)"

text \<open>\<^verbatim>\<open>netip.AddrFromSlice\<close>.\<close>

definition of_bytes :: "8 word list \<Rightarrow> 'a::len word" where
  "of_bytes bs = foldl (\<lambda>acc b. push_bit 8 acc OR ucast b) 0 bs"

definition AddrFromSlice :: "8 word list \<Rightarrow> Addr option" where
  "AddrFromSlice bs =
     (if length bs = 4 then Some (V4 (of_bytes bs)) else if length bs = 16 then Some (V6 (of_bytes bs) []) else None)"

text \<open>The classes of \<^verbatim>\<open>net/netip\<close>, of an address that is not a mapped one.\<close>

fun IsLoopback :: "Addr \<Rightarrow> bool" where
  "IsLoopback (V4 w) \<longleftrightarrow> drop_bit 24 w = 127"
| "IsLoopback (V6 w zone) \<longleftrightarrow> w = 1"

fun IsMulticast :: "Addr \<Rightarrow> bool" where
  "IsMulticast (V4 w) \<longleftrightarrow> drop_bit 28 w = 0xE"
| "IsMulticast (V6 w zone) \<longleftrightarrow> drop_bit 120 w = 0xFF"

fun IsLinkLocalUnicast :: "Addr \<Rightarrow> bool" where
  "IsLinkLocalUnicast (V4 w) \<longleftrightarrow> drop_bit 16 w = 0xA9FE"
| "IsLinkLocalUnicast (V6 w zone) \<longleftrightarrow> drop_bit 118 w = 0x3FA"

fun IsLinkLocalMulticast :: "Addr \<Rightarrow> bool" where
  "IsLinkLocalMulticast (V4 w) \<longleftrightarrow> drop_bit 8 w = 0xE00000"
| "IsLinkLocalMulticast (V6 w zone) \<longleftrightarrow> drop_bit 112 w AND 0xFF0F = 0xFF02"

fun IsPrivate :: "Addr \<Rightarrow> bool" where
  "IsPrivate (V4 w) \<longleftrightarrow> drop_bit 24 w = 10 \<or> drop_bit 20 w = 0xAC1 \<or> drop_bit 16 w = 0xC0A8"
| "IsPrivate (V6 w zone) \<longleftrightarrow> drop_bit 121 w = 0x7E"

fun IsUnspecified :: "Addr \<Rightarrow> bool" where
  "IsUnspecified (V4 w) \<longleftrightarrow> w = 0"
| "IsUnspecified (V6 w zone) \<longleftrightarrow> w = 0 \<and> zone = []"

definition IsGlobalUnicast :: "Addr \<Rightarrow> bool" where
  "IsGlobalUnicast ip \<longleftrightarrow>
     ip \<noteq> V4 0 \<and> ip \<noteq> V4 0xFFFFFFFF \<and> ip \<noteq> V6 0 [] \<and> \<not> IsLoopback ip \<and> \<not> IsMulticast ip \<and> \<not> IsLinkLocalUnicast ip"

text \<open>The prefixes of the policy with their lengths. A prefix contains no address with a zone.\<close>

definition deniedPrefixes4 :: "(32 word \<times> nat) list" where
  "deniedPrefixes4 =
     [(0x00000000, 8), (0x0A000000, 8), (0x64400000, 10), (0x7F000000, 8), (0xA9FE0000, 16), (0xAC100000, 12), (0xC0000000, 24),
      (0xC0000200, 24), (0xC0A80000, 16), (0xC6120000, 15), (0xC6336400, 24), (0xCB007100, 24), (0xE0000000, 4), (0xF0000000, 4)]"

definition deniedPrefixes6 :: "(128 word \<times> nat) list" where
  "deniedPrefixes6 =
     [(0, 96), (0x0064FF9B000000000000000000000000, 96), (0x0064FF9B000100000000000000000000, 48),
      (0x20010000000000000000000000000000, 32), (0x20010DB8000000000000000000000000, 32), (0x20020000000000000000000000000000, 16)]"

fun in_prefixes :: "Addr \<Rightarrow> bool" where
  "in_prefixes (V4 w) \<longleftrightarrow> list_ex (\<lambda>(p, bits). drop_bit (32 - bits) (w XOR p) = 0) deniedPrefixes4"
| "in_prefixes (V6 w zone) \<longleftrightarrow> zone = [] \<and> list_ex (\<lambda>(p, bits). (w XOR p) AND push_bit (128 - bits) (mask bits) = 0) deniedPrefixes6"

definition PublicAddress :: "Addr \<Rightarrow> bool" where
  "PublicAddress ip \<longleftrightarrow>
     (let ip = Unmap ip
      in IsGlobalUnicast ip \<and> \<not> IsPrivate ip \<and> \<not> IsLoopback ip \<and> \<not> IsLinkLocalUnicast ip \<and> \<not> IsLinkLocalMulticast ip
         \<and> \<not> IsUnspecified ip \<and> \<not> in_prefixes ip)"

section \<open>Policies\<close>

record EgressPolicy =
  ey_AllowedDomains :: "string list"
  ey_AllowedPorts :: "string list"

definition ErrEgressDenied :: go_err where
  "ErrEgressDenied = Sentinel ''outbound destination denied by policy''"

definition ErrLimit :: go_err where
  "ErrLimit = Sentinel ''outbound request byte allowance exceeded''"

definition domainAllowed :: "net_lib \<Rightarrow> string \<Rightarrow> string list \<Rightarrow> bool" where
  "domainAllowed N host domains \<longleftrightarrow>
     (let host = nl_lower N (TrimSuffix host ''.'')
      in domains = [] \<or>
         list_ex (\<lambda>d. let d = nl_lower N (TrimSpace d)
                      in host = d \<or> HasPrefix d ''*.'' \<and> HasSuffix host (''.'' @ TrimPrefix d ''*.'')) domains)"

definition portFor :: "URL \<Rightarrow> string" where
  "portFor u = (if Port u \<noteq> [] then Port u else if u_Scheme u = ''https'' then ''443'' else ''80'')"

definition ValidateURL :: "net_lib \<Rightarrow> EgressPolicy \<Rightarrow> string \<Rightarrow> go_err + URL" where
  "ValidateURL N p raw =
     bindE (need (nl_url N (TrimSpace raw)) ErrEgressDenied) (\<lambda>u.
     bindE (failif (u_Scheme u \<noteq> ''http'' \<and> u_Scheme u \<noteq> ''https'' \<or> u_User u \<or> u_Opaque u \<noteq> [] \<or> Hostname u = []
              \<or> ContainsAny (Hostname u) [CHR ''%'', CHR 0x5C] \<or> u_Fragment u \<noteq> []) ErrEgressDenied) (\<lambda>_.
     bindE (failif (portFor u \<notin> set (''80'' # ''443'' # ey_AllowedPorts p) \<or> \<not> domainAllowed N (Hostname u) (ey_AllowedDomains p))
              ErrEgressDenied) (\<lambda>_.
     bindE (failif (case nl_addr N (Hostname u) of None \<Rightarrow> False | Some ip \<Rightarrow> \<not> PublicAddress ip) ErrEgressDenied) (\<lambda>_.
     Inr u))))"

text \<open>An answer of the resolver: the bytes of the address and its zone.\<close>

type_synonym answer_ip = "8 word list \<times> string"

fun checked_answers :: "answer_ip list \<Rightarrow> go_err + Addr list" where
  "checked_answers [] = Inr []"
| "checked_answers ((bs, zone) # rest) =
     bindE (need (AddrFromSlice bs) ErrEgressDenied) (\<lambda>ip.
     bindE (failif (\<not> PublicAddress ip \<or> zone \<noteq> []) ErrEgressDenied) (\<lambda>_.
     bindE (checked_answers rest) (\<lambda>ips. Inr (Unmap ip # ips))))"

definition Resolve :: "net_lib \<Rightarrow> EgressPolicy \<Rightarrow> (string \<Rightarrow> go_err + answer_ip list) \<Rightarrow> string \<Rightarrow> go_err + Addr list" where
  "Resolve N p lookup host =
     bindE (failif (\<not> domainAllowed N host (ey_AllowedDomains p)) ErrEgressDenied) (\<lambda>_.
     case nl_addr N host of
       Some ip \<Rightarrow> if PublicAddress ip then Inr [ip] else Inl ErrEgressDenied
     | None \<Rightarrow>
         (case lookup host of
            Inl _ \<Rightarrow> Inl ErrEgressDenied
          | Inr answers \<Rightarrow> if answers = [] then Inl ErrEgressDenied else checked_answers answers))"

text \<open>\<^verbatim>\<open>Transport.dial\<close>: the addresses it connects to, in order, the first that answers.\<close>

definition dial :: "net_lib \<Rightarrow> EgressPolicy \<Rightarrow> (string \<Rightarrow> go_err + answer_ip list) \<Rightarrow> (Addr \<Rightarrow> bool) \<Rightarrow> string \<Rightarrow> go_err + Addr" where
  "dial N p lookup connects host =
     bindE (Resolve N p lookup host) (\<lambda>ips.
     case find connects ips of Some ip \<Rightarrow> Inr ip | None \<Rightarrow> Inl ErrEgressDenied)"

section \<open>Allowlists of the operator\<close>

definition check_domain :: "net_lib \<Rightarrow> string \<Rightarrow> go_err + string" where
  "check_domain N raw =
     (let domain = nl_lower N (TrimSpace raw); base = TrimPrefix domain ''*.''
      in bindE (failif (domain = [] \<or> ContainsAny base ([CHR ''*'', CHR ''/'', CHR '':'', CHR ''@'', CHR ''?'', CHR ''#'', CHR 0x5C, CHR ''%'']))
                 (Errorf ''network allowlists require exact domains or *.domain patterns'')) (\<lambda>_.
         case ValidateURL N \<lparr>ey_AllowedDomains = [], ey_AllowedPorts = []\<rparr> (''https://'' @ base @ ''/'') of
           Inl _ \<Rightarrow> Inl (Errorf ''invalid network allowlist domain'')
         | Inr _ \<Rightarrow> Inr domain))"

fun check_domains :: "net_lib \<Rightarrow> string list \<Rightarrow> go_err + string list" where
  "check_domains N [] = Inr []"
| "check_domains N (d # ds) = bindE (check_domain N d) (\<lambda>d'. bindE (check_domains N ds) (\<lambda>ds'. Inr (d' # ds')))"

text \<open>The decoded object: its classes with their domains, \<open>None\<close> for a null.\<close>

fun check_classes :: "net_lib \<Rightarrow> (string \<times> string list option) list \<Rightarrow> go_err + (string \<times> string list) list" where
  "check_classes N [] = Inr []"
| "check_classes N ((cls, domains) # rest) =
     bindE (failif (cls \<notin> {''http'', ''browser'', ''web''} \<or> (case domains of None \<Rightarrow> True | Some ds \<Rightarrow> 128 < length ds))
              (Errorf ''invalid network allowlist class or domain array'')) (\<lambda>_.
     bindE (check_domains N (case domains of None \<Rightarrow> [] | Some ds \<Rightarrow> ds)) (\<lambda>ds.
     bindE (check_classes N rest) (\<lambda>kv. Inr ((cls, ds) # kv))))"

definition ParseClassAllowlists ::
  "net_lib \<Rightarrow> (string \<Rightarrow> (string \<times> string list option) list option) \<Rightarrow> string \<Rightarrow> go_err + (string \<times> string list) list" where
  "ParseClassAllowlists N decode raw =
     (if TrimSpace raw = [] then Inr []
      else bindE (failif (16384 < length raw) (Errorf ''network allowlists must be an object of domain arrays'')) (\<lambda>_.
           bindE (need (decode raw) (Errorf ''network allowlists must be an object of domain arrays'')) (check_classes N)))"

end
