(* ===== verification/EgressProps.thy ===== *)
theory EgressProps
  imports Egress
begin

text \<open>
  The addresses of the network boundary: the policy for IPv4 agrees with a table of reserved ranges, and
  no host of an accepted URL resolves to an address that is reserved or that carries traffic to a reserved
  IPv4 address (mapped, compatible, translated and 6to4 addresses).
\<close>

unbundle bit_operations_syntax

section \<open>Prefixes are ranges\<close>

lemma drop_bit_word_iff:
  fixes w p :: "'a::len word"
  shows "drop_bit n w = p \<longleftrightarrow> unat w div 2 ^ n = unat p"
proof -
  have "drop_bit n w = p \<longleftrightarrow> drop_bit n (unat w) = unat p" by (simp only: word_unat_eq_iff unat_drop_bit_eq)
  then show ?thesis by (simp only: drop_bit_eq_div [of n "unat w"])
qed

lemma xor_prefix_iff:
  fixes w p :: "'a::len word"
  shows "drop_bit n (w XOR p) = 0 \<longleftrightarrow> drop_bit n w = drop_bit n p"
  by (simp only: drop_bit_xor xor_self_eq bit_eq_iff) (simp add: bit_simps)

lemma bit_mask_word: "m \<le> LENGTH('a) \<Longrightarrow> bit (push_bit n (mask m) :: 'a::len word) (n + i) \<longleftrightarrow> n + i < LENGTH('a) \<and> i < m"
  by (auto simp: bit_simps)

lemma masked_prefix_iff:
  fixes w p :: "128 word"
  assumes "n + m = 128"
  shows "(w XOR p) AND push_bit n (mask m) = 0 \<longleftrightarrow> drop_bit n w = drop_bit n p"
proof
  assume zero: "(w XOR p) AND push_bit n (mask m) = 0"
  have "bit (drop_bit n w) i = bit (drop_bit n p) i" for i
  proof (cases "n + i < 128")
    case True
    then have "bit (push_bit n (mask m) :: 128 word) (n + i)" using assms by (simp add: bit_mask_word)
    moreover have "\<not> bit ((w XOR p) AND push_bit n (mask m)) (n + i)" using zero by simp
    ultimately show ?thesis by (simp only: bit_and_iff bit_xor_iff bit_drop_bit_eq o_apply) simp
  next
    case False
    then show ?thesis by (auto simp: bit_drop_bit_eq dest!: bit_imp_le_length)
  qed
  then show "drop_bit n w = drop_bit n p" by (simp only: bit_eq_iff) simp
next
  assume same: "drop_bit n w = drop_bit n p"
  have "\<not> bit ((w XOR p) AND push_bit n (mask m)) j" for j
  proof (cases "n \<le> j")
    case True
    have "bit (drop_bit n w) (j - n) = bit (drop_bit n p) (j - n)" using same by simp
    with True show ?thesis by (simp only: bit_and_iff bit_xor_iff bit_drop_bit_eq o_apply) simp
  next
    case False
    then show ?thesis by (simp add: bit_simps)
  qed
  then show "(w XOR p) AND push_bit n (mask m) = 0" by (simp only: bit_eq_iff) simp
qed

section \<open>The reserved IPv4 ranges\<close>

definition quad :: "nat \<Rightarrow> nat \<Rightarrow> nat \<Rightarrow> nat \<Rightarrow> nat" where
  "quad a b c d = ((a * 256 + b) * 256 + c) * 256 + d"

text \<open>Each range with the first address after it.\<close>

definition reserved4 :: "(nat \<times> nat) list" where
  "reserved4 =
     [(quad 0 0 0 0, quad 1 0 0 0), (quad 10 0 0 0, quad 11 0 0 0), (quad 100 64 0 0, quad 100 128 0 0),
      (quad 127 0 0 0, quad 128 0 0 0), (quad 169 254 0 0, quad 169 255 0 0), (quad 172 16 0 0, quad 172 32 0 0),
      (quad 192 0 0 0, quad 192 0 1 0), (quad 192 0 2 0, quad 192 0 3 0), (quad 192 168 0 0, quad 192 169 0 0),
      (quad 198 18 0 0, quad 198 20 0 0), (quad 198 51 100 0, quad 198 51 101 0), (quad 203 0 113 0, quad 203 0 114 0),
      (quad 224 0 0 0, quad 240 0 0 0), (quad 240 0 0 0, quad 256 0 0 0)]"

definition reserved_ipv4 :: "32 word \<Rightarrow> bool" where
  "reserved_ipv4 w \<longleftrightarrow> list_ex (\<lambda>(lo, hi). lo \<le> unat w \<and> unat w < hi) reserved4"

lemma div_eq_range: "0 < k \<Longrightarrow> n div k = c \<longleftrightarrow> c * k \<le> n \<and> n < c * k + (k :: nat)"
  by (metis add.commute div_nat_eqI div_times_less_eq_dividend dividend_less_times_div mult.commute mult_Suc)

lemma drop_bit_range:
  fixes w p :: "'a::len word"
  shows "drop_bit n w = p \<longleftrightarrow> unat p * 2 ^ n \<le> unat w \<and> unat w < unat p * 2 ^ n + 2 ^ n"
  unfolding drop_bit_word_iff by (rule div_eq_range) simp

lemma prefix_range:
  fixes w p :: "'a::len word"
  shows "drop_bit n (w XOR p) = 0 \<longleftrightarrow> unat p div 2 ^ n * 2 ^ n \<le> unat w \<and> unat w < unat p div 2 ^ n * 2 ^ n + 2 ^ n"
proof -
  have "drop_bit n (w XOR p) = 0 \<longleftrightarrow> unat w div 2 ^ n = unat p div 2 ^ n"
    unfolding xor_prefix_iff word_unat_eq_iff [of "drop_bit n w"] unat_drop_bit_eq drop_bit_eq_div [of n "unat w"] drop_bit_eq_div [of n "unat p"] ..
  then show ?thesis using div_eq_range by simp
qed

lemma in_prefixes_V4: "in_prefixes (V4 w) \<longleftrightarrow> reserved_ipv4 w"
  by (simp add: deniedPrefixes4_def reserved_ipv4_def reserved4_def quad_def prefix_range del: drop_bit_xor)

text \<open>The classes of the library add nothing to the prefixes of the policy.\<close>

lemma library_classes_reserved:
  assumes "w = 0 \<or> w = 0xFFFFFFFF \<or> IsLoopback (V4 w) \<or> IsMulticast (V4 w) \<or> IsLinkLocalUnicast (V4 w) \<or> IsPrivate (V4 w) \<or> IsLinkLocalMulticast (V4 w)"
  shows "reserved_ipv4 w"
  using assms
  by (elim disjE) (simp_all add: reserved_ipv4_def reserved4_def quad_def drop_bit_range, (elim disjE conjE, simp_all)?)

text \<open>C36. The policy for IPv4 is exactly a table of reserved ranges: an address is public if and only if it lies in none of
  the ranges of the table.\<close>

theorem public_ipv4_ranges: "PublicAddress (V4 w) \<longleftrightarrow> \<not> reserved_ipv4 w"
  using library_classes_reserved [of w] in_prefixes_V4 [of w]
  by (auto simp: PublicAddress_def IsGlobalUnicast_def Let_def)

section \<open>Addresses that stand for IPv4 addresses\<close>

text \<open>The IPv4 address that receives what is sent to an address: mapped, compatible, NAT64 and 6to4 addresses.\<close>

fun tunnelled4 :: "Addr \<Rightarrow> 32 word option" where
  "tunnelled4 (V4 w) = Some w"
| "tunnelled4 (V6 w zone) =
     (if drop_bit 32 w \<in> {0, 0xFFFF, 0x0064FF9B0000000000000000} then Some (ucast w)
      else if drop_bit 112 w = 0x2002 then Some (ucast (drop_bit 80 w)) else None)"

text \<open>The IPv6 ranges of a host or a local network: unspecified, loopback, unique local, link local and multicast.\<close>

definition internal6 :: "128 word \<Rightarrow> bool" where
  "internal6 w \<longleftrightarrow> w = 0 \<or> w = 1 \<or> drop_bit 121 w = 0x7E \<or> drop_bit 118 w = 0x3FA \<or> drop_bit 120 w = 0xFF"

lemma in_prefixes_V6:
  "in_prefixes (V6 w []) \<longleftrightarrow>
     drop_bit 32 w = 0 \<or> drop_bit 32 w = 0x0064FF9B0000000000000000 \<or> drop_bit 80 w = 0x0064FF9B0001 \<or>
     drop_bit 96 w = 0x20010000 \<or> drop_bit 96 w = 0x20010DB8 \<or> drop_bit 112 w = 0x2002"
  using masked_prefix_iff [of 32 96 w 0] by (simp add: deniedPrefixes6_def masked_prefix_iff)

lemma public_V6:
  assumes "PublicAddress (V6 w [])"
  shows "\<not> internal6 w" and "tunnelled4 (V6 w []) = Some v \<Longrightarrow> \<not> reserved_ipv4 v"
proof -
  show "\<not> internal6 w"
  proof (cases "drop_bit 32 w = 0xFFFF")
    case True
    then show ?thesis by (auto simp: internal6_def drop_bit_word_iff drop_bit_range)
  next
    case False
    with assms show ?thesis by (auto simp: PublicAddress_def IsGlobalUnicast_def Let_def internal6_def)
  qed
next
  assume "tunnelled4 (V6 w []) = Some v"
  show "\<not> reserved_ipv4 v"
  proof (cases "drop_bit 32 w = 0xFFFF")
    case True
    then have "PublicAddress (V4 v)" using assms \<open>tunnelled4 (V6 w []) = Some v\<close> by (simp add: PublicAddress_def)
    then show ?thesis by (simp add: PublicAddress_def in_prefixes_V4 [symmetric])
  next
    case False
    then have "\<not> in_prefixes (V6 w [])" using assms by (simp add: PublicAddress_def Let_def)
    then show ?thesis using False \<open>tunnelled4 (V6 w []) = Some v\<close> by (auto simp: in_prefixes_V6 simp del: in_prefixes.simps split: if_splits)
  qed
qed

lemma public_V4: "PublicAddress (V4 v) \<Longrightarrow> \<not> reserved_ipv4 v"
  by (simp add: PublicAddress_def in_prefixes_V4 [symmetric])

section \<open>Resolved addresses\<close>

definition zoneless :: "Addr \<Rightarrow> bool" where
  "zoneless ip \<longleftrightarrow> (case ip of V4 _ \<Rightarrow> True | V6 _ zone \<Rightarrow> zone = [])"

lemma Unmap_Unmap [simp]: "Unmap (Unmap ip) = Unmap ip"
  by (cases ip) auto

lemma zoneless_Unmap: "zoneless ip \<Longrightarrow> zoneless (Unmap ip)"
  by (cases ip) (auto simp: zoneless_def)

lemma checked_answers_public: "checked_answers answers = Inr ips \<Longrightarrow> ip \<in> set ips \<Longrightarrow> PublicAddress ip \<and> zoneless ip"
proof (induction answers arbitrary: ips rule: checked_answers.induct)
  case (2 bs zone rest)
  then obtain a ips' where a: "AddrFromSlice bs = Some a" "PublicAddress a" and rest: "checked_answers rest = Inr ips'"
    and ips: "ips = Unmap a # ips'" by auto
  have "zoneless a" using a(1) by (auto simp: AddrFromSlice_def zoneless_def split: if_splits)
  then have "PublicAddress (Unmap a) \<and> zoneless (Unmap a)" using a(2) by (simp add: PublicAddress_def zoneless_Unmap)
  then show ?case using 2 rest ips by auto
qed simp

lemma find_Some_member: "find f xs = Some x \<Longrightarrow> x \<in> set xs"
  by (induction xs) (auto split: if_splits)

lemma Resolve_public:
  assumes "Resolve N p lookup host = Inr ips" and "ip \<in> set ips"
  shows "PublicAddress ip \<and> (zoneless ip \<or> nl_addr N host = Some ip)"
  using assms by (auto simp: Resolve_def split: option.splits sum.splits if_splits dest: checked_answers_public)

text \<open>C21. A URL that passes the boundary leads to no internal address: whatever the resolver answers for its host, the address
  that is dialled is neither a reserved IPv4 address nor one that carries traffic to a reserved IPv4 address, and it is
  not an internal IPv6 address. The parser of addresses reads a zone only after a percent sign.\<close>

theorem accepted_url_dials_public_address:
  assumes "ValidateURL N p raw = Inr u" and "dial N q lookup connects (Hostname u) = Inr ip"
    and zones: "\<forall>s w z. nl_addr N s = Some (V6 w z) \<longrightarrow> z = [] \<or> CHR ''%'' \<in> set s"
  shows "(case tunnelled4 ip of None \<Rightarrow> True | Some v \<Rightarrow> \<not> reserved_ipv4 v) \<and> (case ip of V4 _ \<Rightarrow> True | V6 w zone \<Rightarrow> zone = [] \<and> \<not> internal6 w)"
proof -
  obtain ips where "Resolve N q lookup (Hostname u) = Inr ips" "ip \<in> set ips"
    using assms(2) by (auto simp: dial_def split: option.splits dest: find_Some_member)
  then have ip: "PublicAddress ip" "zoneless ip \<or> nl_addr N (Hostname u) = Some ip" using Resolve_public by blast+
  have "CHR ''%'' \<notin> set (Hostname u)" using assms(1) by (auto simp: ValidateURL_def ContainsAny_def)
  then have "zoneless ip" using ip(2) zones by (auto simp: zoneless_def split: Addr.splits)
  then show ?thesis using ip(1) public_V6 public_V4 by (cases ip) (auto simp: zoneless_def split: option.splits)
qed

end
