(* ===== verification/EgressProxy.thy ===== *)
theory EgressProxy
  imports EgressProps
begin

text \<open>
  The private proxy of a browser context (\<^verbatim>\<open>internal/security/egress/proxy.go\<close>, \<^verbatim>\<open>counter.go\<close>). Its handlers,
  timers and writers run concurrently and meet at one mutex, so every critical section is one operation here
  and every interleaving is a sequence of operations. A request carries whether its context is cancelled, a
  tunnel whether its connection is closed. A writer first takes bytes from an allowance and then writes them; the
  bytes between the two are \<open>px_pending\<close>. A write to a closed connection fails, but the handler of a plain
  request writes to its \<^verbatim>\<open>ResponseWriter\<close> whether or not the context of the request is cancelled. \<open>px_written\<close>
  lists what was written, \<open>px_sent\<close> and \<open>px_received\<close> count its bytes.
\<close>

section \<open>State\<close>

definition maxProxyRequests :: nat where "maxProxyRequests = 2048"
definition maxProxyInflight :: nat where "maxProxyInflight = 64"
definition maxProxyResponseBytes :: int where "maxProxyResponseBytes = 20 * 1024 * 1024"

datatype carrier = Request nat | Tunnel nat

record ScopedProxy =
  px_policy :: EgressPolicy
  px_origin :: "URL option"
  px_expires :: instant
  px_counter :: int
  px_inbound :: int
  px_tunnels :: "(nat \<times> bool) list"
  px_requests :: "(nat \<times> bool) list"
  px_epoch :: "64 word"
  px_next :: nat
  px_frozen :: bool
  px_closed :: bool
  px_exhausted :: bool
  px_window :: "(instant \<times> 64 word) option"
  px_pending :: "(carrier \<times> bool \<times> int) list"
  px_written :: "(carrier \<times> bool \<times> int) list"
  px_sent :: int
  px_received :: int

definition newProxy :: "net_lib \<Rightarrow> EgressPolicy \<Rightarrow> string \<Rightarrow> instant \<Rightarrow> int \<Rightarrow> bool \<Rightarrow> instant \<Rightarrow> go_err + ScopedProxy" where
  "newProxy N policy origin expires limit multiple now =
     (case ValidateURL N policy origin of
        Inl _ \<Rightarrow> Inl ErrEgressDenied
      | Inr u \<Rightarrow>
          bindE (failif (u_Path u \<noteq> [] \<and> u_Path u \<noteq> ''/'' \<or> u_RawQuery u \<noteq> [] \<or> expires \<le> now) ErrEgressDenied) (\<lambda>_.
          Inr \<lparr>px_policy = (if multiple then policy else policy\<lparr>ey_AllowedDomains := [Hostname u]\<rparr>),
               px_origin = (if multiple then None else Some u), px_expires = expires, px_counter = limit,
               px_inbound = maxProxyResponseBytes, px_tunnels = [], px_requests = [], px_epoch = 0, px_next = 0, px_frozen = False,
               px_closed = False, px_exhausted = False, px_window = None, px_pending = [], px_written = [], px_sent = 0, px_received = 0\<rparr>))"

section \<open>Windows\<close>

definition freezeLocked :: "ScopedProxy \<Rightarrow> ScopedProxy" where
  "freezeLocked p =
     p\<lparr>px_frozen := True, px_epoch := px_epoch p + 1, px_window := None,
       px_requests := map (\<lambda>(i, _). (i, True)) (px_requests p), px_tunnels := map (\<lambda>(c, _). (c, True)) (px_tunnels p)\<rparr>"

definition Freeze :: "ScopedProxy \<Rightarrow> ScopedProxy" where
  "Freeze = freezeLocked"

definition exhaust :: "ScopedProxy \<Rightarrow> ScopedProxy" where
  "exhaust p = freezeLocked (p\<lparr>px_exhausted := True\<rparr>)"

definition AllowUntil :: "instant \<Rightarrow> instant \<Rightarrow> ScopedProxy \<Rightarrow> go_err + ScopedProxy" where
  "AllowUntil now deadline p =
     (let deadline = (if px_expires p < deadline then px_expires p else deadline)
      in bindE (failif (px_closed p \<or> px_exhausted p \<or> deadline \<le> now) ErrEgressDenied) (\<lambda>_.
         Inr (p\<lparr>px_epoch := px_epoch p + 1, px_frozen := False, px_window := Some (deadline, px_epoch p + 1)\<rparr>)))"

text \<open>The callback of a window: a timer that was stopped too late finds another epoch.\<close>

definition window_ends :: "64 word \<Rightarrow> ScopedProxy \<Rightarrow> ScopedProxy" where
  "window_ends epoch p = (if px_epoch p = epoch then freezeLocked p else p)"

definition proxy_Close :: "ScopedProxy \<Rightarrow> ScopedProxy" where
  "proxy_Close p = (if px_closed p then p else freezeLocked (p\<lparr>px_closed := True\<rparr>))"

section \<open>Requests and tunnels\<close>

text \<open>The epoch and the number of an admitted request.\<close>

definition proxy_begin :: "instant \<Rightarrow> ScopedProxy \<Rightarrow> (64 word \<times> nat) option \<times> ScopedProxy" where
  "proxy_begin now p =
     (if px_closed p \<or> px_frozen p \<or> px_expires p \<le> now then (None, p)
      else if maxProxyRequests \<le> px_next p then (None, freezeLocked (p\<lparr>px_exhausted := True\<rparr>))
      else if maxProxyInflight \<le> length (px_requests p) then (None, p)
      else (Some (px_epoch p, Suc (px_next p)),
            p\<lparr>px_next := Suc (px_next p), px_requests := (Suc (px_next p), False) # px_requests p\<rparr>))"

definition proxy_done :: "nat \<Rightarrow> ScopedProxy \<Rightarrow> ScopedProxy" where
  "proxy_done i p = p\<lparr>px_requests := filter (\<lambda>r. fst r \<noteq> i) (px_requests p)\<rparr>"

definition track :: "nat \<Rightarrow> 64 word \<Rightarrow> ScopedProxy \<Rightarrow> bool \<times> ScopedProxy" where
  "track c epoch p =
     (if px_closed p \<or> px_frozen p \<or> px_epoch p \<noteq> epoch then (False, p)
      else (True, p\<lparr>px_tunnels := (c, False) # filter (\<lambda>t. fst t \<noteq> c) (px_tunnels p)\<rparr>))"

definition untrack :: "nat \<Rightarrow> ScopedProxy \<Rightarrow> ScopedProxy" where
  "untrack c p = p\<lparr>px_tunnels := filter (\<lambda>t. fst t \<noteq> c) (px_tunnels p)\<rparr>"

definition close_conn :: "nat \<Rightarrow> ScopedProxy \<Rightarrow> ScopedProxy" where
  "close_conn c p = p\<lparr>px_tunnels := map (\<lambda>(d, closed). (d, closed \<or> d = c)) (px_tunnels p)\<rparr>"

section \<open>Bytes\<close>

definition Take :: "int \<Rightarrow> int \<Rightarrow> go_err + int" where
  "Take bytes remaining = (if bytes < 0 \<or> remaining < bytes then Inl ErrLimit else Inr (remaining - bytes))"

text \<open>
  The first half of \<^verbatim>\<open>boundedWriter.Write\<close> and of a round trip: bytes are taken from the outbound or the inbound
  allowance, and the proxy is exhausted when they do not suffice.
\<close>

definition take_bytes :: "carrier \<Rightarrow> bool \<Rightarrow> int \<Rightarrow> ScopedProxy \<Rightarrow> ScopedProxy" where
  "take_bytes c outbound n p =
     (case Take n (if outbound then px_counter p else px_inbound p) of
        Inl _ \<Rightarrow> exhaust p
      | Inr left \<Rightarrow>
          (if outbound then p\<lparr>px_counter := left\<rparr> else p\<lparr>px_inbound := left\<rparr>)\<lparr>px_pending := (c, outbound, n) # px_pending p\<rparr>)"

fun live :: "ScopedProxy \<Rightarrow> carrier \<Rightarrow> bool" where
  "live p (Request i) \<longleftrightarrow> (i, False) \<in> set (px_requests p)"
| "live p (Tunnel c) \<longleftrightarrow> (c, False) \<in> set (px_tunnels p)"

text \<open>
  The second half: \<^verbatim>\<open>w.writer.Write\<close>. The connection of a tunnel refuses it once it is closed; the writer of a plain
  request does not ask the context.
\<close>

definition conn_open :: "ScopedProxy \<Rightarrow> carrier \<Rightarrow> bool" where
  "conn_open p c = (case c of Request i \<Rightarrow> True | Tunnel t \<Rightarrow> live p c)"

definition write_bytes :: "carrier \<Rightarrow> bool \<Rightarrow> int \<Rightarrow> ScopedProxy \<Rightarrow> ScopedProxy" where
  "write_bytes c outbound n p =
     (let p' = p\<lparr>px_pending := remove1 (c, outbound, n) (px_pending p)\<rparr>
      in if \<not> conn_open p c then p'
         else (if outbound then p'\<lparr>px_sent := px_sent p + n\<rparr> else p'\<lparr>px_received := px_received p + n\<rparr>)
                \<lparr>px_written := px_written p @ [(c, outbound, n)]\<rparr>)"

section \<open>Destinations\<close>

text \<open>The destination of a plain request, \<open>same\<close> being \<^verbatim>\<open>strings.EqualFold\<close>, and that of a tunnel.\<close>

definition serves :: "(string \<Rightarrow> string \<Rightarrow> bool) \<Rightarrow> ScopedProxy \<Rightarrow> URL \<Rightarrow> string \<Rightarrow> bool" where
  "serves same p u upgrade \<longleftrightarrow>
     u_Scheme u = ''http'' \<and> \<not> u_User u \<and> upgrade = []
     \<and> (case px_origin p of None \<Rightarrow> True | Some o' \<Rightarrow> u_Scheme o' = ''http'' \<and> same (u_Host u) (u_Host o'))"

text \<open>\<^verbatim>\<open>net.JoinHostPort\<close>.\<close>

definition JoinHostPort :: "string \<Rightarrow> string \<Rightarrow> string" where
  "JoinHostPort host port = (if CHR '':'' \<in> set host then ''['' @ host @ '']:'' @ port else host @ '':'' @ port)"

definition connects_to :: "net_lib \<Rightarrow> (string \<Rightarrow> string \<Rightarrow> bool) \<Rightarrow> ScopedProxy \<Rightarrow> string \<Rightarrow> bool" where
  "connects_to N same p host \<longleftrightarrow>
     (case ValidateURL N (px_policy p) (''https://'' @ host) of Inl _ \<Rightarrow> False | Inr _ \<Rightarrow> True)
     \<and> (case px_origin p of None \<Rightarrow> True
        | Some o' \<Rightarrow> u_Scheme o' = ''https'' \<and> same host (JoinHostPort (Hostname o') (portFor o')))"

section \<open>Every interleaving\<close>

text \<open>
  The operations by which the handlers, the timers and the runner move the proxy; \<open>opened\<close> marks a new window. A
  handler takes bytes only for a request that was admitted, and a connection is closed before it is no longer tracked.
\<close>

fun admitted :: "nat \<Rightarrow> carrier \<Rightarrow> bool" where
  "admitted n (Request i) \<longleftrightarrow> i \<le> n"
| "admitted n (Tunnel c) \<longleftrightarrow> True"

inductive proxy_step :: "bool \<Rightarrow> ScopedProxy \<Rightarrow> ScopedProxy \<Rightarrow> bool" where
  freeze: "proxy_step False p (Freeze p)"
| exhausted: "proxy_step False p (exhaust p)"
| allow: "AllowUntil now deadline p = Inr p' \<Longrightarrow> proxy_step True p p'"
| window: "proxy_step False p (window_ends epoch p)"
| close: "proxy_step False p (proxy_Close p)"
| request: "proxy_begin now p = (res, p') \<Longrightarrow> proxy_step False p p'"
| finished: "proxy_step False p (proxy_done i p)"
| tunnel: "track c epoch p = (res, p') \<Longrightarrow> proxy_step False p p'"
| conn_closed: "proxy_step False p (close_conn c p)"
| untunnel: "\<not> live p (Tunnel c) \<Longrightarrow> proxy_step False p (untrack c p)"
| taken: "admitted (px_next p) c \<Longrightarrow> proxy_step False p (take_bytes c outbound n p)"
| written: "(c, outbound, n) \<in> set (px_pending p) \<Longrightarrow> proxy_step False p (write_bytes c outbound n p)"

definition any_step :: "ScopedProxy \<Rightarrow> ScopedProxy \<Rightarrow> bool" where
  "any_step p p' \<longleftrightarrow> (\<exists>opened. proxy_step opened p p')"

lemma any_stepI: "proxy_step opened p p' \<Longrightarrow> any_step p p'"
  by (auto simp: any_step_def)

definition pending_bytes :: "bool \<Rightarrow> ScopedProxy \<Rightarrow> int" where
  "pending_bytes outbound p = sum_list (map (snd \<circ> snd) (filter (\<lambda>(c, out, n). out = outbound) (px_pending p)))"

text \<open>What was written or taken, with what is left of the allowance, never exceeds it.\<close>

definition within_allowance :: "int \<Rightarrow> int \<Rightarrow> int \<Rightarrow> bool" where
  "within_allowance limit left used \<longleftrightarrow> used + left \<le> limit \<and> (0 \<le> left \<or> used \<le> 0)"

definition proxy_inv :: "int \<Rightarrow> ScopedProxy \<Rightarrow> bool" where
  "proxy_inv limit p \<longleftrightarrow>
     (px_frozen p \<longrightarrow> (\<forall>c. \<not> live p c)) \<and> (px_exhausted p \<or> px_closed p \<longrightarrow> px_frozen p) \<and>
     px_next p \<le> maxProxyRequests \<and> length (px_requests p) \<le> maxProxyInflight \<and> list_all (\<lambda>(c, out, n). 0 \<le> n \<and> admitted (px_next p) c) (px_pending p) \<and>
     within_allowance limit (px_counter p) (px_sent p + pending_bytes True p) \<and>
     within_allowance maxProxyResponseBytes (px_inbound p) (px_received p + pending_bytes False p)"

lemma live_carriers:
  "live p c \<longleftrightarrow> (case c of Request i \<Rightarrow> (i, False) \<in> set (px_requests p) | Tunnel t \<Rightarrow> (t, False) \<in> set (px_tunnels p))"
  by (cases c) simp_all

lemma live_update [simp]:
  "live (p\<lparr>px_counter := v\<rparr>) c = live p c" "live (p\<lparr>px_inbound := v\<rparr>) c = live p c" "live (p\<lparr>px_pending := pend\<rparr>) c = live p c"
  "live (p\<lparr>px_exhausted := b\<rparr>) c = live p c" "live (p\<lparr>px_closed := b\<rparr>) c = live p c" "live (p\<lparr>px_sent := v\<rparr>) c = live p c"
  "live (p\<lparr>px_received := v\<rparr>) c = live p c" "live (p\<lparr>px_written := ws\<rparr>) c = live p c"
  by (cases c; simp)+

lemma admitted_Suc: "admitted n c \<Longrightarrow> admitted (Suc n) c"
  by (cases c) simp_all

lemma pending_Suc:
  "list_all (\<lambda>(c, out, n). 0 \<le> n \<and> admitted k c) ws \<Longrightarrow> list_all (\<lambda>(c, out, n). 0 \<le> (n :: int) \<and> admitted (Suc k) c) ws"
  by (auto simp: list_all_iff intro: admitted_Suc)

lemma not_live_frozen [simp]: "\<not> live (freezeLocked p) c"
  by (cases c) (auto simp: freezeLocked_def)

lemma freezeLocked_sel [simp]:
  "px_frozen (freezeLocked p)" "px_exhausted (freezeLocked p) = px_exhausted p" "px_closed (freezeLocked p) = px_closed p"
  "px_next (freezeLocked p) = px_next p" "length (px_requests (freezeLocked p)) = length (px_requests p)"
  "px_pending (freezeLocked p) = px_pending p" "px_counter (freezeLocked p) = px_counter p" "px_inbound (freezeLocked p) = px_inbound p"
  "px_sent (freezeLocked p) = px_sent p" "px_received (freezeLocked p) = px_received p" "px_written (freezeLocked p) = px_written p"
  by (simp_all add: freezeLocked_def)

lemma pending_bytes_freeze [simp]: "pending_bytes out (freezeLocked p) = pending_bytes out p"
  by (simp add: pending_bytes_def)

lemma freeze_inv: "proxy_inv limit p \<Longrightarrow> proxy_inv limit (freezeLocked p)"
  by (simp add: proxy_inv_def)

lemma pending_bytes_cons:
  "pending_bytes out (p\<lparr>px_pending := (c, out', n) # px_pending p\<rparr>) = pending_bytes out p + (if out' = out then n else 0)"
  by (simp add: pending_bytes_def)

lemma sum_remove1:
  "x \<in> set xs \<Longrightarrow> sum_list (map f (filter P (remove1 x xs))) = sum_list (map f (filter P xs)) - (if P x then f x else (0 :: int))"
  by (induction xs) auto

lemma pending_bytes_remove:
  "(c, out', n) \<in> set (px_pending p) \<Longrightarrow>
     pending_bytes out (p\<lparr>px_pending := remove1 (c, out', n) (px_pending p)\<rparr>) = pending_bytes out p - (if out' = out then n else 0)"
  by (simp add: pending_bytes_def sum_remove1)

text \<open>An update that only ends carriers keeps the invariant.\<close>

lemma fewer_carriers_inv:
  assumes "proxy_inv limit p" and "\<And>c. live p' c \<Longrightarrow> live p c" and "px_frozen p' = px_frozen p" "px_exhausted p' = px_exhausted p"
    "px_closed p' = px_closed p" "px_next p' = px_next p" "length (px_requests p') \<le> length (px_requests p)" "px_pending p' = px_pending p"
    "px_counter p' = px_counter p" "px_inbound p' = px_inbound p" "px_sent p' = px_sent p" "px_received p' = px_received p"
  shows "proxy_inv limit p'"
  using assms by (auto simp: proxy_inv_def pending_bytes_def)

lemma begin_inv: "proxy_inv limit p \<Longrightarrow> proxy_begin now p = (res, p') \<Longrightarrow> proxy_inv limit p'"
proof -
  assume inv: "proxy_inv limit p" and b: "proxy_begin now p = (res, p')"
  have "proxy_inv limit (freezeLocked (p\<lparr>px_exhausted := True\<rparr>))" using inv by (simp add: proxy_inv_def pending_bytes_def)
  with inv b show ?thesis by (auto simp: proxy_begin_def proxy_inv_def pending_bytes_def pending_Suc split: if_splits)
qed

lemma track_inv: "proxy_inv limit p \<Longrightarrow> track c epoch p = (res, p') \<Longrightarrow> proxy_inv limit p'"
  by (auto simp: track_def proxy_inv_def pending_bytes_def split: if_splits)

lemma take_inv: "admitted (px_next p) c \<Longrightarrow> proxy_inv limit p \<Longrightarrow> proxy_inv limit (take_bytes c out n p)"
  by (auto simp: take_bytes_def Take_def exhaust_def proxy_inv_def pending_bytes_def within_allowance_def split: sum.splits if_splits)

lemma pending_bytes_sel [simp]:
  "pending_bytes out (p\<lparr>px_sent := v\<rparr>) = pending_bytes out p" "pending_bytes out (p\<lparr>px_received := v\<rparr>) = pending_bytes out p"
  by (simp_all add: pending_bytes_def)

lemma written_log_inv: "proxy_inv limit (p\<lparr>px_written := ws\<rparr>) = proxy_inv limit p"
  by (simp add: proxy_inv_def pending_bytes_def)

lemma written_inv:
  assumes inv: "proxy_inv limit p" and pending: "(c, out, n) \<in> set (px_pending p)"
  shows "proxy_inv limit (write_bytes c out n p)"
proof -
  let ?q = "p\<lparr>px_pending := remove1 (c, out, n) (px_pending p)\<rparr>"
  have "0 \<le> n" and rest: "list_all (\<lambda>(c, out, n). 0 \<le> n \<and> admitted (px_next p) c) (px_pending ?q)"
    using inv pending set_remove1_subset [of "(c, out, n)" "px_pending p"] by (fastforce simp: proxy_inv_def list_all_iff)+
  moreover have "pending_bytes True ?q = pending_bytes True p - (if out then n else 0)"
    and "pending_bytes False ?q = pending_bytes False p - (if out then 0 else n)" using pending_bytes_remove [OF pending] by simp_all
  ultimately have "proxy_inv limit ?q" and "out \<Longrightarrow> proxy_inv limit (?q\<lparr>px_sent := px_sent p + n\<rparr>)"
    and "\<not> out \<Longrightarrow> proxy_inv limit (?q\<lparr>px_received := px_received p + n\<rparr>)"
    using inv by (simp_all add: proxy_inv_def within_allowance_def) auto
  then show ?thesis by (simp add: write_bytes_def Let_def written_log_inv)
qed

lemma allow_inv: "proxy_inv limit p \<Longrightarrow> AllowUntil now deadline p = Inr p' \<Longrightarrow> proxy_inv limit p'"
  by (auto simp: AllowUntil_def Let_def proxy_inv_def pending_bytes_def)

lemma proxy_step_inv: "proxy_step opened p p' \<Longrightarrow> proxy_inv limit p \<Longrightarrow> proxy_inv limit p'"
proof (induction rule: proxy_step.induct)
  case (exhausted p)
  then show ?case by (simp add: exhaust_def proxy_inv_def pending_bytes_def)
next
  case (close p)
  then show ?case by (simp add: proxy_Close_def proxy_inv_def pending_bytes_def)
next
  case (finished p i)
  show ?case using finished by (rule fewer_carriers_inv) (auto simp: proxy_done_def live_carriers split: carrier.splits)
next
  case (conn_closed p c)
  have "live p d" if "live (close_conn c p) d" for d using that
    by (cases d) (auto simp: close_conn_def, metis (full_types))
  with conn_closed show ?case by (rule fewer_carriers_inv) (simp_all add: close_conn_def)
next
  case (untunnel p c)
  show ?case using untunnel(2) by (rule fewer_carriers_inv) (auto simp: untrack_def live_carriers split: carrier.splits)
qed (auto simp: Freeze_def window_ends_def intro: freeze_inv allow_inv begin_inv track_inv take_inv written_inv)

definition proxy_init :: "net_lib \<Rightarrow> int \<Rightarrow> ScopedProxy \<Rightarrow> bool" where
  "proxy_init N limit p \<longleftrightarrow> (\<exists>policy origin expires multiple now. newProxy N policy origin expires limit multiple now = Inr p)"

interpretation px: invariant_system "proxy_init N limit" any_step "proxy_inv limit" for N limit
proof
  fix p
  assume "proxy_init N limit p"
  then obtain policy origin expires multiple now where new: "newProxy N policy origin expires limit multiple now = Inr p"
    by (auto simp: proxy_init_def)
  then show "proxy_inv limit p"
    by (cases "ValidateURL N policy origin")
      (auto simp: newProxy_def proxy_inv_def pending_bytes_def within_allowance_def maxProxyResponseBytes_def)
qed (auto simp: any_step_def intro: proxy_step_inv)

section \<open>Properties\<close>

text \<open>What a frozen proxy may still do: finish the plain requests it had admitted.\<close>

definition only_plain :: "ScopedProxy \<Rightarrow> ScopedProxy \<Rightarrow> bool" where
  "only_plain p p' \<longleftrightarrow>
     px_next p' = px_next p \<and> (\<exists>new. px_written p' = px_written p @ new \<and> (\<forall>(c, out, n) \<in> set new. \<exists>i \<le> px_next p. c = Request i))"

lemma only_plain_refl: "px_next p' = px_next p \<Longrightarrow> px_written p' = px_written p \<Longrightarrow> only_plain p p'"
  by (simp add: only_plain_def)

lemma only_plain_trans:
  assumes "only_plain p q" and "only_plain q r"
  shows "only_plain p r"
proof -
  obtain new new' where "px_written q = px_written p @ new" "px_written r = px_written q @ new'"
    and "\<forall>(c, out, n) \<in> set new. \<exists>i \<le> px_next p. c = Request i" "\<forall>(c, out, n) \<in> set new'. \<exists>i \<le> px_next q. c = Request i"
    using assms unfolding only_plain_def by blast
  with assms show ?thesis unfolding only_plain_def by (intro conjI exI [of _ "new @ new'"]) auto
qed

lemma frozen_write:
  assumes "proxy_inv limit p" and "px_frozen p" and "(c, out, n) \<in> set (px_pending p)"
  shows "only_plain p (write_bytes c out n p)"
proof (cases c)
  case (Request i)
  then have "i \<le> px_next p" using assms(1,3) by (auto simp: proxy_inv_def list_all_iff)
  then show ?thesis using Request by (auto simp: only_plain_def write_bytes_def conn_open_def Let_def)
next
  case (Tunnel t)
  moreover have "\<not> live p c" using assms(1,2) by (simp add: proxy_inv_def)
  ultimately have "\<not> conn_open p c" by (simp add: conn_open_def)
  then show ?thesis by (simp add: only_plain_def write_bytes_def Let_def)
qed

lemma frozen_step:
  assumes "proxy_step opened p p'" and "proxy_inv limit p" and "px_frozen p" and "\<not> opened \<or> px_exhausted p \<or> px_closed p"
  shows "px_frozen p' \<and> only_plain p p'"
  using assms
proof cases
  case (written c out n)
  then show ?thesis using frozen_write assms(2,3) by (auto simp: write_bytes_def Let_def)
qed (auto simp: Freeze_def exhaust_def AllowUntil_def Let_def window_ends_def proxy_Close_def proxy_begin_def proxy_done_def track_def
  close_conn_def untrack_def take_bytes_def only_plain_refl split: sum.splits if_splits)

lemma ended_step:
  assumes "any_step p p'"
  shows "px_exhausted p \<Longrightarrow> px_exhausted p'" and "px_closed p \<Longrightarrow> px_closed p'"
  using assms unfolding any_step_def
  by (auto elim!: proxy_step.cases simp: Freeze_def freezeLocked_def exhaust_def AllowUntil_def Let_def window_ends_def proxy_Close_def
    proxy_begin_def proxy_done_def track_def close_conn_def untrack_def take_bytes_def write_bytes_def split: sum.splits if_splits)

text \<open>C20. A frozen proxy opens nothing and carries no tunnel: in every interleaving, from the moment it is frozen until a new
  window is opened, no request is admitted, every request of it is cancelled and every tunnel closed, and not a byte crosses a
  tunnel in either direction. What may still be written belongs to plain requests admitted before, whose handlers do not look
  at the cancellation.\<close>

theorem frozen_proxy_carries_no_tunnel:
  assumes "newProxy N policy origin expires limit multiple now = Inr p0" and "any_step\<^sup>*\<^sup>* p0 p" and "px_frozen p"
    and "(proxy_step False)\<^sup>*\<^sup>* p p'"
  shows "px_frozen p' \<and> (\<forall>c. \<not> live p' c) \<and> px_next p' = px_next p \<and>
    (\<exists>new. px_written p' = px_written p @ new \<and> (\<forall>(c, out, n) \<in> set new. \<exists>i \<le> px_next p. c = Request i))"
proof -
  have inv: "proxy_inv limit p" using assms(1,2) px.inv_reach [of N limit] unfolding proxy_init_def by blast
  from assms(4) have "proxy_inv limit p' \<and> px_frozen p' \<and> only_plain p p'"
  proof (induction rule: rtranclp_induct)
    case base
    then show ?case using inv assms(3) by (simp add: only_plain_refl)
  next
    case (step y z)
    then show ?case
      using frozen_step [OF step(2), of limit] proxy_step_inv [OF step(2), of limit] only_plain_trans [of p y z] by simp
  qed
  then show ?thesis unfolding only_plain_def by (simp add: proxy_inv_def)
qed

text \<open>C30. Exhaustion and closing are final: once an allowance is spent or the proxy is closed, no sequence of operations admits
  another request or moves a byte through a tunnel, and every later attempt to open a window or to begin a request is refused.\<close>

theorem exhausted_proxy_never_reopens:
  assumes "newProxy N policy origin expires limit multiple now = Inr p0" and "any_step\<^sup>*\<^sup>* p0 p" and "px_exhausted p \<or> px_closed p"
    and "any_step\<^sup>*\<^sup>* p p'"
  shows "AllowUntil now' deadline p' = Inl ErrEgressDenied \<and> proxy_begin now' p' = (None, p') \<and> px_next p' = px_next p \<and>
    (\<exists>new. px_written p' = px_written p @ new \<and> (\<forall>(c, out, n) \<in> set new. \<exists>i \<le> px_next p. c = Request i))"
proof -
  have inv: "proxy_inv limit p" using assms(1,2) px.inv_reach [of N limit] unfolding proxy_init_def by blast
  then have frozen: "px_frozen p" using assms(3) by (auto simp: proxy_inv_def)
  from assms(4)
  have "proxy_inv limit p' \<and> px_frozen p' \<and> (px_exhausted p' \<or> px_closed p') \<and> only_plain p p'"
  proof (induction rule: rtranclp_induct)
    case base
    show ?case using inv frozen assms(3) by (simp add: only_plain_refl)
  next
    case (step y z)
    then obtain opened where "proxy_step opened y z" by (auto simp: any_step_def)
    moreover have "proxy_inv limit y" "px_frozen y" "px_exhausted y \<or> px_closed y" using step by auto
    ultimately show ?case
      using step frozen_step [of opened y z limit] proxy_step_inv ended_step [OF step(2)] only_plain_trans [of p y z] by auto
  qed
  then show ?thesis unfolding only_plain_def by (auto simp: AllowUntil_def proxy_begin_def Let_def)
qed

text \<open>C31. The ceilings of a context hold in every interleaving: it never sends more than its allowance, never receives more than
  twenty mebibytes, never admits more than 2048 requests and never has more than 64 in flight.\<close>

theorem proxy_traffic_is_bounded:
  assumes "newProxy N policy origin expires limit multiple now = Inr p0" and "any_step\<^sup>*\<^sup>* p0 p"
  shows "px_sent p \<le> max 0 limit \<and> px_received p \<le> 20971520 \<and> px_next p \<le> 2048 \<and> length (px_requests p) \<le> 64"
proof -
  have inv: "proxy_inv limit p" using assms px.inv_reach [of N limit] unfolding proxy_init_def by blast
  have nonneg: "0 \<le> pending_bytes out p" for out
    unfolding pending_bytes_def using inv by (intro sum_list_nonneg) (fastforce simp: proxy_inv_def list_all_iff)
  show ?thesis using inv nonneg [of True] nonneg [of False]
    by (auto simp: proxy_inv_def within_allowance_def maxProxyResponseBytes_def maxProxyRequests_def maxProxyInflight_def)
qed

end
