(* ===== verification/EgressExamples.thy ===== *)
theory EgressExamples
  imports EgressProxy
begin

text \<open>A public site behind the network boundary, and a browser context that is frozen while a request is being written.\<close>

definition site :: URL where
  "site = \<lparr>u_Scheme = ''https'', u_Opaque = [], u_User = False, u_Host = ''example.com'', u_Path = ''/'', u_EscapedPath = ''/'',
           u_RawQuery = [], u_Fragment = []\<rparr>"

definition site_net :: net_lib where
  "site_net = \<lparr>nl_url = (\<lambda>s. if s = ''https://example.com/'' then Some site else None), nl_addr = (\<lambda>_. None), nl_lower = (\<lambda>s. s)\<rparr>"

definition open_policy :: EgressPolicy where
  "open_policy = \<lparr>ey_AllowedDomains = [], ey_AllowedPorts = []\<rparr>"

definition site_answers :: "string \<Rightarrow> go_err + answer_ip list" where
  "site_answers host = Inr [([93, 184, 216, 34], [])]"

definition site_ip :: Addr where
  "site_ip = V4 0x5DB8D822"

lemma site_valid: "ValidateURL site_net open_policy ''https://example.com/'' = Inr site"
  by code_simp

lemma site_dialled: "dial site_net open_policy site_answers (\<lambda>_. True) (Hostname site) = Inr site_ip"
  by code_simp

theorem accepted_url_dials_public_address_witness:
  "ValidateURL site_net open_policy ''https://example.com/'' = Inr site \<and>
   dial site_net open_policy site_answers (\<lambda>_. True) (Hostname site) = Inr site_ip \<and>
   tunnelled4 site_ip = Some 0x5DB8D822 \<and> \<not> reserved_ipv4 0x5DB8D822"
proof -
  have "\<forall>s w z. nl_addr site_net s = Some (V6 w z) \<longrightarrow> z = [] \<or> CHR ''%'' \<in> set s" by (simp add: site_net_def)
  from accepted_url_dials_public_address [OF site_valid site_dialled this] site_valid site_dialled
  show ?thesis by (simp add: site_ip_def)
qed

definition context0 :: ScopedProxy where
  "context0 =
     \<lparr>px_policy = open_policy, px_origin = None, px_expires = 1000, px_counter = 500, px_inbound = maxProxyResponseBytes,
      px_tunnels = [], px_requests = [], px_epoch = 0, px_next = 0, px_frozen = False, px_closed = False, px_exhausted = False,
      px_window = None, px_pending = [], px_written = [], px_sent = 0, px_received = 0\<rparr>"

lemma context_new: "newProxy site_net open_policy ''https://example.com/'' 1000 500 True 10 = Inr context0"
  unfolding newProxy_def site_valid by (simp add: site_def context0_def)

text \<open>A request opens a tunnel whose writer takes three hundred bytes; the context is frozen before it writes them.\<close>

definition context1 :: ScopedProxy where
  "context1 = Freeze (take_bytes (Tunnel 7) True 300 (snd (track 7 0 (snd (proxy_begin 20 context0)))))"

lemma context1_reached: "any_step\<^sup>*\<^sup>* context0 context1"
proof -
  let ?p1 = "snd (proxy_begin 20 context0)" and ?p2 = "snd (track 7 0 (snd (proxy_begin 20 context0)))"
  have "any_step context0 ?p1"
    by (rule any_stepI, rule proxy_step.request [of 20 _ "fst (proxy_begin 20 context0)"]) simp
  moreover have "any_step ?p1 ?p2" by (rule any_stepI, rule proxy_step.tunnel [of 7 0 _ "fst (track 7 0 ?p1)"]) simp
  moreover have "any_step ?p2 (take_bytes (Tunnel 7) True 300 ?p2)" by (rule any_stepI, rule proxy_step.taken) simp
  moreover have "any_step (take_bytes (Tunnel 7) True 300 ?p2) context1"
    unfolding context1_def by (rule any_stepI, rule proxy_step.freeze)
  ultimately show ?thesis by (meson converse_rtranclp_into_rtranclp rtranclp.rtrancl_refl)
qed

lemmas context_defs =
  context0_def context1_def Freeze_def freezeLocked_def take_bytes_def Take_def proxy_begin_def track_def maxProxyRequests_def
  maxProxyInflight_def

lemma context1_pending:
  "px_frozen context1" "(Tunnel 7, True, 300) \<in> set (px_pending context1)" "px_written context1 = []" "px_next context1 = 1"
  by (simp_all add: context_defs)

theorem frozen_proxy_carries_no_tunnel_witness:
  "any_step\<^sup>*\<^sup>* context0 context1 \<and> (Tunnel 7, True, 300) \<in> set (px_pending context1) \<and>
   Tunnel 7 \<notin> fst ` set (px_written (write_bytes (Tunnel 7) True 300 context1))"
proof -
  have "(proxy_step False)\<^sup>*\<^sup>* context1 (write_bytes (Tunnel 7) True 300 context1)"
    using proxy_step.written [OF context1_pending(2)] by blast
  from frozen_proxy_carries_no_tunnel [OF context_new context1_reached context1_pending(1) this]
  show ?thesis using context1_reached context1_pending by fastforce
qed

theorem exhausted_proxy_never_reopens_witness:
  "px_exhausted (exhaust context1) \<and> px_next (exhaust context1) = 1 \<and> AllowUntil 30 900 (exhaust context1) = Inl ErrEgressDenied \<and>
   fst (proxy_begin 30 (exhaust context1)) = None"
proof -
  have "any_step context1 (exhaust context1)" by (rule any_stepI, rule proxy_step.exhausted)
  with context1_reached have "any_step\<^sup>*\<^sup>* context0 (exhaust context1)" by simp
  moreover have ended: "px_exhausted (exhaust context1)" "px_next (exhaust context1) = 1"
    using context1_pending by (simp_all add: exhaust_def)
  ultimately show ?thesis
    using exhausted_proxy_never_reopens [OF context_new, of "exhaust context1" "exhaust context1" 30 900] by simp
qed

theorem proxy_traffic_is_bounded_witness:
  "any_step\<^sup>*\<^sup>* context0 context1 \<and> px_sent context1 \<le> 500 \<and> px_next context1 \<le> 2048"
  using proxy_traffic_is_bounded [OF context_new context1_reached] context1_reached by simp

end
