(* ===== verification/MandateProps.thy ===== *)
theory MandateProps
  imports Mandate
begin

text \<open>
  What a mandate covers: the path of a resource lies under the prefix of a scope element by element and has no
  dot elements, and a deadline is one until which the mandate is in force at every instant.
\<close>

section \<open>Elements of a path\<close>

fun segments :: "string \<Rightarrow> string list" where
  "segments [] = [[]]"
| "segments (c # cs) = (if c = CHR ''/'' then [] # segments cs else (c # hd (segments cs)) # tl (segments cs))"

definition elements :: "string \<Rightarrow> string list" where
  "elements p = filter (\<lambda>s. s \<noteq> []) (segments p)"

lemma segments_not_Nil [simp]: "segments p \<noteq> []"
  by (cases p) auto

lemma segments_append: "segments (a @ CHR ''/'' # b) = segments a @ segments b"
  by (induction a) (auto simp: hd_append tl_append split: list.splits)

lemma elements_append: "elements (a @ CHR ''/'' # b) = elements a @ elements b"
  by (simp add: elements_def segments_append)

lemma elements_Nil [simp]: "elements [] = []"
  by (simp add: elements_def)

lemma elements_slash [simp]: "elements (CHR ''/'' # p) = elements p"
  by (simp add: elements_def)

lemma segments_name: "CHR ''/'' \<notin> set s \<Longrightarrow> segments s = [s]"
  by (induction s) auto

lemma HasSuffix_slash: "HasSuffix p ''/'' \<longleftrightarrow> (\<exists>q. p = q @ ''/'')"
  by (cases p rule: rev_cases) (auto simp: HasSuffix_def HasPrefix_def)

lemma elements_TrimSuffix [simp]: "elements (TrimSuffix p ''/'') = elements p"
proof (cases "HasSuffix p ''/''")
  case True
  then obtain q where "p = q @ ''/''" by (auto simp: HasSuffix_slash)
  then show ?thesis using elements_append [of q "[]"] True by (simp add: TrimSuffix_def)
qed (simp add: TrimSuffix_def)

section \<open>Clean paths\<close>

definition plain :: "string \<Rightarrow> bool" where
  "plain e \<longleftrightarrow> e \<noteq> [] \<and> e \<noteq> ''.'' \<and> e \<noteq> ''..'' \<and> CHR ''/'' \<notin> set e"

text \<open>The buffer of a rooted path holds plain elements.\<close>

definition buffer :: "string list \<Rightarrow> string" where
  "buffer es = rev (CHR ''/'' # Join es ''/'')"

lemma Join_snoc: "es \<noteq> [] \<Longrightarrow> Join (es @ [e]) sep = Join es sep @ sep @ e"
  by (induction es sep rule: Join.induct) auto

lemma buffer_Nil [simp]: "buffer [] = ''/''"
  by (simp add: buffer_def)

lemma buffer_snoc: "buffer (es @ [e]) = rev e @ (if es = [] then ''/'' else CHR ''/'' # buffer es)"
  by (simp add: buffer_def Join_snoc)

lemma drop_element_name: "CHR ''/'' \<notin> set xs \<Longrightarrow> dotdot \<le> length out \<Longrightarrow> drop_element dotdot (xs @ CHR ''/'' # out) = out"
  by (induction xs) auto

lemma drop_element_first: "CHR ''/'' \<notin> set xs \<Longrightarrow> xs \<noteq> [] \<Longrightarrow> drop_element 1 (xs @ ''/'') = ''/''"
proof (induction xs)
  case (Cons c xs)
  then show ?case by (cases "xs = []") auto
qed simp

lemma drop_element_buffer:
  assumes "plain e"
  shows "drop_element 1 (buffer (es @ [e])) = buffer es"
proof (cases "es = []")
  case True
  then show ?thesis using assms drop_element_first [of "rev e"] by (simp add: buffer_def plain_def)
next
  case False
  have "1 \<le> length (buffer es)" by (simp add: buffer_def)
  with False show ?thesis using assms drop_element_name [of "rev e" 1 "buffer es"] by (simp add: buffer_snoc plain_def)
qed

lemma length_buffer: "list_all plain es \<Longrightarrow> 1 < length (buffer es) \<longleftrightarrow> es \<noteq> []"
  by (cases es rule: rev_cases) (auto simp: buffer_snoc plain_def Suc_lessI)

lemma takeWhile_name:
  assumes "c \<noteq> CHR ''/''" and "\<not> (c = CHR ''.'' \<and> (rest = [] \<or> hd rest = CHR ''/''))"
    and "\<not> (c = CHR ''.'' \<and> HasPrefix rest ''.'' \<and> (tl rest = [] \<or> hd (tl rest) = CHR ''/''))"
  shows "plain (takeWhile (\<lambda>d. d \<noteq> CHR ''/'') (c # rest))"
proof -
  have "CHR ''/'' \<notin> set (takeWhile (\<lambda>d. d \<noteq> CHR ''/'') (c # rest))" by (auto dest: set_takeWhileD)
  with assms show ?thesis
    by (cases rest; cases "tl rest") (auto simp: plain_def HasPrefix_def split: if_splits)
qed

lemma clean_loop_buffer:
  "list_all plain es \<Longrightarrow> \<exists>es'. list_all plain es' \<and> clean_loop True 1 (buffer es) rest = buffer es'"
proof (induction "length rest" arbitrary: es rest rule: less_induct)
  case less
  show ?case
  proof (cases rest)
    case Nil
    then show ?thesis using less by auto
  next
    case (Cons c cs)
    have shorter: "\<exists>es'. list_all plain es' \<and> clean_loop True 1 (buffer fs) r = buffer es'" if "list_all plain fs" "length r \<le> length cs" for fs r
      using less(1) [of r fs] that Cons by simp
    consider (slash) "c = CHR ''/''" | (dot) "c = CHR ''.'' \<and> (cs = [] \<or> hd cs = CHR ''/'')"
      | (dots) "c = CHR ''.'' \<and> HasPrefix cs ''.'' \<and> (tl cs = [] \<or> hd (tl cs) = CHR ''/'')" "\<not> (cs = [] \<or> hd cs = CHR ''/'')"
      | (name) "c \<noteq> CHR ''/''" "\<not> (c = CHR ''.'' \<and> (cs = [] \<or> hd cs = CHR ''/''))"
          "\<not> (c = CHR ''.'' \<and> HasPrefix cs ''.'' \<and> (tl cs = [] \<or> hd (tl cs) = CHR ''/''))" by blast
    then show ?thesis
    proof cases
      case dots
      show ?thesis
      proof (cases es rule: rev_cases)
        case Nil
        then show ?thesis using dots shorter [of "[]" "tl cs"] Cons by (simp add: clean_loop.simps(2) buffer_def)
      next
        case (snoc fs e)
        then have "1 < length (buffer es)" "drop_element 1 (buffer es) = buffer fs" "list_all plain fs"
          using less(2) length_buffer [of es] drop_element_buffer [of e fs] by auto
        then show ?thesis using dots shorter [of fs "tl cs"] Cons by (simp add: clean_loop.simps(2))
      qed
    next
      case name
      let ?e = "takeWhile (\<lambda>d. d \<noteq> CHR ''/'') (c # cs)"
      have "plain ?e" using takeWhile_name [OF name] .
      then have "list_all plain (es @ [?e])" using less(2) by simp
      moreover have "clean_loop True 1 (buffer es) rest = clean_loop True 1 (buffer (es @ [?e])) (drop (length ?e) (c # cs))"
        using name Cons less(2) length_buffer [of es] by (auto simp: clean_loop.simps(2) Let_def buffer_snoc)
      moreover have "length (drop (length ?e) (c # cs)) \<le> length cs" using name by simp
      ultimately show ?thesis using shorter by metis
    qed (use shorter [OF less(2), of cs] Cons in \<open>auto simp: clean_loop.simps(2)\<close>)
  qed
qed

lemma elements_plain: "plain e \<Longrightarrow> elements e = [e]"
  by (simp add: elements_def segments_name plain_def)

lemma elements_Join: "list_all plain es \<Longrightarrow> elements (Join es ''/'') = es"
proof (induction es "''/''" rule: Join.induct)
  case (3 e f es)
  then show ?case using elements_append [of e "Join (f # es) ''/''"] by (simp add: elements_plain)
qed (simp_all add: elements_plain)

lemma Clean_elements:
  assumes "HasPrefix p ''/''"
  shows "list_all plain (elements (Clean p))"
proof -
  obtain q where p: "p = CHR ''/'' # q" using assms by (cases p) (auto simp: HasPrefix_def)
  obtain es where "list_all plain es" "clean_loop True 1 ''/'' q = buffer es"
    using clean_loop_buffer [of "[]" q] by auto
  then show ?thesis using p by (simp add: Clean_def buffer_def elements_Join)
qed

text \<open>C22. A scope of a mandate is never widened: a resource within it has the origin of the scope and no user, and, its path
  having no dot elements, the elements of the scope's prefix are the first elements of the path. The parser of URLs gives a
  URL with a host an empty or a rooted path.\<close>

theorem resource_scope_is_not_widened:
  assumes "resourceWithin L s raw" and "\<not> HasPrefix (rs_Origin s) ''tool:''"
    and rooted: "\<forall>t u. al_url L t = Some u \<longrightarrow> u_Host u \<noteq> [] \<longrightarrow> u_Path u = [] \<or> HasPrefix (u_Path u) ''/''"
  shows "\<exists>u. al_url L (without_context raw) = Some u \<and> \<not> u_User u \<and> al_lower L (u_Scheme u @ ''://'' @ u_Host u) = al_lower L (rs_Origin s) \<and>
    ''.'' \<notin> set (elements (u_Path u)) \<and> ''..'' \<notin> set (elements (u_Path u)) \<and>
    (\<exists>rest. elements (u_Path u) = elements (rs_PathPrefix s) @ rest)"
proof -
  let ?pre = "TrimSuffix (rs_PathPrefix s) ''/''"
  obtain u p where u: "al_url L (without_context raw) = Some u" "\<not> u_User u" "u_Host u \<noteq> []"
      "al_lower L (u_Scheme u @ ''://'' @ u_Host u) = al_lower L (rs_Origin s)"
    and p: "p = (if u_Path u = [] then ''/'' else u_Path u)" "\<not> ambiguous_path L u p" "?pre = [] \<or> p = ?pre \<or> HasPrefix p (?pre @ ''/'')"
    using assms(1,2) by (auto simp: resourceWithin_def Let_def split: option.splits if_splits)
  have same: "elements (u_Path u) = elements p" using p(1) elements_slash [of "[]"] by auto
  have "HasPrefix p ''/''" using rooted u(1,3) p(1) by (auto simp: HasPrefix_def)
  moreover have "p = ''/'' \<or> Clean p = TrimSuffix p ''/''" using p(2) by (auto simp: ambiguous_path_def Let_def)
  ultimately have "list_all plain (elements p)"
    using Clean_elements [of p] elements_slash [of "[]"] by (metis elements_Nil elements_TrimSuffix list.pred_inject(1))
  then have "''.'' \<notin> set (elements p)" "''..'' \<notin> set (elements p)" by (auto simp: list_all_iff plain_def)
  moreover have "\<exists>rest. elements p = elements (rs_PathPrefix s) @ rest"
  proof -
    have "\<exists>rest. elements p = elements ?pre @ rest"
      using p(3)
    proof (elim disjE)
      assume "HasPrefix p (?pre @ ''/'')"
      then have "p = ?pre @ CHR ''/'' # drop (length ?pre + 1) p"
        unfolding HasPrefix_def by (metis append.assoc append_Cons append_Nil append_take_drop_id length_append One_nat_def list.size(3,4) add_0)
      then show ?thesis using elements_append by metis
    qed auto
    then show ?thesis by simp
  qed
  ultimately show ?thesis using u same by metis
qed

section \<open>Deadlines\<close>

text \<open>
  The offsets of a location are whole minutes, and change at whole minutes only, in an interval of seconds. Local mean times of
  the nineteenth and twentieth century are not; every zone of the IANA database is from 8 January 1972 on.
\<close>

definition whole_minutes :: "int \<Rightarrow> int \<Rightarrow> location \<Rightarrow> bool" where
  "whole_minutes a b loc \<longleftrightarrow> (\<forall>s \<in> {a..b}. loc s mod 60 = 0 \<and> loc s = loc (s - s mod 60))"

lemma whole_minutes_mono: "whole_minutes a b loc \<Longrightarrow> c \<le> b \<Longrightarrow> whole_minutes a c loc"
  unfolding whole_minutes_def by (meson atLeastAtMost_iff order_trans)

lemma minute_floor:
  assumes "whole_minutes a b loc" and "t div second \<in> {a..b}"
  shows "in_loc loc t div minute = in_loc loc (t - t mod minute) div minute"
proof -
  have "t div second div 60 = t div minute" by (simp add: zdiv_zmult2_eq [symmetric])
  moreover have "t - t mod minute = minute * (t div minute)" by (simp add: minus_mod_eq_mult_div)
  ultimately have floor: "(t - t mod minute) div second = t div second - t div second mod 60"
    by (simp add: minus_mod_eq_mult_div)
  let ?off = "loc (t div second)"
  have "loc ((t - t mod minute) div second) = ?off" unfolding floor using assms by (metis whole_minutes_def)
  moreover obtain k where "?off = 60 * k" using assms by (metis whole_minutes_def mod_0_imp_dvd dvdE)
  moreover have "(t - t mod minute + minute * k) div minute = (t + minute * k) div minute"
    by (simp add: div_add1_eq minus_mod_eq_mult_div)
  ultimately show ?thesis by (simp add: in_loc_def)
qed

lemma mod_day_minute: "x mod day div minute = x div minute mod 1440" "x div day = x div minute div 1440" for x :: int
proof -
  have "x mod (minute * 1440) = minute * (x div minute mod 1440) + x mod minute" by (rule zmod_zmult2_eq) simp
  then show "x mod day div minute = x div minute mod 1440" by simp
  have "x div (minute * 1440) = x div minute div 1440" by (rule zdiv_zmult2_eq) simp
  then show "x div day = x div minute div 1440" by simp
qed

lemma same_minute_same_hours:
  assumes "in_loc loc t div minute = in_loc loc u div minute"
  shows "withinHours h loc t = withinHours h loc u"
  unfolding withinHours_def local_minute_def mod_day_minute assms ..

lemma hours_end_within:
  assumes "hours_end within n b = Some e"
  shows "\<not> within e \<and> b \<le> e \<and> (\<exists>k. e = b + int k * minute) \<and> (\<forall>k. 0 \<le> k \<longrightarrow> b + k * minute < e \<longrightarrow> within (b + k * minute))"
  using assms
proof (induction within n b rule: hours_end.induct)
  case (2 within n b)
  show ?case
  proof (cases "within b")
    case True
    then have IH: "\<not> within e \<and> b + minute \<le> e \<and> (\<exists>k. e = b + minute + int k * minute) \<and>
        (\<forall>k. 0 \<le> k \<longrightarrow> b + minute + k * minute < e \<longrightarrow> within (b + minute + k * minute))" using 2 by simp
    have "within (b + k * minute)" if "0 \<le> k" "b + k * minute < e" for k
    proof (cases "k = 0")
      case False
      have eq: "b + minute + (k - 1) * minute = b + k * minute" by (simp add: left_diff_distrib)
      have "0 \<le> k - 1" using False that by simp
      then show ?thesis using IH that(2) unfolding eq [symmetric] by blast
    qed (use True in simp)
    moreover have "\<exists>k. e = b + int k * minute" using IH by (metis add.assoc distrib_right mult_1 of_nat_1 of_nat_add)
    ultimately show ?thesis using IH by auto
  next
    case False
    then show ?thesis using 2 by (auto intro: exI [of _ 0] simp: mult_less_0_iff)
  qed
qed simp

lemma earliest_bound: "earliest d ts = Inr d' \<Longrightarrow> d' \<le> d \<and> (\<forall>t \<in> set ts. d' \<le> t)"
  by (induction d ts rule: earliest.induct) (auto split: if_splits)

lemma AuthorityDeadline_Inr:
  assumes "AuthorityDeadline L m g at = Inr d"
  obtains d0 where "earliest (m_ExpiresAt m) (m_BudgetDeadline m # gp_ExpiresAt g # map gp_ExpiresAt (gp_Policies g)) = Inr d0" "d \<le> d0"
    and "m_Hours m = None \<or> (\<exists>h loc e. m_Hours m = Some h \<and> al_tz L (ah_Timezone h) = Some loc \<and> withinHours h loc at \<and>
      hours_end (withinHours h loc) (48 * 60) (at - at mod minute + minute) = Some e \<and> d \<le> e)"
  using assms unfolding AuthorityDeadline_def bindE_Inr_iff failif_Inr_iff
  by (cases "m_Hours m") (auto simp del: hours_end.simps earliest.simps split: if_splits)

lemma hours_until_end:
  assumes "whole_minutes (at div second) (t div second) loc" and "withinHours h loc at" and "hours_end (withinHours h loc) n (at - at mod minute + minute) = Some e"
    and "at \<le> t" and "t < e"
  shows "withinHours h loc t"
proof -
  let ?b = "at - at mod minute + minute" and ?f = "t - t mod minute"
  note walk = hours_end_within [OF assms(3)]
  have "at div second \<le> t div second" using assms(4) by (simp add: zdiv_mono1)
  then have floor: "withinHours h loc u = withinHours h loc (u - u mod minute)" if "u = at \<or> u = t" for u
    using that by (intro same_minute_same_hours minute_floor [OF assms(1)]) auto
  have f: "?f = minute * (t div minute)" and b: "?b = minute * (at div minute) + minute" by (simp_all add: minus_mod_eq_mult_div)
  have order: "at div minute \<le> t div minute" using assms(4) by (simp add: zdiv_mono1)
  show ?thesis
  proof (cases "t div minute = at div minute")
    case True
    then have "?f = at - at mod minute" by (simp add: minus_mod_eq_mult_div)
    then show ?thesis using floor [of t] floor [of at] assms(2) by simp
  next
    case False
    let ?k = "t div minute - at div minute - 1"
    have "?b + ?k * minute = ?f" unfolding f b by (simp add: algebra_simps)
    moreover have "0 \<le> ?k" using order False by simp
    moreover have "?f < e" using assms(5) pos_mod_sign [of minute t] by linarith
    ultimately have "withinHours h loc ?f" using walk by metis
    then show ?thesis using floor [of t] by simp
  qed
qed

text \<open>C23. A deadline is safe: until it the mandate is within its active hours at every instant, and neither the mandate, its budget
  period, its goal nor any policy of the purpose has run out. Between the two instants the zone of the active hours has
  whole-minute offsets.\<close>

theorem authority_deadline_is_in_force:
  assumes "AuthorityDeadline L m g at = Inr d" and zones: "\<forall>h loc. m_Hours m = Some h \<and> al_tz L (ah_Timezone h) = Some loc \<longrightarrow> whole_minutes (at div second) (d div second) loc"
    and "at \<le> t" and "t < d"
  shows "WithinActiveHours L (m_Hours m) t \<and> t < m_ExpiresAt m \<and> t < m_BudgetDeadline m \<and> t < gp_ExpiresAt g \<and>
    (\<forall>p \<in> set (gp_Policies g). t < gp_ExpiresAt p)"
proof -
  obtain d0 where d0: "earliest (m_ExpiresAt m) (m_BudgetDeadline m # gp_ExpiresAt g # map gp_ExpiresAt (gp_Policies g)) = Inr d0" "d \<le> d0"
    and hours: "m_Hours m = None \<or> (\<exists>h loc e. m_Hours m = Some h \<and> al_tz L (ah_Timezone h) = Some loc \<and> withinHours h loc at \<and>
      hours_end (withinHours h loc) (48 * 60) (at - at mod minute + minute) = Some e \<and> d \<le> e)" using assms(1) by (rule AuthorityDeadline_Inr)
  have "WithinActiveHours L (m_Hours m) t"
    using hours
  proof (elim disjE exE conjE)
    fix h loc e
    assume "m_Hours m = Some h" "al_tz L (ah_Timezone h) = Some loc" "withinHours h loc at"
      "hours_end (withinHours h loc) (48 * 60) (at - at mod minute + minute) = Some e" "d \<le> e"
    moreover from this have "whole_minutes (at div second) (t div second) loc"
      using zones zdiv_mono1 [of t d second] assms(4) by (auto intro: whole_minutes_mono)
    ultimately show ?thesis
      using hours_until_end [of at t loc h "48 * 60" e] assms(3,4) by (simp add: WithinActiveHours_def del: hours_end.simps)
  qed (simp add: WithinActiveHours_def)
  moreover have "d0 \<le> m_ExpiresAt m \<and> (\<forall>x \<in> set (m_BudgetDeadline m # gp_ExpiresAt g # map gp_ExpiresAt (gp_Policies g)). d0 \<le> x)"
    using earliest_bound [OF d0(1)] .
  ultimately show ?thesis using d0(2) assms(4) by fastforce
qed

lemma hours_end_never: "(\<And>t. within t) \<Longrightarrow> hours_end within n b = None"
  by (induction n arbitrary: b) simp_all

text \<open>C39. A mandate for every hour of the week is unusable: with hours from 0 to 1440 on all seven days it is within its active
  hours at every instant, yet it never has a deadline.\<close>

theorem round_the_clock_mandate_has_no_deadline:
  assumes "m_Hours m = Some h" and "al_tz L (ah_Timezone h) = Some loc" and "ah_StartMinute h = 0" and "ah_EndMinute h = 1440"
    and "{0..6} \<subseteq> set (ah_Weekdays h)"
  shows "WithinActiveHours L (m_Hours m) at \<and> AuthorityDeadline L m g at = Inl ErrOwnerAuthority"
proof -
  have within: "withinHours h loc t" for t
  proof -
    have "weekday (in_loc loc t div day) \<in> set (ah_Weekdays h)" using assms(5) by (rule subsetD) (simp add: weekday_def)
    moreover have "0 \<le> local_minute loc t" "local_minute loc t < 1440" unfolding local_minute_def mod_day_minute by simp_all
    ultimately show ?thesis using assms(3,4) by (simp add: withinHours_def Let_def)
  qed
  have fails: "earliest d ts = Inl e \<Longrightarrow> e = ErrOwnerAuthority" for d ts e
    by (induction d ts rule: earliest.induct) (auto simp: bindE_def failif_def split: if_splits)
  have "hours_end (withinHours h loc) n b = None" for n b using within by (rule hours_end_never)
  then have "AuthorityDeadline L m g at = Inl ErrOwnerAuthority"
    unfolding AuthorityDeadline_def assms(1,2)
    by (cases "earliest (m_ExpiresAt m) (m_BudgetDeadline m # gp_ExpiresAt g # map gp_ExpiresAt (gp_Policies g))")
      (auto simp: assms(2) within simp del: earliest.simps dest: fails)
  then show ?thesis using within assms(1,2) by (simp add: WithinActiveHours_def)
qed

end
