(* ===== verification/MandateExamples.thy ===== *)
theory MandateExamples
  imports MandateProps
begin

text \<open>A mandate for one part of a shop, during office hours and round the clock.\<close>

definition shop_url :: "string \<Rightarrow> URL" where
  "shop_url p = \<lparr>u_Scheme = ''https'', u_Opaque = [], u_User = False, u_Host = ''shop.example'', u_Path = p, u_EscapedPath = p,
                 u_RawQuery = [], u_Fragment = []\<rparr>"

definition shop_lib :: auth_lib where
  "shop_lib =
     \<lparr>al_url = (\<lambda>s. if HasPrefix s ''https://shop.example/'' then Some (shop_url (drop 20 s))
                    else if s = ''https://shop.example'' then Some (shop_url []) else None),
      al_lower = (\<lambda>s. s), al_tz = (\<lambda>z. if z = ''UTC'' then Some (\<lambda>_. 0) else None), al_inspection = (\<lambda>_. None), al_external = (\<lambda>_. None),
      al_sso = (\<lambda>_. None), al_page_url = (\<lambda>_. []), al_catalog = (\<lambda>_. None), al_schedule = (\<lambda>_. None), al_credential = (\<lambda>_. None),
      al_message = (\<lambda>_. None)\<rparr>"

definition orders :: ResourceScope where
  "orders = \<lparr>rs_Origin = ''https://shop.example'', rs_PathPrefix = ''/orders/''\<rparr>"

definition office_hours :: ActiveHours where
  "office_hours = \<lparr>ah_Timezone = ''UTC'', ah_StartMinute = 540, ah_EndMinute = 1020, ah_Weekdays = [1, 2, 3, 4, 5]\<rparr>"

definition all_hours :: ActiveHours where
  "all_hours = \<lparr>ah_Timezone = ''UTC'', ah_StartMinute = 0, ah_EndMinute = 1440, ah_Weekdays = [0, 1, 2, 3, 4, 5, 6]\<rparr>"

definition shopping :: "ActiveHours \<Rightarrow> Mandate" where
  "shopping h =
     \<lparr>m_ScopeKind = ''owner_goal'', m_GoalID = ''goal'', m_GoalRevision = 1, m_Status = ''active'', m_Purpose = ''orders'',
      m_ResourceScopes = [orders], m_DenyTools = [], m_DenyResources = [], m_Privacy = ''local_only'',
      m_Budget = \<lparr>mb_ModelTurns = 10, mb_Tokens = 1000, mb_CostMicros = 0, mb_ExternalCalls = 5, mb_Children = 0, mb_ActiveMillis = 60000,
                  mb_EgressBytes = 0, mb_ProviderInputBytes = 0\<rparr>,
      m_BudgetDeadline = 20 * day, m_Hours = Some h, m_AllowInitiative = False, m_Intervention = [''effect_unknown''],
      m_Reporting = ''daily'', m_Extensions = [], m_Converters = [], m_Source = [], m_ID = ''mandate'', m_OwnerID = ''owner'',
      m_TaskID = [], m_TaskRevision = 0, m_ConstraintsRevision = 0, m_Revision = 1, m_Tools = [''browser.open''], m_Resources = [],
      m_Effects = [EffectRead], m_CredentialRefs = [], m_ExpiresAt = 30 * day, m_RevokedAt = None\<rparr>"

definition shop_goal :: GoalPolicy where
  "shop_goal = \<lparr>gp_ID = ''goal'', gp_OwnerID = ''owner'', gp_Kind = ''goal'', gp_Status = ''active'', gp_Revision = 1, gp_Title = ''orders'',
                gp_Purpose = ''orders'', gp_Constraints = [], gp_ExpiresAt = 25 * day, gp_Policies = []\<rparr>"

text \<open>Two minutes before five in the afternoon of the second Tuesday.\<close>

definition late :: instant where
  "late = 8 * day + 1018 * minute"

lemma shopping_valid: "ValidateOwnerMandate shop_lib (shopping office_hours) late = Inr ()" "ValidateOwnerMandate shop_lib (shopping all_hours) late = Inr ()"
  by code_simp+

lemma shop_deadline: "AuthorityDeadline shop_lib (shopping office_hours) shop_goal late = Inr (8 * day + 1020 * minute)"
  by code_simp

lemma order_within: "resourceWithin shop_lib orders ''https://shop.example/orders/7/''"
  by code_simp

theorem resource_scope_is_not_widened_witness:
  "resourceWithin shop_lib orders ''https://shop.example/orders/7/'' \<and>
   (\<exists>rest. elements ''/orders/7/'' = elements (rs_PathPrefix orders) @ rest) \<and> \<not> resourceWithin shop_lib orders ''https://shop.example/ordersx/7''"
proof -
  have "\<not> HasPrefix (rs_Origin orders) ''tool:''" by code_simp
  moreover have "HasPrefix s ''https://shop.example/'' \<Longrightarrow> drop 20 s = [] \<or> HasPrefix (drop 20 s) ''/''" for s
  proof -
    assume "HasPrefix s ''https://shop.example/''"
    then obtain t where "s = ''https://shop.example/'' @ t" unfolding HasPrefix_def by (metis append_take_drop_id)
    then show ?thesis by (simp add: HasPrefix_def)
  qed
  then have "\<forall>t u. al_url shop_lib t = Some u \<longrightarrow> u_Host u \<noteq> [] \<longrightarrow> u_Path u = [] \<or> HasPrefix (u_Path u) ''/''"
    by (auto simp: shop_lib_def shop_url_def)
  ultimately obtain u where "al_url shop_lib (without_context ''https://shop.example/orders/7/'') = Some u"
    "\<exists>rest. elements (u_Path u) = elements (rs_PathPrefix orders) @ rest"
    using resource_scope_is_not_widened [OF order_within] by blast
  moreover have "al_url shop_lib (without_context ''https://shop.example/orders/7/'') = Some (shop_url ''/orders/7/'')" by code_simp
  moreover have "\<not> resourceWithin shop_lib orders ''https://shop.example/ordersx/7''" by code_simp
  ultimately show ?thesis using order_within by (auto simp: shop_url_def)
qed

theorem authority_deadline_is_in_force_witness:
  "AuthorityDeadline shop_lib (shopping office_hours) shop_goal late = Inr (8 * day + 1020 * minute) \<and>
   WithinActiveHours shop_lib (Some office_hours) (late + minute)"
proof -
  have "\<forall>h loc. m_Hours (shopping office_hours) = Some h \<and> al_tz shop_lib (ah_Timezone h) = Some loc \<longrightarrow>
      whole_minutes (late div second) ((8 * day + 1020 * minute) div second) loc"
    by (auto simp: shop_lib_def whole_minutes_def)
  from authority_deadline_is_in_force [OF shop_deadline this, of "late + minute"] show ?thesis
    using shop_deadline by (simp add: late_def shopping_def)
qed

theorem round_the_clock_mandate_has_no_deadline_witness:
  "ValidateOwnerMandate shop_lib (shopping all_hours) late = Inr () \<and> WithinActiveHours shop_lib (Some all_hours) late \<and>
   AuthorityDeadline shop_lib (shopping all_hours) shop_goal late = Inl ErrOwnerAuthority"
proof -
  have "m_Hours (shopping all_hours) = Some all_hours" by (simp add: shopping_def)
  moreover have "al_tz shop_lib (ah_Timezone all_hours) = Some (\<lambda>_. 0)" "ah_StartMinute all_hours = 0" "ah_EndMinute all_hours = 1440"
    by (simp_all add: shop_lib_def all_hours_def)
  moreover have "{0..6} \<subseteq> set (ah_Weekdays all_hours)" by (auto simp: all_hours_def)
  ultimately show ?thesis
    using round_the_clock_mandate_has_no_deadline [of "shopping all_hours" all_hours shop_lib "\<lambda>_. 0" late shop_goal] shopping_valid(2) by simp
qed

end
