(* ===== verification/RunWriters.thy ===== *)
theory RunWriters
  imports RunProps ApprovalProps
begin

text \<open>
  Every writer of the table \<^verbatim>\<open>runs\<close>. Beside the run service and the transactions of \<open>run_step\<close>, four
  components write it in their own transactions: the task store attaches a run to a task
  (\<^verbatim>\<open>AttachRun\<close>), a durable approval and a guarded tab selection suspend it (\<^verbatim>\<open>CreateDurable\<close>,
  \<^verbatim>\<open>suspendSelectionTx\<close> of \<^verbatim>\<open>apps/orchestrator/internal/singletab\<close>), and the privacy catalog
  erases its metadata (\<^verbatim>\<open>redactPinnedRunsTx\<close>). \<open>kernel_step\<close> has a rule for each, and one for what the
  rest of the program does to the other tables.
\<close>

section \<open>Guarded tab selection\<close>

definition ErrTabDenied :: go_err where
  "ErrTabDenied = Sentinel ''current guarded owner tab selection required''"

record ResourceBinding =
  bg_OwnerID :: string
  bg_RunID :: string
  bg_SessionKey :: string
  bg_TaskID :: string
  bg_TaskRevision :: int
  bg_ConstraintsRevision :: int
  bg_LeaseEpoch :: int
  bg_Deadline :: instant

record Selection =
  sn_ApprovalID :: string
  sn_ExpiresAt :: instant

definition selection_payload :: "Selection \<Rightarrow> string" where
  "selection_payload s =
     json_Marshal (JObj [(''approval_id'', JStr (sn_ApprovalID s)), (''kind'', JStr ''guarded_tab_selection''), (''version'', JNum 1)])"

text \<open>The rows the two updates select: the bound run in the expected state and its active task.\<close>

definition bound_run :: "ResourceBinding \<Rightarrow> string \<Rightarrow> run_row \<Rightarrow> bool" where
  "bound_run b from r \<longleftrightarrow> r_run_id r = bg_RunID b \<and> r_session_key r = bg_SessionKey b \<and> r_task_id r = Some (bg_TaskID b) \<and>
     r_task_revision r = Some (bg_TaskRevision b) \<and> r_current_state r = from"

definition bound_task :: "ResourceBinding \<Rightarrow> task_row \<Rightarrow> bool" where
  "bound_task b t \<longleftrightarrow> k_task_id t = bg_TaskID b \<and> k_last_run_id t = Some (bg_RunID b) \<and> k_revision t = bg_TaskRevision b \<and>
     k_constraints_revision t = bg_ConstraintsRevision b \<and> k_status t = ''active''"

definition awaiting :: "instant \<Rightarrow> run_row \<Rightarrow> run_row" where
  "awaiting now r = r\<lparr>r_status := ''awaiting_approval'', r_current_state := ''awaiting_approval'', r_updated_at := now\<rparr>"

definition selection_live :: "ResourceBinding \<Rightarrow> Selection \<Rightarrow> Token \<Rightarrow> instant \<Rightarrow> kernel_db \<Rightarrow> bool" where
  "selection_live b s tok now K =
     (case tbl_find o_session_key (bg_SessionKey b) (ownership K) of
        None \<Rightarrow> False
      | Some w \<Rightarrow> o_run_id w = bg_RunID b \<and> o_lease_id w = tok_LeaseID tok \<and> o_fence_epoch w = bg_LeaseEpoch b \<and>
                  now < o_expires_at w \<and> now < sn_ExpiresAt s)"

text \<open>\<open>sources\<close> is the guard of the run's sources the composition passes in. An error rolls the
  caller's transaction back.\<close>

definition suspendSelectionTx ::
  "approval_codec \<Rightarrow> (approval_db \<Rightarrow> string \<Rightarrow> go_err + unit) \<Rightarrow> InputRecord option \<Rightarrow> exec_ctx \<Rightarrow> instant \<Rightarrow> ResourceBinding \<Rightarrow> Selection \<Rightarrow> string \<Rightarrow> approval_db
     \<Rightarrow> go_err + approval_db" where
  "suspendSelectionTx C sources claim ctx now b s from db =
     bindE (SuspendApprovalTx (vk_queue C) claim (bg_RunID b) (sn_ApprovalID s) (selection_payload s) now (vd_queue db)) (\<lambda>(_, q).
     let K = vd_kernel db in
     bindE (failif (tbl_count (bound_run b from) (runs K) \<noteq> 1) ErrTabDenied) (\<lambda>_.
     bindE (failif (tbl_count (bound_task b) (vd_tasks db) \<noteq> 1) ErrTabDenied) (\<lambda>_.
     bindE (need (jb_in (vk_json C) (selection_payload s)) jsonb_syntax_error) (\<lambda>meta.
     let K = K\<lparr>runs := tbl_update (bound_run b from) (awaiting now) (runs K),
               transitions := transitions K @ [log_transition (bg_RunID b) from ''awaiting_approval'' ''orchestrator'' meta now]\<rparr>;
         db = db\<lparr>vd_kernel := K, vd_queue := q,
                 vd_tasks := tbl_update (bound_task b) (\<lambda>t. t\<lparr>k_status := ''waiting_for_user'', k_updated_at := now\<rparr>) (vd_tasks db)\<rparr> in
     bindE (need (TokenFromContext ctx) ErrTabDenied) (\<lambda>tok.
     bindE (failif (\<not> selection_live b s tok now K \<or> sources db (bg_RunID b) \<noteq> Inr () \<or>
                    CheckPendingSelectionClaimTx (vk_queue C) claim (bg_RunID b) (sn_ApprovalID s) now (vd_queue db) \<noteq> Inr ())
              ErrTabDenied) (\<lambda>_.
     Inr db))))))"

definition SuspendSelectionTx where
  "SuspendSelectionTx C sources claim ctx now b s = suspendSelectionTx C sources claim ctx now b s ''tool_pending''"

text \<open>\<open>dispatches\<close> holds the requests and runs of \<^verbatim>\<open>guarded_single_tab_dispatches\<close>.\<close>

definition SuspendToolSelectionTx where
  "SuspendToolSelectionTx C sources claim ctx now dispatches b s db =
     bindE (failif ((sn_ApprovalID s, bg_RunID b) \<notin> set dispatches) ErrTabDenied) (\<lambda>_.
     suspendSelectionTx C sources claim ctx now b s ''tool_running'' db)"

section \<open>Privacy\<close>

text \<open>\<open>pins\<close> holds the runs and sources of \<^verbatim>\<open>memory_run_sources\<close>.\<close>

definition redact_pinned_runs :: "(string \<times> string) list \<Rightarrow> string list \<Rightarrow> string \<Rightarrow> kernel_db \<Rightarrow> kernel_db" where
  "redact_pinned_runs pins sources deletion K =
     K\<lparr>runs := tbl_update (\<lambda>r. \<exists>(run, source) \<in> set pins. run = r_run_id r \<and> source \<in> set sources)
        (\<lambda>r. r\<lparr>r_metadata_json := JObj [(''deletion_id'', JStr deletion), (''privacy_redacted'', JBool True)]\<rparr>) (runs K)\<rparr>"

section \<open>Steps\<close>

text \<open>
  \<open>h\<close> are the hooks of the task store. Nothing is assumed of the tables beside the kernel's that a
  transaction sees: they are in any state. \<open>elsewhere\<close> is every change of the rest of the program to
  sessions, ownership, inputs and the log.
\<close>

inductive kernel_step :: "'x task_hooks \<Rightarrow> kernel_db \<Rightarrow> kernel_db \<Rightarrow> bool" for h where
  service: "run_step K K' \<Longrightarrow> kernel_step h K K'"
| attaching: "AttachRun h ctx taskID rvn runID sessionKey now st = (res, st') \<Longrightarrow> kernel_step h (td_kernel st) (td_kernel st')"
| durable: "CreateDurable C claim ctx rnd go now p db = (rec, db') \<Longrightarrow> kernel_step h (vd_kernel db) (vd_kernel db')"
| selection: "SuspendSelectionTx C sources claim ctx now b s db = Inr db' \<Longrightarrow> kernel_step h (vd_kernel db) (vd_kernel db')"
| tool_selection: "SuspendToolSelectionTx C sources claim ctx now dispatches b s db = Inr db' \<Longrightarrow>
    kernel_step h (vd_kernel db) (vd_kernel db')"
| privacy: "kernel_step h K (redact_pinned_runs pins deleted deletion K)"
| elsewhere: "runs K' = runs K \<Longrightarrow> kernel_step h K K'"

section \<open>What each writer does to the runs\<close>

lemma awaiting_change:
  assumes "run_ok r" and "r_current_state r = ''tool_pending'' \<or> r_current_state r = ''tool_running''"
  shows "run_change r (awaiting now r)"
proof -
  have "legal_move (r_current_state r) ''awaiting_approval''"
    using assms(2) by (auto simp: legal_move_def ValidateRunStateTransition_def allowedTransitions_def)
  moreover have "run_ok (awaiting now r)"
    using assms known_run_states(4) by (auto simp: run_ok_def awaiting_def IsTerminalRunState_def)
  ultimately show ?thesis by (simp add: run_change_def same_run_def awaiting_def)
qed

lemma run_inv_ok: "run_inv K \<Longrightarrow> r \<in> set (runs K) \<Longrightarrow> run_ok r"
  by (simp add: run_inv_def list_all_iff)

lemma run_inv_unique: "run_inv K \<Longrightarrow> r \<in> set (runs K) \<Longrightarrow> q \<in> set (runs K) \<Longrightarrow> r_run_id q = r_run_id r \<Longrightarrow> q = r"
  using tbl_find_keyed [of r_run_id "runs K" r] tbl_find_keyed [of r_run_id "runs K" q] by (simp add: run_inv_def)

lemma attaching_in_place:
  assumes "AttachRun h ctx taskID rvn runID sessionKey now st = (res, st')"
  shows "in_place (td_kernel st) (td_kernel st')"
proof (cases "td_kernel st' = td_kernel st")
  case True
  then show ?thesis by simp
next
  case False
  let ?sel = "\<lambda>r. r_run_id r = runID \<and> r_session_key r = sessionKey \<and>
    (r_task_id r = None \<or> r_task_id r = Some taskID \<and> r_task_revision r = Some rvn)"
  have "runs (td_kernel st') = tbl_update ?sel (\<lambda>r. r\<lparr>r_task_id := Some taskID, r_task_revision := Some rvn\<rparr>) (runs (td_kernel st))"
    using assms False unfolding AttachRun_def guarded_def
    by (elim run_tx_cases) (auto simp: attach_body_def set_tasks_def bindE_Inr_iff Let_def)
  then show ?thesis
    by (rule in_placeI) (auto intro!: same_phase_change simp: same_run_def same_phase_def)
qed

lemma attached_row:
  assumes inv: "run_inv (td_kernel st)" and "AttachRun h ctx taskID rvn runID sessionKey now st = (Inr u, st')"
  shows "\<exists>r. tbl_find r_run_id runID (runs (td_kernel st')) = Some r \<and> r_session_key r = sessionKey \<and>
    r_task_id r = Some taskID \<and> r_task_revision r = Some rvn"
proof -
  let ?sel = "\<lambda>r. r_run_id r = runID \<and> r_session_key r = sessionKey \<and>
    (r_task_id r = None \<or> r_task_id r = Some taskID \<and> r_task_revision r = Some rvn)"
  let ?set = "\<lambda>r. r\<lparr>r_task_id := Some taskID, r_task_revision := Some rvn\<rparr>"
  have runs': "runs (td_kernel st') = tbl_update ?sel ?set (runs (td_kernel st))"
    and one: "tbl_count ?sel (runs (td_kernel st)) = 1"
    using assms(2) unfolding AttachRun_def guarded_def
    by (auto simp: attach_body_def set_tasks_def bindE_Inr_iff Let_def elim!: run_tx_cases)
  obtain r where r: "r \<in> set (runs (td_kernel st))" "?sel r"
    using one tbl_count_0_iff [of ?sel "runs (td_kernel st)"] by (metis zero_neq_one)
  then have "tbl_find r_run_id runID (runs (td_kernel st)) = Some r"
    using inv tbl_find_keyed [of r_run_id _ r] by (auto simp: run_inv_def)
  then have "tbl_find r_run_id runID (runs (td_kernel st')) = Some (?set r)"
    using r(2) by (simp add: runs' tbl_find_update)
  then show ?thesis using r(2) by simp
qed

lemma CreateApproval_kernel:
  assumes "CreateApproval J ctx go now p db = Inr (rec, db')"
  shows "vd_kernel db' = vd_kernel db"
proof -
  obtain r new db1 where ins: "insert_approval r db = Inr (new, db1)"
    and res: "(if new then Inr (scanRecord J r, db1) else bindE (GetApprovalByID J (va_ApprovalID p) db) (\<lambda>old. Inr (old, db))) = Inr (rec, db')"
    using assms unfolding CreateApproval_def
    by (cases "new_approval J (defaulted go p)") (auto simp: map_sum_Inr split: sum.split_asm bool.split_asm)
  then show ?thesis using insert_approval_Inr [OF ins] by (cases new) (auto simp: bindE_Inr_iff)
qed

lemma check_run_pending:
  assumes "check_run p db = Inr u"
  shows "\<exists>r \<in> set (runs (vd_kernel db)). r_run_id r = pp_RunID p \<and> r_current_state r = ''tool_pending''"
  using assms unfolding check_run_def Let_def bindE_Inr_iff need_Inr_iff failif_Inr_iff
  by (auto dest!: first_row_SomeD)

lemma durable_in_place:
  assumes "CreateDurable C claim ctx rnd go now p db = (res, db')" and inv: "run_inv (vd_kernel db)"
  shows "in_place (vd_kernel db) (vd_kernel db')"
  using assms(1) unfolding CreateDurable_def
proof (cases rule: run_tx_cases)
  case (success rec)
  then obtain u db1 i ctx' where pending: "check_run p db = Inr u"
    and add: "CreateApproval (vk_json C) ctx' go now (durable_params C (newApprovalID rnd go) p) db = Inr (rec, db1)"
    and sus: "suspend_run C claim ctx' go now p i db1 = Inr db'"
    by (auto simp: bindE_Inr_iff)
  have "runs (vd_kernel db') = runs (await_run (pp_RunID p) now (vd_kernel db))"
    using sus CreateApproval_kernel [OF add] by (auto elim: suspend_run_Inr)
  then have "runs (vd_kernel db') = tbl_update (\<lambda>r. r_run_id r = pp_RunID p) (awaiting now) (runs (vd_kernel db))"
    by (simp add: await_run_def awaiting_def [abs_def])
  then show ?thesis
  proof (rule in_placeI)
    fix r assume r: "r \<in> set (runs (vd_kernel db))" "r_run_id r = pp_RunID p"
    obtain q where "q \<in> set (runs (vd_kernel db))" "r_run_id q = pp_RunID p" "r_current_state q = ''tool_pending''"
      using check_run_pending [OF pending] by blast
    then have "r_current_state r = ''tool_pending''" using run_inv_unique [OF inv r(1)] r(2) by metis
    then show "run_change r (awaiting now r)" using awaiting_change run_inv_ok [OF inv r(1)] by blast
  qed
qed simp

lemma selection_in_place:
  assumes "suspendSelectionTx C sources claim ctx now b s from db = Inr db'" and inv: "run_inv (vd_kernel db)"
    and "from = ''tool_pending'' \<or> from = ''tool_running''"
  shows "in_place (vd_kernel db) (vd_kernel db')"
proof -
  have "runs (vd_kernel db') = tbl_update (bound_run b from) (awaiting now) (runs (vd_kernel db))"
    using assms(1) unfolding suspendSelectionTx_def by (auto simp: bindE_Inr_iff Let_def)
  then show ?thesis
  proof (rule in_placeI)
    fix r assume "r \<in> set (runs (vd_kernel db))" and "bound_run b from r"
    then show "run_change r (awaiting now r)"
      using assms(3) run_inv_ok [OF inv] by (intro awaiting_change) (auto simp: bound_run_def)
  qed
qed

lemma privacy_in_place: "in_place K (redact_pinned_runs pins deleted deletion K)"
  by (rule in_placeI [where sel = "\<lambda>r. \<exists>(run, source) \<in> set pins. run = r_run_id r \<and> source \<in> set deleted"])
    (auto intro!: same_phase_change simp: redact_pinned_runs_def same_run_def same_phase_def)

lemmas kernel_in_place = attaching_in_place durable_in_place in_place_refl

lemma kernel_step_effect: "kernel_step h K K' \<Longrightarrow> run_inv K \<Longrightarrow> run_inv K' \<and> evolves K K'"
proof (induction rule: kernel_step.induct)
  case (service K K')
  then show ?case by (rule run_step_effect)
next
  case (selection C sources claim ctx now b s db db')
  then show ?case by (intro in_place_inv selection_in_place) (auto simp: SuspendSelectionTx_def)
next
  case (tool_selection C sources claim ctx now dispatches b s db db')
  then show ?case by (intro in_place_inv selection_in_place) (auto simp: SuspendToolSelectionTx_def bindE_Inr_iff)
qed (rule in_place_inv, (rule kernel_in_place; assumption | rule privacy_in_place), assumption)+

interpretation kernel: invariant_system no_runs "kernel_step h" run_inv for h
proof
  show "run_inv K" if "no_runs K" for K using that by (rule run_sys.inv_init)
  show "run_inv K'" if "run_inv K" "kernel_step h K K'" for K K' using kernel_step_effect that by blast
qed

text \<open>A fact about the row of a run that every change of the row keeps holds ever after.\<close>

lemma kernel_row_stable:
  assumes "(kernel_step h)\<^sup>*\<^sup>* K K'" and inv: "run_inv K"
    and row: "\<exists>r. tbl_find r_run_id k (runs K) = Some r \<and> P r"
    and keep: "\<And>r r'. P r \<Longrightarrow> run_change r r' \<Longrightarrow> P r'"
  shows "\<exists>r. tbl_find r_run_id k (runs K') = Some r \<and> P r"
  using assms(1) inv row
proof (rule kernel.stable_steps [rotated])
  fix U V assume u: "run_inv U" "kernel_step h U V" and "\<exists>r. tbl_find r_run_id k (runs U) = Some r \<and> P r"
  then obtain r where r: "tbl_find r_run_id k (runs U) = Some r" "P r" by blast
  have "run_inv V" "evolves U V" using kernel_step_effect u by blast+
  then obtain r' where "tbl_find r_run_id k (runs V) = Some r'" "run_change r r'"
    using r(1) by (blast elim: evolves_find)
  with r(2) keep show "\<exists>r. tbl_find r_run_id k (runs V) = Some r \<and> P r" by blast
qed

section \<open>Properties\<close>

text \<open>C32. Every state of the run table that its writers can reach is well formed, whatever the rest of
  the program does meanwhile: run identities are unique, no two runs of a session share an idempotency
  key, each row's status repeats its state, the state is one of the fourteen known ones, and a finishing
  time is recorded exactly for terminal runs.\<close>

theorem reachable_runs_are_well_formed:
  assumes "no_runs K" and "(kernel_step h)\<^sup>*\<^sup>* K K'"
  shows "run_inv K'"
  using assms by (rule kernel.inv_reach)

text \<open>C3. An outcome is final: once a run is completed, failed, cancelled or timed out, no sequence of
  writes of any component changes its state, its status or its finishing time.\<close>

theorem terminal_run_never_changes:
  assumes "run_inv K" and "tbl_find r_run_id k (runs K) = Some r"
    and "IsTerminalRunState (r_current_state r)" and "(kernel_step h)\<^sup>*\<^sup>* K K'"
  shows "\<exists>r'. tbl_find r_run_id k (runs K') = Some r' \<and> r_current_state r' = r_current_state r \<and>
    r_status r' = r_status r \<and> r_finished_at r' = r_finished_at r"
proof -
  have "\<exists>r'. tbl_find r_run_id k (runs K') = Some r' \<and>
      (same_phase r r' \<and> IsTerminalRunState (r_current_state r'))"
    using assms(4,1)
  proof (rule kernel_row_stable)
    show "\<exists>r'. tbl_find r_run_id k (runs K) = Some r' \<and>
        (same_phase r r' \<and> IsTerminalRunState (r_current_state r'))"
      using assms(2,3) by (simp add: same_phase_def)
  next
    fix q q' assume "same_phase r q \<and> IsTerminalRunState (r_current_state q)" and "run_change q q'"
    then show "same_phase r q' \<and> IsTerminalRunState (r_current_state q')"
      using run_change_terminal [of q q'] by (auto simp: same_phase_def)
  qed
  then show ?thesis by (auto simp: same_phase_def)
qed

text \<open>A run works for one task at one revision: after a task was attached to it, no sequence of writes
  of any component attaches it to another task or to another revision, so a control that selects the
  runs of a task misses none of its attempts.\<close>

theorem attached_run_keeps_its_task:
  assumes "run_inv (td_kernel st)" and "AttachRun h ctx taskID rvn runID sessionKey now st = (Inr u, st')"
    and "(kernel_step h)\<^sup>*\<^sup>* (td_kernel st') K"
  shows "\<exists>r. tbl_find r_run_id runID (runs K) = Some r \<and> r_session_key r = sessionKey \<and>
    r_task_id r = Some taskID \<and> r_task_revision r = Some rvn"
proof -
  let ?P = "\<lambda>r. r_session_key r = sessionKey \<and> r_task_id r = Some taskID \<and> r_task_revision r = Some rvn"
  have inv: "run_inv (td_kernel st')"
    using in_place_inv [OF attaching_in_place [OF assms(2)]] assms(1) by blast
  have "\<exists>r. tbl_find r_run_id runID (runs (td_kernel st')) = Some r \<and> ?P r"
    using attached_row [OF assms(1,2)] by blast
  with assms(3) inv show ?thesis
    by (rule kernel_row_stable) (auto simp: run_change_def same_run_def)
qed

end
