(* ===== verification/RunExamples.thy ===== *)
theory RunExamples
  imports RunWriters TaskExamples
begin

text \<open>
  Concrete runs for the properties of \<open>RunWriters\<close>: a run is created, attached to a task and cancelled
  by a control of the task's owner; the deletion of a source it read then erases its metadata.
\<close>

section \<open>A run attached to a task\<close>

abbreviation unit_hooks :: "unit task_hooks" where
  "unit_hooks \<equiv> demo_hooks"

definition attach_db :: "unit task_db" where
  "attach_db = \<lparr>td_kernel = demo_sdb\<lparr>runs := [demo_new]\<rparr>, td_tasks = [task_a], td_results = [], td_bindings = [], td_other = ()\<rparr>"

definition attached_run :: run_row where
  "attached_run = demo_new\<lparr>r_task_id := Some ''task_a'', r_task_revision := Some 1\<rparr>"

definition attached_db :: "unit task_db" where
  "attached_db = attach_db\<lparr>td_kernel := demo_sdb\<lparr>runs := [attached_run]\<rparr>,
     td_tasks := [task_a\<lparr>k_last_run_id := Some (r_run_id demo_new), k_updated_at := 9\<rparr>]\<rparr>"

definition cancelled_kernel :: kernel_db where
  "cancelled_kernel = CancelForControlTx [''task_a''] ''control_1'' 12 (td_kernel attached_db)"

definition cancelled_run :: run_row where
  "cancelled_run = attached_run\<lparr>r_status := RunStateCancelled, r_current_state := RunStateCancelled, r_finished_at := Some 12,
     r_updated_at := 12, r_error_type := Some ''owner_control'', r_error_message := Some ''control_1''\<rparr>"

lemma demo_new_row: "r_session_key demo_new = ''s''" "r_task_id demo_new = None" "r_current_state demo_new = RunStateCreated"
  by (simp_all add: demo_new_def inserted_run_def new_record_def demo_create_params_def)

lemma demo_attach: "AttachRun unit_hooks free_ctx ''task_a'' 1 (r_run_id demo_new) ''s'' 9 attach_db = (Inr (), attached_db)"
  by (simp add: AttachRun_def guarded_def run_tx_def attach_body_def own_Begin_def free_ctx_def task_find_def attach_db_def
      attached_db_def attached_run_def demo_new_row set_tasks_def demo_hooks_def Let_def)

lemma demo_created: "kernel_step unit_hooks demo_sdb (td_kernel attach_db)"
  using create [OF demo_create] by (auto simp: attach_db_def intro: service)

lemma demo_attached: "kernel_step unit_hooks (td_kernel attach_db) (td_kernel attached_db)"
  using demo_attach by (rule attaching)

lemma demo_cancelled: "kernel_step unit_hooks (td_kernel attached_db) cancelled_kernel"
  unfolding cancelled_kernel_def by (rule service) (rule cancel)

lemma cancelled_runs: "runs cancelled_kernel = [cancelled_run]"
  by (simp add: cancelled_kernel_def CancelForControlTx_def terminate_runs_def attached_db_def of_tasks_def
      attached_run_def cancelled_run_def demo_new_row IsTerminalRunState_def)

lemma cancelled_row: "r_run_id cancelled_run = r_run_id demo_new" "r_current_state cancelled_run = RunStateCancelled"
  "r_task_id cancelled_run = Some ''task_a''" "r_task_revision cancelled_run = Some 1" "r_session_key cancelled_run = ''s''"
  by (simp_all add: cancelled_run_def attached_run_def demo_new_row)

lemma demo_steps: "(kernel_step unit_hooks)\<^sup>*\<^sup>* demo_sdb cancelled_kernel"
  using demo_created demo_attached demo_cancelled by (blast intro: converse_rtranclp_into_rtranclp)

lemma no_demo_runs: "no_runs demo_sdb"
  by (simp add: no_runs_def demo_sdb_def)

section \<open>Witnesses\<close>

theorem reachable_runs_are_well_formed_witness: "run_inv cancelled_kernel \<and> runs cancelled_kernel = [cancelled_run]"
proof -
  have "(kernel_step unit_hooks)\<^sup>*\<^sup>* demo_sdb cancelled_kernel"
    by (rule demo_steps)
  then show ?thesis using reachable_runs_are_well_formed [OF no_demo_runs] cancelled_runs by blast
qed

lemma demo_run_inv: "run_inv (td_kernel attach_db)" "run_inv (td_kernel attached_db)" "run_inv cancelled_kernel"
proof -
  have "run_inv demo_sdb" by (rule demo_sdb_inv)
  with kernel_step_effect [OF demo_created] show 1: "run_inv (td_kernel attach_db)" by blast
  with kernel_step_effect [OF demo_attached] show 2: "run_inv (td_kernel attached_db)" by blast
  with kernel_step_effect [OF demo_cancelled] show "run_inv cancelled_kernel" by blast
qed

theorem attached_run_keeps_its_task_witness:
  "\<exists>r. tbl_find r_run_id (r_run_id demo_new) (runs cancelled_kernel) = Some r \<and> r_session_key r = ''s'' \<and>
     r_task_id r = Some ''task_a'' \<and> r_task_revision r = Some 1"
  using attached_run_keeps_its_task [OF demo_run_inv(1) demo_attach r_into_rtranclp [of "kernel_step unit_hooks", OF demo_cancelled]] .

definition erased_kernel :: kernel_db where
  "erased_kernel = redact_pinned_runs [(r_run_id demo_new, ''source_1'')] [''source_1''] ''deletion_1'' cancelled_kernel"

theorem terminal_run_never_changes_witness:
  "erased_kernel \<noteq> cancelled_kernel \<and> (\<exists>r'. tbl_find r_run_id (r_run_id demo_new) (runs erased_kernel) = Some r' \<and>
     r_current_state r' = RunStateCancelled \<and> r_finished_at r' = Some 12)"
proof -
  have step: "kernel_step unit_hooks cancelled_kernel erased_kernel" unfolding erased_kernel_def by (rule privacy)
  have found: "tbl_find r_run_id (r_run_id demo_new) (runs cancelled_kernel) = Some cancelled_run"
    by (simp add: cancelled_runs cancelled_row)
  have "\<exists>r'. tbl_find r_run_id (r_run_id demo_new) (runs erased_kernel) = Some r' \<and> r_current_state r' = r_current_state cancelled_run \<and>
      r_status r' = r_status cancelled_run \<and> r_finished_at r' = r_finished_at cancelled_run"
    using demo_run_inv(3) found _ r_into_rtranclp [of "kernel_step unit_hooks", OF step]
    by (rule terminal_run_never_changes) (simp add: cancelled_row IsTerminalRunState_def)
  moreover have "runs erased_kernel \<noteq> runs cancelled_kernel"
    by (simp add: erased_kernel_def redact_pinned_runs_def cancelled_runs cancelled_row)
      (simp add: cancelled_run_def attached_run_def demo_new_def inserted_run_def)
  moreover have "r_finished_at cancelled_run = Some 12" by (simp add: cancelled_run_def)
  ultimately show ?thesis by (auto simp: cancelled_row)
qed

end
