(* ===== verification/Delegation.thy ===== *)
theory Delegation
  imports Mandate InputHooks
begin

text \<open>
  Bounded contracts of delegated tasks (\<^verbatim>\<open>internal/delegation/contract.go\<close>, \<^verbatim>\<open>internal/actionauth/delegation.go\<close>,
  \<^verbatim>\<open>apps/orchestrator/internal/task/delegation_bounds.go\<close>, and the functions of \<^verbatim>\<open>migrations/057\<close> that every writer
  calls): which actions a contract allows, when it is well formed, when a proposal is no wider than the contract of
  its parent, and when the chain of parents still stands.
\<close>

section \<open>Data\<close>

definition ErrDelegationDenied :: go_err where
  "ErrDelegationDenied = Sentinel ''delegation is stale or outside its bounded contract''"

record Permission =
  pe_Tool :: string
  pe_ContractHash :: string
  pe_Resources :: "string list"
  pe_Effects :: "string list"
  pe_Credentials :: "CredentialRef list"

record Limits =
  lm_ModelTurns :: int
  lm_Tokens :: int
  lm_CostMicros :: int
  lm_ExternalCalls :: int
  lm_Children :: int
  lm_ActiveMillis :: int
  lm_EgressBytes :: int
  lm_ProviderInputBytes :: int

record Contract =
  dc_TaskID :: string
  dc_RootTaskID :: string
  dc_ParentTaskID :: string
  dc_ParentRevision :: int
  dc_ConstraintsRevision :: int
  dc_Revision :: int
  dc_Permissions :: "Permission list"
  dc_Sources :: "SourceRef list"
  dc_ContractSource :: SourceRef
  dc_Budget :: Limits
  dc_Deadline :: instant
  dc_Depth :: int
  dc_State :: string
  dc_InputID :: string

record delegation_row =
  dg_task_id :: string
  dg_root_task_id :: string
  dg_parent_task_id :: string
  dg_parent_revision :: int
  dg_parent_constraints_revision :: int
  dg_contract_revision :: int
  dg_contract_source_id :: string
  dg_contract :: Contract
  dg_budget :: Limits
  dg_deadline :: instant
  dg_depth :: int
  dg_state :: string
  dg_input_id :: string
  dg_created_at :: instant

section \<open>Well-formed contracts\<close>

definition validHash :: "string \<Rightarrow> bool" where
  "validHash s \<longleftrightarrow> length s = 64 \<and> list_all lower_hex s"

definition limit_values :: "Limits \<Rightarrow> int list" where
  "limit_values q =
     [lm_ModelTurns q, lm_Tokens q, lm_CostMicros q, lm_ExternalCalls q, lm_Children q, lm_ActiveMillis q, lm_EgressBytes q, lm_ProviderInputBytes q]"

definition breaks :: string where
  "breaks = [CHR 0x00, CHR 0x0D, CHR 0x0A]"

definition valid_permission :: "Permission \<Rightarrow> bool" where
  "valid_permission p \<longleftrightarrow>
     pe_Tool p \<noteq> [] \<and> length (pe_Tool p) \<le> 128 \<and> \<not> ContainsAny (pe_Tool p) (breaks @ [CHR ''*'', CHR '' '', CHR ''?'', CHR ''/'', CHR 0x5C])
     \<and> validHash (pe_ContractHash p) \<and> 1 \<le> length (pe_Resources p) \<and> length (pe_Resources p) \<le> 16
     \<and> 1 \<le> length (pe_Effects p) \<and> length (pe_Effects p) \<le> 4 \<and> length (pe_Credentials p) \<le> 16
     \<and> list_all (\<lambda>r. r \<noteq> [] \<and> length r \<le> 2048 \<and> \<not> ContainsAny r (breaks @ ''*'')) (pe_Resources p) \<and> distinct (pe_Resources p)
     \<and> list_all (\<lambda>e. e \<in> set effect_names) (pe_Effects p) \<and> distinct (pe_Effects p)
     \<and> list_all (\<lambda>r. cr_Alias r \<noteq> [] \<and> length (cr_Alias r) \<le> 256 \<and> cr_Field r \<noteq> [] \<and> length (cr_Field r) \<le> 128
          \<and> \<not> ContainsAny (cr_Alias r @ cr_Field r) (breaks @ ''*'')) (pe_Credentials p) \<and> distinct (pe_Credentials p)"

definition valid_source :: "SourceRef \<Rightarrow> bool" where
  "valid_source r \<longleftrightarrow>
     sf_ID r \<noteq> [] \<and> length (sf_ID r) \<le> 512 \<and> \<not> ContainsAny (sf_ID r) breaks \<and> 1 \<le> sf_Revision r \<and> 1 \<le> sf_AccessRevision r
     \<and> validHash (sf_Hash r)"

definition contract_Validate :: "Contract \<Rightarrow> instant \<Rightarrow> go_err + unit" where
  "contract_Validate c now =
     (let sources = dc_Sources c @ [dc_ContractSource c]
      in bindE (failif (dc_TaskID c = [] \<or> dc_ParentTaskID c = [] \<or> dc_RootTaskID c = [] \<or> dc_TaskID c = dc_ParentTaskID c
              \<or> dc_TaskID c = dc_RootTaskID c \<or> dc_ParentRevision c < 1 \<or> dc_ConstraintsRevision c < 1 \<or> dc_Revision c \<noteq> 1
              \<or> dc_Depth c < 1 \<or> 3 < dc_Depth c \<or> dc_Deadline c \<le> now \<or> now + day < dc_Deadline c
              \<or> 32 < length (dc_Permissions c) \<or> 64 < length (dc_Sources c)) ErrDelegationDenied) (\<lambda>_.
         bindE (failif (\<not> (list_all valid_permission (dc_Permissions c) \<and> distinct (map pe_Tool (dc_Permissions c)))) ErrDelegationDenied) (\<lambda>_.
         bindE (failif (\<not> (list_all valid_source sources \<and> distinct (map sf_ID sources))) ErrDelegationDenied) (\<lambda>_.
         failif (\<not> list_all (\<lambda>v. 0 \<le> v) (limit_values (dc_Budget c))) ErrDelegationDenied))))"

section \<open>What a contract allows\<close>

definition offers :: "string \<Rightarrow> string \<Rightarrow> string \<Rightarrow> string \<Rightarrow> Permission \<Rightarrow> bool" where
  "offers tool hash resource eff p \<longleftrightarrow>
     pe_Tool p = tool \<and> pe_ContractHash p = hash \<and> resource \<in> set (pe_Resources p) \<and> eff \<in> set (pe_Effects p)"

definition Allows :: "Contract option \<Rightarrow> string \<Rightarrow> string \<Rightarrow> string \<Rightarrow> string \<Rightarrow> CredentialRef list \<Rightarrow> bool" where
  "Allows c tool hash resource eff refs =
     (case c of
        None \<Rightarrow> True
      | Some c \<Rightarrow>
          (case find (offers tool hash resource eff) (dc_Permissions c) of
             None \<Rightarrow> False
           | Some p \<Rightarrow> list_all (\<lambda>r. r \<in> set (pe_Credentials p)) refs))"

definition delegationAllows :: "auth_lib \<Rightarrow> Contract option \<Rightarrow> ActionBinding \<Rightarrow> bool" where
  "delegationAllows L c b \<longleftrightarrow>
     standardCatalogAction L b \<or> Allows c (ab_ToolName b) (ab_ContractHash b) (ab_Resource b) (ab_Effect b) (ab_CredentialRefs b)"

section \<open>Bounds of a proposal\<close>

record DelegationRequest =
  dq_ParentTaskID :: string
  dq_ParentRevision :: int
  dq_ConstraintsRevision :: int
  dq_ContractSource :: SourceRef
  dq_Sources :: "SourceRef list"
  dq_Permissions :: "Permission list"
  dq_Budget :: Limits
  dq_Deadline :: instant
  dq_Dependencies :: "string list"

definition budgetWithin :: "Limits \<Rightarrow> Limits \<Rightarrow> bool" where
  "budgetWithin a b = list_all2 (\<lambda>v w. 0 \<le> v \<and> v \<le> w) (limit_values a) (limit_values b)"

definition narrower :: "DelegationRequest \<Rightarrow> Contract \<Rightarrow> bool" where
  "narrower r p =
     (if dc_Deadline p < dq_Deadline r \<or> \<not> budgetWithin (dq_Budget r) (dc_Budget p) then False
      else list_all (\<lambda>s. s = dc_ContractSource p \<or> s \<in> set (dc_Sources p)) (dq_Sources r)
           \<and> list_all (\<lambda>q. list_all (\<lambda>resource. list_all (\<lambda>eff.
               Allows (Some p) (pe_Tool q) (pe_ContractHash q) resource eff (pe_Credentials q)) (pe_Effects q)) (pe_Resources q)) (dq_Permissions r))"

section \<open>Reading\<close>

text \<open>A table that an old schema does not have is \<open>None\<close>.\<close>

definition LoadTx :: "delegation_row list option \<Rightarrow> string \<Rightarrow> go_err + Contract option" where
  "LoadTx rows i =
     (case rows of
        None \<Rightarrow> Inr None
      | Some rows \<Rightarrow>
          (case tbl_find dg_task_id i rows of
             None \<Rightarrow> Inr None
           | Some r \<Rightarrow>
               let c = dg_contract r
               in if contract_Validate c (dg_created_at r) \<noteq> Inr () \<or> dc_TaskID c \<noteq> i \<or> dc_RootTaskID c \<noteq> dg_root_task_id r
                     \<or> dc_ParentTaskID c \<noteq> dg_parent_task_id r \<or> dc_ParentRevision c \<noteq> dg_parent_revision r
                     \<or> dc_ConstraintsRevision c \<noteq> dg_parent_constraints_revision r \<or> dc_Revision c \<noteq> dg_contract_revision r
                     \<or> sf_ID (dc_ContractSource c) \<noteq> dg_contract_source_id r \<or> dc_Budget c \<noteq> dg_budget r \<or> dc_Depth c \<noteq> dg_depth r
                     \<or> dc_Deadline c \<noteq> dg_deadline r
                  then Inl ErrDelegationDenied
                  else Inr (Some (c\<lparr>dc_State := dg_state r, dc_InputID := dg_input_id r\<rparr>))))"

definition stale_delegation :: go_err where
  "stale_delegation = PgError ''40001'' ''delegated task has stale parent authority''"

text \<open>A row of the loop of \<^verbatim>\<open>butler_task_check_delegation\<close>: a delegation of the chain with its child and its parent.\<close>

definition delegation_stands :: "task_row list \<Rightarrow> instant \<Rightarrow> delegation_row \<Rightarrow> bool" where
  "delegation_stands tasks now x =
     (case (tbl_find k_task_id (dg_parent_task_id x) tasks, tbl_find k_task_id (dg_task_id x) tasks) of
        (Some p, Some c) \<Rightarrow>
          k_status p = ''active'' \<and> k_owner_id p = k_owner_id c \<and> k_revision p = dg_parent_revision x
          \<and> k_constraints_revision p = dg_parent_constraints_revision x \<and> now < dg_deadline x
          \<and> dg_state x \<in> {''queued'', ''executing'', ''result_ready''}
      | _ \<Rightarrow> True)"

definition delegation_CheckTaskTx :: "task_row list \<Rightarrow> delegation_row list option \<Rightarrow> instant \<Rightarrow> string \<Rightarrow> go_err + unit" where
  "delegation_CheckTaskTx tasks rows now i =
     (if i = [] then Inr ()
      else case rows of
        None \<Rightarrow> Inr ()
      | Some rows \<Rightarrow>
          failif (\<exists>x \<in> set rows. dg_task_id x \<in> set (task_ancestors tasks i) \<and> \<not> delegation_stands tasks now x) stale_delegation)"

section \<open>Delegation only narrows\<close>

lemma Allows_find: "Allows (Some c) t h r e refs \<longleftrightarrow>
    (\<exists>p. find (offers t h r e) (dc_Permissions c) = Some p \<and> set refs \<subseteq> set (pe_Credentials p))"
  by (auto simp: Allows_def list_all_iff split: option.split)

lemma Allows_fewer: "Allows c t h r e refs \<Longrightarrow> set fewer \<subseteq> set refs \<Longrightarrow> Allows c t h r e fewer"
  by (cases c) (auto simp: Allows_def list_all_iff split: option.splits)

lemma find_offers:
  assumes "find (offers t h r e) ps = Some p"
  shows "p \<in> set ps" "pe_Tool p = t" "pe_ContractHash p = h" "r \<in> set (pe_Resources p)" "e \<in> set (pe_Effects p)"
  using assms by (auto simp: find_Some_iff offers_def)

lemma narrower_Allows:
  assumes "narrower q p" and "dc_Permissions c = dq_Permissions q" and "Allows (Some c) t h r e refs"
  shows "Allows (Some p) t h r e refs"
proof -
  obtain a where a: "find (offers t h r e) (dq_Permissions q) = Some a" "set refs \<subseteq> set (pe_Credentials a)"
    using assms(2,3) by (auto simp: Allows_find)
  then have "Allows (Some p) t h r e (pe_Credentials a)"
    using assms(1) find_offers [OF a(1)] by (auto simp: narrower_def list_all_iff split: if_splits)
  then show ?thesis using a(2) by (rule Allows_fewer)
qed

end
