(* ===== verification/Authority.thy ===== *)
theory Authority
  imports Effect Delegation
begin

text \<open>
  The current authority of a task (\<^verbatim>\<open>internal/actionauth/owner_authority.go\<close>): the binding of a task to a mandate, a goal
  and the policies of a purpose, each at a revision, and the checks that every dispatch, result and admission repeats
  inside its transaction. The fence of scheduled tasks (\<^verbatim>\<open>butler_task_check_schedule\<close>, which reads the tables of the
  schedules and of the memory) is an argument. Documents read back from \<^verbatim>\<open>jsonb\<close> columns are the values that were stored.
\<close>

section \<open>Tables\<close>

record goal_row =
  gw_goal_id :: string
  gw_owner_id :: string
  gw_kind :: string
  gw_status :: string
  gw_revision :: int
  gw_expires_at :: instant
  gw_data :: GoalEntry

record policy_row =
  pp_owner_id :: string
  pp_purpose :: string
  pp_revision :: int

record authority_event =
  oe_event_id :: string
  oe_owner_id :: string
  oe_source :: string
  oe_delivery_id :: string
  oe_subject_kind :: string
  oe_subject_id :: string
  oe_revision :: int
  oe_request_hash :: string

record job_row =
  jb_event_id :: string
  jb_owner_id :: string
  jb_subject_kind :: string
  jb_subject_id :: string
  jb_current_revision :: int
  jb_control_kind :: string
  jb_state :: string
  jb_attempts :: int
  jb_last_error :: string
  jb_updated_at :: instant

record authority_db =
  az_kernel :: kernel_db
  az_tasks :: "task_row list"
  az_bindings :: "Assignment list"
  az_mandates :: "mandate_row list"
  az_goals :: "goal_row list"
  az_policies :: "policy_row list"
  az_delegations :: "delegation_row list option"
  az_events :: "authority_event list"
  az_jobs :: "job_row list"

section \<open>Bindings\<close>

definition no_assignment :: Assignment where
  "no_assignment =
     \<lparr>as_TaskID = [], as_OwnerID = [], as_GoalID = [], as_GoalRevision = 0, as_MandateID = [], as_MandateRevision = 0, as_Purpose = [],
      as_InitiativeReason = [], as_ObservationRef = [], as_PolicyRevision = 0\<rparr>"

definition GetTaskAssignment :: "string \<Rightarrow> authority_db \<Rightarrow> Assignment" where
  "GetTaskAssignment i db = (case tbl_find as_TaskID i (az_bindings db) of None \<Rightarrow> no_assignment | Some a \<Rightarrow> a)"

text \<open>The columns of a mandate overrule its document.\<close>

definition scan_mandate :: "mandate_row \<Rightarrow> Mandate" where
  "scan_mandate r =
     (md_data r)\<lparr>m_Revision := md_revision r, m_Status := md_status r, m_ScopeKind := md_scope_kind r, m_ExpiresAt := md_expires_at r,
                 m_RevokedAt := md_revoked_at r\<rparr>"

definition scan_goal :: "goal_row \<Rightarrow> GoalEntry" where
  "scan_goal r =
     (gw_data r)\<lparr>gp_ID := gw_goal_id r, gp_OwnerID := gw_owner_id r, gp_Kind := gw_kind r, gp_Status := gw_status r,
                 gp_Revision := gw_revision r, gp_ExpiresAt := gw_expires_at r\<rparr>"

definition with_policies :: "GoalEntry \<Rightarrow> GoalEntry list \<Rightarrow> GoalPolicy" where
  "with_policies g ps =
     \<lparr>gp_ID = gp_ID g, gp_OwnerID = gp_OwnerID g, gp_Kind = gp_Kind g, gp_Status = gp_Status g, gp_Revision = gp_Revision g,
      gp_Title = gp_Title g, gp_Purpose = gp_Purpose g, gp_Constraints = gp_Constraints g, gp_ExpiresAt = gp_ExpiresAt g, gp_Policies = ps\<rparr>"

definition mandate_current :: "auth_lib \<Rightarrow> Assignment \<Rightarrow> instant \<Rightarrow> mandate_row \<Rightarrow> bool" where
  "mandate_current L a at r \<longleftrightarrow>
     (let m = scan_mandate r
      in md_owner_id r = as_OwnerID a \<and> m_OwnerID m = md_owner_id r \<and> md_scope_kind r = ''owner_goal'' \<and> md_revision r = as_MandateRevision a
         \<and> coalesce (md_goal_id r) = as_GoalID a \<and> md_goal_revision r = as_GoalRevision a \<and> md_status r = ''active'' \<and> md_revoked_at r = None
         \<and> at < md_expires_at r \<and> m_Purpose m = as_Purpose a \<and> WithinActiveHours L (m_Hours m) at)"

definition goal_current :: "Assignment \<Rightarrow> instant \<Rightarrow> goal_row \<Rightarrow> bool" where
  "goal_current a at r \<longleftrightarrow>
     gw_owner_id r = as_OwnerID a \<and> gw_kind r = ''objective'' \<and> gw_status r = ''active'' \<and> gw_revision r = as_GoalRevision a
     \<and> at < gw_expires_at r \<and> gp_Purpose (gw_data r) = as_Purpose a"

definition purpose_policy :: "string \<Rightarrow> string \<Rightarrow> goal_row \<Rightarrow> bool" where
  "purpose_policy ownerID purpose r \<longleftrightarrow>
     gw_owner_id r = ownerID \<and> gp_Purpose (gw_data r) = purpose \<and> (gw_kind r = ''preference'' \<or> gw_kind r = ''constraint'') \<and> gw_status r = ''active''"

definition purpose_row :: "string \<Rightarrow> string \<Rightarrow> policy_row \<Rightarrow> bool" where
  "purpose_row ownerID purpose p \<longleftrightarrow> pp_owner_id p = ownerID \<and> pp_purpose p = purpose"

definition CheckAssignmentTx :: "auth_lib \<Rightarrow> authority_db \<Rightarrow> Assignment \<Rightarrow> instant \<Rightarrow> go_err + Mandate \<times> GoalPolicy" where
  "CheckAssignmentTx L db a at =
     bindE (need (tbl_find md_mandate_id (as_MandateID a) (az_mandates db)) ErrOwnerAuthority) (\<lambda>r.
     bindE (failif (\<not> mandate_current L a at r) ErrOwnerAuthority) (\<lambda>_.
     bindE (need (tbl_find gw_goal_id (as_GoalID a) (az_goals db)) ErrOwnerAuthority) (\<lambda>g.
     bindE (failif (\<not> goal_current a at g) ErrOwnerAuthority) (\<lambda>_.
     bindE (need (first_row (purpose_row (as_OwnerID a) (as_Purpose a)) (az_policies db)) ErrOwnerAuthority) (\<lambda>p.
     bindE (failif (pp_revision p \<noteq> as_PolicyRevision a) ErrOwnerAuthority) (\<lambda>_.
     let ps = sort_key gw_goal_id (filter (purpose_policy (as_OwnerID a) (as_Purpose a)) (az_goals db))
     in bindE (failif (\<exists>q \<in> set ps. gw_expires_at q \<le> at) ErrOwnerAuthority) (\<lambda>_.
        Inr (scan_mandate r, with_policies (scan_goal g) (map scan_goal ps)))))))))"

text \<open>The fence of a scheduled task.\<close>

type_synonym schedule_fence = "authority_db \<Rightarrow> instant \<Rightarrow> string \<Rightarrow> go_err + unit"

definition scheduling_CheckTaskTx :: "schedule_fence \<Rightarrow> authority_db \<Rightarrow> instant \<Rightarrow> string \<Rightarrow> go_err + unit" where
  "scheduling_CheckTaskTx S db now i = (if i = [] then Inr () else S db now i)"

definition same_authority :: "Assignment \<Rightarrow> Assignment \<Rightarrow> bool" where
  "same_authority e a \<longleftrightarrow>
     as_GoalID e = as_GoalID a \<and> as_GoalRevision e = as_GoalRevision a \<and> as_MandateID e = as_MandateID a
     \<and> as_MandateRevision e = as_MandateRevision a \<and> as_Purpose e = as_Purpose a \<and> as_PolicyRevision e = as_PolicyRevision a"

text \<open>\<open>now\<close> is the reading of the database clock, \<open>at\<close> the time of the caller.\<close>

definition CheckTaskAuthorityTx ::
  "auth_lib \<Rightarrow> schedule_fence \<Rightarrow> instant \<Rightarrow> authority_db \<Rightarrow> string \<Rightarrow> string \<Rightarrow> Assignment option \<Rightarrow> instant \<Rightarrow> go_err + Assignment" where
  "CheckTaskAuthorityTx L S now db taskID ownerID expected at =
     bindE (scheduling_CheckTaskTx S db now taskID) (\<lambda>_.
     bindE (delegation_CheckTaskTx (az_tasks db) (az_delegations db) now taskID) (\<lambda>_.
     let a = GetTaskAssignment taskID db
     in if as_TaskID a = []
        then bindE (failif (case expected of None \<Rightarrow> False | Some e \<Rightarrow> as_GoalID e \<noteq> []) ErrOwnerAuthority) (\<lambda>_. Inr a)
        else bindE (failif (as_OwnerID a \<noteq> ownerID \<or> (case expected of None \<Rightarrow> False | Some e \<Rightarrow> \<not> same_authority e a)) ErrOwnerAuthority) (\<lambda>_.
             bindE (CheckAssignmentTx L db a at) (\<lambda>_. Inr a))))"

section \<open>Actions\<close>

definition standing_mandate :: "string \<Rightarrow> string \<Rightarrow> instant \<Rightarrow> mandate_row \<Rightarrow> bool" where
  "standing_mandate goalID ownerID at r \<longleftrightarrow>
     md_goal_id r = Some goalID \<and> md_owner_id r = ownerID \<and> md_scope_kind r = ''owner_goal'' \<and> md_status r = ''active''
     \<and> md_revoked_at r = None \<and> at < md_expires_at r"

definition ReadGoalDenialsTx :: "string \<Rightarrow> string \<Rightarrow> instant \<Rightarrow> authority_db \<Rightarrow> string list \<times> ResourceScope list" where
  "ReadGoalDenialsTx goalID ownerID at db =
     (let ms = map md_data (sort_key md_mandate_id (filter (standing_mandate goalID ownerID at) (az_mandates db)))
      in (concat (map m_DenyTools ms), concat (map m_DenyResources ms)))"

definition bound_assignment :: "ActionBinding \<Rightarrow> Assignment" where
  "bound_assignment b =
     no_assignment\<lparr>as_GoalID := ab_GoalID b, as_GoalRevision := ab_GoalRevision b, as_MandateID := ab_MandateID b,
       as_MandateRevision := ab_MandateRevision b, as_Purpose := ab_Purpose b, as_PolicyRevision := ab_OwnerPolicyRevision b\<rparr>"

definition CheckTaskActionTx :: "auth_lib \<Rightarrow> schedule_fence \<Rightarrow> instant \<Rightarrow> authority_db \<Rightarrow> ActionBinding \<Rightarrow> instant \<Rightarrow> go_err + unit" where
  "CheckTaskActionTx L S now db b at =
     bindE (LoadTx (az_delegations db) (ab_TaskID b)) (\<lambda>d.
     bindE (failif (\<not> delegationAllows L d b) ErrDelegationDenied) (\<lambda>_.
     bindE (CheckTaskAuthorityTx L S now db (ab_TaskID b) (ab_OwnerID b) (Some (bound_assignment b)) at) (\<lambda>a.
     if as_TaskID a = [] then Inr ()
     else bindE (CheckAssignmentTx L db a at) (\<lambda>(m, g).
          bindE (CheckAssignedAction L m b at) (\<lambda>_.
          let (tools, resources) = ReadGoalDenialsTx (as_GoalID a) (as_OwnerID a) at db
          in CheckDenyOverrides L b tools resources)))))"

end
