(* ===== verification/Goal.thy ===== *)
theory Goal
  imports Authority
begin

text \<open>
  The owner's goals and mandates (\<^verbatim>\<open>apps/orchestrator/internal/goal\<close>: \<^verbatim>\<open>manager.go\<close>, \<^verbatim>\<open>owner_revoke.go\<close>,
  \<^verbatim>\<open>assumptions.go\<close>, \<^verbatim>\<open>jobs.go\<close>). Every decision is one transaction keyed by the delivery that carried it; a change
  of existing authority leaves a job that stops or pauses the branches bound to the old revisions. Digests of requests
  are functions in \<open>goal_lib\<close>, as is the control of one task, which another component applies.
\<close>

section \<open>Data\<close>

definition ErrGoalInvalid :: go_err where "ErrGoalInvalid = Sentinel ''invalid owner authority request''"
definition ErrGoalConflict :: go_err where "ErrGoalConflict = Sentinel ''owner authority revision or delivery conflict''"
definition ErrGoalUnauthorized :: go_err where "ErrGoalUnauthorized = Sentinel ''authenticated owner authority required''"

record GoalRequest =
  gq_Goal :: GoalPolicy
  gq_ExpectedRevision :: int
  gq_ParentRef :: string

record MandateRequest =
  mq_Mandate :: Mandate
  mq_ExpectedRevision :: int

record Receipt =
  rc_EventID :: string
  rc_SubjectID :: string
  rc_Revision :: int
  rc_Propagation :: string

record AdmissionRequest =
  aq_OwnerID :: string
  aq_GoalID :: string
  aq_MandateID :: string
  aq_Purpose :: string
  aq_ObservationRef :: string
  aq_InitiativeReason :: string

record goal_lib =
  gx_goal :: "GoalRequest \<Rightarrow> string"
  gx_mandate :: "MandateRequest \<Rightarrow> string"
  gx_revoke :: "string \<Rightarrow> int \<Rightarrow> string"
  gx_strings :: "string list \<Rightarrow> string"

text \<open>
  The clock readings and random identifiers of a decision: the start of the transaction, the clock of the process, the
  clock of the database, and the text of \<^verbatim>\<open>newID\<close> for the event and for a new goal or mandate.
\<close>

record decision_env =
  de_tx :: instant
  de_go :: instant
  de_clock :: instant
  de_event :: string
  de_subject :: string

section \<open>Decisions\<close>

definition goal_actor :: "Actor option \<Rightarrow> go_err + Actor" where
  "goal_actor v =
     bindE (need (FromContext v) ErrGoalUnauthorized) (\<lambda>a.
     bindE (failif (512 < length (ac_DeliveryID a)) ErrGoalUnauthorized) (\<lambda>_. Inr a))"

definition same_owner_delivery :: "Actor \<Rightarrow> authority_event \<Rightarrow> bool" where
  "same_owner_delivery a e \<longleftrightarrow> oe_owner_id e = ac_OwnerID a \<and> oe_source e = ac_Channel a \<and> oe_delivery_id e = ac_DeliveryID a"

text \<open>The receipt of an earlier delivery, or \<open>None\<close> for a new one.\<close>

definition beginDecision :: "Actor \<Rightarrow> string \<Rightarrow> authority_db \<Rightarrow> go_err + Receipt option" where
  "beginDecision a hash db =
     (case first_row (same_owner_delivery a) (az_events db) of
        None \<Rightarrow> Inr None
      | Some e \<Rightarrow>
          bindE (failif (hash \<noteq> oe_request_hash e) ErrGoalConflict) (\<lambda>_.
          Inr (Some \<lparr>rc_EventID = oe_event_id e, rc_SubjectID = oe_subject_id e, rc_Revision = oe_revision e,
                     rc_Propagation = (case tbl_find jb_event_id (oe_event_id e) (az_jobs db) of None \<Rightarrow> ''applied'' | Some j \<Rightarrow> jb_state j)\<rparr>)))"

definition event_key_violation :: go_err where
  "event_key_violation = PgError ''23505'' ''duplicate key value violates unique constraint \"owner_authority_events_pkey\"''"

definition add_event :: "authority_event \<Rightarrow> authority_db \<Rightarrow> go_err + authority_db" where
  "add_event e db =
     bindE (failif (tbl_find oe_event_id (oe_event_id e) (az_events db) \<noteq> None) event_key_violation) (\<lambda>_.
     Inr (db\<lparr>az_events := az_events db @ [e]\<rparr>))"

definition pending_job :: "instant \<Rightarrow> authority_event \<Rightarrow> string \<Rightarrow> job_row" where
  "pending_job now e control =
     \<lparr>jb_event_id = oe_event_id e, jb_owner_id = oe_owner_id e, jb_subject_kind = oe_subject_kind e, jb_subject_id = oe_subject_id e,
      jb_current_revision = oe_revision e, jb_control_kind = control, jb_state = ''pending'', jb_attempts = 0, jb_last_error = [],
      jb_updated_at = now\<rparr>"

definition add_job :: "job_row \<Rightarrow> authority_db \<Rightarrow> authority_db" where
  "add_job j db = db\<lparr>az_jobs := az_jobs db @ [j]\<rparr>"

definition saveDecision ::
  "decision_env \<Rightarrow> Actor \<Rightarrow> string \<Rightarrow> string \<Rightarrow> int \<Rightarrow> string \<Rightarrow> bool \<Rightarrow> bool \<Rightarrow> authority_db \<Rightarrow> go_err + Receipt \<times> authority_db" where
  "saveDecision env a kind i revision hash propagate revoked db =
     (let e = \<lparr>oe_event_id = ''authority_'' @ de_event env, oe_owner_id = ac_OwnerID a, oe_source = ac_Channel a,
               oe_delivery_id = ac_DeliveryID a, oe_subject_kind = kind, oe_subject_id = i, oe_revision = revision, oe_request_hash = hash\<rparr>;
          r = \<lparr>rc_EventID = oe_event_id e, rc_SubjectID = i, rc_Revision = revision, rc_Propagation = ''applied''\<rparr>
      in bindE (add_event e db) (\<lambda>db.
         if propagate
         then Inr (r\<lparr>rc_Propagation := ''pending''\<rparr>, add_job (pending_job (de_tx env) e (if revoked then ''stop'' else ''pause'')) db)
         else Inr (r, db)))"

text \<open>A decision: a repeated delivery returns its receipt, a new one runs the body.\<close>

definition owner_decision ::
  "Actor \<Rightarrow> string \<Rightarrow> (authority_db \<Rightarrow> go_err + Receipt \<times> authority_db) \<Rightarrow> authority_db \<Rightarrow> (go_err, Receipt, authority_db) outcome" where
  "owner_decision a hash body =
     run_tx (\<lambda>db.
       bindE (beginDecision a hash db) (\<lambda>replay.
       case replay of Some r \<Rightarrow> Inr (r, db) | None \<Rightarrow> body db))"

section \<open>Goals\<close>

definition purpose_breaks :: string where
  "purpose_breaks = [CHR ''*'', CHR ''?'', CHR '' '', CHR 0x0A, CHR 0x0D]"

definition policy_kind :: "string \<Rightarrow> bool" where
  "policy_kind kind \<longleftrightarrow> kind = ''preference'' \<or> kind = ''constraint''"

definition validateGoal :: "GoalEntry \<Rightarrow> instant \<Rightarrow> go_err + unit" where
  "validateGoal g now =
     bindE (failif (TrimSpace (gp_Title g) = [] \<or> 8192 < length (gp_Title g) \<or> 64 < length (gp_Constraints g) \<or> gp_Purpose g = []
              \<or> 128 < length (gp_Purpose g) \<or> ContainsAny (gp_Purpose g) purpose_breaks
              \<or> (gp_Status g = ''active'' \<or> gp_Status g = ''proposed'') \<and> gp_ExpiresAt g \<le> now \<or> now + 366 * day < gp_ExpiresAt g) ErrGoalInvalid) (\<lambda>_.
     bindE (if gp_Kind g = ''objective'' \<or> policy_kind (gp_Kind g)
            then failif (gp_Status g \<noteq> ''active'' \<and> gp_Status g \<noteq> ''paused'' \<and> gp_Status g \<noteq> ''revoked'') ErrGoalInvalid
            else if gp_Kind g = ''assumption'' then failif (gp_Status g \<noteq> ''proposed'') ErrGoalInvalid
            else Inl ErrGoalInvalid) (\<lambda>_.
     failif (list_ex (\<lambda>c. TrimSpace c = [] \<or> 8192 < length c) (gp_Constraints g)) ErrGoalInvalid))"

definition goal_entry :: "GoalPolicy \<Rightarrow> GoalEntry" where
  "goal_entry g =
     \<lparr>gp_ID = gp_ID g, gp_OwnerID = gp_OwnerID g, gp_Kind = gp_Kind g, gp_Status = gp_Status g, gp_Revision = gp_Revision g,
      gp_Title = gp_Title g, gp_Purpose = gp_Purpose g, gp_Constraints = gp_Constraints g, gp_ExpiresAt = gp_ExpiresAt g\<rparr>"

definition check_old_goal :: "Actor \<Rightarrow> GoalRequest \<Rightarrow> GoalEntry \<Rightarrow> authority_db \<Rightarrow> go_err + unit" where
  "check_old_goal a req g db =
     bindE (need (tbl_find gw_goal_id (gp_ID g) (az_goals db)) ErrGoalConflict) (\<lambda>old.
     bindE (failif (gw_owner_id old \<noteq> ac_OwnerID a) ErrGoalUnauthorized) (\<lambda>_.
     bindE (failif (gw_revision old \<noteq> gq_ExpectedRevision req \<or> gw_kind old \<noteq> gp_Kind g \<or> gw_status old = ''revoked'') ErrGoalConflict) (\<lambda>_.
     failif (policy_kind (gp_Kind g) \<and> gp_Purpose g \<noteq> gp_Purpose (gw_data old)) ErrGoalConflict)))"

definition check_parent_ref :: "Actor \<Rightarrow> string \<Rightarrow> authority_db \<Rightarrow> go_err + unit" where
  "check_parent_ref a i db =
     (if i = [] then Inr ()
      else case tbl_find gw_goal_id i (az_goals db) of
        None \<Rightarrow> Inl ErrGoalInvalid
      | Some r \<Rightarrow> failif (gw_kind r \<noteq> ''assumption'' \<or> gw_owner_id r \<noteq> ac_OwnerID a) ErrGoalInvalid)"

text \<open>\<^verbatim>\<open>INSERT INTO owner_goals ... ON CONFLICT(goal_id) DO UPDATE\<close>: owner and kind of an existing row are kept.\<close>

definition put_goal_row :: "GoalEntry \<Rightarrow> authority_db \<Rightarrow> authority_db" where
  "put_goal_row g db =
     (case tbl_find gw_goal_id (gp_ID g) (az_goals db) of
        None \<Rightarrow> db\<lparr>az_goals := az_goals db @
          [\<lparr>gw_goal_id = gp_ID g, gw_owner_id = gp_OwnerID g, gw_kind = gp_Kind g, gw_status = gp_Status g, gw_revision = gp_Revision g,
            gw_expires_at = micros (gp_ExpiresAt g), gw_data = g\<rparr>]\<rparr>
      | Some _ \<Rightarrow> db\<lparr>az_goals := tbl_update (\<lambda>r. gw_goal_id r = gp_ID g)
          (\<lambda>r. r\<lparr>gw_status := gp_Status g, gw_revision := gp_Revision g, gw_expires_at := micros (gp_ExpiresAt g), gw_data := g\<rparr>) (az_goals db)\<rparr>)"

definition ensure_policy :: "string \<Rightarrow> string \<Rightarrow> authority_db \<Rightarrow> authority_db" where
  "ensure_policy ownerID purpose db =
     (if first_row (purpose_row ownerID purpose) (az_policies db) = None
      then db\<lparr>az_policies := az_policies db @ [\<lparr>pp_owner_id = ownerID, pp_purpose = purpose, pp_revision = 0\<rparr>]\<rparr> else db)"

definition bump_policy :: "string \<Rightarrow> string \<Rightarrow> authority_db \<Rightarrow> go_err + int \<times> authority_db" where
  "bump_policy ownerID purpose db =
     bindE (need (first_row (purpose_row ownerID purpose) (az_policies db)) ErrNoRows) (\<lambda>p.
     Inr (pp_revision p + 1,
          db\<lparr>az_policies := tbl_update (purpose_row ownerID purpose) (\<lambda>p. p\<lparr>pp_revision := pp_revision p + 1\<rparr>) (az_policies db)\<rparr>))"

text \<open>The goal a request asks for, after the checks of the transaction, and what is then written.\<close>

definition check_goal :: "decision_env \<Rightarrow> Actor \<Rightarrow> GoalRequest \<Rightarrow> authority_db \<Rightarrow> go_err + GoalEntry" where
  "check_goal env a req db =
     (let g = (goal_entry (gq_Goal req))\<lparr>gp_ExpiresAt := micros (gp_ExpiresAt (gq_Goal req))\<rparr>
      in bindE (validateGoal g (de_go env)) (\<lambda>_.
         bindE (if gp_ID g = []
                then bindE (failif (gq_ExpectedRevision req \<noteq> 0) ErrGoalConflict) (\<lambda>_. Inr (''goal_'' @ de_subject env))
                else bindE (check_old_goal a req g db) (\<lambda>_. Inr (gp_ID g))) (\<lambda>i.
         bindE (check_parent_ref a (gq_ParentRef req) db) (\<lambda>_.
         Inr (g\<lparr>gp_ID := i, gp_OwnerID := ac_OwnerID a, gp_Revision := gq_ExpectedRevision req + 1\<rparr>)))))"

definition commit_goal :: "decision_env \<Rightarrow> Actor \<Rightarrow> GoalRequest \<Rightarrow> string \<Rightarrow> GoalEntry \<Rightarrow> authority_db \<Rightarrow> go_err + Receipt \<times> authority_db" where
  "commit_goal env a req hash g db =
     (let isPolicy = policy_kind (gp_Kind g);
          db = ensure_policy (ac_OwnerID a) (gp_Purpose g) (put_goal_row g db)
      in bindE (if isPolicy then bump_policy (ac_OwnerID a) (gp_Purpose g) db else Inr (0, db)) (\<lambda>(policyRevision, db).
         bindE (saveDecision env a ''goal'' (gp_ID g) (gp_Revision g) hash (0 < gq_ExpectedRevision req \<or> isPolicy)
                  (gp_Status g = ''revoked'' \<and> \<not> isPolicy) db) (\<lambda>(r, db).
         Inr (r, if isPolicy
                 then db\<lparr>az_jobs := tbl_update (\<lambda>j. jb_event_id j = rc_EventID r)
                   (\<lambda>j. j\<lparr>jb_subject_kind := ''policy'', jb_subject_id := gp_Purpose g, jb_current_revision := policyRevision\<rparr>) (az_jobs db)\<rparr>
                 else db))))"

definition PutGoal :: "goal_lib \<Rightarrow> decision_env \<Rightarrow> Actor option \<Rightarrow> GoalRequest \<Rightarrow> authority_db \<Rightarrow> (go_err, Receipt, authority_db) outcome" where
  "PutGoal X env actor req db =
     (case bindE (goal_actor actor) (\<lambda>a.
             bindE (failif (gp_OwnerID (gq_Goal req) \<noteq> [] \<and> gp_OwnerID (gq_Goal req) \<noteq> ac_OwnerID a) ErrGoalUnauthorized) (\<lambda>_. Inr a)) of
        Inl err \<Rightarrow> (Inl err, db)
      | Inr a \<Rightarrow>
          let hash = gx_goal X req
          in owner_decision a hash (\<lambda>db. bindE (check_goal env a req db) (\<lambda>g. commit_goal env a req hash g db)) db)"

section \<open>Mandates\<close>

definition check_old_mandate :: "Actor \<Rightarrow> MandateRequest \<Rightarrow> authority_db \<Rightarrow> go_err + Mandate" where
  "check_old_mandate a req db =
     (let m = mq_Mandate req
      in bindE (need (tbl_find md_mandate_id (m_ID m) (az_mandates db)) ErrGoalConflict) (\<lambda>r.
         bindE (failif (md_scope_kind r \<noteq> ''owner_goal'' \<or> md_revision r \<noteq> mq_ExpectedRevision req \<or> md_status r = ''revoked'') ErrGoalConflict) (\<lambda>_.
         bindE (failif (md_owner_id r \<noteq> ac_OwnerID a) ErrGoalUnauthorized) (\<lambda>_.
         bindE (failif (m_GoalID (md_data r) \<noteq> m_GoalID m \<or> m_Budget (md_data r) \<noteq> m_Budget m) ErrGoalConflict) (\<lambda>_.
         Inr (md_data r))))))"

definition goal_of_mandate :: "instant \<Rightarrow> Actor \<Rightarrow> Mandate \<Rightarrow> authority_db \<Rightarrow> go_err + unit" where
  "goal_of_mandate now a m db =
     bindE (need (tbl_find gw_goal_id (m_GoalID m) (az_goals db)) ErrOwnerAuthority) (\<lambda>g.
     bindE (failif (gw_owner_id g \<noteq> ac_OwnerID a \<or> gw_kind g \<noteq> ''objective''
              \<or> m_Status m = ''active'' \<and> (gw_status g \<noteq> ''active'' \<or> gw_expires_at g \<le> now \<or> gw_revision g \<noteq> m_GoalRevision m)) ErrOwnerAuthority) (\<lambda>_.
     failif (m_Status m = ''active'' \<and> (m_Purpose m \<noteq> gp_Purpose (gw_data g) \<or> gw_expires_at g < m_ExpiresAt m)) ErrGoalInvalid))"

definition decision_source :: "Actor \<Rightarrow> (string \<times> string) list" where
  "decision_source a = [(''author'', ac_OwnerID a), (''channel'', ac_Channel a), (''delivery_id'', ac_DeliveryID a)]"

definition put_mandate_row :: "instant \<Rightarrow> Mandate \<Rightarrow> authority_db \<Rightarrow> authority_db" where
  "put_mandate_row now m db =
     (let revoked = (if m_Status m = ''revoked'' then Some now else None)
      in case tbl_find md_mandate_id (m_ID m) (az_mandates db) of
           None \<Rightarrow> db\<lparr>az_mandates := az_mandates db @
             [\<lparr>md_mandate_id = m_ID m, md_owner_id = m_OwnerID m, md_task_id = [], md_revision = m_Revision m, md_expires_at = micros (m_ExpiresAt m),
               md_revoked_at = revoked, md_scope_kind = ''owner_goal'', md_goal_id = Some (m_GoalID m), md_goal_revision = m_GoalRevision m,
               md_status = m_Status m, md_data = m\<rparr>]\<rparr>
         | Some _ \<Rightarrow> db\<lparr>az_mandates := tbl_update (\<lambda>r. md_mandate_id r = m_ID m)
             (\<lambda>r. r\<lparr>md_revision := m_Revision m, md_data := m, md_expires_at := micros (m_ExpiresAt m), md_goal_revision := m_GoalRevision m,
                    md_status := m_Status m, md_revoked_at := revoked\<rparr>) (az_mandates db)\<rparr>)"

definition check_mandate :: "auth_lib \<Rightarrow> decision_env \<Rightarrow> Actor \<Rightarrow> MandateRequest \<Rightarrow> authority_db \<Rightarrow> go_err + Mandate" where
  "check_mandate L env a req db =
     (let m = (mq_Mandate req)\<lparr>m_ExpiresAt := micros (m_ExpiresAt (mq_Mandate req))\<rparr>
      in bindE (if m_ID m = []
                then bindE (failif (mq_ExpectedRevision req \<noteq> 0) ErrGoalConflict) (\<lambda>_.
                     Inr (m\<lparr>m_ID := ''mandate_'' @ de_subject env, m_BudgetDeadline := m_ExpiresAt m\<rparr>))
                else bindE (check_old_mandate a req db) (\<lambda>old. Inr (m\<lparr>m_BudgetDeadline := m_BudgetDeadline old\<rparr>))) (\<lambda>m.
         bindE (goal_of_mandate (de_go env) a m db) (\<lambda>_.
         let m = m\<lparr>m_OwnerID := ac_OwnerID a, m_ScopeKind := ''owner_goal'', m_TaskID := [], m_TaskRevision := 0,
                   m_ConstraintsRevision := 0, m_Revision := mq_ExpectedRevision req + 1, m_Source := decision_source a\<rparr>
         in bindE (ValidateOwnerMandate L m (de_go env)) (\<lambda>_. Inr m))))"

definition owner_PutMandate ::
  "goal_lib \<Rightarrow> auth_lib \<Rightarrow> decision_env \<Rightarrow> Actor option \<Rightarrow> MandateRequest \<Rightarrow> authority_db \<Rightarrow> (go_err, Receipt, authority_db) outcome" where
  "owner_PutMandate X L env actor req db =
     (case bindE (goal_actor actor) (\<lambda>a.
             bindE (failif (m_OwnerID (mq_Mandate req) \<noteq> [] \<and> m_OwnerID (mq_Mandate req) \<noteq> ac_OwnerID a) ErrGoalUnauthorized) (\<lambda>_. Inr a)) of
        Inl err \<Rightarrow> (Inl err, db)
      | Inr a \<Rightarrow>
          let hash = gx_mandate X req
          in owner_decision a hash (\<lambda>db.
             bindE (check_mandate L env a req db) (\<lambda>m.
             saveDecision env a ''mandate'' (m_ID m) (m_Revision m) hash (0 < mq_ExpectedRevision req) (m_Status m = ''revoked'')
               (put_mandate_row (de_clock env) m db))) db)"

definition check_revoke :: "Actor \<Rightarrow> string \<Rightarrow> int \<Rightarrow> authority_db \<Rightarrow> go_err + Mandate" where
  "check_revoke a mandateID expected db =
     bindE (need (tbl_find md_mandate_id mandateID (az_mandates db)) ErrGoalConflict) (\<lambda>r.
     bindE (failif (md_owner_id r \<noteq> ac_OwnerID a) ErrGoalUnauthorized) (\<lambda>_.
     bindE (failif (md_scope_kind r \<noteq> ''owner_goal'' \<or> md_status r = ''revoked'' \<or> md_revision r \<noteq> expected) ErrGoalConflict) (\<lambda>_.
     bindE (need (tbl_find gw_goal_id (coalesce (md_goal_id r)) (az_goals db)) ErrGoalUnauthorized) (\<lambda>g.
     bindE (failif (gw_owner_id g \<noteq> ac_OwnerID a \<or> gw_kind g \<noteq> ''objective'') ErrGoalUnauthorized) (\<lambda>_.
     bindE (failif (m_OwnerID (md_data r) \<noteq> md_owner_id r \<or> m_GoalID (md_data r) \<noteq> coalesce (md_goal_id r)) ErrGoalInvalid) (\<lambda>_.
     Inr ((md_data r)\<lparr>m_ID := mandateID, m_ScopeKind := md_scope_kind r, m_GoalRevision := md_goal_revision r,
            m_ExpiresAt := md_expires_at r, m_Revision := md_revision r + 1, m_Status := ''revoked'', m_Source := decision_source a\<rparr>)))))))"

definition owner_RevokeMandate ::
  "goal_lib \<Rightarrow> decision_env \<Rightarrow> Actor option \<Rightarrow> string \<Rightarrow> int \<Rightarrow> authority_db \<Rightarrow> (go_err, Receipt, authority_db) outcome" where
  "owner_RevokeMandate X env actor mandateID expected db =
     (case bindE (goal_actor actor) (\<lambda>a.
             bindE (failif (mandateID = [] \<or> mandateID \<noteq> TrimSpace mandateID \<or> 256 < length mandateID \<or> expected \<le> 0) ErrGoalInvalid) (\<lambda>_. Inr a)) of
        Inl err \<Rightarrow> (Inl err, db)
      | Inr a \<Rightarrow>
          let hash = gx_revoke X mandateID expected
          in owner_decision a hash (\<lambda>db.
             bindE (check_revoke a mandateID expected db) (\<lambda>m.
             saveDecision env a ''mandate'' mandateID (m_Revision m) hash True True
               (db\<lparr>az_mandates := tbl_update (\<lambda>r. md_mandate_id r = mandateID)
                 (\<lambda>r. r\<lparr>md_revision := m_Revision m, md_status := ''revoked'', md_revoked_at := Some (de_clock env), md_data := m\<rparr>)
                 (az_mandates db)\<rparr>))) db)"

section \<open>Assumptions\<close>

definition goal_key_violation :: go_err where
  "goal_key_violation = PgError ''23505'' ''duplicate key value violates unique constraint \"owner_goals_pkey\"''"

text \<open>\<open>lease\<close> is the reading of the database clock when the token is checked.\<close>

definition check_assumption :: "decision_env \<Rightarrow> exec_ctx \<Rightarrow> instant \<Rightarrow> string \<Rightarrow> string \<Rightarrow> string \<Rightarrow> authority_db \<Rightarrow> go_err + Token \<times> GoalEntry" where
  "check_assumption env ctx lease title purpose observationRef db =
     bindE (need (TokenFromContext ctx) ErrGoalUnauthorized) (\<lambda>token.
     bindE (failif (observationRef = []) ErrGoalUnauthorized) (\<lambda>_.
     bindE (own_Begin ctx lease (az_kernel db)) (\<lambda>_.
     bindE (need (tbl_find s_session_key (tok_SessionKey token) (sessions (az_kernel db))) ErrNoRows) (\<lambda>s.
     let g = \<lparr>gp_ID = ''assumption_'' @ de_subject env, gp_OwnerID = s_user_id s, gp_Kind = ''assumption'', gp_Status = ''proposed'',
               gp_Revision = 1, gp_Title = title, gp_Purpose = purpose, gp_Constraints = [], gp_ExpiresAt = de_go env + 30 * day\<rparr>
     in bindE (validateGoal g (de_go env)) (\<lambda>_. Inr (token, g))))))"

definition ProposeAssumption ::
  "goal_lib \<Rightarrow> decision_env \<Rightarrow> exec_ctx \<Rightarrow> instant \<Rightarrow> string \<Rightarrow> string \<Rightarrow> string \<Rightarrow> authority_db \<Rightarrow> (go_err, Receipt, authority_db) outcome" where
  "ProposeAssumption X env ctx lease title purpose observationRef db =
     (case check_assumption env ctx lease title purpose observationRef db of
        Inl err \<Rightarrow> (Inl err, db)
      | Inr (token, g) \<Rightarrow>
          let proof_of = \<lparr>ac_OwnerID = gp_OwnerID g, ac_Channel = ''model_proposal'', ac_SessionKey = [],
                          ac_DeliveryID = tok_RunID token @ '':'' @ observationRef\<rparr>;
              hash = gx_strings X [title, purpose, observationRef]
          in owner_decision proof_of hash (\<lambda>db.
             bindE (failif (tbl_find gw_goal_id (gp_ID g) (az_goals db) \<noteq> None) goal_key_violation) (\<lambda>_.
             saveDecision env proof_of ''goal'' (gp_ID g) 1 hash False False (put_goal_row g db))) db)"

section \<open>Admission\<close>

definition candidate :: "AdmissionRequest \<Rightarrow> mandate_row \<Rightarrow> Assignment" where
  "candidate req r =
     no_assignment\<lparr>as_OwnerID := aq_OwnerID req, as_GoalID := aq_GoalID req, as_Purpose := aq_Purpose req,
       as_InitiativeReason := aq_InitiativeReason req, as_ObservationRef := aq_ObservationRef req, as_MandateID := md_mandate_id r,
       as_MandateRevision := md_revision r, as_GoalRevision := md_goal_revision r\<rparr>"

definition checkTaskAdmissionTx :: "auth_lib \<Rightarrow> AdmissionRequest \<Rightarrow> instant \<Rightarrow> bool \<Rightarrow> authority_db \<Rightarrow> go_err + Assignment" where
  "checkTaskAdmissionTx L req at requireInitiative db =
     (let candidates = map (candidate req) (sort_key md_mandate_id (filter (standing_mandate (aq_GoalID req) (aq_OwnerID req) at) (az_mandates db)))
      in bindE (failif (aq_OwnerID req = [] \<or> aq_GoalID req = [] \<or> aq_Purpose req = [] \<or> TrimSpace (aq_InitiativeReason req) = []
              \<or> TrimSpace (aq_ObservationRef req) = [] \<or> 8192 < length (aq_InitiativeReason req) \<or> 512 < length (aq_ObservationRef req)) ErrGoalInvalid) (\<lambda>_.
         bindE (if aq_MandateID req = []
                then (case candidates of [a] \<Rightarrow> Inr a | _ \<Rightarrow> Inl ErrGoalConflict)
                else need (find (\<lambda>a. as_MandateID a = aq_MandateID req) candidates) ErrOwnerAuthority) (\<lambda>a.
         bindE (need (first_row (purpose_row (as_OwnerID a) (as_Purpose a)) (az_policies db)) ErrNoRows) (\<lambda>p.
         let a = a\<lparr>as_PolicyRevision := pp_revision p\<rparr>
         in bindE (CheckAssignmentTx L db a at) (\<lambda>(m, g).
            bindE (failif (requireInitiative \<and> \<not> m_AllowInitiative m) ErrOwnerAuthority) (\<lambda>_. Inr a))))))"

definition CheckAdmissionTx :: "auth_lib \<Rightarrow> AdmissionRequest \<Rightarrow> instant \<Rightarrow> authority_db \<Rightarrow> go_err + Assignment" where
  "CheckAdmissionTx L req at db = checkTaskAdmissionTx L req at True db"

definition ReadTaskAuthority :: "auth_lib \<Rightarrow> string \<Rightarrow> instant \<Rightarrow> authority_db \<Rightarrow> Assignment \<times> (go_err + (Mandate \<times> GoalPolicy) option)" where
  "ReadTaskAuthority L taskID at db =
     (let a = GetTaskAssignment taskID db
      in (a, if as_TaskID a = [] then Inr None else map_sum id Some (CheckAssignmentTx L db a at)))"

section \<open>Expiry\<close>

definition expiry_event :: "string \<Rightarrow> string \<Rightarrow> string \<Rightarrow> string \<Rightarrow> string \<Rightarrow> int \<Rightarrow> authority_event" where
  "expiry_event eventID ownerID delivery kind i revision =
     \<lparr>oe_event_id = eventID, oe_owner_id = ownerID, oe_source = ''system_expiry'', oe_delivery_id = delivery, oe_subject_kind = kind,
      oe_subject_id = i, oe_revision = revision, oe_request_hash = ''deadline''\<rparr>"

definition expired_policy :: "instant \<Rightarrow> goal_row \<Rightarrow> bool" where
  "expired_policy now r \<longleftrightarrow> policy_kind (gw_kind r) \<and> gw_status r = ''active'' \<and> gw_expires_at r \<le> now"

definition pause_goal :: "goal_row \<Rightarrow> goal_row" where
  "pause_goal r =
     r\<lparr>gw_status := ''paused'', gw_revision := gw_revision r + 1,
       gw_data := (gw_data r)\<lparr>gp_Status := ''paused'', gp_Revision := gw_revision r + 1\<rparr>\<rparr>"

definition expire_item :: "instant \<Rightarrow> goal_row \<Rightarrow> authority_db \<Rightarrow> go_err + authority_db" where
  "expire_item now e db =
     (let i = ''expiry:policy:'' @ gw_goal_id e @ '':'' @ show_int (gw_revision e);
          ev = expiry_event i (gw_owner_id e) i ''goal'' (gw_goal_id e) (gw_revision e + 1)
      in bindE (bump_policy (gw_owner_id e) (gp_Purpose (gw_data e)) db) (\<lambda>(revision, db).
         bindE (add_event ev (db\<lparr>az_goals := tbl_update (\<lambda>r. gw_goal_id r = gw_goal_id e) pause_goal (az_goals db)\<rparr>)) (\<lambda>db.
         Inr (add_job ((pending_job now ev ''pause'')\<lparr>jb_subject_kind := ''policy'', jb_subject_id := gp_Purpose (gw_data e), jb_current_revision := revision\<rparr>) db))))"

fun expire_items :: "instant \<Rightarrow> goal_row list \<Rightarrow> authority_db \<Rightarrow> go_err + authority_db" where
  "expire_items now [] db = Inr db"
| "expire_items now (e # es) db = bindE (expire_item now e db) (expire_items now es)"

definition expirePolicies :: "instant \<Rightarrow> authority_db \<Rightarrow> (go_err, unit, authority_db) outcome" where
  "expirePolicies now =
     run_tx (\<lambda>db. bindE (expire_items now (take 16 (sort_key gw_goal_id (filter (expired_policy now) (az_goals db)))) db) (\<lambda>db. Inr ((), db)))"

definition expired_subjects :: "instant \<Rightarrow> authority_db \<Rightarrow> (string \<times> string \<times> string \<times> int) list" where
  "expired_subjects now db =
     map (\<lambda>g. (gw_owner_id g, ''goal'', gw_goal_id g, gw_revision g)) (filter (\<lambda>g. gw_status g = ''active'' \<and> gw_expires_at g \<le> now) (az_goals db))
     @ map (\<lambda>r. (md_owner_id r, ''mandate'', md_mandate_id r, md_revision r))
         (filter (\<lambda>r. md_scope_kind r = ''owner_goal'' \<and> md_status r = ''active'' \<and> md_expires_at r \<le> now) (az_mandates db))"

definition queue_subject :: "instant \<Rightarrow> string \<times> string \<times> string \<times> int \<Rightarrow> authority_db \<Rightarrow> go_err + authority_db" where
  "queue_subject now x db =
     (case x of (ownerID, kind, i, revision) \<Rightarrow>
       let delivery = kind @ '':'' @ i @ '':'' @ show_int revision;
           ev = expiry_event (''expiry:'' @ delivery) ownerID delivery kind i revision
       in if \<exists>e \<in> set (az_events db). oe_owner_id e = ownerID \<and> oe_source e = ''system_expiry'' \<and> oe_delivery_id e = delivery
          then Inr db
          else bindE (add_event ev db) (\<lambda>db. Inr (add_job (pending_job now ev ''stop'') db)))"

fun queue_expired :: "instant \<Rightarrow> (string \<times> string \<times> string \<times> int) list \<Rightarrow> authority_db \<Rightarrow> go_err + authority_db" where
  "queue_expired now [] db = Inr db"
| "queue_expired now (x # xs) db = bindE (queue_subject now x db) (queue_expired now xs)"

definition queueExpired :: "instant \<Rightarrow> instant \<Rightarrow> authority_db \<Rightarrow> (go_err, unit, authority_db) outcome" where
  "queueExpired now1 now2 db =
     (case expirePolicies now1 db of
        (Inl err, db) \<Rightarrow> (Inl err, db)
      | (Inr _, db) \<Rightarrow> run_tx (\<lambda>db. bindE (queue_expired now2 (expired_subjects now2 db) db) (\<lambda>db. Inr ((), db))) db)"

section \<open>Propagation\<close>

text \<open>A live task whose binding the subject of a job has outdated, with all the rows of the join.\<close>

definition outdated :: "instant \<Rightarrow> job_row \<Rightarrow> authority_db \<Rightarrow> Assignment \<Rightarrow> bool" where
  "outdated now j db b =
     (case (tbl_find k_task_id (as_TaskID b) (az_tasks db), tbl_find gw_goal_id (as_GoalID b) (az_goals db),
            tbl_find md_mandate_id (as_MandateID b) (az_mandates db), first_row (purpose_row (as_OwnerID b) (as_Purpose b)) (az_policies db)) of
        (Some t, Some g, Some a, Some p) \<Rightarrow>
          as_OwnerID b = jb_owner_id j \<and> k_status t \<noteq> ''completed'' \<and> k_status t \<noteq> ''cancelled''
          \<and> (jb_control_kind j = ''stop'' \<or> k_status t \<noteq> ''paused'')
          \<and> (jb_subject_kind j = ''goal'' \<and> as_GoalID b = jb_subject_id j
               \<and> (as_GoalRevision b \<noteq> gw_revision g \<or> gw_status g \<noteq> ''active'' \<or> gw_expires_at g \<le> now)
             \<or> jb_subject_kind j = ''mandate'' \<and> as_MandateID b = jb_subject_id j
               \<and> (as_MandateRevision b \<noteq> md_revision a \<or> md_status a \<noteq> ''active'' \<or> md_expires_at a \<le> now)
             \<or> jb_subject_kind j = ''policy'' \<and> as_Purpose b = jb_subject_id j \<and> as_PolicyRevision b \<noteq> pp_revision p)
      | _ \<Rightarrow> False)"

text \<open>\<^verbatim>\<open>ORDER BY t.parent_task_id NULLS FIRST,b.task_id LIMIT 32\<close>.\<close>

definition outdated_tasks :: "instant \<Rightarrow> job_row \<Rightarrow> authority_db \<Rightarrow> string list" where
  "outdated_tasks now j db =
     (let parent = (\<lambda>b. case tbl_find k_task_id (as_TaskID b) (az_tasks db) of None \<Rightarrow> None | Some t \<Rightarrow> k_parent_task_id t)
      in map as_TaskID (take 32 (sort_key (\<lambda>b. case parent b of None \<Rightarrow> [] | Some i \<Rightarrow> [i])
           (sort_key as_TaskID (filter (outdated now j db) (az_bindings db))))))"

definition set_job :: "string \<Rightarrow> (job_row \<Rightarrow> job_row) \<Rightarrow> authority_db \<Rightarrow> authority_db" where
  "set_job i f db = db\<lparr>az_jobs := tbl_update (\<lambda>j. jb_event_id j = i) f (az_jobs db)\<rparr>"

definition jobFailed :: "instant \<Rightarrow> string \<Rightarrow> go_err \<Rightarrow> authority_db \<Rightarrow> (go_err, unit, authority_db) outcome" where
  "jobFailed now i cause db =
     (Inl (Wrap ''owner authority propagation pending'' cause),
      set_job i (\<lambda>j. j\<lparr>jb_attempts := jb_attempts j + 1, jb_last_error := ''branch cancellation unavailable'', jb_updated_at := now\<rparr>) db)"

text \<open>The control of one task: \<^verbatim>\<open>Controller.Apply\<close> with the owner proof, the task, its revision and the kind of control.\<close>

type_synonym control_port = "Actor \<Rightarrow> string \<Rightarrow> int \<Rightarrow> string \<Rightarrow> authority_db \<Rightarrow> (go_err, unit, authority_db) outcome"

fun sweep_tasks :: "control_port \<Rightarrow> job_row \<Rightarrow> string list \<Rightarrow> authority_db \<Rightarrow> (go_err, unit, authority_db) outcome" where
  "sweep_tasks C j [] db = (Inr (), db)"
| "sweep_tasks C j (i # ids) db =
     (case tbl_find k_task_id i (az_tasks db) of
        None \<Rightarrow> (Inl ErrTaskNotFound, db)
      | Some r \<Rightarrow>
          if k_status r = ''completed'' \<or> k_status r = ''cancelled'' \<or> jb_control_kind j = ''pause'' \<and> k_status r = ''paused''
          then sweep_tasks C j ids db
          else let actor = \<lparr>ac_OwnerID = jb_owner_id j, ac_Channel = ''web'', ac_SessionKey = [],
                            ac_DeliveryID = ''authority-job:'' @ jb_event_id j @ '':'' @ i @ '':'' @ show_int (k_revision r)\<rparr>
               in (case C actor i (k_revision r) (jb_control_kind j) db of
                     (Inr _, db) \<Rightarrow> sweep_tasks C j ids db
                   | (Inl err, db) \<Rightarrow> if err_is err ErrTaskConflict then sweep_tasks C j ids db else (Inl err, db)))"

record sweep_clock =
  sc_policies :: instant
  sc_expired :: instant
  sc_select :: instant
  sc_recheck :: instant
  sc_update :: instant

definition Sweep :: "control_port option \<Rightarrow> sweep_clock \<Rightarrow> authority_db \<Rightarrow> (go_err, unit, authority_db) outcome" where
  "Sweep controls ck db =
     (case controls of
        None \<Rightarrow> (Inl (Errorf ''owner authority propagation unavailable''), db)
      | Some C \<Rightarrow>
          (case queueExpired (sc_policies ck) (sc_expired ck) db of
             (Inl err, db) \<Rightarrow> (Inl err, db)
           | (Inr _, db) \<Rightarrow>
               (case sort_key jb_updated_at (sort_key jb_event_id (filter (\<lambda>j. jb_state j = ''pending'') (az_jobs db))) of
                  [] \<Rightarrow> (Inr (), db)
                | j # _ \<Rightarrow>
                    let ids = outdated_tasks (sc_select ck) j db
                    in (case sweep_tasks C j ids db of
                          (Inl err, db) \<Rightarrow> jobFailed (sc_update ck) (jb_event_id j) err db
                        | (Inr _, db) \<Rightarrow>
                            if length ids = 32
                            then (Inr (), set_job (jb_event_id j) (\<lambda>j. j\<lparr>jb_updated_at := sc_update ck, jb_attempts := jb_attempts j + 1\<rparr>) db)
                            else if list_ex (outdated (sc_recheck ck) j db) (az_bindings db) then (Inr (), db)
                            else (Inr (), set_job (jb_event_id j) (\<lambda>j. j\<lparr>jb_state := ''applied'', jb_last_error := [],
                                    jb_attempts := jb_attempts j + 1, jb_updated_at := sc_update ck\<rparr>) db)))))"

end
