(* ===== verification/AuthorityProps.thy ===== *)
theory AuthorityProps
  imports Authority EffectProps
begin

text \<open>
  What the checks of a dispatch establish when the journal of effects calls \<^verbatim>\<open>CheckTaskActionTx\<close>: the action stays
  inside the mandate, the goal and the delegation that are current when the dispatch is committed.
\<close>

section \<open>What the checks establish\<close>

lemma CheckAssignmentTx_Inr:
  assumes "CheckAssignmentTx L db a at = Inr (m, g)"
  obtains r q p where "tbl_find md_mandate_id (as_MandateID a) (az_mandates db) = Some r" and "mandate_current L a at r" and "m = scan_mandate r"
    and "tbl_find gw_goal_id (as_GoalID a) (az_goals db) = Some q" and "goal_current a at q"
    and "first_row (purpose_row (as_OwnerID a) (as_Purpose a)) (az_policies db) = Some p" and "pp_revision p = as_PolicyRevision a"
    and "\<And>x. x \<in> set (az_goals db) \<Longrightarrow> purpose_policy (as_OwnerID a) (as_Purpose a) x \<Longrightarrow> at < gw_expires_at x"
  using assms unfolding CheckAssignmentTx_def bindE_Inr_iff need_Inr_iff failif_Inr_iff Let_def
  by (auto simp: not_le)

lemma CheckTaskAuthorityTx_Inr:
  assumes "CheckTaskAuthorityTx L S now db taskID ownerID expected at = Inr a"
  shows "a = GetTaskAssignment taskID db"
    and "delegation_CheckTaskTx (az_tasks db) (az_delegations db) now taskID = Inr ()"
    and "as_TaskID a \<noteq> [] \<Longrightarrow> as_OwnerID a = ownerID \<and> (\<forall>e. expected = Some e \<longrightarrow> same_authority e a) \<and> (\<exists>mg. CheckAssignmentTx L db a at = Inr mg)"
    and "as_TaskID a = [] \<Longrightarrow> expected = Some e \<Longrightarrow> as_GoalID e = []"
  using assms by (auto simp: CheckTaskAuthorityTx_def Let_def split: if_splits option.splits)

lemma CheckDenyOverrides_Inr:
  assumes "CheckDenyOverrides L b tools resources = Inr ()"
  shows "ab_ToolName b \<notin> set tools" and "\<And>s. s \<in> set resources \<Longrightarrow> \<not> scopedResourceWithin L s b"
  using assms by (auto simp: CheckDenyOverrides_def list_ex_iff)

lemma ReadGoalDenialsTx_sets:
  assumes "ReadGoalDenialsTx goalID ownerID at db = (tools, resources)"
  shows "set tools = (\<Union>r \<in> {r \<in> set (az_mandates db). standing_mandate goalID ownerID at r}. set (m_DenyTools (md_data r)))"
    and "set resources = (\<Union>r \<in> {r \<in> set (az_mandates db). standing_mandate goalID ownerID at r}. set (m_DenyResources (md_data r)))"
  using assms by (auto simp: ReadGoalDenialsTx_def Let_def)

text \<open>The fixed local actions that every mandate of an owner's goal covers.\<close>

definition fixed_local :: "auth_lib \<Rightarrow> ActionBinding \<Rightarrow> bool" where
  "fixed_local L b \<longleftrightarrow> standardScheduleAction L b \<or> standardCatalogAction L b \<or> standardCredentialAction L b"

lemma ownerMandateAllows_covers:
  assumes "ownerMandateAllows L m b at"
  shows "ab_ToolName b \<in> set (m_Tools m) \<or> fixed_local L b" and "ab_ToolName b \<notin> set (m_DenyTools m)" and "ab_Effect b \<in> set (m_Effects m)"
    and "m_Revision m = ab_MandateRevision b" and "m_ID m = ab_MandateID b"
  using assms by (auto simp: ownerMandateAllows_def fixed_local_def Let_def split: if_splits)

lemma CheckTaskActionTx_Inr:
  assumes "CheckTaskActionTx L S now db b at = Inr ()"
  obtains d where "LoadTx (az_delegations db) (ab_TaskID b) = Inr d" and "delegationAllows L d b"
    and "delegation_CheckTaskTx (az_tasks db) (az_delegations db) now (ab_TaskID b) = Inr ()"
    and "\<And>a. tbl_find as_TaskID (ab_TaskID b) (az_bindings db) = Some a \<Longrightarrow> ab_TaskID b \<noteq> [] \<Longrightarrow>
      as_OwnerID a = ab_OwnerID b \<and> same_authority (bound_assignment b) a \<and>
      (\<exists>m g tools resources. CheckAssignmentTx L db a at = Inr (m, g) \<and> ownerMandateAllows L m b at \<and>
         ReadGoalDenialsTx (as_GoalID a) (as_OwnerID a) at db = (tools, resources) \<and> CheckDenyOverrides L b tools resources = Inr ())"
    and "tbl_find as_TaskID (ab_TaskID b) (az_bindings db) = None \<Longrightarrow> ab_GoalID b = []"
proof -
  from assms obtain d a where d: "LoadTx (az_delegations db) (ab_TaskID b) = Inr d" "delegationAllows L d b"
    and a: "CheckTaskAuthorityTx L S now db (ab_TaskID b) (ab_OwnerID b) (Some (bound_assignment b)) at = Inr a"
    and rest: "as_TaskID a = [] \<or> (\<exists>m g. CheckAssignmentTx L db a at = Inr (m, g) \<and> CheckAssignedAction L m b at = Inr ()
      \<and> (let (tools, resources) = ReadGoalDenialsTx (as_GoalID a) (as_OwnerID a) at db in CheckDenyOverrides L b tools resources = Inr ()))"
    unfolding CheckTaskActionTx_def bindE_Inr_iff failif_Inr_iff by (auto split: if_splits prod.splits)
  note auth = CheckTaskAuthorityTx_Inr [OF a]
  show thesis
  proof (rule that [OF d auth(2)])
    fix x
    assume x: "tbl_find as_TaskID (ab_TaskID b) (az_bindings db) = Some x" "ab_TaskID b \<noteq> []"
    then have "a = x" "as_TaskID a \<noteq> []" using auth(1) tbl_find_SomeD [OF x(1)] by (auto simp: GetTaskAssignment_def)
    then show "as_OwnerID x = ab_OwnerID b \<and> same_authority (bound_assignment b) x \<and>
      (\<exists>m g tools resources. CheckAssignmentTx L db x at = Inr (m, g) \<and> ownerMandateAllows L m b at \<and>
         ReadGoalDenialsTx (as_GoalID x) (as_OwnerID x) at db = (tools, resources) \<and> CheckDenyOverrides L b tools resources = Inr ())"
      using rest auth(3) by (auto simp: CheckAssignedAction_def)
  next
    assume "tbl_find as_TaskID (ab_TaskID b) (az_bindings db) = None"
    then have "as_TaskID a = []" using auth(1) by (simp add: GetTaskAssignment_def no_assignment_def)
    then show "ab_GoalID b = []" using auth(4) by (fastforce simp: bound_assignment_def)
  qed
qed

section \<open>Dispatch\<close>

lemma guard_task_action: "guard_task P now b s = Inr () \<Longrightarrow> pt_task_action P s b now = Inr ()"
  by (auto simp: guard_task_def Let_def)

lemma claim_checks_task_action:
  assumes "ClaimGrant P ck i s = (Inr (), t)" and "grantInTx i s = Inr g" and "ab_TaskID (gr_Binding g) \<noteq> []"
  shows "pt_task_action P s (gr_Binding g) (ck_go ck) = Inr ()"
  using assms(1)
proof (rule ClaimGrant_Inr)
  fix g'
  assume "grantInTx i s = Inr g'" "guardDispatch P ck g' s = Inr ()"
  then show ?thesis using assms(2,3) guardDispatch_Inr(3) guard_task_action by fastforce
qed


end
