(* ===== verification/GoalProps.thy ===== *)
theory GoalProps
  imports Goal AuthorityProps
begin

text \<open>
  How the owner's authority evolves: revisions only grow, what is revoked stays revoked, a mandate keeps its budget and
  its budget period, an assumption never becomes a goal, and a delivery is decided once. Identifiers drawn at random
  name no existing row.
\<close>

section \<open>Steps\<close>

inductive owner_step :: "authority_db \<Rightarrow> authority_db \<Rightarrow> bool" where
  os_goal: "tbl_find gw_goal_id (''goal_'' @ de_subject env) (az_goals s) = None \<Longrightarrow> PutGoal X env actor req s = (res, t) \<Longrightarrow> owner_step s t"
| os_mandate: "tbl_find md_mandate_id (''mandate_'' @ de_subject env) (az_mandates s) = None \<Longrightarrow>
    owner_PutMandate X L env actor mreq s = (res, t) \<Longrightarrow> owner_step s t"
| os_revoke: "owner_RevokeMandate X env actor i n s = (res, t) \<Longrightarrow> owner_step s t"
| os_assumption: "ProposeAssumption X env ctx lease title purpose obs s = (res, t) \<Longrightarrow> owner_step s t"
| os_expire: "queueExpired now1 now2 s = (out, t) \<Longrightarrow> owner_step s t"
| os_store_put: "ef_mandates (e :: unit effect_db) = az_mandates s \<Longrightarrow> PutMandate L now m e = (out, e') \<Longrightarrow> owner_step s (s\<lparr>az_mandates := ef_mandates e'\<rparr>)"
| os_store_revoke: "ef_mandates (e :: unit effect_db) = az_mandates s \<Longrightarrow> RevokeMandate now i ow n e = (out, e') \<Longrightarrow> owner_step s (s\<lparr>az_mandates := ef_mandates e'\<rparr>)"
| os_elsewhere: "az_mandates t = az_mandates s \<Longrightarrow> az_goals t = az_goals s \<Longrightarrow> az_policies t = az_policies s \<Longrightarrow>
    az_events t = az_events s \<Longrightarrow> owner_step s t"

section \<open>What later states keep\<close>

definition mandate_later :: "mandate_row \<Rightarrow> mandate_row \<Rightarrow> bool" where
  "mandate_later r r' \<longleftrightarrow>
     md_owner_id r' = md_owner_id r \<and> md_scope_kind r' = md_scope_kind r \<and> md_goal_id r' = md_goal_id r
     \<and> md_revision r \<le> md_revision r' \<and> (md_status r = ''revoked'' \<longrightarrow> r' = r)
     \<and> (md_scope_kind r = ''owner_goal'' \<longrightarrow> m_Budget (md_data r') = m_Budget (md_data r) \<and> m_BudgetDeadline (md_data r') = m_BudgetDeadline (md_data r))"

definition goal_later :: "goal_row \<Rightarrow> goal_row \<Rightarrow> bool" where
  "goal_later g g' \<longleftrightarrow>
     gw_owner_id g' = gw_owner_id g \<and> gw_kind g' = gw_kind g \<and> gw_revision g \<le> gw_revision g' \<and> (gw_status g = ''revoked'' \<longrightarrow> g' = g)"

definition policy_later :: "policy_row \<Rightarrow> policy_row \<Rightarrow> bool" where
  "policy_later p p' \<longleftrightarrow> pp_revision p \<le> pp_revision p'"

definition rows_later :: "('k \<Rightarrow> 'r option) \<Rightarrow> ('k \<Rightarrow> 'r option) \<Rightarrow> ('r \<Rightarrow> 'r \<Rightarrow> bool) \<Rightarrow> bool" where
  "rows_later f f' le \<longleftrightarrow> (\<forall>k r. f k = Some r \<longrightarrow> (\<exists>r'. f' k = Some r' \<and> le r r'))"

definition mandate_at :: "authority_db \<Rightarrow> string \<Rightarrow> mandate_row option" where
  "mandate_at s = (\<lambda>i. tbl_find md_mandate_id i (az_mandates s))"

definition goal_at :: "authority_db \<Rightarrow> string \<Rightarrow> goal_row option" where
  "goal_at s = (\<lambda>i. tbl_find gw_goal_id i (az_goals s))"

definition policy_at :: "authority_db \<Rightarrow> string \<times> string \<Rightarrow> policy_row option" where
  "policy_at s = (\<lambda>k. first_row (purpose_row (fst k) (snd k)) (az_policies s))"

definition revoked_agrees :: "mandate_row \<Rightarrow> bool" where
  "revoked_agrees r \<longleftrightarrow> (md_revoked_at r \<noteq> None \<longleftrightarrow> md_status r = ''revoked'')"

definition owner_inv :: "authority_db \<Rightarrow> bool" where
  "owner_inv s \<longleftrightarrow> keyed gw_goal_id (az_goals s) \<and> list_all revoked_agrees (az_mandates s)"

definition owner_later :: "authority_db \<Rightarrow> authority_db \<Rightarrow> bool" where
  "owner_later s t \<longleftrightarrow>
     rows_later (mandate_at s) (mandate_at t) mandate_later \<and> rows_later (goal_at s) (goal_at t) goal_later
     \<and> rows_later (policy_at s) (policy_at t) policy_later \<and> (\<exists>es. az_events t = az_events s @ es)
     \<and> (owner_inv s \<longrightarrow> owner_inv t)"

lemmas at_defs = mandate_at_def goal_at_def policy_at_def

lemma rows_later_refl: "(\<And>r. le r r) \<Longrightarrow> rows_later f f le"
  by (simp add: rows_later_def)

lemma rows_later_trans:
  "rows_later f g le \<Longrightarrow> rows_later g h le \<Longrightarrow> (\<And>x y z. le x y \<Longrightarrow> le y z \<Longrightarrow> le x z) \<Longrightarrow> rows_later f h le"
  unfolding rows_later_def by metis

lemma mandate_later_refl [simp]: "mandate_later r r"
  by (simp add: mandate_later_def)

lemma goal_later_refl [simp]: "goal_later g g"
  by (simp add: goal_later_def)

lemma mandate_later_trans: "mandate_later x y \<Longrightarrow> mandate_later y z \<Longrightarrow> mandate_later x z"
  by (auto simp: mandate_later_def)

lemma goal_later_trans: "goal_later x y \<Longrightarrow> goal_later y z \<Longrightarrow> goal_later x z"
  by (auto simp: goal_later_def)

lemma policy_later_refl [simp]: "policy_later p p"
  by (simp add: policy_later_def)

lemma owner_later_refl [simp]: "owner_later s s"
  by (simp add: owner_later_def rows_later_refl)

lemma policy_later_trans: "policy_later x y \<Longrightarrow> policy_later y z \<Longrightarrow> policy_later x z"
  by (simp add: policy_later_def)

lemma owner_later_trans [trans]:
  assumes "owner_later s t" and "owner_later t u"
  shows "owner_later s u"
  unfolding owner_later_def
proof (intro conjI)
  show "rows_later (mandate_at s) (mandate_at u) mandate_later"
    using assms mandate_later_trans by (auto simp: owner_later_def intro: rows_later_trans)
  show "rows_later (goal_at s) (goal_at u) goal_later"
    using assms goal_later_trans by (auto simp: owner_later_def intro: rows_later_trans)
  show "rows_later (policy_at s) (policy_at u) policy_later"
    using assms policy_later_trans by (auto simp: owner_later_def intro: rows_later_trans)
  show "\<exists>es. az_events u = az_events s @ es" and "owner_inv s \<longrightarrow> owner_inv u"
    using assms by (auto simp: owner_later_def)
qed

lemma owner_laterD:
  assumes "owner_later s t"
  shows "mandate_at s i = Some r \<Longrightarrow> \<exists>r'. mandate_at t i = Some r' \<and> mandate_later r r'"
    and "goal_at s i = Some g \<Longrightarrow> \<exists>g'. goal_at t i = Some g' \<and> goal_later g g'"
    and "policy_at s k = Some p \<Longrightarrow> \<exists>p'. policy_at t k = Some p' \<and> policy_later p p'"
    and "owner_inv s \<Longrightarrow> owner_inv t" and "\<exists>es. az_events t = az_events s @ es"
  using assms unfolding owner_later_def rows_later_def by blast+

lemma same_tables_later:
  "az_mandates t = az_mandates s \<Longrightarrow> az_goals t = az_goals s \<Longrightarrow> az_policies t = az_policies s \<Longrightarrow> az_events t = az_events s @ es \<Longrightarrow> owner_later s t"
  by (auto simp: owner_later_def at_defs owner_inv_def intro!: rows_later_refl)

section \<open>Statements\<close>

lemma rows_update_later:
  assumes "\<And>r. sel r \<Longrightarrow> key (f r) = key r" and "\<And>r. tbl_find key (key r) rows = Some r \<Longrightarrow> sel r \<Longrightarrow> le r (f r)" and "\<And>r. le r r"
  shows "rows_later (\<lambda>k. tbl_find key k rows) (\<lambda>k. tbl_find key k (tbl_update sel f rows)) le"
  using assms by (auto simp: rows_later_def tbl_find_update dest: tbl_find_SomeD)

lemma add_event_later: "add_event e s = Inr t \<Longrightarrow> owner_later s t"
  by (auto simp: add_event_def intro: same_tables_later)

lemma add_job_later: "owner_later s (add_job j s)"
  by (rule same_tables_later [of _ _ "[]"]) (simp_all add: add_job_def)

lemma jobs_later: "owner_later s (s\<lparr>az_jobs := js\<rparr>)"
  by (rule same_tables_later [of _ _ "[]"]) simp_all

lemma saveDecision_later: "saveDecision env a kind i n hash pr rv s = Inr (r, t) \<Longrightarrow> owner_later s t"
  by (auto simp: saveDecision_def Let_def split: if_splits intro: owner_later_trans add_event_later add_job_later)

lemma put_goal_row_later:
  assumes "\<And>r. goal_at s (gp_ID g) = Some r \<Longrightarrow> gw_status r \<noteq> ''revoked'' \<and> gw_revision r \<le> gp_Revision g"
  shows "owner_later s (put_goal_row g s)"
proof (cases "goal_at s (gp_ID g)")
  case None
  then show ?thesis
    by (auto simp: owner_later_def owner_inv_def at_defs put_goal_row_def rows_later_def tbl_find_snoc keyed_snoc split: option.splits)
next
  case (Some r)
  have "rows_later (goal_at s) (goal_at (put_goal_row g s)) goal_later"
    using assms Some by (auto simp: at_defs put_goal_row_def goal_later_def intro!: rows_update_later)
  then show ?thesis using Some by (auto simp: owner_later_def owner_inv_def at_defs put_goal_row_def keyed_tbl_update intro: rows_later_refl)
qed

lemma ensure_policy_later: "owner_later s (ensure_policy o' p s)"
  by (auto simp: owner_later_def owner_inv_def at_defs ensure_policy_def rows_later_def first_row_append)

lemma bump_policy_later:
  assumes "bump_policy o' p s = Inr (n, t)"
  shows "owner_later s t"
proof -
  have "rows_later (policy_at s) (policy_at t) policy_later"
    using assms by (auto simp: bump_policy_def rows_later_def at_defs first_row_update purpose_row_def policy_later_def)
  then show ?thesis using assms by (auto simp: owner_later_def owner_inv_def at_defs bump_policy_def intro!: rows_later_refl)
qed

lemma mandates_later:
  assumes "rows_later (mandate_at s) (\<lambda>i. tbl_find md_mandate_id i ms) mandate_later"
    and "list_all revoked_agrees (az_mandates s) \<Longrightarrow> list_all revoked_agrees ms"
  shows "owner_later s (s\<lparr>az_mandates := ms\<rparr>)"
  using assms by (auto simp: owner_later_def owner_inv_def at_defs intro: rows_later_refl)

text \<open>A mandate is new, or the next revision of one that is not revoked.\<close>

lemma put_mandate_row_later:
  assumes "\<And>r. mandate_at s (m_ID m) = Some r \<Longrightarrow> md_status r \<noteq> ''revoked'' \<and> md_revision r \<le> m_Revision m
      \<and> m_Budget (md_data r) = m_Budget m \<and> m_BudgetDeadline (md_data r) = m_BudgetDeadline m"
  shows "owner_later s (put_mandate_row now m s)"
proof (cases "mandate_at s (m_ID m)")
  case None
  then show ?thesis
    by (auto simp: put_mandate_row_def at_defs rows_later_def tbl_find_snoc revoked_agrees_def Let_def split: option.splits intro!: mandates_later)
next
  case (Some r)
  then show ?thesis using assms
    by (auto simp: put_mandate_row_def at_defs mandate_later_def revoked_agrees_def Let_def intro!: mandates_later rows_update_later list_all_tbl_update)
qed

section \<open>Operations\<close>

lemma decide_cases:
  assumes "owner_decision a hash body s = (res, t)"
  obtains (same) "t = s" | (new) r where "beginDecision a hash s = Inr None" and "body s = Inr (r, t)" and "res = Inr r"
proof -
  have "t = s \<or> (\<exists>r. beginDecision a hash s = Inr None \<and> body s = Inr (r, t) \<and> res = Inr r)"
    using assms unfolding owner_decision_def by (elim run_tx_cases) (auto split: option.splits)
  then show thesis using that by blast
qed

lemma check_goal_Inr:
  assumes "check_goal env a req s = Inr g"
  shows "gp_OwnerID g = ac_OwnerID a" and "gp_Revision g = gq_ExpectedRevision req + 1"
    and "gp_ID g = ''goal_'' @ de_subject env \<or>
      (\<exists>r. goal_at s (gp_ID g) = Some r \<and> gw_status r \<noteq> ''revoked'' \<and> gw_revision r = gq_ExpectedRevision req \<and> gw_kind r = gp_Kind g)"
  using assms unfolding check_goal_def check_old_goal_def goal_at_def Let_def by (auto split: if_splits)

lemma commit_goal_later:
  assumes "commit_goal env a req hash g s = Inr (r, t)"
  shows "owner_later (put_goal_row g s) t"
proof -
  let ?s1 = "ensure_policy (ac_OwnerID a) (gp_Purpose g) (put_goal_row g s)"
  have first: "owner_later (put_goal_row g s) ?s1" by (rule ensure_policy_later)
  show ?thesis
  proof (cases "policy_kind (gp_Kind g)")
    case True
    then obtain n s2 s3 js where bump: "bump_policy (ac_OwnerID a) (gp_Purpose g) ?s1 = Inr (n, s2)"
      and save: "saveDecision env a ''goal'' (gp_ID g) (gp_Revision g) hash True False s2 = Inr (r, s3)" and t: "t = s3\<lparr>az_jobs := js\<rparr>"
      using assms unfolding commit_goal_def Let_def by auto
    then show ?thesis using first bump_policy_later [OF bump] saveDecision_later [OF save] jobs_later [of s3 js] by (metis owner_later_trans)
  next
    case False
    then have "\<exists>pr rv. saveDecision env a ''goal'' (gp_ID g) (gp_Revision g) hash pr rv ?s1 = Inr (r, t)"
      using assms unfolding commit_goal_def Let_def by auto
    then show ?thesis using first saveDecision_later by (metis owner_later_trans)
  qed
qed

lemma PutGoal_later:
  assumes "PutGoal X env actor req s = (res, t)" and fresh: "goal_at s (''goal_'' @ de_subject env) = None"
  shows "owner_later s t"
proof -
  consider "t = s" | a where "owner_decision a (gx_goal X req) (\<lambda>db. bindE (check_goal env a req db) (\<lambda>g. commit_goal env a req (gx_goal X req) g db)) s = (res, t)"
    using assms(1) by (auto simp: PutGoal_def Let_def split: sum.splits)
  then show ?thesis
  proof cases
    case (2 a)
    then show ?thesis
    proof (cases rule: decide_cases)
      case (new r)
      then obtain g where g: "check_goal env a req s = Inr g" "commit_goal env a req (gx_goal X req) g s = Inr (r, t)" by auto
      have "owner_later s (put_goal_row g s)"
        using check_goal_Inr(2,3) [OF g(1)] fresh by (intro put_goal_row_later) auto
      then show ?thesis using commit_goal_later [OF g(2)] by (rule owner_later_trans)
    qed simp
  qed simp
qed

lemma ProposeAssumption_later:
  assumes "ProposeAssumption X env ctx lease title purpose obs s = (res, t)"
  shows "owner_later s t"
proof -
  have "t = s \<or> (\<exists>a hash g r. tbl_find gw_goal_id (gp_ID g) (az_goals s) = None
      \<and> saveDecision env a ''goal'' (gp_ID g) 1 hash False False (put_goal_row g s) = Inr (r, t))"
  proof (cases "check_assumption env ctx lease title purpose obs s")
    case (Inr p)
    then show ?thesis using assms unfolding ProposeAssumption_def Let_def
      by (cases p) (fastforce elim!: decide_cases)
  qed (use assms in \<open>simp add: ProposeAssumption_def\<close>)
  then show ?thesis
  proof (elim disjE exE conjE)
    fix a hash g r
    assume "tbl_find gw_goal_id (gp_ID g) (az_goals s) = None"
      and d: "saveDecision env a ''goal'' (gp_ID g) 1 hash False False (put_goal_row g s) = Inr (r, t)"
    then have "owner_later s (put_goal_row g s)" by (intro put_goal_row_later) (simp add: goal_at_def)
    then show ?thesis using saveDecision_later [OF d] by (rule owner_later_trans)
  qed simp
qed

lemma check_mandate_Inr:
  assumes "check_mandate L env a req s = Inr m"
  shows "m_OwnerID m = ac_OwnerID a" and "m_Revision m = mq_ExpectedRevision req + 1"
    and "m_ID m = ''mandate_'' @ de_subject env \<or>
      (\<exists>r. mandate_at s (m_ID m) = Some r \<and> md_status r \<noteq> ''revoked'' \<and> md_revision r = mq_ExpectedRevision req \<and> md_owner_id r = ac_OwnerID a
         \<and> m_Budget (md_data r) = m_Budget m \<and> m_BudgetDeadline (md_data r) = m_BudgetDeadline m)"
  using assms unfolding check_mandate_def check_old_mandate_def mandate_at_def Let_def by (auto split: if_splits)

lemma owner_PutMandate_later:
  assumes "owner_PutMandate X L env actor req s = (res, t)" and fresh: "mandate_at s (''mandate_'' @ de_subject env) = None"
  shows "owner_later s t"
proof -
  have "t = s \<or> (\<exists>a m hash pr rv r. check_mandate L env a req s = Inr m
      \<and> saveDecision env a ''mandate'' (m_ID m) (m_Revision m) hash pr rv (put_mandate_row (de_clock env) m s) = Inr (r, t))"
    using assms(1) unfolding owner_PutMandate_def Let_def by (fastforce split: sum.splits elim!: decide_cases)
  then show ?thesis
  proof (elim disjE exE conjE)
    fix a m hash pr rv r
    assume m: "check_mandate L env a req s = Inr m"
      and d: "saveDecision env a ''mandate'' (m_ID m) (m_Revision m) hash pr rv (put_mandate_row (de_clock env) m s) = Inr (r, t)"
    have "owner_later s (put_mandate_row (de_clock env) m s)"
      using check_mandate_Inr(2,3) [OF m] fresh by (intro put_mandate_row_later) auto
    then show ?thesis using saveDecision_later [OF d] by (rule owner_later_trans)
  qed simp
qed

lemma check_revoke_Inr:
  assumes "check_revoke a i n s = Inr m"
  obtains r where "mandate_at s i = Some r" and "md_status r \<noteq> ''revoked''" and "m_Revision m = md_revision r + 1"
    and "m_Budget m = m_Budget (md_data r)" and "m_BudgetDeadline m = m_BudgetDeadline (md_data r)"
  using assms unfolding check_revoke_def mandate_at_def by auto

lemma owner_RevokeMandate_later:
  assumes "owner_RevokeMandate X env actor i n s = (res, t)"
  shows "owner_later s t"
proof -
  have "t = s \<or> (\<exists>a m hash r. check_revoke a i n s = Inr m
      \<and> saveDecision env a ''mandate'' i (m_Revision m) hash True True
          (s\<lparr>az_mandates := tbl_update (\<lambda>r. md_mandate_id r = i)
             (\<lambda>r. r\<lparr>md_revision := m_Revision m, md_status := ''revoked'', md_revoked_at := Some (de_clock env), md_data := m\<rparr>) (az_mandates s)\<rparr>) = Inr (r, t))"
    using assms(1) unfolding owner_RevokeMandate_def Let_def by (fastforce split: sum.splits elim!: decide_cases)
  then show ?thesis
  proof (elim disjE exE conjE)
    fix a m hash r
    let ?s1 = "s\<lparr>az_mandates := tbl_update (\<lambda>r. md_mandate_id r = i)
        (\<lambda>r. r\<lparr>md_revision := m_Revision m, md_status := ''revoked'', md_revoked_at := Some (de_clock env), md_data := m\<rparr>) (az_mandates s)\<rparr>"
    assume m: "check_revoke a i n s = Inr m" and d: "saveDecision env a ''mandate'' i (m_Revision m) hash True True ?s1 = Inr (r, t)"
    from m have "owner_later s ?s1"
      by (rule check_revoke_Inr) (auto simp: mandate_later_def revoked_agrees_def at_defs intro!: mandates_later rows_update_later list_all_tbl_update)
    then show ?thesis using saveDecision_later [OF d] by (rule owner_later_trans)
  qed simp
qed

lemma goals_update_later:
  assumes "\<And>r. gw_goal_id (f r) = gw_goal_id r" and "\<And>r. goal_at s i = Some r \<Longrightarrow> goal_later r (f r)"
  shows "owner_later s (s\<lparr>az_goals := tbl_update (\<lambda>r. gw_goal_id r = i) f (az_goals s)\<rparr>)"
proof -
  have "rows_later (\<lambda>k. tbl_find gw_goal_id k (az_goals s)) (\<lambda>k. tbl_find gw_goal_id k (tbl_update (\<lambda>r. gw_goal_id r = i) f (az_goals s))) goal_later"
    using assms by (intro rows_update_later) (auto simp: goal_at_def)
  then show ?thesis using assms by (auto simp: owner_later_def owner_inv_def at_defs keyed_tbl_update intro: rows_later_refl)
qed

lemma expire_item_later:
  assumes "expire_item now e s = Inr t" and r: "goal_at s (gw_goal_id e) = Some r" "gw_status r \<noteq> ''revoked''"
  shows "owner_later s t"
    and "goal_at t i = map_option (\<lambda>r. if gw_goal_id r = gw_goal_id e then pause_goal r else r) (goal_at s i)"
proof -
  obtain n s1 s3 ev j where s1: "bump_policy (gw_owner_id e) (gp_Purpose (gw_data e)) s = Inr (n, s1)"
    and s3: "add_event ev (s1\<lparr>az_goals := tbl_update (\<lambda>r. gw_goal_id r = gw_goal_id e) pause_goal (az_goals s1)\<rparr>) = Inr s3"
    and t: "t = add_job j s3"
    using assms(1) by (auto simp: expire_item_def Let_def)
  have goals: "az_goals s1 = az_goals s" using s1 by (auto simp: bump_policy_def)
  have "owner_later s1 (s1\<lparr>az_goals := tbl_update (\<lambda>r. gw_goal_id r = gw_goal_id e) pause_goal (az_goals s1)\<rparr>)"
    using r by (intro goals_update_later) (auto simp: pause_goal_def goals goal_at_def goal_later_def)
  also have "owner_later \<dots> s3" by (rule add_event_later [OF s3])
  also have "owner_later \<dots> t" unfolding t by (rule add_job_later)
  finally show "owner_later s t" by (rule owner_later_trans [OF bump_policy_later [OF s1]])
  have "az_goals t = tbl_update (\<lambda>r. gw_goal_id r = gw_goal_id e) pause_goal (az_goals s)"
    using s3 by (auto simp: add_event_def t add_job_def goals)
  then show "goal_at t i = map_option (\<lambda>r. if gw_goal_id r = gw_goal_id e then pause_goal r else r) (goal_at s i)"
    by (simp add: goal_at_def tbl_find_update pause_goal_def)
qed

lemma expire_items_later:
  "expire_items now es s = Inr t \<Longrightarrow> \<forall>e \<in> set es. \<exists>r. goal_at s (gw_goal_id e) = Some r \<and> gw_status r \<noteq> ''revoked'' \<Longrightarrow> owner_later s t"
proof (induction es arbitrary: s)
  case (Cons e es)
  then obtain s1 r where s1: "expire_item now e s = Inr s1" "expire_items now es s1 = Inr t"
    and r: "goal_at s (gw_goal_id e) = Some r" "gw_status r \<noteq> ''revoked''" by auto
  have "\<forall>e' \<in> set es. \<exists>r. goal_at s1 (gw_goal_id e') = Some r \<and> gw_status r \<noteq> ''revoked''"
  proof
    fix e'
    assume "e' \<in> set es"
    then obtain r' where "goal_at s (gw_goal_id e') = Some r'" "gw_status r' \<noteq> ''revoked''" using Cons.prems(2) by auto
    then show "\<exists>r. goal_at s1 (gw_goal_id e') = Some r \<and> gw_status r \<noteq> ''revoked''"
      using expire_item_later(2) [OF s1(1) r, of "gw_goal_id e'"] by (cases "gw_goal_id r' = gw_goal_id e") (auto simp: pause_goal_def)
  qed
  with Cons.IH [OF s1(2)] expire_item_later(1) [OF s1(1) r] show ?case by (blast intro: owner_later_trans)
qed simp

lemma queue_subject_later: "queue_subject now x s = Inr t \<Longrightarrow> owner_later s t"
  by (auto simp: queue_subject_def Let_def split: prod.splits if_splits intro: owner_later_trans add_event_later add_job_later)

lemma queue_expired_later: "queue_expired now xs s = Inr t \<Longrightarrow> owner_later s t"
  by (induction xs arbitrary: s) (auto intro: owner_later_trans queue_subject_later)

lemma queueExpired_later:
  assumes "queueExpired now1 now2 s = (out, t)" and "owner_inv s"
  shows "owner_later s t"
proof -
  obtain s1 res where s1: "expirePolicies now1 s = (res, s1)" by fastforce
  have "owner_later s s1"
    using s1 unfolding expirePolicies_def
  proof (cases rule: run_tx_cases)
    case (success x)
    let ?es = "take 16 (sort_key gw_goal_id (filter (expired_policy now1) (az_goals s)))"
    have "set ?es \<subseteq> {e \<in> set (az_goals s). expired_policy now1 e}" by (auto dest: in_set_takeD)
    then have "\<forall>e \<in> set ?es. goal_at s (gw_goal_id e) = Some e \<and> gw_status e \<noteq> ''revoked''"
      using assms(2) by (auto simp: owner_inv_def goal_at_def expired_policy_def tbl_find_keyed)
    then show ?thesis using success by (intro expire_items_later [of now1 ?es]) auto
  qed simp
  moreover have "t = s1 \<or> (\<exists>xs. queue_expired now2 xs s1 = Inr t)"
  proof (cases res)
    case (Inr u)
    then have "run_tx (\<lambda>db. bindE (queue_expired now2 (expired_subjects now2 db) db) (\<lambda>db. Inr ((), db))) s1 = (out, t)"
      using assms(1) s1 by (simp add: queueExpired_def)
    then show ?thesis by (rule run_tx_cases) auto
  qed (use assms(1) s1 in \<open>simp add: queueExpired_def\<close>)
  ultimately show ?thesis by (auto intro: owner_later_trans queue_expired_later)
qed

lemma store_PutMandate_later:
  assumes "ef_mandates e = az_mandates s" and "PutMandate L now m e = (out, e')" and "owner_inv s"
  shows "owner_later s (s\<lparr>az_mandates := ef_mandates e'\<rparr>)"
  using assms(2) unfolding PutMandate_def
proof (cases rule: run_tx_cases)
  case (success u)
  have agrees: "list_all revoked_agrees (az_mandates s)" using assms(3) by (simp add: owner_inv_def)
  show ?thesis
  proof (cases "mandate_at s (m_ID m)")
    case None
    then show ?thesis using success assms(1)
      by (auto simp: at_defs rows_later_def tbl_find_snoc revoked_agrees_def split: option.splits intro!: mandates_later)
  next
    case (Some r)
    have "md_status r \<noteq> ''revoked''" if "md_revoked_at r = None"
      using that agrees Some by (auto simp: list_all_iff revoked_agrees_def at_defs dest!: tbl_find_SomeD)
    then show ?thesis using success assms(1) Some
      by (auto simp: at_defs mandate_later_def revoked_agrees_def intro!: mandates_later rows_update_later list_all_tbl_update)
  qed
qed (use assms(1) in simp)

lemma store_RevokeMandate_later:
  assumes "ef_mandates e = az_mandates s" and "RevokeMandate now i ow n e = (out, e')" and "owner_inv s"
  shows "owner_later s (s\<lparr>az_mandates := ef_mandates e'\<rparr>)"
  using assms(2) unfolding RevokeMandate_def
proof (cases rule: run_tx_cases)
  case (success u)
  have "md_status r \<noteq> ''revoked''" if "tbl_find md_mandate_id k (az_mandates s) = Some r" "md_revoked_at r = None" for k r
    using that assms(3) by (auto simp: owner_inv_def list_all_iff revoked_agrees_def dest!: tbl_find_SomeD)
  then show ?thesis using success assms(1)
    by (auto simp: at_defs mandate_later_def revoked_agrees_def Let_def intro!: mandates_later rows_update_later list_all_tbl_update)
qed (use assms(1) in simp)

section \<open>Every sequence of steps\<close>

lemma owner_step_later: "owner_step s t \<Longrightarrow> owner_inv s \<Longrightarrow> owner_later s t"
proof (induction rule: owner_step.induct)
  case (os_elsewhere t s)
  then show ?case by (intro same_tables_later [of _ _ "[]"]) simp_all
qed (auto intro: PutGoal_later owner_PutMandate_later owner_RevokeMandate_later ProposeAssumption_later queueExpired_later
    store_PutMandate_later store_RevokeMandate_later simp: at_defs)

interpretation own: evolution_system "\<lambda>s. az_goals s = [] \<and> az_mandates s = []" owner_step owner_inv owner_later
proof unfold_locales
  show "az_goals s = [] \<and> az_mandates s = [] \<Longrightarrow> owner_inv s" for s by (simp add: owner_inv_def)
  show "owner_inv s \<Longrightarrow> owner_step s t \<Longrightarrow> owner_inv t" for s t using owner_step_later by (auto simp: owner_later_def)
qed (auto intro: owner_later_trans owner_step_later)

section \<open>Authority that has moved on\<close>

text \<open>The mandate, the goal or the policies an assignment names have a later revision, or are revoked.\<close>

definition superseded :: "authority_db \<Rightarrow> Assignment \<Rightarrow> bool" where
  "superseded s a \<longleftrightarrow>
     (\<exists>r. mandate_at s (as_MandateID a) = Some r \<and> (as_MandateRevision a < md_revision r \<or> md_status r = ''revoked''))
     \<or> (\<exists>g. goal_at s (as_GoalID a) = Some g \<and> (as_GoalRevision a < gw_revision g \<or> gw_status g = ''revoked''))
     \<or> (\<exists>p. policy_at s (as_OwnerID a, as_Purpose a) = Some p \<and> as_PolicyRevision a < pp_revision p)"

lemma superseded_denied:
  assumes "superseded s a"
  shows "CheckAssignmentTx L s a at = Inl ErrOwnerAuthority"
proof (cases "CheckAssignmentTx L s a at")
  case (Inl err)
  then show ?thesis
    by (auto simp: CheckAssignmentTx_def bindE_def need_def failif_def Let_def split: option.splits sum.splits if_splits)
next
  case (Inr mg)
  then obtain m g where "CheckAssignmentTx L s a at = Inr (m, g)" by (cases mg) simp
  then show ?thesis
  proof (rule CheckAssignmentTx_Inr)
    fix r q p
    assume "tbl_find md_mandate_id (as_MandateID a) (az_mandates s) = Some r" "mandate_current L a at r"
      "tbl_find gw_goal_id (as_GoalID a) (az_goals s) = Some q" "goal_current a at q"
      "first_row (purpose_row (as_OwnerID a) (as_Purpose a)) (az_policies s) = Some p" "pp_revision p = as_PolicyRevision a"
    then have False using assms by (auto simp: superseded_def at_defs mandate_current_def goal_current_def Let_def)
    then show ?thesis ..
  qed
qed

lemma superseded_later:
  assumes later: "owner_later s t" and "superseded s a"
  shows "superseded t a"
proof -
  consider (mandate) r where "mandate_at s (as_MandateID a) = Some r" "as_MandateRevision a < md_revision r \<or> md_status r = ''revoked''"
    | (goal) g where "goal_at s (as_GoalID a) = Some g" "as_GoalRevision a < gw_revision g \<or> gw_status g = ''revoked''"
    | (policy) p where "policy_at s (as_OwnerID a, as_Purpose a) = Some p" "as_PolicyRevision a < pp_revision p"
    using assms(2) unfolding superseded_def by blast
  then show ?thesis
  proof cases
    case mandate
    then show ?thesis using owner_laterD(1) [OF later mandate(1)] by (fastforce simp: superseded_def mandate_later_def)
  next
    case goal
    then show ?thesis using owner_laterD(2) [OF later goal(1)] by (fastforce simp: superseded_def goal_later_def)
  next
    case policy
    then show ?thesis using owner_laterD(3) [OF later policy(1)] by (fastforce simp: superseded_def policy_later_def)
  qed
qed

text \<open>C17. Authority that has moved on never comes back: once the mandate, the goal or the policies an assignment was admitted under have
  a later revision or are revoked, the assignment is refused in every later state and at every time, whatever the owner decides
  afterwards, and with it every dispatch, result and admission of a task bound by it.\<close>

theorem superseded_authority_never_returns:
  assumes "owner_inv s" and "superseded s a" and "owner_step\<^sup>*\<^sup>* s t"
  shows "CheckAssignmentTx L t a at = Inl ErrOwnerAuthority"
  by (rule superseded_denied [OF superseded_later [OF own.later_steps [OF assms(3,1)] assms(2)]])

lemma saveDecision_Inr:
  assumes "saveDecision env a kind i n hash pr rv s = Inr (r, t)"
  obtains e where "az_events t = az_events s @ [e]" and "same_owner_delivery a e" and "oe_request_hash e = hash" and "oe_event_id e = rc_EventID r"
    and "oe_subject_id e = rc_SubjectID r" and "oe_revision e = rc_Revision r" and "az_mandates t = az_mandates s"
    and "pr \<Longrightarrow> \<exists>j \<in> set (az_jobs t). jb_event_id j = rc_EventID r \<and> jb_state j = ''pending'' \<and> jb_control_kind j = (if rv then ''stop'' else ''pause'')"
  using assms by (auto simp: saveDecision_def Let_def add_event_def add_job_def pending_job_def same_owner_delivery_def split: if_splits)

text \<open>A revoked mandate authorizes nothing: after the decision that revokes it every assignment under it is refused, whatever
  happens later, and the decision leaves a pending job that stops the branches it covered.\<close>

theorem revoked_mandate_authorizes_nothing:
  assumes "owner_inv s" and "owner_RevokeMandate X env actor i n s = (Inr r, t)" and "t \<noteq> s"
    and "owner_step\<^sup>*\<^sup>* t u" and "as_MandateID a = i"
  shows "CheckAssignmentTx L u a at = Inl ErrOwnerAuthority \<and>
    (\<exists>j \<in> set (az_jobs t). jb_event_id j = rc_EventID r \<and> jb_state j = ''pending'' \<and> jb_control_kind j = ''stop'')"
proof -
  obtain ac m hash where m: "check_revoke ac i n s = Inr m"
    and d: "saveDecision env ac ''mandate'' i (m_Revision m) hash True True
          (s\<lparr>az_mandates := tbl_update (\<lambda>r. md_mandate_id r = i)
             (\<lambda>r. r\<lparr>md_revision := m_Revision m, md_status := ''revoked'', md_revoked_at := Some (de_clock env), md_data := m\<rparr>) (az_mandates s)\<rparr>) = Inr (r, t)"
    using assms(2,3) unfolding owner_RevokeMandate_def Let_def by (fastforce split: sum.splits elim!: decide_cases)
  have "superseded t a"
    using m
  proof (rule check_revoke_Inr)
    fix q
    assume "mandate_at s i = Some q"
    moreover have "az_mandates t = tbl_update (\<lambda>r. md_mandate_id r = i)
             (\<lambda>r. r\<lparr>md_revision := m_Revision m, md_status := ''revoked'', md_revoked_at := Some (de_clock env), md_data := m\<rparr>) (az_mandates s)"
      using d by (rule saveDecision_Inr) simp
    ultimately show ?thesis using assms(5) by (auto simp: superseded_def at_defs tbl_find_update dest: tbl_find_SomeD)
  qed
  moreover have "owner_later t u"
    using own.later_steps [OF assms(4)] owner_laterD(4) [OF owner_RevokeMandate_later [OF assms(2)] assms(1)] .
  ultimately have "CheckAssignmentTx L u a at = Inl ErrOwnerAuthority" using superseded_denied superseded_later by blast
  moreover have "\<exists>j \<in> set (az_jobs t). jb_event_id j = rc_EventID r \<and> jb_state j = ''pending'' \<and> jb_control_kind j = ''stop''"
    using d by (rule saveDecision_Inr) simp
  ultimately show ?thesis ..
qed

text \<open>A mandate keeps its budget: no revision of an owner's mandate, by any sequence of operations, changes its limits, its budget
  period, its owner or its goal, and its revision only grows.\<close>

theorem mandate_budget_is_immutable:
  assumes "owner_inv s" and "owner_step\<^sup>*\<^sup>* s t" and "tbl_find md_mandate_id i (az_mandates s) = Some r" and "md_scope_kind r = ''owner_goal''"
  shows "\<exists>r'. tbl_find md_mandate_id i (az_mandates t) = Some r' \<and> m_Budget (md_data r') = m_Budget (md_data r)
    \<and> m_BudgetDeadline (md_data r') = m_BudgetDeadline (md_data r) \<and> md_owner_id r' = md_owner_id r \<and> md_goal_id r' = md_goal_id r
    \<and> md_revision r \<le> md_revision r'"
  using owner_laterD(1) [OF own.later_steps [OF assms(2,1)], of i r] assms(3,4) by (auto simp: mandate_at_def mandate_later_def)

section \<open>Decisions\<close>

text \<open>The event that answers later deliveries with the identity of an actor.\<close>

definition answered_by :: "Actor \<Rightarrow> string \<Rightarrow> Receipt \<Rightarrow> authority_db \<Rightarrow> bool" where
  "answered_by a hash r s \<longleftrightarrow>
     (\<exists>e. first_row (same_owner_delivery a) (az_events s) = Some e \<and> oe_request_hash e = hash \<and> oe_event_id e = rc_EventID r
        \<and> oe_subject_id e = rc_SubjectID r \<and> oe_revision e = rc_Revision r)"

lemma answered_later: "answered_by a hash r s \<Longrightarrow> owner_later s t \<Longrightarrow> answered_by a hash r t"
  using owner_laterD(5) [of s t] by (auto simp: answered_by_def first_row_append)

lemma decide_answers:
  assumes "owner_decision a hash body s = (Inr r, t)"
    and body: "\<And>r. body s = Inr (r, t) \<Longrightarrow> \<exists>s1 kind i n pr rv. az_events s1 = az_events s \<and> saveDecision env a kind i n hash pr rv s1 = Inr (r, t)"
  shows "answered_by a hash r t"
proof (cases "first_row (same_owner_delivery a) (az_events s)")
  case None
  then have "body s = Inr (r, t)" using assms(1) by (simp add: owner_decision_def beginDecision_def run_tx_Inr_iff)
  then obtain s1 kind i n pr rv where s1: "az_events s1 = az_events s" and d: "saveDecision env a kind i n hash pr rv s1 = Inr (r, t)"
    using body by blast
  from d show ?thesis using None s1 by (elim saveDecision_Inr) (simp add: answered_by_def first_row_append)
next
  case (Some e)
  then show ?thesis using assms(1) by (auto simp: owner_decision_def beginDecision_def run_tx_Inr_iff answered_by_def)
qed

lemma decide_answered:
  assumes "answered_by a hash r s"
  shows "\<exists>st. owner_decision a hash body s = (Inr (r\<lparr>rc_Propagation := st\<rparr>), s)" and "hash' \<noteq> hash \<Longrightarrow> owner_decision a hash' body s = (Inl ErrGoalConflict, s)"
proof -
  obtain e where e: "first_row (same_owner_delivery a) (az_events s) = Some e" "oe_request_hash e = hash" "oe_event_id e = rc_EventID r"
      "oe_subject_id e = rc_SubjectID r" "oe_revision e = rc_Revision r"
    using assms unfolding answered_by_def by blast
  let ?st = "case tbl_find jb_event_id (rc_EventID r) (az_jobs s) of None \<Rightarrow> ''applied'' | Some j \<Rightarrow> jb_state j"
  have "owner_decision a hash body s = (Inr (r\<lparr>rc_Propagation := ?st\<rparr>), s)"
    using e by (cases r) (simp add: owner_decision_def beginDecision_def run_tx_def)
  then show "\<exists>st. owner_decision a hash body s = (Inr (r\<lparr>rc_Propagation := st\<rparr>), s)" ..
  show "hash' \<noteq> hash \<Longrightarrow> owner_decision a hash' body s = (Inl ErrGoalConflict, s)"
    using e by (simp add: owner_decision_def beginDecision_def run_tx_def)
qed

text \<open>A delivery of the owner is decided once: when a mandate was put, the same request delivered again, whatever happened between,
  returns the identity and revision of the first decision and changes nothing, and another request under the same delivery is
  refused and changes nothing.\<close>

theorem mandate_delivery_is_decided_once:
  assumes "owner_PutMandate X L env actor req s = (Inr r, t)" and "owner_inv t" and "owner_step\<^sup>*\<^sup>* t u"
  shows "(\<exists>st. owner_PutMandate X L env' actor req u = (Inr (r\<lparr>rc_Propagation := st\<rparr>), u)) \<and>
    (\<forall>req'. gx_mandate X req' \<noteq> gx_mandate X req \<longrightarrow> (\<exists>err. owner_PutMandate X L env' actor req' u = (Inl err, u)))"
proof -
  let ?auth = "\<lambda>req. bindE (goal_actor actor) (\<lambda>a.
    bindE (failif (m_OwnerID (mq_Mandate req) \<noteq> [] \<and> m_OwnerID (mq_Mandate req) \<noteq> ac_OwnerID a) ErrGoalUnauthorized) (\<lambda>_. Inr a))"
  obtain a where a: "?auth req = Inr a" using assms(1) by (auto simp: owner_PutMandate_def split: sum.splits)
  have same: "?auth req' = Inr a' \<Longrightarrow> a' = a" for req' a' using a by auto
  have events: "az_events (put_mandate_row now m s) = az_events s" for now m
    by (simp add: put_mandate_row_def Let_def split: option.split)
  have "answered_by a (gx_mandate X req) r t"
  proof (rule decide_answers [where env = env])
    show "owner_decision a (gx_mandate X req) (\<lambda>db. bindE (check_mandate L env a req db) (\<lambda>m.
        saveDecision env a ''mandate'' (m_ID m) (m_Revision m) (gx_mandate X req) (0 < mq_ExpectedRevision req) (m_Status m = ''revoked'')
          (put_mandate_row (de_clock env) m db))) s = (Inr r, t)"
      using assms(1) a by (simp add: owner_PutMandate_def Let_def)
  qed (use events in \<open>simp, blast\<close>)
  then have u: "answered_by a (gx_mandate X req) r u" using own.later_steps [OF assms(3,2)] by (rule answered_later)
  have "\<exists>st. owner_PutMandate X L env' actor req u = (Inr (r\<lparr>rc_Propagation := st\<rparr>), u)"
    using decide_answered(1) [OF u] a unfolding owner_PutMandate_def Let_def by (simp only: sum.case)
  moreover have "\<exists>err. owner_PutMandate X L env' actor req' u = (Inl err, u)" if "gx_mandate X req' \<noteq> gx_mandate X req" for req'
    using decide_answered(2) [OF u that] same [of req'] by (cases "?auth req'") (auto simp: owner_PutMandate_def Let_def)
  ultimately show ?thesis by blast
qed

section \<open>Assumptions\<close>

lemma CheckAssignmentTx_cong:
  assumes "az_mandates t = az_mandates s" and "az_policies t = az_policies s" and "az_goals t = az_goals s @ [g]" and "gw_kind g = ''assumption''"
  shows "CheckAssignmentTx L t a at = CheckAssignmentTx L s a at"
proof -
  have "filter (purpose_policy o' p) (az_goals t) = filter (purpose_policy o' p) (az_goals s)" for o' p
    using assms(3,4) by (simp add: purpose_policy_def)
  moreover have "bindE (need (tbl_find gw_goal_id i (az_goals t)) ErrOwnerAuthority) (\<lambda>q. bindE (failif (\<not> goal_current a at q) ErrOwnerAuthority) (\<lambda>_. f q)) =
      bindE (need (tbl_find gw_goal_id i (az_goals s)) ErrOwnerAuthority) (\<lambda>q. bindE (failif (\<not> goal_current a at q) ErrOwnerAuthority) (\<lambda>_. f q))" for i and f :: "goal_row \<Rightarrow> go_err + Mandate \<times> GoalPolicy"
    using assms(3,4) by (auto simp: tbl_find_snoc goal_current_def split: option.splits)
  ultimately show ?thesis unfolding CheckAssignmentTx_def assms(1,2) by simp
qed

text \<open>A hypothesis of the model grants nothing: recording an assumption changes the verdict on no assignment and on no admission.\<close>

theorem model_proposal_grants_nothing:
  assumes "ProposeAssumption X env ctx lease title purpose obs s = (res, t)"
  shows "CheckAssignmentTx L t a at = CheckAssignmentTx L s a at \<and> checkTaskAdmissionTx L req at ini t = checkTaskAdmissionTx L req at ini s"
proof -
  consider "t = s" | g where "az_mandates t = az_mandates s" "az_policies t = az_policies s" "az_goals t = az_goals s @ [g]" "gw_kind g = ''assumption''"
  proof (cases "t = s")
    case False
    then obtain tok g a hash r where g: "check_assumption env ctx lease title purpose obs s = Inr (tok, g)"
        "tbl_find gw_goal_id (gp_ID g) (az_goals s) = None"
      and d: "saveDecision env a ''goal'' (gp_ID g) 1 hash False False (put_goal_row g s) = Inr (r, t)"
      using assms unfolding ProposeAssumption_def Let_def by (fastforce split: sum.splits prod.splits elim!: decide_cases)
    have "gp_Kind g = ''assumption''" using g(1) by (auto simp: check_assumption_def Let_def)
    then show thesis using d g(2) that(2) by (auto simp: saveDecision_def add_event_def put_goal_row_def Let_def)
  qed (rule that(1))
  then show ?thesis
  proof cases
    case 2
    then show ?thesis using CheckAssignmentTx_cong [OF 2] by (simp add: checkTaskAdmissionTx_def)
  qed simp
qed

section \<open>Propagation\<close>

definition queues_jobs :: "authority_db \<Rightarrow> authority_db \<Rightarrow> bool" where
  "queues_jobs s t \<longleftrightarrow> (\<exists>js. az_jobs t = az_jobs s @ js \<and> (\<forall>j \<in> set js. jb_state j = ''pending''))"

lemma queues_jobs_refl: "az_jobs t = az_jobs s \<Longrightarrow> queues_jobs s t"
  by (simp add: queues_jobs_def)

lemma queues_jobs_trans: "queues_jobs s t \<Longrightarrow> queues_jobs t u \<Longrightarrow> queues_jobs s u"
  unfolding queues_jobs_def by (elim exE conjE, rule exI) auto

lemma expire_item_jobs: "expire_item now e s = Inr t \<Longrightarrow> queues_jobs s t"
  by (auto simp: expire_item_def bump_policy_def add_event_def add_job_def pending_job_def queues_jobs_def Let_def)

lemma expire_items_jobs: "expire_items now es s = Inr t \<Longrightarrow> queues_jobs s t"
  by (induction es arbitrary: s) (auto intro: queues_jobs_refl queues_jobs_trans expire_item_jobs)

lemma queue_subject_jobs: "queue_subject now x s = Inr t \<Longrightarrow> queues_jobs s t"
  by (auto simp: queue_subject_def add_event_def add_job_def pending_job_def queues_jobs_def Let_def split: prod.splits if_splits)

lemma queue_expired_jobs: "queue_expired now xs s = Inr t \<Longrightarrow> queues_jobs s t"
  by (induction xs arbitrary: s) (auto intro: queues_jobs_refl queues_jobs_trans queue_subject_jobs)

lemma queueExpired_jobs:
  assumes "queueExpired now1 now2 s = (Inr u, t)"
  shows "queues_jobs s t"
proof -
  obtain v s1 where s1: "expirePolicies now1 s = (Inr v, s1)"
    and t: "run_tx (\<lambda>db. bindE (queue_expired now2 (expired_subjects now2 db) db) (\<lambda>db. Inr ((), db))) s1 = (Inr u, t)"
    using assms by (auto simp: queueExpired_def split: prod.splits sum.splits)
  have "queues_jobs s s1" using s1 by (auto simp: expirePolicies_def run_tx_Inr_iff intro: expire_items_jobs)
  moreover have "queues_jobs s1 t" using t by (auto simp: run_tx_Inr_iff intro: queue_expired_jobs)
  ultimately show ?thesis by (rule queues_jobs_trans)
qed

definition keeps_jobs :: "control_port \<Rightarrow> bool" where
  "keeps_jobs C \<longleftrightarrow> (\<forall>ac i n k db. az_jobs (snd (C ac i n k db)) = az_jobs db)"

lemma sweep_tasks_jobs:
  assumes "keeps_jobs C" and "sweep_tasks C j ids s = (res, t)"
  shows "az_jobs t = az_jobs s"
  using assms(2)
proof (induction ids arbitrary: s)
  case (Cons i ids)
  show ?case
  proof (cases "tbl_find k_task_id i (az_tasks s)")
    case (Some r)
    let ?c = "C \<lparr>ac_OwnerID = jb_owner_id j, ac_Channel = ''web'', ac_SessionKey = [],
        ac_DeliveryID = ''authority-job:'' @ jb_event_id j @ '':'' @ i @ '':'' @ show_int (k_revision r)\<rparr> i (k_revision r) (jb_control_kind j) s"
    have "az_jobs (snd ?c) = az_jobs s" using assms(1) by (simp add: keeps_jobs_def)
    then show ?thesis using Cons Some by (cases ?c) (auto simp: Let_def split: if_splits sum.splits)
  qed (use Cons in simp)
qed simp

lemma set_job_jobs [simp]: "az_jobs (set_job i f s) = tbl_update (\<lambda>j. jb_event_id j = i) f (az_jobs s)"
  by (simp add: set_job_def)

lemma Sweep_applies:
  assumes "Sweep (Some C) ck s = (Inr (), t)" and jobs: "keeps_jobs C"
  obtains (keep) "queues_jobs s t"
  | (retry) s2 and j :: job_row where "queues_jobs s s2"
      "t = set_job (jb_event_id j) (\<lambda>j. j\<lparr>jb_updated_at := sc_update ck, jb_attempts := jb_attempts j + 1\<rparr>) s2"
  | (applied) s2 j where "queues_jobs s s2" "j \<in> set (az_jobs s2)" "\<not> list_ex (outdated (sc_recheck ck) j s2) (az_bindings s2)"
      "t = set_job (jb_event_id j) (\<lambda>j. j\<lparr>jb_state := ''applied'', jb_last_error := [], jb_attempts := jb_attempts j + 1,
             jb_updated_at := sc_update ck\<rparr>) s2"
proof -
  obtain u s1 where s1: "queueExpired (sc_policies ck) (sc_expired ck) s = (Inr u, s1)"
    using assms(1) by (auto simp: Sweep_def split: prod.splits sum.splits)
  note q = queueExpired_jobs [OF s1]
  show thesis
  proof (cases "sort_key jb_updated_at (sort_key jb_event_id (filter (\<lambda>j. jb_state j = ''pending'') (az_jobs s1)))")
    case Nil
    then show thesis using assms(1) s1 q keep by (simp add: Sweep_def)
  next
    case (Cons j js)
    have "set (sort_key jb_updated_at (sort_key jb_event_id (filter (\<lambda>j. jb_state j = ''pending'') (az_jobs s1)))) \<subseteq> set (az_jobs s1)" by auto
    then have j: "j \<in> set (az_jobs s1)" unfolding Cons by simp
    obtain v s2 where s2: "sweep_tasks C j (outdated_tasks (sc_select ck) j s1) s1 = (Inr v, s2)"
      using assms(1) s1 Cons by (auto simp: Sweep_def Let_def jobFailed_def split: prod.splits sum.splits)
    have same: "az_jobs s2 = az_jobs s1" using jobs s2 by (rule sweep_tasks_jobs)
    then have "queues_jobs s s2" using q by (simp add: queues_jobs_def)
    then show thesis using assms(1) s1 s2 Cons j same keep retry [of s2 j] applied [of s2 j]
      by (auto simp: Sweep_def Let_def split: if_splits)
  qed
qed

text \<open>A change of authority is reported as propagated only when it is: a job that a sweep turns to applied has no live task left whose
  binding the change outdated. Controls of tasks do not touch the jobs, and the event is the key of a job.\<close>

theorem applied_job_leaves_no_outdated_branch:
  assumes "Sweep (Some C) ck s = (Inr (), t)" and "keeps_jobs C"
    and "keyed jb_event_id (az_jobs t)" and "j \<in> set (az_jobs t)" and "jb_state j = ''applied''"
    and "\<forall>i \<in> set (az_jobs s). jb_event_id i = jb_event_id j \<longrightarrow> jb_state i \<noteq> ''applied''"
  shows "\<forall>b \<in> set (az_bindings t). \<not> outdated (sc_recheck ck) j t b"
  using assms(1,2)
proof (cases rule: Sweep_applies)
  case keep
  then show ?thesis using assms(4-6) by (auto simp: queues_jobs_def)
next
  case (retry s2 k)
  then show ?thesis using assms(4-6) by (auto simp: queues_jobs_def set_tbl_update split: if_splits)
next
  case (applied s2 k)
  let ?f = "\<lambda>j :: job_row. j\<lparr>jb_state := ''applied'', jb_last_error := [], jb_attempts := jb_attempts j + 1, jb_updated_at := sc_update ck\<rparr>"
  have "keyed jb_event_id (az_jobs s2)" using assms(3) applied(4) by (simp add: keyed_tbl_update)
  obtain i where i: "i \<in> set (az_jobs s2)" "j = (if jb_event_id i = jb_event_id k then ?f i else i)"
    using assms(4) applied(4) by (auto simp: set_tbl_update)
  have "jb_event_id i = jb_event_id k"
    using i assms(5,6) applied(1) by (fastforce simp: queues_jobs_def split: if_splits)
  then have "i = k" using keyed_eq [OF \<open>keyed jb_event_id (az_jobs s2)\<close> i(1) applied(2)] by simp
  then have "outdated now j t b = outdated now k s2 b" for now b
    using i(2) applied(4) by (auto simp: outdated_def set_job_def split: option.splits)
  moreover have "az_bindings t = az_bindings s2" using applied(4) by (simp add: set_job_def)
  ultimately show ?thesis using applied(3) by (simp add: list_ex_iff)
qed

end
