(* ===== verification/GoalExamples.thy ===== *)
theory GoalExamples
  imports GoalProps EffectExamples
begin

text \<open>
  An owner states a goal and a mandate for reading one site; a task bound to them dispatches a read; then the owner
  revokes the mandate and the branch is stopped.
\<close>

section \<open>Decisions of the owner\<close>

definition site_lib :: auth_lib where
  "site_lib =
     \<lparr>al_url = (\<lambda>s. if s = ''https://a''
        then Some \<lparr>u_Scheme = ''https'', u_Opaque = [], u_User = False, u_Host = ''a'', u_Path = [], u_EscapedPath = [], u_RawQuery = [], u_Fragment = []\<rparr>
        else None),
      al_lower = (\<lambda>s. s), al_tz = (\<lambda>_. None), al_inspection = (\<lambda>_. None), al_external = (\<lambda>_. None), al_sso = (\<lambda>_. None), al_page_url = (\<lambda>_. []),
      al_catalog = (\<lambda>_. None), al_schedule = (\<lambda>_. None), al_credential = (\<lambda>_. None), al_message = (\<lambda>_. None)\<rparr>"

definition digests :: goal_lib where
  "digests = \<lparr>gx_goal = (\<lambda>q. gp_Title (gq_Goal q)), gx_mandate = (\<lambda>q. m_Purpose (mq_Mandate q)), gx_revoke = (\<lambda>i n. i), gx_strings = concat\<rparr>"

definition owner_says :: "string \<Rightarrow> Actor option" where
  "owner_says d = Some \<lparr>ac_OwnerID = ''u'', ac_Channel = ''web'', ac_SessionKey = [], ac_DeliveryID = d\<rparr>"

definition drawn :: "string \<Rightarrow> decision_env" where
  "drawn i = \<lparr>de_tx = 20, de_go = 20, de_clock = 20, de_event = i, de_subject = i\<rparr>"

definition read_goal :: GoalRequest where
  "read_goal =
     \<lparr>gq_Goal = \<lparr>gp_ID = [], gp_OwnerID = [], gp_Kind = ''objective'', gp_Status = ''active'', gp_Revision = 0, gp_Title = ''news'', gp_Purpose = ''news'',
        gp_Constraints = [], gp_ExpiresAt = 90000, gp_Policies = []\<rparr>, gq_ExpectedRevision = 0, gq_ParentRef = []\<rparr>"

definition read_mandate_request :: MandateRequest where
  "read_mandate_request =
     \<lparr>mq_Mandate =
        \<lparr>m_ScopeKind = [], m_GoalID = ''goal_1'', m_GoalRevision = 1, m_Status = ''active'', m_Purpose = ''news'',
         m_ResourceScopes = [\<lparr>rs_Origin = ''https://a'', rs_PathPrefix = ''/''\<rparr>], m_DenyTools = [], m_DenyResources = [], m_Privacy = ''local_only'',
         m_Budget = \<lparr>mb_ModelTurns = 10, mb_Tokens = 1000, mb_CostMicros = 0, mb_ExternalCalls = 5, mb_Children = 0, mb_ActiveMillis = 60000,
                     mb_EgressBytes = 0, mb_ProviderInputBytes = 0\<rparr>,
         m_BudgetDeadline = 0, m_Hours = None, m_AllowInitiative = False, m_Intervention = [''effect_unknown''], m_Reporting = ''daily'',
         m_Extensions = [], m_Converters = [], m_Source = [], m_ID = [], m_OwnerID = [], m_TaskID = [], m_TaskRevision = 0,
         m_ConstraintsRevision = 0, m_Revision = 0, m_Tools = [''web.fetch''], m_Resources = [], m_Effects = [''read''], m_CredentialRefs = [],
         m_ExpiresAt = 80000, m_RevokedAt = None\<rparr>,
      mq_ExpectedRevision = 0\<rparr>"

definition owner_session :: session_row where
  "owner_session = \<lparr>s_session_id = ''i'', s_session_key = ''s'', s_user_id = ''u'', s_channel = ''web'', s_metadata = JNull, s_summary = [],
     s_created_at = 0, s_updated_at = 0\<rparr>"

definition owner0 :: authority_db where
  "owner0 = \<lparr>az_kernel = demo_db\<lparr>sessions := [owner_session]\<rparr>, az_tasks = [the_task], az_bindings = [], az_mandates = [], az_goals = [], az_policies = [],
     az_delegations = Some [], az_events = [], az_jobs = []\<rparr>"

definition owner1 :: authority_db where "owner1 = snd (PutGoal digests (drawn ''1'') (owner_says ''d1'') read_goal owner0)"
definition owner2 :: authority_db where "owner2 = snd (owner_PutMandate digests site_lib (drawn ''2'') (owner_says ''d2'') read_mandate_request owner1)"

definition reading :: Assignment where
  "reading = \<lparr>as_TaskID = ''t'', as_OwnerID = ''u'', as_GoalID = ''goal_1'', as_GoalRevision = 1, as_MandateID = ''mandate_2'', as_MandateRevision = 1,
     as_Purpose = ''news'', as_InitiativeReason = ''r'', as_ObservationRef = ''o'', as_PolicyRevision = 0\<rparr>"

definition owner3 :: authority_db where "owner3 = owner2\<lparr>az_bindings := [reading]\<rparr>"
definition owner4 :: authority_db where "owner4 = snd (owner_RevokeMandate digests (drawn ''3'') (owner_says ''d3'') ''mandate_2'' 1 owner3)"

definition put_receipt :: Receipt where
  "put_receipt = \<lparr>rc_EventID = ''authority_2'', rc_SubjectID = ''mandate_2'', rc_Revision = 1, rc_Propagation = ''applied''\<rparr>"

definition revoke_receipt :: Receipt where
  "revoke_receipt = \<lparr>rc_EventID = ''authority_3'', rc_SubjectID = ''mandate_2'', rc_Revision = 2, rc_Propagation = ''pending''\<rparr>"

lemma owner2_eq: "owner_PutMandate digests site_lib (drawn ''2'') (owner_says ''d2'') read_mandate_request owner1 = (Inr put_receipt, owner2)"
proof -
  have "fst (owner_PutMandate digests site_lib (drawn ''2'') (owner_says ''d2'') read_mandate_request owner1) = Inr put_receipt" by code_simp
  then show ?thesis unfolding owner2_def by (metis prod.collapse)
qed

lemma owner4_eq: "owner_RevokeMandate digests (drawn ''3'') (owner_says ''d3'') ''mandate_2'' 1 owner3 = (Inr revoke_receipt, owner4)"
proof -
  have "fst (owner_RevokeMandate digests (drawn ''3'') (owner_says ''d3'') ''mandate_2'' 1 owner3) = Inr revoke_receipt" by code_simp
  then show ?thesis unfolding owner4_def by (metis prod.collapse)
qed

lemma owner_invs: "owner_inv owner2" "owner_inv owner3" "owner_inv owner4"
  by code_simp+

section \<open>Witnesses\<close>

lemma reading_current: "CheckAssignmentTx site_lib owner3 reading 50 \<noteq> Inl ErrOwnerAuthority"
  by code_simp

lemma owner3_to_owner4: "owner_step\<^sup>*\<^sup>* owner3 owner4"
  by (rule r_into_rtranclp, rule os_revoke, rule owner4_eq)

lemma reading_superseded: "superseded owner4 reading"
proof -
  have "md_status (the (mandate_at owner4 ''mandate_2'')) = ''revoked''" "mandate_at owner4 ''mandate_2'' \<noteq> None" by code_simp+
  then show ?thesis by (auto simp: superseded_def reading_def)
qed

theorem superseded_authority_never_returns_witness:
  "CheckAssignmentTx site_lib owner3 reading 50 \<noteq> Inl ErrOwnerAuthority \<and> superseded owner4 reading \<and>
   CheckAssignmentTx site_lib owner4 reading 50 = Inl ErrOwnerAuthority"
  using superseded_authority_never_returns [OF owner_invs(3) reading_superseded rtranclp.rtrancl_refl] reading_current reading_superseded by blast

theorem revoked_mandate_authorizes_nothing_witness:
  "CheckAssignmentTx site_lib owner3 reading 50 \<noteq> Inl ErrOwnerAuthority \<and> CheckAssignmentTx site_lib owner4 reading 50 = Inl ErrOwnerAuthority \<and>
   (\<exists>j \<in> set (az_jobs owner4). jb_event_id j = rc_EventID revoke_receipt \<and> jb_state j = ''pending'' \<and> jb_control_kind j = ''stop'')"
proof -
  have "owner4 \<noteq> owner3"
  proof
    assume same: "owner4 = owner3"
    have "length (az_events owner4) = 3" "length (az_events owner3) = 2" by code_simp+
    then show False unfolding same by simp
  qed
  moreover have "as_MandateID reading = ''mandate_2''" by (simp add: reading_def)
  ultimately show ?thesis
    using revoked_mandate_authorizes_nothing [OF owner_invs(2) owner4_eq _ rtranclp.rtrancl_refl, of reading site_lib 50] reading_current by blast
qed

theorem mandate_budget_is_immutable_witness:
  "\<exists>r r'. tbl_find md_mandate_id ''mandate_2'' (az_mandates owner3) = Some r \<and> tbl_find md_mandate_id ''mandate_2'' (az_mandates owner4) = Some r' \<and>
     md_revision r < md_revision r' \<and> m_Budget (md_data r') = m_Budget (md_data r) \<and> m_BudgetDeadline (md_data r') = 80000"
proof -
  have old: "mandate_at owner3 ''mandate_2'' \<noteq> None" "md_scope_kind (the (mandate_at owner3 ''mandate_2'')) = ''owner_goal''"
    "md_revision (the (mandate_at owner3 ''mandate_2'')) = 1" "m_BudgetDeadline (md_data (the (mandate_at owner3 ''mandate_2''))) = 80000"
    "md_revision (the (mandate_at owner4 ''mandate_2'')) = 2" by code_simp+
  then obtain r where "tbl_find md_mandate_id ''mandate_2'' (az_mandates owner3) = Some r" "md_scope_kind r = ''owner_goal''" by (auto simp: mandate_at_def)
  from this mandate_budget_is_immutable [OF owner_invs(2) owner3_to_owner4 this] old show ?thesis by (auto simp: mandate_at_def)
qed

theorem mandate_delivery_is_decided_once_witness:
  "\<exists>st. owner_PutMandate digests site_lib (drawn ''9'') (owner_says ''d2'') read_mandate_request owner3 = (Inr (put_receipt\<lparr>rc_Propagation := st\<rparr>), owner3)"
proof -
  have "owner_step owner2 owner3" by (rule os_elsewhere) (simp_all add: owner3_def)
  then have "owner_step\<^sup>*\<^sup>* owner2 owner3" by (rule r_into_rtranclp)
  from mandate_delivery_is_decided_once [OF owner2_eq owner_invs(1) this] show ?thesis by blast
qed

definition hypothesis_of :: "authority_db \<Rightarrow> (go_err, Receipt, authority_db) outcome" where
  "hypothesis_of s = ProposeAssumption digests (drawn ''5'') (WithToken 2 demo_token) 50 ''likes news'' ''news'' ''o'' s"

theorem model_proposal_grants_nothing_witness:
  "length (az_goals (snd (hypothesis_of owner3))) = Suc (length (az_goals owner3)) \<and>
   CheckAssignmentTx site_lib (snd (hypothesis_of owner3)) reading 50 = CheckAssignmentTx site_lib owner3 reading 50"
proof -
  have "length (az_goals (snd (hypothesis_of owner3))) = Suc (length (az_goals owner3))" by code_simp
  moreover have "ProposeAssumption digests (drawn ''5'') (WithToken 2 demo_token) 50 ''likes news'' ''news'' ''o'' owner3 =
      (fst (hypothesis_of owner3), snd (hypothesis_of owner3))" by (simp add: hypothesis_of_def)
  ultimately show ?thesis using model_proposal_grants_nothing by blast
qed

text \<open>The control stops the task.\<close>

definition stopping :: control_port where
  "stopping ac i n k db = (Inr (), db\<lparr>az_tasks := tbl_update (\<lambda>t. k_task_id t = i) (\<lambda>t. t\<lparr>k_status := ''cancelled''\<rparr>) (az_tasks db)\<rparr>)"

definition sweep_times :: sweep_clock where
  "sweep_times = \<lparr>sc_policies = 60, sc_expired = 60, sc_select = 60, sc_recheck = 60, sc_update = 60\<rparr>"

definition owner5 :: authority_db where "owner5 = snd (Sweep (Some stopping) sweep_times owner4)"

lemma owner5_eq: "Sweep (Some stopping) sweep_times owner4 = (Inr (), owner5)"
proof -
  have "fst (Sweep (Some stopping) sweep_times owner4) = Inr ()" by code_simp
  then show ?thesis unfolding owner5_def by (metis prod.collapse)
qed

theorem applied_job_leaves_no_outdated_branch_witness:
  "\<exists>j. az_jobs owner5 = [j] \<and> jb_state j = ''applied'' \<and> (\<forall>b \<in> set (az_bindings owner5). \<not> outdated 60 j owner5 b) \<and>
     list_ex (outdated 60 j owner4) (az_bindings owner4)"
proof -
  define j where "j = hd (az_jobs owner5)"
  have "length (az_jobs owner5) = 1" by code_simp
  then have jobs: "az_jobs owner5 = [j]" unfolding j_def by (cases "az_jobs owner5") auto
  have j: "jb_state j = ''applied''" "list_all (\<lambda>i. jb_state i \<noteq> ''applied'') (az_jobs owner4)" "list_ex (outdated 60 j owner4) (az_bindings owner4)"
    unfolding j_def by code_simp+
  have "keeps_jobs stopping" by (simp add: keeps_jobs_def stopping_def)
  from applied_job_leaves_no_outdated_branch [OF owner5_eq this, of j] jobs j show ?thesis
    by (auto simp: list_all_iff sweep_times_def)
qed

section \<open>A dispatch under the mandate\<close>

definition whole_view :: "unit effect_db \<Rightarrow> authority_db" where
  "whole_view db = owner3\<lparr>az_tasks := ef_tasks db, az_mandates := ef_mandates db\<rparr>"

definition owner_ports :: "unit effect_ports" where
  "owner_ports = the_ports\<lparr>pt_task_action := (\<lambda>db. CheckTaskActionTx site_lib (\<lambda>_ _ _. Inr ()) 50 (whole_view db))\<rparr>"

definition goal_act :: ActionBinding where
  "goal_act = (act ''a'')\<lparr>ab_GoalID := ''goal_1'', ab_GoalRevision := 1, ab_MandateID := ''mandate_2'', ab_MandateRevision := 1, ab_Purpose := ''news''\<rparr>"

definition goal_grant :: Grant where
  "goal_grant = (permit ''a'' ''authorized'')\<lparr>gr_Binding := goal_act, gr_MandateID := ''mandate_2'', gr_MandateRevision := 1\<rparr>"

definition granted :: "unit effect_db" where
  "granted = snd (PutGrant 2 goal_grant (snd (PutIntent owner_ports 1 ((proposal ''a'')\<lparr>it_Binding := goal_act\<rparr>)
     ((jdb [] [] [] [] [])\<lparr>ef_mandates := az_mandates owner3\<rparr>))))"


end
