(* ===== verification/Spec2Isabelle.thy ===== *)
theory Spec2Isabelle
  imports Prelude GoBase GoTime GoJson RunState Store Ownership Lease LeasePg Run RunTx RunProps Session LeaseRedis BudgetProps Scheduling ControlExamples EffectExamples ApprovalExamples EgressExamples MandateExamples RunExamples GoalExamples
begin

text \<open>
  A verification library of the Butler services.

  \<^bold>\<open>The program.\<close> Butler is a personal agent. Its orchestrator (\<^verbatim>\<open>apps/orchestrator\<close>) accepts inputs of an
  owner, runs them one at a time per session under a fenced lease, keeps tasks with revisions and
  verified results, obeys owner controls over trees of tasks, and spends from a ledger of budgets.
  Its durable state is in PostgreSQL; every operation is a statement or a transaction on tables.
  An input is admitted to the queue, claimed by a worker, executed as a run of a session, whose lease
  fences every write; the run may belong to a task, and an owner control on the task withdraws its
  inputs, revokes its leases and cancels its runs in one transaction.

  \<^bold>\<open>Method.\<close> A table is the list of its rows, a statement an operation on the list, a Go function with
  early returns a chain of \<open>bindE\<close>, a transaction \<open>run_tx\<close>: an error leaves the state as it was. The clock
  and randomness are arguments, so every interleaving of the services is a sequence of operations with
  arbitrary readings. Each component has a step relation over all its operations; the locales
  \<open>invariant_system\<close> and \<open>monotone_system\<close> of \<open>Prelude\<close> carry facts about single steps to every
  reachable state, and \<open>evolution_system\<close> a relation between earlier and later states. Each is interpreted on the step relation of the model. Errors are values of \<open>go_err\<close>,
  which keeps the wrapping that \<^verbatim>\<open>errors.Is\<close> and the gRPC codes depend on.

  \<^bold>\<open>Theories and sources.\<close>

    \<^item> \<open>Prelude\<close>, \<open>GoBase\<close>, \<open>GoTime\<close>, \<open>GoJson\<close>: tables, fallible code, recursive queries and step relations;
      64-bit arithmetic, instants, strings and errors of Go; dates and RFC 3339; the scanner and the
      encoder of \<^verbatim>\<open>encoding/json\<close>. The scanner has a bound on nested calls, twice the length of the text,
      which \<open>json_scan_bound_is_enough\<close> shows to be immaterial.
    \<^item> \<open>RunState\<close>: \<^verbatim>\<open>internal/domain\<close> and \<^verbatim>\<open>internal/domain/convert\<close>, the run state machine and its enumerations.
    \<^item> \<open>Store\<close>: the rows of the kernel tables.
    \<^item> \<open>Ownership\<close>: \<^verbatim>\<open>internal/ownership\<close>, tokens, the fence, guarded transactions, and the semaphores that
      exclude guarded writes while leases change.
    \<^item> \<open>Lease\<close>, \<open>LeasePg\<close>, \<open>LeaseRedis\<close>: \<^verbatim>\<open>apps/orchestrator/internal/session/lease*.go\<close>. \<open>Lease\<close> states the
      contract of a lease manager as a locale, the other two interpret it on the PostgreSQL manager and
      on the Redis manager with its Lua scripts, whose calendar arithmetic is proved to be Gregorian.
    \<^item> \<open>Run\<close>, \<open>RunTx\<close>, \<open>RunProps\<close>: \<^verbatim>\<open>apps/orchestrator/internal/run\<close>, repository, service and the statements
      other components run on \<^verbatim>\<open>runs\<close> through the package. \<open>RunWriters\<close> adds every other writer of the table (the
      binding to a task, the suspensions for approvals and for tab selections, the erasure of contents) and holds the
      properties over all of them; \<open>RunExamples\<close>.
    \<^item> \<open>Session\<close>: the session repository and the gRPC server of sessions, runs and leases.
    \<^item> \<open>Budget\<close>, \<open>BudgetProps\<close>: \<^verbatim>\<open>internal/budget\<close>, checked units, policies, quotes and the ledger.
    \<^item> \<open>Scheduling\<close>: \<^verbatim>\<open>internal/scheduling/calendar.go\<close>, local times, next slot and due ticks; the search for
      a slot looks at fifteen days, which \<open>next_slot_is_earliest\<close> shows to be enough for every rule it accepts.
    \<^item> \<open>Task\<close>, \<open>TaskMobile\<close>, \<open>TaskControl\<close>: \<^verbatim>\<open>apps/orchestrator/internal/task\<close>, requests, store, the verifier of
      mobile batches and owner controls. \<open>TaskInv\<close>, \<open>TaskSteps\<close> and \<open>TaskProps\<close> hold the invariant of tasks
      and results, its preservation by every operation, and the properties; \<open>TaskExamples\<close> a history.
    \<^item> \<open>Input\<close>, \<open>InputHooks\<close>, \<open>InputWorker\<close>: \<^verbatim>\<open>apps/orchestrator/internal/input\<close>, the queue, the changes other
      components make to inputs, and the decisions of the worker. \<open>InputProps\<close> refines every operation to
      three abstract moves and proves ordering, fencing and admission for the moves; \<open>InputExamples\<close>.
    \<^item> \<open>ControlQueue\<close>, \<open>ControlExamples\<close>: the task controller running on the input queue.
    \<^item> \<open>Action\<close>, \<open>Effect\<close>: \<^verbatim>\<open>internal/actionauth\<close>, bindings of actions with their credential references and
      classes of effects, and the journal of effects (\<^verbatim>\<open>postgres.go\<close>, \<^verbatim>\<open>effect_postgres.go\<close>). \<open>EffectProps\<close>
      refines the operations of the journal to the moves of an abstract journal and composes the claim
      of a dispatch with leases, runs and tasks; \<open>EffectExamples\<close>.
    \<^item> \<open>Approval\<close>, \<open>ApprovalFlow\<close>: \<^verbatim>\<open>apps/orchestrator/internal/approval\<close>, requests and tab candidates
      (\<^verbatim>\<open>store.go\<close>), the suspension of a run, decisions, the sweep, the invalidation by controls and the
      service (\<^verbatim>\<open>durable.go\<close>, \<^verbatim>\<open>control.go\<close>, \<^verbatim>\<open>service.go\<close>). \<open>ApprovalProps\<close> states the life of a request as
      abstract moves with an invariant, \<open>ApprovalSteps\<close> refines every operation to them and holds the safety
      properties, \<open>ApprovalLive\<close> what a single decision needs and achieves and when a request can be answered;
      \<open>ApprovalExamples\<close>.
    \<^item> \<open>GoUrl\<close>, \<open>Egress\<close>, \<open>EgressProxy\<close>: \<^verbatim>\<open>internal/egress\<close> and the browser proxy, the addresses a request may
      dial, and the proxy with its allowance, tunnels and plain requests as a step relation. A write that was taken before
      a freeze still reaches the response of a plain request, as in \<^verbatim>\<open>boundedWriter\<close>. \<open>EgressProps\<close>, \<open>EgressExamples\<close>.
    \<^item> \<open>Mandate\<close>, \<open>MandateProps\<close>, \<open>MandateExamples\<close>: the mandates of \<^verbatim>\<open>internal/actionauth\<close>, their scopes, hours, deadlines
      and what they cover.
    \<^item> \<open>Delegation\<close>: \<^verbatim>\<open>internal/delegation/contract.go\<close>, bounded contracts and what they allow.
    \<^item> \<open>Authority\<close>, \<open>AuthorityProps\<close>: \<^verbatim>\<open>internal/actionauth/owner_authority.go\<close>, the binding of a task to a mandate, a
      goal and the policies of a purpose, and the checks that every dispatch repeats in its transaction.
    \<^item> \<open>Goal\<close>, \<open>GoalProps\<close>, \<open>GoalExamples\<close>: \<^verbatim>\<open>apps/orchestrator/internal/goal\<close>, the owner's decisions on goals, policies and
      mandates, the expiry of authority and its propagation to tasks.

  \<^bold>\<open>What is shown.\<close> Leases are exclusive and a superseded or revoked token never passes the fence again;
  runs follow the state machine, keep their terminal state and pass every stage before they complete;
  creations are idempotent; the ledger charges what it reserves and never overspends; a schedule's next
  slot is the earliest admissible one; a completed task names a verified result of its revision, a
  control is applied once, reaches the whole tree and frees no restricted descendant; inputs of a
  session run in order and one at a time, a superseded claim is lost for good, and a control withdraws
  the inputs of its tree; an effect is dispatched at most once and only under live authority, its outcome
  rests on evidence and is final, and a worker that lost its session dispatches nothing; a decided
  approval is final, a suspended action proceeds only on a recorded positive decision of its owner and
  never after a control withdrew it, and a request that was made can be answered until it expires, whereupon
  its input is queued again; every accepted URL dials a public address, a frozen proxy carries no
  tunnel and its traffic is bounded; a scope is not widened, a deadline is in force, a dispatch stays
  within the owner's authority of the moment, and authority that was superseded or revoked never returns.

  \<^bold>\<open>Bounds.\<close> A recursive query with \<^verbatim>\<open>UNION\<close> is rounds of \<open>closure_upto\<close>, as many as the table has rows; by
  \<open>closure_closed\<close> no further round adds a row. A query with \<^verbatim>\<open>UNION ALL\<close> (the controls and the budget root) is as many
  rounds of \<open>union_all\<close>, which keeps duplicates; by \<open>control_queries_end\<close> its later rounds are empty because the
  parent links have no cycle, which \<open>tasks_inv\<close> holds of every reachable table. Every other loop is structural recursion
  or a function with a termination proof.

  \<^bold>\<open>Parameters.\<close> The conversions of \<^verbatim>\<open>jsonb\<close> and time stamps, digests, the time zone database, the resolver, clocks and
  random numbers are arguments. So are the components a modelled one calls through a Go interface and
  that are not modelled: authority checks, child budgets and notifications (\<open>task_hooks\<close>), the approvals,
  transcript and interactions of a control (\<open>control_ports\<close>), batches of the mobile source (\<open>mobile_ports\<close>), budgets,
  guards and login protocols of a dispatch (\<open>effect_ports\<close>), documents of the login protocols and contracts of fixed local
  tools (\<open>auth_lib\<close>), the fence of scheduled tasks and the control of one task by the propagation (\<open>control_port\<close>).
  Statements of components that are not modelled on modelled tables are steps of their own
  (\<open>parks\<close> of tasks, \<open>step_elsewhere\<close> of inputs, the last rules of \<open>effect_step\<close>, those of \<open>approval_step\<close>) under the conditions
  of their \<^verbatim>\<open>WHERE\<close> clauses. The redaction of summaries of results is not covered, nor are rows written
  before the tables had their present columns.

  \<^bold>\<open>Not modelled.\<close> Generated code, transports, the tool broker and runtimes, channels, memory, initiatives, the
  lifecycle of delegations, the agent loop, HTTP handlers and process wiring: they call services over the network, render state or depend
  on model output. Goroutines are modelled only where they share state (the semaphores of the ownership
  authority). Cancellation of contexts is an error of the operation it interrupts. The text classifier
  of owner messages lower-cases Unicode text and is left out. Planned next: the
  service of \<^verbatim>\<open>internal/actionauth\<close> above the journal and the stopped attempts of the input queue.
\<close>

end
